(* ===== verification/Kogito_Prelude.thy ===== *)
theory Kogito_Prelude
  imports Main "HOL-Library.AList" "HOL-Library.Char_ord" "HOL-Library.List_Lexorder"
begin

text \<open>
  Shared ground of the development: the proof collections, the Go types that have no counterpart in
  HOL (a string-keyed map, the result of a fallible call, a call that changes the cluster), the
  functions of the Go package \<^verbatim>\<open>strings\<close> that the operator calls, and the generic lemmas on lists
  and keyed collections on which the component theories rest.

  A Go \<^verbatim>\<open>map[string]T\<close> is an association list.  Go ranges over a map in an unspecified order, so the
  list is one possible order; results that may depend on it are proved independent of it where the
  code needs that.  A nil map is the empty list.
\<close>

named_theorems call_simps \<open>reduction of fallible and stateful calls\<close>
named_theorems upsert_simps \<open>lookup after an update of a keyed collection\<close>

section \<open>Go values\<close>

type_synonym smap = "(string \<times> string) list"

text \<open>Reading an absent key of a Go map gives the zero value of its element type.\<close>

definition smap_get :: "smap \<Rightarrow> string \<Rightarrow> string" where
  "smap_get m k = (case map_of m k of None \<Rightarrow> [] | Some v \<Rightarrow> v)"

definition smap_put :: "string \<Rightarrow> string \<Rightarrow> smap \<Rightarrow> smap" where
  "smap_put k v m = AList.update k v m"

text \<open>Equality of Go maps as \<^verbatim>\<open>reflect.DeepEqual\<close> decides it: the same keys with the same values.\<close>

definition smap_eq :: "smap \<Rightarrow> smap \<Rightarrow> bool" where
  "smap_eq m1 m2 \<longleftrightarrow> (\<forall>k \<in> set (map fst m1) \<union> set (map fst m2). map_of m1 k = map_of m2 k)"

lemma map_of_smap_put [simp, upsert_simps]:
  "map_of (smap_put k v m) = (map_of m)(k \<mapsto> v)"
  by (simp add: smap_put_def update_conv')

lemma smap_get_put [simp]:
  "smap_get (smap_put k v m) k' = (if k' = k then v else smap_get m k')"
  by (simp add: smap_get_def)

lemma distinct_smap_put [simp]:
  "distinct (map fst m) \<Longrightarrow> distinct (map fst (smap_put k v m))"
  by (simp add: smap_put_def distinct_update)

lemma smap_eq_iff: "smap_eq m1 m2 \<longleftrightarrow> map_of m1 = map_of m2"
proof
  assume eq: "smap_eq m1 m2"
  show "map_of m1 = map_of m2"
  proof
    fix k
    show "map_of m1 k = map_of m2 k"
      using eq by (cases "k \<in> fst ` set m1 \<union> fst ` set m2")
        (auto simp: smap_eq_def map_of_eq_None_iff [THEN iffD2])
  qed
qed (simp add: smap_eq_def)

section \<open>Fallible calls and calls that change the cluster\<close>

text \<open>A Go function returning \<^verbatim>\<open>(T, error)\<close> is a value of a sum type: \<^term>\<open>Inl\<close> the error,
  \<^term>\<open>Inr\<close> the value.  A function that also talks to the cluster passes its state through; the
  state reached before an error is kept, as the writes already done are.\<close>

definition bindR :: "'e + 'a \<Rightarrow> ('a \<Rightarrow> 'e + 'b) \<Rightarrow> 'e + 'b" where
  "bindR r f = (case r of Inl e \<Rightarrow> Inl e | Inr x \<Rightarrow> f x)"

definition bindS :: "('w \<Rightarrow> ('e + 'a) \<times> 'w) \<Rightarrow> ('a \<Rightarrow> 'w \<Rightarrow> ('e + 'b) \<times> 'w) \<Rightarrow> 'w \<Rightarrow> ('e + 'b) \<times> 'w" where
  "bindS m f w = (case m w of (Inl e, w') \<Rightarrow> (Inl e, w') | (Inr x, w') \<Rightarrow> f x w')"

definition returnS :: "'a \<Rightarrow> 'w \<Rightarrow> ('e + 'a) \<times> 'w" where
  "returnS x w = (Inr x, w)"

definition failS :: "'e \<Rightarrow> 'w \<Rightarrow> ('e + 'a) \<times> 'w" where
  "failS e w = (Inl e, w)"

definition liftS :: "('w \<Rightarrow> 'e + 'a) \<Rightarrow> 'w \<Rightarrow> ('e + 'a) \<times> 'w" where
  "liftS f w = (f w, w)"

text \<open>\<^verbatim>\<open>for _, x := range xs { if err := f(x); err != nil { return err } }\<close>\<close>

primrec eachS :: "('a \<Rightarrow> 'w \<Rightarrow> ('e + unit) \<times> 'w) \<Rightarrow> 'a list \<Rightarrow> 'w \<Rightarrow> ('e + unit) \<times> 'w" where
  "eachS f [] = returnS ()"
| "eachS f (x # xs) = bindS (f x) (\<lambda>_. eachS f xs)"

lemma bindR_simps [simp, call_simps]:
  "bindR (Inl e) f = Inl e"
  "bindR (Inr x) f = f x"
  by (simp_all add: bindR_def)

lemma bindR_eq_Inr:
  "bindR r f = Inr y \<longleftrightarrow> (\<exists>x. r = Inr x \<and> f x = Inr y)"
  by (cases r) simp_all

lemma bindR_eq_Inl:
  "bindR r f = Inl e \<longleftrightarrow> r = Inl e \<or> (\<exists>x. r = Inr x \<and> f x = Inl e)"
  by (cases r) simp_all

lemma callS_simps [simp, call_simps]:
  "returnS x w = (Inr x, w)"
  "failS e w = (Inl e, w)"
  "liftS f w = (f w, w)"
  by (simp_all add: returnS_def failS_def liftS_def)

lemma bindS_Inl [simp, call_simps]: "m w = (Inl e, w') \<Longrightarrow> bindS m f w = (Inl e, w')"
  by (simp add: bindS_def)

lemma bindS_Inr [simp, call_simps]: "m w = (Inr x, w') \<Longrightarrow> bindS m f w = f x w'"
  by (simp add: bindS_def)

lemma bindS_eq_Inr:
  "bindS m f w = (Inr y, w'') \<longleftrightarrow> (\<exists>x w'. m w = (Inr x, w') \<and> f x w' = (Inr y, w''))"
  by (auto simp: bindS_def split: prod.splits sum.splits)

lemma bindS_eq_Inl:
  "bindS m f w = (Inl e, w'') \<longleftrightarrow>
   m w = (Inl e, w'') \<or> (\<exists>x w'. m w = (Inr x, w') \<and> f x w' = (Inl e, w''))"
  by (auto simp: bindS_def split: prod.splits sum.splits)

section \<open>The functions of the Go package strings\<close>

definition HasPrefix :: "string \<Rightarrow> string \<Rightarrow> bool" where
  "HasPrefix s p \<longleftrightarrow> take (length p) s = p"

definition HasSuffix :: "string \<Rightarrow> string \<Rightarrow> bool" where
  "HasSuffix s p \<longleftrightarrow> length p \<le> length s \<and> drop (length s - length p) s = p"

definition TrimSuffix :: "string \<Rightarrow> string \<Rightarrow> string" where
  "TrimSuffix s p = (if HasSuffix s p then take (length s - length p) s else s)"

text \<open>\<^verbatim>\<open>strings.TrimRight\<close> with a cutset of one character.\<close>

definition TrimRightChar :: "string \<Rightarrow> char \<Rightarrow> string" where
  "TrimRightChar s c = rev (dropWhile (\<lambda>x. x = c) (rev s))"

text \<open>\<^verbatim>\<open>strings.Split\<close> with a separator of one character: never the empty list.\<close>

fun SplitChar :: "char \<Rightarrow> string \<Rightarrow> string list" where
  "SplitChar c [] = [[]]"
| "SplitChar c (x # xs) =
     (if x = c then [] # SplitChar c xs
      else (case SplitChar c xs of [] \<Rightarrow> [[x]] | y # ys \<Rightarrow> (x # y) # ys))"

fun JoinChar :: "char \<Rightarrow> string list \<Rightarrow> string" where
  "JoinChar c [] = []"
| "JoinChar c [s] = s"
| "JoinChar c (s # t # ts) = s @ c # JoinChar c (t # ts)"

fun StringsJoin :: "string \<Rightarrow> string list \<Rightarrow> string" where
  "StringsJoin sep [] = []"
| "StringsJoin sep [s] = s"
| "StringsJoin sep (s # t # ts) = s @ sep @ StringsJoin sep (t # ts)"

fun ContainsStr :: "string \<Rightarrow> string \<Rightarrow> bool" where
  "ContainsStr [] p \<longleftrightarrow> p = []"
| "ContainsStr (x # xs) p \<longleftrightarrow> HasPrefix (x # xs) p \<or> ContainsStr xs p"

text \<open>Decimal printing of an integer, as \<^verbatim>\<open>%d\<close> and \<^verbatim>\<open>strconv.Itoa\<close> do it.\<close>

fun digits_of :: "nat \<Rightarrow> string" where
  "digits_of n = (if n < 10 then [char_of (48 + n)] else digits_of (n div 10) @ [char_of (48 + n mod 10)])"

declare digits_of.simps [simp del]

definition Itoa :: "int \<Rightarrow> string" where
  "Itoa i = (if i < 0 then CHR ''-'' # digits_of (nat (- i)) else digits_of (nat i))"

text \<open>\<^verbatim>\<open>strconv.Atoi\<close>: an optional sign and decimal digits, within 64 bits.\<close>

definition digit_val :: "char \<Rightarrow> nat option" where
  "digit_val c = (let n = of_char c :: nat in if 48 \<le> n \<and> n \<le> 57 then Some (n - 48) else None)"

fun parse_digits :: "nat \<Rightarrow> string \<Rightarrow> nat option" where
  "parse_digits acc [] = Some acc"
| "parse_digits acc (c # cs) = (case digit_val c of None \<Rightarrow> None | Some d \<Rightarrow> parse_digits (10 * acc + d) cs)"

definition Atoi :: "string \<Rightarrow> int option" where
  "Atoi s =
     (let neg = (HasPrefix s ''-''); body = (if neg \<or> HasPrefix s ''+'' then tl s else s)
      in if body = [] then None
         else case parse_digits 0 body of
           None \<Rightarrow> None
         | Some n \<Rightarrow> (let i = (if neg then - int n else int n) in if - (2 ^ 63) \<le> i \<and> i < 2 ^ 63 then Some i else None))"

text \<open>\<^verbatim>\<open>path.Clean\<close> and \<^verbatim>\<open>path.Join\<close>: the elements between slashes, with empty elements and \<open>.\<close> dropped and
  \<open>..\<close> taking back the element before it.\<close>

fun clean_elements :: "bool \<Rightarrow> string list \<Rightarrow> string list \<Rightarrow> string list" where
  "clean_elements rooted out [] = rev out"
| "clean_elements rooted out (e # es) =
     (if e = [] \<or> e = ''.'' then clean_elements rooted out es
      else if e = ''..'' then
        (case out of
           [] \<Rightarrow> clean_elements rooted (if rooted then [] else [''..'']) es
         | x # xs \<Rightarrow> clean_elements rooted (if x = ''..'' then ''..'' # out else xs) es)
      else clean_elements rooted (e # out) es)"

definition path_Clean :: "string \<Rightarrow> string" where
  "path_Clean p =
     (if p = [] then ''.''
      else let rooted = (hd p = CHR ''/'');
               s = JoinChar CHR ''/'' (clean_elements rooted [] (SplitChar CHR ''/'' p))
           in if rooted then CHR ''/'' # s else if s = [] then ''.'' else s)"

definition path_Join :: "string list \<Rightarrow> string" where
  "path_Join es =
     (let es' = filter (\<lambda>e. e \<noteq> []) es
      in if es' = [] then [] else path_Clean (JoinChar CHR ''/'' es'))"

lemma SplitChar_not_Nil [simp]: "SplitChar c s \<noteq> []"
  by (induction s) (auto split: list.splits)

lemma JoinChar_Cons: "xs \<noteq> [] \<Longrightarrow> JoinChar c (s # xs) = s @ c # JoinChar c xs"
  by (cases xs) simp_all

lemma JoinChar_SplitChar [simp]: "JoinChar c (SplitChar c s) = s"
proof (induction s)
  case (Cons x xs)
  obtain y ys where s: "SplitChar c xs = y # ys"
    by (cases "SplitChar c xs") auto
  with Cons show ?case
    by (cases ys) (auto simp: JoinChar_Cons)
qed simp

lemma SplitChar_no_sep: "p \<in> set (SplitChar c s) \<Longrightarrow> c \<notin> set p"
  by (induction s arbitrary: p) (auto split: list.splits if_splits)

lemma SplitChar_id: "c \<notin> set s \<Longrightarrow> SplitChar c s = [s]"
  by (induction s) auto

lemma SplitChar_append: "c \<notin> set s \<Longrightarrow> SplitChar c (s @ c # t) = s # SplitChar c t"
  by (induction s) auto

lemma SplitChar_JoinChar:
  "xs \<noteq> [] \<Longrightarrow> \<forall>x \<in> set xs. c \<notin> set x \<Longrightarrow> SplitChar c (JoinChar c xs) = xs"
  by (induction c xs rule: JoinChar.induct) (simp_all add: SplitChar_id SplitChar_append)

lemma SplitChar_eq_Nil_Nil: "SplitChar c s = [[]] \<longleftrightarrow> s = []"
  by (cases s) (auto split: list.splits)

lemma HasPrefix_iff: "HasPrefix s p \<longleftrightarrow> (\<exists>t. s = p @ t)"
  by (auto simp: HasPrefix_def) (metis append_take_drop_id)

lemma HasSuffix_iff: "HasSuffix s p \<longleftrightarrow> (\<exists>t. s = t @ p)"
  by (auto simp: HasSuffix_def) (metis append_take_drop_id)

lemma TrimSuffix_append [simp]: "TrimSuffix (s @ p) p = s"
  by (simp add: TrimSuffix_def HasSuffix_def)

lemma TrimRightChar_snoc [simp]: "TrimRightChar (s @ [c]) c = TrimRightChar s c"
  by (simp add: TrimRightChar_def)

lemma TrimRightChar_id: "s = [] \<or> last s \<noteq> c \<Longrightarrow> TrimRightChar s c = s"
  by (cases s rule: rev_cases) (auto simp: TrimRightChar_def)

section \<open>Keyed collections\<close>

text \<open>The operator keeps many collections whose items carry their own key: environment variables by
  name, tags of an image stream by name, string maps by key.  A client sees them through a lookup and
  an update that overwrites or adds one item; what folding the update over a batch of items does
  follows from the two laws alone.\<close>

locale keyed_collection =
  fixes key :: "'a \<Rightarrow> 'k"
    and get :: "'k \<Rightarrow> 'c \<Rightarrow> 'a option"
    and put :: "'a \<Rightarrow> 'c \<Rightarrow> 'c"
  assumes get_put_same: "get (key x) (put x c) = Some x"
    and get_put_other: "k \<noteq> key x \<Longrightarrow> get k (put x c) = get k c"
begin

lemma get_put: "get k (put x c) = (if k = key x then Some x else get k c)"
  using get_put_same get_put_other by auto

lemma get_fold_put:
  "get k (fold put xs c) = (case filter (\<lambda>x. key x = k) xs of [] \<Rightarrow> get k c | ys \<Rightarrow> Some (last ys))"
  by (induction xs arbitrary: c) (auto simp: get_put split: list.splits)

lemma get_fold_put_mem:
  assumes "x \<in> set xs" "distinct (map key xs)"
  shows "get (key x) (fold put xs c) = Some x"
proof -
  from assms have "filter (\<lambda>y. key y = key x) xs = [x]"
  proof (induction xs)
    case (Cons a as)
    then have "x \<noteq> a \<Longrightarrow> key a \<noteq> key x" by force
    with Cons show ?case
      by (cases "x = a") (auto simp: filter_empty_conv image_iff)
  qed simp
  then show ?thesis by (simp add: get_fold_put)
qed

lemma get_fold_put_absent:
  "k \<notin> key ` set xs \<Longrightarrow> get k (fold put xs c) = get k c"
  by (induction xs arbitrary: c) (auto simp: get_put)

lemma fold_put_twice: "get k (fold put xs (fold put xs c)) = get k (fold put xs c)"
  by (simp add: get_fold_put split: list.split)

lemma fold_put_order:
  assumes "set xs = set ys" "distinct (map key xs)" "distinct (map key ys)"
  shows "get k (fold put xs c) = get k (fold put ys c)"
  using assms get_fold_put_mem get_fold_put_absent
  by (cases "k \<in> key ` set xs") (auto simp: image_iff)

end

interpretation smap: keyed_collection fst "\<lambda>k m. map_option (Pair k) (map_of m k)"
  "\<lambda>(k, v). smap_put k v"
  by unfold_locales auto

section \<open>Lists\<close>

text \<open>The position of the first item with a property, as the operator's search loops find it.\<close>

fun find_index :: "('a \<Rightarrow> bool) \<Rightarrow> 'a list \<Rightarrow> nat option" where
  "find_index P [] = None"
| "find_index P (x # xs) = (if P x then Some 0 else map_option Suc (find_index P xs))"

lemma find_index_None: "find_index P xs = None \<longleftrightarrow> (\<forall>x \<in> set xs. \<not> P x)"
  by (induction xs) auto

lemma find_index_Some:
  "find_index P xs = Some i \<Longrightarrow> i < length xs \<and> P (xs ! i) \<and> (\<forall>j < i. \<not> P (xs ! j))"
proof (induction xs arbitrary: i)
  case (Cons x xs)
  then show ?case by (auto split: if_splits simp: less_Suc_eq_0_disj nth_Cons')
qed simp

lemma find_index_split:
  "find_index P xs = Some i \<Longrightarrow>
   \<exists>ys x zs. xs = ys @ x # zs \<and> length ys = i \<and> P x \<and> (\<forall>y \<in> set ys. \<not> P y)"
proof (induction xs arbitrary: i)
  case (Cons x xs)
  show ?case
  proof (cases "P x")
    case True
    with Cons.prems show ?thesis by (intro exI [of _ "[]"]) auto
  next
    case False
    with Cons.prems obtain j where j: "find_index P xs = Some j" "i = Suc j" by auto
    from Cons.IH [OF j(1)] obtain ys y zs
      where "xs = ys @ y # zs" "length ys = j" "P y" "\<forall>y \<in> set ys. \<not> P y" by blast
    with False j(2) show ?thesis by (intro exI [of _ "x # ys"]) auto
  qed
qed simp

text \<open>Removing the item at a position, \<^verbatim>\<open>append(xs[:i], xs[i+1:]...)\<close>.\<close>

definition remove_at :: "nat \<Rightarrow> 'a list \<Rightarrow> 'a list" where
  "remove_at i xs = take i xs @ drop (Suc i) xs"

lemma remove_at_append [simp]: "remove_at (length ys) (ys @ x # zs) = ys @ zs"
  by (simp add: remove_at_def)

lemma length_remove_at: "i < length xs \<Longrightarrow> length (remove_at i xs) = length xs - 1"
  by (simp add: remove_at_def)

lemma set_remove_at: "set (remove_at i xs) \<subseteq> set xs"
  by (auto simp: remove_at_def dest: in_set_takeD in_set_dropD)

section \<open>Loops that establish something for every element\<close>

lemma eachS_keeps:
  assumes "\<And>x w w'. f x w = (Inr (), w') \<Longrightarrow> P w \<Longrightarrow> P w'"
  shows "eachS f xs w = (Inr (), w') \<Longrightarrow> P w \<Longrightarrow> P w'"
  by (induction xs arbitrary: w) (auto simp: bindS_eq_Inr intro: assms)

text \<open>Whether the run succeeds or stops half way.\<close>

lemma eachS_invariant:
  assumes "\<And>x w. P w \<Longrightarrow> P (snd (f x w))"
  shows "P w \<Longrightarrow> P (snd (eachS f xs w))"
proof (induction xs arbitrary: w)
  case (Cons x xs)
  from assms [OF Cons.prems, of x] Cons.IH show ?case by (cases "f x w") (auto simp: bindS_def split: sum.split)
qed simp

lemma eachS_establishes:
  assumes est: "\<And>x w w'. f x w = (Inr (), w') \<Longrightarrow> P x w'"
    and keep: "\<And>x y w w'. f x w = (Inr (), w') \<Longrightarrow> P y w \<Longrightarrow> P y w'"
  shows "eachS f xs w = (Inr (), w') \<Longrightarrow> x \<in> set xs \<Longrightarrow> P x w'"
proof (induction xs arbitrary: w)
  case (Cons y ys)
  then obtain w1 where w1: "f y w = (Inr (), w1)" "eachS f ys w1 = (Inr (), w')" by (auto simp: bindS_eq_Inr)
  have "P y w'" using eachS_keeps [of f "P y", OF keep w1(2) est [OF w1(1)]] .
  then show ?case using Cons.prems(2) Cons.IH [OF w1(2)] by auto
qed simp

lemma eachS_noop: "(\<And>x. x \<in> set xs \<Longrightarrow> f x w = (Inr (), w)) \<Longrightarrow> eachS f xs w = (Inr (), w)"
  by (induction xs) auto

end
