(* ===== verification/Kube_Types.thy ===== *)
theory Kube_Types
  imports Kogito_Prelude
begin

text \<open>
  The Kubernetes and OpenShift objects the operator reads and writes, as records with the fields its
  code touches, and the errors its functions return.  A Go pointer that may be nil is an option.
  A dereference of a nil pointer or an index out of range ends the Go program; it is the error
  \<^verbatim>\<open>Panic\<close> here, so that such a path is a value a theorem can speak about.
\<close>

section \<open>Errors\<close>

datatype api_status = SNotFound | SAlreadyExists | SForbidden | SUnauthorized | SConflict | SOther

datatype gerr =
    ApiError api_status string
  | ReconcileError string nat string  \<comment> \<open>infrastructure.ReconciliationError: reason, requeue interval in milliseconds, message\<close>
  | InfraError string string          \<comment> \<open>kogitoinfra.reconciliationError: reason, message\<close>
  | PlainError string
  | Panic string

definition IsNotFound :: "gerr \<Rightarrow> bool" where
  "IsNotFound e \<longleftrightarrow> (\<exists>m. e = ApiError SNotFound m)"

definition IsAlreadyExists :: "gerr \<Rightarrow> bool" where
  "IsAlreadyExists e \<longleftrightarrow> (\<exists>m. e = ApiError SAlreadyExists m)"

lemma IsNotFound_simps [simp, code]:
  "IsNotFound (ApiError s m) \<longleftrightarrow> s = SNotFound"
  "\<not> IsNotFound (ReconcileError r i m)"
  "\<not> IsNotFound (InfraError r m)"
  "\<not> IsNotFound (PlainError m)"
  "\<not> IsNotFound (Panic m)"
  by (auto simp: IsNotFound_def)

lemma IsAlreadyExists_simps [simp, code]:
  "IsAlreadyExists (ApiError s m) \<longleftrightarrow> s = SAlreadyExists"
  "\<not> IsAlreadyExists (ReconcileError r i m)"
  "\<not> IsAlreadyExists (InfraError r m)"
  "\<not> IsAlreadyExists (PlainError m)"
  "\<not> IsAlreadyExists (Panic m)"
  by (auto simp: IsAlreadyExists_def)

section \<open>Metadata\<close>

record owner_reference =
  or_apiVersion :: string
  or_kind :: string
  or_name :: string
  or_uid :: string
  or_controller :: "bool option"
  or_block :: "bool option"

record object_meta =
  om_name :: string
  om_namespace :: string
  om_uid :: string
  om_labels :: smap
  om_annotations :: smap
  om_owners :: "owner_reference list"

definition mk_meta :: "string \<Rightarrow> string \<Rightarrow> object_meta" where
  "mk_meta name namespace =
     \<lparr>om_name = name, om_namespace = namespace, om_uid = [], om_labels = [], om_annotations = [], om_owners = []\<rparr>"

section \<open>Pods\<close>

record env_var_source =
  es_secretKeyRef :: "(string \<times> string) option"
  es_configMapKeyRef :: "(string \<times> string) option"

record env_var =
  ev_name :: string
  ev_value :: string
  ev_valueFrom :: "env_var_source option"

record env_from_source =
  ef_configMapRef :: "string option"
  ef_secretRef :: "string option"

record volume_mount =
  vm_name :: string
  vm_mountPath :: string
  vm_subPath :: string

datatype volume_source =
    ConfigMapSource string "(string \<times> string) list" "int option" "bool option"
      \<comment> \<open>name, items (key and path), default mode, optional\<close>
  | SecretSource string "(string \<times> string) list" "int option" "bool option"
  | OtherSource

record volume =
  vol_name :: string
  vol_source :: volume_source

record container_port =
  cp_name :: string
  cp_port :: int
  cp_protocol :: string

datatype int_or_string = IntVal int | StrVal string

record http_get_action =
  hg_path :: string
  hg_port :: int_or_string
  hg_scheme :: string

record probe =
  pr_httpGet :: "http_get_action option"
  pr_exec :: "string list option"
  pr_tcpSocket :: "int_or_string option"
  pr_initialDelaySeconds :: int
  pr_timeoutSeconds :: int
  pr_periodSeconds :: int
  pr_successThreshold :: int
  pr_failureThreshold :: int

record resource_requirements =
  rr_limits :: smap
  rr_requests :: smap

record pod_security_context =
  psc_runAsNonRoot :: "bool option"

record security_context =
  sc_dropCapabilities :: "string list"
  sc_privileged :: "bool option"
  sc_runAsNonRoot :: "bool option"
  sc_allowPrivilegeEscalation :: "bool option"

record container =
  c_name :: string
  c_image :: string
  c_env :: "env_var list"
  c_envFrom :: "env_from_source list"
  c_volumeMounts :: "volume_mount list"
  c_ports :: "container_port list"
  c_resources :: resource_requirements
  c_livenessProbe :: "probe option"
  c_readinessProbe :: "probe option"
  c_startupProbe :: "probe option"
  c_imagePullPolicy :: string
  c_securityContext :: "security_context option"

record pod_spec =
  ps_containers :: "container list"
  ps_volumes :: "volume list"
  ps_serviceAccountName :: string
  ps_securityContext :: "pod_security_context option"

record pod_template =
  pt_labels :: smap
  pt_annotations :: smap
  pt_spec :: pod_spec

section \<open>Workloads\<close>

datatype cond_status = CTrue | CFalse | CUnknown

record deployment_condition =
  dc_type :: string
  dc_status :: cond_status
  dc_lastUpdateTime :: nat

record deployment_status =
  ds_replicas :: int
  ds_readyReplicas :: int
  ds_availableReplicas :: int
  ds_conditions :: "deployment_condition list"

record deployment =
  dep_meta :: object_meta
  dep_replicas :: "int option"
  dep_selector :: smap
  dep_template :: pod_template
  dep_strategy :: string
  dep_status :: deployment_status

section \<open>Configuration\<close>

record configmap =
  cm_meta :: object_meta
  cm_data :: smap
  cm_binaryData :: "(string \<times> string) list"

record secret =
  sec_meta :: object_meta
  sec_data :: smap
  sec_stringData :: smap
  sec_type :: string

section \<open>Network\<close>

record service_port =
  sp_portName :: string
  sp_protocol :: string
  sp_port :: int
  sp_targetPort :: int_or_string

record kservice =
  svc_meta :: object_meta
  svc_ports :: "service_port list"
  svc_selector :: smap
  svc_type :: string

record route_condition =
  rc_type :: string
  rc_status :: cond_status
  rc_message :: string

record route =
  rt_meta :: object_meta
  rt_host :: string
  rt_targetPort :: int_or_string
  rt_toKind :: string
  rt_toName :: string
  rt_ingress :: "route_condition list list"  \<comment> \<open>the conditions of each ingress of the status\<close>

section \<open>Status conditions\<close>

record condition =
  cd_type :: string
  cd_status :: cond_status
  cd_reason :: string
  cd_message :: string
  cd_lastTransitionTime :: nat

section \<open>Concrete objects for the instances of the properties\<close>

definition sample_container :: container where
  "sample_container = \<lparr>c_name = ''app'', c_image = ''img'', c_env = [], c_envFrom = [], c_volumeMounts = [],
     c_ports = [], c_resources = \<lparr>rr_limits = [], rr_requests = []\<rparr>, c_livenessProbe = None,
     c_readinessProbe = None, c_startupProbe = None, c_imagePullPolicy = ''Always'', c_securityContext = None\<rparr>"

definition sample_deployment :: deployment where
  "sample_deployment = \<lparr>dep_meta = mk_meta ''app'' ''ns'', dep_replicas = Some 1, dep_selector = [],
     dep_template = \<lparr>pt_labels = [], pt_annotations = [], pt_spec = \<lparr>ps_containers = [sample_container], ps_volumes = [],
        ps_serviceAccountName = [], ps_securityContext = None\<rparr>\<rparr>,
     dep_strategy = ''RollingUpdate'', dep_status = \<lparr>ds_replicas = 0, ds_readyReplicas = 0, ds_availableReplicas = 0,
        ds_conditions = []\<rparr>\<rparr>"

end
