(* ===== verification/Kube_Client.thy ===== *)
theory Kube_Client
  imports Kube_Types
begin

text \<open>
  The resource client, \<^verbatim>\<open>core/client/kubernetes\<close>, over the controller-runtime client it wraps.  That client
  talks to the API server and is a parameter: a record of operations per kind of object, over an
  abstract state \<open>'w\<close> of the cluster.  The Go code is generic in \<^verbatim>\<open>client.Object\<close>; here the type \<open>'o\<close> is.
  A call that binds the server's object to its argument returns the object.
\<close>

record ('w, 'o) store_api =
  sa_meta :: "'o \<Rightarrow> object_meta"
  sa_get :: "string \<Rightarrow> string \<Rightarrow> 'w \<Rightarrow> gerr + 'o"  \<comment> \<open>namespace, name\<close>
  sa_list :: "string \<Rightarrow> smap \<Rightarrow> 'w \<Rightarrow> gerr + 'o list"  \<comment> \<open>namespace, labels that must match\<close>
  sa_create :: "'o \<Rightarrow> 'w \<Rightarrow> (gerr + 'o) \<times> 'w"
  sa_update :: "'o \<Rightarrow> 'w \<Rightarrow> (gerr + 'o) \<times> 'w"
  sa_updateStatus :: "'o \<Rightarrow> 'w \<Rightarrow> (gerr + 'o) \<times> 'w"
  sa_delete :: "'o \<Rightarrow> 'w \<Rightarrow> (gerr + unit) \<times> 'w"

section \<open>Reader, resource_reader.go\<close>

definition FetchWithKey :: "('w, 'o) store_api \<Rightarrow> string \<Rightarrow> string \<Rightarrow> 'w \<Rightarrow> gerr + 'o option" where
  "FetchWithKey A namespace name w =
     (case sa_get A namespace name w of
        Inl e \<Rightarrow> if IsNotFound e then Inr None else Inl e
      | Inr x \<Rightarrow> Inr (Some x))"

definition Fetch :: "('w, 'o) store_api \<Rightarrow> 'o \<Rightarrow> 'w \<Rightarrow> gerr + 'o option" where
  "Fetch A x w = FetchWithKey A (om_namespace (sa_meta A x)) (om_name (sa_meta A x)) w"

definition ListWithNamespace :: "('w, 'o) store_api \<Rightarrow> string \<Rightarrow> 'w \<Rightarrow> gerr + 'o list" where
  "ListWithNamespace A namespace w = sa_list A namespace [] w"

definition ListWithNamespaceAndLabel :: "('w, 'o) store_api \<Rightarrow> string \<Rightarrow> smap \<Rightarrow> 'w \<Rightarrow> gerr + 'o list" where
  "ListWithNamespaceAndLabel A namespace labels w = sa_list A namespace labels w"

section \<open>Writer, resource\_writer.go\<close>

definition Create :: "('w, 'o) store_api \<Rightarrow> 'o \<Rightarrow> 'w \<Rightarrow> (gerr + 'o) \<times> 'w" where
  "Create A x = sa_create A x"

definition Update :: "('w, 'o) store_api \<Rightarrow> 'o \<Rightarrow> 'w \<Rightarrow> (gerr + 'o) \<times> 'w" where
  "Update A x = sa_update A x"

definition Delete :: "('w, 'o) store_api \<Rightarrow> 'o \<Rightarrow> 'w \<Rightarrow> (gerr + unit) \<times> 'w" where
  "Delete A x = sa_delete A x"

definition UpdateStatus :: "('w, 'o) store_api \<Rightarrow> 'o \<Rightarrow> 'w \<Rightarrow> (gerr + 'o) \<times> 'w" where
  "UpdateStatus A x = sa_updateStatus A x"

section \<open>Resource, resource.go\<close>

definition CreateIfNotExists :: "('w, 'o) store_api \<Rightarrow> 'o \<Rightarrow> 'w \<Rightarrow> (gerr + 'o) \<times> 'w" where
  "CreateIfNotExists A x w =
     (case Fetch A x w of
        Inr None \<Rightarrow> Create A x w
      | Inl e \<Rightarrow> (Inl e, w)
      | Inr (Some y) \<Rightarrow> (Inr y, w))"

definition CreateIfNotExistsForOwner ::
  "('w, 'o) store_api \<Rightarrow> ('o \<Rightarrow> gerr + 'o) \<Rightarrow> 'o \<Rightarrow> 'w \<Rightarrow> (gerr + 'o) \<times> 'w" where
  "CreateIfNotExistsForOwner A setControllerReference x w =
     (case setControllerReference x of
        Inl e \<Rightarrow> (Inl e, w)
      | Inr x' \<Rightarrow> CreateIfNotExists A x' w)"

definition CreateForOwner ::
  "('w, 'o) store_api \<Rightarrow> ('o \<Rightarrow> gerr + 'o) \<Rightarrow> 'o \<Rightarrow> 'w \<Rightarrow> (gerr + 'o) \<times> 'w" where
  "CreateForOwner A setControllerReference x w =
     (case setControllerReference x of
        Inl e \<Rightarrow> (Inl e, w)
      | Inr x' \<Rightarrow> Create A x' w)"

section \<open>What the API server promises\<close>

text \<open>An object that was created can be read under its name.\<close>

definition read_after_create :: "('w, 'o) store_api \<Rightarrow> bool" where
  "read_after_create A \<longleftrightarrow> (\<forall>x y w w'.
     sa_create A x w = (Inr y, w') \<longrightarrow>
       sa_get A (om_namespace (sa_meta A x)) (om_name (sa_meta A x)) w' = Inr y)"

text \<open>The server rejects a second object of the same name.\<close>

definition create_rejects_existing :: "('w, 'o) store_api \<Rightarrow> bool" where
  "create_rejects_existing A \<longleftrightarrow> (\<forall>x y w.
     sa_get A (om_namespace (sa_meta A x)) (om_name (sa_meta A x)) w = Inr y \<longrightarrow>
       (\<exists>m. sa_create A x w = (Inl (ApiError SAlreadyExists m), w)))"

text \<open>Creating an object takes nothing away: what could be read can still be read, what was listed is still listed, and
  the new object is listed under its namespace and its labels, with the owners it was sent with.\<close>

definition get_after_create :: "('w, 'o) store_api \<Rightarrow> bool" where
  "get_after_create A \<longleftrightarrow> (\<forall>x y z ns n w w'.
     sa_create A x w = (Inr y, w') \<longrightarrow> sa_get A ns n w = Inr z \<longrightarrow> sa_get A ns n w' = Inr z)"

definition create_local :: "('w, 'o) store_api \<Rightarrow> bool" where
  "create_local A \<longleftrightarrow> (\<forall>x y ns n w w'. sa_create A x w = (Inr y, w') \<longrightarrow>
     (ns, n) \<noteq> (om_namespace (sa_meta A x), om_name (sa_meta A x)) \<longrightarrow> sa_get A ns n w' = sa_get A ns n w)"

definition has_labels :: "smap \<Rightarrow> object_meta \<Rightarrow> bool" where
  "has_labels labels m = list_all (\<lambda>(k, v). map_of (om_labels m) k = Some v) labels"

definition list_after_create :: "('w, 'o) store_api \<Rightarrow> bool" where
  "list_after_create A \<longleftrightarrow> (\<forall>x y ns labels xs w w'.
     sa_create A x w = (Inr y, w') \<longrightarrow> sa_list A ns labels w = Inr xs \<longrightarrow>
       om_owners (sa_meta A y) = om_owners (sa_meta A x) \<and>
       (\<exists>ys. sa_list A ns labels w' = Inr ys \<and> set xs \<subseteq> set ys \<and>
          (om_namespace (sa_meta A x) = ns \<longrightarrow> has_labels labels (sa_meta A x) \<longrightarrow> y \<in> set ys)))"

section \<open>A store in memory\<close>

text \<open>The smallest cluster that keeps the promises: the objects of one kind in a list.  The concrete
  instances of the properties run on it.\<close>

definition same_key :: "('o \<Rightarrow> object_meta) \<Rightarrow> string \<Rightarrow> string \<Rightarrow> 'o \<Rightarrow> bool" where
  "same_key meta ns n x \<longleftrightarrow> om_namespace (meta x) = ns \<and> om_name (meta x) = n"

definition mem_get :: "('o \<Rightarrow> object_meta) \<Rightarrow> string \<Rightarrow> string \<Rightarrow> 'o list \<Rightarrow> gerr + 'o" where
  "mem_get meta ns n xs =
     (case find (same_key meta ns n) xs of None \<Rightarrow> Inl (ApiError SNotFound n) | Some x \<Rightarrow> Inr x)"

definition mem_create :: "('o \<Rightarrow> object_meta) \<Rightarrow> 'o \<Rightarrow> 'o list \<Rightarrow> (gerr + 'o) \<times> 'o list" where
  "mem_create meta x xs =
     (if find (same_key meta (om_namespace (meta x)) (om_name (meta x))) xs = None then (Inr x, x # xs)
      else (Inl (ApiError SAlreadyExists (om_name (meta x))), xs))"

definition mem_update :: "('o \<Rightarrow> object_meta) \<Rightarrow> 'o \<Rightarrow> 'o list \<Rightarrow> (gerr + 'o) \<times> 'o list" where
  "mem_update meta x xs =
     (let p = same_key meta (om_namespace (meta x)) (om_name (meta x))
      in if find p xs = None then (Inl (ApiError SNotFound (om_name (meta x))), xs)
         else (Inr x, map (\<lambda>y. if p y then x else y) xs))"

definition mem_delete :: "('o \<Rightarrow> object_meta) \<Rightarrow> 'o \<Rightarrow> 'o list \<Rightarrow> (gerr + unit) \<times> 'o list" where
  "mem_delete meta x xs =
     (let p = same_key meta (om_namespace (meta x)) (om_name (meta x))
      in if find p xs = None then (Inl (ApiError SNotFound (om_name (meta x))), xs)
         else (Inr (), filter (\<lambda>y. \<not> p y) xs))"

definition mem_list :: "('o \<Rightarrow> object_meta) \<Rightarrow> string \<Rightarrow> smap \<Rightarrow> 'o list \<Rightarrow> gerr + 'o list" where
  "mem_list meta ns labels xs =
     Inr (filter (\<lambda>x. om_namespace (meta x) = ns \<and>
        list_all (\<lambda>(k, v). map_of (om_labels (meta x)) k = Some v) labels) xs)"

definition mem_api :: "('o \<Rightarrow> object_meta) \<Rightarrow> ('o list, 'o) store_api" where
  "mem_api meta =
     \<lparr>sa_meta = meta, sa_get = mem_get meta, sa_list = mem_list meta, sa_create = mem_create meta,
      sa_update = mem_update meta, sa_updateStatus = mem_update meta, sa_delete = mem_delete meta\<rparr>"

text \<open>A store inside a larger state, reached through a lens.\<close>

definition lens_api :: "('v \<Rightarrow> 'w) \<Rightarrow> ('w \<Rightarrow> 'v \<Rightarrow> 'v) \<Rightarrow> ('w, 'o) store_api \<Rightarrow> ('v, 'o) store_api" where
  "lens_api g p A =
     \<lparr>sa_meta = sa_meta A,
      sa_get = (\<lambda>ns n v. sa_get A ns n (g v)),
      sa_list = (\<lambda>ns l v. sa_list A ns l (g v)),
      sa_create = (\<lambda>x v. case sa_create A x (g v) of (r, w) \<Rightarrow> (r, p w v)),
      sa_update = (\<lambda>x v. case sa_update A x (g v) of (r, w) \<Rightarrow> (r, p w v)),
      sa_updateStatus = (\<lambda>x v. case sa_updateStatus A x (g v) of (r, w) \<Rightarrow> (r, p w v)),
      sa_delete = (\<lambda>x v. case sa_delete A x (g v) of (r, w) \<Rightarrow> (r, p w v))\<rparr>"

lemma mem_api_sel [simp]:
  "sa_meta (mem_api meta) = meta" "sa_get (mem_api meta) = mem_get meta" "sa_list (mem_api meta) = mem_list meta"
  "sa_create (mem_api meta) = mem_create meta" "sa_update (mem_api meta) = mem_update meta"
  "sa_updateStatus (mem_api meta) = mem_update meta" "sa_delete (mem_api meta) = mem_delete meta"
  by (simp_all add: mem_api_def)

lemma lens_api_sel [simp]:
  "sa_meta (lens_api g p A) = sa_meta A"
  "sa_get (lens_api g p A) ns n v = sa_get A ns n (g v)"
  "sa_list (lens_api g p A) ns l v = sa_list A ns l (g v)"
  "sa_create (lens_api g p A) x v = (case sa_create A x (g v) of (r, w) \<Rightarrow> (r, p w v))"
  "sa_update (lens_api g p A) x v = (case sa_update A x (g v) of (r, w) \<Rightarrow> (r, p w v))"
  "sa_updateStatus (lens_api g p A) x v = (case sa_updateStatus A x (g v) of (r, w) \<Rightarrow> (r, p w v))"
  "sa_delete (lens_api g p A) x v = (case sa_delete A x (g v) of (r, w) \<Rightarrow> (r, p w v))"
  by (simp_all add: lens_api_def)

lemmas mem_simps = mem_get_def mem_create_def mem_update_def mem_delete_def mem_list_def same_key_def

section \<open>Lemmas\<close>

lemma FetchWithKey_cases:
  "FetchWithKey A ns n w = Inr None \<longleftrightarrow> (\<exists>m. sa_get A ns n w = Inl (ApiError SNotFound m))"
  "FetchWithKey A ns n w = Inr (Some x) \<longleftrightarrow> sa_get A ns n w = Inr x"
  "FetchWithKey A ns n w = Inl e \<longleftrightarrow> sa_get A ns n w = Inl e \<and> \<not> IsNotFound e"
  by (auto simp: FetchWithKey_def IsNotFound_def split: sum.splits)

lemma read_after_create_mem: "read_after_create (mem_api meta)"
  by (auto simp: read_after_create_def mem_simps split: if_splits)

lemma create_rejects_existing_mem: "create_rejects_existing (mem_api meta)"
  by (auto simp: create_rejects_existing_def mem_simps split: if_splits option.splits)

lemma get_after_create_mem: "get_after_create (mem_api meta)"
  by (auto simp: get_after_create_def mem_simps split: if_splits option.splits)

lemma create_local_mem: "create_local (mem_api meta)"
  by (auto simp: create_local_def mem_simps split: if_splits)

lemma find_replaced:
  "find (same_key meta ns n) (map (\<lambda>y. if same_key meta (om_namespace (meta x)) (om_name (meta x)) y then x else y) xs) =
     (if (ns, n) = (om_namespace (meta x), om_name (meta x)) then map_option (\<lambda>_. x) (find (same_key meta ns n) xs)
      else find (same_key meta ns n) xs)"
proof -
  have key: "same_key meta ns n y \<longleftrightarrow> (om_namespace (meta y), om_name (meta y)) = (ns, n)" for ns n y by (simp add: same_key_def)
  show ?thesis
    by (induction xs) (simp, simp only: find.simps list.map key, auto)
qed

lemma list_after_create_mem: "list_after_create (mem_api meta)"
  by (auto simp: list_after_create_def has_labels_def mem_simps split: if_splits)

section \<open>Properties\<close>

text \<open>C14: \<^term>\<open>CreateIfNotExists\<close> is idempotent and never overwrites.  If the server lets a created
  object be read, then after a successful call the object is readable and a second call succeeds
  without changing the cluster; and a call that finds the object leaves the cluster as it is.\<close>

theorem CreateIfNotExists_idempotent:
  assumes server: "read_after_create A"
    and first: "CreateIfNotExists A x w = (Inr y, w')"
  shows "CreateIfNotExists A x w' = (Inr y, w')
     \<and> Fetch A x w' = Inr (Some y)
     \<and> (Fetch A x w = Inr None \<or> w' = w \<and> Fetch A x w = Inr (Some y))"
proof -
  have "sa_get A (om_namespace (sa_meta A x)) (om_name (sa_meta A x)) w' = Inr y"
    using server first
    by (auto simp: CreateIfNotExists_def Create_def Fetch_def FetchWithKey_cases read_after_create_def
        split: sum.splits option.splits)
  then have "Fetch A x w' = Inr (Some y)" by (simp add: Fetch_def FetchWithKey_cases)
  with first show ?thesis
    by (auto simp: CreateIfNotExists_def split: sum.splits option.splits)
qed

lemma CreateIfNotExists_idempotent_witness:
  "CreateIfNotExists (mem_api cm_meta) \<lparr>cm_meta = mk_meta ''cm'' ''ns'', cm_data = [], cm_binaryData = []\<rparr>
     [\<lparr>cm_meta = mk_meta ''cm'' ''ns'', cm_data = [], cm_binaryData = []\<rparr>]
   = (Inr \<lparr>cm_meta = mk_meta ''cm'' ''ns'', cm_data = [], cm_binaryData = []\<rparr>,
      [\<lparr>cm_meta = mk_meta ''cm'' ''ns'', cm_data = [], cm_binaryData = []\<rparr>])"
  using CreateIfNotExists_idempotent [OF read_after_create_mem,
      of cm_meta "\<lparr>cm_meta = mk_meta ''cm'' ''ns'', cm_data = [], cm_binaryData = []\<rparr>" "[]"
        "\<lparr>cm_meta = mk_meta ''cm'' ''ns'', cm_data = [], cm_binaryData = []\<rparr>"
        "[\<lparr>cm_meta = mk_meta ''cm'' ''ns'', cm_data = [], cm_binaryData = []\<rparr>]"]
  by (simp add: CreateIfNotExists_def Create_def Fetch_def FetchWithKey_def mem_simps mk_meta_def)

end
