(* ===== verification/Api_Interfaces.thy ===== *)
theory Api_Interfaces
  imports Kube_Types
begin

text \<open>
  The interfaces of \<^verbatim>\<open>apis/\<close> at run time.  The operator's code works on the interfaces \<^verbatim>\<open>api.Kogito...\<close>; the values behind them are of
  one of two packages, \<^verbatim>\<open>apis/app/v1beta1\<close> and \<^verbatim>\<open>apis/rhpam/v1\<close>, whose structs have the same fields but are different types.  A setter
  that takes an interface accepts only what a type assertion recognises as the struct of its own package.
\<close>

section \<open>Dynamic types\<close>

text \<open>The packages with such structs: the two API groups, and \<^verbatim>\<open>core/kogitoservice\<close> with its own volume reference.\<close>

datatype go_package = V1beta1 | V1 | CoreKogitoService

text \<open>A value of an interface: nil, a struct of a package, or a pointer to one.\<close>

datatype 'a iface = NilInterface | ValueOf go_package 'a | PointerTo go_package 'a

text \<open>The type assertions \<^verbatim>\<open>x.(T)\<close> and \<^verbatim>\<open>x.(*T)\<close>, for the type of a package.\<close>

definition assert_value :: "go_package \<Rightarrow> 'a iface \<Rightarrow> 'a option" where
  "assert_value P x = (case x of ValueOf Q v \<Rightarrow> if Q = P then Some v else None | _ \<Rightarrow> None)"

definition assert_pointer :: "go_package \<Rightarrow> 'a iface \<Rightarrow> 'a option" where
  "assert_pointer P x = (case x of PointerTo Q v \<Rightarrow> if Q = P then Some v else None | _ \<Rightarrow> None)"

text \<open>The loop of a setter over a slice of interfaces: what the assertion does not recognise is skipped.\<close>

fun recognised :: "('b \<Rightarrow> 'a option) \<Rightarrow> 'b list \<Rightarrow> 'a list" where
  "recognised assert [] = []"
| "recognised assert (x # xs) = (case assert x of Some v \<Rightarrow> v # recognised assert xs | None \<Rightarrow> recognised assert xs)"

lemma assert_simps [simp]:
  "assert_value P (ValueOf Q v) = (if Q = P then Some v else None)" "assert_value P (PointerTo Q v) = None" "assert_value P NilInterface = None"
  "assert_pointer P (PointerTo Q v) = (if Q = P then Some v else None)" "assert_pointer P (ValueOf Q v) = None" "assert_pointer P NilInterface = None"
  by (auto simp: assert_value_def assert_pointer_def)

lemma recognised_own: "(\<And>x. assert (box x) = Some x) \<Longrightarrow> recognised assert (map box xs) = xs"
  by (induction xs) auto

lemma recognised_none: "\<forall>x \<in> set xs. assert x = None \<Longrightarrow> recognised assert xs = []"
  by (induction xs) auto

section \<open>Accessors\<close>

text \<open>A field that a struct hands out and takes back through an interface, as a pointer to it: \<open>view\<close> and \<open>put\<close> are the field itself.\<close>

locale interface_field =
  fixes view :: "'s \<Rightarrow> 'a" and put :: "'a \<Rightarrow> 's \<Rightarrow> 's"
    and getter :: "go_package \<Rightarrow> 's \<Rightarrow> 'a iface" and setter :: "go_package \<Rightarrow> 'a iface \<Rightarrow> 's \<Rightarrow> 's"
  assumes view_put: "view (put a s) = a" and put_view: "put (view s) s = s"
    and getter: "getter P s = PointerTo P (view s)"
    and setter: "setter P x s = (case assert_pointer P x of Some v \<Rightarrow> put v s | None \<Rightarrow> s)"
begin

lemma set_own: "setter P (getter P s) s = s"
  by (simp add: getter setter put_view)

text \<open>Copying the field from a struct of package \<open>Q\<close> works within a package only.\<close>

lemma copied: "view (setter P (getter Q s') s) = (if P = Q then view s' else view s)"
  by (simp add: getter setter view_put)

lemma foreign: "assert_pointer P x = None \<Longrightarrow> setter P x s = s"
  by (simp add: setter)

end

text \<open>The same for a slice, whose elements are handed out one by one.  A foreign element is dropped, so a foreign slice erases the field.\<close>

locale interface_slice =
  fixes view :: "'s \<Rightarrow> 'a list" and put :: "'a list \<Rightarrow> 's \<Rightarrow> 's"
    and box :: "go_package \<Rightarrow> 'a \<Rightarrow> 'a iface" and assert :: "go_package \<Rightarrow> 'a iface \<Rightarrow> 'a option"
    and getter :: "go_package \<Rightarrow> 's \<Rightarrow> 'a iface list" and setter :: "go_package \<Rightarrow> 'a iface list \<Rightarrow> 's \<Rightarrow> 's"
  assumes view_put: "view (put a s) = a" and put_view: "put (view s) s = s"
    and assert_box: "assert P (box Q v) = (if Q = P then Some v else None)"
    and getter: "getter P s = map (box P) (view s)"
    and setter: "setter P xs s = put (recognised (assert P) xs) s"
begin

lemma set_own: "setter P (getter P s) s = s"
  by (simp add: getter setter put_view recognised_own assert_box)

lemma copied: "view (setter P (getter Q s') s) = (if P = Q then view s' else [])"
  by (simp add: getter setter view_put recognised_own recognised_none assert_box)

end

end
