(* ===== verification/Service_Types.thy ===== *)
theory Service_Types
  imports Kube_Client Api_Interfaces
begin

text \<open>
  The custom resource of a Kogito service, \<^verbatim>\<open>apis/app/v1beta1/kogitoservices.go\<close>: specification and status
  as the service reconcilers see them through the interface \<^verbatim>\<open>KogitoService\<close> (a KogitoRuntime or a
  KogitoSupportingService), and the status conditions.  \<^verbatim>\<open>meta.SetStatusCondition\<close> and
  \<^verbatim>\<open>meta.FindStatusCondition\<close> belong to the Kubernetes libraries and are parameters with their laws.
\<close>

section \<open>Specification and status\<close>

datatype runtime_type = Quarkus | SpringBoot

definition runtime_name :: "runtime_type \<Rightarrow> string" where
  "runtime_name r = (case r of Quarkus \<Rightarrow> ''quarkus'' | SpringBoot \<Rightarrow> ''springboot'')"

record monitoring =
  mon_scheme :: string
  mon_path :: string

record kogito_probe =
  kp_liveness :: probe
  kp_readiness :: probe
  kp_startup :: probe

record cloud_event_info =
  ce_type :: string
  ce_source :: string

record cloud_events_status =
  ces_consumes :: "cloud_event_info list"
  ces_produces :: "cloud_event_info list"

record service_spec =
  ss_replicas :: "int option"
  ss_env :: "env_var list"
  ss_image :: string
  ss_insecureImageRegistry :: bool
  ss_resources :: resource_requirements
  ss_deploymentLabels :: smap
  ss_serviceLabels :: smap
  ss_propertiesConfigMap :: string
  ss_infra :: "string list"
  ss_monitoring :: monitoring
  ss_config :: smap
  ss_probes :: kogito_probe
  ss_trustStoreSecret :: string
  ss_disableRoute :: bool
  ss_runtime :: runtime_type

record service_status =
  st_conditions :: "condition list option"
  st_deploymentConditions :: "deployment_condition list"
  st_routeConditions :: "condition list option"
  st_image :: string
  st_externalURI :: string
  st_cloudEvents :: cloud_events_status

text \<open>The resource, with the package of its struct.\<close>

record kogito_service =
  ks_meta :: object_meta
  ks_spec :: service_spec
  ks_status :: service_status
  ks_package :: go_package

abbreviation ks_name :: "kogito_service \<Rightarrow> string" where "ks_name s \<equiv> om_name (ks_meta s)"
abbreviation ks_namespace :: "kogito_service \<Rightarrow> string" where "ks_namespace s \<equiv> om_namespace (ks_meta s)"

section \<open>Operations of the specification\<close>

definition map_spec :: "(service_spec \<Rightarrow> service_spec) \<Rightarrow> kogito_service \<Rightarrow> kogito_service" where
  "map_spec f s = s\<lparr>ks_spec := f (ks_spec s)\<rparr>"

definition map_status :: "(service_status \<Rightarrow> service_status) \<Rightarrow> kogito_service \<Rightarrow> kogito_service" where
  "map_status f s = s\<lparr>ks_status := f (ks_status s)\<rparr>"

definition AddEnvironmentVariable :: "string \<Rightarrow> string \<Rightarrow> service_spec \<Rightarrow> service_spec" where
  "AddEnvironmentVariable name v sp =
     sp\<lparr>ss_env := ss_env sp @ [\<lparr>ev_name = name, ev_value = v, ev_valueFrom = None\<rparr>]\<rparr>"

definition AddEnvironmentVariableFromSecret :: "string \<Rightarrow> string \<Rightarrow> string \<Rightarrow> service_spec \<Rightarrow> service_spec" where
  "AddEnvironmentVariableFromSecret variableName secretName secretKey sp =
     sp\<lparr>ss_env := ss_env sp @ [\<lparr>ev_name = variableName, ev_value = [],
        ev_valueFrom = Some \<lparr>es_secretKeyRef = Some (secretName, secretKey), es_configMapKeyRef = None\<rparr>\<rparr>]\<rparr>"

text \<open>\<^verbatim>\<open>resource.MustParse\<close> panics on a malformed quantity; its test is a parameter.\<close>

definition AddResourceRequest :: "(string \<Rightarrow> bool) \<Rightarrow> string \<Rightarrow> string \<Rightarrow> service_spec \<Rightarrow> gerr + service_spec" where
  "AddResourceRequest isQuantity name v sp =
     (if isQuantity v then Inr (sp\<lparr>ss_resources := (ss_resources sp)\<lparr>rr_requests := smap_put name v (rr_requests (ss_resources sp))\<rparr>\<rparr>)
      else Inl (Panic ''cannot parse quantity''))"

definition AddResourceLimit :: "(string \<Rightarrow> bool) \<Rightarrow> string \<Rightarrow> string \<Rightarrow> service_spec \<Rightarrow> gerr + service_spec" where
  "AddResourceLimit isQuantity name v sp =
     (if isQuantity v then Inr (sp\<lparr>ss_resources := (ss_resources sp)\<lparr>rr_limits := smap_put name v (rr_limits (ss_resources sp))\<rparr>\<rparr>)
      else Inl (Panic ''cannot parse quantity''))"

definition AddDeploymentLabel :: "string \<Rightarrow> string \<Rightarrow> service_spec \<Rightarrow> service_spec" where
  "AddDeploymentLabel name v sp = sp\<lparr>ss_deploymentLabels := smap_put name v (ss_deploymentLabels sp)\<rparr>"

definition AddServiceLabel :: "string \<Rightarrow> string \<Rightarrow> service_spec \<Rightarrow> service_spec" where
  "AddServiceLabel name v sp = sp\<lparr>ss_serviceLabels := smap_put name v (ss_serviceLabels sp)\<rparr>"

definition AddInfra :: "string \<Rightarrow> service_spec \<Rightarrow> service_spec" where
  "AddInfra name sp = sp\<lparr>ss_infra := ss_infra sp @ [name]\<rparr>"

section \<open>Fields behind interfaces\<close>

definition GetCloudEvents :: "go_package \<Rightarrow> service_status \<Rightarrow> cloud_events_status iface" where
  "GetCloudEvents P st = PointerTo P (st_cloudEvents st)"

definition SetCloudEvents :: "go_package \<Rightarrow> cloud_events_status iface \<Rightarrow> service_status \<Rightarrow> service_status" where
  "SetCloudEvents P cloudEvents st = (case assert_pointer P cloudEvents of Some new \<Rightarrow> st\<lparr>st_cloudEvents := new\<rparr> | None \<Rightarrow> st)"

definition GetConsumes :: "go_package \<Rightarrow> cloud_events_status \<Rightarrow> cloud_event_info iface list" where
  "GetConsumes P c = map (ValueOf P) (ces_consumes c)"

definition SetConsumes :: "go_package \<Rightarrow> cloud_event_info iface list \<Rightarrow> cloud_events_status \<Rightarrow> cloud_events_status" where
  "SetConsumes P consumes c = c\<lparr>ces_consumes := recognised (assert_value P) consumes\<rparr>"

definition GetProduces :: "go_package \<Rightarrow> cloud_events_status \<Rightarrow> cloud_event_info iface list" where
  "GetProduces P c = map (ValueOf P) (ces_produces c)"

definition SetProduces :: "go_package \<Rightarrow> cloud_event_info iface list \<Rightarrow> cloud_events_status \<Rightarrow> cloud_events_status" where
  "SetProduces P produces c = c\<lparr>ces_produces := recognised (assert_value P) produces\<rparr>"

definition GetMonitoring :: "go_package \<Rightarrow> service_spec \<Rightarrow> monitoring iface" where
  "GetMonitoring P sp = PointerTo P (ss_monitoring sp)"

definition SetMonitoring :: "go_package \<Rightarrow> monitoring iface \<Rightarrow> service_spec \<Rightarrow> service_spec" where
  "SetMonitoring P m sp = (case assert_pointer P m of Some new \<Rightarrow> sp\<lparr>ss_monitoring := new\<rparr> | None \<Rightarrow> sp)"

definition GetProbes :: "go_package \<Rightarrow> service_spec \<Rightarrow> kogito_probe iface" where
  "GetProbes P sp = PointerTo P (ss_probes sp)"

definition SetProbes :: "go_package \<Rightarrow> kogito_probe iface \<Rightarrow> service_spec \<Rightarrow> service_spec" where
  "SetProbes P probes sp = (case assert_pointer P probes of Some new \<Rightarrow> sp\<lparr>ss_probes := new\<rparr> | None \<Rightarrow> sp)"

interpretation cloudEvents: interface_field st_cloudEvents "\<lambda>v st. st\<lparr>st_cloudEvents := v\<rparr>" GetCloudEvents SetCloudEvents
  by unfold_locales (simp_all add: GetCloudEvents_def SetCloudEvents_def)

interpretation consumes: interface_slice ces_consumes "\<lambda>v c. c\<lparr>ces_consumes := v\<rparr>" ValueOf assert_value GetConsumes SetConsumes
  by unfold_locales (simp_all add: GetConsumes_def SetConsumes_def)

interpretation produces: interface_slice ces_produces "\<lambda>v c. c\<lparr>ces_produces := v\<rparr>" ValueOf assert_value GetProduces SetProduces
  by unfold_locales (simp_all add: GetProduces_def SetProduces_def)

interpretation monitoring: interface_field ss_monitoring "\<lambda>v sp. sp\<lparr>ss_monitoring := v\<rparr>" GetMonitoring SetMonitoring
  by unfold_locales (simp_all add: GetMonitoring_def SetMonitoring_def)

interpretation probes: interface_field ss_probes "\<lambda>v sp. sp\<lparr>ss_probes := v\<rparr>" GetProbes SetProbes
  by unfold_locales (simp_all add: GetProbes_def SetProbes_def)

lemma map_status_simps [simp]:
  "ks_spec (map_status f s) = ks_spec s" "ks_meta (map_status f s) = ks_meta s"
  "ks_status (map_status f s) = f (ks_status s)" "ks_package (map_status f s) = ks_package s"
  by (simp_all add: map_status_def)

lemma map_spec_simps [simp]:
  "ks_status (map_spec f s) = ks_status s" "ks_meta (map_spec f s) = ks_meta s"
  "ks_spec (map_spec f s) = f (ks_spec s)" "ks_package (map_spec f s) = ks_package s"
  by (simp_all add: map_spec_def)

section \<open>Status conditions\<close>

record cond_api =
  ca_set :: "condition \<Rightarrow> condition list \<Rightarrow> condition list"
  ca_find :: "condition list \<Rightarrow> string \<Rightarrow> condition option"

text \<open>What the libraries promise: after setting a condition its type is found with the new status,
  reason and message, other types are found as before, and a condition found for a type is of that type.\<close>

definition same_content :: "condition \<Rightarrow> condition \<Rightarrow> bool" where
  "same_content c c' \<longleftrightarrow> cd_type c = cd_type c' \<and> cd_status c = cd_status c'
     \<and> cd_reason c = cd_reason c' \<and> cd_message c = cd_message c'"

definition cond_laws :: "cond_api \<Rightarrow> bool" where
  "cond_laws C \<longleftrightarrow>
     (\<forall>c cs. \<exists>c'. ca_find C (ca_set C c cs) (cd_type c) = Some c' \<and> same_content c' c) \<and>
     (\<forall>c cs t. t \<noteq> cd_type c \<longrightarrow> ca_find C (ca_set C c cs) t = ca_find C cs t)"

definition cond_status_of :: "cond_api \<Rightarrow> condition list \<Rightarrow> string \<Rightarrow> cond_status option" where
  "cond_status_of C cs t = map_option cd_status (ca_find C cs t)"

definition cond_reason_of :: "cond_api \<Rightarrow> condition list \<Rightarrow> string \<Rightarrow> string option" where
  "cond_reason_of C cs t = map_option cd_reason (ca_find C cs t)"

definition IsStatusConditionTrue :: "cond_api \<Rightarrow> condition list \<Rightarrow> string \<Rightarrow> bool" where
  "IsStatusConditionTrue C cs t \<longleftrightarrow> cond_status_of C cs t = Some CTrue"

lemma cond_status_set:
  "cond_laws C \<Longrightarrow> cond_status_of C (ca_set C c cs) t =
     (if t = cd_type c then Some (cd_status c) else cond_status_of C cs t)"
  unfolding cond_laws_def cond_status_of_def same_content_def
  by auto blast

lemma cond_reason_set:
  "cond_laws C \<Longrightarrow> cond_reason_of C (ca_set C c cs) t =
     (if t = cd_type c then Some (cd_reason c) else cond_reason_of C cs t)"
  unfolding cond_laws_def cond_reason_of_def same_content_def
  by auto blast

text \<open>An implementation that keeps the laws, for the concrete instances: update in place or append, with
  a transition time that changes with the status.\<close>

definition mk_cond :: "string \<Rightarrow> cond_status \<Rightarrow> string \<Rightarrow> string \<Rightarrow> condition" where
  "mk_cond t s r m = \<lparr>cd_type = t, cd_status = s, cd_reason = r, cd_message = m, cd_lastTransitionTime = 0\<rparr>"

fun list_set_cond :: "condition \<Rightarrow> condition list \<Rightarrow> condition list" where
  "list_set_cond c [] = [c]"
| "list_set_cond c (d # ds) =
     (if cd_type d = cd_type c
      then d\<lparr>cd_status := cd_status c, cd_reason := cd_reason c, cd_message := cd_message c,
             cd_lastTransitionTime := (if cd_status d = cd_status c then cd_lastTransitionTime d else cd_lastTransitionTime c)\<rparr> # ds
      else d # list_set_cond c ds)"

definition list_cond_api :: cond_api where
  "list_cond_api = \<lparr>ca_set = list_set_cond, ca_find = (\<lambda>cs t. find (\<lambda>c. cd_type c = t) cs)\<rparr>"

lemma list_cond_api_sel [simp]:
  "ca_set list_cond_api = list_set_cond" "ca_find list_cond_api cs t = find (\<lambda>c. cd_type c = t) cs"
  by (simp_all add: list_cond_api_def)

lemma list_cond_laws: "cond_laws list_cond_api"
proof -
  have "\<exists>c'. find (\<lambda>d. cd_type d = cd_type c) (list_set_cond c cs) = Some c' \<and> same_content c' c" for c cs
    by (induction cs) (auto simp: same_content_def)
  moreover have "t \<noteq> cd_type c \<Longrightarrow>
      find (\<lambda>d. cd_type d = t) (list_set_cond c cs) = find (\<lambda>d. cd_type d = t) cs" for t c cs
    by (induction cs) auto
  ultimately show ?thesis by (simp add: cond_laws_def)
qed

section \<open>The cluster as the service reconcilers see it\<close>

record 'w cluster =
  cl_isOpenshift :: bool
  cl_deployments :: "('w, deployment) store_api"
  cl_configMaps :: "('w, configmap) store_api"
  cl_secrets :: "('w, secret) store_api"
  cl_services :: "('w, kservice) store_api"
  cl_routes :: "('w, route) store_api"
  cl_kogitoServices :: "('w, kogito_service) store_api"

text \<open>A cluster in memory, for the concrete instances.\<close>

record mem_world =
  mw_deployments :: "deployment list"
  mw_configMaps :: "configmap list"
  mw_secrets :: "secret list"
  mw_services :: "kservice list"
  mw_routes :: "route list"
  mw_kogitoServices :: "kogito_service list"

definition empty_world :: mem_world where
  "empty_world = \<lparr>mw_deployments = [], mw_configMaps = [], mw_secrets = [], mw_services = [], mw_routes = [],
     mw_kogitoServices = []\<rparr>"

text \<open>The status is a subresource: its update leaves the rest of the resource as it is stored.\<close>

fun update_first :: "('a \<Rightarrow> bool) \<Rightarrow> ('a \<Rightarrow> 'a) \<Rightarrow> 'a list \<Rightarrow> 'a list" where
  "update_first p f [] = []"
| "update_first p f (x # xs) = (if p x then f x # xs else x # update_first p f xs)"

definition mem_updateStatus :: "kogito_service \<Rightarrow> kogito_service list \<Rightarrow> (gerr + kogito_service) \<times> kogito_service list" where
  "mem_updateStatus x xs =
     (let p = same_key ks_meta (ks_namespace x) (ks_name x)
      in if find p xs = None then (Inl (ApiError SNotFound (ks_name x)), xs)
         else (Inr x, update_first p (\<lambda>y. y\<lparr>ks_status := ks_status x\<rparr>) xs))"

definition mem_cluster :: "bool \<Rightarrow> mem_world cluster" where
  "mem_cluster openshift =
     \<lparr>cl_isOpenshift = openshift,
      cl_deployments = lens_api mw_deployments (\<lambda>x w. w\<lparr>mw_deployments := x\<rparr>) (mem_api dep_meta),
      cl_configMaps = lens_api mw_configMaps (\<lambda>x w. w\<lparr>mw_configMaps := x\<rparr>) (mem_api cm_meta),
      cl_secrets = lens_api mw_secrets (\<lambda>x w. w\<lparr>mw_secrets := x\<rparr>) (mem_api sec_meta),
      cl_services = lens_api mw_services (\<lambda>x w. w\<lparr>mw_services := x\<rparr>) (mem_api svc_meta),
      cl_routes = lens_api mw_routes (\<lambda>x w. w\<lparr>mw_routes := x\<rparr>) (mem_api rt_meta),
      cl_kogitoServices = lens_api mw_kogitoServices (\<lambda>x w. w\<lparr>mw_kogitoServices := x\<rparr>) ((mem_api ks_meta)\<lparr>sa_updateStatus := mem_updateStatus\<rparr>)\<rparr>"

lemma mem_cluster_sel [simp]:
  "cl_isOpenshift (mem_cluster b) = b"
  "cl_deployments (mem_cluster b) = lens_api mw_deployments (\<lambda>x w. w\<lparr>mw_deployments := x\<rparr>) (mem_api dep_meta)"
  "cl_configMaps (mem_cluster b) = lens_api mw_configMaps (\<lambda>x w. w\<lparr>mw_configMaps := x\<rparr>) (mem_api cm_meta)"
  "cl_secrets (mem_cluster b) = lens_api mw_secrets (\<lambda>x w. w\<lparr>mw_secrets := x\<rparr>) (mem_api sec_meta)"
  "cl_services (mem_cluster b) = lens_api mw_services (\<lambda>x w. w\<lparr>mw_services := x\<rparr>) (mem_api svc_meta)"
  "cl_routes (mem_cluster b) = lens_api mw_routes (\<lambda>x w. w\<lparr>mw_routes := x\<rparr>) (mem_api rt_meta)"
  "cl_kogitoServices (mem_cluster b) = lens_api mw_kogitoServices (\<lambda>x w. w\<lparr>mw_kogitoServices := x\<rparr>) ((mem_api ks_meta)\<lparr>sa_updateStatus := mem_updateStatus\<rparr>)"
  by (simp_all add: mem_cluster_def)

definition empty_probe :: probe where
  "empty_probe = \<lparr>pr_httpGet = None, pr_exec = None, pr_tcpSocket = None, pr_initialDelaySeconds = 0, pr_timeoutSeconds = 0, pr_periodSeconds = 0,
     pr_successThreshold = 0, pr_failureThreshold = 0\<rparr>"

definition sample_spec :: service_spec where
  "sample_spec = \<lparr>ss_replicas = Some 2, ss_env = [], ss_image = [], ss_insecureImageRegistry = False,
     ss_resources = \<lparr>rr_limits = [], rr_requests = []\<rparr>, ss_deploymentLabels = [], ss_serviceLabels = [],
     ss_propertiesConfigMap = [], ss_infra = [], ss_monitoring = \<lparr>mon_scheme = [], mon_path = []\<rparr>, ss_config = [],
     ss_probes = \<lparr>kp_liveness = empty_probe, kp_readiness = empty_probe, kp_startup = empty_probe\<rparr>,
     ss_trustStoreSecret = [], ss_disableRoute = False, ss_runtime = Quarkus\<rparr>"

definition sample_service :: kogito_service where
  "sample_service = \<lparr>ks_meta = mk_meta ''app'' ''ns'', ks_spec = sample_spec,
     ks_status = \<lparr>st_conditions = None, st_deploymentConditions = [], st_routeConditions = None, st_image = [],
       st_externalURI = [], st_cloudEvents = \<lparr>ces_consumes = [], ces_produces = []\<rparr>\<rparr>, ks_package = V1beta1\<rparr>"

end
