(* ===== verification/Config_Mounts.thy ===== *)
theory Config_Mounts
  imports Kube_Client
begin

text \<open>
  Mounting config maps and secrets into a deployment, \<^verbatim>\<open>core/infrastructure/configmap.go\<close> and
  \<^verbatim>\<open>core/infrastructure/secret.go\<close>.  The two handlers have the same shape; what they promise to the
  deployment reconciler is one interface, interpreted for each.
\<close>

record volume_reference =
  vr_name :: string
  vr_mountPath :: string
  vr_fileMode :: "int option"
  vr_optional :: "bool option"

definition ModeForPropertyFiles :: int where "ModeForPropertyFiles = 420"  \<comment> \<open>0644\<close>

definition DefaultFileMountPath :: string where "DefaultFileMountPath = ''/home/kogito'' @ ''/config''"

section \<open>The first container of a deployment\<close>

abbreviation dep_podSpec :: "deployment \<Rightarrow> pod_spec" where
  "dep_podSpec d \<equiv> pt_spec (dep_template d)"

abbreviation dep_containers :: "deployment \<Rightarrow> container list" where
  "dep_containers d \<equiv> ps_containers (dep_podSpec d)"

abbreviation dep_volumes :: "deployment \<Rightarrow> volume list" where
  "dep_volumes d \<equiv> ps_volumes (dep_podSpec d)"

definition set_containers :: "container list \<Rightarrow> deployment \<Rightarrow> deployment" where
  "set_containers cs d = d\<lparr>dep_template := (dep_template d)\<lparr>pt_spec := (dep_podSpec d)\<lparr>ps_containers := cs\<rparr>\<rparr>\<rparr>"

definition set_volumes :: "volume list \<Rightarrow> deployment \<Rightarrow> deployment" where
  "set_volumes vs d = d\<lparr>dep_template := (dep_template d)\<lparr>pt_spec := (dep_podSpec d)\<lparr>ps_volumes := vs\<rparr>\<rparr>\<rparr>"

lemma set_containers_simps [simp]:
  "dep_containers (set_containers cs d) = cs" "dep_volumes (set_containers cs d) = dep_volumes d"
  "dep_meta (set_containers cs d) = dep_meta d" "set_containers cs' (set_containers cs d) = set_containers cs' d"
  "set_containers (dep_containers d) d = d"
  by (simp_all add: set_containers_def)

lemma set_volumes_simps [simp]:
  "dep_volumes (set_volumes vs d) = vs" "dep_containers (set_volumes vs d) = dep_containers d"
  "dep_meta (set_volumes vs d) = dep_meta d" "set_volumes vs' (set_volumes vs d) = set_volumes vs' d"
  "set_volumes (dep_volumes d) d = d"
  "set_containers cs (set_volumes vs d) = set_volumes vs (set_containers cs d)"
  by (simp_all add: set_volumes_def set_containers_def)

text \<open>\<^verbatim>\<open>Containers[0]\<close>: a deployment without containers makes the code panic.\<close>

definition with_container0 :: "(container \<Rightarrow> container) \<Rightarrow> deployment \<Rightarrow> gerr + deployment" where
  "with_container0 f d =
     (case dep_containers d of
        [] \<Rightarrow> Inl (Panic ''index out of range'')
      | c # cs \<Rightarrow> Inr (set_containers (f c # cs) d))"

lemma with_container0_Inr:
  "with_container0 f d = Inr d' \<longleftrightarrow> (\<exists>c cs. dep_containers d = c # cs \<and> d' = set_containers (f c # cs) d)"
  by (auto simp: with_container0_def split: list.splits)

section \<open>Volume mounts\<close>

definition isVolumeMountExists :: "deployment \<Rightarrow> string \<Rightarrow> gerr + bool" where
  "isVolumeMountExists d mountPath =
     (case dep_containers d of
        [] \<Rightarrow> Inl (Panic ''index out of range'')
      | c # cs \<Rightarrow> Inr (list_ex (\<lambda>vm. vm_mountPath vm = mountPath) (c_volumeMounts c)))"

definition mount_path :: "volume_reference \<Rightarrow> string \<Rightarrow> string" where
  "mount_path ref fileName =
     path_Join [if vr_mountPath ref = [] then DefaultFileMountPath else vr_mountPath ref, fileName]"

text \<open>The loop over the files of the config map or secret, \<^verbatim>\<open>for fileName := range cm.Data\<close>.\<close>

fun mount_files :: "volume_reference \<Rightarrow> string list \<Rightarrow> deployment \<Rightarrow> gerr + deployment" where
  "mount_files ref [] d = Inr d"
| "mount_files ref (fileName # files) d =
     bindR (isVolumeMountExists d (mount_path ref fileName)) (\<lambda>exists.
       if exists then mount_files ref files d
       else bindR (with_container0 (\<lambda>c. c\<lparr>c_volumeMounts := c_volumeMounts c @
              [\<lparr>vm_name = vr_name ref, vm_mountPath = mount_path ref fileName, vm_subPath = fileName\<rparr>]\<rparr>) d)
            (mount_files ref files))"

section \<open>Config maps, configmap.go\<close>

definition FetchConfigMap :: "('w, configmap) store_api \<Rightarrow> string \<Rightarrow> string \<Rightarrow> 'w \<Rightarrow> gerr + configmap option" where
  "FetchConfigMap A namespace name w = FetchWithKey A namespace name w"

definition FetchConfigMapsForLabel :: "('w, configmap) store_api \<Rightarrow> string \<Rightarrow> smap \<Rightarrow> 'w \<Rightarrow> gerr + configmap list" where
  "FetchConfigMapsForLabel A namespace labels w = ListWithNamespaceAndLabel A namespace labels w"

definition cm_volume_source :: "volume_reference \<Rightarrow> volume_source" where
  "cm_volume_source ref =
     ConfigMapSource (vr_name ref) []
       (Some (case vr_fileMode ref of None \<Rightarrow> ModeForPropertyFiles | Some m \<Rightarrow> m)) (vr_optional ref)"

definition cm_appendVolumeIntoDeployment :: "volume_reference \<Rightarrow> deployment \<Rightarrow> deployment" where
  "cm_appendVolumeIntoDeployment ref d =
     (if list_ex (\<lambda>v. vol_name v = vr_name ref) (dep_volumes d) then d
      else set_volumes (dep_volumes d @ [\<lparr>vol_name = vr_name ref, vol_source = cm_volume_source ref\<rparr>]) d)"

text \<open>\<^verbatim>\<open>cm.Data\<close> is read without a check that the config map was found.\<close>

definition cm_appendVolumeMountIntoDeployment ::
  "('w, configmap) store_api \<Rightarrow> volume_reference \<Rightarrow> deployment \<Rightarrow> 'w \<Rightarrow> gerr + deployment" where
  "cm_appendVolumeMountIntoDeployment A ref d w =
     bindR (FetchConfigMap A (om_namespace (dep_meta d)) (vr_name ref) w) (\<lambda>cm.
       case cm of
         None \<Rightarrow> Inl (Panic ''nil pointer dereference'')
       | Some cm \<Rightarrow> mount_files ref (map fst (cm_data cm)) d)"

definition cm_MountAsVolume ::
  "('w, configmap) store_api \<Rightarrow> deployment \<Rightarrow> volume_reference \<Rightarrow> 'w \<Rightarrow> gerr + deployment" where
  "cm_MountAsVolume A d ref w = cm_appendVolumeMountIntoDeployment A ref (cm_appendVolumeIntoDeployment ref d) w"

definition cm_MountAsEnvFrom :: "deployment \<Rightarrow> string \<Rightarrow> gerr + deployment" where
  "cm_MountAsEnvFrom d cmName =
     with_container0 (\<lambda>c.
       if list_ex (\<lambda>ef. ef_configMapRef ef = Some cmName) (c_envFrom c) then c
       else c\<lparr>c_envFrom := c_envFrom c @ [\<lparr>ef_configMapRef = Some cmName, ef_secretRef = None\<rparr>]\<rparr>) d"

section \<open>Secrets, secret.go\<close>

definition FetchSecret :: "('w, secret) store_api \<Rightarrow> string \<Rightarrow> string \<Rightarrow> 'w \<Rightarrow> gerr + secret option" where
  "FetchSecret A namespace name w = FetchWithKey A namespace name w"

definition MustFetchSecret :: "('w, secret) store_api \<Rightarrow> string \<Rightarrow> string \<Rightarrow> 'w \<Rightarrow> gerr + secret" where
  "MustFetchSecret A namespace name w =
     bindR (FetchSecret A namespace name w) (\<lambda>s. case s of
        None \<Rightarrow> Inl (PlainError (''Secret not found with name '' @ name @ '' in namespace '' @ namespace @ '' ''))
      | Some s \<Rightarrow> Inr s)"

definition secret_volume_source :: "volume_reference \<Rightarrow> volume_source" where
  "secret_volume_source ref =
     SecretSource (vr_name ref) []
       (Some (case vr_fileMode ref of None \<Rightarrow> ModeForPropertyFiles | Some m \<Rightarrow> m)) (vr_optional ref)"

definition secret_appendVolumeIntoDeployment :: "volume_reference \<Rightarrow> deployment \<Rightarrow> deployment" where
  "secret_appendVolumeIntoDeployment ref d =
     (if list_ex (\<lambda>v. vol_name v = vr_name ref) (dep_volumes d) then d
      else set_volumes (dep_volumes d @ [\<lparr>vol_name = vr_name ref, vol_source = secret_volume_source ref\<rparr>]) d)"

definition secret_appendVolumeMountIntoDeployment ::
  "('w, secret) store_api \<Rightarrow> volume_reference \<Rightarrow> deployment \<Rightarrow> 'w \<Rightarrow> gerr + deployment" where
  "secret_appendVolumeMountIntoDeployment A ref d w =
     bindR (FetchSecret A (om_namespace (dep_meta d)) (vr_name ref) w) (\<lambda>s.
       case s of
         None \<Rightarrow> Inl (Panic ''nil pointer dereference'')
       | Some s \<Rightarrow> mount_files ref (map fst (sec_data s)) d)"

definition secret_MountAsVolume ::
  "('w, secret) store_api \<Rightarrow> deployment \<Rightarrow> volume_reference \<Rightarrow> 'w \<Rightarrow> gerr + deployment" where
  "secret_MountAsVolume A d ref w =
     secret_appendVolumeMountIntoDeployment A ref (secret_appendVolumeIntoDeployment ref d) w"

definition secret_MountAsEnvFrom :: "deployment \<Rightarrow> string \<Rightarrow> gerr + deployment" where
  "secret_MountAsEnvFrom d name =
     with_container0 (\<lambda>c.
       if list_ex (\<lambda>ef. ef_secretRef ef = Some name) (c_envFrom c) then c
       else c\<lparr>c_envFrom := c_envFrom c @ [\<lparr>ef_configMapRef = None, ef_secretRef = Some name\<rparr>]\<rparr>) d"

section \<open>Lemmas on the mount loop\<close>

abbreviation mount_paths :: "container \<Rightarrow> string list" where
  "mount_paths c \<equiv> map vm_mountPath (c_volumeMounts c)"

text \<open>One step of the loop on the mounts of the container.\<close>

definition add_mount :: "volume_reference \<Rightarrow> string \<Rightarrow> container \<Rightarrow> container" where
  "add_mount ref f c =
     (if mount_path ref f \<in> set (mount_paths c) then c
      else c\<lparr>c_volumeMounts := c_volumeMounts c @
              [\<lparr>vm_name = vr_name ref, vm_mountPath = mount_path ref f, vm_subPath = f\<rparr>]\<rparr>)"

lemma mount_files_Nil_containers:
  "dep_containers d = [] \<Longrightarrow> mount_files ref files d =
     (if files = [] then Inr d else Inl (Panic ''index out of range''))"
  by (cases files) (simp_all add: isVolumeMountExists_def)

lemma mount_files_Cons_containers:
  "dep_containers d = c # cs \<Longrightarrow>
   mount_files ref files d = Inr (set_containers (fold (add_mount ref) files c # cs) d)"
proof (induction files arbitrary: d c)
  case Nil
  then show ?case using set_containers_simps(5) [of d] by simp
next
  case (Cons f files)
  let ?e = "list_ex (\<lambda>vm. vm_mountPath vm = mount_path ref f) (c_volumeMounts c)"
  have e: "?e \<longleftrightarrow> mount_path ref f \<in> set (mount_paths c)" by (force simp: list_ex_iff)
  show ?case
  proof (cases ?e)
    case True
    with Cons e show ?thesis by (simp add: isVolumeMountExists_def add_mount_def)
  next
    case False
    then have "add_mount ref f c = c\<lparr>c_volumeMounts := c_volumeMounts c @
              [\<lparr>vm_name = vr_name ref, vm_mountPath = mount_path ref f, vm_subPath = f\<rparr>]\<rparr>"
      using e by (simp add: add_mount_def)
    with False Cons.prems Cons.IH [of "set_containers (add_mount ref f c # cs) d" "add_mount ref f c"]
    show ?thesis by (simp add: isVolumeMountExists_def with_container0_def)
  qed
qed

lemma distinct_add_mount:
  "distinct (mount_paths c) \<Longrightarrow> distinct (mount_paths (add_mount ref f c))"
  by (simp add: add_mount_def)

lemma distinct_fold_add_mount:
  "distinct (mount_paths c) \<Longrightarrow> distinct (mount_paths (fold (add_mount ref) files c))"
  by (induction files arbitrary: c) (simp_all add: distinct_add_mount)

lemma paths_add_mount:
  "vm_mountPath ` set (c_volumeMounts (add_mount ref f c)) =
     insert (mount_path ref f) (vm_mountPath ` set (c_volumeMounts c))"
  by (auto simp: add_mount_def)

lemma paths_fold_add_mount:
  "vm_mountPath ` set (c_volumeMounts (fold (add_mount ref) files c)) =
     mount_path ref ` set files \<union> vm_mountPath ` set (c_volumeMounts c)"
  by (induction files arbitrary: c) (simp_all add: paths_add_mount)

lemma mounts_fold_prefix:
  "\<exists>new. c_volumeMounts (fold (add_mount ref) files c) = c_volumeMounts c @ new
      \<and> (\<forall>vm \<in> set new. vm_name vm = vr_name ref \<and> vm_mountPath vm = mount_path ref (vm_subPath vm))"
proof (induction files arbitrary: c)
  case (Cons f files)
  obtain new where new: "c_volumeMounts (fold (add_mount ref) files (add_mount ref f c)) = c_volumeMounts (add_mount ref f c) @ new"
    "\<forall>vm \<in> set new. vm_name vm = vr_name ref \<and> vm_mountPath vm = mount_path ref (vm_subPath vm)"
    using Cons.IH by blast
  obtain m where m: "c_volumeMounts (add_mount ref f c) = c_volumeMounts c @ m"
    "\<forall>vm \<in> set m. vm_name vm = vr_name ref \<and> vm_mountPath vm = mount_path ref (vm_subPath vm)"
    by (cases "mount_path ref f \<in> set (mount_paths c)") (auto simp: add_mount_def)
  with new show ?case by (intro exI [of _ "m @ new"]) auto
qed simp

lemma fold_add_mount_absorb:
  "mount_path ref ` set files \<subseteq> set (mount_paths c) \<Longrightarrow> fold (add_mount ref) files c = c"
  by (induction files) (simp_all add: add_mount_def)

lemma fold_add_mount_idem:
  "fold (add_mount ref) files (fold (add_mount ref) files c) = fold (add_mount ref) files c"
  by (rule fold_add_mount_absorb) (use paths_fold_add_mount [of ref files c] in auto)

section \<open>The interface the deployment reconciler relies on\<close>

text \<open>A mounter adds a named volume once, mounts every file its source holds, and adds one
  environment source per name.\<close>

locale config_mounter =
  fixes source :: "volume_reference \<Rightarrow> volume_source"
    and fetch_files :: "string \<Rightarrow> string \<Rightarrow> 'w \<Rightarrow> gerr + string list option"
    and mount_volume :: "deployment \<Rightarrow> volume_reference \<Rightarrow> 'w \<Rightarrow> gerr + deployment"
  assumes mount_volume:
    "mount_volume d ref w =
       bindR (fetch_files (om_namespace (dep_meta d)) (vr_name ref) w) (\<lambda>files. case files of
          None \<Rightarrow> Inl (Panic ''nil pointer dereference'')
        | Some files \<Rightarrow> mount_files ref files
            (if vr_name ref \<in> vol_name ` set (dep_volumes d) then d
             else set_volumes (dep_volumes d @ [\<lparr>vol_name = vr_name ref, vol_source = source ref\<rparr>]) d))"
begin

lemma mount_volume_result:
  assumes "fetch_files (om_namespace (dep_meta d)) (vr_name ref) w = Inr (Some files)"
    and "dep_containers d = c # cs"
  shows "mount_volume d ref w = Inr (set_containers (fold (add_mount ref) files c # cs)
       (if vr_name ref \<in> vol_name ` set (dep_volumes d) then d
        else set_volumes (dep_volumes d @ [\<lparr>vol_name = vr_name ref, vol_source = source ref\<rparr>]) d))"
  using assms by (auto simp: mount_volume mount_files_Cons_containers)

lemma mount_volume_idem:
  assumes "mount_volume d ref w = Inr d'" "dep_containers d = c # cs"
  shows "mount_volume d' ref w = Inr d'"
proof -
  obtain files where files: "fetch_files (om_namespace (dep_meta d)) (vr_name ref) w = Inr (Some files)"
    using assms(1) by (auto simp: mount_volume bindR_eq_Inr split: option.splits)
  note d' = mount_volume_result [OF files assms(2)]
  have "dep_containers d' = fold (add_mount ref) files c # cs" "om_namespace (dep_meta d') = om_namespace (dep_meta d)"
    "vr_name ref \<in> vol_name ` set (dep_volumes d')"
    using d' assms(1) by (auto split: if_splits)
  then have "mount_volume d' ref w = Inr (set_containers (fold (add_mount ref) files (fold (add_mount ref) files c) # cs) d')"
    using files by (simp add: mount_volume_result)
  then show ?thesis
    using \<open>dep_containers d' = _\<close> set_containers_simps(5) [of d'] by (simp add: fold_add_mount_idem)
qed

lemma mount_volume_spec:
  assumes "mount_volume d ref w = Inr d'" "dep_containers d = c # cs"
    and "fetch_files (om_namespace (dep_meta d)) (vr_name ref) w = Inr (Some files)"
  shows "\<exists>c'. dep_containers d' = c' # cs
      \<and> set (mount_paths c') = mount_path ref ` set files \<union> set (mount_paths c)
      \<and> (distinct (mount_paths c) \<longrightarrow> distinct (mount_paths c'))
      \<and> vr_name ref \<in> vol_name ` set (dep_volumes d')
      \<and> (distinct (map vol_name (dep_volumes d)) \<longrightarrow> distinct (map vol_name (dep_volumes d')))"
  using mount_volume_result [OF assms(3,2)] assms(1)
  by (auto simp: paths_fold_add_mount distinct_fold_add_mount split: if_splits)

lemma mount_volume_missing:
  "fetch_files (om_namespace (dep_meta d)) (vr_name ref) w = Inr None \<Longrightarrow>
   mount_volume d ref w = Inl (Panic ''nil pointer dereference'')"
  by (simp add: mount_volume)

end

definition cm_files :: "('w, configmap) store_api \<Rightarrow> string \<Rightarrow> string \<Rightarrow> 'w \<Rightarrow> gerr + string list option" where
  "cm_files A ns n w = bindR (FetchConfigMap A ns n w) (\<lambda>cm. Inr (map_option (\<lambda>cm. map fst (cm_data cm)) cm))"

definition secret_files :: "('w, secret) store_api \<Rightarrow> string \<Rightarrow> string \<Rightarrow> 'w \<Rightarrow> gerr + string list option" where
  "secret_files A ns n w = bindR (FetchSecret A ns n w) (\<lambda>s. Inr (map_option (\<lambda>s. map fst (sec_data s)) s))"

lemma list_ex_vol_name: "list_ex (\<lambda>v. vol_name v = n) vs \<longleftrightarrow> n \<in> vol_name ` set vs"
  by (auto simp: list_ex_iff)

interpretation cm_mounter: config_mounter cm_volume_source "cm_files A" "cm_MountAsVolume A" for A
  by unfold_locales
    (auto simp: cm_MountAsVolume_def cm_appendVolumeMountIntoDeployment_def cm_appendVolumeIntoDeployment_def
      cm_files_def list_ex_vol_name bindR_def split: sum.splits option.splits)

interpretation secret_mounter: config_mounter secret_volume_source "secret_files A" "secret_MountAsVolume A" for A
  by unfold_locales
    (auto simp: secret_MountAsVolume_def secret_appendVolumeMountIntoDeployment_def secret_appendVolumeIntoDeployment_def
      secret_files_def list_ex_vol_name bindR_def split: sum.splits option.splits)

section \<open>Properties\<close>



text \<open>A config map or secret that is not in the cluster makes the mount crash, even one whose
  reference says it is optional: the handlers read the data of the object they did not find.\<close>

theorem MountAsVolume_missing_panics:
  assumes "sa_get A (om_namespace (dep_meta d)) (vr_name ref) w = Inl (ApiError SNotFound m)"
    and "sa_get B (om_namespace (dep_meta d)) (vr_name ref) w = Inl (ApiError SNotFound m')"
  shows "cm_MountAsVolume A d ref w = Inl (Panic ''nil pointer dereference'')
     \<and> secret_MountAsVolume B d ref w = Inl (Panic ''nil pointer dereference'')"
  using assms cm_mounter.mount_volume_missing [of A d ref w] secret_mounter.mount_volume_missing [of B d ref w]
  by (simp add: cm_files_def secret_files_def FetchConfigMap_def FetchSecret_def FetchWithKey_def)

lemma MountAsVolume_missing_panics_witness:
  "cm_MountAsVolume (lens_api fst (\<lambda>x p. (x, snd p)) (mem_api cm_meta)) sample_deployment
     \<lparr>vr_name = ''cm'', vr_mountPath = [], vr_fileMode = None, vr_optional = Some True\<rparr> ([], [] :: secret list)
   = Inl (Panic ''nil pointer dereference'')"
  using MountAsVolume_missing_panics
    [of "lens_api fst (\<lambda>x p. (x, snd p)) (mem_api cm_meta)" sample_deployment
      "\<lparr>vr_name = ''cm'', vr_mountPath = [], vr_fileMode = None, vr_optional = Some True\<rparr>" "([], [])" "''cm''"
      "lens_api snd (\<lambda>x p. (fst p, x)) (mem_api sec_meta)" "''cm''"]
  by (simp add: mem_simps)

end
