(* ===== verification/Framework_Util.thy ===== *)
theory Framework_Util
  imports Kube_Types
begin

text \<open>
  The helpers of \<^verbatim>\<open>core/framework/util\<close> (string slices, string maps, environment of the process) and the
  small predicates of \<^verbatim>\<open>core/framework\<close>.  The process environment (\<^verbatim>\<open>os.LookupEnv\<close>) and the MD5 digest are
  parameters.
\<close>

section \<open>String slices, util/arrays.go\<close>

definition Contains :: "string \<Rightarrow> string list \<Rightarrow> bool" where
  "Contains s array = (if length s = 0 then False else List.member array s)"

definition ArrayToSet :: "string list \<Rightarrow> (string \<times> bool) list" where
  "ArrayToSet array = fold (\<lambda>e m. AList.update e True m) array []"

definition ContainsAll :: "string list \<Rightarrow> string list \<Rightarrow> bool" where
  "ContainsAll array1 array2 =
     (let set1 = ArrayToSet array1 in list_all (\<lambda>e. map_of set1 e = Some True) array2)"

text \<open>The slice is behind a pointer; the call returns whether it changed it.\<close>

definition Remove :: "string \<Rightarrow> string list option \<Rightarrow> bool \<times> string list option" where
  "Remove s array =
     (case array of None \<Rightarrow> (False, None)
      | Some items \<Rightarrow>
          (case find_index (\<lambda>item. s = item) items of
             None \<Rightarrow> (False, Some items)
           | Some i \<Rightarrow> (True, Some (remove_at i items))))"

section \<open>String maps, util/maps.go\<close>

definition MapContainsMap :: "smap \<Rightarrow> smap \<Rightarrow> bool" where
  "MapContainsMap source expected =
     (if source = [] \<or> expected = [] then False
      else list_all (\<lambda>(k, v). smap_get source k = v) expected)"

definition FromMapToString :: "smap \<Rightarrow> string" where
  "FromMapToString labels =
     (let keys = sort (map fst labels)
      in TrimSuffix (concat (map (\<lambda>k. k @ ''='' @ smap_get labels k @ '','') keys)) '','')"

definition AppendToStringMap :: "smap \<Rightarrow> smap \<Rightarrow> smap" where
  "AppendToStringMap source dest = fold (\<lambda>(k, v). smap_put k v) source dest"

definition AddToMap :: "string \<Rightarrow> string \<Rightarrow> smap \<Rightarrow> smap" where
  "AddToMap k v dest = smap_put k v dest"

definition MapContains :: "smap \<Rightarrow> string \<Rightarrow> string \<Rightarrow> bool" where
  "MapContains source k v \<longleftrightarrow> smap_get source k = v"

section \<open>Process environment and digests, util/envs.go, util/hash.go, util/kogitoutil.go\<close>

definition GetOSEnv :: "(string \<Rightarrow> string option) \<Rightarrow> string \<Rightarrow> string \<Rightarrow> string" where
  "GetOSEnv lookupEnv k fallback = (case lookupEnv k of None \<Rightarrow> fallback | Some v \<Rightarrow> v)"

definition ParseBool :: "string \<Rightarrow> bool option" where
  "ParseBool s =
     (if List.member [''1'', ''t'', ''T'', ''TRUE'', ''true'', ''True''] s then Some True
      else if List.member [''0'', ''f'', ''F'', ''FALSE'', ''false'', ''False''] s then Some False
      else None)"

definition GetBoolOSEnv :: "(string \<Rightarrow> string option) \<Rightarrow> string \<Rightarrow> bool" where
  "GetBoolOSEnv lookupEnv k =
     (case ParseBool (GetOSEnv lookupEnv k ''false'') of None \<Rightarrow> False | Some b \<Rightarrow> b)"

text \<open>The buffer is filled in the order in which the map is ranged over.\<close>

definition GenerateMD5Hash :: "(string \<Rightarrow> string) \<Rightarrow> smap \<Rightarrow> string" where
  "GenerateMD5Hash md5hex source =
     (if source = [] then []
      else md5hex (concat (map (\<lambda>(k, v). k @ ''='' @ [CHR 0x22] @ v @ [CHR 0x22, CHR 0x0A]) source)))"

section \<open>Lemmas\<close>

lemma Contains_iff: "Contains s array \<longleftrightarrow> s \<noteq> [] \<and> s \<in> set array"
  by (simp add: Contains_def)

lemma map_of_ArrayToSet: "map_of (ArrayToSet array) k = (if k \<in> set array then Some True else None)"
proof -
  have "map_of (fold (\<lambda>e m. AList.update e True m) array m) k = (if k \<in> set array then Some True else map_of m k)" for m
    by (induction array arbitrary: m) (auto simp: update_conv')
  then show ?thesis by (simp add: ArrayToSet_def)
qed

lemma ContainsAll_iff: "ContainsAll array1 array2 \<longleftrightarrow> set array2 \<subseteq> set array1"
  by (auto simp: ContainsAll_def list_all_iff map_of_ArrayToSet)

lemma Remove_spec:
  "Remove s (Some items) =
     (if s \<in> set items then (True, Some (remove1 s items)) else (False, Some items))"
proof (cases "find_index (\<lambda>item. s = item) items")
  case None
  then have "s \<notin> set items" by (auto simp: find_index_None)
  with None show ?thesis by (simp add: Remove_def)
next
  case (Some i)
  then obtain ys zs where "items = ys @ s # zs" "length ys = i" "s \<notin> set ys"
    using find_index_split [OF Some] by auto
  then show ?thesis using Some by (auto simp: Remove_def remove1_append)
qed

text \<open>Appending a map to another through the keyed interface.\<close>

lemma map_of_AppendToStringMap:
  assumes "distinct (map fst source)"
  shows "map_of (AppendToStringMap source dest) = map_of dest ++ map_of source"
proof
  fix k
  have *: "map_option (Pair k) (map_of (AppendToStringMap source dest) k)
      = map_option (Pair k) ((map_of dest ++ map_of source) k)"
  proof (cases "map_of source k")
    case None
    then have "k \<notin> fst ` set source" by (simp add: map_of_eq_None_iff)
    from smap.get_fold_put_absent [OF this] None show ?thesis
      by (simp add: AppendToStringMap_def map_add_def)
  next
    case (Some v)
    then have "(k, v) \<in> set source" by (rule map_of_SomeD)
    from smap.get_fold_put_mem [OF this assms] Some show ?thesis
      by (simp add: AppendToStringMap_def map_add_def)
  qed
  show "map_of (AppendToStringMap source dest) k = (map_of dest ++ map_of source) k"
    using * by (auto simp: map_add_def map_option_case split: option.splits)
qed

lemma FromMapToString_order:
  assumes "distinct (map fst m1)" "distinct (map fst m2)" "map_of m1 = map_of m2"
  shows "FromMapToString m1 = FromMapToString m2"
proof -
  have "set (map fst m1) = set (map fst m2)"
    using arg_cong [OF assms(3), of dom] by (simp add: dom_map_of_conv_image_fst)
  then have "sort (map fst m1) = sort (map fst m2)"
    using assms(1,2) by (metis sorted_list_of_set_sort_remdups distinct_remdups_id)
  then show ?thesis
    using assms(3) by (simp add: FromMapToString_def smap_get_def Let_def)
qed

end
