(* ===== verification/Infra_Types.thy ===== *)
theory Infra_Types
  imports Service_Types Config_Mounts Framework_Util
begin

text \<open>
  The custom resource KogitoInfra, \<^verbatim>\<open>apis/app/v1beta1/kogitoinfra_types.go\<close>, and what the services ask of it
  through the infra manager, \<^verbatim>\<open>core/manager/infra_manager.go\<close>.
\<close>

section \<open>The resource\<close>

record infra_resource =
  ir_apiVersion :: string
  ir_kind :: string
  ir_namespace :: string
  ir_name :: string

record infra_spec =
  is_resource :: "infra_resource option"
  is_infraProperties :: smap
  is_envs :: "env_var list"
  is_configMapEnvFrom :: "string list"
  is_configMapVolumes :: "volume_reference list"
  is_secretEnvFrom :: "string list"
  is_secretVolumes :: "volume_reference list"

record infra_status =
  ist_conditions :: "condition list option"
  ist_envs :: "env_var list"
  ist_configMapEnvFrom :: "string list"
  ist_configMapVolumes :: "volume_reference list"
  ist_secretEnvFrom :: "string list"
  ist_secretVolumes :: "volume_reference list"

record kogito_infra =
  ki_meta :: object_meta
  ki_spec :: infra_spec
  ki_status :: infra_status

abbreviation ki_name :: "kogito_infra \<Rightarrow> string" where "ki_name i \<equiv> om_name (ki_meta i)"
abbreviation ki_namespace :: "kogito_infra \<Rightarrow> string" where "ki_namespace i \<equiv> om_namespace (ki_meta i)"

definition IsResourceEmpty :: "infra_spec \<Rightarrow> bool" where
  "IsResourceEmpty sp \<longleftrightarrow> is_resource sp = None"

definition AddInfraProperties :: "smap \<Rightarrow> infra_spec \<Rightarrow> infra_spec" where
  "AddInfraProperties props sp =
     sp\<lparr>is_infraProperties := fold (\<lambda>(k, v). smap_put k v) props (is_infraProperties sp)\<rparr>"

definition AddEnvs :: "env_var list \<Rightarrow> infra_status \<Rightarrow> infra_status" where
  "AddEnvs envs st = st\<lparr>ist_envs := ist_envs st @ envs\<rparr>"

definition AddConfigMapEnvFromReferences :: "string \<Rightarrow> infra_status \<Rightarrow> infra_status" where
  "AddConfigMapEnvFromReferences n st = st\<lparr>ist_configMapEnvFrom := ist_configMapEnvFrom st @ [n]\<rparr>"

definition AddConfigMapVolumeReference :: "string \<Rightarrow> string \<Rightarrow> int option \<Rightarrow> bool option \<Rightarrow> infra_status \<Rightarrow> infra_status" where
  "AddConfigMapVolumeReference n mountPath fileMode opt st =
     st\<lparr>ist_configMapVolumes := ist_configMapVolumes st @
        [\<lparr>vr_name = n, vr_mountPath = mountPath, vr_fileMode = fileMode, vr_optional = opt\<rparr>]\<rparr>"

definition AddSecretEnvFromReferences :: "string \<Rightarrow> infra_status \<Rightarrow> infra_status" where
  "AddSecretEnvFromReferences n st = st\<lparr>ist_secretEnvFrom := ist_secretEnvFrom st @ [n]\<rparr>"

definition AddSecretVolumeReference :: "string \<Rightarrow> string \<Rightarrow> int option \<Rightarrow> bool option \<Rightarrow> infra_status \<Rightarrow> infra_status" where
  "AddSecretVolumeReference n mountPath fileMode opt st =
     st\<lparr>ist_secretVolumes := ist_secretVolumes st @
        [\<lparr>vr_name = n, vr_mountPath = mountPath, vr_fileMode = fileMode, vr_optional = opt\<rparr>]\<rparr>"

section \<open>The infra manager, manager/infra\_manager.go\<close>

text \<open>The handler that fetches an instance, \<^verbatim>\<open>FetchKogitoInfraInstance\<close>, is passed in: one per API group.\<close>

type_synonym 'w infra_handler = "string \<Rightarrow> string \<Rightarrow> 'w \<Rightarrow> gerr + kogito_infra option"  \<comment> \<open>namespace, name\<close>

definition MustFetchKogitoInfraInstance :: "'w infra_handler \<Rightarrow> string \<Rightarrow> string \<Rightarrow> 'w \<Rightarrow> gerr + kogito_infra" where
  "MustFetchKogitoInfraInstance H namespace name w =
     bindR (H namespace name w) (\<lambda>i. case i of
        None \<Rightarrow> Inl (PlainError (''kogito Infra resource with name '' @ name @ '' not found in namespace '' @ namespace))
      | Some i \<Rightarrow> Inr i)"

definition IsKogitoInfraReady :: "cond_api \<Rightarrow> 'w infra_handler \<Rightarrow> string \<Rightarrow> string \<Rightarrow> 'w \<Rightarrow> gerr + bool" where
  "IsKogitoInfraReady C H namespace name w =
     bindR (MustFetchKogitoInfraInstance H namespace name w) (\<lambda>i.
       Inr (case ist_conditions (ki_status i) of
              None \<Rightarrow> False
            | Some cs \<Rightarrow> IsStatusConditionTrue C cs ''Configured''))"

definition GetKogitoInfraFailureConditionReason ::
  "cond_api \<Rightarrow> 'w infra_handler \<Rightarrow> string \<Rightarrow> string \<Rightarrow> 'w \<Rightarrow> gerr + string" where
  "GetKogitoInfraFailureConditionReason C H namespace name w =
     bindR (MustFetchKogitoInfraInstance H namespace name w) (\<lambda>i.
       Inr (case ist_conditions (ki_status i) of
              None \<Rightarrow> []
            | Some cs \<Rightarrow> (case ca_find C cs ''Configured'' of
                  None \<Rightarrow> []
                | Some c \<Rightarrow> if cd_status c = CFalse then cd_reason c else [])))"

end
