(* ===== verification/Reconciliation_Error.thy ===== *)
theory Reconciliation_Error
  imports Kube_Types
begin

text \<open>
  The errors a service reconciliation raises and what the controller makes of them,
  \<^verbatim>\<open>core/infrastructure/reconciliation_error.go\<close>.  Durations are milliseconds.
\<close>

section \<open>Constants\<close>

abbreviation (input) KogitoInfraNotReadyReason :: string where "KogitoInfraNotReadyReason \<equiv> ''KogitoInfraNotReadyReason''"
abbreviation (input) ServiceReconciliationFailure :: string where "ServiceReconciliationFailure \<equiv> ''ReconciliationFailure''"
abbreviation (input) MessagingIntegrationFailureReason :: string where "MessagingIntegrationFailureReason \<equiv> ''MessagingProvisionFailure''"
abbreviation (input) MonitoringIntegrationFailureReason :: string where "MonitoringIntegrationFailureReason \<equiv> ''MonitoringIntegrationFailure''"
abbreviation (input) InternalServiceNotReachable :: string where "InternalServiceNotReachable \<equiv> ''InternalServiceNotReachable''"
abbreviation (input) SuccessfulDeployedReason :: string where "SuccessfulDeployedReason \<equiv> ''AtLeastOnePodAvailable''"
abbreviation (input) FailedDeployedReason :: string where "FailedDeployedReason \<equiv> ''NoPodAvailable''"
abbreviation (input) ProvisioningInProgressReason :: string where "ProvisioningInProgressReason \<equiv> ''RequestedReplicasNotEqualToAvailableReplicas''"
abbreviation (input) FailedProvisioningReason :: string where "FailedProvisioningReason \<equiv> ''UnrecoverableError''"
abbreviation (input) FinishedProvisioningReason :: string where "FinishedProvisioningReason \<equiv> ''RequestedReplicasEqualToAvailableReplicas''"
abbreviation (input) TrustStoreMountFailureReason :: string where "TrustStoreMountFailureReason \<equiv> ''TrustStoreMountFailure''"
abbreviation (input) DeploymentNotAvailable :: string where "DeploymentNotAvailable \<equiv> ''DeploymentNotAvailable''"
abbreviation (input) ProcessingImageStreamDelta :: string where "ProcessingImageStreamDelta \<equiv> ''ProcessingImageStreamDelta''"
abbreviation (input) ProcessingProtoBufConfigMapDelta :: string where "ProcessingProtoBufConfigMapDelta \<equiv> ''ProcessingProtoBufConfigMapDelta''"
abbreviation (input) ImageNotFound :: string where "ImageNotFound \<equiv> ''ImageNotFound''"
abbreviation (input) RouteCreationFailureReason :: string where "RouteCreationFailureReason \<equiv> ''RouteCreationFailure''"

definition ReconciliationAfterThreeMinutesDuration :: nat where "ReconciliationAfterThreeMinutesDuration = 180000"
definition ReconciliationAfterThirty :: nat where "ReconciliationAfterThirty = 30000"
definition ReconciliationAfterTen :: nat where "ReconciliationAfterTen = 10000"
definition ReconciliationAfterFive :: nat where "ReconciliationAfterFive = 5000"
definition ReconciliationAfterOneMinuteDuration :: nat where "ReconciliationAfterOneMinuteDuration = 60000"

lemmas interval_defs = ReconciliationAfterThreeMinutesDuration_def ReconciliationAfterThirty_def
  ReconciliationAfterTen_def ReconciliationAfterFive_def ReconciliationAfterOneMinuteDuration_def

section \<open>Errors\<close>

fun error_message :: "gerr \<Rightarrow> string" where
  "error_message (ApiError s m) = m"
| "error_message (ReconcileError r i m) = m"
| "error_message (InfraError r m) = m"
| "error_message (PlainError m) = m"
| "error_message (Panic m) = m"

definition ErrorForInfraNotReady :: "string \<Rightarrow> string \<Rightarrow> string \<Rightarrow> gerr" where
  "ErrorForInfraNotReady serviceName infraName conditionReason =
     ReconcileError KogitoInfraNotReadyReason ReconciliationAfterOneMinuteDuration
       ([CHR ''K''] @ ''ogitoService '' @ [CHR 0x27] @ serviceName @ [CHR 0x27] @
        '' is waiting for infra dependency; skipping deployment; KogitoInfra not ready: '' @ infraName @
        ''; Status: '' @ conditionReason)"

definition ErrorForMessaging :: "gerr \<Rightarrow> gerr" where
  "ErrorForMessaging e = ReconcileError MessagingIntegrationFailureReason ReconciliationAfterThirty (error_message e)"

definition ErrorForMonitoring :: "gerr \<Rightarrow> gerr" where
  "ErrorForMonitoring e = ReconcileError MonitoringIntegrationFailureReason ReconciliationAfterTen (error_message e)"

definition ErrorForDashboards :: "gerr \<Rightarrow> gerr" where
  "ErrorForDashboards e = ReconcileError MonitoringIntegrationFailureReason ReconciliationAfterThirty (error_message e)"

definition ErrorForServiceNotReachable :: "int \<Rightarrow> string \<Rightarrow> string \<Rightarrow> gerr" where
  "ErrorForServiceNotReachable statusCode requestURL method =
     ReconcileError InternalServiceNotReachable ReconciliationAfterThreeMinutesDuration
       (''Received NOT expected status code '' @ Itoa statusCode @ '' while making a '' @ method @
        '' request to '' @ requestURL @ '' '')"

definition ErrorForTrustStoreMount :: "string \<Rightarrow> gerr" where
  "ErrorForTrustStoreMount message =
     ReconcileError TrustStoreMountFailureReason ReconciliationAfterThirty message"

definition ErrorForDeploymentNotReachable :: "string \<Rightarrow> gerr" where
  "ErrorForDeploymentNotReachable inst =
     ReconcileError DeploymentNotAvailable ReconciliationAfterThirty
       (''Deployment is not yet available for service instance '' @ inst @ '' '')"

definition ErrorForProcessingImageStreamDelta :: gerr where
  "ErrorForProcessingImageStreamDelta =
     ReconcileError ProcessingImageStreamDelta ReconciliationAfterTen ''Processing Image stream ''"

definition ErrorForProcessingProtoBufConfigMapDelta :: gerr where
  "ErrorForProcessingProtoBufConfigMapDelta =
     ReconcileError ProcessingProtoBufConfigMapDelta ReconciliationAfterFive ''Processing Protobuf configmap ''"

definition ErrorForImageNotFound :: gerr where
  "ErrorForImageNotFound = ReconcileError ImageNotFound ReconciliationAfterTen ''Image not found ''"

text \<open>This one leaves the interval at its zero value.\<close>

definition ErrorForRouteCreation :: "gerr \<Rightarrow> gerr" where
  "ErrorForRouteCreation e =
     ReconcileError RouteCreationFailureReason 0
       (error_message e @ ''; Note the option to disable routes and provide manual route if needed'')"

section \<open>The handler\<close>

record ctrl_result =
  res_requeue :: bool
  res_requeueAfter :: nat

definition no_requeue :: ctrl_result where
  "no_requeue = \<lparr>res_requeue = False, res_requeueAfter = 0\<rparr>"

definition IsReconciliationError :: "gerr \<Rightarrow> bool" where
  "IsReconciliationError e = (case e of ReconcileError r i m \<Rightarrow> True | _ \<Rightarrow> False)"

definition GetReconcileResultFor :: "gerr option \<Rightarrow> ctrl_result \<times> gerr option" where
  "GetReconcileResultFor err =
     (case err of
        Some (ReconcileError r i m) \<Rightarrow> (no_requeue\<lparr>res_requeueAfter := i\<rparr>, None)
      | _ \<Rightarrow> (no_requeue, err))"

definition GetReasonForError :: "gerr option \<Rightarrow> string" where
  "GetReasonForError err =
     (case err of
        None \<Rightarrow> []
      | Some (ReconcileError r i m) \<Rightarrow> r
      | Some _ \<Rightarrow> ServiceReconciliationFailure)"

section \<open>Interface\<close>

text \<open>The controllers hand the error of a run to a classifier that decides on the answer to the
  controller runtime: which schedules another run when it gets an error, a requeue flag or a positive
  delay, and otherwise waits for the next event.\<close>

definition retried :: "ctrl_result \<times> gerr option \<Rightarrow> bool" where
  "retried r \<longleftrightarrow> snd r \<noteq> None \<or> res_requeue (fst r) \<or> res_requeueAfter (fst r) > 0"

locale error_classifier =
  fixes delay :: "gerr \<Rightarrow> nat option"  \<comment> \<open>the delay of an error the classifier absorbs\<close>
    and result_for :: "gerr option \<Rightarrow> ctrl_result \<times> gerr option"
  assumes success: "result_for None = (no_requeue, None)"
    and absorbed: "delay e = Some d \<Longrightarrow> result_for (Some e) = (no_requeue\<lparr>res_requeueAfter := d\<rparr>, None)"
    and passed_on: "delay e = None \<Longrightarrow> result_for (Some e) = (no_requeue, Some e)"
begin

lemma not_retried_iff: "\<not> retried (result_for err) \<longleftrightarrow> err = None \<or> (\<exists>e. err = Some e \<and> delay e = Some 0)"
proof (cases err)
  case (Some e)
  then show ?thesis
    by (cases "delay e") (auto simp: retried_def absorbed passed_on no_requeue_def)
qed (simp add: retried_def success no_requeue_def)

lemma reported_error_unchanged: "snd (result_for err) = Some e \<Longrightarrow> err = Some e"
proof (cases err)
  case (Some e')
  then show "snd (result_for err) = Some e \<Longrightarrow> err = Some e"
    by (cases "delay e'") (auto simp: absorbed passed_on)
qed (simp add: success)

end

definition reconciliation_delay :: "gerr \<Rightarrow> nat option" where
  "reconciliation_delay e = (case e of ReconcileError r i m \<Rightarrow> Some i | _ \<Rightarrow> None)"

interpretation service_errors: error_classifier reconciliation_delay GetReconcileResultFor
  by unfold_locales (auto simp: GetReconcileResultFor_def reconciliation_delay_def split: gerr.splits)

section \<open>Properties\<close>

text \<open>C25: which failures of a service reconciliation are retried.  The runtime is asked for another run
  for every error but a reconciliation error whose interval is zero, and among the errors the
  constructors build only \<^term>\<open>ErrorForRouteCreation\<close> has that interval: a route that could not be
  created is reported to nobody and never retried.\<close>

theorem GetReconcileResultFor_retry:
  "(retried (GetReconcileResultFor (Some e)) \<longleftrightarrow> reconciliation_delay e \<noteq> Some 0)
   \<and> \<not> retried (GetReconcileResultFor (Some (ErrorForRouteCreation e)))
   \<and> list_all (\<lambda>e'. retried (GetReconcileResultFor (Some e')) \<and> snd (GetReconcileResultFor (Some e')) = None)
       [ErrorForInfraNotReady a b c, ErrorForMessaging e, ErrorForMonitoring e, ErrorForDashboards e,
        ErrorForServiceNotReachable n a b, ErrorForTrustStoreMount a, ErrorForDeploymentNotReachable a,
        ErrorForProcessingImageStreamDelta, ErrorForProcessingProtoBufConfigMapDelta, ErrorForImageNotFound]"
proof -
  have "retried (GetReconcileResultFor (Some e)) \<longleftrightarrow> reconciliation_delay e \<noteq> Some 0"
    using service_errors.not_retried_iff [of "Some e"] by auto
  then show ?thesis
    by (simp add: ErrorForInfraNotReady_def ErrorForMessaging_def ErrorForMonitoring_def ErrorForDashboards_def
        ErrorForServiceNotReachable_def ErrorForTrustStoreMount_def ErrorForDeploymentNotReachable_def
        ErrorForProcessingImageStreamDelta_def ErrorForProcessingProtoBufConfigMapDelta_def
        ErrorForImageNotFound_def ErrorForRouteCreation_def GetReconcileResultFor_def retried_def
        no_requeue_def interval_defs)
qed

end
