(* ===== verification/Service_Status.thy ===== *)
theory Service_Status
  imports Service_Types Reconciliation_Error
begin

text \<open>
  The status of a service after a reconciliation, \<^verbatim>\<open>core/kogitoservice/status.go\<close>, with the handlers of
  deployments and routes it reads (\<^verbatim>\<open>core/infrastructure/deployment.go\<close>, \<^verbatim>\<open>route.go\<close>).  The handler works
  on the instance in memory and writes it back at the end; a step of it is a call whose state is the
  instance, reading the cluster.
\<close>

section \<open>Deployments, infrastructure/deployment.go\<close>

definition FetchDeployment :: "'w cluster \<Rightarrow> string \<Rightarrow> string \<Rightarrow> 'w \<Rightarrow> gerr + deployment option" where
  "FetchDeployment K namespace name w = FetchWithKey (cl_deployments K) namespace name w"

definition FetchDeploymentList :: "'w cluster \<Rightarrow> string \<Rightarrow> 'w \<Rightarrow> gerr + deployment list" where
  "FetchDeploymentList K namespace w = ListWithNamespace (cl_deployments K) namespace w"

definition MustFetchDeployment :: "'w cluster \<Rightarrow> string \<Rightarrow> string \<Rightarrow> 'w \<Rightarrow> gerr + deployment" where
  "MustFetchDeployment K namespace name w =
     bindR (FetchDeployment K namespace name w) (\<lambda>d. case d of
        None \<Rightarrow> Inl (PlainError (''deployment not found with name '' @ name @ '' in namespace '' @ namespace))
      | Some d \<Rightarrow> Inr d)"

definition IsDeploymentAvailable :: "'w cluster \<Rightarrow> string \<Rightarrow> string \<Rightarrow> 'w \<Rightarrow> gerr + bool" where
  "IsDeploymentAvailable K namespace name w =
     bindR (FetchDeployment K namespace name w) (\<lambda>d. case d of
        None \<Rightarrow> Inr False
      | Some d \<Rightarrow> Inr (ds_availableReplicas (dep_status d) > 0))"

definition FetchReadyReplicas :: "'w cluster \<Rightarrow> string \<Rightarrow> string \<Rightarrow> 'w \<Rightarrow> gerr + int" where
  "FetchReadyReplicas K namespace name w =
     bindR (FetchDeployment K namespace name w) (\<lambda>d. case d of
        None \<Rightarrow> Inr 0
      | Some d \<Rightarrow> Inr (ds_availableReplicas (dep_status d)))"

section \<open>Routes, infrastructure/route.go\<close>

definition FetchRoute :: "'w cluster \<Rightarrow> string \<Rightarrow> string \<Rightarrow> 'w \<Rightarrow> gerr + route option" where
  "FetchRoute K namespace name w = FetchWithKey (cl_routes K) namespace name w"

definition GetHostFromRoute :: "'w cluster \<Rightarrow> string \<Rightarrow> string \<Rightarrow> 'w \<Rightarrow> gerr + string" where
  "GetHostFromRoute K namespace name w =
     bindR (FetchRoute K namespace name w) (\<lambda>r. Inr (case r of None \<Rightarrow> [] | Some r \<Rightarrow> rt_host r))"

text \<open>The first condition of type Admitted over all ingresses decides.\<close>

definition ValidateRouteStatus :: "'w cluster \<Rightarrow> string \<Rightarrow> string \<Rightarrow> 'w \<Rightarrow> gerr + bool" where
  "ValidateRouteStatus K namespace name w =
     bindR (FetchRoute K namespace name w) (\<lambda>r. case r of
        None \<Rightarrow> Inr False
      | Some r \<Rightarrow>
          (case find (\<lambda>c. rc_type c = ''Admitted'') (concat (rt_ingress r)) of
             None \<Rightarrow> Inr False
           | Some c \<Rightarrow> if rc_status c = CFalse then Inl (PlainError (rc_message c)) else Inr True))"

definition CreateRoute :: "kogito_service \<Rightarrow> route" where
  "CreateRoute inst =
     \<lparr>rt_meta = (mk_meta (ks_name inst) (ks_namespace inst))\<lparr>om_labels := [(''app'', ks_name inst)]\<rparr>,
      rt_host = [], rt_targetPort = StrVal ''http'', rt_toKind = ''Service'', rt_toName = ks_name inst,
      rt_ingress = []\<rparr>"

section \<open>Conditions, status.go\<close>

abbreviation (input) DeployedConditionType :: string where "DeployedConditionType \<equiv> ''Deployed''"
abbreviation (input) ProvisioningConditionType :: string where "ProvisioningConditionType \<equiv> ''Provisioning''"
abbreviation (input) FailedConditionType :: string where "FailedConditionType \<equiv> ''Failed''"

definition newDeployedCondition :: "cond_status \<Rightarrow> condition" where
  "newDeployedCondition status =
     mk_cond DeployedConditionType status
       (if status = CFalse then FailedDeployedReason else SuccessfulDeployedReason) []"

definition newProvisioningCondition :: "cond_status \<Rightarrow> string \<Rightarrow> condition" where
  "newProvisioningCondition status reason = mk_cond ProvisioningConditionType status reason []"

definition newFailedCondition :: "cond_status \<Rightarrow> string \<Rightarrow> string \<Rightarrow> condition" where
  "newFailedCondition status reason message = mk_cond FailedConditionType status reason message"

text \<open>The conditions behind the pointer of the status; the entry point makes it non-nil.\<close>

definition conditions_of :: "kogito_service \<Rightarrow> condition list" where
  "conditions_of inst = (case st_conditions (ks_status inst) of None \<Rightarrow> [] | Some cs \<Rightarrow> cs)"

definition map_conditions :: "(condition list \<Rightarrow> condition list) \<Rightarrow> kogito_service \<Rightarrow> kogito_service" where
  "map_conditions f inst = map_status (\<lambda>st. st\<lparr>st_conditions := Some (f (conditions_of inst))\<rparr>) inst"

definition setProvisioning :: "cond_api \<Rightarrow> cond_status \<Rightarrow> string \<Rightarrow> kogito_service \<Rightarrow> kogito_service" where
  "setProvisioning C status reason = map_conditions (ca_set C (newProvisioningCondition status reason))"

definition setDeployed :: "cond_api \<Rightarrow> cond_status \<Rightarrow> kogito_service \<Rightarrow> kogito_service" where
  "setDeployed C status = map_conditions (ca_set C (newDeployedCondition status))"

definition setFailed :: "cond_api \<Rightarrow> cond_status \<Rightarrow> string \<Rightarrow> string \<Rightarrow> kogito_service \<Rightarrow> kogito_service" where
  "setFailed C status reason message = map_conditions (ca_set C (newFailedCondition status reason message))"

definition InvalidateFailedCondition :: "cond_api \<Rightarrow> kogito_service \<Rightarrow> kogito_service" where
  "InvalidateFailedCondition C inst =
     (case ca_find C (conditions_of inst) FailedConditionType of
        None \<Rightarrow> inst
      | Some c \<Rightarrow> setFailed C CFalse (cd_reason c) (cd_message c) inst)"

definition fetchReadyReplicas :: "'w cluster \<Rightarrow> kogito_service \<Rightarrow> 'w \<Rightarrow> gerr + int" where
  "fetchReadyReplicas K inst w = FetchReadyReplicas K (ks_namespace inst) (ks_name inst) w"

section \<open>The steps of the handler\<close>

definition setFailedConditions ::
  "'w cluster \<Rightarrow> cond_api \<Rightarrow> 'w \<Rightarrow> string \<Rightarrow> gerr \<Rightarrow> kogito_service \<Rightarrow> (gerr + unit) \<times> kogito_service" where
  "setFailedConditions K C w reason errCondition inst =
     (let inst1 = setFailed C CTrue reason (error_message errCondition) inst;
          inst2 = (if IsReconciliationError errCondition
                   then setProvisioning C CTrue ProvisioningInProgressReason inst1
                   else setProvisioning C CFalse FailedProvisioningReason inst1)
      in case fetchReadyReplicas K inst2 w of
           Inl e \<Rightarrow> (Inl e, inst2)
         | Inr availableReplicas \<Rightarrow>
             (Inr (), setDeployed C (if availableReplicas > 0 then CTrue else CFalse) inst2))"

definition handleConditionTransition ::
  "'w cluster \<Rightarrow> cond_api \<Rightarrow> 'w \<Rightarrow> kogito_service \<Rightarrow> (gerr + unit) \<times> kogito_service" where
  "handleConditionTransition K C w inst0 =
     (let inst = InvalidateFailedCondition C inst0
      in case fetchReadyReplicas K inst w of
           Inl e \<Rightarrow> (Inl e, inst)
         | Inr availableReplicas \<Rightarrow>
             (case ss_replicas (ks_spec inst) of
                None \<Rightarrow> (Inl (Panic ''nil pointer dereference''), inst)
              | Some expectedReplicas \<Rightarrow>
                  (Inr (),
                   if expectedReplicas = availableReplicas then
                     setProvisioning C CFalse FinishedProvisioningReason (setDeployed C CTrue inst)
                   else if availableReplicas > 0 \<and> availableReplicas < expectedReplicas then
                     setProvisioning C CTrue ProvisioningInProgressReason (setDeployed C CTrue inst)
                   else if availableReplicas = 0 then
                     setProvisioning C CTrue ProvisioningInProgressReason (setDeployed C CFalse inst)
                   else inst)))"

definition updateImageStatus :: "'w cluster \<Rightarrow> 'w \<Rightarrow> kogito_service \<Rightarrow> (gerr + unit) \<times> kogito_service" where
  "updateImageStatus K w inst =
     (case FetchDeployment K (ks_namespace inst) (ks_name inst) w of
        Inl e \<Rightarrow> (Inl e, inst)
      | Inr None \<Rightarrow> (Inr (), inst)
      | Inr (Some d) \<Rightarrow>
          (Inr (), case ps_containers (pt_spec (dep_template d)) of
                     [] \<Rightarrow> inst
                   | c # cs \<Rightarrow> map_status (\<lambda>st. st\<lparr>st_image := c_image c\<rparr>) inst))"

definition updateDeploymentStatus :: "'w cluster \<Rightarrow> 'w \<Rightarrow> kogito_service \<Rightarrow> (gerr + unit) \<times> kogito_service" where
  "updateDeploymentStatus K w inst =
     (case FetchDeployment K (ks_namespace inst) (ks_name inst) w of
        Inl e \<Rightarrow> (Inl e, inst)
      | Inr None \<Rightarrow> (Inr (), inst)
      | Inr (Some d) \<Rightarrow>
          (Inr (), map_status (\<lambda>st. st\<lparr>st_deploymentConditions := ds_conditions (dep_status d)\<rparr>) inst))"

definition set_route_condition :: "cond_api \<Rightarrow> condition \<Rightarrow> kogito_service \<Rightarrow> kogito_service" where
  "set_route_condition C c inst =
     map_status (\<lambda>st. st\<lparr>st_routeConditions :=
        Some (ca_set C c (case st_routeConditions st of None \<Rightarrow> [] | Some cs \<Rightarrow> cs))\<rparr>) inst"

definition updateRouteStatus ::
  "'w cluster \<Rightarrow> cond_api \<Rightarrow> 'w \<Rightarrow> kogito_service \<Rightarrow> (gerr + unit) \<times> kogito_service" where
  "updateRouteStatus K C w inst0 =
     (if \<not> cl_isOpenshift K then (Inr (), inst0)
      else
        let inst = map_status (\<lambda>st. st\<lparr>st_routeConditions :=
                     Some (case st_routeConditions st of None \<Rightarrow> [] | Some cs \<Rightarrow> cs)\<rparr>) inst0
        in if ss_disableRoute (ks_spec inst) then
             (Inr (), set_route_condition C (newFailedCondition CFalse ''RouteProcessed'' ''Routes are disabled.'') inst)
           else (case ValidateRouteStatus K (ks_namespace inst) (ks_name inst) w of
             Inl e \<Rightarrow>
               (let errCondition = ErrorForRouteCreation e
                in (Inr (), set_route_condition C (newFailedCondition CTrue (GetReasonForError (Some errCondition))
                       (error_message errCondition)) inst))
           | Inr isAdmitted \<Rightarrow>
               (let inst' = (if isAdmitted
                     then set_route_condition C (newFailedCondition CFalse ''RouteProcessed'' ''Route admitted.'') inst
                     else inst)
                in case GetHostFromRoute K (ks_namespace inst) (ks_name inst) w of
                     Inl e \<Rightarrow> (Inl e, inst')
                   | Inr host \<Rightarrow> (Inr (), if host \<noteq> []
                        then map_status (\<lambda>st. st\<lparr>st_externalURI := ''http://'' @ host\<rparr>) inst' else inst'))))"

section \<open>The handler\<close>

definition status_steps ::
  "'w cluster \<Rightarrow> cond_api \<Rightarrow> 'w \<Rightarrow> gerr option \<Rightarrow> kogito_service \<Rightarrow> (gerr + unit) \<times> kogito_service" where
  "status_steps K C w errCondition =
     (case errCondition of
        Some e \<Rightarrow> setFailedConditions K C w (GetReasonForError (Some e)) e
      | None \<Rightarrow>
          bindS (handleConditionTransition K C w) (\<lambda>_.
          bindS (updateImageStatus K w) (\<lambda>_.
          bindS (updateRouteStatus K C w) (\<lambda>_.
                 updateDeploymentStatus K w))))"

definition ensureResourcesStatusChanges ::
  "'w cluster \<Rightarrow> cond_api \<Rightarrow> kogito_service \<Rightarrow> gerr option \<Rightarrow> 'w \<Rightarrow> (gerr + kogito_service) \<times> 'w" where
  "ensureResourcesStatusChanges K C inst errCondition w =
     (case status_steps K C w errCondition (map_conditions id inst) of
        (Inl e, inst') \<Rightarrow> (Inl e, w)
      | (Inr _, inst') \<Rightarrow> UpdateStatus (cl_kogitoServices K) inst' w)"

text \<open>An error of the status update is logged and dropped; what remains is the cluster.\<close>

definition HandleStatusUpdate :: "'w cluster \<Rightarrow> cond_api \<Rightarrow> kogito_service \<Rightarrow> gerr option \<Rightarrow> 'w \<Rightarrow> 'w" where
  "HandleStatusUpdate K C inst err w = snd (ensureResourcesStatusChanges K C inst err w)"

section \<open>Lemmas\<close>

abbreviation svc_cond :: "cond_api \<Rightarrow> kogito_service \<Rightarrow> string \<Rightarrow> cond_status option" where
  "svc_cond C inst t \<equiv> cond_status_of C (conditions_of inst) t"

abbreviation svc_reason :: "cond_api \<Rightarrow> kogito_service \<Rightarrow> string \<Rightarrow> string option" where
  "svc_reason C inst t \<equiv> cond_reason_of C (conditions_of inst) t"

lemma conditions_of_map [simp]: "conditions_of (map_conditions f inst) = f (conditions_of inst)"
  by (simp add: conditions_of_def map_conditions_def)

lemma conditions_of_map_status [simp]:
  "(\<And>st. st_conditions (f st) = st_conditions st) \<Longrightarrow> conditions_of (map_status f inst) = conditions_of inst"
  by (simp add: conditions_of_def)

lemma map_conditions_frame [simp]:
  "ks_spec (map_conditions f inst) = ks_spec inst" "ks_meta (map_conditions f inst) = ks_meta inst"
  by (simp_all add: map_conditions_def)

lemma set_conditions_frame [simp]:
  "ks_spec (setProvisioning C s r inst) = ks_spec inst" "ks_meta (setProvisioning C s r inst) = ks_meta inst"
  "ks_spec (setDeployed C s inst) = ks_spec inst" "ks_meta (setDeployed C s inst) = ks_meta inst"
  "ks_spec (setFailed C s r m inst) = ks_spec inst" "ks_meta (setFailed C s r m inst) = ks_meta inst"
  "ks_spec (InvalidateFailedCondition C inst) = ks_spec inst" "ks_meta (InvalidateFailedCondition C inst) = ks_meta inst"
  by (simp_all add: setProvisioning_def setDeployed_def setFailed_def InvalidateFailedCondition_def split: option.split)

lemma svc_cond_set:
  assumes "cond_laws C"
  shows "svc_cond C (setProvisioning C s r inst) t = (if t = ProvisioningConditionType then Some s else svc_cond C inst t)"
    and "svc_cond C (setDeployed C s inst) t = (if t = DeployedConditionType then Some s else svc_cond C inst t)"
    and "svc_cond C (setFailed C s r m inst) t = (if t = FailedConditionType then Some s else svc_cond C inst t)"
    and "svc_reason C (setFailed C s r m inst) t = (if t = FailedConditionType then Some r else svc_reason C inst t)"
    and "svc_reason C (setProvisioning C s r inst) t = (if t = ProvisioningConditionType then Some r else svc_reason C inst t)"
    and "svc_reason C (setDeployed C s inst) t = (if t = DeployedConditionType
       then Some (if s = CFalse then FailedDeployedReason else SuccessfulDeployedReason) else svc_reason C inst t)"
  by (simp_all add: setProvisioning_def setDeployed_def setFailed_def cond_status_set [OF assms]
      cond_reason_set [OF assms] newProvisioningCondition_def newDeployedCondition_def newFailedCondition_def mk_cond_def)

lemma svc_cond_Invalidate:
  assumes "cond_laws C"
  shows "svc_cond C (InvalidateFailedCondition C inst) t =
     (if t = FailedConditionType then map_option (\<lambda>_. CFalse) (svc_cond C inst FailedConditionType) else svc_cond C inst t)"
  by (auto simp: InvalidateFailedCondition_def svc_cond_set [OF assms] split: option.split)
    (simp_all add: cond_status_of_def)

lemma updateImageStatus_conditions:
  "FetchDeployment K (ks_namespace inst) (ks_name inst) w = Inr d \<Longrightarrow>
   \<exists>inst'. updateImageStatus K w inst = (Inr (), inst') \<and> conditions_of inst' = conditions_of inst
      \<and> ks_spec inst' = ks_spec inst \<and> ks_meta inst' = ks_meta inst"
  by (cases d) (auto simp: updateImageStatus_def split: list.splits)

lemma updateDeploymentStatus_conditions:
  "FetchDeployment K (ks_namespace inst) (ks_name inst) w = Inr d \<Longrightarrow>
   \<exists>inst'. updateDeploymentStatus K w inst = (Inr (), inst') \<and> conditions_of inst' = conditions_of inst
      \<and> ks_spec inst' = ks_spec inst \<and> ks_meta inst' = ks_meta inst"
  by (cases d) (auto simp: updateDeploymentStatus_def)

lemma set_route_condition_frame [simp]:
  "conditions_of (set_route_condition C c inst) = conditions_of inst"
  "ks_spec (set_route_condition C c inst) = ks_spec inst" "ks_meta (set_route_condition C c inst) = ks_meta inst"
  by (simp_all add: set_route_condition_def)

lemma updateRouteStatus_conditions:
  assumes "FetchRoute K (ks_namespace inst) (ks_name inst) w = Inr r"
  shows "\<exists>inst'. updateRouteStatus K C w inst = (Inr (), inst') \<and> conditions_of inst' = conditions_of inst
      \<and> ks_spec inst' = ks_spec inst \<and> ks_meta inst' = ks_meta inst"
proof -
  have "GetHostFromRoute K (ks_namespace inst) (ks_name inst) w = Inr (case r of None \<Rightarrow> [] | Some r \<Rightarrow> rt_host r)"
    using assms by (simp add: GetHostFromRoute_def)
  then show ?thesis
    by (auto simp: updateRouteStatus_def Let_def split: sum.split)
qed

text \<open>What the handler can read: the deployment and, on OpenShift, the route, present or not.\<close>

definition readable :: "'w cluster \<Rightarrow> kogito_service \<Rightarrow> 'w \<Rightarrow> bool" where
  "readable K inst w \<longleftrightarrow> \<not> isl (FetchDeployment K (ks_namespace inst) (ks_name inst) w)
     \<and> \<not> isl (FetchRoute K (ks_namespace inst) (ks_name inst) w)"

lemma status_steps_success:
  assumes "readable K inst w" "handleConditionTransition K C w inst = (Inr (), inst1)"
    and frame: "ks_meta inst1 = ks_meta inst"
  shows "\<exists>inst'. status_steps K C w None inst = (Inr (), inst') \<and> conditions_of inst' = conditions_of inst1"
proof -
  obtain d r where dr: "FetchDeployment K (ks_namespace inst) (ks_name inst) w = Inr d"
    "FetchRoute K (ks_namespace inst) (ks_name inst) w = Inr r"
    using assms(1) by (auto simp: readable_def isl_def split: sum.splits) (meson isl_def sum.exhaust)+
  obtain inst2 where 2: "updateImageStatus K w inst1 = (Inr (), inst2)" "conditions_of inst2 = conditions_of inst1"
    "ks_meta inst2 = ks_meta inst"
    using updateImageStatus_conditions [of K inst1 w d] dr frame by auto
  obtain inst3 where 3: "updateRouteStatus K C w inst2 = (Inr (), inst3)" "conditions_of inst3 = conditions_of inst1"
    "ks_meta inst3 = ks_meta inst"
    using updateRouteStatus_conditions [of K inst2 w r C] dr 2 by auto
  obtain inst4 where 4: "updateDeploymentStatus K w inst3 = (Inr (), inst4)" "conditions_of inst4 = conditions_of inst1"
    using updateDeploymentStatus_conditions [of K inst3 w d] dr 3 by auto
  show ?thesis using assms(2) 2 3 4 by (auto simp: status_steps_def)
qed

section \<open>Properties\<close>

text \<open>The conditions of a service after a successful reconciliation.  If the deployment and the route
  can be read, the status steps succeed; with \<open>e\<close> replicas requested and \<open>a\<close> available, the service is
  deployed and no longer provisioning when they agree, deployed and provisioning when some but not all
  are there, not deployed when none is, and the two conditions stay as they were when there are more
  than requested; a failure condition, if there was one, is withdrawn.\<close>

theorem status_steps_conditions:
  assumes laws: "cond_laws C" and read: "readable K inst w"
    and e: "ss_replicas (ks_spec inst) = Some e"
    and a: "fetchReadyReplicas K inst w = Inr a"
  shows "\<exists>inst'. status_steps K C w None inst = (Inr (), inst')
     \<and> (svc_cond C inst' DeployedConditionType, svc_cond C inst' ProvisioningConditionType) =
         (if a = e then (Some CTrue, Some CFalse)
          else if 0 < a \<and> a < e then (Some CTrue, Some CTrue)
          else if a = 0 then (Some CFalse, Some CTrue)
          else (svc_cond C inst DeployedConditionType, svc_cond C inst ProvisioningConditionType))
     \<and> svc_cond C inst' FailedConditionType = map_option (\<lambda>_. CFalse) (svc_cond C inst FailedConditionType)"
proof -
  have a': "fetchReadyReplicas K (InvalidateFailedCondition C inst) w = Inr a"
    using a by (simp add: fetchReadyReplicas_def)
  obtain inst1 where 1: "handleConditionTransition K C w inst = (Inr (), inst1)" "ks_meta inst1 = ks_meta inst"
    using a' e by (auto simp: handleConditionTransition_def Let_def)
  from status_steps_success [OF read 1] obtain inst' where
    "status_steps K C w None inst = (Inr (), inst')" "conditions_of inst' = conditions_of inst1" by blast
  moreover have "inst1 = snd (handleConditionTransition K C w inst)" by (simp add: 1)
  ultimately show ?thesis
    using a' e by (auto simp: handleConditionTransition_def Let_def svc_cond_set [OF laws] svc_cond_Invalidate [OF laws])
qed

definition available_world :: "int \<Rightarrow> mem_world" where
  "available_world n = empty_world\<lparr>mw_deployments := [\<lparr>dep_meta = mk_meta ''app'' ''ns'', dep_replicas = Some 2,
     dep_selector = [], dep_template = \<lparr>pt_labels = [], pt_annotations = [], pt_spec = \<lparr>ps_containers = [], ps_volumes = [],
        ps_serviceAccountName = [], ps_securityContext = None\<rparr>\<rparr>, dep_strategy = [],
     dep_status = \<lparr>ds_replicas = n, ds_readyReplicas = n, ds_availableReplicas = n, ds_conditions = []\<rparr>\<rparr>]\<rparr>"

lemma available_world_reads:
  "readable (mem_cluster b) sample_service (available_world n)"
  "fetchReadyReplicas (mem_cluster b) sample_service (available_world n) = Inr n"
  by (simp_all add: readable_def fetchReadyReplicas_def FetchReadyReplicas_def FetchDeployment_def FetchRoute_def
      FetchWithKey_def mem_simps available_world_def empty_world_def sample_service_def mk_meta_def)

lemma status_steps_conditions_witness:
  "\<exists>inst'. status_steps (mem_cluster True) list_cond_api (available_world 1) None sample_service = (Inr (), inst')
     \<and> svc_cond list_cond_api inst' DeployedConditionType = Some CTrue
     \<and> svc_cond list_cond_api inst' ProvisioningConditionType = Some CTrue"
  using status_steps_conditions [OF list_cond_laws available_world_reads(1) _ available_world_reads(2), of 2 True 1]
  by (auto simp: sample_service_def sample_spec_def)

text \<open>The conditions of a service after a failed reconciliation.  The failure condition is true with
  the reason the error handler gives; provisioning goes on exactly for a reconciliation error and is
  given up for any other; the service counts as deployed exactly when replicas are available.\<close>

theorem setFailedConditions_conditions:
  assumes laws: "cond_laws C" and a: "fetchReadyReplicas K inst w = Inr a"
  shows "\<exists>inst'. status_steps K C w (Some err) inst = (Inr (), inst')
     \<and> svc_cond C inst' FailedConditionType = Some CTrue
     \<and> svc_reason C inst' FailedConditionType = Some (GetReasonForError (Some err))
     \<and> svc_cond C inst' ProvisioningConditionType = Some (if reconciliation_delay err = None then CFalse else CTrue)
     \<and> svc_cond C inst' DeployedConditionType = Some (if a > 0 then CTrue else CFalse)"
  using a by (auto simp: status_steps_def setFailedConditions_def Let_def fetchReadyReplicas_def
      svc_cond_set [OF laws] IsReconciliationError_def reconciliation_delay_def split: gerr.splits)

lemma setFailedConditions_conditions_witness:
  "\<exists>inst'. status_steps (mem_cluster True) list_cond_api (available_world 0) (Some ErrorForImageNotFound) sample_service = (Inr (), inst')
     \<and> svc_reason list_cond_api inst' FailedConditionType = Some ImageNotFound"
  using setFailedConditions_conditions [OF list_cond_laws available_world_reads(2), of True 0 ErrorForImageNotFound]
  by (auto simp: ErrorForImageNotFound_def GetReasonForError_def)

end
