(* ===== verification/Delta_Processor.thy ===== *)
theory Delta_Processor
  imports Kube_Types
begin

text \<open>
  Applying the difference between requested and deployed resources,
  \<^verbatim>\<open>core/infrastructure/delta_processor.go\<close>.  The comparison and the bulk writers come from the library
  operator-utils and are parameters: the deltas it computed per resource type (in the order in which the
  map is ranged over), its test for changes, and its three writers.
\<close>

record 'o delta =
  d_added :: "'o list"
  d_updated :: "'o list"
  d_removed :: "'o list"

record ('w, 'o) bulk_writer =
  bw_add :: "'o list \<Rightarrow> 'w \<Rightarrow> (gerr + bool) \<times> 'w"
  bw_update :: "'o list \<Rightarrow> 'o list \<Rightarrow> 'w \<Rightarrow> (gerr + bool) \<times> 'w"
  bw_remove :: "'o list \<Rightarrow> 'w \<Rightarrow> (gerr + bool) \<times> 'w"

section \<open>Operations\<close>

definition apply_delta :: "('w, 'o) bulk_writer \<Rightarrow> 'o list \<Rightarrow> 'o delta \<Rightarrow> 'w \<Rightarrow> (gerr + unit) \<times> 'w" where
  "apply_delta W existing delta =
     bindS (bw_add W (d_added delta)) (\<lambda>_.
     bindS (bw_update W existing (d_updated delta)) (\<lambda>_.
     bindS (bw_remove W (d_removed delta)) (\<lambda>_. returnS ())))"

text \<open>The flag and the error are named results: an error returns the flag set so far.\<close>

fun process_deltas :: "('o delta \<Rightarrow> bool) \<Rightarrow> ('w, 'o) bulk_writer \<Rightarrow> ('t \<Rightarrow> 'o list) \<Rightarrow> bool
    \<Rightarrow> ('t \<times> 'o delta) list \<Rightarrow> 'w \<Rightarrow> (bool \<times> gerr option) \<times> 'w" where
  "process_deltas hasChanges W deployed isDeltaProcessed [] w = ((isDeltaProcessed, None), w)"
| "process_deltas hasChanges W deployed isDeltaProcessed ((resourceType, delta) # deltas) w =
     (if \<not> hasChanges delta then process_deltas hasChanges W deployed isDeltaProcessed deltas w
      else (case apply_delta W (deployed resourceType) delta w of
              (Inl e, w') \<Rightarrow> ((isDeltaProcessed, Some e), w')
            | (Inr _, w') \<Rightarrow> process_deltas hasChanges W deployed True deltas w'))"

definition ProcessDelta :: "('o delta \<Rightarrow> bool) \<Rightarrow> ('w, 'o) bulk_writer \<Rightarrow> (('t \<Rightarrow> 'o list) \<Rightarrow> ('t \<Rightarrow> 'o list) \<Rightarrow> ('t \<times> 'o delta) list)
    \<Rightarrow> ('t \<Rightarrow> 'o list) \<Rightarrow> ('t \<Rightarrow> 'o list) \<Rightarrow> 'w \<Rightarrow> (bool \<times> gerr option) \<times> 'w" where
  "ProcessDelta hasChanges W compare requested deployed =
     process_deltas hasChanges W deployed False (compare deployed requested)"

section \<open>Lemmas\<close>

lemma process_deltas_quiet:
  "list_all (\<lambda>(t, d). \<not> hasChanges d) deltas \<Longrightarrow>
   process_deltas hasChanges W deployed b deltas w = ((b, None), w)"
  by (induction deltas) auto

lemma process_deltas_skip:
  "process_deltas hasChanges W deployed b (filter (\<lambda>(t, d). hasChanges d) deltas) w
   = process_deltas hasChanges W deployed b deltas w"
  by (induction hasChanges W deployed b deltas w rule: process_deltas.induct)
    (auto split: prod.splits sum.splits)

lemma process_deltas_flag:
  "process_deltas hasChanges W deployed b deltas w = ((r, None), w') \<Longrightarrow>
   r \<longleftrightarrow> b \<or> list_ex (\<lambda>(t, d). hasChanges d) deltas"
  by (induction hasChanges W deployed b deltas w rule: process_deltas.induct)
    (auto split: if_splits prod.splits sum.splits)

lemma apply_delta_Inr:
  "apply_delta W existing delta w = (Inr (), w') \<longleftrightarrow>
   (\<exists>b1 w1 b2 w2 b3. bw_add W (d_added delta) w = (Inr b1, w1) \<and>
      bw_update W existing (d_updated delta) w1 = (Inr b2, w2) \<and>
      bw_remove W (d_removed delta) w2 = (Inr b3, w'))"
  by (auto simp: apply_delta_def bindS_eq_Inr)

section \<open>Properties\<close>

text \<open>Reconciliation converges.  When a run reports no error, it reports a change exactly when some
  delta has changes; a run in which no delta has changes leaves the cluster untouched, so a second run
  over a settled cluster performs no write.\<close>

theorem ProcessDelta_converges:
  assumes "ProcessDelta hasChanges W compare requested deployed w = ((changed, None), w')"
  shows "(changed \<longleftrightarrow> list_ex (\<lambda>(t, d). hasChanges d) (compare deployed requested))
     \<and> (changed \<or> w' = w)"
proof -
  from assms have "changed \<longleftrightarrow> list_ex (\<lambda>(t, d). hasChanges d) (compare deployed requested)"
    unfolding ProcessDelta_def by (auto dest: process_deltas_flag)
  moreover from this assms have "changed \<or> w' = w"
    using process_deltas_quiet [of hasChanges "compare deployed requested" W deployed False w]
    by (auto simp: ProcessDelta_def list_ex_iff list_all_iff)
  ultimately show ?thesis by blast
qed

definition count_writer :: "(nat, nat) bulk_writer" where
  "count_writer = \<lparr>bw_add = (\<lambda>xs w. (Inr True, w + length xs)), bw_update = (\<lambda>e xs w. (Inr True, w)),
     bw_remove = (\<lambda>xs w. (Inr True, w - length xs))\<rparr>"

lemma ProcessDelta_converges_witness:
  "ProcessDelta (\<lambda>d. d_added d \<noteq> []) count_writer
     (\<lambda>dep req. [((), \<lparr>d_added = filter (\<lambda>x. x \<notin> set (dep ())) (req ()), d_updated = [], d_removed = []\<rparr>)])
     (\<lambda>_. [7]) (\<lambda>_. [7]) 5 = ((False, None), 5)"
  using ProcessDelta_converges
    [of "\<lambda>d. d_added d \<noteq> []" count_writer
      "\<lambda>dep req. [((), \<lparr>d_added = filter (\<lambda>x. x \<notin> set (dep ())) (req ()), d_updated = [], d_removed = []\<rparr>)]"
      "\<lambda>_. [7]" "\<lambda>_. [7]" 5 False 5]
  by (simp add: ProcessDelta_def)

end
