(* ===== verification/Framework_Owner.thy ===== *)
theory Framework_Owner
  imports Kube_Types
begin

text \<open>
  Owner references, \<^verbatim>\<open>core/framework/owner.go\<close>.  A resource may be shared: the operator adds itself as one
  more owner and later takes back only its own reference.  The code sees a resource through the
  accessors of its metadata, so a resource is its metadata here.  Two functions of the Kubernetes
  libraries are parameters: \<^verbatim>\<open>apiutil.GVKForObject\<close> (its result for the owner, the argument \<^verbatim>\<open>gvk\<close>) and
  \<^verbatim>\<open>controllerutil.SetControllerReference\<close> (the argument \<^verbatim>\<open>setRef\<close>).
\<close>

section \<open>Operations\<close>

fun owned_by :: "string \<Rightarrow> owner_reference list \<Rightarrow> bool" where
  "owned_by u [] = False"
| "owned_by u (r # rs) = (if or_uid r = u then True else owned_by u rs)"

definition IsOwner :: "object_meta \<Rightarrow> object_meta \<Rightarrow> bool" where
  "IsOwner res owner = owned_by (om_uid owner) (om_owners res)"

text \<open>The resources are changed in place one by one; those before the failing one stay changed.\<close>

fun SetOwner :: "(object_meta \<Rightarrow> object_meta \<Rightarrow> gerr + object_meta) \<Rightarrow> object_meta \<Rightarrow> object_meta list
    \<Rightarrow> gerr option \<times> object_meta list" where
  "SetOwner setRef owner [] = (None, [])"
| "SetOwner setRef owner (res # resources) =
     (case setRef owner res of
        Inl e \<Rightarrow> (Some e, res # resources)
      | Inr res' \<Rightarrow> (case SetOwner setRef owner resources of (e, rs) \<Rightarrow> (e, res' # rs)))"

definition new_owner_reference :: "string \<times> string \<Rightarrow> object_meta \<Rightarrow> owner_reference" where
  "new_owner_reference gvk owner =
     \<lparr>or_apiVersion = fst gvk, or_kind = snd gvk, or_name = om_name owner, or_uid = om_uid owner,
      or_controller = Some False, or_block = Some False\<rparr>"

definition add_owner :: "string \<times> string \<Rightarrow> object_meta \<Rightarrow> object_meta \<Rightarrow> object_meta" where
  "add_owner gvk owner res =
     (if \<not> IsOwner res owner then res\<lparr>om_owners := om_owners res @ [new_owner_reference gvk owner]\<rparr> else res)"

definition AddOwnerReference ::
  "gerr + (string \<times> string) \<Rightarrow> object_meta \<Rightarrow> object_meta list \<Rightarrow> gerr option \<times> object_meta list" where
  "AddOwnerReference gvk owner resources =
     (case gvk of Inl e \<Rightarrow> (Some e, resources) | Inr g \<Rightarrow> (None, map (add_owner g owner) resources))"

fun remove_first_uid :: "string \<Rightarrow> owner_reference list \<Rightarrow> owner_reference list" where
  "remove_first_uid u [] = []"
| "remove_first_uid u (r # rs) = (if or_uid r = u then rs else r # remove_first_uid u rs)"

definition remove_owner :: "object_meta \<Rightarrow> object_meta \<Rightarrow> object_meta" where
  "remove_owner owner res = res\<lparr>om_owners := remove_first_uid (om_uid owner) (om_owners res)\<rparr>"

definition RemoveOwnerReference :: "object_meta \<Rightarrow> object_meta list \<Rightarrow> object_meta list" where
  "RemoveOwnerReference owner resources = map (remove_owner owner) resources"

text \<open>The function returns at the first resource from which it removed a reference.\<close>

fun RemoveSharedOwnerReference :: "object_meta \<Rightarrow> object_meta list \<Rightarrow> bool \<times> object_meta list" where
  "RemoveSharedOwnerReference owner [] = (False, [])"
| "RemoveSharedOwnerReference owner (res # resources) =
     (if length (om_owners res) > 1 \<and> IsOwner res owner
      then (True, remove_owner owner res # resources)
      else (case RemoveSharedOwnerReference owner resources of (b, rs) \<Rightarrow> (b, res # rs)))"

section \<open>Lemmas\<close>

text \<open>Kubernetes keeps at most one reference per owner; the operations of the operator keep it so.\<close>

definition unique_owners :: "object_meta \<Rightarrow> bool" where
  "unique_owners res \<longleftrightarrow> distinct (map or_uid (om_owners res))"

lemma owned_by_iff: "owned_by u rs \<longleftrightarrow> u \<in> or_uid ` set rs"
  by (induction rs) auto

lemma IsOwner_iff: "IsOwner res owner \<longleftrightarrow> om_uid owner \<in> or_uid ` set (om_owners res)"
  by (simp add: IsOwner_def owned_by_iff)

lemma remove_first_uid_absent: "\<not> owned_by u rs \<Longrightarrow> remove_first_uid u rs = rs"
  by (induction rs) (auto split: if_splits)

lemma remove_first_uid_append:
  "\<not> owned_by u rs \<Longrightarrow> or_uid r = u \<Longrightarrow> remove_first_uid u (rs @ [r]) = rs"
  by (induction rs) (auto split: if_splits)

lemma remove_first_uid_filter:
  "distinct (map or_uid rs) \<Longrightarrow> remove_first_uid u rs = filter (\<lambda>r. or_uid r \<noteq> u) rs"
  by (induction rs) (auto simp: image_iff intro!: filter_True [symmetric])

lemma remove_first_uid_subset: "set (remove_first_uid u rs) \<subseteq> set rs"
  by (induction rs) auto

lemma length_remove_first_uid:
  "owned_by u rs \<Longrightarrow> length (remove_first_uid u rs) = length rs - 1"
proof (induction rs)
  case (Cons r rs)
  then show ?case by (cases rs) (auto split: if_splits)
qed simp

lemma IsOwner_add_owner [simp]:
  "IsOwner (add_owner g owner res) o' \<longleftrightarrow> om_uid o' = om_uid owner \<or> IsOwner res o'"
  by (auto simp: IsOwner_iff add_owner_def new_owner_reference_def)

lemma add_owner_idem [simp]: "add_owner g owner (add_owner g' owner res) = add_owner g' owner res"
  by (simp add: add_owner_def [of g])

lemma unique_add_owner: "unique_owners res \<Longrightarrow> unique_owners (add_owner g owner res)"
  by (auto simp: unique_owners_def add_owner_def IsOwner_iff new_owner_reference_def)

lemma remove_add_owner: "\<not> IsOwner res owner \<Longrightarrow> remove_owner owner (add_owner g owner res) = res"
  by (simp add: remove_owner_def add_owner_def IsOwner_def remove_first_uid_append new_owner_reference_def)

lemma IsOwner_remove_owner:
  "unique_owners res \<Longrightarrow>
   IsOwner (remove_owner owner res) o' \<longleftrightarrow> IsOwner res o' \<and> om_uid o' \<noteq> om_uid owner"
  by (auto simp: unique_owners_def remove_owner_def IsOwner_iff remove_first_uid_filter)

lemma unique_remove_owner: "unique_owners res \<Longrightarrow> unique_owners (remove_owner owner res)"
  by (simp add: unique_owners_def remove_owner_def remove_first_uid_filter distinct_map_filter)

lemma owners_remove_owner_nonempty:
  "length (om_owners res) > 1 \<Longrightarrow> om_owners (remove_owner owner res) \<noteq> []"
  using length_remove_first_uid [of "om_uid owner" "om_owners res"] remove_first_uid_absent
  by (cases "owned_by (om_uid owner) (om_owners res)") (auto simp: remove_owner_def simp flip: length_greater_0_conv)

lemma RemoveShared_keeps_owner:
  "list_all2 (\<lambda>res res'. om_owners res \<noteq> [] \<longrightarrow> om_owners res' \<noteq> [])
     resources (snd (RemoveSharedOwnerReference owner resources))"
proof (induction resources)
  case (Cons res resources)
  then show ?case
    using owners_remove_owner_nonempty [of res owner]
    by (auto split: prod.splits simp: list_all2_same)
qed simp

lemma RemoveShared_result:
  "fst (RemoveSharedOwnerReference owner resources) \<longleftrightarrow>
     (\<exists>res \<in> set resources. length (om_owners res) > 1 \<and> IsOwner res owner)"
  by (induction resources) (auto split: prod.splits)

section \<open>Properties\<close>

text \<open>Adding an owner and taking the reference back is a round trip.  When the owner's kind is
  known, \<^term>\<open>AddOwnerReference\<close> succeeds, makes the owner an owner of every resource, keeps every other
  owner, does nothing the second time, and \<^term>\<open>RemoveOwnerReference\<close> afterwards gives the resources
  back as they were, provided none of them had that owner before.\<close>

theorem AddOwnerReference_roundtrip:
  assumes fresh: "\<forall>res \<in> set resources. \<not> IsOwner res owner"
  shows "fst (AddOwnerReference (Inr g) owner resources) = None
     \<and> (\<forall>res \<in> set (snd (AddOwnerReference (Inr g) owner resources)). IsOwner res owner)
     \<and> AddOwnerReference (Inr g) owner (snd (AddOwnerReference (Inr g) owner resources))
         = AddOwnerReference (Inr g) owner resources
     \<and> RemoveOwnerReference owner (snd (AddOwnerReference (Inr g) owner resources)) = resources"
  using fresh by (simp add: AddOwnerReference_def RemoveOwnerReference_def remove_add_owner map_idI o_def)

lemma AddOwnerReference_roundtrip_witness:
  "RemoveOwnerReference (mk_meta ''app'' ''ns''\<lparr>om_uid := ''u1''\<rparr>)
     (snd (AddOwnerReference (Inr (''v1'', ''KogitoRuntime'')) (mk_meta ''app'' ''ns''\<lparr>om_uid := ''u1''\<rparr>)
       [mk_meta ''cm'' ''ns'']))
   = [mk_meta ''cm'' ''ns'']"
  using AddOwnerReference_roundtrip
    [of "[mk_meta ''cm'' ''ns'']" "mk_meta ''app'' ''ns''\<lparr>om_uid := ''u1''\<rparr>" "(''v1'', ''KogitoRuntime'')"]
  by (simp add: IsOwner_iff mk_meta_def)

text \<open>C9: releasing a shared resource never orphans it.  \<^term>\<open>RemoveSharedOwnerReference\<close> changes at most
  the first resource that has the owner and at least one other reference; it reports a change exactly
  when there is such a resource, and every resource that had an owner before still has one.\<close>

theorem RemoveSharedOwnerReference_spec:
  "(fst (RemoveSharedOwnerReference owner resources) \<longleftrightarrow>
      find (\<lambda>res. length (om_owners res) > 1 \<and> IsOwner res owner) resources \<noteq> None)
   \<and> snd (RemoveSharedOwnerReference owner resources) =
      (case find_index (\<lambda>res. length (om_owners res) > 1 \<and> IsOwner res owner) resources of
         None \<Rightarrow> resources | Some i \<Rightarrow> resources[i := remove_owner owner (resources ! i)])
   \<and> list_all2 (\<lambda>res res'. min 1 (length (om_owners res)) \<le> length (om_owners res'))
      resources (snd (RemoveSharedOwnerReference owner resources))"
proof (intro conjI)
  show "fst (RemoveSharedOwnerReference owner resources) \<longleftrightarrow>
      find (\<lambda>res. length (om_owners res) > 1 \<and> IsOwner res owner) resources \<noteq> None"
    by (auto simp: RemoveShared_result find_None_iff)
  show "snd (RemoveSharedOwnerReference owner resources) =
      (case find_index (\<lambda>res. length (om_owners res) > 1 \<and> IsOwner res owner) resources of
         None \<Rightarrow> resources | Some i \<Rightarrow> resources[i := remove_owner owner (resources ! i)])"
    by (induction resources) (auto split: prod.splits option.splits)
  show "list_all2 (\<lambda>res res'. min 1 (length (om_owners res)) \<le> length (om_owners res'))
      resources (snd (RemoveSharedOwnerReference owner resources))"
    using RemoveShared_keeps_owner by (rule list_all2_mono) (auto simp: min_le_iff_disj Suc_le_eq)
qed

end
