(* ===== verification/Framework_Env.thy ===== *)
theory Framework_Env
  imports Kube_Types
begin

text \<open>
  Environment variables of a container, \<^verbatim>\<open>core/framework/env_var.go\<close>.  The operator finds a variable by
  its name and overwrites it in place or appends it; the collection is a keyed collection, and the
  batch override gets its laws from there.
\<close>

section \<open>Operations\<close>

fun GetEnvVar_from :: "int \<Rightarrow> string \<Rightarrow> env_var list \<Rightarrow> int" where
  "GetEnvVar_from pos envName [] = -1"
| "GetEnvVar_from pos envName (v # vs) =
     (if ev_name v = envName then pos else GetEnvVar_from (pos + 1) envName vs)"

definition GetEnvVar :: "string \<Rightarrow> env_var list \<Rightarrow> int" where
  "GetEnvVar envName env = GetEnvVar_from 0 envName env"

fun EnvOverride :: "env_var list \<Rightarrow> env_var list \<Rightarrow> env_var list" where
  "EnvOverride dst [] = dst"
| "EnvOverride dst (cre # src) =
     (let pos = GetEnvVar (ev_name cre) dst
      in EnvOverride (if pos \<noteq> -1 then dst[nat pos := cre] else dst @ [cre]) src)"

definition GetEnvVarFromContainer :: "string \<Rightarrow> container option \<Rightarrow> string" where
  "GetEnvVarFromContainer k c =
     (case c of None \<Rightarrow> []
      | Some c \<Rightarrow> (case find (\<lambda>e. ev_name e = k) (c_env c) of None \<Rightarrow> [] | Some e \<Rightarrow> ev_value e))"

definition CreateEnvVar :: "string \<Rightarrow> string \<Rightarrow> env_var" where
  "CreateEnvVar k v = \<lparr>ev_name = k, ev_value = v, ev_valueFrom = None\<rparr>"

definition CreateSecretEnvVar :: "string \<Rightarrow> string \<Rightarrow> string \<Rightarrow> env_var" where
  "CreateSecretEnvVar variableName secretName secretKey =
     \<lparr>ev_name = variableName, ev_value = [],
      ev_valueFrom = Some \<lparr>es_secretKeyRef = Some (secretName, secretKey), es_configMapKeyRef = None\<rparr>\<rparr>"

text \<open>The loop of \<^verbatim>\<open>SetEnvVar\<close> on the variables of the container: the first variable of that name keeps
  everything but its value.\<close>

fun set_env_value :: "string \<Rightarrow> string \<Rightarrow> env_var list \<Rightarrow> env_var list" where
  "set_env_value k v [] = [CreateEnvVar k v]"
| "set_env_value k v (e # es) =
     (if ev_name e = k then e\<lparr>ev_value := v\<rparr> # es else e # set_env_value k v es)"

definition SetEnvVar :: "string \<Rightarrow> string \<Rightarrow> container option \<Rightarrow> container option" where
  "SetEnvVar k v c = map_option (\<lambda>c. c\<lparr>c_env := set_env_value k v (c_env c)\<rparr>) c"

fun set_env_source :: "string \<Rightarrow> env_var_source \<Rightarrow> env_var list \<Rightarrow> env_var list" where
  "set_env_source k s [] = [\<lparr>ev_name = k, ev_value = [], ev_valueFrom = Some s\<rparr>]"
| "set_env_source k s (e # es) =
     (if ev_name e = k then e\<lparr>ev_valueFrom := Some s\<rparr> # es else e # set_env_source k s es)"

definition SetEnvVarFromSecret ::
  "string \<Rightarrow> string \<Rightarrow> secret option \<Rightarrow> container option \<Rightarrow> container option" where
  "SetEnvVarFromSecret k secretKey sec c =
     (case (c, sec) of
        (Some c0, Some s) \<Rightarrow>
          map_option (\<lambda>c1. c1\<lparr>c_env := set_env_source k
              \<lparr>es_secretKeyRef = Some (om_name (sec_meta s), secretKey), es_configMapKeyRef = None\<rparr> (c_env c1)\<rparr>)
            (SetEnvVar k [] (Some c0))
      | _ \<Rightarrow> c)"

text \<open>\<^verbatim>\<open>DiffEnvVar\<close> first builds a map of the names of the second list.\<close>

definition DiffEnvVar :: "env_var list \<Rightarrow> env_var list \<Rightarrow> env_var list" where
  "DiffEnvVar env1 env2 =
     (let eMap = fold (\<lambda>e m. AList.update (ev_name e) e m) env2 []
      in filter (\<lambda>e. map_of eMap (ev_name e) = None) env1)"

section \<open>The collection of variables as a keyed collection\<close>

definition env_get :: "string \<Rightarrow> env_var list \<Rightarrow> env_var option" where
  "env_get k env = find (\<lambda>e. ev_name e = k) env"

definition env_put :: "env_var \<Rightarrow> env_var list \<Rightarrow> env_var list" where
  "env_put e dst = EnvOverride dst [e]"

lemma GetEnvVar_from_conv:
  "GetEnvVar_from p k env = (case find_index (\<lambda>e. ev_name e = k) env of None \<Rightarrow> -1 | Some i \<Rightarrow> p + int i)"
  by (induction env arbitrary: p) (auto split: option.splits)

lemma GetEnvVar_conv:
  "GetEnvVar k env = (case find_index (\<lambda>e. ev_name e = k) env of None \<Rightarrow> -1 | Some i \<Rightarrow> int i)"
  by (simp add: GetEnvVar_def GetEnvVar_from_conv cong: option.case_cong)

lemma env_put_conv:
  "env_put e env = (case find_index (\<lambda>x. ev_name x = ev_name e) env of
      None \<Rightarrow> env @ [e] | Some i \<Rightarrow> env[i := e])"
  by (auto simp: env_put_def GetEnvVar_conv split: option.splits)

lemma env_put_Nil [simp]: "env_put e [] = [e]"
  by (simp add: env_put_conv)

lemma env_put_Cons [simp]:
  "env_put e (x # xs) = (if ev_name x = ev_name e then e # xs else x # env_put e xs)"
  by (auto simp: env_put_conv split: option.splits)

lemma EnvOverride_fold: "EnvOverride dst src = fold env_put src dst"
  by (induction dst src rule: EnvOverride.induct) (simp_all add: env_put_def Let_def)

lemma env_get_put [upsert_simps]:
  "env_get k (env_put e env) = (if k = ev_name e then Some e else env_get k env)"
  by (induction env) (auto simp: env_get_def)

interpretation env: keyed_collection ev_name env_get env_put
  by unfold_locales (simp_all add: env_get_put)

lemma names_env_put:
  "map ev_name (env_put e env) =
     (if ev_name e \<in> set (map ev_name env) then map ev_name env else map ev_name env @ [ev_name e])"
  by (induction env) auto

lemma distinct_env_put:
  "distinct (map ev_name env) \<Longrightarrow> distinct (map ev_name (env_put e env))"
  by (simp add: names_env_put)

lemma names_EnvOverride:
  "\<exists>new. map ev_name (EnvOverride dst src) = map ev_name dst @ new \<and> distinct new
      \<and> set new = ev_name ` set src - ev_name ` set dst"
proof (induction src arbitrary: dst)
  case (Cons e src)
  obtain n1 where n1: "map ev_name (EnvOverride (env_put e dst) src) = map ev_name (env_put e dst) @ n1"
    "distinct n1" "set n1 = ev_name ` set src - ev_name ` set (env_put e dst)"
    using Cons.IH [of "env_put e dst"] by blast
  have step: "EnvOverride dst (e # src) = EnvOverride (env_put e dst) src"
    by (simp add: EnvOverride_fold)
  have names: "ev_name ` set (env_put e dst) = insert (ev_name e) (ev_name ` set dst)"
    using arg_cong [OF names_env_put [of e dst], of set] by (auto split: if_splits)
  show ?case
  proof (cases "ev_name e \<in> set (map ev_name dst)")
    case True
    with n1 names show ?thesis unfolding step by (intro exI [of _ n1]) (auto simp: names_env_put)
  next
    case False
    with n1 names show ?thesis
      unfolding step by (intro exI [of _ "ev_name e # n1"]) (auto simp: names_env_put)
  qed
qed simp

section \<open>Setting one variable\<close>

lemma env_get_set_env_value:
  "env_get k' (set_env_value k v env) =
     (if k' = k then Some (case env_get k env of None \<Rightarrow> CreateEnvVar k v | Some e \<Rightarrow> e\<lparr>ev_value := v\<rparr>)
      else env_get k' env)"
  by (induction env) (auto simp: env_get_def CreateEnvVar_def)

lemma env_get_set_env_source:
  "env_get k' (set_env_source k s env) =
     (if k' = k then Some (case env_get k env of
          None \<Rightarrow> \<lparr>ev_name = k, ev_value = [], ev_valueFrom = Some s\<rparr> | Some e \<Rightarrow> e\<lparr>ev_valueFrom := Some s\<rparr>)
      else env_get k' env)"
  by (induction env) (auto simp: env_get_def)

lemma env_get_name: "env_get k env = Some e \<Longrightarrow> ev_name e = k"
  by (auto simp: env_get_def find_Some_iff)

lemma env_get_None: "env_get k env = None \<longleftrightarrow> k \<notin> ev_name ` set env"
  by (induction env) (auto simp: env_get_def)

lemma GetEnvVarFromContainer_conv:
  "GetEnvVarFromContainer k (Some c) = (case env_get k (c_env c) of None \<Rightarrow> [] | Some e \<Rightarrow> ev_value e)"
  by (simp add: GetEnvVarFromContainer_def env_get_def)

section \<open>Difference\<close>

lemma map_of_name_map:
  "map_of (fold (\<lambda>e m. AList.update (ev_name e) e m) es m) k = None \<longleftrightarrow>
     k \<notin> ev_name ` set es \<and> map_of m k = None"
  by (induction es arbitrary: m) (auto simp: update_conv')

lemma DiffEnvVar_filter:
  "DiffEnvVar env1 env2 = filter (\<lambda>e. ev_name e \<notin> ev_name ` set env2) env1"
  by (simp add: DiffEnvVar_def map_of_name_map)

section \<open>Properties\<close>

text \<open>C7: overriding environment variables is a keyed update.  After \<^term>\<open>EnvOverride dst src\<close> a name
  that occurs in the source has the source's last definition of it, every other name has what it had;
  the names of the destination keep their order and positions, and behind them come, once each, exactly
  the names of the source that the destination did not have.\<close>

theorem EnvOverride_spec:
  "env_get k (EnvOverride dst src) =
     (case filter (\<lambda>e. ev_name e = k) src of [] \<Rightarrow> env_get k dst | es \<Rightarrow> Some (last es))
   \<and> (\<exists>new. map ev_name (EnvOverride dst src) = map ev_name dst @ new \<and> distinct new
        \<and> set new = ev_name ` set src - ev_name ` set dst)"
  using env.get_fold_put [of k src dst] names_EnvOverride [of dst src]
  by (simp add: EnvOverride_fold)

end
