(* ===== verification/Framework_Comparator.thy ===== *)
theory Framework_Comparator
  imports Framework_Env "HOL-Library.Multiset"
begin

text \<open>
  The comparators that decide whether a deployed resource differs from the requested one,
  \<^verbatim>\<open>core/framework/comparator.go\<close>.  A comparator may normalise both objects in place before they are
  compared, so it returns them beside its verdict.  The comparators of operator-utils are parameters.
\<close>

type_synonym 'o comparator = "'o \<Rightarrow> 'o \<Rightarrow> bool \<times> 'o \<times> 'o"  \<comment> \<open>deployed, requested\<close>

section \<open>The builder\<close>

record 'o comparator_builder =
  cb_custom :: "'o comparator option"
  cb_default :: "'o comparator option"

definition NewComparatorBuilder :: "'o comparator_builder" where
  "NewComparatorBuilder = \<lparr>cb_custom = None, cb_default = None\<rparr>"

definition WithCustomComparator :: "'o comparator \<Rightarrow> 'o comparator_builder \<Rightarrow> 'o comparator_builder" where
  "WithCustomComparator c b = b\<lparr>cb_custom := Some c\<rparr>"

text \<open>\<^verbatim>\<open>UseDefaultComparator\<close>: the comparator of operator-utils for the type, or its generic one.\<close>

definition UseDefaultComparator ::
  "'o comparator option \<Rightarrow> 'o comparator \<Rightarrow> 'o comparator_builder \<Rightarrow> 'o comparator_builder" where
  "UseDefaultComparator forType generic b =
     b\<lparr>cb_default := Some (case forType of None \<Rightarrow> generic | Some c \<Rightarrow> c)\<rparr>"

definition Build :: "'o comparator_builder \<Rightarrow> 'o comparator" where
  "Build b deployed requested =
     (let (equal, dep, req) = (case cb_custom b of None \<Rightarrow> (True, deployed, requested) | Some c \<Rightarrow> c deployed requested)
      in if equal then (case cb_default b of None \<Rightarrow> (True, dep, req) | Some c \<Rightarrow> c dep req)
         else (False, dep, req))"

section \<open>Labels and maps\<close>

definition containAllLabels :: "object_meta \<Rightarrow> object_meta \<Rightarrow> bool" where
  "containAllLabels deployed requested =
     list_all (\<lambda>(k, v). smap_get (om_labels deployed) k = v) (om_labels requested)"

definition CreateRouteComparator :: "route comparator" where
  "CreateRouteComparator deployed requested =
     (containAllLabels (rt_meta deployed) (rt_meta requested), deployed, requested)"

definition CreateConfigMapComparator :: "configmap comparator" where
  "CreateConfigMapComparator deployed requested =
     (if \<not> containAllLabels (cm_meta deployed) (cm_meta requested) then (False, deployed, requested)
      else (smap_eq (cm_data deployed) (cm_data requested), deployed, requested))"

section \<open>Pods\<close>

definition sortVolumes :: "pod_spec \<Rightarrow> pod_spec" where
  "sortVolumes pod =
     pod\<lparr>ps_volumes := sort_key vol_name (ps_volumes pod),
         ps_containers := map (\<lambda>c. c\<lparr>c_volumeMounts := sort_key vm_mountPath (c_volumeMounts c)\<rparr>) (ps_containers pod)\<rparr>"

text \<open>\<^verbatim>\<open>sort.Slice\<close> is not stable; containers of a pod have different names.\<close>

definition sortContainersByName :: "pod_template \<Rightarrow> pod_template" where
  "sortContainersByName pod =
     pod\<lparr>pt_spec := (pt_spec pod)\<lparr>ps_containers := sort_key c_name (ps_containers (pt_spec pod))\<rparr>\<rparr>"

definition take_injected :: "container \<Rightarrow> container \<Rightarrow> container" where
  "take_injected deployed requested =
     (if length (c_env deployed) > length (c_env requested)
      then let diff = DiffEnvVar (c_env deployed) (c_env requested)
           in if diff \<noteq> [] then requested\<lparr>c_env := c_env requested @ diff\<rparr> else requested
      else requested)"

definition ignoreInjectedVariables :: "pod_template \<Rightarrow> pod_template \<Rightarrow> pod_template \<times> pod_template" where
  "ignoreInjectedVariables deployed requested =
     (if length (ps_containers (pt_spec deployed)) \<noteq> length (ps_containers (pt_spec requested)) then (deployed, requested)
      else
        let dep = sortContainersByName deployed;
            req = sortContainersByName requested
        in (dep, req\<lparr>pt_spec := (pt_spec req)\<lparr>ps_containers :=
              map2 take_injected (ps_containers (pt_spec dep)) (ps_containers (pt_spec req))\<rparr>\<rparr>))"

definition CreateDeploymentComparator :: "deployment comparator" where
  "CreateDeploymentComparator deployed requested =
     (let sv = (\<lambda>d. d\<lparr>dep_template := (dep_template d)\<lparr>pt_spec := sortVolumes (pt_spec (dep_template d))\<rparr>\<rparr>);
          dep = sv deployed; req = sv requested;
          (t1, t2) = ignoreInjectedVariables (dep_template dep) (dep_template req)
      in (True, dep\<lparr>dep_template := t1\<rparr>, req\<lparr>dep_template := t2\<rparr>))"

section \<open>Deployment configurations\<close>

record dc_trigger =
  tr_imageChange :: "string option"  \<comment> \<open>the namespace of the image change parameters\<close>

record deployment_config =
  dcf_meta :: object_meta
  dcf_selector :: smap
  dcf_template :: pod_template
  dcf_triggers :: "dc_trigger list"
  dcf_strategyType :: string
  dcf_rollingParams :: "nat option"

fun clear_trigger_namespaces :: "dc_trigger list \<Rightarrow> dc_trigger list \<Rightarrow> bool \<times> dc_trigger list" where
  "clear_trigger_namespaces [] req = (True, [])"
| "clear_trigger_namespaces (d # ds) [] = (False, d # ds)"
| "clear_trigger_namespaces (d # ds) (r # rs) =
     (let d' = (if tr_imageChange d \<noteq> None \<and> tr_imageChange r = Some [] then d\<lparr>tr_imageChange := Some []\<rparr> else d)
      in case clear_trigger_namespaces ds rs of (b, ds') \<Rightarrow> (b, d' # ds'))"

definition CreateDeploymentConfigComparator :: "deployment_config comparator" where
  "CreateDeploymentConfigComparator deployed requested =
     (let sv = (\<lambda>d. d\<lparr>dcf_template := (dcf_template d)\<lparr>pt_spec := sortVolumes (pt_spec (dcf_template d))\<rparr>\<rparr>);
          dep = sv deployed; req = sv requested;
          (t1, t2) = ignoreInjectedVariables (dcf_template dep) (dcf_template req);
          dep1 = dep\<lparr>dcf_template := t1\<rparr>; req1 = req\<lparr>dcf_template := t2\<rparr>;
          (ok, trs) = clear_trigger_namespaces (dcf_triggers dep1) (dcf_triggers req1);
          dep2 = dep1\<lparr>dcf_triggers := trs\<rparr>
      in if \<not> ok then (False, dep2, req1)
         else (True,
               if dcf_rollingParams req1 = None \<and> dcf_strategyType dep2 = dcf_strategyType req1
               then dep2\<lparr>dcf_rollingParams := None\<rparr> else dep2,
               req1))"

text \<open>\<^verbatim>\<open>IsSafeToRollOutDeploymentConfig\<close> and the other small predicates of the package.\<close>

record dc_status =
  dcs_conditions :: "(string \<times> cond_status) list"
  dcs_replicas :: int
  dcs_readyReplicas :: int

definition IsSafeToRollOutDeploymentConfig :: "dc_status option \<Rightarrow> bool" where
  "IsSafeToRollOutDeploymentConfig dc =
     (case dc of None \<Rightarrow> False
      | Some st \<Rightarrow> list_ex (\<lambda>(ty, s). ty = ''Progressing'' \<and> s = CTrue \<and> dcs_replicas st = dcs_readyReplicas st) (dcs_conditions st))"

text \<open>Ties of \<^verbatim>\<open>sort.Slice\<close> are broken in an unspecified way; here by position.\<close>

definition GetLatestDeploymentCondition :: "deployment_condition list \<Rightarrow> deployment_condition option" where
  "GetLatestDeploymentCondition conditions =
     (if conditions = [] then None else Some (last (sort_key dc_lastUpdateTime conditions)))"

definition AddIstioInjectSidecarAnnotation :: "object_meta option \<Rightarrow> object_meta option" where
  "AddIstioInjectSidecarAnnotation m =
     map_option (\<lambda>m. m\<lparr>om_annotations := smap_put ''sidecar.istio.io/inject'' ''true'' (om_annotations m)\<rparr>) m"

section \<open>Lemmas\<close>

lemma Build_equal_iff:
  "fst (Build b deployed requested) \<longleftrightarrow>
     (case cb_custom b of
        None \<Rightarrow> (case cb_default b of None \<Rightarrow> True | Some d \<Rightarrow> fst (d deployed requested))
      | Some c \<Rightarrow> fst (c deployed requested) \<and>
          (case cb_default b of None \<Rightarrow> True
           | Some d \<Rightarrow> fst (d (fst (snd (c deployed requested))) (snd (snd (c deployed requested))))))"
  by (auto simp: Build_def split: option.splits prod.splits)

lemma sort_key_perm_eq:
  fixes f :: "'a \<Rightarrow> string"
  assumes "mset xs = mset ys" "inj_on f (set xs)"
  shows "sort_key f xs = sort_key f ys"
  using assms by (intro sort_key_inj_key_eq) simp_all

lemma sort_key_map: "sort_key f (map g xs) = map g (sort_key (\<lambda>x. f (g x)) xs)"
proof (induction xs)
  case (Cons x xs)
  have "insort_key f (g x) (map g ys) = map g (insort_key (\<lambda>x. f (g x)) x ys)" for ys
    by (induction ys) auto
  with Cons show ?case by simp
qed simp

lemma insort_key_cong:
  "\<forall>y \<in> insert x (set ys). f y = g y \<Longrightarrow> insort_key f x ys = insort_key g x ys"
  by (induction ys) auto

lemma sort_key_cong: "\<forall>x \<in> set xs. f x = g x \<Longrightarrow> sort_key f xs = sort_key g xs"
proof (induction xs)
  case (Cons x xs)
  then show ?case using insort_key_cong [of x "sort_key g xs" f g] by simp
qed simp

text \<open>Sorting two lists whose items correspond and have the same keys keeps the correspondence.\<close>

lemma list_all2_sort_key:
  assumes "list_all2 R xs ys" "\<And>x y. R x y \<Longrightarrow> f x = g y"
  shows "list_all2 R (sort_key f xs) (sort_key g ys)"
proof -
  from assms(1) obtain zs where zs: "xs = map fst zs" "ys = map snd zs" "\<forall>z \<in> set zs. R (fst z) (snd z)"
    by (auto simp: list_all2_iff intro!: that [of "zip xs ys"] dest: bspec)
  then have "sort_key (\<lambda>z. g (snd z)) zs = sort_key (\<lambda>z. f (fst z)) zs"
    using assms(2) by (intro sort_key_cong) auto
  then show ?thesis
    using zs by (simp add: sort_key_map list_all2_map1 list_all2_map2 list_all2_same)
qed

text \<open>A deployed container that differs from the requested one by the order of its volume mounts and by
  variables some other controller appended.\<close>

definition injected_only :: "container \<Rightarrow> container \<Rightarrow> bool" where
  "injected_only dep req \<longleftrightarrow>
     (\<exists>injected. c_env dep = c_env req @ injected \<and> ev_name ` set injected \<inter> ev_name ` set (c_env req) = {}) \<and>
     mset (c_volumeMounts dep) = mset (c_volumeMounts req) \<and> inj_on vm_mountPath (set (c_volumeMounts dep)) \<and>
     dep\<lparr>c_env := [], c_volumeMounts := []\<rparr> = req\<lparr>c_env := [], c_volumeMounts := []\<rparr>"

lemma take_injected_env:
  assumes "c_env dep = c_env req @ injected" "ev_name ` set injected \<inter> ev_name ` set (c_env req) = {}"
  shows "c_env (take_injected dep req) = c_env dep"
proof -
  have "filter (\<lambda>e. ev_name e \<notin> ev_name ` set (c_env req)) (c_env req) = []"
    by (auto simp: filter_empty_conv)
  moreover have "filter (\<lambda>e. ev_name e \<notin> ev_name ` set (c_env req)) injected = injected"
    using assms(2) by (auto simp: filter_id_conv)
  ultimately have "DiffEnvVar (c_env dep) (c_env req) = injected"
    by (simp add: DiffEnvVar_filter assms(1))
  then show ?thesis using assms(1) by (cases injected) (auto simp: take_injected_def Let_def)
qed

lemma take_injected_other:
  "take_injected dep req\<lparr>c_env := e\<rparr> = req\<lparr>c_env := e\<rparr>"
  by (simp add: take_injected_def Let_def)

lemma injected_only_normalised:
  assumes "injected_only dep req"
  shows "take_injected (dep\<lparr>c_volumeMounts := sort_key vm_mountPath (c_volumeMounts dep)\<rparr>)
       (req\<lparr>c_volumeMounts := sort_key vm_mountPath (c_volumeMounts req)\<rparr>)
     = dep\<lparr>c_volumeMounts := sort_key vm_mountPath (c_volumeMounts dep)\<rparr>" (is "take_injected ?d ?r = ?d")
proof -
  from assms obtain injected where inj: "c_env dep = c_env req @ injected"
    "ev_name ` set injected \<inter> ev_name ` set (c_env req) = {}"
    and rest: "dep\<lparr>c_env := [], c_volumeMounts := []\<rparr> = req\<lparr>c_env := [], c_volumeMounts := []\<rparr>"
    and mounts: "sort_key vm_mountPath (c_volumeMounts dep) = sort_key vm_mountPath (c_volumeMounts req)"
    by (auto simp: injected_only_def intro: sort_key_perm_eq)
  have "c_env (take_injected ?d ?r) = c_env ?d"
    using take_injected_env [of ?d ?r injected] inj by simp
  moreover have "take_injected ?d ?r\<lparr>c_env := c_env dep\<rparr> = ?r\<lparr>c_env := c_env dep\<rparr>"
    by (rule take_injected_other)
  moreover have "x = x\<lparr>c_env := c_env x\<rparr>" for x :: container by (cases x) simp
  ultimately have "take_injected ?d ?r = ?r\<lparr>c_env := c_env dep\<rparr>" by (metis container.select_convs(3) container.update_convs(5) container.surjective)
  also have "\<dots> = ?d" using rest mounts by (cases dep; cases req) simp
  finally show ?thesis .
qed

lemma pod_template_eqI:
  assumes "t\<lparr>pt_spec := pt_spec t\<lparr>ps_containers := [], ps_volumes := []\<rparr>\<rparr>
     = (u :: pod_template)\<lparr>pt_spec := pt_spec u\<lparr>ps_containers := [], ps_volumes := []\<rparr>\<rparr>"
  shows "t\<lparr>pt_spec := pt_spec t\<lparr>ps_volumes := v, ps_containers := c\<rparr>\<rparr>
     = u\<lparr>pt_spec := pt_spec u\<lparr>ps_volumes := v, ps_containers := c\<rparr>\<rparr>"
  using assms by (cases t; cases u; cases "pt_spec t"; cases "pt_spec u") simp

section \<open>Properties\<close>

text \<open>C29: the deployment comparator does not see what other controllers inject.  If the deployed
  deployment differs from the requested one only in the order of volumes and volume mounts (whose names
  and paths are unique) and in environment variables appended to its containers, then after the
  comparator's normalisation both pod templates are equal, so no update is triggered and the injected
  variables survive; the deployed side keeps its variables.\<close>

theorem CreateDeploymentComparator_ignores_injection:
  assumes "list_all2 injected_only (ps_containers (pt_spec (dep_template deployed))) (ps_containers (pt_spec (dep_template requested)))"
    and "mset (ps_volumes (pt_spec (dep_template deployed))) = mset (ps_volumes (pt_spec (dep_template requested)))"
    and "inj_on vol_name (set (ps_volumes (pt_spec (dep_template deployed))))"
    and "dep_template deployed\<lparr>pt_spec := pt_spec (dep_template deployed)\<lparr>ps_containers := [], ps_volumes := []\<rparr>\<rparr>
       = dep_template requested\<lparr>pt_spec := pt_spec (dep_template requested)\<lparr>ps_containers := [], ps_volumes := []\<rparr>\<rparr>"
  shows "case CreateDeploymentComparator deployed requested of (equal, dep, req) \<Rightarrow>
     equal \<and> dep_template dep = dep_template req
     \<and> mset (map c_env (ps_containers (pt_spec (dep_template dep))))
         = mset (map c_env (ps_containers (pt_spec (dep_template deployed))))"
proof -
  let ?n = "\<lambda>c. c\<lparr>c_volumeMounts := sort_key vm_mountPath (c_volumeMounts c)\<rparr>"
  let ?cd = "ps_containers (pt_spec (dep_template deployed))" and ?cr = "ps_containers (pt_spec (dep_template requested))"
  have vol: "sort_key vol_name (ps_volumes (pt_spec (dep_template deployed))) =
      sort_key vol_name (ps_volumes (pt_spec (dep_template requested)))"
    using assms(2,3) by (rule sort_key_perm_eq)
  have len: "length ?cd = length ?cr" using assms(1) by (rule list_all2_lengthD)
  have "list_all2 (\<lambda>d r. take_injected d r = d \<and> c_name d = c_name r) (map ?n ?cd) (map ?n ?cr)"
    using assms(1) by (simp add: list_all2_map1 list_all2_map2)
      (erule list_all2_mono, auto simp: injected_only_normalised, auto simp: injected_only_def dest: arg_cong [of _ _ c_name])
  then have "list_all2 (\<lambda>d r. take_injected d r = d \<and> c_name d = c_name r)
      (sort_key c_name (map ?n ?cd)) (sort_key c_name (map ?n ?cr))"
    by (rule list_all2_sort_key) simp
  then have conts: "map2 take_injected (sort_key c_name (map ?n ?cd)) (sort_key c_name (map ?n ?cr)) = sort_key c_name (map ?n ?cd)"
    by (induction rule: list_all2_induct) auto
  have "mset (map c_env (sort_key c_name (map ?n ?cd))) = mset (map c_env ?cd)"
    by (simp only: mset_map mset_sort multiset.map_comp) (simp add: o_def)
  then show ?thesis
    using pod_template_eqI [OF assms(4)] vol len conts
    by (simp add: CreateDeploymentComparator_def ignoreInjectedVariables_def sortVolumes_def sortContainersByName_def Let_def)
qed

lemma CreateDeploymentComparator_ignores_injection_witness:
  "case CreateDeploymentComparator
      (sample_deployment\<lparr>dep_template := (dep_template sample_deployment)\<lparr>pt_spec := (pt_spec (dep_template sample_deployment))
         \<lparr>ps_containers := [sample_container\<lparr>c_env := [CreateEnvVar ''K_SINK'' ''http://x'']\<rparr>]\<rparr>\<rparr>\<rparr>)
      sample_deployment of (equal, dep, req) \<Rightarrow> equal \<and> dep_template dep = dep_template req"
  using CreateDeploymentComparator_ignores_injection [of
      "sample_deployment\<lparr>dep_template := (dep_template sample_deployment)\<lparr>pt_spec := (pt_spec (dep_template sample_deployment))
         \<lparr>ps_containers := [sample_container\<lparr>c_env := [CreateEnvVar ''K_SINK'' ''http://x'']\<rparr>]\<rparr>\<rparr>\<rparr>" sample_deployment]
  by (auto simp: injected_only_def sample_deployment_def sample_container_def split: prod.splits)

end
