(* ===== verification/Resource_Reconciler.thy ===== *)
theory Resource_Reconciler
  imports Delta_Processor Framework_Owner Framework_Comparator
begin

text \<open>
  The context of the operator (\<^verbatim>\<open>core/operator/context.go\<close>) and the shape its reconcilers share: compute the
  required resources, fetch the deployed ones, process the delta.  The shape is an interface; each
  reconciler of one resource type interprets it and gets what follows from the shape.
\<close>

section \<open>Context\<close>

text \<open>The version, the metering labels and the deployment identifier of the context; the functions of the
  Kubernetes libraries that depend on its scheme, and the environment of the process, are parameters
  kept with it.\<close>

record op_context =
  cx_version :: string
  cx_labels :: smap
  cx_deploymentIdentifier :: string
  cx_setControllerReference :: "object_meta \<Rightarrow> object_meta \<Rightarrow> gerr + object_meta"
  cx_gvkForObject :: "object_meta \<Rightarrow> gerr + (string \<times> string)"
  cx_getenv :: "string \<Rightarrow> string"

text \<open>\<^verbatim>\<open>framework.SetOwner(owner, scheme, object)\<close> and \<^verbatim>\<open>framework.AddOwnerReference(owner, scheme, object)\<close>
  for one object, whose metadata they change.\<close>

definition own_object ::
  "op_context \<Rightarrow> object_meta \<Rightarrow> ('o \<Rightarrow> object_meta) \<Rightarrow> (object_meta \<Rightarrow> 'o \<Rightarrow> 'o) \<Rightarrow> 'o \<Rightarrow> gerr + 'o" where
  "own_object cx owner get_meta set_meta x =
     (case SetOwner (cx_setControllerReference cx) owner [get_meta x] of
        (Some e, _) \<Rightarrow> Inl e
      | (None, ms) \<Rightarrow> Inr (set_meta (hd ms) x))"

definition share_object ::
  "op_context \<Rightarrow> object_meta \<Rightarrow> ('o \<Rightarrow> object_meta) \<Rightarrow> (object_meta \<Rightarrow> 'o \<Rightarrow> 'o) \<Rightarrow> 'o \<Rightarrow> gerr + 'o" where
  "share_object cx owner get_meta set_meta x =
     (case AddOwnerReference (cx_gvkForObject cx owner) owner [get_meta x] of
        (Some e, _) \<Rightarrow> Inl e
      | (None, ms) \<Rightarrow> Inr (set_meta (hd ms) x))"

lemma own_object_conv:
  "own_object cx owner gm sm x = bindR (cx_setControllerReference cx owner (gm x)) (\<lambda>m. Inr (sm m x))"
  by (auto simp: own_object_def bindR_def split: sum.split)

lemma share_object_conv:
  "share_object cx owner gm sm x = bindR (cx_gvkForObject cx owner) (\<lambda>g. Inr (sm (add_owner g owner (gm x)) x))"
  by (auto simp: share_object_def AddOwnerReference_def bindR_def split: sum.split)

section \<open>One resource type\<close>

text \<open>What operator-utils provides for the resources of one type: its own comparators (for the type, if it has
  one, and the generic one), the comparison of all resources given the comparator registered for the
  type, and the writers of the delta processor.\<close>

record ('w, 'o) delta_lib =
  dl_forType :: "'o comparator option"
  dl_generic :: "'o comparator"
  dl_compare :: "'o comparator \<Rightarrow> 'o list \<Rightarrow> 'o list \<Rightarrow> 'o delta"  \<comment> \<open>comparator, deployed, requested\<close>
  dl_hasChanges :: "'o delta \<Rightarrow> bool"
  dl_writer :: "('w, 'o) bulk_writer"

definition process_resources ::
  "('w, 'o) delta_lib \<Rightarrow> 'o comparator \<Rightarrow> 'o list \<Rightarrow> 'o list \<Rightarrow> 'w \<Rightarrow> (gerr + bool) \<times> 'w" where
  "process_resources L equal requested deployed w =
     (case ProcessDelta (dl_hasChanges L) (dl_writer L)
             (\<lambda>dep req. [((), dl_compare L equal (dep ()) (req ()))]) (\<lambda>_. requested) (\<lambda>_. deployed) w of
        ((processed, None), w') \<Rightarrow> (Inr processed, w')
      | ((processed, Some e), w') \<Rightarrow> (Inl e, w'))"

text \<open>The comparators of the config map and secret handlers.\<close>

definition configMap_GetComparator :: "configmap comparator" where
  "configMap_GetComparator = Build (WithCustomComparator CreateConfigMapComparator NewComparatorBuilder)"

definition secret_GetComparator :: "('w, secret) delta_lib \<Rightarrow> secret comparator" where
  "secret_GetComparator L = (case dl_forType L of Some c \<Rightarrow> c | None \<Rightarrow> dl_generic L)"

text \<open>What operator-utils documents of the comparison: a delta without changes when the deployed and the
  requested resources correspond one to one under the comparator.\<close>

definition compare_settles :: "('w, 'o) delta_lib \<Rightarrow> bool" where
  "compare_settles L \<longleftrightarrow> (\<forall>cmp dep req. list_all2 (\<lambda>d r. fst (cmp d r)) dep req \<longrightarrow>
     \<not> dl_hasChanges L (dl_compare L cmp dep req))"

lemma process_resources_quiet:
  "\<not> dl_hasChanges L (dl_compare L equal deployed requested) \<Longrightarrow>
   process_resources L equal requested deployed w = (Inr False, w)"
  by (simp add: process_resources_def ProcessDelta_def)

lemma process_resources_changed:
  "dl_hasChanges L (dl_compare L equal deployed requested) \<Longrightarrow>
   process_resources L equal requested deployed w =
     (case apply_delta (dl_writer L) deployed (dl_compare L equal deployed requested) w of
        (Inl e, w') \<Rightarrow> (Inl e, w') | (Inr _, w') \<Rightarrow> (Inr True, w'))"
  by (auto simp: process_resources_def ProcessDelta_def split: prod.split sum.split)

section \<open>The interface of a reconciler\<close>

locale resource_reconciler =
  fixes lib :: "('w, 'o) delta_lib"
    and equal :: "'o comparator"
    and required :: "'w \<Rightarrow> gerr + 'o list"
    and deployed :: "'w \<Rightarrow> gerr + 'o list"
    and reconcile :: "'w \<Rightarrow> (gerr + bool) \<times> 'w"
  assumes shape: "reconcile w =
     (case required w of
        Inl e \<Rightarrow> (Inl e, w)
      | Inr req \<Rightarrow> (case deployed w of Inl e \<Rightarrow> (Inl e, w) | Inr dep \<Rightarrow> process_resources lib equal req dep w))"
begin

lemma required_error: "required w = Inl e \<Longrightarrow> reconcile w = (Inl e, w)"
  by (simp add: shape)

lemma deployed_error: "required w = Inr req \<Longrightarrow> deployed w = Inl e \<Longrightarrow> reconcile w = (Inl e, w)"
  by (simp add: shape)

lemma settled:
  assumes "compare_settles lib" "required w = Inr req" "deployed w = Inr dep" "list_all2 (\<lambda>d r. fst (equal d r)) dep req"
  shows "reconcile w = (Inr False, w)"
  using assms by (simp add: shape compare_settles_def process_resources_quiet)

lemma unchanged_without_report: "reconcile w = (Inr False, w') \<Longrightarrow> w' = w"
proof -
  assume r: "reconcile w = (Inr False, w')"
  then obtain req dep where p: "process_resources lib equal req dep w = (Inr False, w')"
    by (auto simp: shape split: sum.splits)
  then have "\<not> dl_hasChanges lib (dl_compare lib equal dep req)"
    by (auto simp: process_resources_changed split: prod.splits sum.splits)
  with p show ?thesis by (simp add: process_resources_quiet)
qed

end

text \<open>A library in memory for the concrete instances: resources correspond by position in the list of
  names, and the writers work on a store.\<close>

definition mem_compare :: "('o \<Rightarrow> string) \<Rightarrow> 'o comparator \<Rightarrow> 'o list \<Rightarrow> 'o list \<Rightarrow> 'o delta" where
  "mem_compare nm equal dep req =
     \<lparr>d_added = filter (\<lambda>r. nm r \<notin> nm ` set dep) req,
      d_updated = filter (\<lambda>r. list_ex (\<lambda>d. nm d = nm r \<and> \<not> fst (equal d r)) dep) req,
      d_removed = filter (\<lambda>d. nm d \<notin> nm ` set req) dep\<rparr>"

definition mem_hasChanges :: "'o delta \<Rightarrow> bool" where
  "mem_hasChanges d \<longleftrightarrow> d_added d \<noteq> [] \<or> d_updated d \<noteq> [] \<or> d_removed d \<noteq> []"

definition mem_delta_lib :: "('o \<Rightarrow> string) \<Rightarrow> ('w \<Rightarrow> 'o list) \<Rightarrow> ('o list \<Rightarrow> 'w \<Rightarrow> 'w) \<Rightarrow> ('w, 'o) delta_lib" where
  "mem_delta_lib nm g p =
     \<lparr>dl_forType = None, dl_generic = (\<lambda>d r. (True, d, r)), dl_compare = mem_compare nm, dl_hasChanges = mem_hasChanges,
      dl_writer = \<lparr>bw_add = (\<lambda>xs w. (Inr (xs \<noteq> []), p (xs @ g w) w)),
        bw_update = (\<lambda>ex xs w. (Inr (xs \<noteq> []), p (map (\<lambda>y. case find (\<lambda>x. nm x = nm y) xs of None \<Rightarrow> y | Some x \<Rightarrow> x) (g w)) w)),
        bw_remove = (\<lambda>xs w. (Inr (xs \<noteq> []), p (filter (\<lambda>y. nm y \<notin> nm ` set xs) (g w)) w))\<rparr>\<rparr>"

end
