(* ===== verification/Framework_Image.thy ===== *)
theory Framework_Image
  imports Kube_Types
begin

text \<open>
  Image names, \<^verbatim>\<open>core/framework/image.go\<close> and \<^verbatim>\<open>apis/image.go\<close>: the structure with domain, name and tag, its
  printing, and the parser built on the regular expression

  \<^verbatim>\<open>(?P<domain>(?:[a-z0-9]?:{0,1}\.?-?_?)+\/(?:(?:[a-z0-9]|[._]|__|[-]*)+\/)?)?(?P<image>[^:]+)(?P<tag>:.+)?\<close>

  whose match Go computes with the preferences of a backtracking matcher.  No character class of the
  domain contains the slash, so each domain segment is the run of admissible characters up to the
  next slash, and the alternatives in order of preference are: two segments, one segment, none; the
  first that leaves a rest on which \<^verbatim>\<open>[^:]+\<close> matches wins.
\<close>

record image =
  img_domain :: string
  img_name :: string
  img_tag :: string

section \<open>Operations\<close>

definition Image_IsEmpty :: "image \<Rightarrow> bool" where
  "Image_IsEmpty i \<longleftrightarrow> img_domain i = [] \<and> img_name i = [] \<and> img_tag i = []"

definition Image_String :: "image \<Rightarrow> string" where
  "Image_String i =
     (if Image_IsEmpty i then [] else img_domain i @ ''/'' @ img_name i @ '':'' @ img_tag i)"

definition lower_or_digit :: "char \<Rightarrow> bool" where
  "lower_or_digit c \<longleftrightarrow> (CHR ''a'' \<le> c \<and> c \<le> CHR ''z'') \<or> (CHR ''0'' \<le> c \<and> c \<le> CHR ''9'')"

definition domain_char :: "char \<Rightarrow> bool" where
  "domain_char c \<longleftrightarrow> lower_or_digit c \<or> c = CHR '':'' \<or> c = CHR ''.'' \<or> c = CHR ''-'' \<or> c = CHR ''_''"

definition namespace_char :: "char \<Rightarrow> bool" where
  "namespace_char c \<longleftrightarrow> lower_or_digit c \<or> c = CHR ''.'' \<or> c = CHR ''-'' \<or> c = CHR ''_''"

text \<open>A run of characters of a class and the slash behind it, with the rest of the input.\<close>

definition match_segment :: "(char \<Rightarrow> bool) \<Rightarrow> string \<Rightarrow> (string \<times> string) option" where
  "match_segment P s =
     (case dropWhile P s of
        [] \<Rightarrow> None
      | c # r \<Rightarrow> if c = CHR ''/'' then Some (takeWhile P s @ ''/'', r) else None)"

definition domain_candidates :: "string \<Rightarrow> (string \<times> string) list" where
  "domain_candidates s =
     (case match_segment domain_char s of
        None \<Rightarrow> [([], s)]
      | Some (d, r) \<Rightarrow>
          (case match_segment namespace_char r of
             None \<Rightarrow> [(d, r), ([], s)]
           | Some (n, r') \<Rightarrow> [(d @ n, r'), (d, r), ([], s)]))"

definition image_matches :: "string \<Rightarrow> bool" where
  "image_matches r \<longleftrightarrow> takeWhile (\<lambda>c. c \<noteq> CHR '':'') r \<noteq> []"

definition match_tag :: "string \<Rightarrow> string" where
  "match_tag r =
     (case r of
        [] \<Rightarrow> []
      | c # t \<Rightarrow> (let m = takeWhile (\<lambda>x. x \<noteq> CHR 0x0A) t
                  in if c = CHR '':'' \<and> m \<noteq> [] then '':'' @ m else []))"

definition docker_tag_match :: "string \<Rightarrow> (string \<times> string \<times> string) option" where
  "docker_tag_match s =
     map_option (\<lambda>(d, r). (d, takeWhile (\<lambda>c. c \<noteq> CHR '':'') r, match_tag (dropWhile (\<lambda>c. c \<noteq> CHR '':'') r)))
       (find (\<lambda>(d, r). image_matches r) (domain_candidates s))"

text \<open>\<^verbatim>\<open>splitImageTag\<close>; the match cannot fail there, as \<^verbatim>\<open>docker_tag_match_total\<close> shows.\<close>

definition splitImageTag :: "string \<Rightarrow> string \<times> string \<times> string" where
  "splitImageTag imageTag =
     (if imageTag \<noteq> [] then
        if HasPrefix imageTag '':'' then ([], [], SplitChar CHR '':'' imageTag ! 1)
        else (case docker_tag_match imageTag of
                None \<Rightarrow> ([], [], [])
              | Some (d, n, t) \<Rightarrow>
                  (if d \<noteq> [] then TrimRightChar d CHR ''/'' else [], n, filter (\<lambda>c. c \<noteq> CHR '':'') t))
      else ([], [], []))"

definition SplitImageTag :: "string \<Rightarrow> string \<times> string \<times> string" where
  "SplitImageTag imageTag =
     (if imageTag = [] then ([], [], [])
      else (case splitImageTag imageTag of (d, n, t) \<Rightarrow> (d, n, if t = [] then ''latest'' else t)))"

definition ConvertImageTagToImage :: "string \<Rightarrow> image" where
  "ConvertImageTagToImage imageName =
     (case SplitImageTag imageName of (d, n, t) \<Rightarrow> \<lparr>img_domain = d, img_name = n, img_tag = t\<rparr>)"

definition ConvertImageToImageTag :: "image \<Rightarrow> string" where
  "ConvertImageToImageTag i =
     (if img_domain i \<noteq> [] then img_domain i @ ''/'' else []) @ img_name i @
     (if img_tag i \<noteq> [] then '':'' @ img_tag i else [])"

section \<open>Lemmas\<close>

lemma docker_tag_match_total:
  "s \<noteq> [] \<Longrightarrow> \<not> HasPrefix s '':'' \<Longrightarrow> docker_tag_match s \<noteq> None"
proof -
  assume "s \<noteq> []" "\<not> HasPrefix s '':''"
  then have "image_matches s" by (cases s) (auto simp: image_matches_def HasPrefix_def)
  moreover have "([], s) \<in> set (domain_candidates s)"
    by (auto simp: domain_candidates_def split: option.splits)
  ultimately show ?thesis by (auto simp: docker_tag_match_def find_None_iff)
qed

lemma slash_no_domain_char [simp]: "\<not> domain_char CHR ''/''" "\<not> namespace_char CHR ''/''" "\<not> namespace_char CHR '':''"
  by (simp_all add: domain_char_def namespace_char_def lower_or_digit_def less_eq_char_def)

lemma match_segment_app:
  "list_all P seg \<Longrightarrow> \<not> P CHR ''/'' \<Longrightarrow> match_segment P (seg @ CHR ''/'' # r) = Some (seg @ ''/'', r)"
  by (simp add: match_segment_def dropWhile_append2 takeWhile_append2 list_all_iff)

lemma match_segment_None:
  "CHR ''/'' \<notin> set s \<Longrightarrow> match_segment P s = None"
  using set_dropWhileD [of "CHR ''/''" P s]
  by (auto simp: match_segment_def split: list.split)

text \<open>A well-formed image: a plain name, a plain tag and at most two domain segments.\<close>

definition image_segments :: "image \<Rightarrow> string list" where
  "image_segments i = (if img_domain i = [] then [] else SplitChar CHR ''/'' (img_domain i))"

definition wf_image :: "image \<Rightarrow> bool" where
  "wf_image i \<longleftrightarrow>
     img_name i \<noteq> [] \<and> CHR '':'' \<notin> set (img_name i) \<and> CHR ''/'' \<notin> set (img_name i) \<and>
     img_tag i \<noteq> [] \<and> CHR '':'' \<notin> set (img_tag i) \<and> CHR ''/'' \<notin> set (img_tag i) \<and> CHR 0x0A \<notin> set (img_tag i) \<and>
     (case image_segments i of
        [] \<Rightarrow> True
      | [d] \<Rightarrow> d \<noteq> [] \<and> list_all domain_char d
      | [d, n] \<Rightarrow> n \<noteq> [] \<and> list_all domain_char d \<and> list_all namespace_char n
      | _ \<Rightarrow> False) \<and>
     hd (img_domain i @ img_name i) \<noteq> CHR '':''"

lemma image_rest:
  assumes "n \<noteq> []" "CHR '':'' \<notin> set n" "t \<noteq> []" "CHR 0x0A \<notin> set t"
  shows "image_matches (n @ CHR '':'' # t)"
    and "takeWhile (\<lambda>c. c \<noteq> CHR '':'') (n @ CHR '':'' # t) = n"
    and "match_tag (dropWhile (\<lambda>c. c \<noteq> CHR '':'') (n @ CHR '':'' # t)) = '':'' @ t"
proof -
  have colon: "takeWhile (\<lambda>c. c \<noteq> CHR '':'') (n @ CHR '':'' # t) = n"
    "dropWhile (\<lambda>c. c \<noteq> CHR '':'') (n @ CHR '':'' # t) = CHR '':'' # t"
    using assms(2) by (auto simp: takeWhile_append dropWhile_append takeWhile_eq_all_conv)
  have nl: "takeWhile (\<lambda>x. x \<noteq> CHR 0x0A) t = t"
    by (subst takeWhile_eq_all_conv) (use assms(4) in auto)
  from colon show "takeWhile (\<lambda>c. c \<noteq> CHR '':'') (n @ CHR '':'' # t) = n" by simp
  from colon assms show "image_matches (n @ CHR '':'' # t)" by (simp add: image_matches_def)
  show "match_tag (dropWhile (\<lambda>c. c \<noteq> CHR '':'') (n @ CHR '':'' # t)) = '':'' @ t"
    unfolding colon match_tag_def Let_def list.case nl using assms(3) by simp
qed

lemma splitImageTag_eq:
  assumes "n \<noteq> []" "CHR '':'' \<notin> set n" "t \<noteq> []" "CHR 0x0A \<notin> set t" "CHR '':'' \<notin> set t"
    and "domain_candidates (d @ n @ CHR '':'' # t) = (d, n @ CHR '':'' # t) # rest"
    and "hd (d @ n) \<noteq> CHR '':''"
  shows "SplitImageTag (d @ n @ CHR '':'' # t) = (TrimRightChar d CHR ''/'', n, t)"
proof -
  have "docker_tag_match (d @ n @ CHR '':'' # t) = Some (d, n, '':'' @ t)"
    using assms image_rest [of n t] by (simp add: docker_tag_match_def)
  moreover have "\<not> HasPrefix (d @ n @ CHR '':'' # t) '':''"
    using assms(1,7) by (cases d; cases n) (auto simp: HasPrefix_def)
  moreover have "filter (\<lambda>c. c \<noteq> CHR '':'') t = t" using assms(5) by (auto simp: filter_id_conv)
  ultimately show ?thesis
    using assms(1,3) by (simp add: SplitImageTag_def splitImageTag_def TrimRightChar_def)
qed

lemma domain_candidates_wf:
  assumes "wf_image i"
  shows "\<exists>rest. domain_candidates (ConvertImageToImageTag i) =
     (if img_domain i = [] then [] else img_domain i @ ''/'', img_name i @ CHR '':'' # img_tag i) # rest"
proof -
  define r where "r = img_name i @ CHR '':'' # img_tag i"
  have r: "match_segment P r = None" for P
    using assms by (intro match_segment_None) (simp add: r_def wf_image_def)
  have s: "ConvertImageToImageTag i = (if img_domain i \<noteq> [] then img_domain i @ ''/'' else []) @ r"
    using assms by (simp add: ConvertImageToImageTag_def r_def wf_image_def)
  consider "img_domain i = []"
    | d where "SplitChar CHR ''/'' (img_domain i) = [d]" "img_domain i \<noteq> []" "list_all domain_char d"
    | d n where "SplitChar CHR ''/'' (img_domain i) = [d, n]" "img_domain i \<noteq> []"
        "list_all domain_char d" "list_all namespace_char n"
    using assms by (auto simp: wf_image_def image_segments_def split: if_splits list.splits)
  then show ?thesis
  proof cases
    case 1
    with r s show ?thesis by (simp add: domain_candidates_def r_def)
  next
    case 2
    then have "img_domain i = d" using JoinChar_SplitChar [of "CHR ''/''" "img_domain i"] by simp
    with 2 r s show ?thesis by (simp add: domain_candidates_def match_segment_app r_def [symmetric])
  next
    case 3
    then have dom: "img_domain i = d @ CHR ''/'' # n"
      using JoinChar_SplitChar [of "CHR ''/''" "img_domain i"] by simp
    with 3 s have "match_segment domain_char (ConvertImageToImageTag i) = Some (d @ ''/'', n @ CHR ''/'' # r)"
      by (simp add: match_segment_app)
    with 3 dom show ?thesis by (simp add: domain_candidates_def match_segment_app r_def [symmetric])
  qed
qed

lemma wf_image_last: "wf_image i \<Longrightarrow> img_domain i \<noteq> [] \<Longrightarrow> last (img_domain i) \<noteq> CHR ''/''"
proof
  assume wf: "wf_image i" and ne: "img_domain i \<noteq> []" and l: "last (img_domain i) = CHR ''/''"
  then obtain d where d: "img_domain i = d @ ''/''" by (metis append_butlast_last_id)
  have "SplitChar CHR ''/'' (d @ ''/'') \<noteq> []" "last (SplitChar CHR ''/'' (d @ ''/'')) = []"
    "length (SplitChar CHR ''/'' (d @ ''/'')) > 1"
    by (induction d) (auto split: list.splits)
  with wf d show False
    by (auto simp: wf_image_def image_segments_def split: list.splits)
qed

section \<open>Properties\<close>

text \<open>C38: printing and parsing image names is a round trip.  For a well-formed image (a name and a tag
  free of separators and a domain of at most two segments over the characters the expression admits),
  \<^term>\<open>ConvertImageTagToImage\<close> recovers from the printed string exactly the domain, name and tag it
  was printed from.\<close>

theorem image_tag_roundtrip:
  assumes "wf_image i"
  shows "ConvertImageTagToImage (ConvertImageToImageTag i) = i"
proof -
  define d where "d = (if img_domain i = [] then [] else img_domain i @ ''/'')"
  have wf: "img_name i \<noteq> []" "CHR '':'' \<notin> set (img_name i)" "img_tag i \<noteq> []" "CHR 0x0A \<notin> set (img_tag i)"
    "CHR '':'' \<notin> set (img_tag i)" "hd (img_domain i @ img_name i) \<noteq> CHR '':''"
    using assms by (simp_all add: wf_image_def)
  have s: "ConvertImageToImageTag i = d @ img_name i @ CHR '':'' # img_tag i"
    using wf by (simp add: ConvertImageToImageTag_def d_def)
  obtain rest where "domain_candidates (d @ img_name i @ CHR '':'' # img_tag i) = (d, img_name i @ CHR '':'' # img_tag i) # rest"
    using domain_candidates_wf [OF assms] s d_def by auto
  moreover have "hd (d @ img_name i) \<noteq> CHR '':''"
    using wf(6) by (auto simp: d_def hd_append split: if_splits)
  ultimately have "SplitImageTag (ConvertImageToImageTag i) = (TrimRightChar d CHR ''/'', img_name i, img_tag i)"
    unfolding s using wf by (intro splitImageTag_eq) auto
  moreover have "TrimRightChar d CHR ''/'' = img_domain i"
    using wf_image_last [OF assms] by (auto simp: d_def TrimRightChar_id)
  ultimately show ?thesis by (simp add: ConvertImageTagToImage_def)
qed

lemma image_tag_roundtrip_witness:
  "ConvertImageTagToImage (ConvertImageToImageTag
      \<lparr>img_domain = ''quay.io:50/kiegroup'', img_name = ''kogito'', img_tag = ''1.0''\<rparr>)
   = \<lparr>img_domain = ''quay.io:50/kiegroup'', img_name = ''kogito'', img_tag = ''1.0''\<rparr>"
  using image_tag_roundtrip
    [of "\<lparr>img_domain = ''quay.io:50/kiegroup'', img_name = ''kogito'', img_tag = ''1.0''\<rparr>"]
  by (simp add: wf_image_def image_segments_def domain_char_def namespace_char_def lower_or_digit_def
      less_eq_char_def)

end
