(* ===== verification/Image_Handler.thy ===== *)
theory Image_Handler
  imports Resource_Reconciler Reconciliation_Error Kube_Client Framework_Image Framework_Comparator
begin

text \<open>
  Images of a service, \<^verbatim>\<open>core/infrastructure/image.go\<close>, \<^verbatim>\<open>imagestream.go\<close> and \<^verbatim>\<open>imagestream_reconciler.go\<close>: the
  name under which an image is pulled, the image stream that tracks it on OpenShift, and the
  reconciliation of a stream shared by several owners.  The OpenShift image client and the lister of
  owned resources are parameters of the record \<^verbatim>\<open>image_cluster\<close>.
\<close>

section \<open>Image streams\<close>

record tag_reference =
  tg_name :: string
  tg_annotations :: smap
  tg_from :: "(string \<times> string) option"
  tg_referencePolicy :: string
  tg_insecure :: bool
  tg_generation :: "int option"

record tag_condition =
  tc_type :: string
  tc_status :: cond_status
  tc_message :: string

record image_stream =
  is_meta :: object_meta
  is_lookupLocal :: bool
  is_tags :: "tag_reference list"
  is_statusTags :: "(string \<times> tag_condition list) list"

record docker_image =
  di_labels :: "smap option"  \<comment> \<open>the labels of its configuration, if there are any\<close>

record image_stream_tag =
  ist_meta :: object_meta
  ist_dockerImageReference :: string
  ist_dockerImageMetadata :: string

record 'w image_cluster =
  ic_isOpenshift :: bool
  ic_imageStreams :: "('w, image_stream) store_api"
  ic_getTag :: "string \<Rightarrow> string \<Rightarrow> 'w \<Rightarrow> gerr + image_stream_tag"
  ic_createTag :: "image_stream_tag \<Rightarrow> 'w \<Rightarrow> (gerr + image_stream_tag) \<times> 'w"
  ic_createStream :: "image_stream \<Rightarrow> 'w \<Rightarrow> (gerr + image_stream) \<times> 'w"
  ic_listOwned :: "object_meta \<Rightarrow> 'w \<Rightarrow> gerr + image_stream list"
  ic_unmarshal :: "string \<Rightarrow> gerr + docker_image"
  ic_tagsEqual :: "tag_reference list \<Rightarrow> tag_reference list \<Rightarrow> bool"  \<comment> \<open>compare.Equals\<close>

section \<open>Image names, image.go\<close>

record image_handler =
  ih_image :: image
  ih_defaultImageName :: string
  ih_imageStreamName :: string
  ih_namespace :: string
  ih_addFromReference :: bool
  ih_insecureImageRegistry :: bool

definition NewImageHandler :: "image \<Rightarrow> string \<Rightarrow> string \<Rightarrow> string \<Rightarrow> bool \<Rightarrow> bool \<Rightarrow> image_handler" where
  "NewImageHandler img defaultImageName imageStreamName namespace addFromReference insecureImageRegistry =
     \<lparr>ih_image = img, ih_defaultImageName = defaultImageName, ih_imageStreamName = imageStreamName,
      ih_namespace = namespace, ih_addFromReference = addFromReference,
      ih_insecureImageRegistry = insecureImageRegistry\<rparr>"

definition GetKogitoImageVersion :: "string \<Rightarrow> string" where
  "GetKogitoImageVersion v =
     (if v = [] then ''latest''
      else let versionPrefix = SplitChar CHR ''.'' v; len = length versionPrefix
           in if len > 0 then JoinChar CHR ''.'' (take (if len \<le> 2 then len else 2) versionPrefix)
              else ''latest'')"

definition GetDefaultImageRegistry :: "op_context \<Rightarrow> string" where
  "GetDefaultImageRegistry cx =
     (let registry = cx_getenv cx ''IMAGE_REGISTRY'' in if registry = [] then ''quay.io/kiegroup'' else registry)"

definition resolveTag :: "op_context \<Rightarrow> image_handler \<Rightarrow> string" where
  "resolveTag cx h = (if img_tag (ih_image h) = [] then GetKogitoImageVersion (cx_version cx) else img_tag (ih_image h))"

definition ResolveImageNameTag :: "op_context \<Rightarrow> image_handler \<Rightarrow> string" where
  "ResolveImageNameTag cx h =
     (if img_name (ih_image h) = [] then ih_defaultImageName h else img_name (ih_image h)) @ '':'' @ resolveTag cx h"

definition resolveRegistryImage :: "op_context \<Rightarrow> image_handler \<Rightarrow> string" where
  "resolveRegistryImage cx h =
     (if img_domain (ih_image h) = [] then GetDefaultImageRegistry cx else img_domain (ih_image h)) @ ''/'' @
     ResolveImageNameTag cx h"

definition ResolveImageStreamTriggerAnnotation :: "op_context \<Rightarrow> image_handler \<Rightarrow> string \<Rightarrow> string \<times> string" where
  "ResolveImageStreamTriggerAnnotation cx h containerName =
     (''image.openshift.io/triggers'',
      ''[{'' @ [CHR 0x22] @ ''from'' @ [CHR 0x22] @ '':{'' @ [CHR 0x22] @ ''kind'' @ [CHR 0x22] @ '':'' @ [CHR 0x22] @
      ''ImageStreamTag'' @ [CHR 0x22] @ '','' @ [CHR 0x22] @ ''name'' @ [CHR 0x22] @ '':'' @ [CHR 0x22] @
      ResolveImageNameTag cx h @ [CHR 0x22] @ ''},'' @ [CHR 0x22] @ ''fieldPath'' @ [CHR 0x22] @ '':'' @ [CHR 0x22] @
      ''spec.template.spec.containers[?(@.name=='' @ [CHR 0x5C, CHR 0x22] @ containerName @ [CHR 0x5C, CHR 0x22] @
      '')].image'' @ [CHR 0x22] @ ''}]'')"

section \<open>Image streams, imagestream.go\<close>

definition FetchImageStream :: "'w image_cluster \<Rightarrow> string \<Rightarrow> string \<Rightarrow> 'w \<Rightarrow> gerr + image_stream option" where
  "FetchImageStream K namespace name w = FetchWithKey (ic_imageStreams K) namespace name w"

definition FetchImageStreamForOwner :: "'w image_cluster \<Rightarrow> object_meta \<Rightarrow> 'w \<Rightarrow> gerr + image_stream list" where
  "FetchImageStreamForOwner K owner w = ic_listOwned K owner w"

definition MustFetchImageStream :: "'w image_cluster \<Rightarrow> string \<Rightarrow> string \<Rightarrow> 'w \<Rightarrow> gerr + image_stream" where
  "MustFetchImageStream K namespace name w =
     bindR (FetchImageStream K namespace name w) (\<lambda>is. case is of
        None \<Rightarrow> Inl (PlainError (''image stream with name '' @ name @ '' not found in namespace '' @ namespace))
      | Some is \<Rightarrow> Inr is)"

definition createImageStream :: "string \<Rightarrow> string \<Rightarrow> image_stream" where
  "createImageStream namespace name =
     \<lparr>is_meta = (mk_meta name namespace)\<lparr>om_annotations :=
        [(''openshift.io/provider-display-name'', ''KIE Group''), (''openshift.io/display-name'', ''Kogito Service image'')]\<rparr>,
      is_lookupLocal = True, is_tags = [], is_statusTags = []\<rparr>"

definition checkIfTagExists :: "image_stream \<Rightarrow> string \<Rightarrow> bool" where
  "checkIfTagExists is tag = list_ex (\<lambda>t. tg_name t = tag) (is_tags is)"

text \<open>The annotations are those of a package variable whose version entry the call overwrites.\<close>

definition createImageStreamTag :: "string \<Rightarrow> bool \<Rightarrow> string \<Rightarrow> bool \<Rightarrow> tag_reference" where
  "createImageStreamTag tag addFromReference imageName insecureImageRegistry =
     \<lparr>tg_name = tag,
      tg_annotations = [(''iconClass'', ''icon-jbpm''), (''description'', ''Runtime image for Kogito Service''),
        (''tags'', ''kogito,services''), (''version'', tag)],
      tg_from = (if addFromReference then Some (''DockerImage'', imageName) else None),
      tg_referencePolicy = ''Local'', tg_insecure = insecureImageRegistry, tg_generation = None\<rparr>"

definition CreateImageStreamIfNotExists ::
  "'w image_cluster \<Rightarrow> string \<Rightarrow> string \<Rightarrow> string \<Rightarrow> bool \<Rightarrow> string \<Rightarrow> bool \<Rightarrow> 'w \<Rightarrow> gerr + image_stream" where
  "CreateImageStreamIfNotExists K namespace name tag addFromReference imageName insecureImageRegistry w =
     bindR (FetchImageStream K namespace name w) (\<lambda>found.
       let is = (case found of None \<Rightarrow> createImageStream namespace name | Some is \<Rightarrow> is)
       in Inr (if checkIfTagExists is tag then is
               else is\<lparr>is_tags := is_tags is @ [createImageStreamTag tag addFromReference imageName insecureImageRegistry]\<rparr>))"

definition findTagStatusCondition :: "image_stream \<Rightarrow> string \<Rightarrow> tag_condition option" where
  "findTagStatusCondition is tag =
     find (\<lambda>c. tc_type c = ''ImportSuccess'') (concat (map snd (filter (\<lambda>(t, cs). t = tag) (is_statusTags is))))"

definition validateTagStatus :: "'w image_cluster \<Rightarrow> string \<Rightarrow> string \<Rightarrow> string \<Rightarrow> 'w \<Rightarrow> gerr + unit" where
  "validateTagStatus K namespace name tag w =
     bindR (FetchImageStream K namespace name w) (\<lambda>found. case found of
        None \<Rightarrow> Inr ()
      | Some is \<Rightarrow> (case findTagStatusCondition is tag of
            None \<Rightarrow> Inr ()
          | Some c \<Rightarrow> if tc_status c = CFalse then Inl (PlainError (tc_message c)) else Inr ()))"

definition FetchTag :: "'w image_cluster \<Rightarrow> string \<Rightarrow> string \<Rightarrow> string \<Rightarrow> 'w \<Rightarrow> gerr + image_stream_tag option" where
  "FetchTag K namespace name tag w =
     (case ic_getTag K namespace (name @ '':'' @ (if tag = [] then ''latest'' else tag)) w of
        Inl e \<Rightarrow> if IsNotFound e then Inr None else Inl e
      | Inr t \<Rightarrow> Inr (Some t))"

definition fetchTag :: "'w image_cluster \<Rightarrow> string \<Rightarrow> string \<Rightarrow> string \<Rightarrow> 'w \<Rightarrow> gerr + image_stream_tag option" where
  "fetchTag K namespace name tag w = FetchTag K namespace name tag w"

definition is_ResolveImage :: "'w image_cluster \<Rightarrow> string \<Rightarrow> string \<Rightarrow> string \<Rightarrow> 'w \<Rightarrow> gerr + string" where
  "is_ResolveImage K namespace name tag w =
     bindR (validateTagStatus K namespace name tag w) (\<lambda>_.
     bindR (fetchTag K namespace name tag w) (\<lambda>t.
       Inr (case t of None \<Rightarrow> [] | Some t \<Rightarrow> ist_dockerImageReference t)))"

definition FetchDockerImage :: "'w image_cluster \<Rightarrow> string \<Rightarrow> string \<Rightarrow> 'w \<Rightarrow> gerr + docker_image option" where
  "FetchDockerImage K namespace name w =
     bindR (FetchTag K namespace name [] w) (\<lambda>t. case t of
        None \<Rightarrow> Inr None
      | Some t \<Rightarrow> if ist_dockerImageMetadata t \<noteq> []
                  then bindR (ic_unmarshal K (ist_dockerImageMetadata t)) (\<lambda>d. Inr (Some d))
                  else Inr None)"

definition RemoveSharedImageStreamOwnerShip ::
  "'w image_cluster \<Rightarrow> string \<Rightarrow> string \<Rightarrow> object_meta \<Rightarrow> 'w \<Rightarrow> (gerr + unit) \<times> 'w" where
  "RemoveSharedImageStreamOwnerShip K namespace name owner w =
     (case FetchImageStream K namespace name w of
        Inl e \<Rightarrow> (Inl e, w)
      | Inr None \<Rightarrow> (Inr (), w)
      | Inr (Some is) \<Rightarrow>
          (case RemoveSharedOwnerReference owner [is_meta is] of
             (removed, ms) \<Rightarrow>
               if removed then bindS (Update (ic_imageStreams K) (is\<lparr>is_meta := hd ms\<rparr>)) (\<lambda>_. returnS ()) w
               else (Inr (), w)))"

definition CreateTagIfNotExists :: "'w image_cluster \<Rightarrow> image_stream_tag \<Rightarrow> 'w \<Rightarrow> (gerr + bool) \<times> 'w" where
  "CreateTagIfNotExists K t w =
     (case ic_createTag K t w of
        (Inl e, w') \<Rightarrow> (if IsAlreadyExists e then Inr False else Inl e, w')
      | (Inr _, w') \<Rightarrow> (Inr True, w'))"

definition CreateImageStream :: "'w image_cluster \<Rightarrow> image_stream \<Rightarrow> 'w \<Rightarrow> (gerr + bool) \<times> 'w" where
  "CreateImageStream K is w =
     (case ic_createStream K is w of
        (Inl e, w') \<Rightarrow> (if IsAlreadyExists e then Inr False else Inl e, w')
      | (Inr _, w') \<Rightarrow> (Inr True, w'))"

section \<open>The image handler of a service\<close>

definition ResolveImage :: "'w image_cluster \<Rightarrow> op_context \<Rightarrow> image_handler \<Rightarrow> 'w \<Rightarrow> gerr + string" where
  "ResolveImage K cx h w =
     (if ic_isOpenshift K then is_ResolveImage K (ih_namespace h) (ih_imageStreamName h) (resolveTag cx h) w
      else Inr (resolveRegistryImage cx h))"

definition handler_CreateImageStreamIfNotExists ::
  "'w image_cluster \<Rightarrow> op_context \<Rightarrow> image_handler \<Rightarrow> 'w \<Rightarrow> gerr + image_stream option" where
  "handler_CreateImageStreamIfNotExists K cx h w =
     (if ic_isOpenshift K
      then bindR (CreateImageStreamIfNotExists K (ih_namespace h) (ih_imageStreamName h) (resolveTag cx h)
             (ih_addFromReference h) (resolveRegistryImage cx h) (ih_insecureImageRegistry h) w) (\<lambda>is. Inr (Some is))
      else Inr None)"

section \<open>Comparison, framework/comparator.go\<close>

definition clear_generations :: "image_stream \<Rightarrow> image_stream" where
  "clear_generations is = is\<lparr>is_tags := map (\<lambda>t. t\<lparr>tg_generation := None\<rparr>) (is_tags is)\<rparr>"

text \<open>\<^verbatim>\<open>compare.Equals\<close> on the tags is the parameter \<^verbatim>\<open>tagsEqual\<close>.\<close>

definition CreateImageStreamComparator ::
  "(tag_reference list \<Rightarrow> tag_reference list \<Rightarrow> bool) \<Rightarrow> image_stream comparator" where
  "CreateImageStreamComparator tagsEqual deployed requested =
     (let img1 = clear_generations deployed; img2 = clear_generations requested
      in (tagsEqual (is_tags img1) (is_tags img2), img1, img2))"

definition CreateSharedImageStreamComparator ::
  "(tag_reference list \<Rightarrow> tag_reference list \<Rightarrow> bool) \<Rightarrow> image_stream comparator" where
  "CreateSharedImageStreamComparator tagsEqual deployed requested =
     (case CreateImageStreamComparator tagsEqual deployed requested of
        (equal, img1, img2) \<Rightarrow> (equal \<and> om_owners (is_meta img1) = om_owners (is_meta img2), img1, img2))"

section \<open>The reconciler, imagestream\_reconciler.go\<close>

record image_stream_reconciler =
  isr_namespace :: string
  isr_name :: string
  isr_tag :: string
  isr_addFromReference :: bool
  isr_imageName :: string
  isr_insecure :: bool
  isr_owner :: object_meta

definition isr_createRequiredResources ::
  "'w image_cluster \<Rightarrow> op_context \<Rightarrow> image_stream_reconciler \<Rightarrow> 'w \<Rightarrow> gerr + image_stream list" where
  "isr_createRequiredResources K cx r w =
     bindR (CreateImageStreamIfNotExists K (isr_namespace r) (isr_name r) (isr_tag r) (isr_addFromReference r)
        (isr_imageName r) (isr_insecure r) w) (\<lambda>is.
     bindR (share_object cx (isr_owner r) is_meta (\<lambda>m is. is\<lparr>is_meta := m\<rparr>) is) (\<lambda>is'. Inr [is']))"

definition isr_getDeployedResources ::
  "'w image_cluster \<Rightarrow> image_stream_reconciler \<Rightarrow> 'w \<Rightarrow> gerr + image_stream list" where
  "isr_getDeployedResources K r w =
     bindR (FetchImageStreamForOwner K (isr_owner r) w) (\<lambda>owned.
     bindR (FetchImageStream K (isr_namespace r) (isr_name r) w) (\<lambda>shared.
       Inr (owned @ (case shared of None \<Rightarrow> [] | Some is \<Rightarrow> [is]))))"

definition isr_getComparator :: "'w image_cluster \<Rightarrow> ('w, image_stream) delta_lib \<Rightarrow> image_stream comparator" where
  "isr_getComparator K L =
     Build (WithCustomComparator (CreateSharedImageStreamComparator (ic_tagsEqual K))
       (UseDefaultComparator (dl_forType L) (dl_generic L) NewComparatorBuilder))"

definition isr_resources ::
  "'w image_cluster \<Rightarrow> op_context \<Rightarrow> ('w, image_stream) delta_lib \<Rightarrow> image_stream_reconciler \<Rightarrow> 'w \<Rightarrow> (gerr + bool) \<times> 'w" where
  "isr_resources K cx L r w =
     (case isr_createRequiredResources K cx r w of
        Inl e \<Rightarrow> (Inl e, w)
      | Inr req \<Rightarrow> (case isr_getDeployedResources K r w of
            Inl e \<Rightarrow> (Inl e, w)
          | Inr dep \<Rightarrow> process_resources L (isr_getComparator K L) req dep w))"

definition isr_Reconcile ::
  "'w image_cluster \<Rightarrow> op_context \<Rightarrow> ('w, image_stream) delta_lib \<Rightarrow> image_stream_reconciler \<Rightarrow> 'w \<Rightarrow> (gerr + unit) \<times> 'w" where
  "isr_Reconcile K cx L r w =
     (case isr_resources K cx L r w of
        (Inl e, w') \<Rightarrow> (Inl e, w')
      | (Inr isDeltaProcessed, w') \<Rightarrow>
          (if isDeltaProcessed then Inl ErrorForProcessingImageStreamDelta else Inr (), w'))"

definition handler_reconciler :: "op_context \<Rightarrow> image_handler \<Rightarrow> object_meta \<Rightarrow> image_stream_reconciler" where
  "handler_reconciler cx h owner =
     \<lparr>isr_namespace = ih_namespace h, isr_name = ih_imageStreamName h, isr_tag = resolveTag cx h,
      isr_addFromReference = ih_addFromReference h, isr_imageName = resolveRegistryImage cx h,
      isr_insecure = ih_insecureImageRegistry h, isr_owner = owner\<rparr>"

definition ReconcileImageStream ::
  "'w image_cluster \<Rightarrow> op_context \<Rightarrow> ('w, image_stream) delta_lib \<Rightarrow> image_handler \<Rightarrow> object_meta \<Rightarrow> 'w \<Rightarrow> (gerr + unit) \<times> 'w" where
  "ReconcileImageStream K cx L h owner w =
     (if ic_isOpenshift K
      then isr_Reconcile K cx L (handler_reconciler cx h owner) w
      else (Inr (), w))"

interpretation isr: resource_reconciler L "isr_getComparator K L" "isr_createRequiredResources K cx r" "isr_getDeployedResources K r"
  "isr_resources K cx L r" for K cx L r
  by unfold_locales (simp add: isr_resources_def)

section \<open>Lemmas\<close>

lemma GetKogitoImageVersion_take:
  "v \<noteq> [] \<Longrightarrow> GetKogitoImageVersion v = JoinChar CHR ''.'' (take 2 (SplitChar CHR ''.'' v))"
  by (auto simp: GetKogitoImageVersion_def Let_def)

lemma checkIfTagExists_iff: "checkIfTagExists is tag \<longleftrightarrow> tag \<in> tg_name ` set (is_tags is)"
  by (auto simp: checkIfTagExists_def list_ex_iff)

lemma createImageStreamTag_name [simp]: "tg_name (createImageStreamTag tag a i s) = tag"
  by (simp add: createImageStreamTag_def)

section \<open>Properties\<close>

text \<open>The image version follows the micro releases of the operator.  A version keeps at most its
  first two components; reducing it again changes nothing; and versions that agree on two components
  resolve to the same image.\<close>

theorem GetKogitoImageVersion_spec:
  "GetKogitoImageVersion (GetKogitoImageVersion v) = GetKogitoImageVersion v
   \<and> length (SplitChar CHR ''.'' (GetKogitoImageVersion v)) \<le> 2
   \<and> (CHR ''.'' \<in> set a \<or> CHR ''.'' \<in> set b \<or> CHR ''.'' \<in> set c \<or>
      GetKogitoImageVersion (a @ ''.'' @ b @ ''.'' @ c) = a @ ''.'' @ b)"
proof -
  let ?ps = "SplitChar CHR ''.'' v"
  have parts: "take 2 ?ps \<noteq> []" "\<forall>x \<in> set (take 2 ?ps). CHR ''.'' \<notin> set x"
    using SplitChar_no_sep [of _ "CHR ''.''" v] by (auto dest: in_set_takeD)
  have split: "SplitChar CHR ''.'' (JoinChar CHR ''.'' (take 2 ?ps)) = take 2 ?ps"
    using SplitChar_JoinChar [OF parts] .
  have "GetKogitoImageVersion (GetKogitoImageVersion v) = GetKogitoImageVersion v
      \<and> length (SplitChar CHR ''.'' (GetKogitoImageVersion v)) \<le> 2"
  proof (cases "v = []")
    case True
    then show ?thesis by (simp add: GetKogitoImageVersion_def)
  next
    case False
    then have "take 2 ?ps \<noteq> [[]]"
      by (cases ?ps) (auto simp: numeral_2_eq_2 take_Suc_conv_app_nth SplitChar_eq_Nil_Nil take_Suc split: list.splits)
    then have "JoinChar CHR ''.'' (take 2 ?ps) \<noteq> []"
      using split SplitChar_eq_Nil_Nil [of "CHR ''.''"] by metis
    with False split show ?thesis by (simp add: GetKogitoImageVersion_take)
  qed
  moreover have "CHR ''.'' \<notin> set a \<Longrightarrow> CHR ''.'' \<notin> set b \<Longrightarrow> CHR ''.'' \<notin> set c \<Longrightarrow>
      GetKogitoImageVersion (a @ ''.'' @ b @ ''.'' @ c) = a @ ''.'' @ b"
    by (simp add: GetKogitoImageVersion_take SplitChar_append SplitChar_id)
  ultimately show ?thesis by blast
qed

text \<open>The required image stream has the tag of the service and loses none.  If the stream can be
  looked up, \<^term>\<open>CreateImageStreamIfNotExists\<close> gives a stream of that name in which the tag exists, whose
  tags begin with the tags the deployed stream had, in which no tag name is duplicated if none was, and
  for which a stream that already has the tag is returned as it is.\<close>

theorem CreateImageStreamIfNotExists_spec:
  assumes "FetchImageStream K ns n w = Inr found"
    and "\<forall>is. found = Some is \<longrightarrow> distinct (map tg_name (is_tags is))"
  shows "\<exists>is. CreateImageStreamIfNotExists K ns n tag addFrom img insecure w = Inr is
     \<and> checkIfTagExists is tag
     \<and> (\<exists>new. is_tags is = (case found of None \<Rightarrow> [] | Some s \<Rightarrow> is_tags s) @ new \<and> length new \<le> 1)
     \<and> distinct (map tg_name (is_tags is))
     \<and> (\<forall>s. found = Some s \<and> checkIfTagExists s tag \<longrightarrow> is = s)"
  using assms
  by (cases found) (auto simp: CreateImageStreamIfNotExists_def Let_def checkIfTagExists_iff createImageStream_def)

definition sample_stream :: image_stream where
  "sample_stream = (createImageStream ''ns'' ''app'')\<lparr>is_tags := [createImageStreamTag ''1.0'' True ''quay.io/app:1.0'' False]\<rparr>"

definition mem_image_cluster :: "image_stream list image_cluster" where
  "mem_image_cluster = \<lparr>ic_isOpenshift = True, ic_imageStreams = mem_api is_meta,
     ic_getTag = (\<lambda>ns n w. Inl (ApiError SNotFound n)), ic_createTag = (\<lambda>t w. (Inr t, w)),
     ic_createStream = mem_create is_meta, ic_listOwned = (\<lambda>o' w. Inr []),
     ic_unmarshal = (\<lambda>s. Inr \<lparr>di_labels = None\<rparr>), ic_tagsEqual = (=)\<rparr>"

lemma CreateImageStreamIfNotExists_spec_witness:
  "\<exists>is. CreateImageStreamIfNotExists mem_image_cluster ''ns'' ''app'' ''1.1'' True ''quay.io/app:1.1'' False [sample_stream] = Inr is
     \<and> checkIfTagExists is ''1.1''"
  using CreateImageStreamIfNotExists_spec [of mem_image_cluster "''ns''" "''app''" "[sample_stream]" "Some sample_stream"
      "''1.1''" True "''quay.io/app:1.1''" False]
  by (auto simp: FetchImageStream_def FetchWithKey_def mem_image_cluster_def mem_simps sample_stream_def
      createImageStream_def mk_meta_def)

text \<open>A service proceeds past its image stream only when the stream is settled.  On OpenShift, once the
  required and the deployed streams are known, \<^term>\<open>ReconcileImageStream\<close> succeeds exactly when their comparison
  has no changes, and then the cluster is as it was; when there are changes they are applied and the call
  ends in the error that schedules the next run, or in the error of the failing write.\<close>

theorem ReconcileImageStream_settled:
  assumes "ic_isOpenshift K"
    and "isr_createRequiredResources K cx (handler_reconciler cx h owner) w = Inr req"
    and "isr_getDeployedResources K (handler_reconciler cx h owner) w = Inr dep"
  shows "ReconcileImageStream K cx L h owner w =
     (let delta = dl_compare L (isr_getComparator K L) dep req
      in if \<not> dl_hasChanges L delta then (Inr (), w)
         else (case apply_delta (dl_writer L) dep delta w of
                 (Inl e, w') \<Rightarrow> (Inl e, w')
               | (Inr _, w') \<Rightarrow> (Inl ErrorForProcessingImageStreamDelta, w')))"
  using assms
  by (auto simp: ReconcileImageStream_def isr_Reconcile_def isr_resources_def Let_def process_resources_quiet
      process_resources_changed split: sum.split prod.split)

definition sample_context :: op_context where
  "sample_context = \<lparr>cx_version = ''1.0.0'', cx_labels = [(''metering'', ''on'')], cx_deploymentIdentifier = ''kogito.kie.org/runtime'',
     cx_setControllerReference = (\<lambda>owner res. Inr (add_owner (''app.kiegroup.org/v1beta1'', ''KogitoRuntime'') owner res)),
     cx_gvkForObject = (\<lambda>owner. Inr (''app.kiegroup.org/v1beta1'', ''KogitoRuntime'')), cx_getenv = (\<lambda>k. [])\<rparr>"

lemma ReconcileImageStream_settled_witness:
  "fst (ReconcileImageStream mem_image_cluster sample_context (mem_delta_lib (\<lambda>is. om_name (is_meta is)) id (\<lambda>x w. x))
      (NewImageHandler \<lparr>img_domain = [], img_name = ''app'', img_tag = ''1.0''\<rparr> ''app'' ''app'' ''ns'' True False)
      (mk_meta ''app'' ''ns'') []) = Inl ErrorForProcessingImageStreamDelta"
proof -
  let ?h = "NewImageHandler \<lparr>img_domain = [], img_name = ''app'', img_tag = ''1.0''\<rparr> ''app'' ''app'' ''ns'' True False"
  let ?r = "handler_reconciler sample_context ?h (mk_meta ''app'' ''ns'')"
  obtain s where req: "isr_createRequiredResources mem_image_cluster sample_context ?r [] = Inr [s]"
    by (auto simp: isr_createRequiredResources_def CreateImageStreamIfNotExists_def FetchImageStream_def FetchWithKey_def
        mem_image_cluster_def mem_simps share_object_conv sample_context_def Let_def)
  have dep: "isr_getDeployedResources mem_image_cluster ?r [] = Inr []"
    by (simp add: isr_getDeployedResources_def FetchImageStreamForOwner_def FetchImageStream_def FetchWithKey_def
        mem_image_cluster_def mem_simps)
  have "ic_isOpenshift mem_image_cluster" by (simp add: mem_image_cluster_def)
  from ReconcileImageStream_settled [OF this req dep] show ?thesis
    by (simp add: Let_def mem_delta_lib_def mem_hasChanges_def mem_compare_def apply_delta_def bindS_def)
qed

end
