(* ===== verification/Service_Deployment.thy ===== *)
theory Service_Deployment
  imports Infra_Types Service_Status Image_Handler
begin

text \<open>
  The deployment of a service: its probes (\<^verbatim>\<open>core/kogitoservice/probe.go\<close>), the object built from the custom
  resource (\<^verbatim>\<open>kogito_deployment.go\<close>) and its reconciliation (\<^verbatim>\<open>deployment_reconciler.go\<close>).

  Two Go maps are shared between the metadata of the deployment and its pod template: the labels, and,
  until the metadata gets annotations of its own on OpenShift, the annotations.  A write through one
  name shows under the other, and the model writes both.
\<close>

section \<open>Service definition, deployer.go\<close>

record 'w service_definition =
  sd_defaultImageName :: string
  sd_defaultImageTag :: string
  sd_requestNamespace :: string
  sd_requestName :: string
  sd_onDeploymentCreate :: "(deployment \<Rightarrow> 'w \<Rightarrow> gerr + deployment) option"
  sd_singleReplica :: bool
  sd_kafkaTopics :: "string list"
  sd_customService :: bool
  sd_configMapEnvFrom :: "string list"
  sd_configMapVolumes :: "volume_reference list"
  sd_secretEnvFrom :: "string list"
  sd_secretVolumes :: "volume_reference list"
  sd_envs :: "env_var list"

section \<open>Probes, probe.go\<close>

datatype probe_type = LivenessProbe | ReadinessProbe | StartupProbe

record health_check_probe =
  hp_readiness :: probe
  hp_liveness :: probe
  hp_startup :: probe

definition getDefaultHTTPPath :: "runtime_type \<Rightarrow> probe_type \<Rightarrow> string" where
  "getDefaultHTTPPath runtime ty =
     (if runtime = SpringBoot then
        if ty = LivenessProbe \<or> ty = StartupProbe then ''/actuator/health/liveness'' else ''/actuator/health/readiness''
      else if ty = LivenessProbe \<or> ty = StartupProbe then ''/q/health/live'' else ''/q/health/ready'')"

definition defaultHTTPGetAction :: http_get_action where
  "defaultHTTPGetAction = \<lparr>hg_path = [], hg_port = IntVal 8080, hg_scheme = ''HTTP''\<rparr>"

definition defaultProbeValues :: probe where
  "defaultProbeValues = \<lparr>pr_httpGet = None, pr_exec = None, pr_tcpSocket = None, pr_initialDelaySeconds = 0, pr_timeoutSeconds = 1,
     pr_periodSeconds = 10, pr_successThreshold = 1, pr_failureThreshold = 3\<rparr>"

definition getDefaultHTTPGetAction :: "runtime_type \<Rightarrow> probe_type \<Rightarrow> http_get_action" where
  "getDefaultHTTPGetAction runtime ty = defaultHTTPGetAction\<lparr>hg_path := getDefaultHTTPPath runtime ty\<rparr>"

definition isProbeHandlerEmpty :: "probe \<Rightarrow> bool" where
  "isProbeHandlerEmpty p \<longleftrightarrow> pr_httpGet p = None \<and> pr_exec p = None \<and> pr_tcpSocket p = None"

definition setDefaultHTTPGetValues :: "http_get_action \<Rightarrow> runtime_type \<Rightarrow> probe_type \<Rightarrow> http_get_action" where
  "setDefaultHTTPGetValues h runtime ty =
     (let h1 = (if hg_path h = [] then h\<lparr>hg_path := getDefaultHTTPPath runtime ty\<rparr> else h)
      in if hg_scheme h1 = [] then h1\<lparr>hg_scheme := ''HTTP''\<rparr> else h1)"

definition setDefaultProbeValues :: "probe \<Rightarrow> probe" where
  "setDefaultProbeValues p =
     p\<lparr>pr_timeoutSeconds := (if pr_timeoutSeconds p = 0 then pr_timeoutSeconds defaultProbeValues else pr_timeoutSeconds p),
       pr_periodSeconds := (if pr_periodSeconds p = 0 then pr_periodSeconds defaultProbeValues else pr_periodSeconds p),
       pr_successThreshold := (if pr_successThreshold p = 0 then pr_successThreshold defaultProbeValues else pr_successThreshold p),
       pr_failureThreshold := (if pr_failureThreshold p = 0 then pr_failureThreshold defaultProbeValues else pr_failureThreshold p)\<rparr>"

definition getProbe :: "probe \<Rightarrow> runtime_type \<Rightarrow> probe_type \<Rightarrow> probe" where
  "getProbe p runtime ty =
     (let p1 = (if isProbeHandlerEmpty p then
                  p\<lparr>pr_httpGet := Some (getDefaultHTTPGetAction runtime ty), pr_exec := None, pr_tcpSocket := None\<rparr>
                else (case pr_httpGet p of
                        None \<Rightarrow> p
                      | Some h \<Rightarrow> p\<lparr>pr_httpGet := Some (setDefaultHTTPGetValues h runtime ty)\<rparr>));
          p2 = setDefaultProbeValues p1
      in if ty = LivenessProbe \<or> ty = StartupProbe then p2\<lparr>pr_successThreshold := 1\<rparr> else p2)"

definition getProbeForKogitoService :: "kogito_service \<Rightarrow> health_check_probe" where
  "getProbeForKogitoService svc =
     (let rt = ss_runtime (ks_spec svc); ps = ss_probes (ks_spec svc)
      in \<lparr>hp_readiness = getProbe (kp_readiness ps) rt ReadinessProbe,
          hp_liveness = getProbe (kp_liveness ps) rt LivenessProbe,
          hp_startup = getProbe (kp_startup ps) rt StartupProbe\<rparr>)"

section \<open>The deployment object, kogito\_deployment.go\<close>

text \<open>\<^verbatim>\<open>Discovery.ServerVersion\<close> is the parameter \<^verbatim>\<open>serverMinor\<close>.  Its error is logged, and the nil version
  is used all the same.\<close>

definition addStartupProbe :: "gerr + string \<Rightarrow> probe \<Rightarrow> deployment \<Rightarrow> gerr + deployment" where
  "addStartupProbe serverMinor startupProbe d =
     (case serverMinor of
        Inl e \<Rightarrow> Inl (Panic ''nil pointer dereference'')
      | Inr minor \<Rightarrow>
          (case Atoi (TrimSuffix minor ''+'') of
             None \<Rightarrow> Inr d
           | Some m \<Rightarrow> if m \<ge> 18 then with_container0 (\<lambda>c. c\<lparr>c_startupProbe := Some startupProbe\<rparr>) d else Inr d))"

definition service_labels_with_app :: "kogito_service \<Rightarrow> smap" where
  "service_labels_with_app svc = smap_put ''app'' (ks_name svc) (ss_deploymentLabels (ks_spec svc))"

text \<open>The replicas of the instance in memory are capped for a single-replica service.\<close>

definition cap_replicas :: "'w service_definition \<Rightarrow> kogito_service \<Rightarrow> gerr + kogito_service" where
  "cap_replicas def svc =
     (if sd_singleReplica def then
        (case ss_replicas (ks_spec svc) of
           None \<Rightarrow> Inl (Panic ''nil pointer dereference'')
         | Some n \<Rightarrow> Inr (if n > 1 then map_spec (\<lambda>sp. sp\<lparr>ss_replicas := Some 1\<rparr>) svc else svc))
      else Inr svc)"

definition base_deployment :: "op_context \<Rightarrow> kogito_service \<Rightarrow> string \<Rightarrow> deployment" where
  "base_deployment cx svc resolvedImage =
     (let probes = getProbeForKogitoService svc;
          labels = service_labels_with_app svc;
          annotations = [(''kogito-operator.kiegroup.org/version'', cx_version cx)]
      in \<lparr>dep_meta = (mk_meta (ks_name svc) (ks_namespace svc))\<lparr>om_labels := labels, om_annotations := annotations\<rparr>,
          dep_replicas = ss_replicas (ks_spec svc),
          dep_selector = [(''app'', ks_name svc)],
          dep_template =
            \<lparr>pt_labels = labels, pt_annotations = annotations,
             pt_spec =
               \<lparr>ps_containers =
                  [\<lparr>c_name = ks_name svc, c_image = resolvedImage, c_env = [], c_envFrom = [], c_volumeMounts = [],
                    c_ports = [\<lparr>cp_name = ''http'', cp_port = 8080, cp_protocol = ''TCP''\<rparr>],
                    c_resources = ss_resources (ks_spec svc),
                    c_livenessProbe = Some (hp_liveness probes), c_readinessProbe = Some (hp_readiness probes),
                    c_startupProbe = None, c_imagePullPolicy = ''Always'', c_securityContext = None\<rparr>],
                ps_volumes = [], ps_serviceAccountName = [], ps_securityContext = None\<rparr>\<rparr>,
          dep_strategy = ''RollingUpdate'',
          dep_status = \<lparr>ds_replicas = 0, ds_readyReplicas = 0, ds_availableReplicas = 0, ds_conditions = []\<rparr>\<rparr>)"

text \<open>The labels of the specification are the map to which the label is added, if there is one.\<close>

definition with_app_label :: "kogito_service \<Rightarrow> kogito_service" where
  "with_app_label svc =
     (if ss_deploymentLabels (ks_spec svc) = [] then svc
      else map_spec (\<lambda>sp. sp\<lparr>ss_deploymentLabels := service_labels_with_app svc\<rparr>) svc)"

definition CreateDeployment ::
  "op_context \<Rightarrow> gerr + string \<Rightarrow> kogito_service \<Rightarrow> string \<Rightarrow> 'w service_definition \<Rightarrow> gerr + kogito_service \<times> deployment" where
  "CreateDeployment cx serverMinor svc resolvedImage def =
     bindR (cap_replicas def svc) (\<lambda>svc'.
     bindR (addStartupProbe serverMinor (hp_startup (getProbeForKogitoService svc')) (base_deployment cx svc' resolvedImage)) (\<lambda>d.
       Inr (with_app_label svc', d)))"

section \<open>The reconciler, deployment\_reconciler.go\<close>

definition onDeploymentCreate ::
  "'w cluster \<Rightarrow> op_context \<Rightarrow> image_handler \<Rightarrow> kogito_service \<Rightarrow> 'w service_definition \<Rightarrow> deployment \<Rightarrow> 'w \<Rightarrow> gerr + deployment" where
  "onDeploymentCreate K cx ih svc def d w =
     (let d1 = (if cl_isOpenshift K
                then d\<lparr>dep_meta := (dep_meta d)\<lparr>om_annotations := [ResolveImageStreamTriggerAnnotation cx ih (ks_name svc)]\<rparr>\<rparr>
                else d)
      in case sd_onDeploymentCreate def of None \<Rightarrow> Inr d1 | Some f \<Rightarrow> f d1 w)"

definition addDeploymentIdentifier :: "'w cluster \<Rightarrow> op_context \<Rightarrow> deployment \<Rightarrow> deployment" where
  "addDeploymentIdentifier K cx d =
     (let add = AddToMap (cx_deploymentIdentifier cx) ''true'';
          d1 = d\<lparr>dep_meta := (dep_meta d)\<lparr>om_annotations := add (om_annotations (dep_meta d))\<rparr>\<rparr>
      in if cl_isOpenshift K then d1
         else d1\<lparr>dep_template := (dep_template d1)\<lparr>pt_annotations := add (pt_annotations (dep_template d1))\<rparr>\<rparr>)"

definition mountEnvsOnDeployment :: "kogito_service \<Rightarrow> 'w service_definition \<Rightarrow> deployment \<Rightarrow> gerr + deployment" where
  "mountEnvsOnDeployment svc def =
     with_container0 (\<lambda>c. c\<lparr>c_env := EnvOverride
        (EnvOverride (c_env c) [CreateEnvVar ''RUNTIME_TYPE'' (runtime_name (ss_runtime (ks_spec svc)))]) (sd_envs def)\<rparr>)"

fun foldR :: "('a \<Rightarrow> 'b \<Rightarrow> gerr + 'b) \<Rightarrow> 'a list \<Rightarrow> 'b \<Rightarrow> gerr + 'b" where
  "foldR f [] b = Inr b"
| "foldR f (x # xs) b = bindR (f x b) (foldR f xs)"

definition mountConfigMapReferencesOnDeployment ::
  "'w cluster \<Rightarrow> 'w service_definition \<Rightarrow> deployment \<Rightarrow> 'w \<Rightarrow> gerr + deployment" where
  "mountConfigMapReferencesOnDeployment K def d w =
     bindR (foldR (\<lambda>n d. cm_MountAsEnvFrom d n) (sd_configMapEnvFrom def) d)
       (foldR (\<lambda>r d. cm_MountAsVolume (cl_configMaps K) d r w) (sd_configMapVolumes def))"

definition mountSecretReferencesOnDeployment ::
  "'w cluster \<Rightarrow> 'w service_definition \<Rightarrow> deployment \<Rightarrow> 'w \<Rightarrow> gerr + deployment" where
  "mountSecretReferencesOnDeployment K def d w =
     bindR (foldR (\<lambda>n d. secret_MountAsEnvFrom d n) (sd_secretEnvFrom def) d)
       (foldR (\<lambda>r d. secret_MountAsVolume (cl_secrets K) d r w) (sd_secretVolumes def))"

definition mountMeteringLabelsOnDeployment :: "op_context \<Rightarrow> deployment \<Rightarrow> deployment" where
  "mountMeteringLabelsOnDeployment cx d =
     (let add = AppendToStringMap (cx_labels cx)
      in d\<lparr>dep_meta := (dep_meta d)\<lparr>om_labels := add (om_labels (dep_meta d))\<rparr>,
           dep_template := (dep_template d)\<lparr>pt_labels := add (pt_labels (dep_template d))\<rparr>\<rparr>)"

definition dr_createRequiredResources ::
  "'w cluster \<Rightarrow> op_context \<Rightarrow> gerr + string \<Rightarrow> image_handler \<Rightarrow> kogito_service \<Rightarrow> 'w service_definition \<Rightarrow> string
    \<Rightarrow> 'w \<Rightarrow> gerr + deployment list" where
  "dr_createRequiredResources K cx serverMinor ih svc def imageName w =
     bindR (CreateDeployment cx serverMinor svc imageName def) (\<lambda>(svc', d0).
     bindR (onDeploymentCreate K cx ih svc' def d0 w) (\<lambda>d1.
     bindR (mountEnvsOnDeployment svc' def (addDeploymentIdentifier K cx d1)) (\<lambda>d2.
     bindR (mountConfigMapReferencesOnDeployment K def d2 w) (\<lambda>d3.
     bindR (mountSecretReferencesOnDeployment K def d3 w) (\<lambda>d4.
     bindR (own_object cx (ks_meta svc') dep_meta (\<lambda>m d. d\<lparr>dep_meta := m\<rparr>) (mountMeteringLabelsOnDeployment cx d4)) (\<lambda>d5.
       Inr [d5]))))))"

definition dr_getDeployedResources :: "'w cluster \<Rightarrow> kogito_service \<Rightarrow> 'w \<Rightarrow> gerr + deployment list" where
  "dr_getDeployedResources K svc w =
     bindR (FetchDeployment K (ks_namespace svc) (ks_name svc) w) (\<lambda>d. Inr (case d of None \<Rightarrow> [] | Some d \<Rightarrow> [d]))"

definition deployment_GetComparator :: "('w, deployment) delta_lib \<Rightarrow> deployment comparator" where
  "deployment_GetComparator L =
     Build (WithCustomComparator CreateDeploymentComparator
       (UseDefaultComparator (dl_forType L) (dl_generic L) NewComparatorBuilder))"

definition dr_resources ::
  "'w cluster \<Rightarrow> op_context \<Rightarrow> ('w, deployment) delta_lib \<Rightarrow> gerr + string \<Rightarrow> image_handler \<Rightarrow> kogito_service
    \<Rightarrow> 'w service_definition \<Rightarrow> string \<Rightarrow> 'w \<Rightarrow> (gerr + bool) \<times> 'w" where
  "dr_resources K cx L serverMinor ih svc def imageName w =
     (case dr_createRequiredResources K cx serverMinor ih svc def imageName w of
        Inl e \<Rightarrow> (Inl e, w)
      | Inr req \<Rightarrow> (case dr_getDeployedResources K svc w of
            Inl e \<Rightarrow> (Inl e, w)
          | Inr dep \<Rightarrow> process_resources L (deployment_GetComparator L) req dep w))"

definition dr_Reconcile ::
  "'w cluster \<Rightarrow> 'w image_cluster \<Rightarrow> op_context \<Rightarrow> ('w, deployment) delta_lib \<Rightarrow> gerr + string \<Rightarrow> image_handler
    \<Rightarrow> kogito_service \<Rightarrow> 'w service_definition \<Rightarrow> 'w \<Rightarrow> (gerr + unit) \<times> 'w" where
  "dr_Reconcile K IK cx L serverMinor ih svc def w =
     (case ResolveImage IK cx ih w of
        Inl e \<Rightarrow> (Inl e, w)
      | Inr imageName \<Rightarrow>
          if imageName = [] then (Inl ErrorForImageNotFound, w)
          else bindS (dr_resources K cx L serverMinor ih svc def imageName) (\<lambda>_. returnS ()) w)"

text \<open>The instance the reconciler leaves behind in memory: with its replicas capped.\<close>

definition dr_instance ::
  "'w image_cluster \<Rightarrow> op_context \<Rightarrow> image_handler \<Rightarrow> kogito_service \<Rightarrow> 'w service_definition \<Rightarrow> 'w \<Rightarrow> kogito_service" where
  "dr_instance IK cx ih svc def w =
     (case ResolveImage IK cx ih w of
        Inl e \<Rightarrow> svc
      | Inr imageName \<Rightarrow> if imageName = [] then svc else (case cap_replicas def svc of Inl e \<Rightarrow> svc | Inr svc' \<Rightarrow> svc'))"

interpretation dr: resource_reconciler L "deployment_GetComparator L"
  "dr_createRequiredResources K cx serverMinor ih svc def imageName" "dr_getDeployedResources K svc"
  "dr_resources K cx L serverMinor ih svc def imageName" for K cx L serverMinor ih svc def imageName
  by unfold_locales (simp add: dr_resources_def)

section \<open>Lemmas\<close>

text \<open>What mounting leaves alone: everything of the deployment but volumes, mounts and environment sources.\<close>

definition mount_frame :: "deployment \<Rightarrow> deployment \<Rightarrow> bool" where
  "mount_frame d d' \<longleftrightarrow> dep_meta d' = dep_meta d \<and> dep_selector d' = dep_selector d \<and> dep_replicas d' = dep_replicas d
     \<and> pt_labels (dep_template d') = pt_labels (dep_template d)
     \<and> pt_annotations (dep_template d') = pt_annotations (dep_template d)
     \<and> map c_env (dep_containers d') = map c_env (dep_containers d)
     \<and> map c_image (dep_containers d') = map c_image (dep_containers d)"

lemma mount_frame_refl [simp]: "mount_frame d d"
  by (simp add: mount_frame_def)

lemma mount_frame_trans: "mount_frame d d' \<Longrightarrow> mount_frame d' d'' \<Longrightarrow> mount_frame d d''"
  by (simp add: mount_frame_def)

lemma mount_frame_set_volumes [simp]: "mount_frame d (set_volumes vs d)"
  by (simp add: mount_frame_def set_volumes_def)

lemma mount_frame_set_containers:
  "map c_env cs = map c_env (dep_containers d) \<Longrightarrow> map c_image cs = map c_image (dep_containers d) \<Longrightarrow>
   mount_frame d (set_containers cs d)"
  by (simp add: mount_frame_def set_containers_def)

lemma mount_frame_with_container0:
  assumes "with_container0 f d = Inr d'" "\<And>c. c_env (f c) = c_env c" "\<And>c. c_image (f c) = c_image c"
  shows "mount_frame d d'"
  using assms by (auto simp: with_container0_Inr intro!: mount_frame_set_containers)

lemma add_mount_frame [simp]: "c_env (add_mount r f c) = c_env c" "c_image (add_mount r f c) = c_image c"
  by (simp_all add: add_mount_def)

lemma fold_add_mount_frame [simp]:
  "c_env (fold (add_mount r) fs c) = c_env c" "c_image (fold (add_mount r) fs c) = c_image c"
  by (induction fs arbitrary: c) simp_all

lemma mount_frame_mount_files: "mount_files ref files d = Inr d' \<Longrightarrow> mount_frame d d'"
proof (cases "dep_containers d")
  case Nil
  then show "mount_files ref files d = Inr d' \<Longrightarrow> ?thesis"
    by (auto simp: mount_files_Nil_containers split: if_splits)
next
  case (Cons c cs)
  then show "mount_files ref files d = Inr d' \<Longrightarrow> ?thesis"
    by (auto simp: mount_files_Cons_containers intro!: mount_frame_set_containers)
qed

lemma mount_frame_MountAsVolume:
  "cm_MountAsVolume A d ref w = Inr d' \<Longrightarrow> mount_frame d d'"
  "secret_MountAsVolume B d ref w = Inr d' \<Longrightarrow> mount_frame d d'"
  by (auto simp: cm_mounter.mount_volume secret_mounter.mount_volume bindR_eq_Inr
      dest!: mount_frame_mount_files intro: mount_frame_trans [OF mount_frame_set_volumes] split: option.splits if_splits)

lemma mount_frame_MountAsEnvFrom:
  "cm_MountAsEnvFrom d n = Inr d' \<Longrightarrow> mount_frame d d'"
  "secret_MountAsEnvFrom d n = Inr d' \<Longrightarrow> mount_frame d d'"
  unfolding cm_MountAsEnvFrom_def secret_MountAsEnvFrom_def
  by (erule mount_frame_with_container0; simp)+

lemma foldR_invariant:
  assumes "foldR f xs b = Inr b'" "P b" "\<And>x b b'. f x b = Inr b' \<Longrightarrow> P b \<Longrightarrow> P b'"
  shows "P b'"
  using assms by (induction f xs b rule: foldR.induct) (auto simp: bindR_eq_Inr)

lemma mount_frame_references:
  "mountConfigMapReferencesOnDeployment K def d w = Inr d' \<Longrightarrow> mount_frame d d'"
  "mountSecretReferencesOnDeployment K def d w = Inr d' \<Longrightarrow> mount_frame d d'"
  unfolding mountConfigMapReferencesOnDeployment_def mountSecretReferencesOnDeployment_def
  by (auto simp: bindR_eq_Inr elim!: foldR_invariant [where P = "mount_frame d"]
      dest: mount_frame_MountAsEnvFrom mount_frame_MountAsVolume intro: mount_frame_trans)

lemma cap_replicas_frame:
  "cap_replicas def svc = Inr svc' \<Longrightarrow> ks_meta svc' = ks_meta svc \<and> ks_status svc' = ks_status svc
     \<and> ss_deploymentLabels (ks_spec svc') = ss_deploymentLabels (ks_spec svc)
     \<and> ss_runtime (ks_spec svc') = ss_runtime (ks_spec svc)"
  by (auto simp: cap_replicas_def split: if_splits option.splits)

lemma addStartupProbe_frame:
  "addStartupProbe m p d = Inr d' \<Longrightarrow> mount_frame d d' \<and> length (dep_containers d') = length (dep_containers d)"
  by (auto simp: addStartupProbe_def with_container0_Inr intro!: mount_frame_set_containers
      split: sum.splits option.splits if_splits)

lemma with_container0_env:
  assumes "with_container0 (\<lambda>c. c\<lparr>c_env := g (c_env c)\<rparr>) d = Inr d'" "dep_containers d = [c]"
  shows "map c_env (dep_containers d') = [g (c_env c)]" "dep_template d'\<lparr>pt_spec := pt_spec (dep_template d)\<rparr> = dep_template d"
    "dep_selector d' = dep_selector d" "dep_meta d' = dep_meta d"
  using assms by (auto simp: with_container0_Inr set_containers_def)

lemma base_deployment_fields:
  "dep_selector (base_deployment cx svc img) = [(''app'', ks_name svc)]"
  "pt_labels (dep_template (base_deployment cx svc img)) = service_labels_with_app svc"
  "map c_env (dep_containers (base_deployment cx svc img)) = [[]]"
  "length (dep_containers (base_deployment cx svc img)) = 1"
  by (simp_all add: base_deployment_def Let_def)

lemma addDeploymentIdentifier_frame [simp]:
  "dep_selector (addDeploymentIdentifier K cx d) = dep_selector d"
  "pt_labels (dep_template (addDeploymentIdentifier K cx d)) = pt_labels (dep_template d)"
  "dep_containers (addDeploymentIdentifier K cx d) = dep_containers d"
  by (simp_all add: addDeploymentIdentifier_def Let_def)

lemma mountMeteringLabels_frame [simp]:
  "dep_selector (mountMeteringLabelsOnDeployment cx d) = dep_selector d"
  "dep_containers (mountMeteringLabelsOnDeployment cx d) = dep_containers d"
  "pt_labels (dep_template (mountMeteringLabelsOnDeployment cx d)) = AppendToStringMap (cx_labels cx) (pt_labels (dep_template d))"
  by (simp_all add: mountMeteringLabelsOnDeployment_def Let_def)

text \<open>The path of the required deployment through its stages, without a hook.\<close>

lemma required_deployment_stages:
  assumes "dr_createRequiredResources K cx sm ih svc def img w = Inr [d]" "sd_onDeploymentCreate def = None"
  shows "dep_selector d = [(''app'', ks_name svc)]
     \<and> pt_labels (dep_template d) = AppendToStringMap (cx_labels cx) (service_labels_with_app svc)
     \<and> map c_env (dep_containers d) =
         [EnvOverride (EnvOverride [] [CreateEnvVar ''RUNTIME_TYPE'' (runtime_name (ss_runtime (ks_spec svc)))]) (sd_envs def)]"
proof -
  from assms(1) obtain svc1 d0 d1 d2 d3 d4 where st:
    "cap_replicas def svc = Inr svc1"
    "addStartupProbe sm (hp_startup (getProbeForKogitoService svc1)) (base_deployment cx svc1 img) = Inr d0"
    "onDeploymentCreate K cx ih (with_app_label svc1) def d0 w = Inr d1"
    "mountEnvsOnDeployment (with_app_label svc1) def (addDeploymentIdentifier K cx d1) = Inr d2"
    "mountConfigMapReferencesOnDeployment K def d2 w = Inr d3"
    "mountSecretReferencesOnDeployment K def d3 w = Inr d4"
    "own_object cx (ks_meta (with_app_label svc1)) dep_meta (\<lambda>m d. d\<lparr>dep_meta := m\<rparr>) (mountMeteringLabelsOnDeployment cx d4) = Inr d"
    by (auto simp: dr_createRequiredResources_def CreateDeployment_def bindR_eq_Inr)
  note cap = cap_replicas_frame [OF st(1)]
  have d0: "mount_frame (base_deployment cx svc1 img) d0" "length (dep_containers d0) = 1"
    using addStartupProbe_frame [OF st(2)] by (simp_all add: base_deployment_fields)
  have rt: "ss_runtime (ks_spec (with_app_label svc1)) = ss_runtime (ks_spec svc1)" by (simp add: with_app_label_def)
  have d1: "dep_selector d1 = dep_selector d0" "pt_labels (dep_template d1) = pt_labels (dep_template d0)"
    "dep_containers d1 = dep_containers d0"
    using st(3) assms(2) by (auto simp: onDeploymentCreate_def Let_def)
  obtain c where c: "dep_containers d0 = [c]" "c_env c = []"
    using d0 by (auto simp: mount_frame_def base_deployment_fields length_Suc_conv)
  have d2: "map c_env (dep_containers d2) = [EnvOverride (EnvOverride [] [CreateEnvVar ''RUNTIME_TYPE'' (runtime_name (ss_runtime (ks_spec svc1)))]) (sd_envs def)]"
    "pt_labels (dep_template d2) = pt_labels (dep_template d0)" "dep_selector d2 = dep_selector d0"
    using st(4) c d1 rt by (auto simp: mountEnvsOnDeployment_def with_container0_Inr set_containers_def simp del: EnvOverride.simps)
  have d4: "mount_frame d2 d4"
    using mount_frame_references(1) [OF st(5)] mount_frame_references(2) [OF st(6)] by (rule mount_frame_trans)
  have d: "dep_selector d = dep_selector d4" "dep_containers d = dep_containers d4"
    "pt_labels (dep_template d) = AppendToStringMap (cx_labels cx) (pt_labels (dep_template d4))"
    using st(7) by (auto simp: own_object_conv bindR_eq_Inr)
  show ?thesis
    using d d4 d2 d0 cap by (auto simp: mount_frame_def base_deployment_fields service_labels_with_app_def simp del: EnvOverride.simps)
qed

section \<open>Properties\<close>

text \<open>Filling in probe defaults is stable.  A probe computed by \<^term>\<open>getProbe\<close> has a handler and positive
  defaults where the user left a zero, keeps what the user set, has success threshold one for liveness
  and startup, and computing it again from its own result changes nothing, so that the deployed probe
  compares equal to the requested one.\<close>

theorem getProbe_stable:
  "getProbe (getProbe p rt ty) rt ty = getProbe p rt ty
   \<and> \<not> isProbeHandlerEmpty (getProbe p rt ty)
   \<and> pr_timeoutSeconds (getProbe p rt ty) = (if pr_timeoutSeconds p = 0 then 1 else pr_timeoutSeconds p)
   \<and> pr_periodSeconds (getProbe p rt ty) = (if pr_periodSeconds p = 0 then 10 else pr_periodSeconds p)
   \<and> pr_failureThreshold (getProbe p rt ty) = (if pr_failureThreshold p = 0 then 3 else pr_failureThreshold p)
   \<and> pr_successThreshold (getProbe p rt ty) =
       (if ty = ReadinessProbe then if pr_successThreshold p = 0 then 1 else pr_successThreshold p else 1)
   \<and> pr_initialDelaySeconds (getProbe p rt ty) = pr_initialDelaySeconds p
   \<and> pr_exec (getProbe p rt ty) = pr_exec p \<and> pr_tcpSocket (getProbe p rt ty) = pr_tcpSocket p"
  by (cases ty; cases rt; cases "pr_httpGet p")
    (auto simp: getProbe_def isProbeHandlerEmpty_def setDefaultProbeValues_def defaultProbeValues_def Let_def
      setDefaultHTTPGetValues_def getDefaultHTTPGetAction_def defaultHTTPGetAction_def getDefaultHTTPPath_def)


definition sample_definition :: "'w service_definition" where
  "sample_definition = \<lparr>sd_defaultImageName = ''app'', sd_defaultImageTag = [], sd_requestNamespace = ''ns'', sd_requestName = ''app'',
     sd_onDeploymentCreate = None, sd_singleReplica = False, sd_kafkaTopics = [], sd_customService = True,
     sd_configMapEnvFrom = [], sd_configMapVolumes = [], sd_secretEnvFrom = [], sd_secretVolumes = [],
     sd_envs = [CreateEnvVar ''A'' ''1'']\<rparr>"


end
