(* ===== verification/Service_Connector.thy ===== *)
theory Service_Connector
  imports Service_Status Config_Mounts Framework_Util Resource_Reconciler
begin

text \<open>
  How services find each other: the supporting services of a namespace and the deployments of the runtimes
  (\<^verbatim>\<open>core/manager\<close>), the config map that publishes the endpoints of a service
  (\<^verbatim>\<open>core/infrastructure/endpoint_configmap.go\<close>, \<^verbatim>\<open>core/kogitoservice/kogito_service.go\<close>), its injection into
  deployments (\<^verbatim>\<open>core/connector/url_handler.go\<close>) and the processing of a deployment (\<^verbatim>\<open>core/deployment\<close>).
\<close>

section \<open>Supporting services, manager/supportingservice\_manager.go\<close>

text \<open>The custom resource: a service and its type, a string.\<close>

record supporting_service =
  sup_service :: kogito_service
  sup_type :: string

abbreviation (input) DataIndex :: string where "DataIndex \<equiv> ''DataIndex''"
abbreviation (input) Explainability :: string where "Explainability \<equiv> ''Explainability''"
abbreviation (input) JobsService :: string where "JobsService \<equiv> ''JobsService''"
abbreviation (input) MgmtConsole :: string where "MgmtConsole \<equiv> ''MgmtConsole''"
abbreviation (input) TaskConsole :: string where "TaskConsole \<equiv> ''TaskConsole''"
abbreviation (input) TrustyAI :: string where "TrustyAI \<equiv> ''TrustyAI''"
abbreviation (input) TrustyUI :: string where "TrustyUI \<equiv> ''TrustyUI''"

text \<open>The handler of internal/app reads the resources of a namespace from the cluster.\<close>

definition FetchKogitoSupportingService ::
  "('w, supporting_service) store_api \<Rightarrow> string \<Rightarrow> string \<Rightarrow> 'w \<Rightarrow> gerr + supporting_service option" where
  "FetchKogitoSupportingService S namespace name w = FetchWithKey S namespace name w"

definition FetchKogitoSupportingServiceList ::
  "('w, supporting_service) store_api \<Rightarrow> string \<Rightarrow> 'w \<Rightarrow> gerr + supporting_service list" where
  "FetchKogitoSupportingServiceList S namespace w = ListWithNamespace S namespace w"

definition EnsureSingletonService :: "('w, supporting_service) store_api \<Rightarrow> string \<Rightarrow> string \<Rightarrow> 'w \<Rightarrow> gerr option" where
  "EnsureSingletonService S namespace resourceType w =
     (case FetchKogitoSupportingServiceList S namespace w of
        Inl e \<Rightarrow> Some e
      | Inr services \<Rightarrow>
          if length (filter (\<lambda>s. sup_type s = resourceType) services) > 1
          then Some (PlainError (''kogito Supporting Service('' @ resourceType @ '') already exists, please delete the duplicate before proceeding''))
          else None)"

definition FetchKogitoSupportingServiceForServiceType ::
  "('w, supporting_service) store_api \<Rightarrow> string \<Rightarrow> string \<Rightarrow> 'w \<Rightarrow> gerr + supporting_service option" where
  "FetchKogitoSupportingServiceForServiceType S namespace serviceType w =
     bindR (FetchKogitoSupportingServiceList S namespace w) (\<lambda>services. Inr (find (\<lambda>s. sup_type s = serviceType) services))"

definition FetchKogitoSupportingServiceRoute :: "('w, supporting_service) store_api \<Rightarrow> string \<Rightarrow> string \<Rightarrow> 'w \<Rightarrow> gerr + string" where
  "FetchKogitoSupportingServiceRoute S namespace serviceType w =
     bindR (FetchKogitoSupportingServiceForServiceType S namespace serviceType w) (\<lambda>s.
       Inr (case s of None \<Rightarrow> [] | Some s \<Rightarrow> st_externalURI (ks_status (sup_service s))))"

definition FetchKogitoSupportingServiceDeployment ::
  "'w cluster \<Rightarrow> ('w, supporting_service) store_api \<Rightarrow> string \<Rightarrow> string \<Rightarrow> 'w \<Rightarrow> gerr + deployment option" where
  "FetchKogitoSupportingServiceDeployment K S namespace serviceType w =
     bindR (FetchKogitoSupportingServiceForServiceType S namespace serviceType w) (\<lambda>s. case s of
        None \<Rightarrow> Inr None
      | Some s \<Rightarrow>
          bindR (FetchDeploymentList K namespace w) (\<lambda>dcs.
            Inr (find (\<lambda>dc. list_ex (\<lambda>owner. or_uid owner = om_uid (ks_meta (sup_service s))) (om_owners (dep_meta dc))) dcs)))"

section \<open>Runtimes, manager/runtime\_manager.go\<close>

definition FetchKogitoRuntimeDeployments :: "'w cluster \<Rightarrow> string \<Rightarrow> 'w \<Rightarrow> gerr + deployment list" where
  "FetchKogitoRuntimeDeployments K namespace w =
     bindR (FetchDeploymentList K namespace w) (\<lambda>deps.
       Inr (filter (\<lambda>dep. MapContains (om_annotations (dep_meta dep)) ''kogito.kie.org/runtime'' ''true'') deps))"

section \<open>Endpoints, endpoint\_configmap.go, kogito\_service.go\<close>

definition GetEndPointConfigMapName :: "string \<Rightarrow> string" where
  "GetEndPointConfigMapName serviceName = serviceName @ ''-endpoint''"

definition FetchEndPointConfigMap :: "'w cluster \<Rightarrow> string \<Rightarrow> string \<Rightarrow> 'w \<Rightarrow> gerr + configmap option" where
  "FetchEndPointConfigMap K namespace name w = FetchConfigMap (cl_configMaps K) namespace (GetEndPointConfigMapName name) w"

record service_endpoints =
  se_HTTPRouteURI :: string
  se_HTTPRouteEnv :: string
  se_WSRouteURI :: string
  se_WSRouteEnv :: string

definition endpoints_IsEmpty :: "service_endpoints \<Rightarrow> bool" where
  "endpoints_IsEmpty s \<longleftrightarrow> se_HTTPRouteURI s = [] \<and> se_WSRouteURI s = []"

definition GetKogitoServiceURL :: "op_context \<Rightarrow> kogito_service \<Rightarrow> string" where
  "GetKogitoServiceURL cx service =
     (let externalURL = cx_getenv cx ''LOCAL_KOGITO_SERVICE_URL''
      in if externalURL \<noteq> [] then externalURL else ''http://'' @ ks_name service @ ''.'' @ ks_namespace service)"

text \<open>\<^verbatim>\<open>url.Parse\<close> is passed in; what is read of a URL is its text, its scheme and its host.\<close>

record parsed_url =
  pu_string :: string
  pu_scheme :: string
  pu_host :: string

definition GetKogitoServiceEndpoints ::
  "(string \<Rightarrow> gerr + parsed_url) \<Rightarrow> op_context \<Rightarrow> kogito_service \<Rightarrow> string \<Rightarrow> string \<Rightarrow> gerr + service_endpoints" where
  "GetKogitoServiceEndpoints parseURL cx inst serviceHTTPRouteEnv serviceWSRouteEnv =
     bindR (parseURL (GetKogitoServiceURL cx inst)) (\<lambda>srvURL.
       Inr \<lparr>se_HTTPRouteURI = pu_string srvURL, se_HTTPRouteEnv = serviceHTTPRouteEnv,
            se_WSRouteURI = (if pu_scheme srvURL = ''http'' then ''ws'' else ''wss'') @ ''://'' @ pu_host srvURL,
            se_WSRouteEnv = serviceWSRouteEnv\<rparr>)"

section \<open>Injection, connector/url\_handler.go\<close>

text \<open>The deployment of a supporting service that does not exist ends the loop over the types.\<close>

fun inject_types :: "'w cluster \<Rightarrow> ('w, supporting_service) store_api \<Rightarrow> string \<Rightarrow> string \<Rightarrow> string list \<Rightarrow> 'w \<Rightarrow> (gerr + unit) \<times> 'w" where
  "inject_types K S namespace cmName [] w = (Inr (), w)"
| "inject_types K S namespace cmName (serviceType # types) w =
     (case FetchKogitoSupportingServiceDeployment K S namespace serviceType w of
        Inl e \<Rightarrow> (Inl e, w)
      | Inr None \<Rightarrow> (Inr (), w)
      | Inr (Some d) \<Rightarrow>
          (case cm_MountAsEnvFrom d cmName of
             Inl e \<Rightarrow> (Inl e, w)
           | Inr d' \<Rightarrow>
               (case Update (cl_deployments K) d' w of
                  (Inl e, w') \<Rightarrow> (Inl e, w')
                | (Inr _, w') \<Rightarrow> inject_types K S namespace cmName types w')))"

definition InjectDataIndexURLIntoSupportingService ::
  "'w cluster \<Rightarrow> ('w, supporting_service) store_api \<Rightarrow> string \<Rightarrow> string \<Rightarrow> string list \<Rightarrow> 'w \<Rightarrow> (gerr + unit) \<times> 'w" where
  "InjectDataIndexURLIntoSupportingService K S namespace name serviceTypes w =
     (case FetchEndPointConfigMap K namespace name w of
        Inl e \<Rightarrow> (Inl e, w)
      | Inr None \<Rightarrow> (Inr (), w)
      | Inr (Some cm) \<Rightarrow> inject_types K S namespace (om_name (cm_meta cm)) serviceTypes w)"

fun inject_deployments :: "'w cluster \<Rightarrow> string \<Rightarrow> deployment list \<Rightarrow> 'w \<Rightarrow> (gerr + unit) \<times> 'w" where
  "inject_deployments K cmName [] w = (Inr (), w)"
| "inject_deployments K cmName (d # ds) w =
     (case cm_MountAsEnvFrom d cmName of
        Inl e \<Rightarrow> (Inl e, w)
      | Inr d' \<Rightarrow>
          (case Update (cl_deployments K) d' w of
             (Inl e, w') \<Rightarrow> (Inl e, w')
           | (Inr _, w') \<Rightarrow> inject_deployments K cmName ds w'))"

definition injectSupportingServiceURLIntoKogitoRuntime :: "'w cluster \<Rightarrow> string \<Rightarrow> string \<Rightarrow> 'w \<Rightarrow> (gerr + unit) \<times> 'w" where
  "injectSupportingServiceURLIntoKogitoRuntime K namespace name w =
     (case FetchKogitoRuntimeDeployments K namespace w of
        Inl e \<Rightarrow> (Inl e, w)
      | Inr deployments \<Rightarrow>
          if deployments = [] then (Inr (), w)
          else (case FetchEndPointConfigMap K namespace name w of
                  Inl e \<Rightarrow> (Inl e, w)
                | Inr None \<Rightarrow> (Inr (), w)
                | Inr (Some cm) \<Rightarrow> inject_deployments K (om_name (cm_meta cm)) deployments w))"

definition injectSupportingServiceURLIntoDeployment ::
  "'w cluster \<Rightarrow> ('w, supporting_service) store_api \<Rightarrow> string \<Rightarrow> deployment \<Rightarrow> 'w \<Rightarrow> gerr + deployment" where
  "injectSupportingServiceURLIntoDeployment K S resourceType d w =
     bindR (FetchKogitoSupportingServiceForServiceType S (om_namespace (dep_meta d)) resourceType w) (\<lambda>s. case s of
        None \<Rightarrow> Inr d
      | Some s \<Rightarrow>
          bindR (FetchEndPointConfigMap K (ks_namespace (sup_service s)) (ks_name (sup_service s)) w) (\<lambda>cm. case cm of
             None \<Rightarrow> Inr d
           | Some cm \<Rightarrow> cm_MountAsEnvFrom d (om_name (cm_meta cm))))"

definition InjectDataIndexEndPointOnKogitoRuntimeServices :: "'w cluster \<Rightarrow> string \<Rightarrow> string \<Rightarrow> 'w \<Rightarrow> (gerr + unit) \<times> 'w" where
  "InjectDataIndexEndPointOnKogitoRuntimeServices K = injectSupportingServiceURLIntoKogitoRuntime K"

definition InjectJobsServicesEndPointOnKogitoRuntimeServices :: "'w cluster \<Rightarrow> string \<Rightarrow> string \<Rightarrow> 'w \<Rightarrow> (gerr + unit) \<times> 'w" where
  "InjectJobsServicesEndPointOnKogitoRuntimeServices K = injectSupportingServiceURLIntoKogitoRuntime K"

definition InjectTrustyEndpointOnKogitoRuntimeServices :: "'w cluster \<Rightarrow> string \<Rightarrow> string \<Rightarrow> 'w \<Rightarrow> (gerr + unit) \<times> 'w" where
  "InjectTrustyEndpointOnKogitoRuntimeServices K = injectSupportingServiceURLIntoKogitoRuntime K"

definition InjectDataIndexEndpointOnDeployment ::
  "'w cluster \<Rightarrow> ('w, supporting_service) store_api \<Rightarrow> deployment \<Rightarrow> 'w \<Rightarrow> gerr + deployment" where
  "InjectDataIndexEndpointOnDeployment K S = injectSupportingServiceURLIntoDeployment K S DataIndex"

definition InjectJobsServiceEndpointOnDeployment ::
  "'w cluster \<Rightarrow> ('w, supporting_service) store_api \<Rightarrow> deployment \<Rightarrow> 'w \<Rightarrow> gerr + deployment" where
  "InjectJobsServiceEndpointOnDeployment K S = injectSupportingServiceURLIntoDeployment K S JobsService"

definition InjectTrustyEndpointOnDeployment ::
  "'w cluster \<Rightarrow> ('w, supporting_service) store_api \<Rightarrow> deployment \<Rightarrow> 'w \<Rightarrow> gerr + deployment" where
  "InjectTrustyEndpointOnDeployment K S = injectSupportingServiceURLIntoDeployment K S TrustyAI"

section \<open>The deployment processor, deployment/deployment\_processor.go\<close>

definition injectKogitoAnnotations :: "op_context \<Rightarrow> deployment \<Rightarrow> deployment" where
  "injectKogitoAnnotations cx d =
     (if cx_version cx = [] then d
      else d\<lparr>dep_meta := (dep_meta d)\<lparr>om_annotations :=
               smap_put ''kogito-operator.kiegroup.org/version'' (cx_version cx) (om_annotations (dep_meta d))\<rparr>,
             dep_template := (dep_template d)\<lparr>pt_annotations :=
               smap_put ''kogito-operator.kiegroup.org/version'' (cx_version cx) (pt_annotations (dep_template d))\<rparr>\<rparr>)"

definition inject_endpoints :: "'w cluster \<Rightarrow> ('w, supporting_service) store_api \<Rightarrow> deployment \<Rightarrow> 'w \<Rightarrow> gerr + deployment" where
  "inject_endpoints K S d w =
     bindR (InjectDataIndexEndpointOnDeployment K S d w) (\<lambda>d1.
     bindR (InjectJobsServiceEndpointOnDeployment K S d1 w) (\<lambda>d2.
     InjectTrustyEndpointOnDeployment K S d2 w))"

definition injectSupportingServiceEndpointIntoDeployment ::
  "'w cluster \<Rightarrow> ('w, supporting_service) store_api \<Rightarrow> deployment \<Rightarrow> 'w \<Rightarrow> (gerr + deployment) \<times> 'w" where
  "injectSupportingServiceEndpointIntoDeployment K S d w =
     (case inject_endpoints K S d w of
        Inl e \<Rightarrow> (Inl e, w)
      | Inr d' \<Rightarrow> Update (cl_deployments K) d' w)"

definition container_security :: security_context where
  "container_security = \<lparr>sc_dropCapabilities = [''ALL''], sc_privileged = Some False, sc_runAsNonRoot = Some True,
     sc_allowPrivilegeEscalation = Some False\<rparr>"

definition injectSecurityContextDefaults :: "deployment \<Rightarrow> deployment" where
  "injectSecurityContextDefaults d =
     d\<lparr>dep_template := (dep_template d)\<lparr>pt_spec := (dep_podSpec d)\<lparr>
         ps_securityContext := Some \<lparr>psc_runAsNonRoot = Some True\<rparr>,
         ps_containers := map (\<lambda>c. c\<lparr>c_securityContext := Some container_security\<rparr>) (dep_containers d)\<rparr>\<rparr>\<rparr>"

text \<open>The deployment in memory after the call, if it succeeded, and the cluster.\<close>

definition Process :: "'w cluster \<Rightarrow> op_context \<Rightarrow> ('w, supporting_service) store_api \<Rightarrow> deployment \<Rightarrow> 'w \<Rightarrow> (gerr + deployment) \<times> 'w" where
  "Process K cx S d w =
     (case injectSupportingServiceEndpointIntoDeployment K S (injectKogitoAnnotations cx d) w of
        (Inl e, w') \<Rightarrow> (Inl e, w')
      | (Inr d', w') \<Rightarrow> (Inr (injectSecurityContextDefaults d'), w'))"

section \<open>Lemmas\<close>

definition add_env_from :: "string \<Rightarrow> container \<Rightarrow> container" where
  "add_env_from cmName c =
     (if list_ex (\<lambda>ef. ef_configMapRef ef = Some cmName) (c_envFrom c) then c
      else c\<lparr>c_envFrom := c_envFrom c @ [\<lparr>ef_configMapRef = Some cmName, ef_secretRef = None\<rparr>]\<rparr>)"

lemma cm_MountAsEnvFrom_Inr:
  "cm_MountAsEnvFrom d n = Inr d' \<longleftrightarrow> (\<exists>c cs. dep_containers d = c # cs \<and> d' = set_containers (add_env_from n c # cs) d)"
  by (simp add: cm_MountAsEnvFrom_def with_container0_Inr add_env_from_def)

lemma add_env_from_idem: "add_env_from n (add_env_from n c) = add_env_from n c"
  by (simp add: add_env_from_def)

lemma cm_MountAsEnvFrom_idem: "cm_MountAsEnvFrom d n = Inr d' \<Longrightarrow> cm_MountAsEnvFrom d' n = Inr d'"
  by (auto simp: cm_MountAsEnvFrom_Inr add_env_from_idem)

lemma add_env_from_security [simp]: "c_securityContext (add_env_from n c) = c_securityContext c"
  by (simp add: add_env_from_def)

lemma podSpec_set_containers [simp]: "dep_podSpec (set_containers cs d) = (dep_podSpec d)\<lparr>ps_containers := cs\<rparr>"
  by (simp add: set_containers_def)

text \<open>What an injection makes of a deployment: nothing, or one more environment source in the first container.\<close>

lemma inject_cases:
  assumes "injectSupportingServiceURLIntoDeployment K S t d w = Inr d'"
  shows "d' = d \<or> (\<exists>cm c cs. dep_containers d = c # cs \<and> d' = set_containers (add_env_from cm c # cs) d)"
  using assms
  by (auto simp: injectSupportingServiceURLIntoDeployment_def FetchKogitoSupportingServiceForServiceType_def bindR_eq_Inr
      cm_MountAsEnvFrom_Inr split: option.splits) blast

lemma inject_security:
  assumes "injectSupportingServiceURLIntoDeployment K S t d w = Inr d'"
  shows "ps_securityContext (dep_podSpec d') = ps_securityContext (dep_podSpec d)
    \<and> map c_securityContext (dep_containers d') = map c_securityContext (dep_containers d) \<and> dep_meta d' = dep_meta d"
  using inject_cases [OF assms] by auto

lemma inject_endpoints_security:
  assumes "inject_endpoints K S d w = Inr d'"
  shows "ps_securityContext (dep_podSpec d') = ps_securityContext (dep_podSpec d)
    \<and> map c_securityContext (dep_containers d') = map c_securityContext (dep_containers d) \<and> dep_meta d' = dep_meta d"
proof -
  obtain d1 d2 where "injectSupportingServiceURLIntoDeployment K S DataIndex d w = Inr d1"
    "injectSupportingServiceURLIntoDeployment K S JobsService d1 w = Inr d2" "injectSupportingServiceURLIntoDeployment K S TrustyAI d2 w = Inr d'"
    using assms by (auto simp: inject_endpoints_def bindR_eq_Inr InjectDataIndexEndpointOnDeployment_def
        InjectJobsServiceEndpointOnDeployment_def InjectTrustyEndpointOnDeployment_def)
  from this [THEN inject_security] show ?thesis by simp
qed

lemma annotations_security:
  "ps_securityContext (dep_podSpec (injectKogitoAnnotations cx d)) = ps_securityContext (dep_podSpec d)"
  "dep_containers (injectKogitoAnnotations cx d) = dep_containers d"
  by (simp_all add: injectKogitoAnnotations_def)

text \<open>What the server promises of an update: the object is stored with the template it was sent with, under its name, and nothing else
  changes.\<close>

definition deployment_store_laws :: "('w, deployment) store_api \<Rightarrow> bool" where
  "deployment_store_laws A \<longleftrightarrow> sa_meta A = dep_meta \<and> (\<forall>x y w w'. sa_update A x w = (Inr y, w') \<longrightarrow>
     dep_template y = dep_template x \<and> sa_get A (om_namespace (dep_meta x)) (om_name (dep_meta x)) w' = Inr y
     \<and> (\<forall>ns n. (ns, n) \<noteq> (om_namespace (dep_meta x), om_name (dep_meta x)) \<longrightarrow> sa_get A ns n w' = sa_get A ns n w))"

definition has_env_from :: "string \<Rightarrow> deployment \<Rightarrow> bool" where
  "has_env_from cmName d = (case dep_containers d of [] \<Rightarrow> False | c # cs \<Rightarrow> list_ex (\<lambda>ef. ef_configMapRef ef = Some cmName) (c_envFrom c))"

definition stored_with_env_from :: "('w, deployment) store_api \<Rightarrow> string \<Rightarrow> deployment \<Rightarrow> 'w \<Rightarrow> bool" where
  "stored_with_env_from A cmName d w \<longleftrightarrow>
     (\<exists>y. sa_get A (om_namespace (dep_meta d)) (om_name (dep_meta d)) w = Inr y \<and> has_env_from cmName y)"

lemma mounted_has_env_from: "cm_MountAsEnvFrom d n = Inr d' \<Longrightarrow> has_env_from n d' \<and> dep_meta d' = dep_meta d"
  by (auto simp: cm_MountAsEnvFrom_Inr has_env_from_def add_env_from_def)

lemma update_stored:
  assumes "deployment_store_laws A" "cm_MountAsEnvFrom d n = Inr d'" "sa_update A d' w = (Inr y, w')"
  shows "stored_with_env_from A n d w' \<and> (stored_with_env_from A n x w \<longrightarrow> stored_with_env_from A n x w')"
proof -
  have d': "has_env_from n d'" "dep_meta d' = dep_meta d" using mounted_has_env_from [OF assms(2)] by simp_all
  have y: "dep_template y = dep_template d'" "sa_get A (om_namespace (dep_meta d)) (om_name (dep_meta d)) w' = Inr y"
    using assms(1,3) d'(2) unfolding deployment_store_laws_def by metis+
  have "has_env_from n y" using d'(1) y(1) by (simp add: has_env_from_def)
  moreover have "sa_get A ns m w' = sa_get A ns m w" if "(ns, m) \<noteq> (om_namespace (dep_meta d), om_name (dep_meta d))" for ns m
    using assms(1,3) d'(2) that unfolding deployment_store_laws_def by metis
  ultimately show ?thesis using y(2) unfolding stored_with_env_from_def by (metis prod.inject)
qed

lemma inject_deployments_stored:
  assumes "deployment_store_laws (cl_deployments K)" "inject_deployments K n ds w = (Inr (), w')"
  shows "(\<forall>d \<in> set ds. stored_with_env_from (cl_deployments K) n d w')
     \<and> (stored_with_env_from (cl_deployments K) n x w \<longrightarrow> stored_with_env_from (cl_deployments K) n x w')"
  using assms(2)
proof (induction ds arbitrary: w x)
  case (Cons d ds)
  then obtain d' y w1 where s: "cm_MountAsEnvFrom d n = Inr d'" "sa_update (cl_deployments K) d' w = (Inr y, w1)"
      "inject_deployments K n ds w1 = (Inr (), w')"
    by (auto simp: Update_def split: sum.splits prod.splits)
  then show ?case using update_stored [OF assms(1) s(1,2)] Cons.IH [OF s(3)] by simp
qed simp

section \<open>Properties\<close>

text \<open>C10: the address of a supporting service reaches the runtimes.  When the injection into the runtimes of a namespace succeeds and the
  endpoint config map of the service exists, every deployment annotated as a runtime, when it is read again, takes its
  environment from that config map.\<close>

theorem endpoint_reaches_runtimes:
  assumes "deployment_store_laws (cl_deployments K)"
    and "FetchKogitoRuntimeDeployments K ns w = Inr ds" "FetchConfigMap (cl_configMaps K) ns (name @ ''-endpoint'') w = Inr (Some cm)"
    and "injectSupportingServiceURLIntoKogitoRuntime K ns name w = (Inr (), w')" "d \<in> set ds"
  shows "\<exists>y c cs. sa_get (cl_deployments K) (om_namespace (dep_meta d)) (om_name (dep_meta d)) w' = Inr y \<and> dep_containers y = c # cs
     \<and> (\<exists>ef \<in> set (c_envFrom c). ef_configMapRef ef = Some (om_name (cm_meta cm)))"
proof -
  have "inject_deployments K (om_name (cm_meta cm)) ds w = (Inr (), w')"
    using assms(2-5) by (cases "ds = []") (auto simp: injectSupportingServiceURLIntoKogitoRuntime_def FetchEndPointConfigMap_def GetEndPointConfigMapName_def)
  then have "stored_with_env_from (cl_deployments K) (om_name (cm_meta cm)) d w'"
    using inject_deployments_stored [OF assms(1)] assms(5) by blast
  then obtain y where y: "sa_get (cl_deployments K) (om_namespace (dep_meta d)) (om_name (dep_meta d)) w' = Inr y" "has_env_from (om_name (cm_meta cm)) y"
    by (auto simp: stored_with_env_from_def)
  then show ?thesis by (cases "dep_containers y") (auto simp: has_env_from_def list_ex_iff)
qed

text \<open>The endpoint of a supporting service is injected once.  When the service of the type and its endpoint config map are found, the first
  container gets one environment source of that name unless it has it, and otherwise the deployment stays as it is; injecting again
  changes nothing.\<close>

theorem inject_endpoint_once:
  assumes "injectSupportingServiceURLIntoDeployment K S t d w = Inr d'"
  shows "injectSupportingServiceURLIntoDeployment K S t d' w = Inr d'
    \<and> (case FetchKogitoSupportingServiceForServiceType S (om_namespace (dep_meta d)) t w of
         Inr (Some s) \<Rightarrow>
           (case FetchConfigMap (cl_configMaps K) (ks_namespace (sup_service s)) (ks_name (sup_service s) @ ''-endpoint'') w of
              Inr (Some cm) \<Rightarrow> (\<exists>c cs. dep_containers d = c # cs \<and> d' = set_containers
                 ((if list_ex (\<lambda>ef. ef_configMapRef ef = Some (om_name (cm_meta cm))) (c_envFrom c) then c
                   else c\<lparr>c_envFrom := c_envFrom c @ [\<lparr>ef_configMapRef = Some (om_name (cm_meta cm)), ef_secretRef = None\<rparr>]\<rparr>) # cs) d)
            | _ \<Rightarrow> d' = d)
       | _ \<Rightarrow> d' = d)"
proof -
  have meta: "dep_meta d' = dep_meta d" using inject_security [OF assms] by simp
  show ?thesis
  proof (cases "FetchKogitoSupportingServiceForServiceType S (om_namespace (dep_meta d)) t w")
    case (Inr s)
    show ?thesis
    proof (cases s)
      case (Some s')
      show ?thesis
      proof (cases "FetchEndPointConfigMap K (ks_namespace (sup_service s')) (ks_name (sup_service s')) w")
        case cm: (Inr cm)
        show ?thesis
        proof (cases cm)
          case None
          with assms Inr Some cm have "d' = d" by (simp add: injectSupportingServiceURLIntoDeployment_def)
          with assms Inr Some cm None show ?thesis by (simp add: FetchEndPointConfigMap_def GetEndPointConfigMapName_def)
        next
          case (Some c')
          note found = Inr \<open>s = Some s'\<close> cm Some
          have mount: "cm_MountAsEnvFrom d (om_name (cm_meta c')) = Inr d'"
            using assms found by (simp add: injectSupportingServiceURLIntoDeployment_def)
          have "injectSupportingServiceURLIntoDeployment K S t d' w = Inr d'"
            using found meta cm_MountAsEnvFrom_idem [OF mount] by (simp add: injectSupportingServiceURLIntoDeployment_def)
          with found mount show ?thesis
            by (simp add: FetchEndPointConfigMap_def GetEndPointConfigMapName_def cm_MountAsEnvFrom_Inr add_env_from_def)
        qed
      qed (use assms Inr Some in \<open>simp add: injectSupportingServiceURLIntoDeployment_def\<close>)
    qed (use assms Inr in \<open>simp add: injectSupportingServiceURLIntoDeployment_def\<close>)
  qed (use assms in \<open>simp add: injectSupportingServiceURLIntoDeployment_def\<close>)
qed

text \<open>The security defaults never reach the cluster.  When the processing of a deployment succeeds, the object sent to the server has the
  version annotation and the endpoints but the security contexts the deployment had before; the defaults are set afterwards, on the object
  in memory only.\<close>

theorem Process_security_not_written:
  assumes "Process K cx S d w = (Inr d', w')"
  shows "\<exists>sent stored. sa_update (cl_deployments K) sent w = (Inr stored, w')
    \<and> ps_securityContext (dep_podSpec sent) = ps_securityContext (dep_podSpec d)
    \<and> map c_securityContext (dep_containers sent) = map c_securityContext (dep_containers d)
    \<and> (if cx_version cx = [] then om_annotations (dep_meta sent) = om_annotations (dep_meta d)
       else smap_get (om_annotations (dep_meta sent)) ''kogito-operator.kiegroup.org/version'' = cx_version cx)
    \<and> d' = injectSecurityContextDefaults stored
    \<and> list_all (\<lambda>c. c_securityContext c = Some container_security) (dep_containers d')"
proof -
  obtain sent stored where s: "inject_endpoints K S (injectKogitoAnnotations cx d) w = Inr sent"
    "sa_update (cl_deployments K) sent w = (Inr stored, w')" "d' = injectSecurityContextDefaults stored"
    using assms by (auto simp: Process_def injectSupportingServiceEndpointIntoDeployment_def Update_def split: sum.splits prod.splits)
  have "if cx_version cx = [] then om_annotations (dep_meta sent) = om_annotations (dep_meta d)
       else smap_get (om_annotations (dep_meta sent)) ''kogito-operator.kiegroup.org/version'' = cx_version cx"
    using inject_endpoints_security [OF s(1)] by (simp add: injectKogitoAnnotations_def)
  with s inject_endpoints_security [OF s(1)] show ?thesis
    by (intro exI [of _ sent] exI [of _ stored])
      (simp add: annotations_security injectSecurityContextDefaults_def list_all_iff)
qed

section \<open>Concrete instances\<close>

definition data_index_store :: "(mem_world, supporting_service) store_api" where
  "data_index_store = lens_api (\<lambda>_. [\<lparr>sup_service = sample_service\<lparr>ks_meta := mk_meta ''di'' ''ns''\<rparr>, sup_type = DataIndex\<rparr>]) (\<lambda>_ w. w)
     (mem_api (\<lambda>s. ks_meta (sup_service s)))"

definition endpoint_world :: mem_world where
  "endpoint_world = empty_world\<lparr>mw_deployments := [sample_deployment],
     mw_configMaps := [\<lparr>cm_meta = mk_meta ''di-endpoint'' ''ns'', cm_data = [], cm_binaryData = []\<rparr>]\<rparr>"

definition injected_deployment :: deployment where
  "injected_deployment = set_containers [sample_container\<lparr>c_envFrom := [\<lparr>ef_configMapRef = Some ''di-endpoint'', ef_secretRef = None\<rparr>]\<rparr>] sample_deployment"

lemma inject_sample:
  "injectSupportingServiceURLIntoDeployment (mem_cluster False) data_index_store DataIndex sample_deployment endpoint_world = Inr injected_deployment"
  by (simp add: injectSupportingServiceURLIntoDeployment_def FetchKogitoSupportingServiceForServiceType_def FetchKogitoSupportingServiceList_def
      ListWithNamespace_def FetchEndPointConfigMap_def GetEndPointConfigMapName_def FetchConfigMap_def FetchWithKey_def data_index_store_def
      endpoint_world_def mem_simps mk_meta_def sample_service_def cm_MountAsEnvFrom_def with_container0_def injected_deployment_def
      sample_deployment_def sample_container_def set_containers_def)

lemma inject_endpoint_once_witness:
  "injectSupportingServiceURLIntoDeployment (mem_cluster False) data_index_store DataIndex injected_deployment endpoint_world = Inr injected_deployment"
  using inject_endpoint_once [OF inject_sample] by blast

lemma no_service_injection:
  assumes "t \<noteq> DataIndex"
  shows "injectSupportingServiceURLIntoDeployment K data_index_store t d w = Inr d"
  using assms by (simp add: injectSupportingServiceURLIntoDeployment_def FetchKogitoSupportingServiceForServiceType_def FetchKogitoSupportingServiceList_def
      ListWithNamespace_def data_index_store_def mem_simps)

lemma Process_sample:
  "\<exists>w'. Process (mem_cluster False) \<lparr>cx_version = [], cx_labels = [], cx_deploymentIdentifier = [], cx_setControllerReference = (\<lambda>_ m. Inr m),
       cx_gvkForObject = (\<lambda>_. Inr ([], [])), cx_getenv = (\<lambda>_. [])\<rparr> data_index_store sample_deployment endpoint_world
     = (Inr (injectSecurityContextDefaults injected_deployment), w')"
proof -
  have "inject_endpoints (mem_cluster False) data_index_store sample_deployment endpoint_world = Inr injected_deployment"
    by (simp add: inject_endpoints_def InjectDataIndexEndpointOnDeployment_def InjectJobsServiceEndpointOnDeployment_def
        InjectTrustyEndpointOnDeployment_def inject_sample no_service_injection)
  moreover have "\<exists>w'. sa_update (cl_deployments (mem_cluster False)) injected_deployment endpoint_world = (Inr injected_deployment, w')"
    by (simp add: endpoint_world_def mem_simps injected_deployment_def)
  ultimately show ?thesis
    by (auto simp: Process_def injectKogitoAnnotations_def injectSupportingServiceEndpointIntoDeployment_def Update_def)
qed

lemma Process_security_not_written_witness:
  "\<exists>sent stored w'. sa_update (cl_deployments (mem_cluster False)) sent endpoint_world = (Inr stored, w')
     \<and> map c_securityContext (dep_containers sent) = map c_securityContext (dep_containers sample_deployment)"
proof -
  obtain w' where "Process (mem_cluster False) \<lparr>cx_version = [], cx_labels = [], cx_deploymentIdentifier = [], cx_setControllerReference = (\<lambda>_ m. Inr m),
       cx_gvkForObject = (\<lambda>_. Inr ([], [])), cx_getenv = (\<lambda>_. [])\<rparr> data_index_store sample_deployment endpoint_world
     = (Inr (injectSecurityContextDefaults injected_deployment), w')"
    using Process_sample by blast
  from Process_security_not_written [OF this] show ?thesis by blast
qed

lemma mem_deployment_laws: "deployment_store_laws (cl_deployments (mem_cluster b))"
  by (auto simp: deployment_store_laws_def mem_get_def mem_update_def Let_def find_replaced split: if_splits option.splits)

definition runtime_deployment :: deployment where
  "runtime_deployment = sample_deployment\<lparr>dep_meta := (dep_meta sample_deployment)\<lparr>om_annotations := [(''kogito.kie.org/runtime'', ''true'')]\<rparr>\<rparr>"

definition runtime_world :: mem_world where
  "runtime_world = endpoint_world\<lparr>mw_deployments := [runtime_deployment]\<rparr>"

lemma endpoint_reaches_runtimes_witness:
  "\<exists>w' y c cs. injectSupportingServiceURLIntoKogitoRuntime (mem_cluster False) ''ns'' ''di'' runtime_world = (Inr (), w')
     \<and> sa_get (cl_deployments (mem_cluster False)) (om_namespace (dep_meta runtime_deployment)) (om_name (dep_meta runtime_deployment)) w' = Inr y
     \<and> dep_containers y = c # cs \<and> (\<exists>ef \<in> set (c_envFrom c). ef_configMapRef ef = Some ''di-endpoint'')"
proof -
  let ?K = "mem_cluster False" and ?cm = "\<lparr>cm_meta = mk_meta ''di-endpoint'' ''ns'', cm_data = [], cm_binaryData = []\<rparr>"
  note defs = runtime_world_def endpoint_world_def empty_world_def runtime_deployment_def sample_deployment_def sample_container_def mk_meta_def
  have ds: "FetchKogitoRuntimeDeployments ?K ''ns'' runtime_world = Inr [runtime_deployment]"
    by (simp add: FetchKogitoRuntimeDeployments_def FetchDeploymentList_def ListWithNamespace_def mem_list_def MapContains_def smap_get_def defs)
  have cm: "FetchConfigMap (cl_configMaps ?K) ''ns'' (''di'' @ ''-endpoint'') runtime_world = Inr (Some ?cm)"
    by (simp add: FetchConfigMap_def FetchWithKey_def mem_simps defs)
  obtain w' where run: "injectSupportingServiceURLIntoKogitoRuntime ?K ''ns'' ''di'' runtime_world = (Inr (), w')"
    using ds cm by (simp add: injectSupportingServiceURLIntoKogitoRuntime_def FetchEndPointConfigMap_def GetEndPointConfigMapName_def
        cm_MountAsEnvFrom_def with_container0_def Update_def mem_simps set_containers_def defs)
  show ?thesis using endpoint_reaches_runtimes [OF mem_deployment_laws ds cm run, of runtime_deployment] run by (auto simp: mk_meta_def)
qed

end
