(* ===== verification/Infra_Resources.thy ===== *)
theory Infra_Resources
  imports Infra_Types Kube_Client Reconciliation_Error
begin

text \<open>
  The third-party resources a KogitoInfra may refer to, as far as the operator reads them, and the handlers that
  read them: \<^verbatim>\<open>core/infrastructure/kafka.go\<close>, \<^verbatim>\<open>infinispan.go\<close>, \<^verbatim>\<open>mongodb.go\<close>, \<^verbatim>\<open>knative.go\<close>, \<^verbatim>\<open>keycloak.go\<close>, with the
  discovery of server groups of \<^verbatim>\<open>core/client/client.go\<close>.
\<close>

section \<open>Discovery, client.go\<close>

text \<open>The discovery client, if there is one, answers with the names of the groups.\<close>

type_synonym discovery = "(gerr + string list) option"

definition HasServerGroup :: "discovery \<Rightarrow> string \<Rightarrow> bool" where
  "HasServerGroup D groupName =
     (case D of
        Some (Inr groups) \<Rightarrow> list_ex (\<lambda>g. ContainsStr g groupName) groups
      | _ \<Rightarrow> False)"

definition IsOpenshift :: "discovery \<Rightarrow> bool" where
  "IsOpenshift D = HasServerGroup D ''openshift.io''"

section \<open>Strings\<close>

text \<open>\<^verbatim>\<open>strings.ToLower\<close> on ASCII.\<close>

definition ascii_lower :: "char \<Rightarrow> char" where
  "ascii_lower c =
     (let n = (of_char c :: nat) in if 65 \<le> n \<and> n \<le> 90 then char_of (n + 32) else c)"

definition ToLower :: "string \<Rightarrow> string" where
  "ToLower s = map ascii_lower s"

section \<open>Kafka, kafka.go\<close>

record kafka_condition =
  kc_type :: string
  kc_lastTransitionTime :: string

record listener_status =
  ls_type :: string
  ls_addresses :: "(string \<times> int) list"  \<comment> \<open>host, port\<close>

record kafka =
  kf_meta :: object_meta
  kf_conditions :: "kafka_condition list"
  kf_listeners :: "listener_status list"

record kafka_topic =
  kt_meta :: object_meta
  kt_partitions :: int
  kt_replicas :: int
  kt_topicName :: string

definition IsStrimziAvailable :: "discovery \<Rightarrow> bool" where
  "IsStrimziAvailable D = HasServerGroup D ''kafka.strimzi.io''"

definition FetchKafkaInstance :: "('w, kafka) store_api \<Rightarrow> string \<Rightarrow> string \<Rightarrow> 'w \<Rightarrow> gerr + kafka option" where
  "FetchKafkaInstance A namespace name w = FetchWithKey A namespace name w"

definition FetchKafkaTopic :: "('w, kafka_topic) store_api \<Rightarrow> string \<Rightarrow> string \<Rightarrow> 'w \<Rightarrow> gerr + kafka_topic option" where
  "FetchKafkaTopic A namespace name w = FetchWithKey A namespace name w"

definition getKafkaTopic :: "string \<Rightarrow> string \<Rightarrow> string \<Rightarrow> kafka_topic" where
  "getKafkaTopic name namespace kafkaBroker =
     \<lparr>kt_meta = (mk_meta name namespace)\<lparr>om_labels := [(''strimzi.io/cluster'', kafkaBroker)]\<rparr>,
      kt_partitions = 1, kt_replicas = 1, kt_topicName = name\<rparr>"

definition CreateKafkaTopic :: "('w, kafka_topic) store_api \<Rightarrow> string \<Rightarrow> string \<Rightarrow> string \<Rightarrow> 'w \<Rightarrow> (gerr + kafka_topic) \<times> 'w" where
  "CreateKafkaTopic A topicName kafkaName kafkaNamespace = Create A (getKafkaTopic topicName kafkaNamespace kafkaName)"

definition kafka_server_uri :: "kafka \<Rightarrow> string" where
  "kafka_server_uri k =
     (case find (\<lambda>(h, p). h \<noteq> [] \<and> p > 0)
             (concat (map ls_addresses (filter (\<lambda>l. ls_type l = ''plain'') (kf_listeners k)))) of
        None \<Rightarrow> []
      | Some (h, p) \<Rightarrow> h @ '':'' @ Itoa p)"

definition ResolveKafkaServerURI :: "kafka \<Rightarrow> gerr + string" where
  "ResolveKafkaServerURI k =
     (if kafka_server_uri k \<noteq> [] then Inr (kafka_server_uri k)
      else Inl (PlainError (''not able resolve URI for given kafka instance '' @ om_name (kf_meta k))))"

abbreviation (input) KafkaAPIVersion :: string where "KafkaAPIVersion \<equiv> ''kafka.strimzi.io/v1beta2''"
abbreviation (input) KafkaKind :: string where "KafkaKind \<equiv> ''Kafka''"

definition IsKafkaResource :: "string \<Rightarrow> string \<Rightarrow> bool" where
  "IsKafkaResource apiVersion kind \<longleftrightarrow> apiVersion = KafkaAPIVersion \<and> kind = KafkaKind"

section \<open>Infinispan, infinispan.go\<close>

record infinispan =
  isp_meta :: object_meta
  isp_conditions :: "(string \<times> cond_status) list"
  isp_endpointAuthentication :: "bool option"
  isp_endpointSecretName :: string
  isp_certSecretName :: "string option"  \<comment> \<open>of EndpointEncryption, if it is set\<close>

definition infinispan_condition :: "infinispan \<Rightarrow> string \<Rightarrow> cond_status" where
  "infinispan_condition i t =
     (case find (\<lambda>(t', s). ToLower t' = ToLower t) (isp_conditions i) of None \<Rightarrow> CFalse | Some (_, s) \<Rightarrow> s)"

definition IsWellFormed :: "infinispan \<Rightarrow> bool" where
  "IsWellFormed i = list_all (\<lambda>(t, s). infinispan_condition i t = s)
     [(''GracefulShutdown'', CFalse), (''PreliminaryChecksPassed'', CTrue), (''Upgrade'', CFalse), (''Stopping'', CFalse),
      (''WellFormed'', CTrue)]"

definition IsInfinispanAvailable :: "discovery \<Rightarrow> bool" where
  "IsInfinispanAvailable D = HasServerGroup D ''infinispan.org''"

definition FetchInfinispanInstance :: "('w, infinispan) store_api \<Rightarrow> string \<Rightarrow> string \<Rightarrow> 'w \<Rightarrow> gerr + infinispan option" where
  "FetchInfinispanInstance A namespace name w = FetchWithKey A namespace name w"

fun int_val :: "int_or_string \<Rightarrow> int" where
  "int_val (IntVal n) = n"
| "int_val (StrVal _) = 0"

definition FetchInfinispanInstanceURI :: "('w, kservice) store_api \<Rightarrow> string \<Rightarrow> string \<Rightarrow> 'w \<Rightarrow> gerr + string" where
  "FetchInfinispanInstanceURI A namespace name w =
     bindR (FetchWithKey A namespace name w) (\<lambda>svc. case svc of
        None \<Rightarrow> Inl (PlainError (''service with name '' @ name @ '' not exist for Infinispan instance in given namespace '' @ namespace))
      | Some s \<Rightarrow> (case find (\<lambda>p. int_val (sp_targetPort p) = 11222) (svc_ports s) of
            None \<Rightarrow> Inl (PlainError (''Infinispan default port (11222) not found in service '' @ om_name (svc_meta s) @ '' ''))
          | Some p \<Rightarrow> Inr (om_name (svc_meta s) @ '':'' @ Itoa (int_val (sp_targetPort p)))))"

record credential =
  cre_username :: string
  cre_password :: string

text \<open>The YAML of the identities is decoded by a library: \<^verbatim>\<open>unmarshal\<close>.\<close>

definition findInfinispanCredentialByUsernameOrFirst ::
  "(string \<Rightarrow> gerr + credential list) \<Rightarrow> string \<Rightarrow> secret \<Rightarrow> gerr + credential option" where
  "findInfinispanCredentialByUsernameOrFirst unmarshal username sec =
     (let secretFileData = smap_get (sec_data sec) ''identities.yaml''
      in if secretFileData = []
         then Inr (Some \<lparr>cre_username = smap_get (sec_data sec) ''username'', cre_password = smap_get (sec_data sec) ''password''\<rparr>)
         else bindR (unmarshal secretFileData) (\<lambda>credentials.
                case find (\<lambda>c. cre_username c = username) credentials of
                  Some c \<Rightarrow> Inr (Some c)
                | None \<Rightarrow> Inr (case credentials of [c] \<Rightarrow> Some c | _ \<Rightarrow> None)))"

definition GetInfinispanCredential ::
  "(string \<Rightarrow> gerr + credential list) \<Rightarrow> ('w, secret) store_api \<Rightarrow> infinispan \<Rightarrow> 'w \<Rightarrow> gerr + credential option" where
  "GetInfinispanCredential unmarshal A i w =
     bindR (FetchWithKey A (om_namespace (isp_meta i)) (isp_endpointSecretName i) w) (\<lambda>s. case s of
        None \<Rightarrow> Inr None
      | Some sec \<Rightarrow> findInfinispanCredentialByUsernameOrFirst unmarshal ''developer'' sec)"

section \<open>MongoDB, mongodb.go\<close>

record mongodb_user =
  mu_name :: string
  mu_db :: string
  mu_secretName :: string
  mu_secretKey :: string

record mongodb =
  mdb_meta :: object_meta
  mdb_users :: "mongodb_user list"
  mdb_phase :: string
  mdb_uri :: string

definition IsMongoDBAvailable :: "discovery \<Rightarrow> bool" where
  "IsMongoDBAvailable D = HasServerGroup D ''mongodbcommunity.mongodb.com''"

text \<open>An error of the lookup is answered as absence.\<close>

definition IsMongoDBOperatorAvailable :: "discovery \<Rightarrow> ('w, deployment) store_api \<Rightarrow> string \<Rightarrow> 'w \<Rightarrow> gerr + bool" where
  "IsMongoDBOperatorAvailable D A namespace w =
     (if IsMongoDBAvailable D
      then (case FetchWithKey A namespace ''mongodb-kubernetes-operator'' w of
              Inl e \<Rightarrow> Inr False
            | Inr d \<Rightarrow> Inr (d \<noteq> None))
      else Inr False)"

definition FetchMongoDBInstance :: "('w, mongodb) store_api \<Rightarrow> string \<Rightarrow> string \<Rightarrow> 'w \<Rightarrow> gerr + mongodb option" where
  "FetchMongoDBInstance A namespace name w = FetchWithKey A namespace name w"

section \<open>Keycloak and Knative, keycloak.go, knative.go\<close>

definition IsKeycloakAvailable :: "discovery \<Rightarrow> bool" where
  "IsKeycloakAvailable D = HasServerGroup D ''keycloak.org''"

text \<open>The group and version of Knative Eventing come from its package.\<close>

definition IsKnativeEventingAvailable :: "discovery \<Rightarrow> string \<Rightarrow> bool" where
  "IsKnativeEventingAvailable D eventingGroup = HasServerGroup D eventingGroup"

record broker =
  bk_meta :: object_meta

definition FetchBroker :: "('w, broker) store_api \<Rightarrow> string \<Rightarrow> string \<Rightarrow> 'w \<Rightarrow> gerr + broker option" where
  "FetchBroker A namespace name w = FetchWithKey A namespace name w"

definition IsKnativeEventingResource :: "string \<Rightarrow> string \<Rightarrow> string \<Rightarrow> bool" where
  "IsKnativeEventingResource eventingAPIVersion apiVersion kind \<longleftrightarrow> apiVersion = eventingAPIVersion \<and> kind = ''Broker''"

end
