(* ===== verification/Service_Monitoring.thy ===== *)
theory Service_Monitoring
  imports Service_Connector Infra_Resources
begin

text \<open>
  Monitoring of a running service, \<^verbatim>\<open>core/kogitoservice/prometheus.go\<close> and \<^verbatim>\<open>dashboards.go\<close>: a service monitor when the
  service answers on its metrics path, and the dashboards the service lists.  The HTTP client and the JSON decoder are passed in.
\<close>

section \<open>What it works with\<close>

text \<open>The HTTP client answers with an error, or with a status code and a body whose reading may fail.\<close>

record 'w http_api =
  ht_get :: "string \<Rightarrow> 'w \<Rightarrow> gerr + (int \<times> (gerr + string))"
  ht_head :: "string \<Rightarrow> 'w \<Rightarrow> gerr + int"

record service_monitor =
  sm_meta :: object_meta
  sm_matchNames :: "string list"
  sm_matchLabels :: smap
  sm_endpoints :: "(string \<times> string) list"  \<comment> \<open>path, scheme\<close>

record grafana_dashboard =
  gd_meta :: object_meta
  gd_json :: string

record 'w monitoring_env =
  mo_discovery :: discovery
  mo_http :: "'w http_api"
  mo_decodeNames :: "string \<Rightarrow> string list option"
  mo_serviceMonitors :: "('w, service_monitor) store_api"
  mo_dashboards :: "('w, grafana_dashboard) store_api"

section \<open>Prometheus, prometheus.go\<close>

definition isPrometheusAvailable :: "'w monitoring_env \<Rightarrow> bool" where
  "isPrometheusAvailable M = HasServerGroup (mo_discovery M) ''monitoring.coreos.com''"

definition getMonitoringPath :: "monitoring \<Rightarrow> kogito_service \<Rightarrow> string" where
  "getMonitoringPath m inst =
     (if mon_path m = [] then (if ss_runtime (ks_spec inst) = SpringBoot then ''/actuator/prometheus'' else ''/q/metrics'') else mon_path m)"

definition getMonitoringScheme :: "monitoring \<Rightarrow> string" where
  "getMonitoringScheme m = (if mon_scheme m = [] then ''http'' else mon_scheme m)"

definition isPrometheusAddOnAvailable :: "'w monitoring_env \<Rightarrow> op_context \<Rightarrow> kogito_service \<Rightarrow> 'w \<Rightarrow> gerr + bool" where
  "isPrometheusAddOnAvailable M cx inst w =
     bindR (ht_head (mo_http M) (GetKogitoServiceURL cx inst @ getMonitoringPath (ss_monitoring (ks_spec inst)) inst) w)
       (\<lambda>statusCode. Inr (statusCode = 200))"

definition loadDeployedServiceMonitor :: "'w monitoring_env \<Rightarrow> string \<Rightarrow> string \<Rightarrow> 'w \<Rightarrow> gerr + service_monitor option" where
  "loadDeployedServiceMonitor M instanceName namespace w = FetchWithKey (mo_serviceMonitors M) namespace instanceName w"

definition required_service_monitor :: "kogito_service \<Rightarrow> service_monitor" where
  "required_service_monitor inst =
     \<lparr>sm_meta = (mk_meta (ks_name inst) (ks_namespace inst))\<lparr>om_labels := [(''name'', ''kogito-operator''), (''app'', ks_name inst)]\<rparr>,
      sm_matchNames = [ks_namespace inst],
      sm_matchLabels = [(''app'', ks_name inst)],
      sm_endpoints = [(getMonitoringPath (ss_monitoring (ks_spec inst)) inst, getMonitoringScheme (ss_monitoring (ks_spec inst)))]\<rparr>"

definition createServiceMonitor :: "'w monitoring_env \<Rightarrow> op_context \<Rightarrow> kogito_service \<Rightarrow> 'w \<Rightarrow> (gerr + service_monitor) \<times> 'w" where
  "createServiceMonitor M cx inst w =
     (case own_object cx (ks_meta inst) sm_meta (\<lambda>m s. s\<lparr>sm_meta := m\<rparr>) (required_service_monitor inst) of
        Inl e \<Rightarrow> (Inl e, w)
      | Inr sm \<Rightarrow> Create (mo_serviceMonitors M) sm w)"

definition createPrometheusServiceMonitorIfNotExists :: "'w monitoring_env \<Rightarrow> op_context \<Rightarrow> kogito_service \<Rightarrow> 'w \<Rightarrow> (gerr + unit) \<times> 'w" where
  "createPrometheusServiceMonitorIfNotExists M cx inst w =
     (case loadDeployedServiceMonitor M (ks_name inst) (ks_namespace inst) w of
        Inl e \<Rightarrow> (Inl e, w)
      | Inr None \<Rightarrow> bindS (createServiceMonitor M cx inst) (\<lambda>_. returnS ()) w
      | Inr (Some _) \<Rightarrow> (Inr (), w))"

definition ConfigurePrometheus :: "'w monitoring_env \<Rightarrow> 'w cluster \<Rightarrow> op_context \<Rightarrow> kogito_service \<Rightarrow> 'w \<Rightarrow> (gerr + unit) \<times> 'w" where
  "ConfigurePrometheus M K cx inst w =
     (if \<not> isPrometheusAvailable M then (Inr (), w)
      else (case IsDeploymentAvailable K (ks_namespace inst) (ks_name inst) w of
              Inl e \<Rightarrow> (Inl e, w)
            | Inr False \<Rightarrow> (Inr (), w)
            | Inr True \<Rightarrow>
                (case isPrometheusAddOnAvailable M cx inst w of
                   Inl e \<Rightarrow> (Inl e, w)
                 | Inr False \<Rightarrow> (Inr (), w)
                 | Inr True \<Rightarrow> createPrometheusServiceMonitorIfNotExists M cx inst w)))"

section \<open>Grafana, dashboards.go\<close>

definition isGrafanaAvailable :: "'w monitoring_env \<Rightarrow> bool" where
  "isGrafanaAvailable M = HasServerGroup (mo_discovery M) ''integreatly.org''"

definition fetchGrafanaDashboardNamesForURL :: "'w monitoring_env \<Rightarrow> string \<Rightarrow> 'w \<Rightarrow> gerr + string list" where
  "fetchGrafanaDashboardNamesForURL M serverURL w =
     (let dashboardsURL = serverURL @ ''/monitoring/dashboards/'' @ ''list.json''
      in bindR (ht_get (mo_http M) dashboardsURL w) (\<lambda>(statusCode, body).
           if statusCode = 404 then Inr []
           else if statusCode \<noteq> 200 then Inl (ErrorForServiceNotReachable statusCode dashboardsURL ''GET'')
           else (case body of
                   Inr bytes \<Rightarrow> (case mo_decodeNames M bytes of
                       Some names \<Rightarrow> Inr names
                     | None \<Rightarrow> Inl (PlainError (''failed to decode response from '' @ dashboardsURL @ '' into dashboard names'')))
                 | Inl _ \<Rightarrow> Inl (PlainError (''failed to decode response from '' @ dashboardsURL @ '' into dashboard names'')))))"

text \<open>A dashboard: its name and its text.\<close>

definition fetchDashboard :: "'w monitoring_env \<Rightarrow> string \<Rightarrow> string \<Rightarrow> 'w \<Rightarrow> gerr + (string \<times> string) option" where
  "fetchDashboard M name dashboardURL w =
     bindR (ht_get (mo_http M) dashboardURL w) (\<lambda>(statusCode, body).
       if statusCode = 404 then Inr None
       else if statusCode \<noteq> 200
       then Inl (PlainError (''Received NOT expected status code '' @ Itoa statusCode @ '' while making GET request to '' @ dashboardURL @ '' ''))
       else bindR body (\<lambda>bytes. Inr (Some (name, bytes))))"

fun fetchDashboards :: "'w monitoring_env \<Rightarrow> string \<Rightarrow> string list \<Rightarrow> 'w \<Rightarrow> gerr + (string \<times> string) list" where
  "fetchDashboards M serverURL [] w = Inr []"
| "fetchDashboards M serverURL (name # names) w =
     bindR (fetchDashboard M name (serverURL @ ''/monitoring/dashboards/'' @ name) w) (\<lambda>d.
     bindR (fetchDashboards M serverURL names w) (\<lambda>ds. Inr (case d of None \<Rightarrow> ds | Some d \<Rightarrow> d # ds)))"

definition fetchGrafanaDashboards :: "'w monitoring_env \<Rightarrow> 'w cluster \<Rightarrow> op_context \<Rightarrow> kogito_service \<Rightarrow> 'w \<Rightarrow> gerr + (string \<times> string) list" where
  "fetchGrafanaDashboards M K cx inst w =
     bindR (IsDeploymentAvailable K (ks_namespace inst) (ks_name inst) w) (\<lambda>available.
       if \<not> available then Inr []
       else bindR (fetchGrafanaDashboardNamesForURL M (GetKogitoServiceURL cx inst) w) (\<lambda>names.
              fetchDashboards M (GetKogitoServiceURL cx inst) names w))"

text \<open>\<^verbatim>\<open>strings.ReplaceAll\<close> with an empty replacement, from left to right.\<close>

fun remove_all :: "string \<Rightarrow> string \<Rightarrow> string" where
  "remove_all pat [] = []"
| "remove_all pat (c # s) =
     (if pat \<noteq> [] \<and> take (length pat) (c # s) = pat then remove_all pat (drop (length pat - 1) s) else c # remove_all pat s)"

definition dashboard_char :: "char \<Rightarrow> bool" where
  "dashboard_char c = (let n = (of_char c :: nat) in 97 \<le> n \<and> n \<le> 122 \<or> 65 \<le> n \<and> n \<le> 90 \<or> 48 \<le> n \<and> n \<le> 57 \<or> n = 45)"

definition sanitizeDashboardName :: "string \<Rightarrow> string" where
  "sanitizeDashboardName name = filter dashboard_char (remove_all ''.json'' (ToLower name))"

definition dashboard_definition :: "kogito_service \<Rightarrow> string \<times> string \<Rightarrow> grafana_dashboard" where
  "dashboard_definition inst d =
     \<lparr>gd_meta = (mk_meta (sanitizeDashboardName (fst d)) (ks_namespace inst))\<lparr>om_labels := [(''app'', ks_name inst)]\<rparr>, gd_json = snd d\<rparr>"

definition own_dashboard :: "op_context \<Rightarrow> kogito_service \<Rightarrow> grafana_dashboard \<Rightarrow> gerr + grafana_dashboard" where
  "own_dashboard cx inst g = bindR (cx_setControllerReference cx (ks_meta inst) (gd_meta g)) (\<lambda>m. Inr (g\<lparr>gd_meta := m\<rparr>))"

fun deployGrafanaDashboards :: "'w monitoring_env \<Rightarrow> op_context \<Rightarrow> kogito_service \<Rightarrow> (string \<times> string) list \<Rightarrow> 'w \<Rightarrow> (gerr + unit) \<times> 'w" where
  "deployGrafanaDashboards M cx inst [] w = (Inr (), w)"
| "deployGrafanaDashboards M cx inst (d # ds) w =
     (case CreateIfNotExistsForOwner (mo_dashboards M) (own_dashboard cx inst) (dashboard_definition inst d) w of
        (Inl e, w') \<Rightarrow> (Inl e, w')
      | (Inr _, w') \<Rightarrow> deployGrafanaDashboards M cx inst ds w')"

definition ConfigureGrafanaDashboards :: "'w monitoring_env \<Rightarrow> 'w cluster \<Rightarrow> op_context \<Rightarrow> kogito_service \<Rightarrow> 'w \<Rightarrow> (gerr + unit) \<times> 'w" where
  "ConfigureGrafanaDashboards M K cx inst w =
     (if \<not> isGrafanaAvailable M then (Inr (), w)
      else (case fetchGrafanaDashboards M K cx inst w of
              Inl e \<Rightarrow> (Inl e, w)
            | Inr dashboards \<Rightarrow> deployGrafanaDashboards M cx inst dashboards w))"

section \<open>Lemmas\<close>

text \<open>What \<^verbatim>\<open>controllerutil.SetControllerReference\<close> documents: the owner is added, the rest of the metadata stays.\<close>

definition controller_reference_set :: "op_context \<Rightarrow> object_meta \<Rightarrow> bool" where
  "controller_reference_set cx owner \<longleftrightarrow> (\<forall>m m'. cx_setControllerReference cx owner m = Inr m' \<longrightarrow>
     IsOwner m' owner \<and> om_name m' = om_name m \<and> om_namespace m' = om_namespace m \<and> om_labels m' = om_labels m)"

lemma ascii_lower_idem [simp]: "ascii_lower (ascii_lower c) = ascii_lower c"
  by (auto simp: ascii_lower_def Let_def)

lemma set_remove_all: "set (remove_all pat s) \<subseteq> set s"
  by (induction pat s rule: remove_all.induct) (auto dest: in_set_dropD)

lemma remove_all_absent: "c \<in> set pat \<Longrightarrow> c \<notin> set s \<Longrightarrow> remove_all pat s = s"
proof (induction pat s rule: remove_all.induct)
  case (2 pat d s)
  then have "take (length pat) (d # s) \<noteq> pat" by (metis in_set_takeD)
  with 2 show ?case by simp
qed simp

lemma sanitize_char:
  assumes "c \<in> set (sanitizeDashboardName name)"
  shows "dashboard_char c \<and> ascii_lower c = c"
  using assms set_remove_all [of "''.json''" "ToLower name"] by (auto simp: sanitizeDashboardName_def ToLower_def)

lemma sanitizeDashboardName_idem: "sanitizeDashboardName (sanitizeDashboardName name) = sanitizeDashboardName name"
proof -
  let ?s = "sanitizeDashboardName name"
  have "ToLower ?s = ?s" unfolding ToLower_def by (rule map_idI) (simp add: sanitize_char)
  moreover have "CHR ''.'' \<notin> set ?s" using sanitize_char [of "CHR ''.''" name] by (auto simp: dashboard_char_def)
  then have "remove_all ''.json'' ?s = ?s" by (intro remove_all_absent [of "CHR ''.''"]) simp_all
  ultimately show ?thesis
    by (metis (no_types, lifting) filter_True sanitizeDashboardName_def sanitize_char)
qed

text \<open>A created dashboard has the text it was sent with.\<close>

definition dashboard_store_laws :: "('w, grafana_dashboard) store_api \<Rightarrow> bool" where
  "dashboard_store_laws A \<longleftrightarrow> sa_meta A = gd_meta \<and> read_after_create A \<and> get_after_create A \<and> create_local A
     \<and> (\<forall>x y w w'. sa_create A x w = (Inr y, w') \<longrightarrow> gd_json y = gd_json x)"

lemma deploy_dashboard:
  assumes "CreateIfNotExistsForOwner A (own_dashboard cx inst) (dashboard_definition inst d) w = (Inr y, w')"
    and "dashboard_store_laws A" "controller_reference_set cx (ks_meta inst)"
  shows "sa_get A (ks_namespace inst) (sanitizeDashboardName (fst d)) w' = Inr y
     \<and> (w' = w \<or> gd_json y = snd d \<and> (\<exists>x. sa_create A x w = (Inr y, w'))
          \<and> (\<forall>g. sa_get A (ks_namespace inst) (sanitizeDashboardName (fst d)) w \<noteq> Inr g))"
proof -
  obtain m where m: "cx_setControllerReference cx (ks_meta inst) (gd_meta (dashboard_definition inst d)) = Inr m"
    and c: "CreateIfNotExists A ((dashboard_definition inst d)\<lparr>gd_meta := m\<rparr>) w = (Inr y, w')"
    using assms(1) by (auto simp: CreateIfNotExistsForOwner_def own_dashboard_def bindR_eq_Inr split: sum.splits)
  have key: "om_namespace m = ks_namespace inst" "om_name m = sanitizeDashboardName (fst d)" "sa_meta A = gd_meta"
    using m assms(2,3) by (auto simp: controller_reference_set_def dashboard_store_laws_def dashboard_definition_def mk_meta_def)
  consider "w' = w" "sa_get A (om_namespace m) (om_name m) w = Inr y"
    | "sa_create A ((dashboard_definition inst d)\<lparr>gd_meta := m\<rparr>) w = (Inr y, w')" "\<forall>g. sa_get A (om_namespace m) (om_name m) w \<noteq> Inr g"
    using c key(3) by (auto simp: CreateIfNotExists_def Fetch_def Create_def FetchWithKey_cases split: sum.splits option.splits)
  then show ?thesis
  proof cases
    case 2
    then have "sa_get A (om_namespace m) (om_name m) w' = Inr y"
      using assms(2) key(3) unfolding dashboard_store_laws_def read_after_create_def by fastforce
    moreover have "gd_json y = snd d"
      using assms(2) 2(1) unfolding dashboard_store_laws_def by (metis dashboard_definition_def grafana_dashboard.select_convs(2)
          grafana_dashboard.update_convs(1))
    ultimately show ?thesis using 2 key by auto
  qed (simp add: key)
qed

lemma deploy_dashboard_local:
  assumes "CreateIfNotExistsForOwner A (own_dashboard cx inst) (dashboard_definition inst d) w = (Inr y, w')"
    and "dashboard_store_laws A" "controller_reference_set cx (ks_meta inst)" "n \<noteq> sanitizeDashboardName (fst d)"
  shows "sa_get A (ks_namespace inst) n w' = sa_get A (ks_namespace inst) n w"
proof -
  obtain m where m: "cx_setControllerReference cx (ks_meta inst) (gd_meta (dashboard_definition inst d)) = Inr m"
    and c: "w' = w \<or> sa_create A ((dashboard_definition inst d)\<lparr>gd_meta := m\<rparr>) w = (Inr y, w')"
    using assms(1) by (auto simp: CreateIfNotExistsForOwner_def own_dashboard_def CreateIfNotExists_def Create_def bindR_eq_Inr
        split: sum.splits option.splits)
  have "om_name m = sanitizeDashboardName (fst d)" "sa_meta A = gd_meta"
    using m assms(2,3) by (auto simp: controller_reference_set_def dashboard_store_laws_def dashboard_definition_def mk_meta_def)
  with c assms(2,4) show ?thesis unfolding dashboard_store_laws_def create_local_def by fastforce
qed

lemma deploy_dashboards_keep:
  assumes "deployGrafanaDashboards M cx inst ds w = (Inr (), w')" "dashboard_store_laws (mo_dashboards M)"
    and "controller_reference_set cx (ks_meta inst)" "sa_get (mo_dashboards M) (ks_namespace inst) n w = Inr g"
  shows "sa_get (mo_dashboards M) (ks_namespace inst) n w' = Inr g"
  using assms(1,4)
proof (induction ds arbitrary: w)
  case (Cons d ds)
  then obtain y w1 where s: "CreateIfNotExistsForOwner (mo_dashboards M) (own_dashboard cx inst) (dashboard_definition inst d) w = (Inr y, w1)"
      "deployGrafanaDashboards M cx inst ds w1 = (Inr (), w')"
    by (auto split: prod.splits sum.splits)
  have "sa_get (mo_dashboards M) (ks_namespace inst) n w1 = Inr g"
    using deploy_dashboard [OF s(1) assms(2,3)] deploy_dashboard_local [OF s(1) assms(2,3)] Cons.prems(2) by metis
  then show ?case using Cons.IH [OF s(2)] by blast
qed simp

section \<open>Properties\<close>

text \<open>Dashboards are stored under a sanitized name, and the first one of a name wins.  After a deployment of dashboards that
  succeeded, every dashboard's sanitized name can be read in the namespace of the service, but the object there is the one that
  was there before, or else carries the text of the first listed dashboard with the same sanitized name: later dashboards that
  differ only in characters that are dropped are silently left out.\<close>

theorem dashboards_first_wins:
  assumes "dashboard_store_laws (mo_dashboards M)" "controller_reference_set cx (ks_meta inst)"
    and "deployGrafanaDashboards M cx inst ds w = (Inr (), w')" "d \<in> set ds"
  shows "\<exists>g. sa_get (mo_dashboards M) (ks_namespace inst) (sanitizeDashboardName (fst d)) w' = Inr g
     \<and> (sa_get (mo_dashboards M) (ks_namespace inst) (sanitizeDashboardName (fst d)) w = Inr g
        \<or> map_option snd (find (\<lambda>d'. sanitizeDashboardName (fst d') = sanitizeDashboardName (fst d)) ds) = Some (gd_json g))"
  using assms(3,4)
proof (induction ds arbitrary: w)
  case (Cons x xs)
  let ?n = "sanitizeDashboardName (fst d)" and ?get = "sa_get (mo_dashboards M) (ks_namespace inst)"
  obtain y w1 where s: "CreateIfNotExistsForOwner (mo_dashboards M) (own_dashboard cx inst) (dashboard_definition inst x) w = (Inr y, w1)"
      "deployGrafanaDashboards M cx inst xs w1 = (Inr (), w')"
    using Cons.prems(1) by (auto split: prod.splits sum.splits)
  show ?case
  proof (cases "sanitizeDashboardName (fst x) = ?n")
    case True
    then have "?get ?n w' = Inr y"
      using deploy_dashboards_keep [OF s(2) assms(1,2)] deploy_dashboard [OF s(1) assms(1,2)] by simp
    then show ?thesis using deploy_dashboard [OF s(1) assms(1,2)] True by (intro exI [of _ y]) auto
  next
    case False
    then have "d \<in> set xs" using Cons.prems(2) by auto
    from Cons.IH [OF s(2) this] show ?thesis
      using False deploy_dashboard_local [OF s(1) assms(1,2), of ?n] by auto
  qed
qed simp

definition owning_context :: op_context where
  "owning_context = \<lparr>cx_version = [], cx_labels = [], cx_deploymentIdentifier = [],
     cx_setControllerReference = (\<lambda>o' m. Inr (add_owner (''v1'', ''K'') o' m)), cx_gvkForObject = (\<lambda>_. Inr (''v1'', ''K'')), cx_getenv = (\<lambda>_. [])\<rparr>"

lemma owning_context_reference: "controller_reference_set owning_context owner"
  by (auto simp: controller_reference_set_def owning_context_def add_owner_def IsOwner_def new_owner_reference_def owned_by_iff)

definition dashboards_env :: "grafana_dashboard list monitoring_env" where
  "dashboards_env = \<lparr>mo_discovery = None, mo_http = \<lparr>ht_get = (\<lambda>u w. Inr (404, Inr [])), ht_head = (\<lambda>u w. Inr 404)\<rparr>, mo_decodeNames = (\<lambda>s. None),
     mo_serviceMonitors = lens_api (\<lambda>_. []) (\<lambda>_ w. w) (mem_api sm_meta), mo_dashboards = mem_api gd_meta\<rparr>"

lemma dashboards_first_wins_witness:
  "\<exists>w' g. deployGrafanaDashboards dashboards_env owning_context sample_service [(''a.b.json'', ''one''), (''AB'', ''two'')] [] = (Inr (), w')
     \<and> mem_get gd_meta ''ns'' ''ab'' w' = Inr g \<and> gd_json g = ''one''"
proof -
  have names: "sanitizeDashboardName ''a.b.json'' = ''ab''" "sanitizeDashboardName ''AB'' = ''ab''" by code_simp+
  have laws: "dashboard_store_laws (mo_dashboards dashboards_env)"
    using read_after_create_mem [of gd_meta] get_after_create_mem [of gd_meta] create_local_mem [of gd_meta]
    by (auto simp: dashboards_env_def dashboard_store_laws_def mem_create_def split: if_splits)
  obtain w' where run: "deployGrafanaDashboards dashboards_env owning_context sample_service [(''a.b.json'', ''one''), (''AB'', ''two'')] [] = (Inr (), w')"
    by (simp add: CreateIfNotExistsForOwner_def own_dashboard_def CreateIfNotExists_def Fetch_def FetchWithKey_def Create_def
        dashboard_definition_def names mem_simps add_owner_def IsOwner_def mk_meta_def sample_service_def owning_context_def dashboards_env_def)
  show ?thesis using dashboards_first_wins [OF laws owning_context_reference run, of "(''AB'', ''two'')"] run
    by (intro exI [of _ w']) (auto simp: names dashboards_env_def sample_service_def mk_meta_def mem_get_def)
qed

end
