(* ===== verification/Framework_Pkcs12.thy ===== *)
theory Framework_Pkcs12
  imports Kube_Types
begin

text \<open>
  Trust stores from the certificates of a secret, \<^verbatim>\<open>core/framework/pkcs12.go\<close>.  The PEM decoder, the
  X.509 parser and the PKCS12 encoder (with its default password) are parameters.
\<close>

section \<open>Operations\<close>

text \<open>\<^verbatim>\<open>strings.Index\<close>, with \<^term>\<open>None\<close> for \<open>-1\<close>, and \<^verbatim>\<open>strings.Trim\<close> of newlines.\<close>

fun strings_Index :: "string \<Rightarrow> string \<Rightarrow> nat option" where
  "strings_Index s p =
     (if HasPrefix s p then Some 0
      else (case s of [] \<Rightarrow> None | _ # s' \<Rightarrow> map_option Suc (strings_Index s' p)))"

declare strings_Index.simps [simp del]

definition TrimNewlines :: "string \<Rightarrow> string" where
  "TrimNewlines s = TrimRightChar (dropWhile (\<lambda>c. c = CHR 0x0A) s) (CHR 0x0A)"

definition certificateBlock :: string where "certificateBlock = ''CERTIFICATE''"

definition certificateEndBlock :: string where "certificateEndBlock = ''-----END CERTIFICATE-----''"

lemma strings_Index_bound: "strings_Index s p = Some i \<Longrightarrow> i + length p \<le> length s \<and> take (length p) (drop i s) = p"
proof (induction s p arbitrary: i rule: strings_Index.induct)
  case (1 s p)
  show ?case
  proof (cases "HasPrefix s p")
    case True
    with "1.prems" have "i = 0" by (simp add: strings_Index.simps [of s p])
    with True show ?thesis by (auto simp: HasPrefix_iff)
  next
    case False
    with "1.prems" obtain c s' j where s: "s = c # s'" "strings_Index s' p = Some j" "i = Suc j"
      by (auto simp: strings_Index.simps [of s p] split: list.splits)
    with "1.IH" [OF False s(1) s(2)] show ?thesis by simp
  qed
qed

function splitCertificates :: "string \<Rightarrow> nat \<Rightarrow> string list \<Rightarrow> string list" where
  "splitCertificates certificate index certificates =
     (if index = length certificate then certificates
      else (case strings_Index (drop index certificate) certificateEndBlock of
              None \<Rightarrow> certificates
            | Some i \<Rightarrow>
                (let lastIdx = i + length certificateEndBlock + index
                 in splitCertificates certificate lastIdx
                      (certificates @ [TrimNewlines (take (lastIdx - index) (drop index certificate))]))))"
  by pat_completeness auto
termination
proof (relation "measure (\<lambda>(c, i, _). length c - i)", goal_cases)
  case (2 c i cs j l)
  from strings_Index_bound [OF 2(2)] 2(3) show ?case
    by (auto simp: certificateEndBlock_def)
qed simp

declare splitCertificates.simps [simp del]

definition collect_crts :: "smap \<Rightarrow> string list \<Rightarrow> string list" where
  "collect_crts data keys =
     fold (\<lambda>k crts. crts @ splitCertificates (smap_get data k) 0 crts) keys []"

fun parse_certs :: "(string \<Rightarrow> (string \<times> string) option) \<Rightarrow> (string \<Rightarrow> gerr + 'c) \<Rightarrow> string list \<Rightarrow> gerr + 'c list" where
  "parse_certs pemDecode parseCertificate [] = Inr []"
| "parse_certs pemDecode parseCertificate (crt # crts) =
     (case pemDecode crt of
        None \<Rightarrow> parse_certs pemDecode parseCertificate crts
      | Some (ty, bytes) \<Rightarrow>
          if ty \<noteq> certificateBlock then parse_certs pemDecode parseCertificate crts
          else bindR (parseCertificate bytes) (\<lambda>c.
               bindR (parse_certs pemDecode parseCertificate crts) (\<lambda>cs. Inr (c # cs))))"

definition CreatePKCS12TrustStoreFromSecret ::
  "(string \<Rightarrow> (string \<times> string) option) \<Rightarrow> (string \<Rightarrow> gerr + 'c) \<Rightarrow> ('c list \<Rightarrow> string \<Rightarrow> gerr + string) \<Rightarrow> string
    \<Rightarrow> secret \<Rightarrow> string \<Rightarrow> string list \<Rightarrow> gerr + string" where
  "CreatePKCS12TrustStoreFromSecret pemDecode parseCertificate encodeTrustStore defaultPassword sec password keys =
     (if keys = [] then Inl (PlainError ''at least one key is required'')
      else bindR (parse_certs pemDecode parseCertificate (collect_crts (sec_data sec) keys)) (\<lambda>certs.
           encodeTrustStore certs (if password = [] then defaultPassword else password)))"

section \<open>Lemmas\<close>

definition certificates_of :: "string \<Rightarrow> string list" where
  "certificates_of pem = splitCertificates pem 0 []"

lemma splitCertificates_acc:
  "splitCertificates c i (acc @ acc') = acc @ splitCertificates c i acc'"
proof (induction c i acc' rule: splitCertificates.induct)
  case (1 c i acc')
  then show ?case
    by (simp add: splitCertificates.simps [of c i "acc @ acc'"] splitCertificates.simps [of c i acc'] Let_def
        split: option.split)
qed

lemma splitCertificates_append: "splitCertificates c i acc = acc @ splitCertificates c i []"
  using splitCertificates_acc [of c i acc "[]"] by simp

lemma splitCertificates_drop:
  "splitCertificates (pre @ c) (length pre + i) acc = splitCertificates c i acc"
proof (induction c i acc rule: splitCertificates.induct)
  case (1 c i acc)
  have [simp]: "j + length certificateEndBlock + (length pre + i) = length pre + (j + length certificateEndBlock + i)" for j
    by simp
  show ?case
    unfolding splitCertificates.simps [of "pre @ c" "length pre + i" acc] splitCertificates.simps [of c i acc]
    using 1 by (auto simp: Let_def split: option.split)
qed

lemma strings_Index_append:
  "strings_Index s p = Some i \<Longrightarrow> strings_Index (s @ t) p = Some i"
proof (induction s p arbitrary: i rule: strings_Index.induct)
  case (1 s p)
  show ?case
  proof (cases "HasPrefix s p")
    case True
    with "1.prems" show ?thesis
      by (auto simp: strings_Index.simps [of s p] strings_Index.simps [of "s @ t" p] HasPrefix_iff)
  next
    case False
    with "1.prems" obtain c s' j where s: "s = c # s'" "strings_Index s' p = Some j" "i = Suc j"
      by (auto simp: strings_Index.simps [of s p] split: list.splits)
    have "length p \<le> length s"
      using strings_Index_bound [OF s(2)] s(1) by simp
    with False have "\<not> HasPrefix (s @ t) p" by (auto simp: HasPrefix_def)
    with "1.IH" [OF False s(1) s(2)] s show ?thesis
      by (simp add: strings_Index.simps [of "c # s' @ t" p])
  qed
qed

text \<open>The body of a certificate: its first end marker is the one that closes it.\<close>

definition certificate_body :: "string \<Rightarrow> bool" where
  "certificate_body b \<longleftrightarrow> strings_Index (b @ certificateEndBlock) certificateEndBlock = Some (length b)"

lemma certificates_of_Cons:
  assumes "certificate_body b"
  shows "certificates_of (b @ certificateEndBlock @ rest) =
     TrimNewlines (b @ certificateEndBlock) # certificates_of rest"
proof -
  let ?s = "b @ certificateEndBlock @ rest"
  have idx: "strings_Index ?s certificateEndBlock = Some (length b)"
    using strings_Index_append [of "b @ certificateEndBlock"] assms by (simp add: certificate_body_def)
  have "?s \<noteq> []" "certificateEndBlock \<noteq> []" by (simp_all add: certificateEndBlock_def)
  then have "splitCertificates ?s 0 [] =
      splitCertificates ?s (length (b @ certificateEndBlock)) [TrimNewlines (b @ certificateEndBlock)]"
    using idx by (subst splitCertificates.simps) simp
  also have "\<dots> = TrimNewlines (b @ certificateEndBlock) # certificates_of rest"
    using splitCertificates_drop [of "b @ certificateEndBlock" rest 0]
      splitCertificates_append [of rest 0 "[TrimNewlines (b @ certificateEndBlock)]"]
    by (simp add: certificates_of_def)
  finally show ?thesis by (simp add: certificates_of_def)
qed

lemma certificates_of_tail:
  "strings_Index tail certificateEndBlock = None \<Longrightarrow> certificates_of tail = []"
  by (simp add: certificates_of_def splitCertificates.simps [of tail])

lemma collect_crts_Nil [simp]: "collect_crts data [] = []"
  by (simp add: collect_crts_def)

lemma collect_crts_snoc [simp]:
  "collect_crts data (keys @ [k]) =
     collect_crts data keys @ collect_crts data keys @ certificates_of (smap_get data k)"
  using splitCertificates_append [of "smap_get data k" 0 "collect_crts data keys"]
  by (simp add: collect_crts_def certificates_of_def)

section \<open>Properties\<close>

text \<open>C39: splitting a certificate chain terminates and finds every certificate.  A PEM text that is a
  sequence of bodies, each closed by the end marker, and a tail without the marker, is split into
  exactly those certificates, in order, with surrounding newlines trimmed.\<close>

theorem splitCertificates_chain:
  assumes "\<forall>b \<in> set bodies. certificate_body b" "strings_Index tail certificateEndBlock = None"
  shows "splitCertificates (concat (map (\<lambda>b. b @ certificateEndBlock) bodies) @ tail) 0 [] =
     map (\<lambda>b. TrimNewlines (b @ certificateEndBlock)) bodies"
  unfolding certificates_of_def [symmetric] using assms
  by (induction bodies) (simp_all add: certificates_of_Cons certificates_of_tail)

lemma splitCertificates_chain_witness:
  "splitCertificates (concat (map (\<lambda>b. b @ certificateEndBlock) [''A'', ''B'']) @ []) 0 [] =
     [''A-----END CERTIFICATE-----'', ''B-----END CERTIFICATE-----'']"
  using splitCertificates_chain [of "[''A'', ''B'']" "[]"]
  by (simp add: certificate_body_def strings_Index.simps HasPrefix_def certificateEndBlock_def
      TrimNewlines_def TrimRightChar_def)

text \<open>The certificates collected for a trust store grow exponentially with the keys.  Each further
  key appends everything collected so far once more, because the accumulator is passed to the splitter
  and its result is appended to the accumulator; when each of the keys holds one certificate, \<open>n\<close> keys give
  \<open>2 ^ n - 1\<close> entries instead of \<open>n\<close>.\<close>

theorem collect_crts_duplicates:
  assumes "\<forall>k \<in> set keys. length (splitCertificates (smap_get data k) 0 []) = 1"
  shows "length (collect_crts data keys) = 2 ^ length keys - 1"
  using assms
proof (induction keys rule: rev_induct)
  case (snoc k keys)
  have "(2::nat) ^ length keys \<ge> 1" by simp
  with snoc show ?case by (simp add: certificates_of_def)
qed simp

lemma collect_crts_duplicates_witness:
  "length (collect_crts [(''a'', ''A'' @ certificateEndBlock), (''b'', ''B'' @ certificateEndBlock)] [''a'', ''b'']) = 3"
proof -
  have "certificate_body ''A''" "certificate_body ''B''" "strings_Index [] certificateEndBlock = None"
    by (simp_all add: certificate_body_def strings_Index.simps HasPrefix_def certificateEndBlock_def)
  then have "length (certificates_of (''A'' @ certificateEndBlock)) = 1"
    "length (certificates_of (''B'' @ certificateEndBlock)) = 1"
    using certificates_of_Cons [of "''A''" "[]"] certificates_of_Cons [of "''B''" "[]"] certificates_of_tail
    by simp_all
  then show ?thesis
    using collect_crts_duplicates
      [of "[''a'', ''b'']" "[(''a'', ''A'' @ certificateEndBlock), (''b'', ''B'' @ certificateEndBlock)]"]
    by (simp add: certificates_of_def smap_get_def)
qed

end
