(* ===== verification/Infra_Reconcilers.thy ===== *)
theory Infra_Reconcilers
  imports Infra_Resources Resource_Reconciler Framework_Pkcs12
begin

text \<open>
  The reconcilers of one KogitoInfra, \<^verbatim>\<open>core/kogitoinfra\<close>: one per kind of third-party resource, with the config
  maps and secrets each provides to the services, and the reconcilers of the references a user lists.  They share
  the instance, whose status they extend; a reconciler is a call on the instance and the cluster.
\<close>

section \<open>Errors, errors.go\<close>

abbreviation (input) ReconciliationFailure :: string where "ReconciliationFailure \<equiv> ''ReconciliationFailure''"
abbreviation (input) ResourceNotFound :: string where "ResourceNotFound \<equiv> ''ResourceNotFound''"
abbreviation (input) ResourceAPINotFound :: string where "ResourceAPINotFound \<equiv> ''ResourceAPINotFound''"
abbreviation (input) UnsupportedAPIKind :: string where "UnsupportedAPIKind \<equiv> ''UnsupportedAPIKind''"
abbreviation (input) ResourceNotReady :: string where "ResourceNotReady \<equiv> ''ResourceNotReady''"
abbreviation (input) ResourceConfigError :: string where "ResourceConfigError \<equiv> ''ResourceConfigError''"
abbreviation (input) ResourceMissingResourceConfig :: string where "ResourceMissingResourceConfig \<equiv> ''ResourceMissingConfig''"
abbreviation (input) ResourceSuccessfullyConfigured :: string where "ResourceSuccessfullyConfigured \<equiv> ''ResourceSuccessfullyConfigured''"

definition errorForResourceNotFound :: "string \<Rightarrow> string \<Rightarrow> string \<Rightarrow> gerr" where
  "errorForResourceNotFound kind inst namespace =
     InfraError ResourceNotFound (kind @ '' resource('' @ inst @ '') not found in namespace '' @ namespace)"

definition errorForResourceAPINotFound :: "string \<Rightarrow> gerr" where
  "errorForResourceAPINotFound apiVersion =
     InfraError ResourceAPINotFound (apiVersion @ '' CRD is not available in the cluster, this feature is not available. Please install the required Operator first. '')"

definition errorForMissingResourceConfig :: "kogito_infra \<Rightarrow> string \<Rightarrow> gerr" where
  "errorForMissingResourceConfig inst configName =
     InfraError ResourceMissingResourceConfig
       (''Resource '' @ ki_name inst @ '', configuration information ('' @ configName @ '') is missing'')"

definition errorForResourceConfigError :: "kogito_infra \<Rightarrow> string \<Rightarrow> gerr" where
  "errorForResourceConfigError inst errorMsg =
     InfraError ResourceConfigError
       (''Error in configuration for the infrastructure resource '' @ ki_name inst @ ''. Error is: '' @ errorMsg)"

definition errorForResourceNotReadyError :: "gerr \<Rightarrow> gerr" where
  "errorForResourceNotReadyError err = InfraError ResourceNotReady (error_message err)"

definition reasonForError :: "gerr option \<Rightarrow> string" where
  "reasonForError err =
     (case err of
        None \<Rightarrow> []
      | Some (InfraError r m) \<Rightarrow> r
      | Some _ \<Rightarrow> ReconciliationFailure)"

section \<open>What the reconcilers work with\<close>

text \<open>The cluster and its stores, the discovery client, the libraries for YAML, URLs, times and trust stores.  The
  comparison of secrets is the default one of operator-utils.\<close>

record ('w, 'c) infra_env =
  ie_context :: op_context
  ie_discovery :: discovery
  ie_configMaps :: "('w, configmap) store_api"
  ie_secrets :: "('w, secret) store_api"
  ie_services :: "('w, kservice) store_api"
  ie_infras :: "('w, kogito_infra) store_api"
  ie_kafkas :: "('w, kafka) store_api"
  ie_infinispans :: "('w, infinispan) store_api"
  ie_keycloaks :: "('w, object_meta) store_api"
  ie_brokers :: "('w, broker) store_api"
  ie_mongodbs :: "('w, mongodb) store_api"
  ie_configMapLib :: "('w, configmap) delta_lib"
  ie_secretLib :: "('w, secret) delta_lib"
  ie_conditions :: cond_api
  ie_unmarshalIdentity :: "string \<Rightarrow> gerr + credential list"
  ie_parseRequestURI :: "string \<Rightarrow> gerr + (string \<times> string)"  \<comment> \<open>host name and port\<close>
  ie_parseTime :: "string \<Rightarrow> nat option"  \<comment> \<open>the instant of an RFC 3339 time\<close>
  ie_pemDecode :: "string \<Rightarrow> (string \<times> string) option"
  ie_parseCertificate :: "string \<Rightarrow> gerr + 'c"
  ie_encodeTrustStore :: "'c list \<Rightarrow> string \<Rightarrow> gerr + string"
  ie_defaultPassword :: string
  ie_eventingGroup :: string
  ie_eventingAPIVersion :: string
  ie_rangeOrder :: "string list \<Rightarrow> string list"  \<comment> \<open>the order in which a range over a map visits the keys\<close>

type_synonym 'w infra_call = "kogito_infra \<times> 'w \<Rightarrow> (gerr + unit) \<times> (kogito_infra \<times> 'w)"

definition on_status :: "(infra_status \<Rightarrow> infra_status) \<Rightarrow> kogito_infra \<Rightarrow> kogito_infra" where
  "on_status f inst = inst\<lparr>ki_status := f (ki_status inst)\<rparr>"

lemma on_status_simps [simp]:
  "ki_meta (on_status f inst) = ki_meta inst" "ki_spec (on_status f inst) = ki_spec inst"
  "ki_status (on_status f inst) = f (ki_status inst)" "on_status f (on_status g inst) = on_status (\<lambda>s. f (g s)) inst"
  by (simp_all add: on_status_def)

text \<open>A check of the cluster that changes nothing.\<close>

definition checkI :: "(kogito_infra \<Rightarrow> 'w \<Rightarrow> gerr + 'a) \<Rightarrow> kogito_infra \<times> 'w \<Rightarrow> (gerr + 'a) \<times> (kogito_infra \<times> 'w)" where
  "checkI f s = (f (fst s) (snd s), s)"

section \<open>The shape of a configuration reconciler\<close>

text \<open>Each of them creates its required object, fetches the deployed one, processes the delta, and then adds the
  name of the object to the references of the status.\<close>

definition resource_pass ::
  "('w, 'o) delta_lib \<Rightarrow> 'o comparator \<Rightarrow> ('w \<Rightarrow> gerr + 'o list) \<Rightarrow> ('w \<Rightarrow> gerr + 'o list) \<Rightarrow> 'w \<Rightarrow> (gerr + bool) \<times> 'w" where
  "resource_pass L equal required deployed w =
     (case required w of
        Inl e \<Rightarrow> (Inl e, w)
      | Inr req \<Rightarrow> (case deployed w of Inl e \<Rightarrow> (Inl e, w) | Inr dep \<Rightarrow> process_resources L equal req dep w))"

interpretation pass: resource_reconciler L equal required deployed "resource_pass L equal required deployed"
  for L equal required deployed
  by unfold_locales (simp add: resource_pass_def)

definition provide ::
  "('w, 'o) delta_lib \<Rightarrow> 'o comparator \<Rightarrow> (kogito_infra \<Rightarrow> 'w \<Rightarrow> gerr + 'o list) \<Rightarrow> (kogito_infra \<Rightarrow> 'w \<Rightarrow> gerr + 'o list)
    \<Rightarrow> (infra_status \<Rightarrow> infra_status) \<Rightarrow> 'w infra_call" where
  "provide L equal required deployed add s =
     (case resource_pass L equal (required (fst s)) (deployed (fst s)) (snd s) of
        (Inl e, w') \<Rightarrow> (Inl e, (fst s, w'))
      | (Inr _, w') \<Rightarrow> (Inr (), (on_status add (fst s), w')))"

definition owned_configMap :: "op_context \<Rightarrow> kogito_infra \<Rightarrow> configmap \<Rightarrow> gerr + configmap list" where
  "owned_configMap cx inst c =
     bindR (own_object cx (ki_meta inst) cm_meta (\<lambda>m c. c\<lparr>cm_meta := m\<rparr>) c) (\<lambda>c. Inr [c])"

definition owned_secret :: "op_context \<Rightarrow> kogito_infra \<Rightarrow> secret \<Rightarrow> gerr + secret list" where
  "owned_secret cx inst c =
     bindR (own_object cx (ki_meta inst) sec_meta (\<lambda>m c. c\<lparr>sec_meta := m\<rparr>) c) (\<lambda>c. Inr [c])"

definition deployed_list :: "gerr + 'o option \<Rightarrow> gerr + 'o list" where
  "deployed_list r = bindR r (\<lambda>x. Inr (case x of None \<Rightarrow> [] | Some x \<Rightarrow> [x]))"

definition app_configMap :: "kogito_infra \<Rightarrow> string \<Rightarrow> smap \<Rightarrow> configmap" where
  "app_configMap inst name data =
     \<lparr>cm_meta = (mk_meta name (ki_namespace inst))\<lparr>om_labels := [(''app'', ki_name inst)]\<rparr>, cm_data = data, cm_binaryData = []\<rparr>"

section \<open>References, configmapreference\_reconciler.go, secretreference\_reconciler.go\<close>

fun cm_envFrom_loop :: "('w, 'c) infra_env \<Rightarrow> string list \<Rightarrow> 'w infra_call" where
  "cm_envFrom_loop E [] s = (Inr (), s)"
| "cm_envFrom_loop E (cmName # names) s =
     (case FetchConfigMap (ie_configMaps E) (ki_namespace (fst s)) cmName (snd s) of
        Inl e \<Rightarrow> (Inl e, s)
      | Inr None \<Rightarrow> (Inl (errorForResourceNotFound ''Configmap'' cmName (ki_namespace (fst s))), s)
      | Inr (Some c) \<Rightarrow> cm_envFrom_loop E names (on_status (AddConfigMapEnvFromReferences cmName) (fst s), snd s))"

definition reconcileConfigMapEnvFromReferences :: "('w, 'c) infra_env \<Rightarrow> 'w infra_call" where
  "reconcileConfigMapEnvFromReferences E s = cm_envFrom_loop E (is_configMapEnvFrom (ki_spec (fst s))) s"

definition updateConfigMapVolumeReferenceInStatus :: "volume_reference \<Rightarrow> infra_status \<Rightarrow> infra_status" where
  "updateConfigMapVolumeReferenceInStatus ref st = st\<lparr>ist_configMapVolumes := ist_configMapVolumes st @ [ref]\<rparr>"

fun cm_volume_loop :: "('w, 'c) infra_env \<Rightarrow> volume_reference list \<Rightarrow> 'w infra_call" where
  "cm_volume_loop E [] s = (Inr (), s)"
| "cm_volume_loop E (ref # refs) s =
     (if vr_name ref = [] then (Inl (errorForResourceConfigError (fst s) ''No Configmap resource name given''), s)
      else (case FetchConfigMap (ie_configMaps E) (ki_namespace (fst s)) (vr_name ref) (snd s) of
              Inl e \<Rightarrow> (Inl e, s)
            | Inr None \<Rightarrow> (Inl (errorForResourceNotFound ''Configmap'' (vr_name ref) (ki_namespace (fst s))), s)
            | Inr (Some c) \<Rightarrow> cm_volume_loop E refs (on_status (updateConfigMapVolumeReferenceInStatus ref) (fst s), snd s)))"

definition reconcileConfigMapVolumeReferences :: "('w, 'c) infra_env \<Rightarrow> 'w infra_call" where
  "reconcileConfigMapVolumeReferences E s = cm_volume_loop E (is_configMapVolumes (ki_spec (fst s))) s"

definition configMapReference_Reconcile :: "('w, 'c) infra_env \<Rightarrow> 'w infra_call" where
  "configMapReference_Reconcile E = bindS (reconcileConfigMapEnvFromReferences E) (\<lambda>_. reconcileConfigMapVolumeReferences E)"

definition updateSecretEnvFromReferenceInStatus :: "string \<Rightarrow> infra_status \<Rightarrow> infra_status" where
  "updateSecretEnvFromReferenceInStatus cmName st = st\<lparr>ist_secretEnvFrom := ist_secretEnvFrom st @ [cmName]\<rparr>"

fun secret_envFrom_loop :: "('w, 'c) infra_env \<Rightarrow> string list \<Rightarrow> 'w infra_call" where
  "secret_envFrom_loop E [] s = (Inr (), s)"
| "secret_envFrom_loop E (cmName # names) s =
     (case FetchSecret (ie_secrets E) (ki_namespace (fst s)) cmName (snd s) of
        Inl e \<Rightarrow> (Inl e, s)
      | Inr None \<Rightarrow> (Inl (errorForResourceNotFound ''Secret'' cmName (ki_namespace (fst s))), s)
      | Inr (Some c) \<Rightarrow> secret_envFrom_loop E names (on_status (updateSecretEnvFromReferenceInStatus cmName) (fst s), snd s))"

definition reconcileSecretEnvFromReferences :: "('w, 'c) infra_env \<Rightarrow> 'w infra_call" where
  "reconcileSecretEnvFromReferences E s = secret_envFrom_loop E (is_secretEnvFrom (ki_spec (fst s))) s"

definition updateSecretVolumeReferenceInStatus :: "volume_reference \<Rightarrow> infra_status \<Rightarrow> infra_status" where
  "updateSecretVolumeReferenceInStatus ref st = st\<lparr>ist_secretVolumes := ist_secretVolumes st @ [ref]\<rparr>"

fun secret_volume_loop :: "('w, 'c) infra_env \<Rightarrow> volume_reference list \<Rightarrow> 'w infra_call" where
  "secret_volume_loop E [] s = (Inr (), s)"
| "secret_volume_loop E (ref # refs) s =
     (if vr_name ref = [] then (Inl (errorForResourceConfigError (fst s) ''No Secret resource name given''), s)
      else (case FetchSecret (ie_secrets E) (ki_namespace (fst s)) (vr_name ref) (snd s) of
              Inl e \<Rightarrow> (Inl e, s)
            | Inr None \<Rightarrow> (Inl (errorForResourceNotFound ''Secret'' (vr_name ref) (ki_namespace (fst s))), s)
            | Inr (Some c) \<Rightarrow> secret_volume_loop E refs (on_status (updateSecretVolumeReferenceInStatus ref) (fst s), snd s)))"

definition reconcileSecretVolumeReferences :: "('w, 'c) infra_env \<Rightarrow> 'w infra_call" where
  "reconcileSecretVolumeReferences E s = secret_volume_loop E (is_secretVolumes (ki_spec (fst s))) s"

definition secretReference_Reconcile :: "('w, 'c) infra_env \<Rightarrow> 'w infra_call" where
  "secretReference_Reconcile E = bindS (reconcileSecretEnvFromReferences E) (\<lambda>_. reconcileSecretVolumeReferences E)"

section \<open>Properties, infraproperties\_reconciler.go\<close>

definition infraProps_name :: "kogito_infra \<Rightarrow> string" where
  "infraProps_name inst = ki_name inst @ ''-properties''"

definition infraProps_configMap :: "kogito_infra \<Rightarrow> smap \<Rightarrow> configmap" where
  "infraProps_configMap inst appProps = app_configMap inst (infraProps_name inst) appProps"

definition infraProps_createRequiredResources :: "('w, 'c) infra_env \<Rightarrow> kogito_infra \<Rightarrow> 'w \<Rightarrow> gerr + configmap list" where
  "infraProps_createRequiredResources E inst w =
     owned_configMap (ie_context E) inst (infraProps_configMap inst (is_infraProperties (ki_spec inst)))"

definition infraProps_getDeployedResources :: "('w, 'c) infra_env \<Rightarrow> kogito_infra \<Rightarrow> 'w \<Rightarrow> gerr + configmap list" where
  "infraProps_getDeployedResources E inst w =
     deployed_list (FetchConfigMap (ie_configMaps E) (ki_namespace inst) (infraProps_name inst) w)"

definition infraProperties_Reconcile :: "('w, 'c) infra_env \<Rightarrow> 'w infra_call" where
  "infraProperties_Reconcile E s =
     (if is_infraProperties (ki_spec (fst s)) = [] then (Inr (), s)
      else provide (ie_configMapLib E) configMap_GetComparator (infraProps_createRequiredResources E)
             (infraProps_getDeployedResources E) (AddConfigMapEnvFromReferences (infraProps_name (fst s))) s)"

section \<open>Kafka, kafka\_reconciler.go, kafkaconfig\_reconciler.go\<close>

definition GetKafkaConfigMapName :: "runtime_type \<Rightarrow> string" where
  "GetKafkaConfigMapName runtime = ''kogito-kafka-'' @ runtime_name runtime @ ''-config''"

definition getKafkaAppProps :: "runtime_type \<Rightarrow> kafka \<Rightarrow> gerr + smap" where
  "getKafkaAppProps runtime k =
     bindR (ResolveKafkaServerURI k) (\<lambda>kafkaURI.
       Inr (if kafkaURI \<noteq> [] then
              (let appProps = smap_put ''ENABLE_EVENTS'' ''true'' []
               in case runtime of
                    Quarkus \<Rightarrow> smap_put ''kafka.bootstrap.servers'' kafkaURI appProps
                  | SpringBoot \<Rightarrow> smap_put ''spring.kafka.bootstrap-servers'' kafkaURI appProps)
            else smap_put ''ENABLE_EVENTS'' ''false'' []))"

definition createKafkaConfigMap :: "runtime_type \<Rightarrow> kogito_infra \<Rightarrow> smap \<Rightarrow> configmap" where
  "createKafkaConfigMap runtime inst appProps = app_configMap inst (GetKafkaConfigMapName runtime) appProps"

definition kafkaConfig_createRequiredResources ::
  "('w, 'c) infra_env \<Rightarrow> kafka \<Rightarrow> runtime_type \<Rightarrow> kogito_infra \<Rightarrow> 'w \<Rightarrow> gerr + configmap list" where
  "kafkaConfig_createRequiredResources E k runtime inst w =
     bindR (getKafkaAppProps runtime k) (\<lambda>appProps. owned_configMap (ie_context E) inst (createKafkaConfigMap runtime inst appProps))"

definition kafkaConfig_getDeployedResources ::
  "('w, 'c) infra_env \<Rightarrow> runtime_type \<Rightarrow> kogito_infra \<Rightarrow> 'w \<Rightarrow> gerr + configmap list" where
  "kafkaConfig_getDeployedResources E runtime inst w =
     deployed_list (FetchConfigMap (ie_configMaps E) (ki_namespace inst) (GetKafkaConfigMapName runtime) w)"

definition kafkaConfig_Reconcile :: "('w, 'c) infra_env \<Rightarrow> kafka \<Rightarrow> runtime_type \<Rightarrow> 'w infra_call" where
  "kafkaConfig_Reconcile E k runtime =
     provide (ie_configMapLib E) configMap_GetComparator (kafkaConfig_createRequiredResources E k runtime)
       (kafkaConfig_getDeployedResources E runtime) (AddConfigMapEnvFromReferences (GetKafkaConfigMapName runtime))"

text \<open>The zone suffix is cut at the last plus sign.\<close>

definition cut_zone :: "string \<Rightarrow> string" where
  "cut_zone t = (if CHR ''+'' \<in> set t then butlast (rev (dropWhile (\<lambda>c. c \<noteq> CHR ''+'') (rev t))) else t)"

definition mustParseKafkaTransition :: "(string \<Rightarrow> nat option) \<Rightarrow> string \<Rightarrow> nat option" where
  "mustParseKafkaTransition parse transitionTime =
     (let t = cut_zone transitionTime; t' = (if CHR ''Z'' \<in> set t then t else t @ ''Z'') in parse t')"

definition kafka_before :: "(string \<Rightarrow> nat option) \<Rightarrow> kafka_condition \<Rightarrow> kafka_condition \<Rightarrow> bool" where
  "kafka_before parse c d =
     (case mustParseKafkaTransition parse (kc_lastTransitionTime c) of
        None \<Rightarrow> False
      | Some t1 \<Rightarrow> (case mustParseKafkaTransition parse (kc_lastTransitionTime d) of
            None \<Rightarrow> False
          | Some t2 \<Rightarrow> t1 < t2))"

text \<open>\<^verbatim>\<open>sort.Slice\<close> sorts a short slice by insertion: an element moves down while it is less than its
  predecessor.  Here on the reversed prefix.\<close>

fun sink_into :: "('a \<Rightarrow> 'a \<Rightarrow> bool) \<Rightarrow> 'a \<Rightarrow> 'a list \<Rightarrow> 'a list" where
  "sink_into lt x [] = [x]"
| "sink_into lt x (y # ys) = (if lt x y then y # sink_into lt x ys else x # y # ys)"

definition sort_Slice :: "('a \<Rightarrow> 'a \<Rightarrow> bool) \<Rightarrow> 'a list \<Rightarrow> 'a list" where
  "sort_Slice lt xs = rev (fold (sink_into lt) xs [])"

definition getLatestKafkaCondition :: "(string \<Rightarrow> nat option) \<Rightarrow> kafka \<Rightarrow> kafka_condition option" where
  "getLatestKafkaCondition parse k =
     (if kf_conditions k = [] then None else Some (last (sort_Slice (kafka_before parse) (kf_conditions k))))"

text \<open>The reference to the resource: its name and its namespace, which defaults to that of the instance.
  The reconcilers run only for an instance that has one.\<close>

definition resource_of :: "kogito_infra \<Rightarrow> infra_resource" where
  "resource_of inst = (case is_resource (ki_spec inst) of
       Some r \<Rightarrow> r
     | None \<Rightarrow> \<lparr>ir_apiVersion = [], ir_kind = [], ir_namespace = [], ir_name = []\<rparr>)"

definition resource_namespace :: "kogito_infra \<Rightarrow> string" where
  "resource_namespace inst =
     (if ir_namespace (resource_of inst) = [] then ki_namespace inst else ir_namespace (resource_of inst))"

text \<open>The checks every reconciler makes first: the API is there, a name is given, the resource exists.\<close>

definition find_resource ::
  "bool \<Rightarrow> string \<Rightarrow> gerr \<Rightarrow> (string \<Rightarrow> string \<Rightarrow> 'w \<Rightarrow> gerr + 'o option) \<Rightarrow> kogito_infra \<Rightarrow> 'w \<Rightarrow> gerr + 'o" where
  "find_resource available kind noName fetch inst w =
     (if \<not> available then Inl (errorForResourceAPINotFound (ir_apiVersion (resource_of inst)))
      else if ir_name (resource_of inst) = [] then Inl noName
      else bindR (fetch (resource_namespace inst) (ir_name (resource_of inst)) w) (\<lambda>r. case r of
             None \<Rightarrow> Inl (errorForResourceNotFound kind (ir_name (resource_of inst)) (resource_namespace inst))
           | Some x \<Rightarrow> Inr x))"

definition kafka_ready :: "('w, 'c) infra_env \<Rightarrow> kogito_infra \<Rightarrow> 'w \<Rightarrow> gerr + kafka" where
  "kafka_ready E inst w =
     bindR (find_resource (IsStrimziAvailable (ie_discovery E)) ''Kafka''
              (errorForResourceConfigError inst ''No Kafka resource name given'') (FetchKafkaInstance (ie_kafkas E)) inst w) (\<lambda>k.
       if (case getLatestKafkaCondition (ie_parseTime E) k of None \<Rightarrow> True | Some c \<Rightarrow> kc_type c \<noteq> ''Ready'')
       then Inl (errorForResourceNotReadyError (PlainError (''kafka instance '' @ om_name (kf_meta k) @
              '' not ready yet. Waiting for Condition status Ready'')))
       else Inr k)"

definition updateKafkaRuntimePropsInStatus :: "('w, 'c) infra_env \<Rightarrow> kafka \<Rightarrow> runtime_type \<Rightarrow> 'w infra_call" where
  "updateKafkaRuntimePropsInStatus E k runtime = kafkaConfig_Reconcile E k runtime"

definition kafka_Reconcile :: "('w, 'c) infra_env \<Rightarrow> 'w infra_call" where
  "kafka_Reconcile E =
     bindS (checkI (kafka_ready E)) (\<lambda>k.
     bindS (updateKafkaRuntimePropsInStatus E k Quarkus) (\<lambda>_. updateKafkaRuntimePropsInStatus E k SpringBoot))"

section \<open>Infinispan, infinispan\_reconciler.go\<close>

datatype infinispan_prop = ServerList | UseAuth | SaslMechanism | AuthRealm | TrustStore | TrustStoreType | TrustStorePassword
  | InfinispanUser | InfinispanPassword

definition propertiesInfinispan :: "runtime_type \<Rightarrow> infinispan_prop \<Rightarrow> string" where
  "propertiesInfinispan runtime p =
     (case runtime of
        Quarkus \<Rightarrow>
          (case p of
             ServerList \<Rightarrow> ''quarkus.infinispan-client.hosts''
           | UseAuth \<Rightarrow> ''quarkus.infinispan-client.use-auth''
           | SaslMechanism \<Rightarrow> ''quarkus.infinispan-client.sasl-mechanism''
           | AuthRealm \<Rightarrow> ''quarkus.infinispan-client.auth-realm''
           | TrustStore \<Rightarrow> ''quarkus.infinispan-client.trust-store''
           | TrustStoreType \<Rightarrow> ''quarkus.infinispan-client.trust-store-type''
           | TrustStorePassword \<Rightarrow> ''quarkus.infinispan-client.trust-store-password''
           | InfinispanUser \<Rightarrow> ''QUARKUS_INFINISPAN_CLIENT_USERNAME''
           | InfinispanPassword \<Rightarrow> ''QUARKUS_INFINISPAN_CLIENT_PASSWORD'')
      | SpringBoot \<Rightarrow>
          (case p of
             ServerList \<Rightarrow> ''infinispan.remote.server-list''
           | UseAuth \<Rightarrow> ''infinispan.remote.use-auth''
           | SaslMechanism \<Rightarrow> ''infinispan.remote.sasl-mechanism''
           | AuthRealm \<Rightarrow> ''infinispan.remote.auth-realm''
           | TrustStore \<Rightarrow> ''infinispan.remote.trust-store-file-name''
           | TrustStoreType \<Rightarrow> ''infinispan.remote.trust-store-type''
           | TrustStorePassword \<Rightarrow> ''infinispan.remote.trust-store-password''
           | InfinispanUser \<Rightarrow> ''INFINISPAN_REMOTE_AUTH_USERNAME''
           | InfinispanPassword \<Rightarrow> ''INFINISPAN_REMOTE_AUTH_PASSWORD''))"

subsection \<open>Configuration, infinispanconfig\_reconciler.go\<close>

definition getInfinispanConfigMapName :: "runtime_type \<Rightarrow> string" where
  "getInfinispanConfigMapName runtime = ''kogito-infinispan-'' @ runtime_name runtime @ ''-config''"

definition getInfinispanAppProps :: "('w, 'c) infra_env \<Rightarrow> infinispan \<Rightarrow> runtime_type \<Rightarrow> 'w \<Rightarrow> gerr + smap" where
  "getInfinispanAppProps E i runtime w =
     bindR (FetchInfinispanInstanceURI (ie_services E) (om_namespace (isp_meta i)) (om_name (isp_meta i)) w) (\<lambda>infinispanURI.
       let appProps = smap_put (propertiesInfinispan runtime UseAuth) ''true'' (smap_put ''ENABLE_PERSISTENCE'' ''true'' [])
       in Inr (if infinispanURI \<noteq> [] then smap_put (propertiesInfinispan runtime ServerList) infinispanURI appProps else appProps))"

definition createInfinispanConfigMap :: "runtime_type \<Rightarrow> kogito_infra \<Rightarrow> smap \<Rightarrow> configmap" where
  "createInfinispanConfigMap runtime inst appProps = app_configMap inst (getInfinispanConfigMapName runtime) appProps"

definition infinispanConfig_createRequiredResources ::
  "('w, 'c) infra_env \<Rightarrow> infinispan \<Rightarrow> runtime_type \<Rightarrow> kogito_infra \<Rightarrow> 'w \<Rightarrow> gerr + configmap list" where
  "infinispanConfig_createRequiredResources E i runtime inst w =
     bindR (getInfinispanAppProps E i runtime w) (\<lambda>appProps.
       owned_configMap (ie_context E) inst (createInfinispanConfigMap runtime inst appProps))"

definition infinispanConfig_getDeployedResources ::
  "('w, 'c) infra_env \<Rightarrow> runtime_type \<Rightarrow> kogito_infra \<Rightarrow> 'w \<Rightarrow> gerr + configmap list" where
  "infinispanConfig_getDeployedResources E runtime inst w =
     deployed_list (FetchConfigMap (ie_configMaps E) (ki_namespace inst) (getInfinispanConfigMapName runtime) w)"

definition infinispanConfig_Reconcile :: "('w, 'c) infra_env \<Rightarrow> infinispan \<Rightarrow> runtime_type \<Rightarrow> 'w infra_call" where
  "infinispanConfig_Reconcile E i runtime =
     provide (ie_configMapLib E) configMap_GetComparator (infinispanConfig_createRequiredResources E i runtime)
       (infinispanConfig_getDeployedResources E runtime) (AddConfigMapEnvFromReferences (getInfinispanConfigMapName runtime))"

subsection \<open>Credentials, infinispancredential\_reconciler.go\<close>

definition infinispan_getCredentialSecretName :: "runtime_type \<Rightarrow> string" where
  "infinispan_getCredentialSecretName runtime = ''kogito-infinispan-'' @ runtime_name runtime @ ''-credential''"

text \<open>\<^verbatim>\<open>*EndpointAuthentication\<close> is read without a check that it is set.\<close>

definition isInfinispanSecretEncryptionEnabled :: "infinispan \<Rightarrow> gerr + bool" where
  "isInfinispanSecretEncryptionEnabled i =
     (case isp_endpointAuthentication i of
        None \<Rightarrow> Inl (Panic ''nil pointer dereference'')
      | Some b \<Rightarrow> Inr (b \<and> isp_endpointSecretName i \<noteq> []))"

definition createInfinispanSecret :: "runtime_type \<Rightarrow> kogito_infra \<Rightarrow> credential option \<Rightarrow> secret" where
  "createInfinispanSecret runtime inst credentials =
     \<lparr>sec_meta = mk_meta (infinispan_getCredentialSecretName runtime) (ki_namespace inst), sec_data = [],
      sec_stringData = (case credentials of
          None \<Rightarrow> []
        | Some c \<Rightarrow> [(propertiesInfinispan runtime InfinispanUser, cre_username c),
                     (propertiesInfinispan runtime InfinispanPassword, cre_password c)]),
      sec_type = ''Opaque''\<rparr>"

definition infinispanCredential_createRequiredResources ::
  "('w, 'c) infra_env \<Rightarrow> infinispan \<Rightarrow> runtime_type \<Rightarrow> kogito_infra \<Rightarrow> 'w \<Rightarrow> gerr + secret list" where
  "infinispanCredential_createRequiredResources E i runtime inst w =
     bindR (GetInfinispanCredential (ie_unmarshalIdentity E) (ie_secrets E) i w) (\<lambda>credentials.
       owned_secret (ie_context E) inst (createInfinispanSecret runtime inst credentials))"

definition infinispanCredential_getDeployedResources ::
  "('w, 'c) infra_env \<Rightarrow> runtime_type \<Rightarrow> kogito_infra \<Rightarrow> 'w \<Rightarrow> gerr + secret list" where
  "infinispanCredential_getDeployedResources E runtime inst w =
     deployed_list (FetchSecret (ie_secrets E) (ki_namespace inst) (infinispan_getCredentialSecretName runtime) w)"

definition infinispanCredential_Reconcile :: "('w, 'c) infra_env \<Rightarrow> infinispan \<Rightarrow> runtime_type \<Rightarrow> 'w infra_call" where
  "infinispanCredential_Reconcile E i runtime s =
     (case isInfinispanSecretEncryptionEnabled i of
        Inl e \<Rightarrow> (Inl e, s)
      | Inr False \<Rightarrow> (Inr (), s)
      | Inr True \<Rightarrow> provide (ie_secretLib E) (secret_GetComparator (ie_secretLib E)) (infinispanCredential_createRequiredResources E i runtime)
             (infinispanCredential_getDeployedResources E runtime)
             (AddSecretEnvFromReferences (infinispan_getCredentialSecretName runtime)) s)"

subsection \<open>Trust store settings, infinispantruststoresecret\_reconciler.go\<close>

abbreviation (input) certMountPath :: string where "certMountPath \<equiv> ''/home/kogito'' @ ''/certs/infinispan''"
abbreviation (input) truststoreSecretKey :: string where "truststoreSecretKey \<equiv> ''truststore.p12''"
abbreviation (input) truststoreMountPath :: string where "truststoreMountPath \<equiv> certMountPath @ ''/'' @ truststoreSecretKey"
abbreviation (input) truststoreSecretName :: string where "truststoreSecretName \<equiv> ''kogito-infinispan-truststore''"

definition getInfinispanTrustStoreSecretName :: "runtime_type \<Rightarrow> string" where
  "getInfinispanTrustStoreSecretName runtime = ''kogito-infinispan-truststore-'' @ runtime_name runtime @ ''-secret''"

definition getInfinispanTrustStoreSecretProps :: "string \<Rightarrow> runtime_type \<Rightarrow> smap" where
  "getInfinispanTrustStoreSecretProps defaultPassword runtime =
     smap_put (propertiesInfinispan runtime TrustStorePassword) defaultPassword
       (smap_put (propertiesInfinispan runtime TrustStore) truststoreMountPath
         (smap_put (propertiesInfinispan runtime TrustStoreType) ''PKCS12'' []))"

definition createInfinispanTrustStoreSecret :: "runtime_type \<Rightarrow> kogito_infra \<Rightarrow> smap \<Rightarrow> secret" where
  "createInfinispanTrustStoreSecret runtime inst appProps =
     \<lparr>sec_meta = (mk_meta (getInfinispanTrustStoreSecretName runtime) (ki_namespace inst))\<lparr>om_labels := [(''app'', ki_name inst)]\<rparr>,
      sec_data = appProps, sec_stringData = [], sec_type = []\<rparr>"

definition trustStoreSecret_createRequiredResources ::
  "('w, 'c) infra_env \<Rightarrow> runtime_type \<Rightarrow> kogito_infra \<Rightarrow> 'w \<Rightarrow> gerr + secret list" where
  "trustStoreSecret_createRequiredResources E runtime inst w =
     owned_secret (ie_context E) inst
       (createInfinispanTrustStoreSecret runtime inst (getInfinispanTrustStoreSecretProps (ie_defaultPassword E) runtime))"

definition trustStoreSecret_getDeployedResources ::
  "('w, 'c) infra_env \<Rightarrow> runtime_type \<Rightarrow> kogito_infra \<Rightarrow> 'w \<Rightarrow> gerr + secret list" where
  "trustStoreSecret_getDeployedResources E runtime inst w =
     deployed_list (FetchSecret (ie_secrets E) (ki_namespace inst) (getInfinispanTrustStoreSecretName runtime) w)"

definition trustStoreSecret_Reconcile :: "('w, 'c) infra_env \<Rightarrow> runtime_type \<Rightarrow> 'w infra_call" where
  "trustStoreSecret_Reconcile E runtime =
     provide (ie_secretLib E) (secret_GetComparator (ie_secretLib E)) (trustStoreSecret_createRequiredResources E runtime)
       (trustStoreSecret_getDeployedResources E runtime) (AddSecretEnvFromReferences (getInfinispanTrustStoreSecretName runtime))"

subsection \<open>Trust store, infinispantruststore\_reconciler.go\<close>

definition isInfinispanCertEncryptionEnabled :: "infinispan \<Rightarrow> gerr + bool" where
  "isInfinispanCertEncryptionEnabled i =
     (case isp_endpointAuthentication i of
        None \<Rightarrow> Inl (Panic ''nil pointer dereference'')
      | Some b \<Rightarrow> Inr (b \<and> (case isp_certSecretName i of None \<Rightarrow> False | Some n \<Rightarrow> n \<noteq> [])))"

definition isTrustStoreSecretExists :: "('w, 'c) infra_env \<Rightarrow> kogito_infra \<Rightarrow> 'w \<Rightarrow> gerr + bool" where
  "isTrustStoreSecretExists E inst w =
     bindR (FetchSecret (ie_secrets E) (ki_namespace inst) truststoreSecretName w) (\<lambda>s. Inr (s \<noteq> None))"

definition truststore_secret :: "kogito_infra \<Rightarrow> string \<Rightarrow> secret" where
  "truststore_secret inst trustStore =
     \<lparr>sec_meta = mk_meta truststoreSecretName (ki_namespace inst), sec_data = [(truststoreSecretKey, trustStore)],
      sec_stringData = [], sec_type = ''Opaque''\<rparr>"

definition required_truststore_secret :: "('w, 'c) infra_env \<Rightarrow> infinispan \<Rightarrow> kogito_infra \<Rightarrow> 'w \<Rightarrow> gerr + secret" where
  "required_truststore_secret E i inst w =
     bindR (MustFetchSecret (ie_secrets E) (om_namespace (isp_meta i))
              (case isp_certSecretName i of None \<Rightarrow> [] | Some n \<Rightarrow> n) w) (\<lambda>ispnSecret.
     bindR (CreatePKCS12TrustStoreFromSecret (ie_pemDecode E) (ie_parseCertificate E) (ie_encodeTrustStore E) (ie_defaultPassword E)
              ispnSecret (ie_defaultPassword E) [''tls.crt'']) (\<lambda>trustStore.
     own_object (ie_context E) (ki_meta inst) sec_meta (\<lambda>m c. c\<lparr>sec_meta := m\<rparr>) (truststore_secret inst trustStore)))"

definition createTrustStoreSecret :: "('w, 'c) infra_env \<Rightarrow> infinispan \<Rightarrow> 'w infra_call" where
  "createTrustStoreSecret E i s =
     (case required_truststore_secret E i (fst s) (snd s) of
        Inl e \<Rightarrow> (Inl e, s)
      | Inr sec \<Rightarrow> (case Create (ie_secrets E) sec (snd s) of
            (Inl e, w') \<Rightarrow> (Inl e, (fst s, w'))
          | (Inr _, w') \<Rightarrow> (Inr (), (fst s, w'))))"

definition addTrustStoreVolumeSource :: "('w, 'c) infra_env \<Rightarrow> infinispan \<Rightarrow> 'w infra_call" where
  "addTrustStoreVolumeSource E i =
     bindS (checkI (isTrustStoreSecretExists E)) (\<lambda>exists.
     bindS (if exists then returnS () else createTrustStoreSecret E i) (\<lambda>_ s.
       (Inr (), (on_status (AddSecretVolumeReference truststoreSecretName certMountPath (Some 416) None) (fst s), snd s))))"

definition addTrustStoreSecret :: "('w, 'c) infra_env \<Rightarrow> 'w infra_call" where
  "addTrustStoreSecret E = bindS (trustStoreSecret_Reconcile E Quarkus) (\<lambda>_. trustStoreSecret_Reconcile E SpringBoot)"

definition infinispanTrustStore_Reconcile :: "('w, 'c) infra_env \<Rightarrow> infinispan \<Rightarrow> 'w infra_call" where
  "infinispanTrustStore_Reconcile E i =
     bindS (checkI (\<lambda>_ _. isInfinispanCertEncryptionEnabled i)) (\<lambda>enabled.
       if enabled then bindS (addTrustStoreVolumeSource E i) (\<lambda>_. addTrustStoreSecret E) else returnS ())"

subsection \<open>The reconciler\<close>

definition updateTrustStoreSecretReferenceInStatus :: "('w, 'c) infra_env \<Rightarrow> infinispan \<Rightarrow> 'w infra_call" where
  "updateTrustStoreSecretReferenceInStatus E i = infinispanTrustStore_Reconcile E i"

definition updateInfinispanRuntimePropsInStatus :: "('w, 'c) infra_env \<Rightarrow> infinispan \<Rightarrow> runtime_type \<Rightarrow> 'w infra_call" where
  "updateInfinispanRuntimePropsInStatus E i runtime =
     bindS (infinispanConfig_Reconcile E i runtime) (\<lambda>_. infinispanCredential_Reconcile E i runtime)"

definition infinispan_ready :: "('w, 'c) infra_env \<Rightarrow> kogito_infra \<Rightarrow> 'w \<Rightarrow> gerr + infinispan" where
  "infinispan_ready E inst w =
     bindR (find_resource (IsInfinispanAvailable (ie_discovery E)) ''Infinispan''
              (errorForResourceConfigError inst ''No Infinispan resource name given'') (FetchInfinispanInstance (ie_infinispans E)) inst w) (\<lambda>i.
       if \<not> IsWellFormed i
       then Inl (errorForResourceNotReadyError (PlainError (''infinispan instance '' @ om_name (isp_meta i) @ '' not ready'')))
       else Inr i)"

text \<open>The steps after the checks; an error ends them, but the reconciler answers an error of theirs with success:
  only a panic is not caught.\<close>

definition infinispan_steps :: "('w, 'c) infra_env \<Rightarrow> infinispan \<Rightarrow> 'w infra_call" where
  "infinispan_steps E i =
     bindS (updateTrustStoreSecretReferenceInStatus E i) (\<lambda>_.
     bindS (updateInfinispanRuntimePropsInStatus E i Quarkus) (\<lambda>_. updateInfinispanRuntimePropsInStatus E i SpringBoot))"

fun is_panic :: "gerr \<Rightarrow> bool" where
  "is_panic (Panic m) = True"
| "is_panic _ = False"

definition infinispan_Reconcile :: "('w, 'c) infra_env \<Rightarrow> 'w infra_call" where
  "infinispan_Reconcile E =
     bindS (checkI (infinispan_ready E)) (\<lambda>i s.
       case infinispan_steps E i s of
         (Inl e, s') \<Rightarrow> (if is_panic e then Inl e else Inr (), s')
       | (Inr _, s') \<Rightarrow> (Inr (), s'))"

section \<open>MongoDB, mongodb\_reconciler.go\<close>

datatype mongodb_prop = MongoDBURI | MongoDBHost | MongoDBPort | MongoDBAuthDatabase | MongoDBUser | MongoDBPassword | MongoDBDatabase

text \<open>A key without an entry gives the empty string.\<close>

definition propertiesMongoDB :: "runtime_type \<Rightarrow> mongodb_prop \<Rightarrow> string" where
  "propertiesMongoDB runtime p =
     (case runtime of
        Quarkus \<Rightarrow>
          (case p of
             MongoDBURI \<Rightarrow> ''quarkus.mongodb.connection-string''
           | MongoDBAuthDatabase \<Rightarrow> ''QUARKUS_MONGODB_CREDENTIALS_AUTH_SOURCE''
           | MongoDBUser \<Rightarrow> ''QUARKUS_MONGODB_CREDENTIALS_USERNAME''
           | MongoDBPassword \<Rightarrow> ''QUARKUS_MONGODB_CREDENTIALS_PASSWORD''
           | MongoDBDatabase \<Rightarrow> ''QUARKUS_MONGODB_DATABASE''
           | _ \<Rightarrow> [])
      | SpringBoot \<Rightarrow>
          (case p of
             MongoDBHost \<Rightarrow> ''spring.data.mongodb.host''
           | MongoDBPort \<Rightarrow> ''spring.data.mongodb.port''
           | MongoDBAuthDatabase \<Rightarrow> ''SPRING_DATA_MONGODB_AUTHENTICATION_DATABASE''
           | MongoDBUser \<Rightarrow> ''SPRING_DATA_MONGODB_USERNAME''
           | MongoDBPassword \<Rightarrow> ''SPRING_DATA_MONGODB_PASSWORD''
           | MongoDBDatabase \<Rightarrow> ''SPRING_DATA_MONGODB_DATABASE''
           | _ \<Rightarrow> []))"

subsection \<open>Configuration, mongodbconfig\_reconciler.go\<close>

definition getMongoDBConfigMapName :: "runtime_type \<Rightarrow> string" where
  "getMongoDBConfigMapName runtime = ''kogito-mongodb-'' @ runtime_name runtime @ ''-config''"

definition getMongoDBAppProps :: "(string \<Rightarrow> gerr + (string \<times> string)) \<Rightarrow> mongodb \<Rightarrow> runtime_type \<Rightarrow> gerr + smap" where
  "getMongoDBAppProps parseRequestURI m runtime =
     (let mongoDBURI = mdb_uri m
      in if mongoDBURI = [] then Inr []
         else (let appProps = smap_put ''ENABLE_PERSISTENCE'' ''true'' []
               in bindR (parseRequestURI mongoDBURI) (\<lambda>(hostname, port).
                    Inr (case runtime of
                           Quarkus \<Rightarrow> smap_put (propertiesMongoDB runtime MongoDBURI) mongoDBURI appProps
                         | SpringBoot \<Rightarrow> smap_put (propertiesMongoDB runtime MongoDBPort) port
                             (smap_put (propertiesMongoDB runtime MongoDBHost) hostname appProps)))))"

definition createMongoDBConfigMap :: "runtime_type \<Rightarrow> kogito_infra \<Rightarrow> smap \<Rightarrow> configmap" where
  "createMongoDBConfigMap runtime inst appProps = app_configMap inst (getMongoDBConfigMapName runtime) appProps"

definition mongoDBConfig_createRequiredResources ::
  "('w, 'c) infra_env \<Rightarrow> mongodb \<Rightarrow> runtime_type \<Rightarrow> kogito_infra \<Rightarrow> 'w \<Rightarrow> gerr + configmap list" where
  "mongoDBConfig_createRequiredResources E m runtime inst w =
     bindR (getMongoDBAppProps (ie_parseRequestURI E) m runtime) (\<lambda>appProps.
       owned_configMap (ie_context E) inst (createMongoDBConfigMap runtime inst appProps))"

definition mongoDBConfig_getDeployedResources ::
  "('w, 'c) infra_env \<Rightarrow> runtime_type \<Rightarrow> kogito_infra \<Rightarrow> 'w \<Rightarrow> gerr + configmap list" where
  "mongoDBConfig_getDeployedResources E runtime inst w =
     deployed_list (FetchConfigMap (ie_configMaps E) (ki_namespace inst) (getMongoDBConfigMapName runtime) w)"

definition mongoDBConfig_Reconcile :: "('w, 'c) infra_env \<Rightarrow> mongodb \<Rightarrow> runtime_type \<Rightarrow> 'w infra_call" where
  "mongoDBConfig_Reconcile E m runtime =
     provide (ie_configMapLib E) configMap_GetComparator (mongoDBConfig_createRequiredResources E m runtime)
       (mongoDBConfig_getDeployedResources E runtime) (AddConfigMapEnvFromReferences (getMongoDBConfigMapName runtime))"

subsection \<open>Credentials, mongodbcredential\_reconciler.go\<close>

record mongodb_credential =
  mc_authDatabase :: string
  mc_username :: string
  mc_password :: string
  mc_database :: string

definition mongoDB_getCredentialSecretName :: "runtime_type \<Rightarrow> string" where
  "mongoDB_getCredentialSecretName runtime = ''kogito-mongodb-'' @ runtime_name runtime @ ''-credential''"

definition findMongoDBUserByUsernameAndAuthDatabase :: "mongodb \<Rightarrow> string \<Rightarrow> string \<Rightarrow> mongodb_user option" where
  "findMongoDBUserByUsernameAndAuthDatabase m username authDB =
     find (\<lambda>u. mu_db u = authDB \<and> mu_name u = username) (mdb_users m)"

text \<open>A password secret that is not found is reported with the namespace of the KogitoInfra, although it was looked
  up in that of the MongoDB instance.\<close>

definition retrieveMongoDBCredentialsFromInstance ::
  "('w, 'c) infra_env \<Rightarrow> mongodb \<Rightarrow> kogito_infra \<Rightarrow> 'w \<Rightarrow> gerr + mongodb_credential" where
  "retrieveMongoDBCredentialsFromInstance E m inst w =
     (let props = is_infraProperties (ki_spec inst);
          username = smap_get props ''username'';
          database = smap_get props ''database'';
          authDatabase = (if smap_get props ''auth-database'' = [] then ''admin'' else smap_get props ''auth-database'')
      in if username = [] then Inl (errorForMissingResourceConfig inst ''username'')
         else if database = [] then Inl (errorForMissingResourceConfig inst ''database'')
         else (case findMongoDBUserByUsernameAndAuthDatabase m username authDatabase of
                 None \<Rightarrow> Inl (errorForResourceConfigError inst (''No user found in MongoDB configuration for username '' @ username @
                           '' and authentication database '' @ authDatabase))
               | Some user \<Rightarrow>
                   bindR (FetchWithKey (ie_secrets E) (om_namespace (mdb_meta m)) (mu_secretName user) w) (\<lambda>s. case s of
                       None \<Rightarrow> Inl (errorForResourceNotFound ''Secret'' (mu_secretName user) (ki_namespace inst))
                     | Some sec \<Rightarrow> Inr \<lparr>mc_authDatabase = authDatabase, mc_username = username,
                           mc_password = smap_get (sec_data sec) (if mu_secretKey user = [] then ''password'' else mu_secretKey user),
                           mc_database = database\<rparr>)))"

definition createCustomKogitoMongoDBSecret :: "runtime_type \<Rightarrow> kogito_infra \<Rightarrow> mongodb_credential \<Rightarrow> secret" where
  "createCustomKogitoMongoDBSecret runtime inst credentials =
     \<lparr>sec_meta = mk_meta (mongoDB_getCredentialSecretName runtime) (ki_namespace inst), sec_data = [],
      sec_stringData = [(propertiesMongoDB runtime MongoDBAuthDatabase, mc_authDatabase credentials),
        (propertiesMongoDB runtime MongoDBUser, mc_username credentials),
        (propertiesMongoDB runtime MongoDBPassword, mc_password credentials),
        (propertiesMongoDB runtime MongoDBDatabase, mc_database credentials)],
      sec_type = ''Opaque''\<rparr>"

definition mongoDBCredential_createRequiredResources ::
  "('w, 'c) infra_env \<Rightarrow> mongodb \<Rightarrow> runtime_type \<Rightarrow> kogito_infra \<Rightarrow> 'w \<Rightarrow> gerr + secret list" where
  "mongoDBCredential_createRequiredResources E m runtime inst w =
     bindR (retrieveMongoDBCredentialsFromInstance E m inst w) (\<lambda>credentials.
       owned_secret (ie_context E) inst (createCustomKogitoMongoDBSecret runtime inst credentials))"

definition mongoDBCredential_getDeployedResources ::
  "('w, 'c) infra_env \<Rightarrow> runtime_type \<Rightarrow> kogito_infra \<Rightarrow> 'w \<Rightarrow> gerr + secret list" where
  "mongoDBCredential_getDeployedResources E runtime inst w =
     deployed_list (FetchSecret (ie_secrets E) (ki_namespace inst) (mongoDB_getCredentialSecretName runtime) w)"

definition mongoDBCredential_Reconcile :: "('w, 'c) infra_env \<Rightarrow> mongodb \<Rightarrow> runtime_type \<Rightarrow> 'w infra_call" where
  "mongoDBCredential_Reconcile E m runtime =
     provide (ie_secretLib E) (secret_GetComparator (ie_secretLib E)) (mongoDBCredential_createRequiredResources E m runtime)
       (mongoDBCredential_getDeployedResources E runtime) (AddSecretEnvFromReferences (mongoDB_getCredentialSecretName runtime))"

subsection \<open>The reconciler\<close>

definition updateMongoDBRuntimePropsInStatus :: "('w, 'c) infra_env \<Rightarrow> mongodb \<Rightarrow> runtime_type \<Rightarrow> 'w infra_call" where
  "updateMongoDBRuntimePropsInStatus E m runtime =
     bindS (mongoDBConfig_Reconcile E m runtime) (\<lambda>_. mongoDBCredential_Reconcile E m runtime)"

definition mongoDB_ready :: "('w, 'c) infra_env \<Rightarrow> kogito_infra \<Rightarrow> 'w \<Rightarrow> gerr + mongodb" where
  "mongoDB_ready E inst w =
     bindR (find_resource (IsMongoDBAvailable (ie_discovery E)) ''MongoDB''
              (errorForResourceConfigError inst ''No resource name given'') (FetchMongoDBInstance (ie_mongodbs E)) inst w) (\<lambda>m.
       if mdb_phase m \<noteq> ''Running''
       then Inl (errorForResourceNotReadyError (PlainError (''mongoDB instance '' @ om_name (mdb_meta m) @
              '' not ready. Waiting for Status.Phase == Running'')))
       else Inr m)"

definition mongoDB_Reconcile :: "('w, 'c) infra_env \<Rightarrow> 'w infra_call" where
  "mongoDB_Reconcile E =
     bindS (checkI (mongoDB_ready E)) (\<lambda>m.
     bindS (updateMongoDBRuntimePropsInStatus E m Quarkus) (\<lambda>_. updateMongoDBRuntimePropsInStatus E m SpringBoot))"

section \<open>Keycloak and Knative, keycloak\_reconciler.go, knative\_reconciler.go\<close>

definition loadDeployedKeycloakInstance :: "('w, object_meta) store_api \<Rightarrow> string \<Rightarrow> string \<Rightarrow> 'w \<Rightarrow> gerr + object_meta option" where
  "loadDeployedKeycloakInstance A namespace name w = FetchWithKey A namespace name w"

definition keycloak_Reconcile :: "('w, 'c) infra_env \<Rightarrow> 'w infra_call" where
  "keycloak_Reconcile E =
     bindS (checkI (\<lambda>inst. find_resource (IsKeycloakAvailable (ie_discovery E)) ''Keycloak''
              (errorForResourceConfigError inst ''No Keycloak resource name given'')
              (loadDeployedKeycloakInstance (ie_keycloaks E)) inst)) (\<lambda>_. returnS ())"

definition knative_Reconcile :: "('w, 'c) infra_env \<Rightarrow> 'w infra_call" where
  "knative_Reconcile E =
     bindS (checkI (\<lambda>inst. find_resource (IsKnativeEventingAvailable (ie_discovery E) (ie_eventingGroup E)) ''Broker''
              (PlainError (''No Knative Eventing Broker resource defined in the KogitoInfra CR '' @ ki_name inst @ '' on namespace '' @
                 ki_namespace inst @ '', impossible to continue ''))
              (FetchBroker (ie_brokers E)) inst)) (\<lambda>_. returnS ())"

section \<open>The interface of a reference loop\<close>

text \<open>A loop over the references of the spec checks each against the cluster, stops at the first that fails and
  records the others in the status.  The check sees the metadata of the instance only.\<close>

locale reference_loop =
  fixes item_error :: "object_meta \<Rightarrow> 'w \<Rightarrow> 'i \<Rightarrow> gerr option"
    and add :: "'i \<Rightarrow> infra_status \<Rightarrow> infra_status"
    and loop :: "'i list \<Rightarrow> 'w infra_call"
  assumes loop_Nil: "loop [] s = (Inr (), s)"
    and loop_Cons: "loop (x # xs) s =
      (case item_error (ki_meta (fst s)) (snd s) x of
         Some e \<Rightarrow> (Inl e, s)
       | None \<Rightarrow> loop xs (on_status (add x) (fst s), snd s))"
begin

lemma loop_success:
  "loop xs s = (Inr (), s') \<longleftrightarrow>
     list_all (\<lambda>x. item_error (ki_meta (fst s)) (snd s) x = None) xs \<and> s' = (on_status (fold add xs) (fst s), snd s)"
proof (induction xs arbitrary: s)
  case Nil
  show ?case by (cases s) (auto simp: loop_Nil on_status_def)
next
  case (Cons x xs)
  then show ?case by (auto simp: loop_Cons comp_def split: option.split)
qed

lemma loop_frame:
  "snd (snd (loop xs s)) = snd s" "ki_meta (fst (snd (loop xs s))) = ki_meta (fst s)" "ki_spec (fst (snd (loop xs s))) = ki_spec (fst s)"
  by (induction xs arbitrary: s) (simp_all add: loop_Nil loop_Cons split: option.split)

lemma loop_first_error:
  "list_all (\<lambda>x. item_error (ki_meta (fst s)) (snd s) x = None) xs \<Longrightarrow> item_error (ki_meta (fst s)) (snd s) x = Some e \<Longrightarrow>
   loop (xs @ x # ys) s = (Inl e, (on_status (fold add xs) (fst s), snd s))"
  by (induction xs arbitrary: s) (simp_all add: loop_Cons comp_def, simp add: on_status_def)

end

text \<open>The error of one reference: a config map or secret must exist, and the reference to a volume must name it.\<close>

definition reference_error :: "(string \<Rightarrow> string \<Rightarrow> 'w \<Rightarrow> gerr + 'o option) \<Rightarrow> string \<Rightarrow> object_meta \<Rightarrow> 'w \<Rightarrow> string \<Rightarrow> gerr option" where
  "reference_error fetch kind m w name =
     (case fetch (om_namespace m) name w of
        Inl e \<Rightarrow> Some e
      | Inr None \<Rightarrow> Some (errorForResourceNotFound kind name (om_namespace m))
      | Inr (Some _) \<Rightarrow> None)"

definition volume_error ::
  "(string \<Rightarrow> string \<Rightarrow> 'w \<Rightarrow> gerr + 'o option) \<Rightarrow> string \<Rightarrow> object_meta \<Rightarrow> 'w \<Rightarrow> volume_reference \<Rightarrow> gerr option" where
  "volume_error fetch kind m w ref =
     (if vr_name ref = []
      then Some (InfraError ResourceConfigError (''Error in configuration for the infrastructure resource '' @ om_name m @
             ''. Error is: No '' @ kind @ '' resource name given''))
      else reference_error fetch kind m w (vr_name ref))"

interpretation cm_envs: reference_loop "reference_error (FetchConfigMap (ie_configMaps E)) ''Configmap''"
  AddConfigMapEnvFromReferences "cm_envFrom_loop E" for E :: "('w, 'c) infra_env"
  by unfold_locales (auto simp: reference_error_def split: sum.split option.split)

interpretation cm_volumes: reference_loop "volume_error (FetchConfigMap (ie_configMaps E)) ''Configmap''"
  updateConfigMapVolumeReferenceInStatus "cm_volume_loop E" for E :: "('w, 'c) infra_env"
  by unfold_locales (auto simp: reference_error_def volume_error_def errorForResourceConfigError_def split: sum.split option.split)

interpretation secret_envs: reference_loop "reference_error (FetchSecret (ie_secrets E)) ''Secret''"
  updateSecretEnvFromReferenceInStatus "secret_envFrom_loop E" for E :: "('w, 'c) infra_env"
  by unfold_locales (auto simp: reference_error_def split: sum.split option.split)

interpretation secret_volumes: reference_loop "volume_error (FetchSecret (ie_secrets E)) ''Secret''"
  updateSecretVolumeReferenceInStatus "secret_volume_loop E" for E :: "('w, 'c) infra_env"
  by unfold_locales (auto simp: reference_error_def volume_error_def errorForResourceConfigError_def split: sum.split option.split)

lemma fold_references:
  "fold AddConfigMapEnvFromReferences names st = st\<lparr>ist_configMapEnvFrom := ist_configMapEnvFrom st @ names\<rparr>"
  "fold updateConfigMapVolumeReferenceInStatus refs st = st\<lparr>ist_configMapVolumes := ist_configMapVolumes st @ refs\<rparr>"
  "fold updateSecretEnvFromReferenceInStatus names st = st\<lparr>ist_secretEnvFrom := ist_secretEnvFrom st @ names\<rparr>"
  "fold updateSecretVolumeReferenceInStatus refs st = st\<lparr>ist_secretVolumes := ist_secretVolumes st @ refs\<rparr>"
  by (induction names arbitrary: st, simp_all add: AddConfigMapEnvFromReferences_def updateSecretEnvFromReferenceInStatus_def)
    (induction refs arbitrary: st, simp_all add: updateConfigMapVolumeReferenceInStatus_def updateSecretVolumeReferenceInStatus_def)+

lemma reference_error_None:
  "reference_error fetch kind m w name = None \<longleftrightarrow> (\<exists>x. fetch (om_namespace m) name w = Inr (Some x))"
  "volume_error fetch kind m w ref = None \<longleftrightarrow> vr_name ref \<noteq> [] \<and> (\<exists>x. fetch (om_namespace m) (vr_name ref) w = Inr (Some x))"
  by (auto simp: volume_error_def reference_error_def split: sum.splits option.splits)

definition references_exist :: "(string \<Rightarrow> string \<Rightarrow> 'w \<Rightarrow> gerr + 'o option) \<Rightarrow> string \<Rightarrow> string list \<Rightarrow> volume_reference list \<Rightarrow> 'w \<Rightarrow> bool" where
  "references_exist fetch ns names refs w \<longleftrightarrow>
     list_all (\<lambda>n. \<exists>x. fetch ns n w = Inr (Some x)) names \<and>
     list_all (\<lambda>r. vr_name r \<noteq> [] \<and> (\<exists>x. fetch ns (vr_name r) w = Inr (Some x))) refs"

lemma configMapReference_success:
  "configMapReference_Reconcile E s = (Inr (), s') \<longleftrightarrow>
     references_exist (FetchConfigMap (ie_configMaps E)) (ki_namespace (fst s)) (is_configMapEnvFrom (ki_spec (fst s)))
       (is_configMapVolumes (ki_spec (fst s))) (snd s)
     \<and> s' = (on_status (\<lambda>st. st\<lparr>ist_configMapEnvFrom := ist_configMapEnvFrom st @ is_configMapEnvFrom (ki_spec (fst s)),
           ist_configMapVolumes := ist_configMapVolumes st @ is_configMapVolumes (ki_spec (fst s))\<rparr>) (fst s), snd s)"
  by (auto simp: configMapReference_Reconcile_def bindS_eq_Inr reconcileConfigMapEnvFromReferences_def
      reconcileConfigMapVolumeReferences_def cm_envs.loop_success cm_volumes.loop_success fold_references references_exist_def
      reference_error_None)

lemma secretReference_success:
  "secretReference_Reconcile E s = (Inr (), s') \<longleftrightarrow>
     references_exist (FetchSecret (ie_secrets E)) (ki_namespace (fst s)) (is_secretEnvFrom (ki_spec (fst s)))
       (is_secretVolumes (ki_spec (fst s))) (snd s)
     \<and> s' = (on_status (\<lambda>st. st\<lparr>ist_secretEnvFrom := ist_secretEnvFrom st @ is_secretEnvFrom (ki_spec (fst s)),
           ist_secretVolumes := ist_secretVolumes st @ is_secretVolumes (ki_spec (fst s))\<rparr>) (fst s), snd s)"
  by (auto simp: secretReference_Reconcile_def bindS_eq_Inr reconcileSecretEnvFromReferences_def
      reconcileSecretVolumeReferences_def secret_envs.loop_success secret_volumes.loop_success fold_references references_exist_def
      reference_error_None)

section \<open>Lemmas on the configuration reconcilers\<close>

lemma provide_success:
  "provide L equal required deployed add s = (Inr (), s') \<longleftrightarrow>
     (\<exists>b w'. resource_pass L equal (required (fst s)) (deployed (fst s)) (snd s) = (Inr b, w') \<and> s' = (on_status add (fst s), w'))"
  by (auto simp: provide_def split: prod.splits sum.splits)

lemma provide_failure_keeps_instance: "provide L equal required deployed add s = (Inl e, s') \<Longrightarrow> fst s' = fst s"
  by (auto simp: provide_def split: prod.splits sum.splits)

lemma checkI_Inr: "checkI f s = (Inr x, s') \<longleftrightarrow> f (fst s) (snd s) = Inr x \<and> s' = s"
  by (auto simp: checkI_def)

lemma checkI_Inl: "checkI f s = (Inl e, s') \<longleftrightarrow> f (fst s) (snd s) = Inl e \<and> s' = s"
  by (auto simp: checkI_def)

lemma returnS_Inr: "returnS x s = (Inr y, s') \<longleftrightarrow> x = y \<and> s' = s"
  by (auto simp: returnS_def)

lemma find_resource_Inr:
  "find_resource available kind noName fetch inst w = Inr x \<longleftrightarrow>
     available \<and> ir_name (resource_of inst) \<noteq> [] \<and> fetch (resource_namespace inst) (ir_name (resource_of inst)) w = Inr (Some x)"
  by (auto simp: find_resource_def bindR_eq_Inr split: option.splits)

section \<open>The latest condition of a Kafka cluster\<close>

lemma sort_Slice_snoc: "sort_Slice lt (xs @ [x]) = rev (sink_into lt x (rev (sort_Slice lt xs)))"
  by (simp add: sort_Slice_def)

lemma set_sink_into: "set (sink_into lt x ys) = insert x (set ys)"
  by (induction ys) auto

lemma mset_sort_Slice: "set (sort_Slice lt xs) = set xs"
  by (induction xs rule: rev_induct) (auto simp: sort_Slice_snoc set_sink_into sort_Slice_def)

lemma hd_sink_into: "hd (sink_into lt x ys) = (if ys \<noteq> [] \<and> lt x (hd ys) then hd ys else x)"
  by (cases ys) simp_all

lemma last_sort_Slice_snoc:
  "last (sort_Slice lt (xs @ [x])) = (if xs \<noteq> [] \<and> lt x (last (sort_Slice lt xs)) then last (sort_Slice lt xs) else x)"
proof -
  have "sort_Slice lt xs = [] \<longleftrightarrow> xs = []" by (metis mset_sort_Slice set_empty)
  then show ?thesis by (auto simp: sort_Slice_snoc last_rev hd_sink_into hd_rev)
qed

lemma last_sort_Slice_max:
  fixes key :: "'a \<Rightarrow> nat"
  assumes "\<forall>x \<in> set xs. \<forall>y \<in> set xs. lt x y \<longleftrightarrow> key x < key y" "xs \<noteq> []"
  shows "\<forall>x \<in> set xs. key x \<le> key (last (sort_Slice lt xs))"
  using assms
proof (induction xs rule: rev_induct)
  case (snoc x xs)
  show ?case
  proof (cases "xs = []")
    case False
    then have ne: "sort_Slice lt xs \<noteq> []" by (metis mset_sort_Slice set_empty)
    have mem: "last (sort_Slice lt xs) \<in> set xs" using last_in_set [OF ne] by (simp add: mset_sort_Slice)
    have max: "\<forall>y \<in> set xs. key y \<le> key (last (sort_Slice lt xs))" using snoc False by simp
    have cmp: "lt x (last (sort_Slice lt xs)) \<longleftrightarrow> key x < key (last (sort_Slice lt xs))"
      using snoc.prems(1) mem by simp
    show ?thesis
    proof (cases "lt x (last (sort_Slice lt xs))")
      case True
      with False max cmp show ?thesis by (auto simp: last_sort_Slice_snoc)
    next
      case False
      with max cmp have "\<forall>y \<in> set xs. key y \<le> key x" by (meson leI order_trans)
      with False show ?thesis by (auto simp: last_sort_Slice_snoc)
    qed
  qed (simp add: sort_Slice_def)
qed simp

text \<open>The time of a condition, when it parses.\<close>

abbreviation kafka_time :: "(string \<Rightarrow> nat option) \<Rightarrow> kafka_condition \<Rightarrow> nat option" where
  "kafka_time parse c \<equiv> mustParseKafkaTransition parse (kc_lastTransitionTime c)"

section \<open>Properties\<close>

text \<open>Readiness of Kafka is judged by its latest condition.  When the transition times of all conditions parse, the condition
  chosen is one of them and none is later; so the infra waits exactly when the latest is not \<^verbatim>\<open>Ready\<close>.\<close>

theorem getLatestKafkaCondition_latest:
  assumes "kf_conditions k \<noteq> []" "list_all (\<lambda>c. kafka_time parse c \<noteq> None) (kf_conditions k)"
  shows "\<exists>c \<in> set (kf_conditions k). getLatestKafkaCondition parse k = Some c
     \<and> list_all (\<lambda>d. the (kafka_time parse d) \<le> the (kafka_time parse c)) (kf_conditions k)"
proof -
  let ?c = "last (sort_Slice (kafka_before parse) (kf_conditions k))"
  have "sort_Slice (kafka_before parse) (kf_conditions k) \<noteq> []" using assms(1) by (metis mset_sort_Slice set_empty)
  then have "?c \<in> set (kf_conditions k)" using last_in_set by (metis mset_sort_Slice)
  moreover have "\<forall>x \<in> set (kf_conditions k). \<forall>y \<in> set (kf_conditions k).
      kafka_before parse x y \<longleftrightarrow> the (kafka_time parse x) < the (kafka_time parse y)"
    using assms(2) by (auto simp: kafka_before_def list_all_iff split: option.split)
  then have "\<forall>x \<in> set (kf_conditions k). the (kafka_time parse x) \<le> the (kafka_time parse ?c)"
    using last_sort_Slice_max [OF _ assms(1), of "kafka_before parse" "\<lambda>c. the (kafka_time parse c)"] by blast
  ultimately show ?thesis using assms(1) by (auto simp: getLatestKafkaCondition_def list_all_iff)
qed

definition sample_kafka :: kafka where
  "sample_kafka = \<lparr>kf_meta = mk_meta ''kafka'' ''ns'',
     kf_conditions = [\<lparr>kc_type = ''Ready'', kc_lastTransitionTime = ''aa+00:00''\<rparr>, \<lparr>kc_type = ''NotReady'', kc_lastTransitionTime = ''a''\<rparr>],
     kf_listeners = [\<lparr>ls_type = ''plain'', ls_addresses = [(''kafka-bootstrap'', 9092)]\<rparr>]\<rparr>"

lemma getLatestKafkaCondition_latest_witness:
  "getLatestKafkaCondition (\<lambda>t. Some (length t)) sample_kafka = Some \<lparr>kc_type = ''Ready'', kc_lastTransitionTime = ''aa+00:00''\<rparr>
   \<and> (\<exists>c \<in> set (kf_conditions sample_kafka). getLatestKafkaCondition (\<lambda>t. Some (length t)) sample_kafka = Some c
      \<and> list_all (\<lambda>d. the (kafka_time (\<lambda>t. Some (length t)) d) \<le> the (kafka_time (\<lambda>t. Some (length t)) c)) (kf_conditions sample_kafka))"
proof
  show "getLatestKafkaCondition (\<lambda>t. Some (length t)) sample_kafka = Some \<lparr>kc_type = ''Ready'', kc_lastTransitionTime = ''aa+00:00''\<rparr>"
    by (simp add: getLatestKafkaCondition_def sample_kafka_def sort_Slice_def kafka_before_def mustParseKafkaTransition_def cut_zone_def)
qed (rule getLatestKafkaCondition_latest, simp_all add: sample_kafka_def mustParseKafkaTransition_def Let_def)

abbreviation infra_prop :: "kogito_infra \<Rightarrow> string \<Rightarrow> string" where
  "infra_prop inst k \<equiv> smap_get (is_infraProperties (ki_spec inst)) k"

abbreviation mongo_authDatabase :: "kogito_infra \<Rightarrow> string" where
  "mongo_authDatabase inst \<equiv> (if infra_prop inst ''auth-database'' = [] then ''admin'' else infra_prop inst ''auth-database'')"

text \<open>The MongoDB credentials.  The reconciler obtains them if and only if the user and the database are configured, the MongoDB
  instance lists that user for the authentication database, which is \<^verbatim>\<open>admin\<close> by default, and the secret of that user is found in
  the namespace of the instance; then the password is the entry under the key of the user, by default \<^verbatim>\<open>password\<close>.\<close>

theorem retrieveMongoDBCredentials_iff:
  "retrieveMongoDBCredentialsFromInstance E m inst w = Inr cr \<longleftrightarrow>
     infra_prop inst ''username'' \<noteq> [] \<and> infra_prop inst ''database'' \<noteq> []
     \<and> (\<exists>user sec. find (\<lambda>u. mu_db u = mongo_authDatabase inst \<and> mu_name u = infra_prop inst ''username'') (mdb_users m) = Some user
          \<and> sa_get (ie_secrets E) (om_namespace (mdb_meta m)) (mu_secretName user) w = Inr sec
          \<and> cr = \<lparr>mc_authDatabase = mongo_authDatabase inst, mc_username = infra_prop inst ''username'',
              mc_password = smap_get (sec_data sec) (if mu_secretKey user = [] then ''password'' else mu_secretKey user),
              mc_database = infra_prop inst ''database''\<rparr>)"
  unfolding retrieveMongoDBCredentialsFromInstance_def findMongoDBUserByUsernameAndAuthDatabase_def Let_def
  by (simp add: bindR_eq_Inr FetchWithKey_cases split: option.split if_split_asm) (auto simp: bindR_eq_Inr FetchWithKey_cases split: option.splits)

end
