(* ===== verification/Service_Messaging.thy ===== *)
theory Service_Messaging
  imports Service_Monitoring Infra_Reconcilers
begin

text \<open>
  Messaging of a running service, \<^verbatim>\<open>core/kogitoservice/messaging.go\<close>, \<^verbatim>\<open>messaging_kafka.go\<close>, \<^verbatim>\<open>messaging_knative.go\<close>: the topics the
  service lists become Kafka topics, or Knative triggers and a sink binding, and the events go into the status of the service.
\<close>

section \<open>Data\<close>

record messaging_event =
  me_type :: string
  me_source :: string
  me_kind :: string

record messaging_topic =
  mt_name :: string
  mt_kind :: string
  mt_eventsMeta :: "messaging_event list"

abbreviation (input) incoming :: string where "incoming \<equiv> ''INCOMING''"
abbreviation (input) consumed :: string where "consumed \<equiv> ''CONSUMED''"
abbreviation (input) produced :: string where "produced \<equiv> ''PRODUCED''"

text \<open>Name, namespace, kind and API version of a referenced object.\<close>

record kreference =
  kr_name :: string
  kr_namespace :: string
  kr_kind :: string
  kr_apiVersion :: string

record ktrigger =
  tr_meta :: object_meta
  tr_broker :: string
  tr_filter :: smap
  tr_subscriber :: kreference

record sink_binding =
  sb_meta :: object_meta
  sb_sink :: kreference
  sb_subject :: kreference

text \<open>The pseudo random numbers below 10000 come from the state; Knative's API version is a constant of its library.\<close>

record 'w messaging_env =
  mg_http :: "'w http_api"
  mg_decodeTopics :: "string \<Rightarrow> messaging_topic list option"
  mg_intn :: "'w \<Rightarrow> nat \<times> 'w"
  mg_topics :: "('w, kafka_topic) store_api"
  mg_triggers :: "('w, ktrigger) store_api"
  mg_sinkBindings :: "('w, sink_binding) store_api"
  mg_eventingAPIVersion :: string

text \<open>What the deployers carry: their environment, the cluster, the context and the handler of infras.\<close>

record 'w messaging_deployer =
  md_env :: "'w messaging_env"
  md_cluster :: "'w cluster"
  md_context :: op_context
  md_infra :: "'w infra_handler"

text \<open>The calls change the service, whose status they set, and the cluster.\<close>

type_synonym 'w messaging_call = "kogito_service \<times> 'w \<Rightarrow> (gerr + unit) \<times> (kogito_service \<times> 'w)"

section \<open>Topics and events, messaging.go\<close>

definition events_of_kind :: "string \<Rightarrow> messaging_topic list \<Rightarrow> cloud_event_info list" where
  "events_of_kind kind topics =
     map (\<lambda>e. \<lparr>ce_type = me_type e, ce_source = me_source e\<rparr>) (filter (\<lambda>e. me_kind e = kind) (concat (map mt_eventsMeta topics)))"

text \<open>The events are a struct of \<^verbatim>\<open>v1beta1\<close>, whatever the package of the service.\<close>

definition setCloudEventsStatus :: "messaging_topic list \<Rightarrow> kogito_service \<Rightarrow> kogito_service" where
  "setCloudEventsStatus topics inst =
     map_status (SetCloudEvents (ks_package inst)
       (PointerTo V1beta1 \<lparr>ces_consumes = events_of_kind consumed topics, ces_produces = events_of_kind produced topics\<rparr>)) inst"

definition fetchRequiredTopicsForURL :: "'w messaging_deployer \<Rightarrow> kogito_service \<Rightarrow> string \<Rightarrow> 'w \<Rightarrow> gerr + messaging_topic list" where
  "fetchRequiredTopicsForURL D inst serverURL w =
     bindR (IsDeploymentAvailable (md_cluster D) (ks_namespace inst) (ks_name inst) w) (\<lambda>available.
       if \<not> available then Inr []
       else let topicsURL = serverURL @ ''/messaging/topics''
            in bindR (ht_get (mg_http (md_env D)) topicsURL w) (\<lambda>(statusCode, body).
                 if statusCode = 404 then Inr []
                 else if statusCode \<noteq> 200 then Inl (ErrorForServiceNotReachable statusCode topicsURL ''GET'')
                 else (case body of
                         Inr bytes \<Rightarrow> (case mg_decodeTopics (md_env D) bytes of
                             Some topics \<Rightarrow> Inr topics
                           | None \<Rightarrow> Inl (PlainError (''Failed to decode response from '' @ topicsURL @ '' into topics '')))
                       | Inl _ \<Rightarrow> Inl (PlainError (''Failed to decode response from '' @ topicsURL @ '' into topics '')))))"

definition fetchTopicsAndSetCloudEventsStatus ::
  "'w messaging_deployer \<Rightarrow> kogito_service \<times> 'w \<Rightarrow> (gerr + messaging_topic list) \<times> (kogito_service \<times> 'w)" where
  "fetchTopicsAndSetCloudEventsStatus D s =
     (case fetchRequiredTopicsForURL D (fst s) (GetKogitoServiceURL (md_context D) (fst s)) (snd s) of
        Inl e \<Rightarrow> (Inl e, s)
      | Inr topics \<Rightarrow> (Inr topics, (setCloudEventsStatus topics (fst s), snd s)))"

fun find_infra :: "'w infra_handler \<Rightarrow> string \<Rightarrow> (kogito_infra \<Rightarrow> bool) \<Rightarrow> string list \<Rightarrow> 'w \<Rightarrow> gerr + kogito_infra option" where
  "find_infra H namespace checker [] w = Inr None"
| "find_infra H namespace checker (infraName # names) w =
     bindR (MustFetchKogitoInfraInstance H namespace infraName w) (\<lambda>infra.
       if checker infra then Inr (Some infra) else find_infra H namespace checker names w)"

definition fetchInfraDependency :: "'w messaging_deployer \<Rightarrow> kogito_service \<Rightarrow> (kogito_infra \<Rightarrow> bool) \<Rightarrow> 'w \<Rightarrow> gerr + kogito_infra option" where
  "fetchInfraDependency D inst checker w = find_infra (md_infra D) (ks_namespace inst) checker (ss_infra (ks_spec inst)) w"

definition in_world :: "('w \<Rightarrow> (gerr + unit) \<times> 'w) \<Rightarrow> 'w messaging_call" where
  "in_world f s = (case f (snd s) of (r, w') \<Rightarrow> (r, (fst s, w')))"

section \<open>Kafka, messaging\_kafka.go\<close>

definition IsKafkaInfra :: "kogito_infra \<Rightarrow> bool" where
  "IsKafkaInfra i = (case is_resource (ki_spec i) of None \<Rightarrow> False | Some r \<Rightarrow> IsKafkaResource (ir_apiVersion r) (ir_kind r))"

definition getKafkaInstanceNamespaceName :: "kogito_infra \<Rightarrow> gerr + (string \<times> string)" where
  "getKafkaInstanceNamespaceName i =
     (case is_resource (ki_spec i) of
        None \<Rightarrow> Inl (Panic ''nil pointer dereference'')
      | Some r \<Rightarrow>
          if ir_name r \<noteq> [] then Inr (if ir_namespace r = [] then ki_namespace i else ir_namespace r, ir_name r)
          else Inl (PlainError (''no Kafka instances found on KogitoInfra reference: '' @ ki_name i)))"

definition createKafkaTopicIfNotExists :: "'w messaging_deployer \<Rightarrow> kogito_infra \<Rightarrow> string \<Rightarrow> 'w \<Rightarrow> (gerr + unit) \<times> 'w" where
  "createKafkaTopicIfNotExists D i topicName w =
     (case getKafkaInstanceNamespaceName i of
        Inl e \<Rightarrow> (Inl e, w)
      | Inr (kafkaNamespace, kafkaName) \<Rightarrow>
          (case FetchKafkaTopic (mg_topics (md_env D)) kafkaNamespace topicName w of
             Inl e \<Rightarrow> (Inl e, w)
           | Inr None \<Rightarrow> bindS (CreateKafkaTopic (mg_topics (md_env D)) topicName kafkaName kafkaNamespace) (\<lambda>_. returnS ()) w
           | Inr (Some _) \<Rightarrow> (Inr (), w)))"

definition createRequiredKafkaTopics :: "'w messaging_deployer \<Rightarrow> kogito_infra \<Rightarrow> 'w messaging_call" where
  "createRequiredKafkaTopics D i s =
     (case FetchConfigMap (cl_configMaps (md_cluster D)) (ki_namespace i) (GetKafkaConfigMapName Quarkus) (snd s) of
        Inl e \<Rightarrow> (Inl e, s)
      | Inr None \<Rightarrow> (Inr (), s)
      | Inr (Some kafkaConfigMap) \<Rightarrow>
          if smap_get (cm_data kafkaConfigMap) ''kafka.bootstrap.servers'' = [] then (Inr (), s)
          else bindS (fetchTopicsAndSetCloudEventsStatus D)
                 (eachS (\<lambda>topic. in_world (createKafkaTopicIfNotExists D i (mt_name topic)))) s)"

definition kafka_CreateRequiredResources :: "'w messaging_deployer \<Rightarrow> 'w messaging_call" where
  "kafka_CreateRequiredResources D s =
     (case fetchInfraDependency D (fst s) IsKafkaInfra (snd s) of
        Inl e \<Rightarrow> (Inl e, s)
      | Inr None \<Rightarrow> (Inr (), s)
      | Inr (Some i) \<Rightarrow> createRequiredKafkaTopics D i s)"

section \<open>Knative, messaging\_knative.go\<close>

definition isKnativeEventingInfra :: "'w messaging_deployer \<Rightarrow> kogito_infra \<Rightarrow> bool" where
  "isKnativeEventingInfra D i =
     (case is_resource (ki_spec i) of None \<Rightarrow> False
      | Some r \<Rightarrow> IsKnativeEventingResource (mg_eventingAPIVersion (md_env D)) (ir_apiVersion r) (ir_kind r))"

abbreviation infra_resource_of :: "kogito_infra \<Rightarrow> infra_resource" where
  "infra_resource_of i \<equiv> (case is_resource (ki_spec i) of Some r \<Rightarrow> r | None \<Rightarrow> \<lparr>ir_apiVersion = [], ir_kind = [], ir_namespace = [], ir_name = []\<rparr>)"

definition newSinkBinding :: "'w messaging_deployer \<Rightarrow> kogito_service \<Rightarrow> kogito_infra \<Rightarrow> sink_binding" where
  "newSinkBinding D inst i =
     (let r = infra_resource_of i
      in \<lparr>sb_meta = (mk_meta (ks_name inst @ ''-publisher'') (ks_namespace inst))\<lparr>om_labels := [(''app'', ks_name inst)]\<rparr>,
          sb_sink = \<lparr>kr_name = (if ir_name r = [] then ks_name inst else ir_name r),
                     kr_namespace = (if ir_namespace r = [] then ks_namespace inst else ir_namespace r),
                     kr_kind = ''Broker'', kr_apiVersion = mg_eventingAPIVersion (md_env D)\<rparr>,
          sb_subject = \<lparr>kr_name = ks_name inst, kr_namespace = ks_namespace inst, kr_kind = ''Deployment'', kr_apiVersion = ''apps/v1''\<rparr>\<rparr>)"

definition trigger_labels :: "kogito_service \<Rightarrow> messaging_event \<Rightarrow> smap" where
  "trigger_labels inst e = [(''app'', ks_name inst), (''kogito.kie.org/cloudEventType'', me_type e)]"

definition RandomSuffix :: "'w messaging_env \<Rightarrow> 'w \<Rightarrow> string \<times> 'w" where
  "RandomSuffix G w = (case mg_intn G w of (n, w') \<Rightarrow> (Itoa (int n), w'))"

definition newTrigger :: "string \<Rightarrow> messaging_event \<Rightarrow> kogito_service \<Rightarrow> kogito_infra \<Rightarrow> ktrigger" where
  "newTrigger suffix e inst i =
     \<lparr>tr_meta = (mk_meta (ks_name inst @ ''-listener-'' @ suffix) (ks_namespace inst))\<lparr>om_labels := trigger_labels inst e\<rparr>,
      tr_broker = ir_name (infra_resource_of i),
      tr_filter = [(''type'', me_type e)],
      tr_subscriber = \<lparr>kr_name = ks_name inst, kr_namespace = ks_namespace inst, kr_kind = ''Service'', kr_apiVersion = ''v1''\<rparr>\<rparr>"

definition triggerExists :: "'w messaging_deployer \<Rightarrow> messaging_event \<Rightarrow> kogito_service \<Rightarrow> 'w \<Rightarrow> gerr + bool" where
  "triggerExists D e inst w =
     bindR (ListWithNamespaceAndLabel (mg_triggers (md_env D)) (ks_namespace inst) (trigger_labels inst e) w) (\<lambda>triggers.
       Inr (list_ex (\<lambda>t. IsOwner (tr_meta t) (ks_meta inst)) triggers))"

definition own_trigger :: "op_context \<Rightarrow> kogito_service \<Rightarrow> ktrigger \<Rightarrow> gerr + ktrigger" where
  "own_trigger cx inst t = bindR (cx_setControllerReference cx (ks_meta inst) (tr_meta t)) (\<lambda>m. Inr (t\<lparr>tr_meta := m\<rparr>))"

definition own_sinkBinding :: "op_context \<Rightarrow> kogito_service \<Rightarrow> sink_binding \<Rightarrow> gerr + sink_binding" where
  "own_sinkBinding cx inst b = bindR (cx_setControllerReference cx (ks_meta inst) (sb_meta b)) (\<lambda>m. Inr (b\<lparr>sb_meta := m\<rparr>))"

definition create_trigger :: "'w messaging_deployer \<Rightarrow> kogito_service \<Rightarrow> kogito_infra \<Rightarrow> messaging_event \<Rightarrow> 'w \<Rightarrow> (gerr + unit) \<times> 'w" where
  "create_trigger D inst i e w =
     (case triggerExists D e inst w of
        Inl err \<Rightarrow> (Inl err, w)
      | Inr True \<Rightarrow> (Inr (), w)
      | Inr False \<Rightarrow>
          (case RandomSuffix (md_env D) w of (suffix, w1) \<Rightarrow>
             bindS (CreateForOwner (mg_triggers (md_env D)) (own_trigger (md_context D) inst) (newTrigger suffix e inst i)) (\<lambda>_. returnS ()) w1))"

definition createKnativeTriggersIfNotExists ::
  "'w messaging_deployer \<Rightarrow> kogito_service \<Rightarrow> kogito_infra \<Rightarrow> messaging_topic \<Rightarrow> 'w \<Rightarrow> (gerr + unit) \<times> 'w" where
  "createKnativeTriggersIfNotExists D inst i topic w =
     (if mt_kind topic = incoming then eachS (create_trigger D inst i) (mt_eventsMeta topic) w else (Inr (), w))"

definition create_sink_binding :: "'w messaging_deployer \<Rightarrow> kogito_service \<Rightarrow> kogito_infra \<Rightarrow> 'w \<Rightarrow> (gerr + unit) \<times> 'w" where
  "create_sink_binding D inst i =
     bindS (CreateIfNotExistsForOwner (mg_sinkBindings (md_env D)) (own_sinkBinding (md_context D) inst) (newSinkBinding D inst i)) (\<lambda>_. returnS ())"

definition knative_CreateRequiredResources :: "'w messaging_deployer \<Rightarrow> 'w messaging_call" where
  "knative_CreateRequiredResources D s =
     (case fetchInfraDependency D (fst s) (isKnativeEventingInfra D) (snd s) of
        Inl e \<Rightarrow> (Inl e, s)
      | Inr None \<Rightarrow> (Inr (), s)
      | Inr (Some i) \<Rightarrow>
          bindS (in_world (create_sink_binding D (fst s) i)) (\<lambda>_.
          bindS (fetchTopicsAndSetCloudEventsStatus D) (\<lambda>topics.
            eachS (\<lambda>topic. in_world (createKnativeTriggersIfNotExists D (fst s) i topic)) topics)) s)"

section \<open>Lemmas\<close>

text \<open>The random numbers do not depend on the objects in the cluster, nor the other way round.\<close>

definition random_apart :: "'w messaging_env \<Rightarrow> bool" where
  "random_apart G \<longleftrightarrow> (\<forall>w ns labels. sa_list (mg_triggers G) ns labels (snd (mg_intn G w)) = sa_list (mg_triggers G) ns labels w)"

lemma triggerExists_iff:
  "triggerExists D e inst w = Inr b \<longleftrightarrow> (\<exists>ts. sa_list (mg_triggers (md_env D)) (ks_namespace inst) (trigger_labels inst e) w = Inr ts
     \<and> (b \<longleftrightarrow> (\<exists>t \<in> set ts. IsOwner (tr_meta t) (ks_meta inst))))"
  by (auto simp: triggerExists_def ListWithNamespaceAndLabel_def bindR_eq_Inr list_ex_iff)

lemma created_trigger:
  assumes "create_trigger D inst i e w = (Inr (), w')" "random_apart (md_env D)"
  shows "w' = w \<and> triggerExists D e inst w = Inr True
     \<or> (\<exists>suffix w1 m y. cx_setControllerReference (md_context D) (ks_meta inst) (tr_meta (newTrigger suffix e inst i)) = Inr m
          \<and> sa_create (mg_triggers (md_env D)) ((newTrigger suffix e inst i)\<lparr>tr_meta := m\<rparr>) w1 = (Inr y, w')
          \<and> triggerExists D e inst w = Inr False
          \<and> (\<forall>ns l. sa_list (mg_triggers (md_env D)) ns l w1 = sa_list (mg_triggers (md_env D)) ns l w))"
  using assms
  by (auto simp: create_trigger_def RandomSuffix_def random_apart_def bindS_eq_Inr CreateForOwner_def own_trigger_def Create_def
      bindR_eq_Inr split: sum.splits bool.splits prod.splits) (metis snd_conv)

definition trigger_laws :: "'w messaging_deployer \<Rightarrow> kogito_service \<Rightarrow> bool" where
  "trigger_laws D inst \<longleftrightarrow> list_after_create (mg_triggers (md_env D)) \<and> sa_meta (mg_triggers (md_env D)) = tr_meta
     \<and> controller_reference_set (md_context D) (ks_meta inst) \<and> random_apart (md_env D)"

lemma create_trigger_keeps:
  assumes "trigger_laws D inst" "create_trigger D inst i e w = (Inr (), w')" "triggerExists D e' inst w = Inr True"
  shows "triggerExists D e' inst w' = Inr True"
proof -
  obtain ts t where ts: "sa_list (mg_triggers (md_env D)) (ks_namespace inst) (trigger_labels inst e') w = Inr ts"
      "t \<in> set ts" "IsOwner (tr_meta t) (ks_meta inst)"
    using assms(3) by (auto simp: triggerExists_iff)
  consider "w' = w" | x y w1 where "sa_create (mg_triggers (md_env D)) x w1 = (Inr y, w')"
      "\<forall>ns l. sa_list (mg_triggers (md_env D)) ns l w1 = sa_list (mg_triggers (md_env D)) ns l w"
    using created_trigger [OF assms(2)] assms(1) unfolding trigger_laws_def by metis
  then show ?thesis
  proof cases
    case 2
    then obtain ys where "sa_list (mg_triggers (md_env D)) (ks_namespace inst) (trigger_labels inst e') w' = Inr ys" "set ts \<subseteq> set ys"
      using ts(1) assms(1) unfolding trigger_laws_def list_after_create_def by metis
    then show ?thesis using ts by (auto simp: triggerExists_iff)
  qed (simp add: assms(3))
qed

lemma create_trigger_creates:
  assumes "trigger_laws D inst" "create_trigger D inst i e w = (Inr (), w')"
  shows "triggerExists D e inst w' = Inr True"
proof -
  consider "w' = w" "triggerExists D e inst w = Inr True"
    | suffix w1 m y where "cx_setControllerReference (md_context D) (ks_meta inst) (tr_meta (newTrigger suffix e inst i)) = Inr m"
        "sa_create (mg_triggers (md_env D)) ((newTrigger suffix e inst i)\<lparr>tr_meta := m\<rparr>) w1 = (Inr y, w')"
        "triggerExists D e inst w = Inr False"
        "\<forall>ns l. sa_list (mg_triggers (md_env D)) ns l w1 = sa_list (mg_triggers (md_env D)) ns l w"
    using created_trigger [OF assms(2)] assms(1) unfolding trigger_laws_def by metis
  then show ?thesis
  proof cases
    case 2
    let ?x = "(newTrigger suffix e inst i)\<lparr>tr_meta := m\<rparr>"
    have m: "IsOwner m (ks_meta inst)" "om_namespace m = ks_namespace inst" "om_labels m = trigger_labels inst e"
      using 2(1) assms(1) by (auto simp: trigger_laws_def controller_reference_set_def newTrigger_def mk_meta_def)
    then have "has_labels (trigger_labels inst e) (tr_meta ?x)"
      by (simp add: has_labels_def trigger_labels_def)
    moreover obtain ts where "sa_list (mg_triggers (md_env D)) (ks_namespace inst) (trigger_labels inst e) w1 = Inr ts"
      using 2(3,4) by (auto simp: triggerExists_iff)
    ultimately obtain ys where ys: "sa_list (mg_triggers (md_env D)) (ks_namespace inst) (trigger_labels inst e) w' = Inr ys" "y \<in> set ys"
        "om_owners (tr_meta y) = om_owners m"
      using 2(2) m(2) assms(1) unfolding trigger_laws_def list_after_create_def by fastforce
    then have "IsOwner (tr_meta y) (ks_meta inst)" using m(1) by (simp add: IsOwner_def)
    with ys show ?thesis by (auto simp: triggerExists_iff)
  qed simp
qed

lemma create_trigger_noop: "triggerExists D e inst w = Inr True \<Longrightarrow> create_trigger D inst i e w = (Inr (), w)"
  by (simp add: create_trigger_def)

lemma created_topic:
  assumes "createKafkaTopicIfNotExists D i topicName w = (Inr (), w')" "read_after_create (mg_topics (md_env D))" "sa_meta (mg_topics (md_env D)) = kt_meta"
  shows "(\<exists>ns n k. getKafkaInstanceNamespaceName i = Inr (ns, n) \<and> sa_get (mg_topics (md_env D)) ns topicName w' = Inr k)
     \<and> (w' = w \<or> (\<exists>x y. sa_create (mg_topics (md_env D)) x w = (Inr y, w')))"
proof -
  obtain ns n where n: "getKafkaInstanceNamespaceName i = Inr (ns, n)"
    using assms(1) by (cases "getKafkaInstanceNamespaceName i") (auto simp: createKafkaTopicIfNotExists_def)
  consider k where "w' = w" "sa_get (mg_topics (md_env D)) ns topicName w = Inr k"
    | y where "sa_create (mg_topics (md_env D)) (getKafkaTopic topicName ns n) w = (Inr y, w')"
    using assms(1) n
    by (auto simp: createKafkaTopicIfNotExists_def FetchKafkaTopic_def CreateKafkaTopic_def Create_def FetchWithKey_cases bindS_eq_Inr
        split: sum.splits option.splits)
  then show ?thesis
  proof cases
    case 2
    then have "sa_get (mg_topics (md_env D)) ns topicName w' = Inr y"
      using assms(2,3) unfolding read_after_create_def by (fastforce simp: getKafkaTopic_def mk_meta_def)
    with 2 n show ?thesis by blast
  qed (use n in auto)
qed

section \<open>Properties\<close>


text \<open>The concrete instances run on a service with an infra for each kind of messaging: the events \<open>e\<close> and \<open>f\<close> are consumed
  and produced on one incoming topic.\<close>

type_synonym messaging_world = "configmap list \<times> deployment list \<times> kafka_topic list \<times> ktrigger list"

definition sample_topic :: messaging_topic where
  "sample_topic = \<lparr>mt_name = ''orders'', mt_kind = incoming, mt_eventsMeta =
     [\<lparr>me_type = ''e'', me_source = ''/s'', me_kind = consumed\<rparr>, \<lparr>me_type = ''f'', me_source = ''/s'', me_kind = produced\<rparr>]\<rparr>"

definition broker_infra :: "string \<Rightarrow> string \<Rightarrow> string \<Rightarrow> kogito_infra" where
  "broker_infra apiVersion kind name = \<lparr>ki_meta = mk_meta name ''ns'',
     ki_spec = \<lparr>is_resource = Some \<lparr>ir_apiVersion = apiVersion, ir_kind = kind, ir_namespace = [], ir_name = name\<rparr>, is_infraProperties = [],
       is_envs = [], is_configMapEnvFrom = [], is_configMapVolumes = [], is_secretEnvFrom = [], is_secretVolumes = []\<rparr>,
     ki_status = \<lparr>ist_conditions = None, ist_envs = [], ist_configMapEnvFrom = [], ist_configMapVolumes = [], ist_secretEnvFrom = [],
       ist_secretVolumes = []\<rparr>\<rparr>"

definition sample_messaging :: "messaging_world messaging_deployer" where
  "sample_messaging =
     \<lparr>md_env = \<lparr>mg_http = \<lparr>ht_get = (\<lambda>u w. Inr (200, Inr ''topics'')), ht_head = (\<lambda>u w. Inr 200)\<rparr>,
        mg_decodeTopics = (\<lambda>s. Some [sample_topic]), mg_intn = (\<lambda>w. (length (snd (snd (snd w))), w)),
        mg_topics = lens_api (\<lambda>w. fst (snd (snd w))) (\<lambda>x w. (fst w, fst (snd w), x, snd (snd (snd w)))) (mem_api kt_meta),
        mg_triggers = lens_api (\<lambda>w. snd (snd (snd w))) (\<lambda>x w. (fst w, fst (snd w), fst (snd (snd w)), x)) (mem_api tr_meta),
        mg_sinkBindings = lens_api (\<lambda>_. []) (\<lambda>_ w. w) (mem_api sb_meta), mg_eventingAPIVersion = ''eventing.knative.dev/v1''\<rparr>,
      md_cluster = \<lparr>cl_isOpenshift = False,
        cl_deployments = lens_api (\<lambda>w. fst (snd w)) (\<lambda>x w. (fst w, x, snd (snd w))) (mem_api dep_meta),
        cl_configMaps = lens_api fst (\<lambda>x w. (x, snd w)) (mem_api cm_meta),
        cl_secrets = lens_api (\<lambda>_. []) (\<lambda>_ w. w) (mem_api sec_meta), cl_services = lens_api (\<lambda>_. []) (\<lambda>_ w. w) (mem_api svc_meta),
        cl_routes = lens_api (\<lambda>_. []) (\<lambda>_ w. w) (mem_api rt_meta), cl_kogitoServices = lens_api (\<lambda>_. []) (\<lambda>_ w. w) (mem_api ks_meta)\<rparr>,
      md_context = owning_context,
      md_infra = (\<lambda>ns n w. Inr (if n = ''kafka'' then Some (broker_infra KafkaAPIVersion KafkaKind n)
                               else Some (broker_infra ''eventing.knative.dev/v1'' ''Broker'' n)))\<rparr>"

lemma sample_trigger_laws: "trigger_laws sample_messaging sample_service"
proof -
  have "list_after_create (mg_triggers (md_env sample_messaging))"
    using list_after_create_mem [of tr_meta]
    by (simp add: list_after_create_def sample_messaging_def split: prod.split)
  then show ?thesis
    by (auto simp: trigger_laws_def controller_reference_set_def random_apart_def sample_messaging_def owning_context_def add_owner_def
        IsOwner_def new_owner_reference_def owned_by_iff)
qed

lemma sample_triggers_run:
  "\<exists>w'. eachS (createKnativeTriggersIfNotExists sample_messaging sample_service i) [sample_topic] ([], [], [], []) = (Inr (), w')"
  by (simp add: createKnativeTriggersIfNotExists_def sample_topic_def create_trigger_def triggerExists_def ListWithNamespaceAndLabel_def
      RandomSuffix_def CreateForOwner_def own_trigger_def Create_def newTrigger_def trigger_labels_def sample_messaging_def owning_context_def
      mem_simps bindS_def add_owner_def IsOwner_def new_owner_reference_def mk_meta_def Itoa_def digits_of.simps)



definition kafka_config :: configmap where
  "kafka_config = \<lparr>cm_meta = mk_meta (GetKafkaConfigMapName Quarkus) ''ns'', cm_data = [(''kafka.bootstrap.servers'', ''k:9092'')], cm_binaryData = []\<rparr>"

lemma sample_topics_laws:
  "read_after_create (mg_topics (md_env sample_messaging))" "get_after_create (mg_topics (md_env sample_messaging))"
  "sa_meta (mg_topics (md_env sample_messaging)) = kt_meta"
  using read_after_create_mem [of kt_meta] get_after_create_mem [of kt_meta]
  by (simp_all add: read_after_create_def get_after_create_def sample_messaging_def split: prod.split)



text \<open>The events of a service of the product never reach its status.  A messaging run on a service of the package \<^verbatim>\<open>apis/rhpam/v1\<close>, over Kafka
  or Knative, successful or not, leaves the status of the service as it was.\<close>

theorem product_events_not_recorded:
  assumes "ks_package inst = V1"
  shows "ks_status (fst (snd (kafka_CreateRequiredResources D (inst, w)))) = ks_status inst
     \<and> ks_status (fst (snd (knative_CreateRequiredResources D (inst, w)))) = ks_status inst"
proof -
  have set: "setCloudEventsStatus topics inst = inst" for topics
    using assms by (simp add: setCloudEventsStatus_def map_status_def SetCloudEvents_def)
  have fetch: "fst (snd (fetchTopicsAndSetCloudEventsStatus D (inst, w'))) = inst" for w'
    by (simp add: fetchTopicsAndSetCloudEventsStatus_def set split: sum.split)
  have each: "fst (snd (eachS (\<lambda>t. in_world (f t)) ts s)) = inst" if "fst s = inst" for f and ts :: "messaging_topic list" and s :: "kogito_service \<times> 'a"
    using eachS_invariant [of "\<lambda>s. fst s = inst" "\<lambda>t. in_world (f t)"] that by (simp add: in_world_def split: prod.split)
  have run: "fst (snd (bindS (fetchTopicsAndSetCloudEventsStatus D) (eachS (\<lambda>t. in_world (f t))) (inst, w'))) = inst" for f w'
    using fetch [of w'] each by (auto simp: bindS_def split: prod.splits sum.splits)
  show ?thesis
    using run each by (auto simp: kafka_CreateRequiredResources_def createRequiredKafkaTopics_def knative_CreateRequiredResources_def in_world_def
        bindS_def [of "in_world _"] split: sum.splits option.splits prod.splits)
qed

text \<open>A service of the product that is available, and whose run creates a topic.\<close>

lemma product_events_not_recorded_witness:
  "\<exists>inst w. ks_package inst = V1
     \<and> fetchRequiredTopicsForURL sample_messaging inst (GetKogitoServiceURL owning_context inst) w = Inr [sample_topic]
     \<and> fst (kafka_CreateRequiredResources sample_messaging (inst, w)) = Inr ()
     \<and> ks_status (fst (snd (kafka_CreateRequiredResources sample_messaging (inst, w)))) = ks_status inst"
proof -
  let ?inst = "(map_spec (AddInfra ''kafka'') sample_service)\<lparr>ks_package := V1\<rparr>"
  let ?dep = "sample_deployment\<lparr>dep_meta := mk_meta ''app'' ''ns'', dep_status := (dep_status sample_deployment)\<lparr>ds_availableReplicas := 1\<rparr>\<rparr>"
  let ?w = "([kafka_config], [?dep], [], []) :: messaging_world" and ?i = "broker_infra KafkaAPIVersion KafkaKind ''kafka''"
  note defs = sample_messaging_def kafka_config_def mem_simps mk_meta_def sample_service_def sample_spec_def map_spec_def AddInfra_def
  have pkg: "ks_package ?inst = V1" by simp
  have on: "IsDeploymentAvailable (md_cluster sample_messaging) (ks_namespace ?inst) (ks_name ?inst) ?w = Inr True"
    by (simp add: IsDeploymentAvailable_def FetchDeployment_def FetchWithKey_def defs)
  then have topics: "fetchRequiredTopicsForURL sample_messaging ?inst url ?w = Inr [sample_topic]" for url
    by (simp add: fetchRequiredTopicsForURL_def sample_messaging_def)
  have infra: "fetchInfraDependency sample_messaging ?inst IsKafkaInfra ?w = Inr (Some ?i)"
    by (simp add: fetchInfraDependency_def MustFetchKogitoInfraInstance_def IsKafkaInfra_def IsKafkaResource_def broker_infra_def defs)
  have cm: "FetchConfigMap (cl_configMaps (md_cluster sample_messaging)) (ki_namespace ?i) (GetKafkaConfigMapName Quarkus) ?w = Inr (Some kafka_config)"
    by (simp add: FetchConfigMap_def FetchWithKey_def broker_infra_def defs)
  have uri: "smap_get (cm_data kafka_config) ''kafka.bootstrap.servers'' \<noteq> []" by (simp add: kafka_config_def smap_get_def)
  have "\<exists>s'. in_world (createKafkaTopicIfNotExists sample_messaging ?i (mt_name sample_topic)) (s, ?w) = (Inr (), s')" for s
    by (simp add: in_world_def createKafkaTopicIfNotExists_def getKafkaInstanceNamespaceName_def broker_infra_def FetchKafkaTopic_def
        FetchWithKey_def CreateKafkaTopic_def Create_def sample_topic_def bindS_def returnS_def defs IsNotFound_def)
  then obtain s' where "in_world (createKafkaTopicIfNotExists sample_messaging ?i (mt_name sample_topic))
      (setCloudEventsStatus [sample_topic] ?inst, ?w) = (Inr (), s')" by blast
  then have "fst (kafka_CreateRequiredResources sample_messaging (?inst, ?w)) = Inr ()"
    using infra cm uri topics
    by (simp add: kafka_CreateRequiredResources_def createRequiredKafkaTopics_def fetchTopicsAndSetCloudEventsStatus_def bindS_def)
  moreover have "ks_status (fst (snd (kafka_CreateRequiredResources sample_messaging (?inst, ?w)))) = ks_status ?inst"
    using product_events_not_recorded [OF pkg] by (rule conjunct1)
  ultimately show ?thesis using topics pkg by (intro exI [of _ ?inst] exI [of _ ?w] conjI)
qed

end
