(* ===== verification/Service_Deployer.thy ===== *)
theory Service_Deployer
  imports Service_Deployment Service_Messaging
begin

text \<open>
  The deployment of a Kogito service as a pipeline of reconcilers, \<^verbatim>\<open>core/kogitoservice/deployer.go\<close> with
  \<^verbatim>\<open>config_reconciler.go\<close>, \<^verbatim>\<open>propconfigmap_reconciler.go\<close>, \<^verbatim>\<open>truststore_reconciler.go\<close>, \<^verbatim>\<open>kogitoinfra_reconciler.go\<close>,
  \<^verbatim>\<open>service_reconciler.go\<close> and \<^verbatim>\<open>route_reconciler.go\<close>.  The reconcilers share the instance and the service
  definition through pointers; a stage is a call on the state of both and the cluster.
\<close>

record 'w deploy_state =
  dst_instance :: kogito_service
  dst_definition :: "'w service_definition"
  dst_world :: 'w

text \<open>What the pipeline works with: the cluster, the context, the libraries, the handler of infras, and the
  managers of monitoring and messaging it calls at its end.\<close>

record 'w deploy_env =
  de_cluster :: "'w cluster"
  de_images :: "'w image_cluster"
  de_context :: op_context
  de_conditions :: cond_api
  de_serverMinor :: "gerr + string"
  de_infra :: "'w infra_handler"
  de_configMapLib :: "('w, configmap) delta_lib"
  de_imageStreamLib :: "('w, image_stream) delta_lib"
  de_deploymentLib :: "('w, deployment) delta_lib"
  de_serviceLib :: "('w, kservice) delta_lib"
  de_routeLib :: "('w, route) delta_lib"
  de_servicesEqual :: "kservice \<Rightarrow> kservice \<Rightarrow> bool"  \<comment> \<open>compare.EqualPairs on the compared fields\<close>
  de_monitoring :: "'w monitoring_env"
  de_messaging :: "'w messaging_env"

type_synonym 'w stage = "'w deploy_state \<Rightarrow> (gerr + unit) \<times> 'w deploy_state"

text \<open>A call that only changes the cluster, as a stage.\<close>

definition on_world :: "(kogito_service \<Rightarrow> 'w service_definition \<Rightarrow> 'w \<Rightarrow> (gerr + unit) \<times> 'w) \<Rightarrow> 'w stage" where
  "on_world f s = (case f (dst_instance s) (dst_definition s) (dst_world s) of (r, w') \<Rightarrow> (r, s\<lparr>dst_world := w'\<rparr>))"

section \<open>Configuration, config\_reconciler.go\<close>

definition getInfraPropertiesConfigMapName :: "kogito_service \<Rightarrow> string" where
  "getInfraPropertiesConfigMapName inst = ks_name inst @ ''-properties''"

definition createInfraPropertiesConfigMap :: "kogito_service \<Rightarrow> configmap" where
  "createInfraPropertiesConfigMap inst =
     \<lparr>cm_meta = (mk_meta (getInfraPropertiesConfigMapName inst) (ks_namespace inst))\<lparr>om_labels := [(''app'', ks_name inst)]\<rparr>,
      cm_data = ss_config (ks_spec inst), cm_binaryData = []\<rparr>"

definition cr_createRequiredResources :: "op_context \<Rightarrow> kogito_service \<Rightarrow> 'w \<Rightarrow> gerr + configmap list" where
  "cr_createRequiredResources cx inst w =
     bindR (own_object cx (ks_meta inst) cm_meta (\<lambda>m c. c\<lparr>cm_meta := m\<rparr>) (createInfraPropertiesConfigMap inst)) (\<lambda>c. Inr [c])"

definition cr_getDeployedResources :: "'w cluster \<Rightarrow> kogito_service \<Rightarrow> 'w \<Rightarrow> gerr + configmap list" where
  "cr_getDeployedResources K inst w =
     bindR (FetchConfigMap (cl_configMaps K) (ks_namespace inst) (getInfraPropertiesConfigMapName inst) w) (\<lambda>c.
       Inr (case c of None \<Rightarrow> [] | Some c \<Rightarrow> [c]))"

definition cr_resources ::
  "'w cluster \<Rightarrow> op_context \<Rightarrow> ('w, configmap) delta_lib \<Rightarrow> kogito_service \<Rightarrow> 'w \<Rightarrow> (gerr + bool) \<times> 'w" where
  "cr_resources K cx L inst w =
     (case cr_createRequiredResources cx inst w of
        Inl e \<Rightarrow> (Inl e, w)
      | Inr req \<Rightarrow> (case cr_getDeployedResources K inst w of
            Inl e \<Rightarrow> (Inl e, w)
          | Inr dep \<Rightarrow> process_resources L configMap_GetComparator req dep w))"

definition config_Reconcile :: "'w deploy_env \<Rightarrow> 'w stage" where
  "config_Reconcile E s =
     (case cr_resources (de_cluster E) (de_context E) (de_configMapLib E) (dst_instance s) (dst_world s) of
        (Inl e, w') \<Rightarrow> (Inl e, s\<lparr>dst_world := w'\<rparr>)
      | (Inr _, w') \<Rightarrow> (Inr (), s\<lparr>dst_world := w', dst_definition := (dst_definition s)\<lparr>sd_configMapEnvFrom :=
            sd_configMapEnvFrom (dst_definition s) @ [getInfraPropertiesConfigMapName (dst_instance s)]\<rparr>\<rparr>))"

interpretation cr: resource_reconciler L configMap_GetComparator "cr_createRequiredResources cx inst"
  "cr_getDeployedResources K inst" "cr_resources K cx L inst" for K cx L inst
  by unfold_locales (simp add: cr_resources_def)

section \<open>Properties config map, propconfigmap\_reconciler.go\<close>

definition properties_Reconcile :: "'w deploy_env \<Rightarrow> 'w stage" where
  "properties_Reconcile E s =
     (let inst = dst_instance s; cmName = ss_propertiesConfigMap (ks_spec inst); ns = ks_namespace inst
      in if cmName = [] then (Inr (), s)
         else (case FetchConfigMap (cl_configMaps (de_cluster E)) ns cmName (dst_world s) of
                 Inl e \<Rightarrow> (Inl e, s)
               | Inr None \<Rightarrow> (Inl (PlainError (''configmap('' @ cmName @ '') not found in namespace '' @ ns)), s)
               | Inr (Some c) \<Rightarrow>
                   (Inr (), s\<lparr>dst_definition := (dst_definition s)\<lparr>sd_configMapVolumes := sd_configMapVolumes (dst_definition s) @
                      [\<lparr>vr_name = cmName, vr_mountPath = [], vr_fileMode = None, vr_optional = None\<rparr>]\<rparr>\<rparr>)))"

section \<open>Trust store, truststore\_reconciler.go\<close>

definition ModeForCertificates :: int where "ModeForCertificates = 416"  \<comment> \<open>0640\<close>

definition fetchAndValidateTrustStoreSecret :: "'w cluster \<Rightarrow> kogito_service \<Rightarrow> 'w \<Rightarrow> gerr + secret" where
  "fetchAndValidateTrustStoreSecret K inst w =
     bindR (FetchSecret (cl_secrets K) (ks_namespace inst) (ss_trustStoreSecret (ks_spec inst)) w) (\<lambda>s. case s of
        None \<Rightarrow> Inl (ErrorForTrustStoreMount (''Failed to find Trust store secret named '' @ ss_trustStoreSecret (ks_spec inst) @
                  '' in the namespace '' @ ks_namespace inst))
      | Some s \<Rightarrow> Inr s)"

definition mapTrustStorePassword :: "secret \<Rightarrow> 'w service_definition \<Rightarrow> 'w service_definition" where
  "mapTrustStorePassword sec def =
     (if map_of (sec_data sec) ''keyStorePassword'' = None then def
      else def\<lparr>sd_envs := EnvOverride (sd_envs def)
             [CreateSecretEnvVar ''CUSTOM_TRUSTSTORE_PASSWORD'' (om_name (sec_meta sec)) ''keyStorePassword'']\<rparr>)"

definition mountTrustStoreFile :: "secret \<Rightarrow> 'w service_definition \<Rightarrow> gerr + 'w service_definition" where
  "mountTrustStoreFile sec def =
     (if map_of (sec_data sec) ''cacerts'' = None
      then Inl (ErrorForTrustStoreMount (''Failed to mount Truststore. Secret '' @ om_name (sec_meta sec) @
             '' doesn'' @ [CHR 0x27] @ ''t have the file with key cacerts''))
      else Inr (def\<lparr>sd_secretVolumes := sd_secretVolumes def @
               [\<lparr>vr_name = om_name (sec_meta sec), vr_mountPath = ''/home/kogito/certs/custom-truststore/cacerts'',
                 vr_fileMode = Some ModeForCertificates, vr_optional = None\<rparr>],
             sd_envs := EnvOverride (sd_envs def) [CreateEnvVar ''CUSTOM_TRUSTSTORE'' ''cacerts'']\<rparr>))"

definition trustStore_Reconcile :: "'w deploy_env \<Rightarrow> 'w stage" where
  "trustStore_Reconcile E s =
     (if ss_trustStoreSecret (ks_spec (dst_instance s)) = [] then (Inr (), s)
      else (case fetchAndValidateTrustStoreSecret (de_cluster E) (dst_instance s) (dst_world s) of
              Inl e \<Rightarrow> (Inl e, s)
            | Inr sec \<Rightarrow>
                (let def1 = mapTrustStorePassword sec (dst_definition s)
                 in case mountTrustStoreFile sec def1 of
                      Inl e \<Rightarrow> (Inl e, s\<lparr>dst_definition := def1\<rparr>)
                    | Inr def2 \<Rightarrow> (Inr (), s\<lparr>dst_definition := def2\<rparr>))))"

section \<open>Infrastructure, kogitoinfra\_reconciler.go\<close>

definition checkInfraDependencies ::
  "cond_api \<Rightarrow> 'w infra_handler \<Rightarrow> kogito_service \<Rightarrow> kogito_infra \<Rightarrow> 'w \<Rightarrow> gerr + unit" where
  "checkInfraDependencies C H inst infra w =
     bindR (IsKogitoInfraReady C H (ki_namespace infra) (ki_name infra) w) (\<lambda>isReady.
       if isReady then Inr ()
       else bindR (GetKogitoInfraFailureConditionReason C H (ki_namespace infra) (ki_name infra) w) (\<lambda>reason.
              Inl (ErrorForInfraNotReady (ks_name inst) (ki_name infra) reason)))"

definition bind_infra :: "kogito_infra \<Rightarrow> 'w service_definition \<Rightarrow> 'w service_definition" where
  "bind_infra infra def =
     def\<lparr>sd_configMapEnvFrom := sd_configMapEnvFrom def @ ist_configMapEnvFrom (ki_status infra),
         sd_configMapVolumes := sd_configMapVolumes def @ ist_configMapVolumes (ki_status infra),
         sd_secretEnvFrom := sd_secretEnvFrom def @ ist_secretEnvFrom (ki_status infra),
         sd_secretVolumes := sd_secretVolumes def @ ist_secretVolumes (ki_status infra),
         sd_envs := EnvOverride (sd_envs def) (ist_envs (ki_status infra))\<rparr>"

text \<open>The loop over the names of the infras; the definition is changed in place as far as the loop gets.\<close>

fun infra_loop :: "cond_api \<Rightarrow> 'w infra_handler \<Rightarrow> kogito_service \<Rightarrow> 'w \<Rightarrow> string list \<Rightarrow> 'w service_definition
    \<Rightarrow> (gerr + unit) \<times> 'w service_definition" where
  "infra_loop C H inst w [] def = (Inr (), def)"
| "infra_loop C H inst w (infraName # names) def =
     (case H (ks_namespace inst) infraName w of
        Inl e \<Rightarrow> (Inl e, def)
      | Inr None \<Rightarrow> (Inl (PlainError (''KogitoInfra with name '' @ infraName @ '' not found in namespace '' @ ks_namespace inst)), def)
      | Inr (Some infra) \<Rightarrow>
          (case checkInfraDependencies C H inst infra w of
             Inl e \<Rightarrow> (Inl e, def)
           | Inr _ \<Rightarrow> infra_loop C H inst w names (bind_infra infra def)))"

definition kogitoInfra_Reconcile :: "'w deploy_env \<Rightarrow> 'w stage" where
  "kogitoInfra_Reconcile E s =
     (case infra_loop (de_conditions E) (de_infra E) (dst_instance s) (dst_world s) (ss_infra (ks_spec (dst_instance s))) (dst_definition s) of
        (r, def') \<Rightarrow> (r, s\<lparr>dst_definition := def'\<rparr>))"

section \<open>Service and route, service\_reconciler.go, infrastructure/service.go, route\_reconciler.go\<close>

definition FetchService :: "'w cluster \<Rightarrow> string \<Rightarrow> string \<Rightarrow> 'w \<Rightarrow> gerr + kservice option" where
  "FetchService K namespace name w = FetchWithKey (cl_services K) namespace name w"

definition createServicePorts :: "service_port list" where
  "createServicePorts = [\<lparr>sp_portName = ''http'', sp_protocol = ''TCP'', sp_port = 80, sp_targetPort = IntVal 8080\<rparr>]"

definition CreateService :: "kogito_service \<Rightarrow> kservice" where
  "CreateService inst =
     \<lparr>svc_meta = (mk_meta (ks_name inst) (ks_namespace inst))\<lparr>om_labels := smap_put ''app'' (ks_name inst) (ss_serviceLabels (ks_spec inst))\<rparr>,
      svc_ports = createServicePorts, svc_selector = [(''app'', ks_name inst)], svc_type = ''ClusterIP''\<rparr>"

fun findServicePort :: "service_port \<Rightarrow> service_port list \<Rightarrow> nat option" where
  "findServicePort p [] = None"
| "findServicePort p (c # cs) = (if sp_portName p = sp_portName c then Some 0 else map_option Suc (findServicePort p cs))"

definition clear_protocols :: "service_port list \<Rightarrow> service_port list \<Rightarrow> service_port list" where
  "clear_protocols requested deployed =
     fold (\<lambda>p ds. case findServicePort p ds of
         None \<Rightarrow> ds
       | Some i \<Rightarrow> if sp_protocol p = [] then ds[i := (ds ! i)\<lparr>sp_protocol := []\<rparr>] else ds) requested deployed"

text \<open>The comparison works on a copy of the deployed service.\<close>

definition createServiceComparator :: "(kservice \<Rightarrow> kservice \<Rightarrow> bool) \<Rightarrow> kservice comparator" where
  "createServiceComparator servicesEqual deployed requested =
     (servicesEqual (deployed\<lparr>svc_ports := clear_protocols (svc_ports requested) (svc_ports deployed)\<rparr>) requested,
      deployed, requested)"

definition sr_createRequiredResources :: "op_context \<Rightarrow> kogito_service \<Rightarrow> 'w \<Rightarrow> gerr + kservice list" where
  "sr_createRequiredResources cx inst w =
     bindR (own_object cx (ks_meta inst) svc_meta (\<lambda>m c. c\<lparr>svc_meta := m\<rparr>) (CreateService inst)) (\<lambda>c. Inr [c])"

definition sr_getDeployedResources :: "'w cluster \<Rightarrow> kogito_service \<Rightarrow> 'w \<Rightarrow> gerr + kservice list" where
  "sr_getDeployedResources K inst w =
     bindR (FetchService K (ks_namespace inst) (ks_name inst) w) (\<lambda>c. Inr (case c of None \<Rightarrow> [] | Some c \<Rightarrow> [c]))"

definition service_GetComparator :: "(kservice \<Rightarrow> kservice \<Rightarrow> bool) \<Rightarrow> kservice comparator" where
  "service_GetComparator servicesEqual = Build (WithCustomComparator (createServiceComparator servicesEqual) NewComparatorBuilder)"

definition sr_resources ::
  "'w cluster \<Rightarrow> op_context \<Rightarrow> ('w, kservice) delta_lib \<Rightarrow> (kservice \<Rightarrow> kservice \<Rightarrow> bool) \<Rightarrow> kogito_service \<Rightarrow> 'w \<Rightarrow> (gerr + bool) \<times> 'w" where
  "sr_resources K cx L servicesEqual inst w =
     (case sr_createRequiredResources cx inst w of
        Inl e \<Rightarrow> (Inl e, w)
      | Inr req \<Rightarrow> (case sr_getDeployedResources K inst w of
            Inl e \<Rightarrow> (Inl e, w)
          | Inr dep \<Rightarrow> process_resources L (service_GetComparator servicesEqual) req dep w))"

interpretation sr: resource_reconciler L "service_GetComparator servicesEqual" "sr_createRequiredResources cx inst"
  "sr_getDeployedResources K inst" "sr_resources K cx L servicesEqual inst" for K cx L servicesEqual inst
  by unfold_locales (simp add: sr_resources_def)

definition service_Reconcile :: "'w deploy_env \<Rightarrow> 'w stage" where
  "service_Reconcile E =
     on_world (\<lambda>inst def. bindS (sr_resources (de_cluster E) (de_context E) (de_serviceLib E) (de_servicesEqual E) inst) (\<lambda>_. returnS ()))"

definition rr_createRequiredResources :: "op_context \<Rightarrow> kogito_service \<Rightarrow> 'w \<Rightarrow> gerr + route list" where
  "rr_createRequiredResources cx inst w =
     bindR (own_object cx (ks_meta inst) rt_meta (\<lambda>m c. c\<lparr>rt_meta := m\<rparr>) (CreateRoute inst)) (\<lambda>c. Inr [c])"

definition rr_getDeployedResources :: "'w cluster \<Rightarrow> kogito_service \<Rightarrow> 'w \<Rightarrow> gerr + route list" where
  "rr_getDeployedResources K inst w =
     bindR (FetchRoute K (ks_namespace inst) (ks_name inst) w) (\<lambda>c. Inr (case c of None \<Rightarrow> [] | Some c \<Rightarrow> [c]))"

definition route_GetComparator :: "route comparator" where
  "route_GetComparator = Build (WithCustomComparator CreateRouteComparator NewComparatorBuilder)"

definition rr_resources ::
  "'w cluster \<Rightarrow> op_context \<Rightarrow> ('w, route) delta_lib \<Rightarrow> kogito_service \<Rightarrow> 'w \<Rightarrow> (gerr + bool) \<times> 'w" where
  "rr_resources K cx L inst w =
     (case rr_createRequiredResources cx inst w of
        Inl e \<Rightarrow> (Inl e, w)
      | Inr req \<Rightarrow> (case rr_getDeployedResources K inst w of
            Inl e \<Rightarrow> (Inl e, w)
          | Inr dep \<Rightarrow> process_resources L route_GetComparator req dep w))"

interpretation rr: resource_reconciler L route_GetComparator "rr_createRequiredResources cx inst"
  "rr_getDeployedResources K inst" "rr_resources K cx L inst" for K cx L inst
  by unfold_locales (simp add: rr_resources_def)

definition route_Reconcile :: "'w deploy_env \<Rightarrow> 'w stage" where
  "route_Reconcile E =
     on_world (\<lambda>inst def w.
       if \<not> cl_isOpenshift (de_cluster E) then (Inr (), w)
       else if ss_disableRoute (ks_spec inst) then (Inr (), w)
       else bindS (rr_resources (de_cluster E) (de_context E) (de_routeLib E) inst) (\<lambda>_. returnS ()) w)"

section \<open>Images, monitoring, messaging, deployer.go\<close>

definition resolveImage :: "kogito_service \<Rightarrow> 'w service_definition \<Rightarrow> image" where
  "resolveImage inst def =
     (if ss_image (ks_spec inst) = []
      then \<lparr>img_domain = [], img_name = sd_defaultImageName def, img_tag = sd_defaultImageTag def\<rparr>
      else ConvertImageTagToImage (ss_image (ks_spec inst)))"

definition newImageHandler :: "kogito_service \<Rightarrow> 'w service_definition \<Rightarrow> image_handler" where
  "newImageHandler inst def =
     (let img = resolveImage inst def
      in NewImageHandler img (sd_defaultImageName def) (img_name img) (ks_namespace inst)
           (ss_image (ks_spec inst) \<noteq> [] \<or> \<not> sd_customService def) (ss_insecureImageRegistry (ks_spec inst)))"

definition map_error :: "('e \<Rightarrow> 'e) \<Rightarrow> ('e + 'a) \<times> 'w \<Rightarrow> ('e + 'a) \<times> 'w" where
  "map_error f r = (case r of (Inl e, w) \<Rightarrow> (Inl (f e), w) | (Inr x, w) \<Rightarrow> (Inr x, w))"

definition configureMonitoring :: "'w deploy_env \<Rightarrow> 'w stage" where
  "configureMonitoring E =
     bindS (\<lambda>s. map_error ErrorForMonitoring (on_world (\<lambda>inst def. ConfigurePrometheus (de_monitoring E) (de_cluster E) (de_context E) inst) s)) (\<lambda>_ s.
            map_error ErrorForDashboards (on_world (\<lambda>inst def. ConfigureGrafanaDashboards (de_monitoring E) (de_cluster E) (de_context E) inst) s))"

text \<open>Messaging also sets the status of the instance.\<close>

definition on_instance :: "'w messaging_call \<Rightarrow> 'w stage" where
  "on_instance f s = (case f (dst_instance s, dst_world s) of (r, i, w) \<Rightarrow> (r, s\<lparr>dst_instance := i, dst_world := w\<rparr>))"

definition messaging_of :: "'w deploy_env \<Rightarrow> 'w messaging_deployer" where
  "messaging_of E = \<lparr>md_env = de_messaging E, md_cluster = de_cluster E, md_context = de_context E, md_infra = de_infra E\<rparr>"

definition configureMessaging :: "'w deploy_env \<Rightarrow> 'w stage" where
  "configureMessaging E =
     bindS (\<lambda>s. map_error ErrorForMessaging (on_instance (kafka_CreateRequiredResources (messaging_of E)) s)) (\<lambda>_ s.
            map_error ErrorForMessaging (on_instance (knative_CreateRequiredResources (messaging_of E)) s))"

definition imageStream_stage :: "'w deploy_env \<Rightarrow> 'w stage" where
  "imageStream_stage E =
     on_world (\<lambda>inst def. ReconcileImageStream (de_images E) (de_context E) (de_imageStreamLib E) (newImageHandler inst def) (ks_meta inst))"

definition deployment_stage :: "'w deploy_env \<Rightarrow> 'w stage" where
  "deployment_stage E s =
     (let inst = dst_instance s; def = dst_definition s; ih = newImageHandler inst def
      in case dr_Reconcile (de_cluster E) (de_images E) (de_context E) (de_deploymentLib E) (de_serverMinor E) ih inst def (dst_world s) of
           (r, w') \<Rightarrow> (r, s\<lparr>dst_world := w', dst_instance := dr_instance (de_images E) (de_context E) ih inst def (dst_world s)\<rparr>))"

section \<open>Deploy\<close>

text \<open>The error of the route reconciler is logged and overwritten by the next assignment.\<close>

definition deploy_stages :: "'w deploy_env \<Rightarrow> 'w stage" where
  "deploy_stages E =
     bindS (config_Reconcile E) (\<lambda>_.
     bindS (properties_Reconcile E) (\<lambda>_.
     bindS (trustStore_Reconcile E) (\<lambda>_.
     bindS (kogitoInfra_Reconcile E) (\<lambda>_.
     bindS (imageStream_stage E) (\<lambda>_.
     bindS (deployment_stage E) (\<lambda>_.
     bindS (service_Reconcile E) (\<lambda>_ s.
       let s' = snd (route_Reconcile E s)
       in bindS (configureMonitoring E) (\<lambda>_. configureMessaging E) s')))))))"

definition initial_state :: "kogito_service \<Rightarrow> 'w service_definition \<Rightarrow> 'w \<Rightarrow> 'w deploy_state" where
  "initial_state inst def w =
     (let inst' = (if ss_replicas (ks_spec inst) = None then map_spec (\<lambda>sp. sp\<lparr>ss_replicas := Some 1\<rparr>) inst else inst);
          def' = (if sd_defaultImageName def = [] then def\<lparr>sd_defaultImageName := sd_requestName def\<rparr> else def)
      in \<lparr>dst_instance = inst', dst_definition = def'\<lparr>sd_envs := ss_env (ks_spec inst')\<rparr>, dst_world = w\<rparr>)"

text \<open>The status is updated by a deferred call that reads the variable \<^verbatim>\<open>err\<close>; when a stage panics, the variable still
  holds the success of the stage before it.\<close>

definition reported_error :: "gerr + unit \<Rightarrow> gerr option" where
  "reported_error r = (case r of Inl (Panic m) \<Rightarrow> None | Inl e \<Rightarrow> Some e | Inr _ \<Rightarrow> None)"

definition Deploy :: "'w deploy_env \<Rightarrow> kogito_service \<Rightarrow> 'w service_definition \<Rightarrow> 'w \<Rightarrow> gerr option \<times> 'w" where
  "Deploy E inst def w =
     (case deploy_stages E (initial_state inst def w) of
        (r, s) \<Rightarrow>
          ((case r of Inl e \<Rightarrow> Some e | Inr _ \<Rightarrow> None),
           HandleStatusUpdate (de_cluster E) (de_conditions E) (dst_instance s) (reported_error r) (dst_world s)))"

section \<open>Lemmas\<close>

text \<open>An infra that a service may be bound to: it exists under the name and is configured.\<close>

definition infra_ready :: "cond_api \<Rightarrow> 'w infra_handler \<Rightarrow> kogito_service \<Rightarrow> 'w \<Rightarrow> string \<Rightarrow> kogito_infra \<Rightarrow> bool" where
  "infra_ready C H inst w n infra \<longleftrightarrow> H (ks_namespace inst) n w = Inr (Some infra)
     \<and> IsKogitoInfraReady C H (ki_namespace infra) (ki_name infra) w = Inr True"

lemma checkInfraDependencies_ok:
  "checkInfraDependencies C H inst infra w = Inr u \<longleftrightarrow>
     IsKogitoInfraReady C H (ki_namespace infra) (ki_name infra) w = Inr True"
  by (auto simp: checkInfraDependencies_def bindR_eq_Inr split: if_splits)

lemma infra_loop_iff:
  "infra_loop C H inst w names def = (Inr (), def') \<longleftrightarrow>
     (\<exists>infras. list_all2 (infra_ready C H inst w) names infras \<and> def' = fold bind_infra infras def)"
proof (induction names arbitrary: def)
  case (Cons n names)
  show ?case
  proof
    assume "infra_loop C H inst w (n # names) def = (Inr (), def')"
    then obtain infra where "infra_ready C H inst w n infra"
      "infra_loop C H inst w names (bind_infra infra def) = (Inr (), def')"
      by (auto simp: infra_ready_def checkInfraDependencies_ok split: sum.splits option.splits)
    with Cons.IH obtain infras where "infra_ready C H inst w n infra" "list_all2 (infra_ready C H inst w) names infras"
      "def' = fold bind_infra infras (bind_infra infra def)" by blast
    then show "\<exists>infras. list_all2 (infra_ready C H inst w) (n # names) infras \<and> def' = fold bind_infra infras def"
      by (intro exI [of _ "infra # infras"]) simp
  next
    assume "\<exists>infras. list_all2 (infra_ready C H inst w) (n # names) infras \<and> def' = fold bind_infra infras def"
    then obtain infra infras where "infra_ready C H inst w n infra" "list_all2 (infra_ready C H inst w) names infras"
      "def' = fold bind_infra infras (bind_infra infra def)" by (auto simp: list_all2_Cons1)
    moreover from this have "infra_loop C H inst w names (bind_infra infra def) = (Inr (), def')"
      using Cons.IH by blast
    ultimately show "infra_loop C H inst w (n # names) def = (Inr (), def')"
      using checkInfraDependencies_ok [of C H inst infra w "()"] by (simp add: infra_ready_def)
  qed
qed auto

lemma kogitoInfra_stage_iff:
  "kogitoInfra_Reconcile E s = (Inr (), s') \<longleftrightarrow>
     (\<exists>infras. list_all2 (infra_ready (de_conditions E) (de_infra E) (dst_instance s) (dst_world s)) (ss_infra (ks_spec (dst_instance s))) infras
        \<and> s' = s\<lparr>dst_definition := fold bind_infra infras (dst_definition s)\<rparr>)"
proof -
  obtain r d where rd: "infra_loop (de_conditions E) (de_infra E) (dst_instance s) (dst_world s) (ss_infra (ks_spec (dst_instance s)))
      (dst_definition s) = (r, d)" by fastforce
  then have "kogitoInfra_Reconcile E s = (Inr (), s') \<longleftrightarrow> r = Inr () \<and> s' = s\<lparr>dst_definition := d\<rparr>"
    by (auto simp: kogitoInfra_Reconcile_def)
  moreover have "r = Inr () \<longleftrightarrow> (\<exists>infras. list_all2 (infra_ready (de_conditions E) (de_infra E) (dst_instance s) (dst_world s))
      (ss_infra (ks_spec (dst_instance s))) infras \<and> d = fold bind_infra infras (dst_definition s))"
    using infra_loop_iff [of "de_conditions E" "de_infra E" "dst_instance s" "dst_world s" "ss_infra (ks_spec (dst_instance s))"
        "dst_definition s" d] rd by simp
  moreover have "r = Inr () \<and> list_all2 (infra_ready (de_conditions E) (de_infra E) (dst_instance s) (dst_world s))
      (ss_infra (ks_spec (dst_instance s))) infras' \<Longrightarrow> d = fold bind_infra infras' (dst_definition s)" for infras'
    using infra_loop_iff [of "de_conditions E" "de_infra E" "dst_instance s" "dst_world s" "ss_infra (ks_spec (dst_instance s))"
        "dst_definition s" "fold bind_infra infras' (dst_definition s)"] rd by auto
  moreover have "list_all2 (infra_ready (de_conditions E) (de_infra E) (dst_instance s) (dst_world s))
      (ss_infra (ks_spec (dst_instance s))) infras' \<Longrightarrow> r = Inr ()" for infras'
    using infra_loop_iff [of "de_conditions E" "de_infra E" "dst_instance s" "dst_world s" "ss_infra (ks_spec (dst_instance s))"
        "dst_definition s" "fold bind_infra infras' (dst_definition s)"] rd by auto
  ultimately show ?thesis by metis
qed

lemma on_world_frame [simp]:
  "dst_instance (snd (on_world f s)) = dst_instance s" "dst_definition (snd (on_world f s)) = dst_definition s"
  by (simp_all add: on_world_def split: prod.split)

lemma stage_instance:
  "dst_instance (snd (config_Reconcile E s)) = dst_instance s"
  "dst_instance (snd (properties_Reconcile E s)) = dst_instance s"
  "dst_instance (snd (trustStore_Reconcile E s)) = dst_instance s"
  "dst_instance (snd (kogitoInfra_Reconcile E s)) = dst_instance s"
  "dst_instance (snd (imageStream_stage E s)) = dst_instance s"
  by (simp_all add: config_Reconcile_def properties_Reconcile_def trustStore_Reconcile_def kogitoInfra_Reconcile_def
      imageStream_stage_def Let_def split: prod.split sum.split option.split)

lemma stage_world:
  "dst_world (snd (properties_Reconcile E s)) = dst_world s"
  "dst_world (snd (trustStore_Reconcile E s)) = dst_world s"
  "dst_world (snd (kogitoInfra_Reconcile E s)) = dst_world s"
  by (simp_all add: properties_Reconcile_def trustStore_Reconcile_def kogitoInfra_Reconcile_def Let_def
      split: prod.split sum.split option.split)

lemma initial_state_fields [simp]:
  "ks_meta (dst_instance (initial_state inst def w)) = ks_meta inst"
  "ss_infra (ks_spec (dst_instance (initial_state inst def w))) = ss_infra (ks_spec inst)"
  "dst_world (initial_state inst def w) = w"
  by (simp_all add: initial_state_def Let_def)

lemma Deploy_infra_ready:
  assumes "fst (Deploy E inst def w) = None" "n \<in> set (ss_infra (ks_spec inst))"
  shows "\<exists>w' i. infra_ready (de_conditions E) (de_infra E) inst w' n i"
proof -
  obtain s1 s2 s3 s4 where st: "config_Reconcile E (initial_state inst def w) = (Inr (), s1)"
    "properties_Reconcile E s1 = (Inr (), s2)" "trustStore_Reconcile E s2 = (Inr (), s3)" "kogitoInfra_Reconcile E s3 = (Inr (), s4)"
    using assms(1) by (auto simp: Deploy_def deploy_stages_def bindS_eq_Inr Let_def split: prod.splits sum.splits)
  have inst: "dst_instance s3 = dst_instance (initial_state inst def w)"
    using st stage_instance(1) [of E "initial_state inst def w"] stage_instance(2) [of E s1] stage_instance(3) [of E s2] by simp
  obtain infras where "list_all2 (infra_ready (de_conditions E) (de_infra E) (dst_instance s3) (dst_world s3)) (ss_infra (ks_spec inst)) infras"
    using st(4) inst by (auto simp: kogitoInfra_stage_iff)
  then obtain i where "infra_ready (de_conditions E) (de_infra E) (dst_instance s3) (dst_world s3) n i"
    using assms(2) unfolding list_all2_conv_all_nth in_set_conv_nth by metis
  then show ?thesis using inst by (auto simp: infra_ready_def)
qed

section \<open>Properties\<close>

text \<open>C13: a service is bound to exactly its infras, and only when all of them are ready.  The infra
  reconciler succeeds if and only if every infra the service names exists and is configured; then the
  service definition has gained, in the order of the names, all references of all of them, and their
  variables override the earlier ones.\<close>

theorem kogitoInfra_Reconcile_spec:
  "kogitoInfra_Reconcile E s = (Inr (), s') \<longleftrightarrow>
     (\<exists>infras.
        list_all2 (infra_ready (de_conditions E) (de_infra E) (dst_instance s) (dst_world s)) (ss_infra (ks_spec (dst_instance s))) infras
        \<and> s' = s\<lparr>dst_definition := (dst_definition s)\<lparr>
             sd_configMapEnvFrom := sd_configMapEnvFrom (dst_definition s) @ concat (map (\<lambda>i. ist_configMapEnvFrom (ki_status i)) infras),
             sd_configMapVolumes := sd_configMapVolumes (dst_definition s) @ concat (map (\<lambda>i. ist_configMapVolumes (ki_status i)) infras),
             sd_secretEnvFrom := sd_secretEnvFrom (dst_definition s) @ concat (map (\<lambda>i. ist_secretEnvFrom (ki_status i)) infras),
             sd_secretVolumes := sd_secretVolumes (dst_definition s) @ concat (map (\<lambda>i. ist_secretVolumes (ki_status i)) infras),
             sd_envs := EnvOverride (sd_envs (dst_definition s)) (concat (map (\<lambda>i. ist_envs (ki_status i)) infras))\<rparr>\<rparr>)"
proof -
  have "fold bind_infra infras def = def\<lparr>
             sd_configMapEnvFrom := sd_configMapEnvFrom def @ concat (map (\<lambda>i. ist_configMapEnvFrom (ki_status i)) infras),
             sd_configMapVolumes := sd_configMapVolumes def @ concat (map (\<lambda>i. ist_configMapVolumes (ki_status i)) infras),
             sd_secretEnvFrom := sd_secretEnvFrom def @ concat (map (\<lambda>i. ist_secretEnvFrom (ki_status i)) infras),
             sd_secretVolumes := sd_secretVolumes def @ concat (map (\<lambda>i. ist_secretVolumes (ki_status i)) infras),
             sd_envs := EnvOverride (sd_envs def) (concat (map (\<lambda>i. ist_envs (ki_status i)) infras))\<rparr>"
    for infras and def :: "'a service_definition"
    by (induction infras arbitrary: def) (simp_all add: bind_infra_def EnvOverride_fold)
  note fold_eq = this
  show ?thesis
    unfolding fold_eq [symmetric] kogitoInfra_stage_iff ..
qed

text \<open>C8: a service is deployed only on ready ground.  When \<^term>\<open>Deploy\<close> reports success, the configuration
  stages ran first, then every infra of the service was found and configured in the state they left, and the
  image was resolved to a non-empty name in the state in which the deployment was then reconciled without
  error.\<close>

theorem Deploy_success_requires:
  assumes "fst (Deploy E inst def w) = None"
  shows "\<exists>s3 s5 infras img.
     bindS (config_Reconcile E) (\<lambda>_. bindS (properties_Reconcile E) (\<lambda>_. trustStore_Reconcile E)) (initial_state inst def w) = (Inr (), s3)
     \<and> list_all2 (infra_ready (de_conditions E) (de_infra E) inst (dst_world s3)) (ss_infra (ks_spec inst)) infras
     \<and> bindS (kogitoInfra_Reconcile E) (\<lambda>_. imageStream_stage E) s3 = (Inr (), s5)
     \<and> ResolveImage (de_images E) (de_context E) (newImageHandler (dst_instance s5) (dst_definition s5)) (dst_world s5) = Inr img
     \<and> img \<noteq> [] \<and> fst (deployment_stage E s5) = Inr ()"
proof -
  obtain s1 s2 s3 s4 s5 s6 where st: "config_Reconcile E (initial_state inst def w) = (Inr (), s1)"
    "properties_Reconcile E s1 = (Inr (), s2)" "trustStore_Reconcile E s2 = (Inr (), s3)"
    "kogitoInfra_Reconcile E s3 = (Inr (), s4)" "imageStream_stage E s4 = (Inr (), s5)" "deployment_stage E s5 = (Inr (), s6)"
    using assms by (auto simp: Deploy_def deploy_stages_def bindS_eq_Inr Let_def split: prod.splits sum.splits)
  have inst: "dst_instance s3 = dst_instance (initial_state inst def w)"
    using st stage_instance(1) [of E "initial_state inst def w"] stage_instance(2) [of E s1] stage_instance(3) [of E s2] by simp
  have "infra_ready C H (dst_instance s3) = infra_ready C H inst" for C and H :: "'a infra_handler"
    by (intro ext) (simp add: infra_ready_def inst)
  then obtain infras where "list_all2 (infra_ready (de_conditions E) (de_infra E) inst (dst_world s3)) (ss_infra (ks_spec inst)) infras"
    using st(4) inst by (auto simp: kogitoInfra_stage_iff)
  moreover obtain img where "ResolveImage (de_images E) (de_context E) (newImageHandler (dst_instance s5) (dst_definition s5)) (dst_world s5) = Inr img"
      "img \<noteq> []"
    using st(6) by (auto simp: deployment_stage_def dr_Reconcile_def Let_def split: sum.splits if_splits prod.splits)
  ultimately show ?thesis using st by (intro exI [of _ s3] exI [of _ s5] exI [of _ infras] exI [of _ img]) (simp add: bindS_def)
qed

section \<open>A deployment in memory\<close>

definition ready_infra :: kogito_infra where
  "ready_infra = \<lparr>ki_meta = mk_meta ''infra'' ''ns'',
     ki_spec = \<lparr>is_resource = None, is_infraProperties = [], is_envs = [], is_configMapEnvFrom = [], is_configMapVolumes = [],
       is_secretEnvFrom = [], is_secretVolumes = []\<rparr>,
     ki_status = \<lparr>ist_conditions = Some [mk_cond ''Configured'' CTrue [] []], ist_envs = [CreateEnvVar ''A'' ''1''],
       ist_configMapEnvFrom = [], ist_configMapVolumes = [], ist_secretEnvFrom = [], ist_secretVolumes = []\<rparr>\<rparr>"

definition sample_env :: "mem_world deploy_env" where
  "sample_env = \<lparr>de_cluster = mem_cluster False,
     de_images = \<lparr>ic_isOpenshift = False, ic_imageStreams = lens_api (\<lambda>_. []) (\<lambda>_ w. w) (mem_api is_meta),
       ic_getTag = (\<lambda>ns n w. Inl (ApiError SNotFound n)), ic_createTag = (\<lambda>t w. (Inr t, w)),
       ic_createStream = (\<lambda>t w. (Inr t, w)), ic_listOwned = (\<lambda>o' w. Inr []),
       ic_unmarshal = (\<lambda>s. Inr \<lparr>di_labels = None\<rparr>), ic_tagsEqual = (=)\<rparr>,
     de_context = sample_context, de_conditions = list_cond_api, de_serverMinor = Inr ''19'',
     de_infra = (\<lambda>ns n w. Inr (if n = ''infra'' then Some ready_infra else None)),
     de_configMapLib = mem_delta_lib (\<lambda>c. om_name (cm_meta c)) mw_configMaps (\<lambda>x w. w\<lparr>mw_configMaps := x\<rparr>),
     de_imageStreamLib = mem_delta_lib (\<lambda>c. om_name (is_meta c)) (\<lambda>_. []) (\<lambda>_ w. w),
     de_deploymentLib = mem_delta_lib (\<lambda>c. om_name (dep_meta c)) mw_deployments (\<lambda>x w. w\<lparr>mw_deployments := x\<rparr>),
     de_serviceLib = mem_delta_lib (\<lambda>c. om_name (svc_meta c)) mw_services (\<lambda>x w. w\<lparr>mw_services := x\<rparr>),
     de_routeLib = mem_delta_lib (\<lambda>c. om_name (rt_meta c)) mw_routes (\<lambda>x w. w\<lparr>mw_routes := x\<rparr>),
     de_servicesEqual = (=),
     de_monitoring = \<lparr>mo_discovery = None, mo_http = \<lparr>ht_get = (\<lambda>u w. Inr (404, Inr [])), ht_head = (\<lambda>u w. Inr 404)\<rparr>, mo_decodeNames = (\<lambda>s. None),
       mo_serviceMonitors = lens_api (\<lambda>_. []) (\<lambda>_ w. w) (mem_api sm_meta), mo_dashboards = lens_api (\<lambda>_. []) (\<lambda>_ w. w) (mem_api gd_meta)\<rparr>,
     de_messaging = \<lparr>mg_http = \<lparr>ht_get = (\<lambda>u w. Inr (404, Inr [])), ht_head = (\<lambda>u w. Inr 404)\<rparr>, mg_decodeTopics = (\<lambda>s. None),
       mg_intn = (\<lambda>w. (7, w)), mg_topics = lens_api (\<lambda>_. []) (\<lambda>_ w. w) (mem_api kt_meta), mg_triggers = lens_api (\<lambda>_. []) (\<lambda>_ w. w) (mem_api tr_meta),
       mg_sinkBindings = lens_api (\<lambda>_. []) (\<lambda>_ w. w) (mem_api sb_meta), mg_eventingAPIVersion = ''eventing.knative.dev/v1''\<rparr>\<rparr>"

definition infra_service :: kogito_service where
  "infra_service = map_spec (AddInfra ''infra'') sample_service"

lemma mem_process_resources:
  "\<exists>b w'. process_resources (mem_delta_lib nm g p) equal req dep w = (Inr b, w')"
  by (cases "mem_hasChanges (mem_compare nm equal dep req)")
    (simp_all add: process_resources_quiet process_resources_changed mem_delta_lib_def apply_delta_def bindS_def, blast+)

lemma mem_fetch: "\<exists>r. FetchWithKey (lens_api g p (mem_api m)) ns n w = Inr r"
  by (auto simp: FetchWithKey_def mem_get_def IsNotFound_def split: option.split)

lemma sample_config_stage:
  "\<exists>w'. config_Reconcile sample_env s = (Inr (), s\<lparr>dst_world := w', dst_definition := (dst_definition s)\<lparr>sd_configMapEnvFrom :=
            sd_configMapEnvFrom (dst_definition s) @ [getInfraPropertiesConfigMapName (dst_instance s)]\<rparr>\<rparr>)"
proof -
  obtain req where req: "cr_createRequiredResources sample_context (dst_instance s) (dst_world s) = Inr req"
    by (simp add: cr_createRequiredResources_def own_object_conv sample_context_def)
  obtain dep where dep: "cr_getDeployedResources (mem_cluster False) (dst_instance s) (dst_world s) = Inr dep"
    using mem_fetch [of mw_configMaps "\<lambda>x w. w\<lparr>mw_configMaps := x\<rparr>" cm_meta] unfolding cr_getDeployedResources_def FetchConfigMap_def
    by (metis bindR_simps(2) mem_cluster_sel(3))
  obtain b w' where "cr_resources (mem_cluster False) sample_context (de_configMapLib sample_env) (dst_instance s) (dst_world s) = (Inr b, w')"
    using mem_process_resources unfolding cr_resources_def req dep sample_env_def by fastforce
  then have "cr_resources (de_cluster sample_env) (de_context sample_env) (de_configMapLib sample_env) (dst_instance s) (dst_world s) = (Inr b, w')"
    by (simp add: sample_env_def)
  then show ?thesis by (intro exI [of _ w']) (simp add: config_Reconcile_def)
qed

lemma sample_deployment_stage:
  assumes "ResolveImage (de_images sample_env) sample_context (newImageHandler inst def) w = Inr img" "img \<noteq> []"
    and "dr_createRequiredResources (mem_cluster False) sample_context (Inr ''19'') (newImageHandler inst def) inst def img w = Inr req"
  shows "fst (deployment_stage sample_env \<lparr>dst_instance = inst, dst_definition = def, dst_world = w\<rparr>) = Inr ()"
proof -
  obtain dep where "dr_getDeployedResources (mem_cluster False) inst w = Inr dep"
    using mem_fetch [of mw_deployments "\<lambda>x w. w\<lparr>mw_deployments := x\<rparr>" dep_meta] unfolding dr_getDeployedResources_def FetchDeployment_def
    by (metis bindR_simps(2) mem_cluster_sel(2))
  then obtain b w' where "dr_resources (mem_cluster False) sample_context (de_deploymentLib sample_env) (Inr ''19'')
      (newImageHandler inst def) inst def img w = (Inr b, w')"
    using mem_process_resources assms(3) unfolding dr_resources_def sample_env_def by fastforce
  then show ?thesis
    using assms by (simp add: deployment_stage_def dr_Reconcile_def sample_env_def Let_def bindS_def returnS_def)
qed

lemma sample_service_stage:
  "\<exists>w'. service_Reconcile sample_env s = (Inr (), s\<lparr>dst_world := w'\<rparr>)"
proof -
  obtain req where req: "sr_createRequiredResources sample_context (dst_instance s) (dst_world s) = Inr req"
    by (simp add: sr_createRequiredResources_def own_object_conv sample_context_def)
  obtain dep where dep: "sr_getDeployedResources (mem_cluster False) (dst_instance s) (dst_world s) = Inr dep"
    using mem_fetch [of mw_services "\<lambda>x w. w\<lparr>mw_services := x\<rparr>" svc_meta] unfolding sr_getDeployedResources_def FetchService_def
    by (metis bindR_simps(2) mem_cluster_sel(5))
  obtain b w' where "sr_resources (mem_cluster False) sample_context (de_serviceLib sample_env) (=) (dst_instance s) (dst_world s) = (Inr b, w')"
    using mem_process_resources unfolding sr_resources_def req dep sample_env_def by fastforce
  then have "sr_resources (de_cluster sample_env) (de_context sample_env) (de_serviceLib sample_env) (de_servicesEqual sample_env)
      (dst_instance s) (dst_world s) = (Inr b, w')"
    by (simp add: sample_env_def)
  then show ?thesis by (intro exI [of _ w']) (simp add: service_Reconcile_def on_world_def bindS_def returnS_def)
qed

lemma sample_final_stages:
  "snd (route_Reconcile sample_env s) = s" "configureMonitoring sample_env s = (Inr (), s)" "imageStream_stage sample_env s = (Inr (), s)"
  by (simp_all add: route_Reconcile_def configureMonitoring_def imageStream_stage_def on_world_def ConfigurePrometheus_def
      isPrometheusAvailable_def ConfigureGrafanaDashboards_def isGrafanaAvailable_def HasServerGroup_def
      sample_env_def bindS_def map_error_def ReconcileImageStream_def)

lemma sample_messaging_stage:
  assumes "ss_infra (ks_spec (dst_instance s)) = [''infra'']"
  shows "configureMessaging sample_env s = (Inr (), s)"
  using assms
  by (simp add: configureMessaging_def on_instance_def kafka_CreateRequiredResources_def knative_CreateRequiredResources_def
      fetchInfraDependency_def messaging_of_def MustFetchKogitoInfraInstance_def sample_env_def ready_infra_def IsKafkaInfra_def
      isKnativeEventingInfra_def bindS_def map_error_def)

lemma deployment_stage_infra:
  "ss_infra (ks_spec (dst_instance (snd (deployment_stage E s)))) = ss_infra (ks_spec (dst_instance s))"
  by (simp add: deployment_stage_def dr_instance_def cap_replicas_def map_spec_def Let_def split: prod.split sum.split option.split)

definition bound_definition :: "mem_world service_definition" where
  "bound_definition = sample_definition\<lparr>sd_configMapEnvFrom := [''app-properties''], sd_envs := [CreateEnvVar ''A'' ''1'']\<rparr>"

lemmas sample_simps = infra_service_def sample_service_def sample_spec_def AddInfra_def sample_definition_def map_spec_def Let_def
  sample_env_def mk_meta_def

lemma sample_infra_stages:
  assumes "dst_instance s = infra_service"
  shows "properties_Reconcile sample_env s = (Inr (), s)" "trustStore_Reconcile sample_env s = (Inr (), s)"
    "kogitoInfra_Reconcile sample_env s = (Inr (), s\<lparr>dst_definition := bind_infra ready_infra (dst_definition s)\<rparr>)"
  by (simp_all add: assms properties_Reconcile_def trustStore_Reconcile_def kogitoInfra_Reconcile_def sample_simps checkInfraDependencies_def
      IsKogitoInfraReady_def MustFetchKogitoInfraInstance_def ready_infra_def IsStatusConditionTrue_def cond_status_of_def mk_cond_def)

lemma sample_early_stages:
  "\<exists>w'. bindS (config_Reconcile sample_env) (\<lambda>_. bindS (properties_Reconcile sample_env) (\<lambda>_. bindS (trustStore_Reconcile sample_env)
      (\<lambda>_. kogitoInfra_Reconcile sample_env))) (initial_state infra_service sample_definition w) =
      (Inr (), \<lparr>dst_instance = infra_service, dst_definition = bound_definition, dst_world = w'\<rparr>)"
proof -
  let ?d0 = "(sample_definition :: mem_world service_definition)\<lparr>sd_envs := []\<rparr>"
  let ?s0 = "\<lparr>dst_instance = infra_service, dst_definition = ?d0, dst_world = w\<rparr>"
  have s0: "initial_state infra_service sample_definition w = ?s0"
    by (simp add: initial_state_def sample_simps)
  obtain w1 where s1: "config_Reconcile sample_env ?s0 = (Inr (), \<lparr>dst_instance = infra_service,
      dst_definition = ?d0\<lparr>sd_configMapEnvFrom := sd_configMapEnvFrom ?d0 @ [getInfraPropertiesConfigMapName infra_service]\<rparr>, dst_world = w1\<rparr>)"
    using sample_config_stage [of ?s0] by auto
  have "bind_infra ready_infra (?d0\<lparr>sd_configMapEnvFrom := sd_configMapEnvFrom ?d0 @ [getInfraPropertiesConfigMapName infra_service]\<rparr>) = bound_definition"
    by (simp add: bind_infra_def ready_infra_def bound_definition_def getInfraPropertiesConfigMapName_def GetEnvVar_def sample_simps)
  then show ?thesis
    by (intro exI [of _ w1]) (simp only: s0, simp add: bindS_def s1 sample_infra_stages)
qed

lemma CreateDeployment_plain:
  assumes "\<not> sd_singleReplica def" "ss_deploymentLabels (ks_spec svc) = []"
  shows "\<exists>d c. CreateDeployment cx (Inr minor) svc img def = Inr (svc, d) \<and> dep_containers d = [c]"
  using assms
  by (cases "Atoi (TrimSuffix minor ''+'')")
    (simp_all add: CreateDeployment_def cap_replicas_def addStartupProbe_def with_container0_def base_deployment_def with_app_label_def Let_def)

lemma sample_Deploy_succeeds: "fst (Deploy sample_env infra_service sample_definition w) = None"
proof -
  obtain w4 where early: "bindS (config_Reconcile sample_env) (\<lambda>_. bindS (properties_Reconcile sample_env) (\<lambda>_. bindS (trustStore_Reconcile sample_env)
      (\<lambda>_. kogitoInfra_Reconcile sample_env))) (initial_state infra_service sample_definition w) =
      (Inr (), \<lparr>dst_instance = infra_service, dst_definition = bound_definition, dst_world = w4\<rparr>)"
    using sample_early_stages by blast
  let ?ih = "newImageHandler infra_service bound_definition"
  obtain img where img: "ResolveImage (de_images sample_env) sample_context ?ih w4 = Inr img" "img \<noteq> []"
    by (simp add: ResolveImage_def sample_env_def resolveRegistryImage_def)
  obtain d0 c where d0: "CreateDeployment sample_context (Inr ''19'') infra_service img bound_definition = Inr (infra_service, d0)"
    "dep_containers d0 = [c]"
    using CreateDeployment_plain [of bound_definition infra_service sample_context "''19''" img]
    by (auto simp: bound_definition_def sample_simps)
  obtain req where "dr_createRequiredResources (mem_cluster False) sample_context (Inr ''19'') ?ih infra_service bound_definition img w4 = Inr req"
    using d0 by (simp add: dr_createRequiredResources_def bound_definition_def sample_definition_def onDeploymentCreate_def
        mountEnvsOnDeployment_def mountConfigMapReferencesOnDeployment_def mountSecretReferencesOnDeployment_def own_object_conv
        sample_context_def with_container0_def cm_MountAsEnvFrom_def addDeploymentIdentifier_def Let_def)
  then obtain s6 where dep: "deployment_stage sample_env \<lparr>dst_instance = infra_service, dst_definition = bound_definition, dst_world = w4\<rparr> = (Inr (), s6)"
    using sample_deployment_stage [OF img] by (metis prod.collapse)
  obtain w7 where "service_Reconcile sample_env s6 = (Inr (), s6\<lparr>dst_world := w7\<rparr>)"
    using sample_service_stage by blast
  moreover have "ss_infra (ks_spec (dst_instance (s6\<lparr>dst_world := w7\<rparr>))) = [''infra'']"
    using deployment_stage_infra [of sample_env "\<lparr>dst_instance = infra_service, dst_definition = bound_definition, dst_world = w4\<rparr>"]
    unfolding dep by (simp add: infra_service_def AddInfra_def map_spec_def sample_service_def sample_spec_def)
  ultimately show ?thesis using early dep
    by (auto simp: Deploy_def deploy_stages_def bindS_def sample_final_stages sample_messaging_stage Let_def split: prod.splits sum.splits)
qed

lemma Deploy_success_requires_witness:
  "\<exists>s3 infras. bindS (config_Reconcile sample_env) (\<lambda>_. bindS (properties_Reconcile sample_env) (\<lambda>_. trustStore_Reconcile sample_env))
       (initial_state infra_service sample_definition empty_world) = (Inr (), s3)
     \<and> list_all2 (infra_ready (de_conditions sample_env) (de_infra sample_env) infra_service (dst_world s3)) [''infra''] infras"
  using Deploy_success_requires [OF sample_Deploy_succeeds [of empty_world]]
  by (auto simp: infra_service_def AddInfra_def sample_service_def sample_spec_def)

end
