(* ===== verification/Kogito_Runtime.thy ===== *)
theory Kogito_Runtime
  imports Service_Deployer
begin

text \<open>
  KogitoRuntime: its controller and deployment hook (\<^verbatim>\<open>controllers/common/runtime_controller.go\<close>, \<^verbatim>\<open>runtime_deployer.go\<close>),
  its roles (\<^verbatim>\<open>core/infrastructure/rbac.go\<close>), the config map of its protobuf files and how the data index mounts it
  (\<^verbatim>\<open>core/shared\<close>), and the controller of deployments (\<^verbatim>\<open>runtimedeployment_controller.go\<close>).
\<close>

section \<open>What the controllers work with\<close>

record kogito_runtime =
  kr_service :: kogito_service
  kr_enableIstio :: bool

record rbac_role =
  role_meta :: object_meta
  role_rules :: "(string list \<times> string list \<times> string list) list"  \<comment> \<open>verbs, API groups, resources\<close>

record rbac_binding =
  rb_meta :: object_meta
  rb_subjects :: "(string \<times> string) list"  \<comment> \<open>kind, name\<close>
  rb_roleRef :: "string \<times> string \<times> string"  \<comment> \<open>API group, name, kind\<close>

text \<open>The HTTP client, the JSON decoder and the URL parser are passed in.\<close>

record 'w controller_env =
  ce_deploy :: "'w deploy_env"
  ce_runtimes :: "('w, kogito_runtime) store_api"
  ce_supporting :: "('w, supporting_service) store_api"
  ce_roles :: "('w, rbac_role) store_api"
  ce_serviceAccounts :: "('w, object_meta) store_api"
  ce_roleBindings :: "('w, rbac_binding) store_api"
  ce_http :: "'w http_api"
  ce_unmarshalList :: "string \<Rightarrow> gerr + string list"
  ce_parseURL :: "string \<Rightarrow> gerr + parsed_url"

abbreviation ce_cluster :: "'w controller_env \<Rightarrow> 'w cluster" where "ce_cluster E \<equiv> de_cluster (ce_deploy E)"
abbreviation ce_context :: "'w controller_env \<Rightarrow> op_context" where "ce_context E \<equiv> de_context (ce_deploy E)"

text \<open>A definition with the fields a controller leaves out at their zero values.\<close>

definition definition_for :: "kogito_service \<Rightarrow> string \<Rightarrow> 'w service_definition" where
  "definition_for inst imageName =
     \<lparr>sd_defaultImageName = imageName, sd_defaultImageTag = [], sd_requestNamespace = ks_namespace inst, sd_requestName = ks_name inst,
      sd_onDeploymentCreate = None, sd_singleReplica = False, sd_kafkaTopics = [], sd_customService = False,
      sd_configMapEnvFrom = [], sd_configMapVolumes = [], sd_secretEnvFrom = [], sd_secretVolumes = [], sd_envs = []\<rparr>"

text \<open>Calls that answer with an error or nothing and change the cluster, in sequence.\<close>

definition deploy_call :: "'w controller_env \<Rightarrow> kogito_service \<Rightarrow> 'w service_definition \<Rightarrow> 'w \<Rightarrow> (gerr + unit) \<times> 'w" where
  "deploy_call E inst def w =
     (case Deploy (ce_deploy E) inst def w of (Some e, w') \<Rightarrow> (Inl e, w') | (None, w') \<Rightarrow> (Inr (), w'))"

section \<open>Roles, rbac.go\<close>

definition getServiceViewerServiceAccount :: "string \<Rightarrow> object_meta" where
  "getServiceViewerServiceAccount namespace = mk_meta ''kogito-service-viewer'' namespace"

definition getServiceViewerRole :: "string \<Rightarrow> rbac_role" where
  "getServiceViewerRole namespace =
     \<lparr>role_meta = mk_meta ''kogito-service-viewer'' namespace,
      role_rules = [([''list'', ''get'', ''watch'', ''update'', ''patch''], [[]], [''services'', ''configmaps''])]\<rparr>"

definition getServiceViewerRoleBinding :: "string \<Rightarrow> rbac_binding" where
  "getServiceViewerRoleBinding namespace =
     \<lparr>rb_meta = mk_meta ''kogito-service-viewer'' namespace,
      rb_subjects = [(''ServiceAccount'', ''kogito-service-viewer'')],
      rb_roleRef = (''rbac.authorization.k8s.io'', ''kogito-service-viewer'', ''Role'')\<rparr>"

definition SetupRBAC :: "'w controller_env \<Rightarrow> string \<Rightarrow> 'w \<Rightarrow> (gerr + unit) \<times> 'w" where
  "SetupRBAC E namespace =
     bindS (CreateIfNotExists (ce_roles E) (getServiceViewerRole namespace)) (\<lambda>_.
     bindS (CreateIfNotExists (ce_serviceAccounts E) (getServiceViewerServiceAccount namespace)) (\<lambda>_.
     bindS (CreateIfNotExists (ce_roleBindings E) (getServiceViewerRoleBinding namespace)) (\<lambda>_. returnS ())))"

section \<open>Protobuf config maps, shared/protobuf\_configmap.go\<close>

definition getHTTPFileBytes :: "'w controller_env \<Rightarrow> string \<Rightarrow> 'w \<Rightarrow> gerr + string option" where
  "getHTTPFileBytes E fileURL w =
     bindR (ht_get (ce_http E) fileURL w) (\<lambda>(statusCode, body).
       if statusCode \<noteq> 200 then Inr None else bindR body (\<lambda>bytes. Inr (Some bytes)))"

definition protobuf_labels :: "kogito_runtime \<Rightarrow> smap" where
  "protobuf_labels r = [(''app'', ks_name (kr_service r)), (''kogito-protobuf'', ''true'')]"

definition FetchProtoBufConfigMap :: "'w controller_env \<Rightarrow> kogito_runtime \<Rightarrow> 'w \<Rightarrow> gerr + configmap option" where
  "FetchProtoBufConfigMap E r w =
     bindR (FetchConfigMapsForLabel (cl_configMaps (ce_cluster E)) (ks_namespace (kr_service r)) (protobuf_labels r) w) (\<lambda>items.
       Inr (case items of [] \<Rightarrow> None | c # _ \<Rightarrow> Some c))"

definition FetchAllProtoBufConfigMaps :: "'w controller_env \<Rightarrow> string \<Rightarrow> 'w \<Rightarrow> gerr + configmap list" where
  "FetchAllProtoBufConfigMaps E namespace w =
     FetchConfigMapsForLabel (cl_configMaps (ce_cluster E)) namespace [(''kogito-protobuf'', ''true'')] w"

definition protobuf_endpoint :: "'w controller_env \<Rightarrow> kogito_runtime \<Rightarrow> string" where
  "protobuf_endpoint E r = GetKogitoServiceURL (ce_context E) (kr_service r) @ ''/persistence/protobuf/''"

text \<open>A file that cannot be fetched is logged and left out.\<close>

fun fetch_files :: "'w controller_env \<Rightarrow> string \<Rightarrow> 'w \<Rightarrow> string list \<Rightarrow> smap \<Rightarrow> smap" where
  "fetch_files E endpoint w [] data = data"
| "fetch_files E endpoint w (fileName # files) data =
     (case getHTTPFileBytes E (endpoint @ fileName) w of
        Inr (Some bytes) \<Rightarrow> fetch_files E endpoint w files (smap_put fileName bytes data)
      | _ \<Rightarrow> fetch_files E endpoint w files data)"

definition getProtobufData :: "'w controller_env \<Rightarrow> kogito_runtime \<Rightarrow> 'w \<Rightarrow> gerr + smap" where
  "getProtobufData E r w =
     bindR (IsDeploymentAvailable (ce_cluster E) (ks_namespace (kr_service r)) (ks_name (kr_service r)) w) (\<lambda>available.
       if \<not> available then Inl (ErrorForDeploymentNotReachable (ks_name (kr_service r)))
       else bindR (getHTTPFileBytes E (protobuf_endpoint E r @ ''list.json'') w) (\<lambda>bytes. case bytes of
              None \<Rightarrow> Inr []
            | Some bytes \<Rightarrow>
                bindR (ce_unmarshalList E bytes) (\<lambda>protobufList. Inr (fetch_files E (protobuf_endpoint E r) w protobufList []))))"

definition getProtoBufConfigMapName :: "kogito_runtime \<Rightarrow> string" where
  "getProtoBufConfigMapName r = ks_name (kr_service r) @ ''-protobuf-files''"

definition CreateProtoBufConfigMap :: "'w controller_env \<Rightarrow> kogito_runtime \<Rightarrow> 'w \<Rightarrow> gerr + configmap option" where
  "CreateProtoBufConfigMap E r w =
     bindR (getProtobufData E r w) (\<lambda>protoBufData.
       Inr (if protoBufData = [] then None
            else Some \<lparr>cm_meta = (mk_meta (getProtoBufConfigMapName r) (ks_namespace (kr_service r)))\<lparr>om_labels :=
                         [(''kogito-protobuf'', ''true''), (''app'', ks_name (kr_service r))]\<rparr>,
                       cm_data = protoBufData, cm_binaryData = []\<rparr>))"

definition CreateProtoBufConfigMapVolumeReference :: "string \<Rightarrow> volume_reference" where
  "CreateProtoBufConfigMapVolumeReference name =
     \<lparr>vr_name = name, vr_mountPath = path_Join [''/home/kogito'' @ ''/data/protobufs'', name], vr_fileMode = Some 420, vr_optional = None\<rparr>"

subsection \<open>Its reconciler, shared/protobuf\_configmap\_reconciler.go\<close>

definition protobuf_createRequiredResources :: "'w controller_env \<Rightarrow> kogito_runtime \<Rightarrow> 'w \<Rightarrow> gerr + configmap list" where
  "protobuf_createRequiredResources E r w =
     bindR (CreateProtoBufConfigMap E r w) (\<lambda>cm. case cm of
        None \<Rightarrow> Inr []
      | Some c \<Rightarrow> bindR (own_object (ce_context E) (ks_meta (kr_service r)) cm_meta (\<lambda>m c. c\<lparr>cm_meta := m\<rparr>) c) (\<lambda>c. Inr [c]))"

definition protobuf_getDeployedResources :: "'w controller_env \<Rightarrow> kogito_runtime \<Rightarrow> 'w \<Rightarrow> gerr + configmap list" where
  "protobuf_getDeployedResources E r w =
     FetchConfigMapsForLabel (cl_configMaps (ce_cluster E)) (ks_namespace (kr_service r)) (protobuf_labels r) w"

definition protobuf_resources :: "'w controller_env \<Rightarrow> kogito_runtime \<Rightarrow> 'w \<Rightarrow> (gerr + bool) \<times> 'w" where
  "protobuf_resources E r w =
     (case protobuf_createRequiredResources E r w of
        Inl e \<Rightarrow> (Inl e, w)
      | Inr req \<Rightarrow> (case protobuf_getDeployedResources E r w of
            Inl e \<Rightarrow> (Inl e, w)
          | Inr dep \<Rightarrow> process_resources (de_configMapLib (ce_deploy E)) configMap_GetComparator req dep w))"

definition protobuf_Reconcile :: "'w controller_env \<Rightarrow> kogito_runtime \<Rightarrow> 'w \<Rightarrow> (gerr + unit) \<times> 'w" where
  "protobuf_Reconcile E r =
     bindS (protobuf_resources E r) (\<lambda>isDeltaProcessed.
       if isDeltaProcessed then failS ErrorForProcessingProtoBufConfigMapDelta else returnS ())"

interpretation pb: resource_reconciler "de_configMapLib (ce_deploy E)" configMap_GetComparator "protobuf_createRequiredResources E r"
  "protobuf_getDeployedResources E r" "protobuf_resources E r" for E r
  by unfold_locales (simp add: protobuf_resources_def)

subsection \<open>Mounting on the data index, shared/protobuf.go\<close>

definition set_env :: "string \<Rightarrow> string \<Rightarrow> container \<Rightarrow> container" where
  "set_env k v c = (case SetEnvVar k v (Some c) of Some c' \<Rightarrow> c' | None \<Rightarrow> c)"

definition updateProtoBufPropInToDeploymentEnv :: "deployment \<Rightarrow> gerr + deployment" where
  "updateProtoBufPropInToDeploymentEnv d =
     (if dep_volumes d \<noteq> []
      then with_container0 (\<lambda>c. set_env ''KOGITO_PROTOBUF_FOLDER'' (''/home/kogito'' @ ''/data/protobufs'') (set_env ''KOGITO_PROTOBUF_WATCH'' ''true'' c)) d
      else with_container0 (\<lambda>c. set_env ''KOGITO_PROTOBUF_FOLDER'' [] (set_env ''KOGITO_PROTOBUF_WATCH'' ''false'' c)) d)"

definition mounted_data_index :: "'w controller_env \<Rightarrow> configmap \<Rightarrow> deployment \<Rightarrow> 'w \<Rightarrow> gerr + deployment" where
  "mounted_data_index E cm d w =
     bindR (cm_MountAsVolume (cl_configMaps (ce_cluster E)) d (CreateProtoBufConfigMapVolumeReference (om_name (cm_meta cm))) w)
       updateProtoBufPropInToDeploymentEnv"

definition MountProtoBufConfigMapOnDataIndex :: "'w controller_env \<Rightarrow> kogito_runtime \<Rightarrow> 'w \<Rightarrow> (gerr + unit) \<times> 'w" where
  "MountProtoBufConfigMapOnDataIndex E r w =
     (case FetchProtoBufConfigMap E r w of
        Inl e \<Rightarrow> (Inl e, w)
      | Inr None \<Rightarrow> (Inr (), w)
      | Inr (Some cm) \<Rightarrow>
          (case FetchKogitoSupportingServiceDeployment (ce_cluster E) (ce_supporting E) (ks_namespace (kr_service r)) DataIndex w of
             Inl e \<Rightarrow> (Inl e, w)
           | Inr None \<Rightarrow> (Inr (), w)
           | Inr (Some d) \<Rightarrow>
               (case mounted_data_index E cm d w of
                  Inl e \<Rightarrow> (Inl e, w)
                | Inr d' \<Rightarrow> bindS (Update (cl_deployments (ce_cluster E)) d') (\<lambda>_. returnS ()) w)))"

fun mount_all :: "'w controller_env \<Rightarrow> configmap list \<Rightarrow> deployment \<Rightarrow> 'w \<Rightarrow> gerr + deployment" where
  "mount_all E [] d w = Inr d"
| "mount_all E (cm # cms) d w =
     bindR (cm_MountAsVolume (cl_configMaps (ce_cluster E)) d (CreateProtoBufConfigMapVolumeReference (om_name (cm_meta cm))) w)
       (\<lambda>d'. mount_all E cms d' w)"

definition MountAllProtoBufConfigMapOnDataIndexDeployment :: "'w controller_env \<Rightarrow> deployment \<Rightarrow> 'w \<Rightarrow> gerr + deployment" where
  "MountAllProtoBufConfigMapOnDataIndexDeployment E d w =
     bindR (FetchAllProtoBufConfigMaps E (om_namespace (dep_meta d)) w) (\<lambda>cms. mount_all E cms d w)"

section \<open>Runtimes, runtime\_deployer.go, runtime\_controller.go\<close>

definition runtime_OnDeploymentCreate :: "'w controller_env \<Rightarrow> kogito_runtime \<Rightarrow> deployment \<Rightarrow> 'w \<Rightarrow> gerr + deployment" where
  "runtime_OnDeploymentCreate E r d w =
     bindR (with_container0 (\<lambda>c.
         let c1 = set_env ''NAMESPACE'' (ks_namespace (kr_service r)) c; uri = st_externalURI (ks_status (kr_service r))
         in if uri \<noteq> [] then set_env ''KOGITO_SERVICE_URL'' uri c1 else c1) d) (\<lambda>d1.
       let d2 = d1\<lparr>dep_template := (dep_template d1)\<lparr>pt_spec := (dep_podSpec d1)\<lparr>ps_serviceAccountName := ''kogito-service-viewer''\<rparr>\<rparr>\<rparr>;
           d3 = (if kr_enableIstio r
                 then d2\<lparr>dep_template := (dep_template d2)\<lparr>pt_annotations :=
                        smap_put ''sidecar.istio.io/inject'' ''true'' (pt_annotations (dep_template d2))\<rparr>\<rparr>
                 else d2)
       in inject_endpoints (ce_cluster E) (ce_supporting E) d3 w)"

definition FetchKogitoRuntimeInstance :: "('w, kogito_runtime) store_api \<Rightarrow> string \<Rightarrow> string \<Rightarrow> 'w \<Rightarrow> gerr + kogito_runtime option" where
  "FetchKogitoRuntimeInstance A namespace name w = FetchWithKey A namespace name w"

definition FetchAllKogitoRuntimeInstances :: "('w, kogito_runtime) store_api \<Rightarrow> string \<Rightarrow> 'w \<Rightarrow> gerr + kogito_runtime list" where
  "FetchAllKogitoRuntimeInstances A namespace w = ListWithNamespace A namespace w"

definition runtime_definition :: "'w controller_env \<Rightarrow> string \<Rightarrow> string \<Rightarrow> kogito_runtime \<Rightarrow> 'w service_definition" where
  "runtime_definition E namespace name r =
     (definition_for (kr_service r) [])\<lparr>sd_requestNamespace := namespace, sd_requestName := name, sd_defaultImageTag := ''latest'',
        sd_onDeploymentCreate := Some (runtime_OnDeploymentCreate E r), sd_customService := True\<rparr>"

text \<open>The answer for the error of a call, through the classifier of errors.  A panic is not classified: it leaves the controller.\<close>

definition answer :: "(gerr + unit) \<times> 'w \<Rightarrow> (gerr + ctrl_result \<times> gerr option) \<times> 'w" where
  "answer p =
     (case p of
        (Inl (Panic m), w) \<Rightarrow> (Inl (Panic m), w)
      | (Inl e, w) \<Rightarrow> (Inr (GetReconcileResultFor (Some e)), w)
      | (Inr _, w) \<Rightarrow> (Inr (no_requeue, None), w))"

definition runtime_steps :: "'w controller_env \<Rightarrow> string \<Rightarrow> string \<Rightarrow> kogito_runtime \<Rightarrow> 'w \<Rightarrow> (gerr + unit) \<times> 'w" where
  "runtime_steps E namespace name r =
     bindS (deploy_call E (kr_service r) (runtime_definition E namespace name r)) (\<lambda>_.
     bindS (protobuf_Reconcile E r) (\<lambda>_. MountProtoBufConfigMapOnDataIndex E r))"

definition runtime_Reconcile :: "'w controller_env \<Rightarrow> string \<Rightarrow> string \<Rightarrow> 'w \<Rightarrow> (gerr + ctrl_result \<times> gerr option) \<times> 'w" where
  "runtime_Reconcile E namespace name w =
     (case FetchKogitoRuntimeInstance (ce_runtimes E) namespace name w of
        Inl e \<Rightarrow> (Inr (no_requeue, Some e), w)
      | Inr None \<Rightarrow> (Inr (no_requeue, None), w)
      | Inr (Some r) \<Rightarrow>
          (case SetupRBAC E namespace w of
             (Inl e, w') \<Rightarrow> (Inr (no_requeue, Some e), w')
           | (Inr _, w') \<Rightarrow> answer (runtime_steps E namespace name r w')))"

section \<open>The controller of deployments, runtimedeployment\_controller.go\<close>

definition runtimeDeployment_Reconcile :: "'w controller_env \<Rightarrow> string \<Rightarrow> string \<Rightarrow> 'w \<Rightarrow> (gerr + ctrl_result \<times> gerr option) \<times> 'w" where
  "runtimeDeployment_Reconcile E namespace name w =
     (case FetchDeployment (ce_cluster E) namespace name w of
        Inl e \<Rightarrow> (Inr (no_requeue, Some e), w)
      | Inr None \<Rightarrow> (Inr (no_requeue, None), w)
      | Inr (Some d) \<Rightarrow> answer (bindS (Process (ce_cluster E) (ce_context E) (ce_supporting E) d) (\<lambda>_. returnS ()) w))"

end
