(* ===== verification/Build_Config.thy ===== *)
theory Build_Config
  imports Image_Handler Service_Types Framework_Env Framework_Util
begin

text \<open>
  The build configurations of a KogitoBuild, \<^verbatim>\<open>core/kogitobuild\<close>: names and images (\<^verbatim>\<open>utils.go\<close>,
  \<^verbatim>\<open>image_stream.go\<close>), the decorators that fill in a configuration (\<^verbatim>\<open>decorator.go\<close>, \<^verbatim>\<open>build_config.go\<close>) and the
  resources a source and a binary build request (\<^verbatim>\<open>source_build_manager.go\<close>, \<^verbatim>\<open>binary_build_manager.go\<close>),
  over the custom resource of \<^verbatim>\<open>apis/app/v1beta1/kogitobuild_types.go\<close>.
\<close>

section \<open>The custom resource\<close>

record git_source =
  gs_uri :: string
  gs_reference :: string
  gs_contextDir :: string

record artifact =
  af_groupID :: string
  af_artifactID :: string
  af_version :: string

record web_hook_secret =
  wh_type :: string
  wh_secret :: string

record build_resources =
  br_limits :: "smap option"
  br_requests :: "smap option"

record build_spec =
  bs_type :: string
  bs_disableIncremental :: bool
  bs_env :: "env_var list"
  bs_gitSource :: git_source
  bs_runtime :: string
  bs_webHooks :: "web_hook_secret list"
  bs_native :: bool
  bs_resources :: build_resources
  bs_mavenMirrorURL :: string
  bs_buildImage :: string
  bs_runtimeImage :: string
  bs_targetKogitoRuntime :: string
  bs_artifact :: artifact
  bs_enableMavenDownloadOutput :: bool

record builds =
  bl_new :: "string list"
  bl_pending :: "string list"
  bl_running :: "string list"
  bl_complete :: "string list"
  bl_failed :: "string list"
  bl_error :: "string list"
  bl_cancelled :: "string list"

record build_status =
  bst_conditions :: "condition list option"
  bst_latestBuild :: string
  bst_builds :: builds

record kogito_build =
  kb_meta :: object_meta
  kb_spec :: build_spec
  kb_status :: build_status

abbreviation kb_name :: "kogito_build \<Rightarrow> string" where "kb_name b \<equiv> om_name (kb_meta b)"
abbreviation kb_namespace :: "kogito_build \<Rightarrow> string" where "kb_namespace b \<equiv> om_namespace (kb_meta b)"

definition map_bspec :: "(build_spec \<Rightarrow> build_spec) \<Rightarrow> kogito_build \<Rightarrow> kogito_build" where
  "map_bspec f b = b\<lparr>kb_spec := f (kb_spec b)\<rparr>"

section \<open>The OpenShift build configuration\<close>

record object_ref =
  ob_kind :: string
  ob_namespace :: string
  ob_name :: string

datatype build_trigger =
    GitHubWebHookTrigger string  \<comment> \<open>the name of the secret\<close>
  | GenericWebHookTrigger string bool  \<comment> \<open>the name of the secret, AllowEnv\<close>
  | ImageChangeTrigger object_ref

record image_source =
  iso_from :: object_ref
  iso_paths :: "(string \<times> string) list"  \<comment> \<open>destination directory, source path\<close>

record source_strategy =
  sst_from :: object_ref
  sst_env :: "env_var list"
  sst_incremental :: "bool option"

record build_config =
  bc_meta :: object_meta
  bc_runPolicy :: string
  bc_resources :: build_resources
  bc_sourceType :: string
  bc_contextDir :: string
  bc_git :: "(string \<times> string) option"  \<comment> \<open>URI, Ref\<close>
  bc_binary :: "string option"  \<comment> \<open>AsFile\<close>
  bc_images :: "image_source list"
  bc_outputTo :: "object_ref option"
  bc_triggers :: "build_trigger list option"  \<comment> \<open>nil and the empty slice differ\<close>
  bc_strategyType :: string
  bc_sourceStrategy :: "source_strategy option"

text \<open>What \<^verbatim>\<open>resource.Quantity\<close> answers for the limits of a configuration: the memory as an integer (exact,
  or the unscaled value where it does not fit) and the CPU as a string.\<close>

record quantities =
  qu_memory :: "smap \<Rightarrow> int"
  qu_cpu :: "smap \<Rightarrow> string"

section \<open>Names, utils.go\<close>

definition GetApplicationName :: "kogito_build \<Rightarrow> string" where
  "GetApplicationName b =
     (if bs_targetKogitoRuntime (kb_spec b) = [] then kb_name b else bs_targetKogitoRuntime (kb_spec b))"

definition GetBuildBuilderName :: "kogito_build \<Rightarrow> string" where
  "GetBuildBuilderName b = kb_name b @ ''-builder''"

definition getBuilderLimitsAsIntString :: "quantities \<Rightarrow> build_config \<Rightarrow> string \<times> string" where
  "getBuilderLimitsAsIntString Q bc =
     (case br_limits (bc_resources bc) of
        None \<Rightarrow> ([], [])
      | Some limits \<Rightarrow> (qu_cpu Q limits, if qu_memory Q limits > 0 then Itoa (qu_memory Q limits) else []))"

section \<open>Images, image\_stream.go\<close>

datatype kogito_image_type = KogitoBuilderImage | KogitoRuntimeJVMImage | KogitoRuntimeNativeImage

definition getKogitoImageType :: "bool \<Rightarrow> bool \<Rightarrow> kogito_image_type" where
  "getKogitoImageType isBuilder isNative =
     (if isBuilder then KogitoBuilderImage else if \<not> isNative then KogitoRuntimeJVMImage else KogitoRuntimeNativeImage)"

fun imageStreamDefaultAnnotations :: "kogito_image_type \<Rightarrow> smap" where
  "imageStreamDefaultAnnotations KogitoRuntimeNativeImage =
     [(''openshift.io/provider-display-name'', ''KIE Group''),
      (''openshift.io/display-name'', ''Runtime image for Kogito based on Quarkus native image'')]"
| "imageStreamDefaultAnnotations KogitoRuntimeJVMImage =
     [(''openshift.io/provider-display-name'', ''KIE Group''),
      (''openshift.io/display-name'', ''Runtime image for Kogito based on Quarkus or Spring Boot JVM image'')]"
| "imageStreamDefaultAnnotations KogitoBuilderImage =
     [(''openshift.io/provider-display-name'', ''KIE Group''),
      (''openshift.io/display-name'', ''Platform for building Kogito based on Quarkus or Spring Boot'')]"

fun tagDefaultAnnotations :: "kogito_image_type \<Rightarrow> smap" where
  "tagDefaultAnnotations KogitoRuntimeNativeImage =
     [(''iconClass'', ''icon-jbpm''), (''description'', ''Runtime image for Kogito based on Quarkus native image''),
      (''tags'', ''runtime,kogito,quarkus''), (''supports'', ''quarkus'')]"
| "tagDefaultAnnotations KogitoRuntimeJVMImage =
     [(''iconClass'', ''icon-jbpm''), (''description'', ''Runtime image for Kogito based on Quarkus or Spring Boot JVM image''),
      (''tags'', ''runtime,kogito,quarkus,springboot,jvm''), (''supports'', ''quarkus,springboot'')]"
| "tagDefaultAnnotations KogitoBuilderImage =
     [(''iconClass'', ''icon-jbpm''), (''description'', ''Platform for building Kogito based on Quarkus or Spring Boot''),
      (''tags'', ''builder,kogito,quarkus,springboot''), (''supports'', ''quarkus,springboot'')]"

definition build_image :: "kogito_build \<Rightarrow> bool \<Rightarrow> image" where
  "build_image b isBuilder =
     ConvertImageTagToImage (if isBuilder then bs_buildImage (kb_spec b) else bs_runtimeImage (kb_spec b))"

definition resolveKogitoImageTag :: "op_context \<Rightarrow> kogito_build \<Rightarrow> bool \<Rightarrow> string" where
  "resolveKogitoImageTag cx b isBuilder =
     (let img = build_image b isBuilder in if img_tag img \<noteq> [] then img_tag img else GetKogitoImageVersion (cx_version cx))"

definition env_or_default :: "op_context \<Rightarrow> string \<Rightarrow> string \<Rightarrow> string" where
  "env_or_default cx k d = (if cx_getenv cx k = [] then d else cx_getenv cx k)"

definition GetDefaultBuilderImage :: "op_context \<Rightarrow> string" where
  "GetDefaultBuilderImage cx = env_or_default cx ''BUILDER_IMAGE'' ''kogito-s2i-builder''"

definition GetDefaultRuntimeJVMImage :: "op_context \<Rightarrow> string" where
  "GetDefaultRuntimeJVMImage cx = env_or_default cx ''RUNTIME_IMAGE'' ''kogito-runtime-jvm''"

definition GetDefaultRuntimeNativeImage :: "op_context \<Rightarrow> string" where
  "GetDefaultRuntimeNativeImage cx = env_or_default cx ''RUNTIME_NATIVE_IMAGE'' ''kogito-runtime-native''"

definition resolveKogitoImageName :: "op_context \<Rightarrow> kogito_build \<Rightarrow> bool \<Rightarrow> string" where
  "resolveKogitoImageName cx b isBuilder =
     (let img = build_image b isBuilder
      in if img_name img \<noteq> [] then img_name img
         else if isBuilder then GetDefaultBuilderImage cx
         else if bs_native (kb_spec b) then GetDefaultRuntimeNativeImage cx
         else GetDefaultRuntimeJVMImage cx)"

definition resolveKogitoImageStreamName :: "op_context \<Rightarrow> kogito_build \<Rightarrow> bool \<Rightarrow> string" where
  "resolveKogitoImageStreamName cx b isBuilder =
     (if img_name (build_image b isBuilder) \<noteq> [] then ''custom-'' @ resolveKogitoImageName cx b isBuilder
      else resolveKogitoImageName cx b isBuilder)"

definition ResolveKogitoImageNameTag :: "op_context \<Rightarrow> kogito_build \<Rightarrow> bool \<Rightarrow> string" where
  "ResolveKogitoImageNameTag cx b isBuilder =
     StringsJoin '':'' [resolveKogitoImageName cx b isBuilder, resolveKogitoImageTag cx b isBuilder]"

definition ResolveKogitoImageStreamTagName :: "op_context \<Rightarrow> kogito_build \<Rightarrow> bool \<Rightarrow> string" where
  "ResolveKogitoImageStreamTagName cx b isBuilder =
     StringsJoin '':'' [resolveKogitoImageStreamName cx b isBuilder, resolveKogitoImageTag cx b isBuilder]"

definition resolveKogitoImageRegistryNamespace :: "op_context \<Rightarrow> kogito_build \<Rightarrow> bool \<Rightarrow> string" where
  "resolveKogitoImageRegistryNamespace cx b isBuilder =
     (let img = build_image b isBuilder in if img_domain img \<noteq> [] then img_domain img else GetDefaultImageRegistry cx)"

text \<open>The tag annotations are a package variable whose version entry each call overwrites before use.\<close>

definition newKogitoImageStream :: "op_context \<Rightarrow> kogito_build \<Rightarrow> bool \<Rightarrow> image_stream" where
  "newKogitoImageStream cx b isBuilder =
     (let imageTag = resolveKogitoImageTag cx b isBuilder;
          imageType = getKogitoImageType isBuilder (bs_native (kb_spec b))
      in \<lparr>is_meta = (mk_meta (resolveKogitoImageStreamName cx b isBuilder) (kb_namespace b))\<lparr>
            om_annotations := imageStreamDefaultAnnotations imageType\<rparr>,
          is_lookupLocal = False,
          is_tags = [\<lparr>tg_name = imageTag, tg_annotations = smap_put ''version'' imageTag (tagDefaultAnnotations imageType),
            tg_from = Some (''DockerImage'', resolveKogitoImageRegistryNamespace cx b isBuilder @ ''/'' @
              resolveKogitoImageName cx b isBuilder @ '':'' @ imageTag),
            tg_referencePolicy = ''Local'', tg_insecure = False, tg_generation = None\<rparr>],
          is_statusTags = []\<rparr>)"

text \<open>The dereference of the output reference panics when it is nil.\<close>

definition getOutputImageStreamNameTag :: "build_config \<Rightarrow> gerr + string \<times> string" where
  "getOutputImageStreamNameTag bc =
     (case bc_outputTo bc of
        None \<Rightarrow> Inl (Panic ''nil pointer dereference'')
      | Some to \<Rightarrow> (let parts = SplitChar CHR '':'' (ob_name to)
                   in Inr (parts ! 0, if length parts > 1 then parts ! 1 else ''latest'')))"

definition newOutputImageStreamForBuilder :: "build_config \<Rightarrow> gerr + image_stream" where
  "newOutputImageStreamForBuilder bc =
     bindR (getOutputImageStreamNameTag bc) (\<lambda>(isName, tag).
       Inr \<lparr>is_meta = (mk_meta isName (om_namespace (bc_meta bc)))\<lparr>om_labels := [(''app'', smap_get (om_labels (bc_meta bc)) ''app'')]\<rparr>,
            is_lookupLocal = True,
            is_tags = [\<lparr>tg_name = tag, tg_annotations = [], tg_from = None, tg_referencePolicy = ''Local'', tg_insecure = False,
              tg_generation = None\<rparr>],
            is_statusTags = []\<rparr>)"

definition newImageHandlerForBuiltServices :: "string \<Rightarrow> string \<Rightarrow> string \<Rightarrow> image_handler" where
  "newImageHandlerForBuiltServices isName tag namespace =
     NewImageHandler \<lparr>img_domain = [], img_name = isName, img_tag = tag\<rparr> isName isName namespace False False"

definition newOutputImageStreamForRuntime ::
  "'w image_cluster \<Rightarrow> op_context \<Rightarrow> build_config \<Rightarrow> kogito_build \<Rightarrow> 'w \<Rightarrow> gerr + image_stream option" where
  "newOutputImageStreamForRuntime K cx bc b w =
     bindR (getOutputImageStreamNameTag bc) (\<lambda>(isName, tag).
       handler_CreateImageStreamIfNotExists K cx (newImageHandlerForBuiltServices isName tag (kb_namespace b)) w)"

section \<open>A slice of variables and the array it shares\<close>

text \<open>\<^verbatim>\<open>EnvOverride\<close> replaces a variable in the array of the slice it is given, and appends to it.  The decorators
  give it the slice of the specification itself: as long as no append needed a new array, a replacement is
  visible there as well.  The view of the caller, the slice of the specification, the capacity left in the
  array and whether both still share it are the state of such a call.\<close>

record env_slice =
  esl_owner :: "env_var list"
  esl_view :: "env_var list"
  esl_spare :: nat
  esl_shared :: bool

definition slice_override :: "env_var \<Rightarrow> env_slice \<Rightarrow> env_slice" where
  "slice_override e s =
     (let pos = GetEnvVar (ev_name e) (esl_view s)
      in if pos \<noteq> -1
         then s\<lparr>esl_view := (esl_view s)[nat pos := e],
                esl_owner := (if esl_shared s then (esl_owner s)[nat pos := e] else esl_owner s)\<rparr>
         else s\<lparr>esl_view := esl_view s @ [e], esl_spare := esl_spare s - 1,
                esl_shared := (esl_shared s \<and> esl_spare s > 0)\<rparr>)"

section \<open>Decorators, decorator.go\<close>

text \<open>A decorator changes the configuration and, through the shared slice, possibly the build.\<close>

type_synonym decorator = "kogito_build \<times> build_config \<Rightarrow> gerr + kogito_build \<times> build_config"

definition with_source_strategy :: "(source_strategy \<Rightarrow> source_strategy) \<Rightarrow> build_config \<Rightarrow> gerr + build_config" where
  "with_source_strategy f bc =
     (case bc_sourceStrategy bc of
        None \<Rightarrow> Inl (Panic ''nil pointer dereference'')
      | Some st \<Rightarrow> Inr (bc\<lparr>bc_sourceStrategy := Some (f st)\<rparr>))"

definition append_trigger :: "build_trigger \<Rightarrow> build_trigger list option \<Rightarrow> build_trigger list option" where
  "append_trigger t ts = Some ((case ts of None \<Rightarrow> [] | Some ts \<Rightarrow> ts) @ [t])"

definition hook_trigger :: "web_hook_secret \<Rightarrow> build_trigger" where
  "hook_trigger h =
     (if wh_type h = ''GitHub'' then GitHubWebHookTrigger (wh_secret h) else GenericWebHookTrigger (wh_secret h) True)"

definition decoratorForRemoteSourceBuilder :: decorator where
  "decoratorForRemoteSourceBuilder = (\<lambda>(b, bc).
     (let git = bs_gitSource (kb_spec b)
      in Inr (b, bc\<lparr>bc_sourceType := ''Git'', bc_contextDir := TrimSuffix (gs_contextDir git) ''/'',
           bc_git := Some (gs_uri git, gs_reference git),
           bc_triggers := fold (\<lambda>h. append_trigger (hook_trigger h)) (bs_webHooks (kb_spec b)) (bc_triggers bc)\<rparr>)))"

definition plain_env :: "string \<Rightarrow> string \<Rightarrow> env_var" where
  "plain_env n v = \<lparr>ev_name = n, ev_value = v, ev_valueFrom = None\<rparr>"

definition env_unless_empty :: "string \<Rightarrow> string \<Rightarrow> env_var list \<Rightarrow> env_var list" where
  "env_unless_empty n v envs = (if v \<noteq> [] then EnvOverride envs [plain_env n v] else envs)"

definition decoratorForLocalSourceBuilder :: decorator where
  "decoratorForLocalSourceBuilder = (\<lambda>(b, bc).
     (let af = bs_artifact (kb_spec b);
          envs = env_unless_empty ''PROJECT_VERSION'' (af_version af)
                   (env_unless_empty ''PROJECT_ARTIFACT_ID'' (af_artifactID af)
                     (env_unless_empty ''PROJECT_GROUP_ID'' (af_groupID af) []))
      in bindR (with_source_strategy (\<lambda>st. st\<lparr>sst_env := sst_env st @ envs\<rparr>) bc) (\<lambda>bc'.
           Inr (b, bc'\<lparr>bc_sourceType := ''Binary'', bc_binary := Some [], bc_triggers := Some []\<rparr>))))"

definition getBuilderImageStreamOutputTo :: "kogito_build \<Rightarrow> object_ref" where
  "getBuilderImageStreamOutputTo b =
     \<lparr>ob_kind = ''ImageStreamTag'', ob_namespace = [], ob_name = StringsJoin '':'' [GetBuildBuilderName b, ''latest'']\<rparr>"

definition format_bool :: "bool \<Rightarrow> string" where
  "format_bool v = (if v then ''true'' else ''false'')"

definition source_builder_envs :: "quantities \<Rightarrow> nat \<Rightarrow> kogito_build \<Rightarrow> build_config \<Rightarrow> env_slice" where
  "source_builder_envs Q spare b bc =
     (let sp = kb_spec b;
          s0 = \<lparr>esl_owner = bs_env sp, esl_view = bs_env sp, esl_spare = spare, esl_shared = True\<rparr>;
          s1 = (if bs_runtime sp = ''quarkus'' then slice_override (plain_env ''NATIVE'' (format_bool (bs_native sp))) s0 else s0);
          limits = getBuilderLimitsAsIntString Q bc;
          s2 = slice_override (plain_env ''LIMIT_CPU'' (fst limits)) s1;
          s3 = slice_override (plain_env ''LIMIT_MEMORY'' (snd limits)) s2;
          s4 = (if bs_mavenMirrorURL sp \<noteq> [] then slice_override (plain_env ''MAVEN_MIRROR_URL'' (bs_mavenMirrorURL sp)) s3 else s3)
      in if bs_enableMavenDownloadOutput sp
         then slice_override (plain_env ''MAVEN_DOWNLOAD_OUTPUT'' (format_bool (bs_enableMavenDownloadOutput sp))) s4 else s4)"

definition image_stream_tag_ref :: "op_context \<Rightarrow> kogito_build \<Rightarrow> bool \<Rightarrow> object_ref" where
  "image_stream_tag_ref cx b isBuilder =
     \<lparr>ob_kind = ''ImageStreamTag'', ob_namespace = kb_namespace b, ob_name = ResolveKogitoImageStreamTagName cx b isBuilder\<rparr>"

definition decoratorForSourceBuilder :: "op_context \<Rightarrow> quantities \<Rightarrow> nat \<Rightarrow> decorator" where
  "decoratorForSourceBuilder cx Q spare = (\<lambda>(b, bc).
     (let baseImage = image_stream_tag_ref cx b True;
          envs = source_builder_envs Q spare b bc
      in Inr (map_bspec (\<lambda>sp. sp\<lparr>bs_env := esl_owner envs\<rparr>) b,
              bc\<lparr>bc_meta := (bc_meta bc)\<lparr>om_name := GetBuildBuilderName b\<rparr>,
                 bc_outputTo := Some (getBuilderImageStreamOutputTo b),
                 bc_triggers := Some [ImageChangeTrigger baseImage],
                 bc_strategyType := ''Source'',
                 bc_sourceStrategy := Some \<lparr>sst_from = baseImage, sst_env = esl_view envs,
                   sst_incremental = Some (\<not> bs_disableIncremental (kb_spec b))\<rparr>\<rparr>)))"

definition decoratorForBinaryRuntimeBuilder :: decorator where
  "decoratorForBinaryRuntimeBuilder = (\<lambda>(b, bc).
     bindR (with_source_strategy (\<lambda>st. st\<lparr>sst_env := sst_env st @ [plain_env ''BINARY_BUILD'' ''true'']\<rparr>)
              (bc\<lparr>bc_sourceType := ''Binary''\<rparr>)) (\<lambda>bc'.
       Inr (b, bc'\<lparr>bc_binary := Some [], bc_triggers := Some []\<rparr>)))"

definition decoratorForSourceRuntimeBuilder :: decorator where
  "decoratorForSourceRuntimeBuilder = (\<lambda>(b, bc).
     (let fromImage = getBuilderImageStreamOutputTo b
      in Inr (b, bc\<lparr>bc_sourceType := ''Image'',
           bc_images := [\<lparr>iso_from = fromImage, iso_paths = [(''.'', ''/home/kogito/bin'')]\<rparr>],
           bc_triggers := Some [ImageChangeTrigger fromImage]\<rparr>)))"

definition decoratorForRuntimeBuilder :: "op_context \<Rightarrow> decorator" where
  "decoratorForRuntimeBuilder cx = (\<lambda>(b, bc).
     Inr (b, bc\<lparr>bc_meta := (bc_meta bc)\<lparr>om_name := kb_name b\<rparr>,
       bc_outputTo := Some \<lparr>ob_kind = ''ImageStreamTag'', ob_namespace = [], ob_name = StringsJoin '':'' [GetApplicationName b, ''latest'']\<rparr>,
       bc_strategyType := ''Source'',
       bc_sourceStrategy := Some \<lparr>sst_from = image_stream_tag_ref cx b False, sst_env = bs_env (kb_spec b), sst_incremental = None\<rparr>\<rparr>))"

definition decoratorForCustomLabels :: "op_context \<Rightarrow> decorator" where
  "decoratorForCustomLabels cx = (\<lambda>(b, bc).
     Inr (b, bc\<lparr>bc_meta := (bc_meta bc)\<lparr>om_labels := AppendToStringMap (cx_labels cx) (om_labels (bc_meta bc))\<rparr>\<rparr>))"

section \<open>Build configurations, build\_config.go\<close>

definition basic_build_config :: "op_context \<Rightarrow> kogito_build \<Rightarrow> build_config" where
  "basic_build_config cx b =
     \<lparr>bc_meta = (mk_meta [] (kb_namespace b))\<lparr>
        om_labels := [(''buildType'', bs_type (kb_spec b)), (''app'', GetApplicationName b)],
        om_annotations := [(''kogito-operator.kiegroup.org/version'', cx_version cx)]\<rparr>,
      bc_runPolicy = ''Serial'', bc_resources = bs_resources (kb_spec b), bc_sourceType = [], bc_contextDir = [], bc_git = None,
      bc_binary = None, bc_images = [], bc_outputTo = None, bc_triggers = None, bc_strategyType = [], bc_sourceStrategy = None\<rparr>"

fun decorate :: "decorator list \<Rightarrow> kogito_build \<times> build_config \<Rightarrow> gerr + kogito_build \<times> build_config" where
  "decorate [] x = Inr x"
| "decorate (d # ds) x = bindR (d x) (decorate ds)"

definition newBuildConfig :: "op_context \<Rightarrow> kogito_build \<Rightarrow> decorator list \<Rightarrow> gerr + kogito_build \<times> build_config" where
  "newBuildConfig cx b decorators = decorate decorators (b, basic_build_config cx b)"

section \<open>Requested resources, source\_build\_manager.go and binary\_build\_manager.go\<close>

definition own_config :: "op_context \<Rightarrow> kogito_build \<Rightarrow> build_config \<Rightarrow> gerr + build_config" where
  "own_config cx b = own_object cx (kb_meta b) bc_meta (\<lambda>m bc. bc\<lparr>bc_meta := m\<rparr>)"

text \<open>The runtime stream is nil outside OpenShift, where adding an owner to it panics.\<close>

definition share_stream :: "op_context \<Rightarrow> kogito_build \<Rightarrow> image_stream option \<Rightarrow> gerr + image_stream" where
  "share_stream cx b s =
     (case s of
        None \<Rightarrow> Inl (Panic ''nil pointer dereference'')
      | Some s \<Rightarrow> share_object cx (kb_meta b) is_meta (\<lambda>m is. is\<lparr>is_meta := m\<rparr>) s)"

definition getBuilderDecorator :: "kogito_build \<Rightarrow> decorator" where
  "getBuilderDecorator b =
     (if bs_type (kb_spec b) = ''LocalSource'' then decoratorForLocalSourceBuilder else decoratorForRemoteSourceBuilder)"

definition source_GetRequestedResources ::
  "'w image_cluster \<Rightarrow> op_context \<Rightarrow> quantities \<Rightarrow> nat \<Rightarrow> kogito_build \<Rightarrow> 'w \<Rightarrow> gerr + build_config list \<times> image_stream list" where
  "source_GetRequestedResources K cx Q spare b w =
     bindR (newBuildConfig cx b [decoratorForSourceBuilder cx Q spare, getBuilderDecorator b, decoratorForCustomLabels cx]) (\<lambda>(b1, builderBC).
     bindR (newBuildConfig cx b1 [decoratorForRuntimeBuilder cx, decoratorForSourceRuntimeBuilder, decoratorForCustomLabels cx]) (\<lambda>(b2, runtimeBC).
     bindR (newOutputImageStreamForBuilder builderBC) (\<lambda>builderIS.
     bindR (newOutputImageStreamForRuntime K cx runtimeBC b2 w) (\<lambda>runtimeIS.
     bindR (own_config cx b2 builderBC) (\<lambda>builderBC'.
     bindR (own_config cx b2 runtimeBC) (\<lambda>runtimeBC'.
     bindR (own_object cx (kb_meta b2) is_meta (\<lambda>m is. is\<lparr>is_meta := m\<rparr>) builderIS) (\<lambda>builderIS'.
     bindR (share_stream cx b2 runtimeIS) (\<lambda>runtimeIS'.
       Inr ([builderBC', runtimeBC'], [builderIS', runtimeIS'])))))))))"

text \<open>An error of the owner references answers with no resources and no error.\<close>

definition binary_GetRequestedResources ::
  "'w image_cluster \<Rightarrow> op_context \<Rightarrow> kogito_build \<Rightarrow> 'w \<Rightarrow> gerr + build_config list \<times> image_stream list" where
  "binary_GetRequestedResources K cx b w =
     bindR (newBuildConfig cx b [decoratorForRuntimeBuilder cx, decoratorForBinaryRuntimeBuilder, decoratorForCustomLabels cx]) (\<lambda>(b1, bc).
     bindR (newOutputImageStreamForRuntime K cx bc b1 w) (\<lambda>imageStream.
       case own_config cx b1 bc of
         Inl e \<Rightarrow> Inr ([], [])
       | Inr bc' \<Rightarrow> (case share_stream cx b1 imageStream of
             Inl (Panic m) \<Rightarrow> Inl (Panic m)
           | Inl e \<Rightarrow> Inr ([], [])
           | Inr is' \<Rightarrow> Inr ([bc'], [is']))))"

section \<open>Lemmas\<close>

lemma slice_override_view: "esl_view (slice_override e s) = EnvOverride (esl_view s) [e]"
  by (simp add: slice_override_def Let_def)

lemma StringsJoin_pair: "StringsJoin sep [a, b] = a @ sep @ b"
  by simp

lemma StringsJoin_name_tag:
  "CHR '':'' \<notin> set a \<Longrightarrow> CHR '':'' \<notin> set t \<Longrightarrow> SplitChar CHR '':'' (StringsJoin '':'' [a, t]) = [a, t]"
  by (simp add: SplitChar_id SplitChar_append)

lemma GetApplicationName_env [simp]: "GetApplicationName (map_bspec (\<lambda>sp. sp\<lparr>bs_env := e\<rparr>) b) = GetApplicationName b"
  "GetBuildBuilderName (map_bspec f b) = GetBuildBuilderName b" "kb_meta (map_bspec f b) = kb_meta b"
  "getBuilderImageStreamOutputTo (map_bspec f b) = getBuilderImageStreamOutputTo b"
  by (simp_all add: GetApplicationName_def GetBuildBuilderName_def map_bspec_def getBuilderImageStreamOutputTo_def)

text \<open>What a decorator may not undo: the name, the output and the strategy the first one set.\<close>

definition bc_frame :: "build_config \<Rightarrow> build_config \<Rightarrow> bool" where
  "bc_frame bc bc' \<longleftrightarrow> om_name (bc_meta bc') = om_name (bc_meta bc) \<and> om_namespace (bc_meta bc') = om_namespace (bc_meta bc)
     \<and> bc_outputTo bc' = bc_outputTo bc"

lemma builder_decorator_frame:
  "getBuilderDecorator b0 (b, bc) = Inr (b', bc') \<Longrightarrow> b' = b \<and> bc_frame bc bc'"
  by (auto simp: getBuilderDecorator_def decoratorForLocalSourceBuilder_def decoratorForRemoteSourceBuilder_def bc_frame_def
      with_source_strategy_def Let_def bindR_eq_Inr split: if_splits option.splits)

lemma source_builder_config:
  assumes "newBuildConfig cx b [decoratorForSourceBuilder cx Q spare, getBuilderDecorator b, decoratorForCustomLabels cx] = Inr (b1, bc)"
  shows "om_name (bc_meta bc) = GetBuildBuilderName b \<and> bc_outputTo bc = Some (getBuilderImageStreamOutputTo b)
     \<and> b1 = map_bspec (\<lambda>sp. sp\<lparr>bs_env := esl_owner (source_builder_envs Q spare b (basic_build_config cx b))\<rparr>) b"
  using assms
  by (auto simp: newBuildConfig_def decoratorForSourceBuilder_def decoratorForCustomLabels_def Let_def bindR_eq_Inr bc_frame_def
      dest!: builder_decorator_frame)

lemma source_runtime_config:
  assumes "newBuildConfig cx b [decoratorForRuntimeBuilder cx, decoratorForSourceRuntimeBuilder, decoratorForCustomLabels cx] = Inr (b2, bc)"
  shows "b2 = b \<and> om_name (bc_meta bc) = kb_name b
     \<and> bc_outputTo bc = Some \<lparr>ob_kind = ''ImageStreamTag'', ob_namespace = [], ob_name = StringsJoin '':'' [GetApplicationName b, ''latest'']\<rparr>
     \<and> bc_images bc = [\<lparr>iso_from = getBuilderImageStreamOutputTo b, iso_paths = [(''.'', ''/home/kogito/bin'')]\<rparr>]
     \<and> bc_triggers bc = Some [ImageChangeTrigger (getBuilderImageStreamOutputTo b)]
     \<and> map_option sst_env (bc_sourceStrategy bc) = Some (bs_env (kb_spec b))"
  using assms
  by (auto simp: newBuildConfig_def decoratorForRuntimeBuilder_def decoratorForSourceRuntimeBuilder_def decoratorForCustomLabels_def Let_def)

section \<open>The shared slice\<close>

lemma find_index_append:
  "find_index P (xs @ ys) = (case find_index P xs of Some i \<Rightarrow> Some i | None \<Rightarrow> map_option ((+) (length xs)) (find_index P ys))"
proof (induction xs)
  case Nil
  then show ?case by (cases "find_index P ys") simp_all
next
  case (Cons x xs)
  then show ?case by (cases "find_index P ys") (simp_all split: option.split)
qed

text \<open>While the array is shared, the slice of the specification is the front part of the view.\<close>

definition slice_inv :: "env_slice \<Rightarrow> bool" where
  "slice_inv s \<longleftrightarrow> (esl_shared s \<longrightarrow> (\<exists>ext. esl_view s = esl_owner s @ ext))"

lemma slice_override_owner:
  assumes "slice_inv s"
  shows "esl_owner (slice_override e s) =
    (if esl_shared s \<and> ev_name e \<in> ev_name ` set (esl_owner s) then env_put e (esl_owner s) else esl_owner s)"
proof (cases "esl_shared s")
  case True
  with assms obtain ext where v: "esl_view s = esl_owner s @ ext" by (auto simp: slice_inv_def)
  show ?thesis
  proof (cases "find_index (\<lambda>x. ev_name x = ev_name e) (esl_owner s)")
    case None
    then have "ev_name e \<notin> ev_name ` set (esl_owner s)" by (auto simp: find_index_None)
    with None True v show ?thesis
      by (auto simp: slice_override_def GetEnvVar_conv find_index_append Let_def nat_int_add list_update_beyond split: option.split)
  next
    case (Some i)
    then have "ev_name e \<in> ev_name ` set (esl_owner s)"
      using find_index_Some [OF Some] by (metis image_eqI nth_mem)
    with Some True v show ?thesis
      by (simp add: slice_override_def GetEnvVar_conv find_index_append env_put_conv Let_def)
  qed
qed (simp add: slice_override_def Let_def)

lemma slice_override_inv: "slice_inv s \<Longrightarrow> slice_inv (slice_override e s)"
proof -
  assume inv: "slice_inv s"
  show ?thesis
    unfolding slice_inv_def
  proof
    assume sh: "esl_shared (slice_override e s)"
    then have s0: "esl_shared s" by (auto simp: slice_override_def Let_def split: if_splits)
    with inv obtain ext where v: "esl_view s = esl_owner s @ ext" by (auto simp: slice_inv_def)
    have view: "esl_view (slice_override e s) = env_put e (esl_owner s @ ext)"
      by (simp only: slice_override_view env_put_def v)
    have "\<exists>ext'. env_put e (xs @ ext) = (if ev_name e \<in> ev_name ` set xs then env_put e xs else xs) @ ext'" for xs
      by (induction xs) auto
    from this [of "esl_owner s"] show "\<exists>ext. esl_view (slice_override e s) = esl_owner (slice_override e s) @ ext"
      by (simp add: view slice_override_owner [OF inv] s0)
  qed
qed

lemma slice_override_get:
  assumes "slice_inv s"
  shows "env_get k (esl_owner (slice_override e s)) =
    (if esl_shared s \<and> k = ev_name e \<and> env_get k (esl_owner s) \<noteq> None then Some e else env_get k (esl_owner s))"
  by (auto simp: slice_override_owner [OF assms] env_get_put env_get_None)

lemma slice_override_shared:
  "esl_shared (slice_override e s) \<longleftrightarrow>
     esl_shared s \<and> (env_get (ev_name e) (esl_view s) \<noteq> None \<or> esl_spare s > 0)"
proof -
  have "env_get k xs = None \<longleftrightarrow> find_index (\<lambda>x. ev_name x = k) xs = None" for k xs
    by (auto simp: env_get_None find_index_None image_iff)
  then show ?thesis by (auto simp: slice_override_def GetEnvVar_conv Let_def split: option.split)
qed

lemma source_builder_envs_owner:
  assumes "env_get ''LIMIT_CPU'' (bs_env (kb_spec b)) \<noteq> None"
    and "bs_runtime (kb_spec b) \<noteq> ''quarkus'' \<or> env_get ''NATIVE'' (bs_env (kb_spec b)) \<noteq> None \<or> spare > 0"
  shows "env_get ''LIMIT_CPU'' (esl_owner (source_builder_envs Q spare b bc)) =
    Some (plain_env ''LIMIT_CPU'' (fst (getBuilderLimitsAsIntString Q bc)))"
proof -
  define s0 where "s0 = \<lparr>esl_owner = bs_env (kb_spec b), esl_view = bs_env (kb_spec b), esl_spare = spare, esl_shared = True\<rparr>"
  define s1 where "s1 = (if bs_runtime (kb_spec b) = ''quarkus''
    then slice_override (plain_env ''NATIVE'' (format_bool (bs_native (kb_spec b)))) s0 else s0)"
  have i0: "slice_inv s0" by (simp add: s0_def slice_inv_def)
  then have i1: "slice_inv s1" by (simp add: s1_def slice_override_inv)
  have "esl_shared s1" using assms(2) by (auto simp: s1_def slice_override_shared s0_def plain_env_def)
  moreover have "env_get ''LIMIT_CPU'' (esl_owner s1) \<noteq> None"
    using assms(1) slice_override_get [OF i0] by (simp add: s1_def s0_def plain_env_def)
  ultimately have cpu: "env_get ''LIMIT_CPU'' (esl_owner (slice_override (plain_env ''LIMIT_CPU'' c) s1)) = Some (plain_env ''LIMIT_CPU'' c)" for c
    by (simp add: slice_override_get [OF i1] plain_env_def)
  have keep: "slice_inv s \<Longrightarrow> n \<noteq> ''LIMIT_CPU'' \<Longrightarrow>
      env_get ''LIMIT_CPU'' (esl_owner (slice_override (plain_env n v) s)) = env_get ''LIMIT_CPU'' (esl_owner s)" for n v s
    by (simp add: slice_override_get plain_env_def)
  show ?thesis
    unfolding source_builder_envs_def Let_def s0_def [symmetric] s1_def [symmetric]
    using i1 cpu by (simp add: keep slice_override_inv)
qed

section \<open>Properties\<close>

text \<open>What controller-runtime documents of \<^verbatim>\<open>SetControllerReference\<close>: it changes the owners of the object only.\<close>

definition controller_reference_frames :: "op_context \<Rightarrow> bool" where
  "controller_reference_frames cx \<longleftrightarrow>
     (\<forall>owner m m'. cx_setControllerReference cx owner m = Inr m' \<longrightarrow> m' = m\<lparr>om_owners := om_owners m'\<rparr>)"

lemma own_config_frame:
  assumes "controller_reference_frames cx" "own_config cx b bc = Inr bc'"
  shows "\<exists>owners. bc' = bc\<lparr>bc_meta := (bc_meta bc)\<lparr>om_owners := owners\<rparr>\<rparr>"
  using assms by (auto simp: own_config_def own_object_conv bindR_eq_Inr controller_reference_frames_def) metis

lemma output_stream_parts:
  assumes "bc_outputTo bc = Some \<lparr>ob_kind = k, ob_namespace = ns, ob_name = StringsJoin '':'' [n, ''latest'']\<rparr>" "CHR '':'' \<notin> set n"
  shows "getOutputImageStreamNameTag bc = Inr (n, ''latest'')"
proof -
  have "SplitChar CHR '':'' (StringsJoin '':'' [n, ''latest'']) = [n, ''latest'']"
    using assms(2) by (intro StringsJoin_name_tag) simp_all
  with assms(1) show ?thesis by (simp add: getOutputImageStreamNameTag_def Let_def)
qed

lemma created_stream_has_tag:
  "CreateImageStreamIfNotExists K ns n tag f img i w = Inr is \<Longrightarrow> checkIfTagExists is tag"
proof -
  assume "CreateImageStreamIfNotExists K ns n tag f img i w = Inr is"
  then obtain is0 where "is = (if checkIfTagExists is0 tag then is0
      else is0\<lparr>is_tags := is_tags is0 @ [createImageStreamTag tag f img i]\<rparr>)"
    by (auto simp: CreateImageStreamIfNotExists_def bindR_eq_Inr Let_def)
  then show ?thesis by (cases "checkIfTagExists is0 tag") (simp_all add: checkIfTagExists_def createImageStreamTag_def)
qed

lemma runtime_stream_has_tag:
  assumes "newOutputImageStreamForRuntime K cx bc b w = Inr s" "share_stream cx b s = Inr s'" "getOutputImageStreamNameTag bc = Inr (n, t)" "t \<noteq> []"
  shows "checkIfTagExists s' t"
proof -
  have "resolveTag cx (newImageHandlerForBuiltServices n t (kb_namespace b)) = t"
    using assms(4) by (simp add: resolveTag_def newImageHandlerForBuiltServices_def NewImageHandler_def)
  then obtain s0 where "s = Some s0" "checkIfTagExists s0 t"
    using assms by (auto simp: newOutputImageStreamForRuntime_def handler_CreateImageStreamIfNotExists_def share_stream_def bindR_eq_Inr
        split: if_splits option.splits dest: created_stream_has_tag)
  then show ?thesis using assms(2)
    by (auto simp: share_stream_def share_object_conv bindR_eq_Inr checkIfTagExists_def)
qed

text \<open>C32: the two builds of a source build are chained.  The builder configuration writes to the tag that the
  runtime configuration reads from and is triggered by, the stream of that tag is requested along with
  them, and the runtime configuration writes to the stream of the application, which is requested with the
  tag, so that the image reaches the deployment.\<close>

theorem source_build_chain:
  assumes "source_GetRequestedResources K cx Q spare b w = Inr (bcs, iss)" "controller_reference_frames cx"
    and "CHR '':'' \<notin> set (kb_name b)" "CHR '':'' \<notin> set (GetApplicationName b)"
  shows "\<exists>builderBC runtimeBC builderIS runtimeIS ref.
     bcs = [builderBC, runtimeBC] \<and> iss = [builderIS, runtimeIS]
     \<and> om_name (bc_meta builderBC) = kb_name b @ ''-builder'' \<and> om_name (bc_meta runtimeBC) = kb_name b
     \<and> bc_outputTo builderBC = Some ref \<and> map iso_from (bc_images runtimeBC) = [ref]
     \<and> bc_triggers runtimeBC = Some [ImageChangeTrigger ref]
     \<and> ob_name ref = om_name (is_meta builderIS) @ '':latest'' \<and> checkIfTagExists builderIS ''latest''
     \<and> map_option ob_name (bc_outputTo runtimeBC) = Some (GetApplicationName b @ '':latest'') \<and> checkIfTagExists runtimeIS ''latest''"
proof -
  obtain b1 builderBC b2 runtimeBC builderIS runtimeIS builderBC' runtimeBC' builderIS' runtimeIS' where st:
    "newBuildConfig cx b [decoratorForSourceBuilder cx Q spare, getBuilderDecorator b, decoratorForCustomLabels cx] = Inr (b1, builderBC)"
    "newBuildConfig cx b1 [decoratorForRuntimeBuilder cx, decoratorForSourceRuntimeBuilder, decoratorForCustomLabels cx] = Inr (b2, runtimeBC)"
    "newOutputImageStreamForBuilder builderBC = Inr builderIS" "newOutputImageStreamForRuntime K cx runtimeBC b2 w = Inr runtimeIS"
    "own_config cx b2 builderBC = Inr builderBC'" "own_config cx b2 runtimeBC = Inr runtimeBC'"
    "own_object cx (kb_meta b2) is_meta (\<lambda>m is. is\<lparr>is_meta := m\<rparr>) builderIS = Inr builderIS'" "share_stream cx b2 runtimeIS = Inr runtimeIS'"
    "bcs = [builderBC', runtimeBC']" "iss = [builderIS', runtimeIS']"
    using assms(1) by (auto simp: source_GetRequestedResources_def bindR_eq_Inr)
  note bc1 = source_builder_config [OF st(1)] and bc2 = source_runtime_config [OF st(2)]
  obtain o1 o2 where own: "builderBC' = builderBC\<lparr>bc_meta := (bc_meta builderBC)\<lparr>om_owners := o1\<rparr>\<rparr>"
    "runtimeBC' = runtimeBC\<lparr>bc_meta := (bc_meta runtimeBC)\<lparr>om_owners := o2\<rparr>\<rparr>"
    using own_config_frame [OF assms(2)] st(5,6) by blast
  have app: "GetApplicationName b1 = GetApplicationName b" and nm: "kb_name b1 = kb_name b"
    and to: "getBuilderImageStreamOutputTo b1 = getBuilderImageStreamOutputTo b"
    using bc1 by simp_all
  have parts1: "getOutputImageStreamNameTag builderBC = Inr (GetBuildBuilderName b, ''latest'')"
    using bc1 assms(3) by (intro output_stream_parts) (simp_all add: getBuilderImageStreamOutputTo_def GetBuildBuilderName_def)
  have "getOutputImageStreamNameTag runtimeBC = Inr (GetApplicationName b, ''latest'')"
    using bc2 assms(4) app by (intro output_stream_parts) simp_all
  then have rt: "checkIfTagExists runtimeIS' ''latest''"
    using runtime_stream_has_tag [OF st(4,8)] by simp
  have bi: "om_name (is_meta builderIS') = GetBuildBuilderName b" "checkIfTagExists builderIS' ''latest''"
  proof -
    obtain m where "cx_setControllerReference cx (kb_meta b2) (is_meta builderIS) = Inr m" "builderIS' = builderIS\<lparr>is_meta := m\<rparr>"
      using st(7) by (auto simp: own_object_conv bindR_eq_Inr)
    moreover from this assms(2) have "om_name m = om_name (is_meta builderIS)"
      unfolding controller_reference_frames_def by (metis object_meta.select_convs(1) object_meta.surjective object_meta.update_convs(6))
    ultimately show "om_name (is_meta builderIS') = GetBuildBuilderName b" "checkIfTagExists builderIS' ''latest''"
      using st(3) parts1 by (auto simp: newOutputImageStreamForBuilder_def mk_meta_def checkIfTagExists_def)
  qed
  show ?thesis
    using bc1 bc2 own app nm to rt bi st(9,10)
    by (simp add: GetBuildBuilderName_def getBuilderImageStreamOutputTo_def)
qed

definition sample_build :: kogito_build where
  "sample_build = \<lparr>kb_meta = mk_meta ''app'' ''ns'',
     kb_spec = \<lparr>bs_type = ''LocalSource'', bs_disableIncremental = False, bs_env = [plain_env ''LIMIT_CPU'' ''9''],
       bs_gitSource = \<lparr>gs_uri = [], gs_reference = [], gs_contextDir = []\<rparr>, bs_runtime = ''springboot'', bs_webHooks = [],
       bs_native = False, bs_resources = \<lparr>br_limits = None, br_requests = None\<rparr>, bs_mavenMirrorURL = [], bs_buildImage = [],
       bs_runtimeImage = [], bs_targetKogitoRuntime = [], bs_artifact = \<lparr>af_groupID = [], af_artifactID = [], af_version = []\<rparr>,
       bs_enableMavenDownloadOutput = False\<rparr>,
     kb_status = \<lparr>bst_conditions = None, bst_latestBuild = [],
       bst_builds = \<lparr>bl_new = [], bl_pending = [], bl_running = [], bl_complete = [], bl_failed = [], bl_error = [], bl_cancelled = []\<rparr>\<rparr>\<rparr>"

definition sample_quantities :: quantities where
  "sample_quantities = \<lparr>qu_memory = (\<lambda>m. 0), qu_cpu = (\<lambda>m. [])\<rparr>"

lemma sample_context_frames: "controller_reference_frames sample_context"
  by (auto simp: controller_reference_frames_def sample_context_def add_owner_def Let_def)

lemma sample_source_request:
  "\<exists>bcs iss. source_GetRequestedResources mem_image_cluster sample_context sample_quantities 0 sample_build [] = Inr (bcs, iss)"
proof -
  let ?cx = sample_context and ?b = sample_build
  have local: "bs_type (kb_spec sample_build) = ''LocalSource''" by (simp add: sample_build_def)
  obtain b1 bc1 where 1: "newBuildConfig ?cx ?b [decoratorForSourceBuilder ?cx sample_quantities 0, getBuilderDecorator ?b, decoratorForCustomLabels ?cx] = Inr (b1, bc1)"
    by (simp add: local newBuildConfig_def decoratorForSourceBuilder_def getBuilderDecorator_def decoratorForLocalSourceBuilder_def
        decoratorForRemoteSourceBuilder_def decoratorForCustomLabels_def with_source_strategy_def Let_def)
  obtain bc2 where 2: "newBuildConfig ?cx b1 [decoratorForRuntimeBuilder ?cx, decoratorForSourceRuntimeBuilder, decoratorForCustomLabels ?cx] = Inr (b1, bc2)"
    by (simp add: newBuildConfig_def decoratorForRuntimeBuilder_def decoratorForSourceRuntimeBuilder_def decoratorForCustomLabels_def Let_def)
  obtain n t where "getOutputImageStreamNameTag bc1 = Inr (n, t)"
    using source_builder_config [OF 1] by (simp add: getOutputImageStreamNameTag_def Let_def)
  then obtain s1 where 3: "newOutputImageStreamForBuilder bc1 = Inr s1" by (simp add: newOutputImageStreamForBuilder_def)
  obtain n' t' where "getOutputImageStreamNameTag bc2 = Inr (n', t')"
    using source_runtime_config [OF 2] by (simp add: getOutputImageStreamNameTag_def Let_def)
  then obtain s2 where 4: "newOutputImageStreamForRuntime mem_image_cluster ?cx bc2 b1 [] = Inr (Some s2)"
    by (simp add: newOutputImageStreamForRuntime_def handler_CreateImageStreamIfNotExists_def mem_image_cluster_def Let_def
        CreateImageStreamIfNotExists_def FetchImageStream_def FetchWithKey_def mem_simps)
  show ?thesis
    by (simp add: source_GetRequestedResources_def 1 2 3 4 own_config_def own_object_conv share_stream_def share_object_conv)
      (simp add: sample_context_def)
qed

lemma source_build_chain_witness:
  "\<exists>builderBC runtimeBC iss. source_GetRequestedResources mem_image_cluster sample_context sample_quantities 0 sample_build [] =
       Inr ([builderBC, runtimeBC], iss)
     \<and> map iso_from (bc_images runtimeBC) = [the (bc_outputTo builderBC)]"
proof -
  obtain bcs iss where r: "source_GetRequestedResources mem_image_cluster sample_context sample_quantities 0 sample_build [] = Inr (bcs, iss)"
    using sample_source_request by blast
  have "CHR '':'' \<notin> set (kb_name sample_build)" "CHR '':'' \<notin> set (GetApplicationName sample_build)"
    by (simp_all add: sample_build_def GetApplicationName_def mk_meta_def)
  from source_build_chain [OF r sample_context_frames this] r show ?thesis by auto
qed

text \<open>The environment of the builder reaches the runtime build.  The decorator of the builder overrides
  variables in the slice of the specification itself.  When the user gave a CPU limit variable, it is
  replaced there by the builder's value (unless an append before it moved the slice), and the runtime
  configuration, which is made from the specification afterwards, carries the builder's value instead of
  the user's.\<close>

theorem runtime_env_overwritten:
  assumes "source_GetRequestedResources K cx Q spare b w = Inr (bcs, iss)"
    and "env_get ''LIMIT_CPU'' (bs_env (kb_spec b)) \<noteq> None"
    and "bs_runtime (kb_spec b) \<noteq> ''quarkus'' \<or> env_get ''NATIVE'' (bs_env (kb_spec b)) \<noteq> None \<or> spare > 0"
  shows "\<exists>builderBC runtimeBC st. bcs = [builderBC, runtimeBC] \<and> bc_sourceStrategy runtimeBC = Some st
     \<and> env_get ''LIMIT_CPU'' (sst_env st) = Some (plain_env ''LIMIT_CPU'' (fst (getBuilderLimitsAsIntString Q (basic_build_config cx b))))"
proof -
  obtain b1 builderBC b2 runtimeBC builderBC' runtimeBC' where st:
    "newBuildConfig cx b [decoratorForSourceBuilder cx Q spare, getBuilderDecorator b, decoratorForCustomLabels cx] = Inr (b1, builderBC)"
    "newBuildConfig cx b1 [decoratorForRuntimeBuilder cx, decoratorForSourceRuntimeBuilder, decoratorForCustomLabels cx] = Inr (b2, runtimeBC)"
    "own_config cx b2 runtimeBC = Inr runtimeBC'" "bcs = [builderBC', runtimeBC']"
    using assms(1) by (auto simp: source_GetRequestedResources_def bindR_eq_Inr)
  then obtain stg where "bc_sourceStrategy runtimeBC' = Some stg" "sst_env stg = bs_env (kb_spec b1)"
    using source_runtime_config [OF st(2)] by (auto simp: own_config_def own_object_conv bindR_eq_Inr)
  then show ?thesis
    using st(4) source_builder_config [OF st(1)] source_builder_envs_owner [OF assms(2,3)] by (auto simp: map_bspec_def)
qed

lemma runtime_env_overwritten_witness:
  "\<exists>builderBC runtimeBC st iss. source_GetRequestedResources mem_image_cluster sample_context sample_quantities 0 sample_build [] =
       Inr ([builderBC, runtimeBC], iss)
     \<and> bc_sourceStrategy runtimeBC = Some st \<and> env_get ''LIMIT_CPU'' (sst_env st) = Some (plain_env ''LIMIT_CPU'' [])
     \<and> env_get ''LIMIT_CPU'' (bs_env (kb_spec sample_build)) = Some (plain_env ''LIMIT_CPU'' ''9'')"
proof -
  obtain bcs iss where r: "source_GetRequestedResources mem_image_cluster sample_context sample_quantities 0 sample_build [] = Inr (bcs, iss)"
    using sample_source_request by blast
  have user: "env_get ''LIMIT_CPU'' (bs_env (kb_spec sample_build)) = Some (plain_env ''LIMIT_CPU'' ''9'')"
    by (simp add: sample_build_def env_get_def plain_env_def)
  have "fst (getBuilderLimitsAsIntString sample_quantities (basic_build_config sample_context sample_build)) = []"
    by (simp add: getBuilderLimitsAsIntString_def basic_build_config_def sample_build_def)
  moreover have "bs_runtime (kb_spec sample_build) \<noteq> ''quarkus''" by (simp add: sample_build_def)
  ultimately show ?thesis using runtime_env_overwritten [OF r] r user by auto
qed

end
