(* ===== verification/Cli_Flags.thy ===== *)
theory Cli_Flags
  imports Kogito_Runtime Build_Config
begin

text \<open>
  The flags of the command line client, their checks and their conversion into custom resources:
  \<^verbatim>\<open>cmd/kogito/command/flag\<close>, \<^verbatim>\<open>converter\<close> and \<^verbatim>\<open>util/common_util.go\<close>.  The file system, the URL parsers and the check of
  resource quantities are passed in.  A Go map is a list with one entry per key; the order in which Go ranges over it is
  not fixed, and no property below depends on it.
\<close>

section \<open>What the checks and converters ask of the outside\<close>

datatype file_info = RegularFile | Directory string | OtherFile  \<comment> \<open>a directory with its base name\<close>

record 'w outside =
  os_stat :: "string \<Rightarrow> 'w \<Rightarrow> gerr + file_info option"  \<comment> \<open>None: it does not exist\<close>
  os_readFile :: "string \<Rightarrow> 'w \<Rightarrow> gerr + string"
  os_readDir :: "string \<Rightarrow> 'w \<Rightarrow> gerr + (string \<times> bool) list"  \<comment> \<open>name, whether it is a directory\<close>
  os_parseRequestURI :: "string \<Rightarrow> gerr + (string \<times> string \<times> string)"  \<comment> \<open>scheme, host, path\<close>
  os_parseURL :: "string \<Rightarrow> gerr + (string \<times> string \<times> string)"
  os_quantity :: "string \<Rightarrow> bool"  \<comment> \<open>accepted by resource.MustParse\<close>

section \<open>Key/value pairs, common\_util.go\<close>

text \<open>\<^verbatim>\<open>strings.SplitN\<close> into at most two parts at a separator of one character.\<close>

definition SplitN2 :: "char \<Rightarrow> string \<Rightarrow> string list" where
  "SplitN2 sep s =
     (case dropWhile (\<lambda>c. c \<noteq> sep) s of [] \<Rightarrow> [s] | _ # rest \<Rightarrow> [takeWhile (\<lambda>c. c \<noteq> sep) s, rest])"

definition quoted :: "string \<Rightarrow> string" where
  "quoted s = [CHR 0x27] @ s @ [CHR 0x27]"

fun CheckKeyPair :: "string list \<Rightarrow> gerr option" where
  "CheckKeyPair [] = None"
| "CheckKeyPair (item # items) =
     (if \<not> ContainsStr item ''='' then Some (PlainError (''Item '' @ item @ '' does not contain the key/pair separator '' @ quoted ''=''))
      else if HasPrefix item ''='' then Some (PlainError (''Item '' @ item @ '' starts with key/pair separator '' @ quoted ''=''))
      else CheckKeyPair items)"

text \<open>An item with an empty key ends the loop.\<close>

fun key_pairs :: "string list \<Rightarrow> smap \<Rightarrow> smap" where
  "key_pairs [] m = m"
| "key_pairs (item # items) m =
     (case SplitN2 CHR ''='' item of
        k # vs \<Rightarrow>
          if k = [] then m
          else (case vs of
                  [v] \<Rightarrow> key_pairs items (smap_put k v m)
                | [] \<Rightarrow> key_pairs items (smap_put k [] m)
                | _ \<Rightarrow> key_pairs items m)
      | [] \<Rightarrow> m)"

definition FromStringsKeyPairToMap :: "string list \<Rightarrow> smap" where
  "FromStringsKeyPairToMap array = (if array = [] then [] else key_pairs array [])"

text \<open>The error of the first check is dropped: the function returns nil for it.\<close>

definition CheckSecretKeyPair :: "string list \<Rightarrow> gerr option" where
  "CheckSecretKeyPair pairs =
     (case CheckKeyPair pairs of
        Some e \<Rightarrow> None
      | None \<Rightarrow>
          (case find (\<lambda>(k, v). \<not> ContainsStr v ''#'') (FromStringsKeyPairToMap pairs) of
             Some (k, v) \<Rightarrow> Some (PlainError (''item '' @ v @ '' does not contain the secret key/pair separator '' @ quoted ''#''))
           | None \<Rightarrow> None))"

text \<open>The regular expression is not anchored and its only obligatory part is one or more characters other than a colon.\<close>

definition image_tag_matches :: "string \<Rightarrow> bool" where
  "image_tag_matches s = list_ex (\<lambda>c. c \<noteq> CHR '':'') s"

definition CheckImageTag :: "string \<Rightarrow> gerr option" where
  "CheckImageTag img =
     (if img \<noteq> [] \<and> \<not> image_tag_matches img
      then Some (PlainError (''invalid name for image tag. Valid format is domain/namespace/image-name:tag. Received '' @ img)) else None)"

definition CheckFileExists :: "'w outside \<Rightarrow> string \<Rightarrow> 'w \<Rightarrow> gerr + bool" where
  "CheckFileExists S path w =
     bindR (os_stat S path w) (\<lambda>info. Inr (case info of None \<Rightarrow> False | Some (Directory n) \<Rightarrow> False | Some _ \<Rightarrow> True))"

section \<open>Flags\<close>

record artifact_flags =
  fl_projectGroupID :: string
  fl_projectArtifactID :: string
  fl_projectVersion :: string

record git_source_flags =
  fl_reference :: string
  fl_contextDir :: string
  fl_source :: string

record env_var_flags =
  fl_env :: "string list"
  fl_secretEnv :: "string list"

record pod_resource_flags =
  fl_limits :: "string list option"  \<comment> \<open>None: the flag was not given\<close>
  fl_requests :: "string list option"

record config_flags =
  fl_config :: "string list"
  fl_configFile :: string

record infra_resource_flags =
  fl_apiVersion :: string
  fl_kind :: string
  fl_resourceNamespace :: string
  fl_resourceName :: string

record monitoring_flags =
  fl_scheme :: string
  fl_path :: string

record image_flags =
  fl_image :: string
  fl_insecureImageRegistry :: bool

record probe_flags =
  fl_livenessInitialDelay :: int
  fl_readinessInitialDelay :: int

record install_flags =
  if_podResources :: pod_resource_flags
  if_image :: image_flags
  if_envs :: env_var_flags
  if_monitoring :: monitoring_flags
  if_config :: config_flags
  if_probes :: probe_flags
  if_project :: string
  if_replicas :: int
  if_infra :: "string list"
  if_trustStoreSecret :: string

record build_flags =
  bf_gitSource :: git_source_flags
  bf_runtime :: string
  bf_podResources :: pod_resource_flags
  bf_artifact :: artifact_flags
  bf_webHook :: "string list option"  \<comment> \<open>None: the flag was not given\<close>
  bf_envs :: env_var_flags
  bf_name :: string
  bf_project :: string
  bf_incrementalBuild :: bool
  bf_native :: bool
  bf_mavenMirrorURL :: string
  bf_buildImage :: string
  bf_runtimeImage :: string
  bf_targetRuntime :: string
  bf_enableMavenDownloadOutput :: bool

record runtime_flags =
  rf_install :: install_flags
  rf_runtime :: string
  rf_name :: string
  rf_enableIstio :: bool
  rf_serviceLabels :: "string list"

text \<open>The monitoring flags when they are not given.\<close>

definition AddMonitoringFlags :: monitoring_flags where
  "AddMonitoringFlags = \<lparr>fl_scheme = ''http'', fl_path = ''/q/metrics''\<rparr>"

section \<open>Checks\<close>

definition nil_list :: "string list option \<Rightarrow> string list" where
  "nil_list xs = (case xs of None \<Rightarrow> [] | Some ys \<Rightarrow> ys)"

text \<open>\<^verbatim>\<open>%s\<close> of a slice of strings.\<close>

definition fmt_strings :: "string list \<Rightarrow> string" where
  "fmt_strings xs = ''['' @ StringsJoin '' '' xs @ '']''"

text \<open>A check whose error is replaced by a message.\<close>

definition check_or :: "string \<Rightarrow> gerr option \<Rightarrow> gerr option" where
  "check_or message r = (case r of None \<Rightarrow> None | Some e \<Rightarrow> Some (PlainError message))"

fun first_error :: "gerr option list \<Rightarrow> gerr option" where
  "first_error [] = None"
| "first_error (None # rs) = first_error rs"
| "first_error (Some e # rs) = Some e"

definition CheckGitSourceArgs :: "'w outside \<Rightarrow> git_source_flags \<Rightarrow> gerr option" where
  "CheckGitSourceArgs S flags =
     (if fl_source flags = [] then None
      else (case os_parseURL S (fl_source flags) of
              Inl e \<Rightarrow> Some e
            | Inr (scheme, host, path) \<Rightarrow>
                if scheme = [] \<or> host = [] \<or> path = []
                then Some (PlainError (''provided Git Source is not valid: '' @ fl_source flags)) else None))"

definition CheckPodResourceArgs :: "pod_resource_flags \<Rightarrow> gerr option" where
  "CheckPodResourceArgs flags =
     first_error [check_or (''limits are in the wrong format. Valid are key pairs like 'cpu=1', received '' @ fmt_strings (nil_list (fl_limits flags))) (CheckKeyPair (nil_list (fl_limits flags))),
       check_or (''requests are in the wrong format. Valid are key pairs like 'cpu=1', received '' @ fmt_strings (nil_list (fl_requests flags))) (CheckKeyPair (nil_list (fl_requests flags)))]"

definition CheckEnvVarArgs :: "env_var_flags \<Rightarrow> gerr option" where
  "CheckEnvVarArgs flags =
     first_error [check_or (''environment variables are in the wrong format. Valid are key pairs like 'env=value', received '' @ fmt_strings (fl_env flags)) (CheckKeyPair (fl_env flags)),
       check_or (''secret environment variables are in the wrong format. Valid are key pairs like 'env=secretName#secretKey', received '' @ fmt_strings (fl_secretEnv flags)) (CheckSecretKeyPair (fl_secretEnv flags))]"

definition CheckWebHookArgs :: "string list \<Rightarrow> gerr option" where
  "CheckWebHookArgs webHook =
     (case find (\<lambda>(t, s). t \<notin> {''GitHub'', ''Generic''}) (FromStringsKeyPairToMap webHook) of
        None \<Rightarrow> None
      | Some (t, s) \<Rightarrow> Some (PlainError (''WebHook type not valid. Valid types are '' @ fmt_strings [''GitHub'', ''Generic''] @ ''. Received '' @ t)))"

definition checkConfigFile :: "'w outside \<Rightarrow> string \<Rightarrow> 'w \<Rightarrow> gerr option" where
  "checkConfigFile S path w =
     (if path = [] then None
      else (case CheckFileExists S path w of
              Inl e \<Rightarrow> Some e
            | Inr exists \<Rightarrow>
                if exists then None else Some (PlainError (''configuration file does not exist in the given path: '' @ path))))"

definition CheckConfigFlags :: "'w outside \<Rightarrow> config_flags \<Rightarrow> 'w \<Rightarrow> gerr option" where
  "CheckConfigFlags S flags w =
     first_error [check_or (''config are in the wrong format. Valid are key pairs like 'key=value', received '' @ fmt_strings (fl_config flags)) (CheckKeyPair (fl_config flags)), checkConfigFile S (fl_configFile flags) w]"

definition CheckInfraResourceArgs :: "infra_resource_flags \<Rightarrow> gerr option" where
  "CheckInfraResourceArgs flags =
     (if fl_resourceName flags = [] then None
      else if fl_apiVersion flags = [] then Some (PlainError ''ApiVersion can't be empty'')
      else if fl_kind flags = [] then Some (PlainError ''Kind can't be empty '')
      else None)"

definition CheckPropertiesArgs :: "string list \<Rightarrow> gerr option" where
  "CheckPropertiesArgs properties = check_or (''property data is in the wrong format. Valid are key pairs like 'env=value', received '' @ fmt_strings properties) (CheckKeyPair properties)"

definition CheckRuntimeTypeArgs :: "string \<Rightarrow> gerr option" where
  "CheckRuntimeTypeArgs runtime =
     (if runtime \<in> {''quarkus'', ''springboot''} then None else Some (PlainError (''runtime not valid. Valid runtimes are '' @ fmt_strings [''quarkus'', ''springboot''] @ ''. Received '' @ runtime)))"

definition CheckInstallArgs :: "'w outside \<Rightarrow> install_flags \<Rightarrow> 'w \<Rightarrow> gerr option" where
  "CheckInstallArgs S flags w =
     first_error [CheckPodResourceArgs (if_podResources flags), CheckImageTag (fl_image (if_image flags)), CheckEnvVarArgs (if_envs flags),
       CheckConfigFlags S (if_config flags) w,
       if if_replicas flags \<le> 0 then Some (PlainError (''valid replicas are non-zero, positive numbers, received '' @ Itoa (if_replicas flags))) else None]"

definition CheckRuntimeArgs :: "'w outside \<Rightarrow> runtime_flags \<Rightarrow> 'w \<Rightarrow> gerr option" where
  "CheckRuntimeArgs S flags w =
     first_error [CheckInstallArgs S (rf_install flags) w,
       check_or (''service labels are in the wrong format. Valid are key pairs like 'service=myservice', received '' @ fmt_strings (rf_serviceLabels flags)) (CheckKeyPair (rf_serviceLabels flags))]"

definition CheckBuildArgs :: "'w outside \<Rightarrow> build_flags \<Rightarrow> gerr option" where
  "CheckBuildArgs S flags =
     first_error [CheckImageTag (bf_runtimeImage flags), CheckImageTag (bf_buildImage flags), CheckGitSourceArgs S (bf_gitSource flags),
       CheckPodResourceArgs (bf_podResources flags), CheckWebHookArgs (nil_list (bf_webHook flags)), CheckEnvVarArgs (bf_envs flags),
       if bf_mavenMirrorURL flags = [] then None
       else (case os_parseRequestURI S (bf_mavenMirrorURL flags) of Inl e \<Rightarrow> Some e | Inr _ \<Rightarrow> None)]"

section \<open>Converters\<close>

datatype resource_type =
  LocalFileResource | LocalDirectoryResource | LocalBinaryDirectoryResource | GitFileResource | GitRepositoryResource | BinaryResource

datatype binary_build_type =
  SourceToImageBuild | BinarySpringBootJvmBuild | BinaryQuarkusFastJarJvmBuild | BinaryQuarkusLegacyJarJvmBuild | BinaryQuarkusNativeBuild

definition FromArtifactFlagsToArtifact :: "artifact_flags \<Rightarrow> artifact" where
  "FromArtifactFlagsToArtifact flags =
     \<lparr>af_groupID = fl_projectGroupID flags, af_artifactID = fl_projectArtifactID flags, af_version = fl_projectVersion flags\<rparr>"

definition FromArgsToBinaryBuildType :: "resource_type \<Rightarrow> string \<Rightarrow> bool \<Rightarrow> bool \<Rightarrow> binary_build_type" where
  "FromArgsToBinaryBuildType resourceType runtime native legacy =
     (if resourceType = LocalBinaryDirectoryResource then
        if runtime = ''springboot'' then BinarySpringBootJvmBuild
        else if native then BinaryQuarkusNativeBuild
        else if legacy then BinaryQuarkusLegacyJarJvmBuild
        else BinaryQuarkusFastJarJvmBuild
      else SourceToImageBuild)"

definition FromConfigFlagsToMap :: "config_flags \<Rightarrow> smap" where
  "FromConfigFlagsToMap flags = FromStringsKeyPairToMap (fl_config flags)"

definition secret_env :: "string \<times> string \<Rightarrow> env_var list" where
  "secret_env p =
     (case p of (k, v) \<Rightarrow>
        if ContainsStr v ''#''
        then (case SplitN2 CHR ''#'' v of [secretName, secretKey] \<Rightarrow> [CreateSecretEnvVar k secretName secretKey] | _ \<Rightarrow> [])
        else [])"

definition FromStringArrayToEnvs :: "string list \<Rightarrow> string list \<Rightarrow> env_var list" where
  "FromStringArrayToEnvs keyPairStrings secretKeyPairStrings =
     map (\<lambda>(k, v). CreateEnvVar k v) (FromStringsKeyPairToMap keyPairStrings) @
     concat (map secret_env (FromStringsKeyPairToMap secretKeyPairStrings))"

definition FromGitSourceFlagsToGitSource :: "git_source_flags \<Rightarrow> git_source" where
  "FromGitSourceFlagsToGitSource flags =
     \<lparr>gs_uri = fl_source flags, gs_reference = fl_reference flags, gs_contextDir = fl_contextDir flags\<rparr>"

definition FromInfraResourceFlagsToResource :: "infra_resource_flags \<Rightarrow> infra_resource option" where
  "FromInfraResourceFlagsToResource flags =
     (if fl_resourceName flags \<noteq> []
      then Some \<lparr>ir_apiVersion = fl_apiVersion flags, ir_kind = fl_kind flags, ir_namespace = fl_resourceNamespace flags,
                 ir_name = fl_resourceName flags\<rparr>
      else None)"

fun FromResourceTypeToKogitoBuildType :: "resource_type \<Rightarrow> string" where
  "FromResourceTypeToKogitoBuildType LocalDirectoryResource = ''LocalSource''"
| "FromResourceTypeToKogitoBuildType LocalFileResource = ''LocalSource''"
| "FromResourceTypeToKogitoBuildType GitFileResource = ''LocalSource''"
| "FromResourceTypeToKogitoBuildType GitRepositoryResource = ''RemoteSource''"
| "FromResourceTypeToKogitoBuildType BinaryResource = ''Binary''"
| "FromResourceTypeToKogitoBuildType LocalBinaryDirectoryResource = ''Binary''"

definition zero_probe :: probe where
  "zero_probe = \<lparr>pr_httpGet = None, pr_exec = None, pr_tcpSocket = None, pr_initialDelaySeconds = 0, pr_timeoutSeconds = 0, pr_periodSeconds = 0,
     pr_successThreshold = 0, pr_failureThreshold = 0\<rparr>"

definition FromProbeFlagToKogitoProbe :: "probe_flags \<Rightarrow> kogito_probe" where
  "FromProbeFlagToKogitoProbe flags =
     \<lparr>kp_liveness = zero_probe\<lparr>pr_initialDelaySeconds := fl_livenessInitialDelay flags\<rparr>,
      kp_readiness = zero_probe\<lparr>pr_initialDelaySeconds := fl_readinessInitialDelay flags\<rparr>, kp_startup = zero_probe\<rparr>"

definition FromMonitoringFlagToMonitoring :: "monitoring_flags \<Rightarrow> monitoring" where
  "FromMonitoringFlagToMonitoring flags = \<lparr>mon_scheme = fl_scheme flags, mon_path = fl_path flags\<rparr>"

definition FromArgsToNative :: "'w outside \<Rightarrow> bool \<Rightarrow> resource_type \<Rightarrow> string \<Rightarrow> 'w \<Rightarrow> gerr + bool" where
  "FromArgsToNative S nativeFlag resourceType resource w =
     (if resourceType = LocalBinaryDirectoryResource
      then bindR (os_readDir S resource w) (\<lambda>files.
             let native = list_ex (\<lambda>(f, d). HasSuffix f ''-runner'') files
             in if nativeFlag \<and> \<not> native
                then Inl (PlainError (''specified native binary build but no native executable found in '' @ quoted resource))
                else Inr native)
      else Inr nativeFlag)"

definition FromPropertiesFlagToStringMap :: "string list \<Rightarrow> smap" where
  "FromPropertiesFlagToStringMap properties = FromStringsKeyPairToMap properties"

text \<open>\<^verbatim>\<open>resource.MustParse\<close> panics on a text that is not a quantity; quantities are kept as texts.\<close>

definition FromStringArrayToResources :: "'w outside \<Rightarrow> string list option \<Rightarrow> gerr + smap option" where
  "FromStringArrayToResources S strings =
     (case strings of
        None \<Rightarrow> Inr None
      | Some xs \<Rightarrow>
          let m = FromStringsKeyPairToMap xs
          in if list_all (\<lambda>(k, v). os_quantity S v) m then Inr (Some m) else Inl (Panic ''cannot parse quantity''))"

definition FromPodResourceFlagsToResourceRequirement :: "'w outside \<Rightarrow> pod_resource_flags \<Rightarrow> gerr + smap option \<times> smap option" where
  "FromPodResourceFlagsToResourceRequirement S flags =
     bindR (FromStringArrayToResources S (fl_limits flags)) (\<lambda>limits.
     bindR (FromStringArrayToResources S (fl_requests flags)) (\<lambda>requests. Inr (limits, requests)))"

definition FromArgsToRuntimeType :: "'w outside \<Rightarrow> string \<Rightarrow> resource_type \<Rightarrow> string \<Rightarrow> 'w \<Rightarrow> gerr + string" where
  "FromArgsToRuntimeType S runtime resourceType resource w =
     (if resourceType = LocalBinaryDirectoryResource
      then bindR (os_readDir S resource w) (\<lambda>files.
             Inr (if list_ex (\<lambda>(f, d). list_ex (\<lambda>suffix. HasSuffix f suffix) [''-runner.jar'', ''quarkus-app'', ''-runner'']) files
                  then ''quarkus'' else ''springboot''))
      else Inr runtime)"

definition ToQuarkusLegacyJarType :: "'w outside \<Rightarrow> resource_type \<Rightarrow> string \<Rightarrow> 'w \<Rightarrow> gerr + bool" where
  "ToQuarkusLegacyJarType S resourceType resource w =
     (if resourceType = LocalBinaryDirectoryResource
      then bindR (os_readDir S resource w) (\<lambda>files. Inr (list_ex (\<lambda>(f, d). HasSuffix f ''-runner.jar'') files))
      else Inr False)"

definition FromWebHookFlagsToWebHookSecret :: "string list option \<Rightarrow> web_hook_secret list" where
  "FromWebHookFlagsToWebHookSecret webHook =
     (case webHook of
        None \<Rightarrow> []
      | Some xs \<Rightarrow> map (\<lambda>(t, s). \<lparr>wh_type = t, wh_secret = s\<rparr>) (FromStringsKeyPairToMap xs))"

text \<open>The config map of a properties file; an existing one is updated, which replaces all its data.\<close>

definition properties_configMap :: "string \<Rightarrow> string \<Rightarrow> configmap" where
  "properties_configMap name project =
     \<lparr>cm_meta = mk_meta (name @ ''-custom-properties'') project, cm_data = [], cm_binaryData = []\<rparr>"

definition with_properties :: "string \<Rightarrow> configmap \<Rightarrow> configmap" where
  "with_properties content cm =
     cm\<lparr>cm_data := [(''application.properties'', content)],
        cm_meta := (cm_meta cm)\<lparr>om_annotations := smap_put ''createdBy'' ''Kogito CLI'' (om_annotations (cm_meta cm))\<rparr>\<rparr>"

definition CreateConfigMapFromFile ::
  "'w outside \<Rightarrow> ('w, configmap) store_api \<Rightarrow> string \<Rightarrow> string \<Rightarrow> config_flags \<Rightarrow> 'w \<Rightarrow> (gerr + string) \<times> 'w" where
  "CreateConfigMapFromFile S A name project flags w =
     (if fl_configFile flags = [] then (Inr [], w)
      else (case os_readFile S (fl_configFile flags) w of
              Inl e \<Rightarrow> (Inl e, w)
            | Inr content \<Rightarrow>
                (case Fetch A (properties_configMap name project) w of
                   Inl e \<Rightarrow> (Inl e, w)
                 | Inr (Some cm) \<Rightarrow>
                     (case Update A (with_properties content cm) w of
                        (Inl e, w') \<Rightarrow> (Inl e, w') | (Inr cm', w') \<Rightarrow> (Inr (om_name (cm_meta cm')), w'))
                 | Inr None \<Rightarrow>
                     (case Create A (with_properties content (properties_configMap name project)) w of
                        (Inl e, w') \<Rightarrow> (Inl e, w') | (Inr cm', w') \<Rightarrow> (Inr (om_name (cm_meta cm')), w')))))"

section \<open>Facts about key/value pairs\<close>

lemma contains_char: "ContainsStr s [c] \<longleftrightarrow> c \<in> set s"
  by (induction s) (auto simp: HasPrefix_def)

lemma SplitN2_first: "c \<notin> set k \<Longrightarrow> SplitN2 c (k @ c # v) = [k, v]"
  by (simp add: SplitN2_def takeWhile_append dropWhile_append)

lemma SplitN2_none: "c \<notin> set s \<Longrightarrow> SplitN2 c s = [s]"
proof -
  assume "c \<notin> set s"
  then have "dropWhile (\<lambda>a. a \<noteq> c) s = []" by (auto simp: dropWhile_eq_Nil_conv)
  then show ?thesis unfolding SplitN2_def by (simp only: list.case)
qed

text \<open>The reference: the pairs at the first separator, the last pair of a key counting.\<close>

definition pair_of :: "string \<Rightarrow> string \<times> string" where
  "pair_of item = (takeWhile (\<lambda>c. c \<noteq> CHR ''='') item, tl (dropWhile (\<lambda>c. c \<noteq> CHR ''='') item))"

lemma key_pairs_lookup:
  "CheckKeyPair items = None \<Longrightarrow> map_of (key_pairs items m) = map_of m ++ map_of (rev (map pair_of items))"
proof (induction items arbitrary: m)
  case (Cons item items)
  then have sep: "CHR ''='' \<in> set item" "\<not> HasPrefix item ''=''" and rest: "CheckKeyPair items = None"
    by (auto simp: contains_char split: if_splits)
  obtain k v where kv: "item = k @ CHR ''='' # v" "CHR ''='' \<notin> set k" using split_list_first [OF sep(1)] by blast
  have "k \<noteq> []" using sep(2) kv by (auto simp: HasPrefix_def)
  moreover have "pair_of item = (k, v)" using kv by (simp add: pair_of_def takeWhile_append dropWhile_append)
  ultimately show ?case using Cons.IH [OF rest] kv by (simp add: SplitN2_first map_add_def fun_eq_iff split: option.split)
qed simp

lemma key_pairs_fresh:
  assumes "list_all (\<lambda>(k, v). k \<noteq> [] \<and> CHR ''='' \<notin> set k) kvs" "distinct (map fst (m @ kvs))"
  shows "key_pairs (map (\<lambda>(k, v). k @ CHR ''='' # v) kvs) m = m @ kvs"
  using assms
proof (induction kvs arbitrary: m)
  case (Cons kv kvs)
  obtain k v where kv: "kv = (k, v)" by (cases kv)
  have fresh: "smap_put k v m = m @ [(k, v)]" using Cons.prems(2) kv by (induction m) (auto simp: smap_put_def)
  show ?case using Cons.IH [of "m @ [(k, v)]"] Cons.prems kv by (simp add: SplitN2_first fresh)
qed simp

lemma key_pairs_check:
  "list_all (\<lambda>(k, v). k \<noteq> [] \<and> CHR ''='' \<notin> set k) kvs \<Longrightarrow> CheckKeyPair (map (\<lambda>(k, v). k @ CHR ''='' # v) kvs) = None"
  by (induction kvs) (auto simp: contains_char HasPrefix_def neq_Nil_conv)

text \<open>The values of the flags are read back.  Key/value pairs that are printed with an equals sign between key and value pass the check, and
  reading them gives the same pairs in the same order, when the keys are distinct, not empty and without an equals sign; the values may hold
  any character.\<close>

theorem key_pairs_roundtrip:
  "list_all (\<lambda>(k, v). k \<noteq> [] \<and> CHR ''='' \<notin> set k) kvs \<Longrightarrow> distinct (map fst kvs) \<Longrightarrow>
     CheckKeyPair (map (\<lambda>(k, v). k @ CHR ''='' # v) kvs) = None \<and> FromStringsKeyPairToMap (map (\<lambda>(k, v). k @ CHR ''='' # v) kvs) = kvs"
  using key_pairs_check [of kvs] key_pairs_fresh [of kvs "[]"] by (auto simp: FromStringsKeyPairToMap_def)

theorem key_pairs_roundtrip_witness:
  "FromStringsKeyPairToMap [''JAVA_OPTS=-Da=b'', ''X=''] = [(''JAVA_OPTS'', ''-Da=b''), (''X'', [])]"
  using key_pairs_roundtrip [of "[(''JAVA_OPTS'', ''-Da=b''), (''X'', [])]"] by simp

text \<open>C36: the loop over the pairs equals the reference.  For pairs that pass the check, what a key maps to is the text after the first equals
  sign of the last item with that key.\<close>

theorem key_pairs_reference:
  "CheckKeyPair items = None \<Longrightarrow> map_of (FromStringsKeyPairToMap items) = map_of (rev (map pair_of items))"
  using key_pairs_lookup [of items "[]"] by (auto simp: FromStringsKeyPairToMap_def)

theorem key_pairs_reference_witness: "map_of (FromStringsKeyPairToMap [''a=1'', ''b=2'', ''a=3=4'']) ''a'' = Some ''3=4''"
proof -
  have "CheckKeyPair [''a=1'', ''b=2'', ''a=3=4''] = None" by (simp add: HasPrefix_def)
  from key_pairs_reference [OF this] show ?thesis by (simp add: pair_of_def)
qed

section \<open>Secret environment variables\<close>

lemma no_secret_env: "list_all (\<lambda>item. item \<noteq> [] \<and> CHR ''='' \<notin> set item) items \<Longrightarrow> list_all (\<lambda>(k, v). v = []) m \<Longrightarrow>
   list_all (\<lambda>(k, v). v = []) (key_pairs items m)"
proof (induction items arbitrary: m)
  case (Cons item items)
  have "list_all (\<lambda>(k, v). v = []) (smap_put item [] m)" using Cons.prems(2) by (induction m) (auto simp: smap_put_def)
  with Cons show ?case by (simp add: SplitN2_none)
qed simp

text \<open>A malformed secret variable is dropped without an error.  Items without an equals sign, which the check of plain variables rejects, pass
  the check of the secret ones, and no variable comes out of them.\<close>

theorem malformed_secret_env_dropped:
  "items \<noteq> [] \<Longrightarrow> list_all (\<lambda>item. item \<noteq> [] \<and> CHR ''='' \<notin> set item) items \<Longrightarrow>
     CheckEnvVarArgs \<lparr>fl_env = items, fl_secretEnv = []\<rparr> \<noteq> None
   \<and> CheckEnvVarArgs \<lparr>fl_env = [], fl_secretEnv = items\<rparr> = None
   \<and> FromStringArrayToEnvs [] items = []"
proof -
  assume ne: "items \<noteq> []" and bad: "list_all (\<lambda>item. item \<noteq> [] \<and> CHR ''='' \<notin> set item) items"
  have rejected: "CheckKeyPair items \<noteq> None" using ne bad by (cases items) (auto simp: contains_char)
  have "list_all (\<lambda>(k, v). v = []) (FromStringsKeyPairToMap items)"
    using no_secret_env [OF bad, of "[]"] by (simp add: FromStringsKeyPairToMap_def)
  then have "concat (map secret_env (FromStringsKeyPairToMap items)) = []" by (auto simp: secret_env_def list_all_iff)
  with rejected show ?thesis
    by (auto simp: CheckEnvVarArgs_def check_or_def CheckSecretKeyPair_def FromStringArrayToEnvs_def FromStringsKeyPairToMap_def)
qed

theorem malformed_secret_env_dropped_witness:
  "CheckEnvVarArgs \<lparr>fl_env = [], fl_secretEnv = [''PASSWORD'']\<rparr> = None \<and> FromStringArrayToEnvs [] [''PASSWORD''] = []"
  using malformed_secret_env_dropped [of "[''PASSWORD'']"] by simp

end
