(* ===== verification/Kogito_Build.thy ===== *)
theory Kogito_Build
  imports Build_Config
begin

text \<open>
  Builds on OpenShift, \<^verbatim>\<open>core/kogitobuild\<close>: the status and the triggering of builds (\<^verbatim>\<open>build.go\<close>, \<^verbatim>\<open>trigger.go\<close>), the
  conditions of a KogitoBuild (\<^verbatim>\<open>status.go\<close>), the image streams it needs (\<^verbatim>\<open>image_stream.go\<close>), the processing of
  its resources (\<^verbatim>\<open>build_manager.go\<close>), and the controller that puts them together
  (\<^verbatim>\<open>controllers/common/build_controller.go\<close>).
\<close>

section \<open>Builds and the cluster\<close>

datatype build_phase =
    PhaseNew | PhasePending | PhaseRunning | PhaseComplete | PhaseFailed | PhaseError | PhaseCancelled | PhaseOther string

record os_build =
  ob_meta :: object_meta
  ob_phase :: build_phase
  ob_message :: string
  ob_cancelled :: bool
  ob_created :: int

record build_request =
  brq_name :: string
  brq_triggeredBy :: string
  brq_groupVersionKind :: "string \<times> string \<times> string"

text \<open>The OpenShift build client, the libraries, the order in which the map of resource types is ranged over,
  the attempts \<^verbatim>\<open>wait.Poll\<close> makes within its timeout, and the capacity left in the slice of variables.\<close>

record 'w build_env =
  be_images :: "'w image_cluster"
  be_context :: op_context
  be_conditions :: cond_api
  be_quantities :: quantities
  be_spare :: nat
  be_configLib :: "('w, build_config) delta_lib"
  be_streamLib :: "('w, image_stream) delta_lib"
  be_configsFirst :: bool
  be_listOwned :: "string \<Rightarrow> object_meta \<Rightarrow> 'w \<Rightarrow> gerr + build_config list \<times> image_stream list"
  be_getConfig :: "string \<Rightarrow> string \<Rightarrow> 'w \<Rightarrow> gerr + build_config"
  be_instantiate :: "string \<Rightarrow> string \<Rightarrow> build_request \<Rightarrow> 'w \<Rightarrow> (gerr + os_build) \<times> 'w"
  be_listBuilds :: "string \<Rightarrow> string \<Rightarrow> 'w \<Rightarrow> gerr + os_build list"  \<comment> \<open>namespace, label selector\<close>
  be_builds :: "('w, os_build) store_api"
  be_kogitoBuilds :: "('w, kogito_build) store_api"
  be_fetchKogitoBuild :: "string \<Rightarrow> string \<Rightarrow> 'w \<Rightarrow> gerr + kogito_build option"
  be_pollAttempts :: nat

section \<open>Build handler, build.go\<close>

definition empty_builds :: builds where
  "empty_builds = \<lparr>bl_new = [], bl_pending = [], bl_running = [], bl_complete = [], bl_failed = [], bl_error = [], bl_cancelled = []\<rparr>"

definition record_build :: "os_build \<Rightarrow> builds \<Rightarrow> builds" where
  "record_build item st =
     (let n = om_name (ob_meta item)
      in case ob_phase item of
           PhaseNew \<Rightarrow> st\<lparr>bl_new := bl_new st @ [n]\<rparr>
         | PhasePending \<Rightarrow> st\<lparr>bl_pending := bl_pending st @ [n]\<rparr>
         | PhaseRunning \<Rightarrow> st\<lparr>bl_running := bl_running st @ [n]\<rparr>
         | PhaseComplete \<Rightarrow> st\<lparr>bl_complete := bl_complete st @ [n]\<rparr>
         | PhaseFailed \<Rightarrow> st\<lparr>bl_failed := bl_failed st @ [n]\<rparr>
         | PhaseError \<Rightarrow> st\<lparr>bl_error := bl_error st @ [n]\<rparr>
         | PhaseCancelled \<Rightarrow> st\<lparr>bl_cancelled := bl_cancelled st @ [n]\<rparr>
         | PhaseOther _ \<Rightarrow> st\<lparr>bl_new := bl_new st @ [n]\<rparr>)"

definition GetBuildsStatusByLabel :: "'w build_env \<Rightarrow> string \<Rightarrow> string \<Rightarrow> 'w \<Rightarrow> gerr + builds" where
  "GetBuildsStatusByLabel E namespace labelSelector w =
     bindR (be_listBuilds E namespace labelSelector w) (\<lambda>items. Inr (fold record_build items empty_builds))"

definition checkBuildConfigExists :: "'w build_env \<Rightarrow> build_config \<Rightarrow> 'w \<Rightarrow> gerr + bool" where
  "checkBuildConfigExists E bc w =
     (case be_getConfig E (om_namespace (bc_meta bc)) (om_name (bc_meta bc)) w of
        Inl e \<Rightarrow> if IsNotFound e then Inr False else Inl e
      | Inr _ \<Rightarrow> Inr True)"

text \<open>Without a build configuration the answer is nil.\<close>

definition GetBuildsStatus :: "'w build_env \<Rightarrow> build_config \<Rightarrow> string \<Rightarrow> 'w \<Rightarrow> gerr + builds option" where
  "GetBuildsStatus E bc labelSelector w =
     bindR (checkBuildConfigExists E bc w) (\<lambda>exists.
       if \<not> exists then Inr None
       else bindR (be_listBuilds E (om_namespace (bc_meta bc)) labelSelector w) (\<lambda>items.
              Inr (Some (fold record_build
                (filter (\<lambda>item. HasPrefix (om_name (ob_meta item)) (om_name (bc_meta bc))) items) empty_builds))))"

definition newBuildRequest :: "string \<Rightarrow> build_config \<Rightarrow> build_request" where
  "newBuildRequest triggeredBy bc =
     \<lparr>brq_name = om_name (bc_meta bc), brq_triggeredBy = ''Triggered by '' @ triggeredBy @ '' operator'',
      brq_groupVersionKind = (''build.openshift.io'', ''v1'', ''BuildRequest'')\<rparr>"

text \<open>A panic of the client is recovered, and the zero values are returned.\<close>

definition TriggerBuild :: "'w build_env \<Rightarrow> build_config \<Rightarrow> string \<Rightarrow> 'w \<Rightarrow> (gerr + bool) \<times> 'w" where
  "TriggerBuild E bc triggeredBy w =
     (case checkBuildConfigExists E bc w of
        Inl e \<Rightarrow> (Inl e, w)
      | Inr exists \<Rightarrow>
          if \<not> exists then (Inr False, w)
          else (case be_instantiate E (om_namespace (bc_meta bc)) (om_name (bc_meta bc)) (newBuildRequest triggeredBy bc) w of
                  (Inl (Panic m), w') \<Rightarrow> (Inr False, w')
                | (Inl e, w') \<Rightarrow> (Inl e, w')
                | (Inr _, w') \<Rightarrow> (Inr True, w')))"

text \<open>The loop with the attempts that are left after this one.\<close>

fun wait_attempts :: "int \<Rightarrow> nat \<Rightarrow> ('w \<Rightarrow> (gerr + unit) \<times> 'w) \<Rightarrow> 'w \<Rightarrow> (gerr + unit) \<times> 'w" where
  "wait_attempts retries n f w =
     (case f w of
        (Inr _, w') \<Rightarrow> (Inr (), w')
      | (Inl e, w') \<Rightarrow>
          (case n of
             0 \<Rightarrow> (Inl (PlainError (''after '' @ Itoa retries @ '' attempts, last error: '' @ error_message e)), w')
           | Suc n' \<Rightarrow> wait_attempts retries n' f w'))"

declare wait_attempts.simps [simp del]

definition waitForBuildConfig :: "int \<Rightarrow> ('w \<Rightarrow> (gerr + unit) \<times> 'w) \<Rightarrow> 'w \<Rightarrow> (gerr + unit) \<times> 'w" where
  "waitForBuildConfig retries f w = wait_attempts retries (nat (retries - 1)) f w"

definition checkBcRetries :: int where "checkBcRetries = 100"

definition TriggerBuildFromFile ::
  "(string \<Rightarrow> string \<Rightarrow> 'w \<Rightarrow> gerr + build_config) \<Rightarrow> (string \<Rightarrow> string \<Rightarrow> 'w \<Rightarrow> (gerr + os_build) \<times> 'w) \<Rightarrow>
   string \<Rightarrow> string \<Rightarrow> bool \<Rightarrow> 'w \<Rightarrow> (gerr + os_build) \<times> 'w" where
  "TriggerBuildFromFile getConfig instantiateBinary namespace optionsName binaryBuild =
     (let buildName = (if binaryBuild then optionsName else optionsName @ ''-builder'')
      in bindS (waitForBuildConfig checkBcRetries (\<lambda>w. (bindR (getConfig namespace buildName w) (\<lambda>_. Inr ()), w))) (\<lambda>_.
           instantiateBinary namespace buildName))"

section \<open>Triggering, trigger.go\<close>

text \<open>\<^verbatim>\<open>wait.Poll\<close>: the condition is tried until it holds or fails, at most as often as the timeout allows.\<close>

fun poll :: "nat \<Rightarrow> ('s \<Rightarrow> (gerr + bool) \<times> 's) \<Rightarrow> 's \<Rightarrow> (gerr + unit) \<times> 's" where
  "poll 0 f s = (Inl (PlainError ''timed out waiting for the condition''), s)"
| "poll (Suc n) f s =
     (case f s of
        (Inl e, s') \<Rightarrow> (Inl e, s')
      | (Inr finished, s') \<Rightarrow> if finished then (Inr (), s') else poll n f s')"

definition cancel_attempt :: "'w build_env \<Rightarrow> os_build \<times> 'w \<Rightarrow> (gerr + bool) \<times> os_build \<times> 'w" where
  "cancel_attempt E s =
     (let build = (fst s)\<lparr>ob_cancelled := True\<rparr>
      in case sa_update (be_builds E) build (snd s) of
           (Inr _, w') \<Rightarrow> (Inr True, build, w')
         | (Inl (ApiError SConflict m), w') \<Rightarrow>
             (case sa_get (be_builds E) (om_namespace (ob_meta build)) (om_name (ob_meta build)) w' of
                Inl e \<Rightarrow> (Inl e, build, w')
              | Inr build' \<Rightarrow> (Inr False, build', w'))
         | (Inl e, w') \<Rightarrow> (Inl e, build, w'))"

definition cancelled_attempt :: "'w build_env \<Rightarrow> os_build \<times> 'w \<Rightarrow> (gerr + bool) \<times> os_build \<times> 'w" where
  "cancelled_attempt E s =
     (case sa_get (be_builds E) (om_namespace (ob_meta (fst s))) (om_name (ob_meta (fst s))) (snd s) of
        Inl e \<Rightarrow> (Inl e, s)
      | Inr updatedBuild \<Rightarrow> (Inr (ob_phase updatedBuild = PhaseCancelled), s))"

definition cancel_build :: "'w build_env \<Rightarrow> os_build \<Rightarrow> 'w \<Rightarrow> (gerr + unit) \<times> 'w" where
  "cancel_build E build w =
     (case bindS (poll (be_pollAttempts E) (cancel_attempt E)) (\<lambda>_. poll (be_pollAttempts E) (cancelled_attempt E)) (build, w) of
        (r, s) \<Rightarrow> (r, snd s))"

definition in_progress :: "os_build \<Rightarrow> bool" where
  "in_progress b \<longleftrightarrow> ob_phase b = PhaseNew \<or> ob_phase b = PhasePending \<or> ob_phase b = PhaseRunning"

text \<open>The loop waits for the first build in progress and returns.\<close>

fun cancel_loop :: "'w build_env \<Rightarrow> os_build list \<Rightarrow> 'w \<Rightarrow> (gerr + unit) \<times> 'w" where
  "cancel_loop E [] w = (Inr (), w)"
| "cancel_loop E (b # bs) w = (if in_progress b then cancel_build E b w else cancel_loop E bs w)"

definition cancelRunningBuilds :: "'w build_env \<Rightarrow> build_config \<Rightarrow> 'w \<Rightarrow> (gerr + unit) \<times> 'w" where
  "cancelRunningBuilds E bc w =
     (case be_listBuilds E (om_namespace (bc_meta bc)) (StringsJoin ''='' [''buildconfig'', om_name (bc_meta bc)]) w of
        Inl e \<Rightarrow> (Inl e, w)
      | Inr bs \<Rightarrow> cancel_loop E bs w)"

definition StartNewBuild :: "'w build_env \<Rightarrow> build_config \<Rightarrow> 'w \<Rightarrow> (gerr + unit) \<times> 'w" where
  "StartNewBuild E bc =
     bindS (cancelRunningBuilds E bc) (\<lambda>_.
     bindS (TriggerBuild E bc ''KogitoBuild controller from Kogito Operator'') (\<lambda>_. returnS ()))"

section \<open>Status, status.go\<close>

fun buildConditionReason :: "build_phase \<Rightarrow> string" where
  "buildConditionReason PhaseError = ''Error''"
| "buildConditionReason PhaseFailed = ''Failed''"
| "buildConditionReason PhaseCancelled = ''Cancelled''"
| "buildConditionReason PhaseNew = ''New''"
| "buildConditionReason PhasePending = ''Pending''"
| "buildConditionReason PhaseRunning = ''Running''"
| "buildConditionReason PhaseComplete = ''Complete''"
| "buildConditionReason (PhaseOther _) = []"

definition setSuccessful :: "cond_api \<Rightarrow> cond_status \<Rightarrow> string \<Rightarrow> condition list \<Rightarrow> condition list" where
  "setSuccessful C status reason = ca_set C (mk_cond ''Successful'' status reason [])"

definition setRunning :: "cond_api \<Rightarrow> cond_status \<Rightarrow> string \<Rightarrow> condition list \<Rightarrow> condition list" where
  "setRunning C status reason = ca_set C (mk_cond ''Running'' status reason [])"

definition build_setFailed :: "cond_api \<Rightarrow> string \<Rightarrow> string \<Rightarrow> condition list \<Rightarrow> condition list" where
  "build_setFailed C reason message = ca_set C (mk_cond ''Failed'' CTrue reason message)"

definition build_setFailedConditions :: "cond_api \<Rightarrow> string \<Rightarrow> string \<Rightarrow> condition list \<Rightarrow> condition list" where
  "build_setFailedConditions C reason message cs =
     setSuccessful C CFalse reason (setRunning C CFalse reason (build_setFailed C reason message cs))"

definition setRunningConditions :: "cond_api \<Rightarrow> string \<Rightarrow> condition list \<Rightarrow> condition list" where
  "setRunningConditions C reason cs = setSuccessful C CFalse reason (setRunning C CTrue reason cs)"

definition setSuccessfulConditions :: "cond_api \<Rightarrow> string \<Rightarrow> condition list \<Rightarrow> condition list" where
  "setSuccessfulConditions C reason cs = setSuccessful C CTrue reason (setRunning C CFalse reason cs)"

definition addCondition :: "cond_api \<Rightarrow> os_build \<Rightarrow> condition list \<Rightarrow> condition list" where
  "addCondition C build cs =
     (let reason = buildConditionReason (ob_phase build)
      in case ob_phase build of
           PhaseFailed \<Rightarrow> build_setFailedConditions C reason (ob_message build) cs
         | PhaseCancelled \<Rightarrow> build_setFailedConditions C reason (ob_message build) cs
         | PhaseNew \<Rightarrow> setRunningConditions C reason cs
         | PhasePending \<Rightarrow> setRunningConditions C reason cs
         | PhaseRunning \<Rightarrow> setRunningConditions C reason cs
         | PhaseComplete \<Rightarrow> setSuccessfulConditions C reason cs
         | _ \<Rightarrow> cs)"

definition map_bstatus :: "(build_status \<Rightarrow> build_status) \<Rightarrow> kogito_build \<Rightarrow> kogito_build" where
  "map_bstatus f b = b\<lparr>kb_status := f (kb_status b)\<rparr>"

definition build_conditions :: "kogito_build \<Rightarrow> condition list" where
  "build_conditions b = (case bst_conditions (kb_status b) of None \<Rightarrow> [] | Some cs \<Rightarrow> cs)"

definition map_build_conditions :: "(condition list \<Rightarrow> condition list) \<Rightarrow> kogito_build \<Rightarrow> kogito_build" where
  "map_build_conditions f b = map_bstatus (\<lambda>st. st\<lparr>bst_conditions := Some (f (build_conditions b))\<rparr>) b"

definition updateBuildsStatus :: "'w build_env \<Rightarrow> kogito_build \<Rightarrow> 'w \<Rightarrow> gerr + kogito_build" where
  "updateBuildsStatus E b w =
     bindR (GetBuildsStatusByLabel E (kb_namespace b)
        (StringsJoin '','' [StringsJoin ''='' [''app'', GetApplicationName b], StringsJoin ''='' [''buildType'', bs_type (kb_spec b)]]) w) (\<lambda>st.
       Inr (map_bstatus (\<lambda>s. s\<lparr>bst_builds := st\<rparr>) b))"

text \<open>The sort is stable, newest first.\<close>

definition build_handleConditionTransition :: "'w build_env \<Rightarrow> kogito_build \<Rightarrow> 'w \<Rightarrow> (gerr + unit) \<times> kogito_build" where
  "build_handleConditionTransition E b w =
     (case updateBuildsStatus E b w of
        Inl e \<Rightarrow> (Inl e, b)
      | Inr b1 \<Rightarrow>
          (case ListWithNamespaceAndLabel (be_builds E) (kb_namespace b1)
                  [(''app'', GetApplicationName b1), (''buildType'', bs_type (kb_spec b1))] w of
             Inl e \<Rightarrow> (Inl e, b1)
           | Inr items \<Rightarrow>
               (case sort_key (\<lambda>x. - ob_created x) items of
                  [] \<Rightarrow> (Inr (), map_build_conditions (setRunningConditions (be_conditions E) ''NotYetStarted'') b1)
                | latestBuild # _ \<Rightarrow>
                    (Inr (), map_build_conditions (addCondition (be_conditions E) latestBuild)
                       (map_bstatus (\<lambda>s. s\<lparr>bst_latestBuild := om_name (ob_meta latestBuild)\<rparr>) b1)))))"

definition status_change :: "'w build_env \<Rightarrow> kogito_build \<Rightarrow> gerr option \<Rightarrow> 'w \<Rightarrow> kogito_build" where
  "status_change E b err w =
     (let b0 = (if bst_conditions (kb_status b) = None then map_bstatus (\<lambda>s. s\<lparr>bst_conditions := Some []\<rparr>) b else b)
      in case err of
           Some e \<Rightarrow> map_build_conditions (build_setFailedConditions (be_conditions E) ''OperatorFailure'' (error_message e)) b0
         | None \<Rightarrow> snd (build_handleConditionTransition E b0 w))"

definition HandleStatusChange :: "'w build_env \<Rightarrow> kogito_build \<Rightarrow> gerr option \<Rightarrow> 'w \<Rightarrow> 'w" where
  "HandleStatusChange E b err w = snd (UpdateStatus (be_kogitoBuilds E) (status_change E b err w) w)"

section \<open>Image streams, image\_stream.go\<close>

text \<open>When the stream is not there but its creation finds it after all, the object that is updated is still
  the one with the name only.\<close>

definition createRequiredKogitoImageStreamTag :: "'w build_env \<Rightarrow> image_stream \<Rightarrow> 'w \<Rightarrow> (gerr + bool) \<times> 'w" where
  "createRequiredKogitoImageStreamTag E requiredStream w =
     (let A = ic_imageStreams (be_images E);
          named = \<lparr>is_meta = mk_meta (om_name (is_meta requiredStream)) (om_namespace (is_meta requiredStream)),
            is_lookupLocal = False, is_tags = [], is_statusTags = []\<rparr>;
          add_tag = (\<lambda>s. bindS (Update A (s\<lparr>is_tags := is_tags s @ is_tags requiredStream\<rparr>)) (\<lambda>_. returnS True))
      in case Fetch A named w of
           Inl e \<Rightarrow> (Inl e, w)
         | Inr (Some deployedStream) \<Rightarrow>
             if list_ex (\<lambda>t. tg_name t = tg_name (is_tags requiredStream ! 0)) (is_tags deployedStream) then (Inr False, w)
             else add_tag deployedStream w
         | Inr None \<Rightarrow>
             (case Create A requiredStream w of
                (Inr _, w') \<Rightarrow> (Inr True, w')
              | (Inl e, w') \<Rightarrow> if IsAlreadyExists e then add_tag named w' else (Inl e, w')))"

definition CreateRequiredKogitoImageStreams :: "'w build_env \<Rightarrow> kogito_build \<Rightarrow> 'w \<Rightarrow> (gerr + bool) \<times> 'w" where
  "CreateRequiredKogitoImageStreams E b =
     bindS (createRequiredKogitoImageStreamTag E (newKogitoImageStream (be_context E) b True)) (\<lambda>buildersCreated.
     bindS (createRequiredKogitoImageStreamTag E (newKogitoImageStream (be_context E) b False)) (\<lambda>runtimeCreated.
       returnS (buildersCreated \<or> runtimeCreated)))"

section \<open>Build manager, build\_manager.go\<close>

definition setDefaults :: "kogito_build \<Rightarrow> kogito_build" where
  "setDefaults b = (if bs_runtime (kb_spec b) = [] then map_bspec (\<lambda>sp. sp\<lparr>bs_runtime := ''quarkus''\<rparr>) b else b)"

definition sanityCheck :: "kogito_build \<Rightarrow> gerr + unit" where
  "sanityCheck b =
     (if bs_type (kb_spec b) = [] then Inl (PlainError ''error while creating build resources: : build Type is required'')
      else if bs_type (kb_spec b) = ''RemoteSource'' \<and> gs_uri (bs_gitSource (kb_spec b)) = []
           then Inl (PlainError ''error while creating build resources: : Git URL is required when build type is RemoteSource'')
      else Inr ())"

definition NewDeltaProcessor :: "kogito_build \<Rightarrow> (gerr + unit) \<times> kogito_build" where
  "NewDeltaProcessor b = (sanityCheck (setDefaults b), setDefaults b)"

definition is_source_build :: "kogito_build \<Rightarrow> bool" where
  "is_source_build b \<longleftrightarrow> bs_type (kb_spec b) = ''LocalSource'' \<or> bs_type (kb_spec b) = ''RemoteSource''"

definition build_GetRequestedResources ::
  "'w build_env \<Rightarrow> kogito_build \<Rightarrow> 'w \<Rightarrow> gerr + build_config list \<times> image_stream list" where
  "build_GetRequestedResources E b w =
     (if is_source_build b
      then source_GetRequestedResources (be_images E) (be_context E) (be_quantities E) (be_spare E) b w
      else binary_GetRequestedResources (be_images E) (be_context E) b w)"

definition addSharedImageStreamToResources ::
  "'w build_env \<Rightarrow> image_stream list \<Rightarrow> string \<Rightarrow> string \<Rightarrow> 'w \<Rightarrow> gerr + image_stream list" where
  "addSharedImageStreamToResources E streams name ns w =
     (if \<not> ic_isOpenshift (be_images E) then Inr streams
      else if list_ex (\<lambda>s. om_name (is_meta s) = name \<and> om_namespace (is_meta s) = ns) streams then Inr streams
      else bindR (FetchImageStream (be_images E) ns name w) (\<lambda>shared.
             Inr (streams @ (case shared of None \<Rightarrow> [] | Some s \<Rightarrow> [s]))))"

definition build_GetDeployedResources ::
  "'w build_env \<Rightarrow> kogito_build \<Rightarrow> 'w \<Rightarrow> gerr + build_config list \<times> image_stream list" where
  "build_GetDeployedResources E b w =
     bindR (be_listOwned E (kb_namespace b) (kb_meta b) w) (\<lambda>(configs, streams).
     bindR (addSharedImageStreamToResources E streams (GetApplicationName b) (kb_namespace b) w) (\<lambda>streams'.
       Inr (configs, streams')))"

text \<open>The comparator sets empty triggers of both objects to nil.\<close>

definition CreateBuildConfigComparator :: "build_config comparator" where
  "CreateBuildConfigComparator deployed requested =
     (if \<not> containAllLabels (bc_meta deployed) (bc_meta requested) then (False, deployed, requested)
      else if bc_triggers requested = None \<or> bc_triggers requested = Some []
           then (True, deployed\<lparr>bc_triggers := None\<rparr>, requested\<lparr>bc_triggers := None\<rparr>)
           else (True, deployed, requested))"

definition config_comparator :: "'w build_env \<Rightarrow> build_config comparator" where
  "config_comparator E =
     Build (WithCustomComparator CreateBuildConfigComparator
       (UseDefaultComparator (dl_forType (be_configLib E)) (dl_generic (be_configLib E)) NewComparatorBuilder))"

definition stream_comparator :: "'w build_env \<Rightarrow> image_stream comparator" where
  "stream_comparator E =
     Build (WithCustomComparator (CreateSharedImageStreamComparator (ic_tagsEqual (be_images E)))
       (UseDefaultComparator (dl_forType (be_streamLib E)) (dl_generic (be_streamLib E)) NewComparatorBuilder))"

definition onBuildConfigChange :: "'w build_env \<Rightarrow> kogito_build \<Rightarrow> build_config list \<Rightarrow> 'w \<Rightarrow> (gerr + unit) \<times> 'w" where
  "onBuildConfigChange E b buildConfigs =
     (if is_source_build b
      then eachS (\<lambda>bc. if om_name (bc_meta bc) = GetBuildBuilderName b then StartNewBuild E bc else returnS ()) buildConfigs
      else returnS ())"

text \<open>The body of the loop over the deltas, for one type with its hook.\<close>

definition process_build_delta ::
  "('w, 'o) delta_lib \<Rightarrow> 'o list \<Rightarrow> 'o delta \<Rightarrow> ('o list \<Rightarrow> 'w \<Rightarrow> (gerr + unit) \<times> 'w) \<Rightarrow> 'w \<Rightarrow> (gerr + unit) \<times> 'w" where
  "process_build_delta L deployed delta hook =
     (if \<not> dl_hasChanges L delta then returnS ()
      else bindS (apply_delta (dl_writer L) deployed delta) (\<lambda>_.
             if d_updated delta \<noteq> [] then hook (d_updated delta) else returnS ()))"

definition build_ProcessDelta :: "'w build_env \<Rightarrow> kogito_build \<Rightarrow> 'w \<Rightarrow> (gerr + unit) \<times> 'w" where
  "build_ProcessDelta E b w =
     (case build_GetRequestedResources E b w of
        Inl e \<Rightarrow> (Inl e, w)
      | Inr (reqConfigs, reqStreams) \<Rightarrow>
          (case build_GetDeployedResources E b w of
             Inl e \<Rightarrow> (Inl e, w)
           | Inr (depConfigs, depStreams) \<Rightarrow>
               (let configs = process_build_delta (be_configLib E) depConfigs
                      (dl_compare (be_configLib E) (config_comparator E) depConfigs reqConfigs) (onBuildConfigChange E b);
                    streams = process_build_delta (be_streamLib E) depStreams
                      (dl_compare (be_streamLib E) (stream_comparator E) depStreams reqStreams) (\<lambda>_. returnS ())
                in if be_configsFirst E then bindS configs (\<lambda>_. streams) w else bindS streams (\<lambda>_. configs) w)))"

section \<open>The controller, controllers/common/build\_controller.go\<close>

definition with_build_defaults :: "kogito_build \<Rightarrow> kogito_build" where
  "with_build_defaults b =
     (let b1 = setDefaults b;
          b2 = map_bspec (\<lambda>sp. sp\<lparr>bs_env := EnvOverride (bs_env sp) [plain_env ''RUNTIME_TYPE'' (bs_runtime sp)]\<rparr>) b1
      in if bs_targetKogitoRuntime (kb_spec b2) = [] then map_bspec (\<lambda>sp. sp\<lparr>bs_targetKogitoRuntime := kb_name b2\<rparr>) b2 else b2)"

definition reconcile_build :: "'w build_env \<Rightarrow> kogito_build \<Rightarrow> 'w \<Rightarrow> (ctrl_result \<times> gerr option) \<times> kogito_build \<times> 'w" where
  "reconcile_build E b0 w =
     (let b = with_build_defaults b0
      in case CreateRequiredKogitoImageStreams E b w of
           (Inl e, w1) \<Rightarrow>
             ((no_requeue, Some (PlainError (''Error while creating Kogito ImageStreams: '' @ error_message e @ '' ''))), b, w1)
         | (Inr created, w1) \<Rightarrow>
             if created then ((\<lparr>res_requeue = True, res_requeueAfter = 10000\<rparr>, None), b, w1)
             else (case NewDeltaProcessor b of
                     (Inl e, b') \<Rightarrow> ((no_requeue, Some e), b', w1)
                   | (Inr _, b') \<Rightarrow>
                       (case build_ProcessDelta E b' w1 of
                          (Inl e, w2) \<Rightarrow> ((no_requeue, Some e), b', w2)
                        | (Inr _, w2) \<Rightarrow> ((no_requeue, None), b', w2))))"

text \<open>The arguments of the deferred call are evaluated when it is deferred: the error is nil there.\<close>

definition build_Reconcile :: "'w build_env \<Rightarrow> string \<Rightarrow> string \<Rightarrow> 'w \<Rightarrow> (ctrl_result \<times> gerr option) \<times> 'w" where
  "build_Reconcile E namespace name w =
     (case be_fetchKogitoBuild E namespace name w of
        Inl e \<Rightarrow> ((no_requeue, Some e), w)
      | Inr None \<Rightarrow> ((no_requeue, None), w)
      | Inr (Some b) \<Rightarrow>
          (case reconcile_build E b w of
             (r, b', w') \<Rightarrow> (r, HandleStatusChange E b' None w')))"

section \<open>Lemmas\<close>

lemma cond_setters:
  assumes "cond_laws C"
  shows "cond_status_of C (setSuccessful C s r cs) t = (if t = ''Successful'' then Some s else cond_status_of C cs t)"
    "cond_status_of C (setRunning C s r cs) t = (if t = ''Running'' then Some s else cond_status_of C cs t)"
    "cond_status_of C (build_setFailed C r m cs) t = (if t = ''Failed'' then Some CTrue else cond_status_of C cs t)"
    "cond_reason_of C (setSuccessful C s r cs) t = (if t = ''Successful'' then Some r else cond_reason_of C cs t)"
    "cond_reason_of C (setRunning C s r cs) t = (if t = ''Running'' then Some r else cond_reason_of C cs t)"
    "cond_reason_of C (build_setFailed C r m cs) t = (if t = ''Failed'' then Some r else cond_reason_of C cs t)"
  using assms
  by (simp_all add: setSuccessful_def setRunning_def build_setFailed_def cond_status_set cond_reason_set mk_cond_def)

lemmas build_condition_defs = build_setFailedConditions_def setRunningConditions_def setSuccessfulConditions_def

lemma map_build_conditions_simps [simp]:
  "build_conditions (map_build_conditions f b) = f (build_conditions b)"
  "kb_spec (map_build_conditions f b) = kb_spec b" "kb_meta (map_build_conditions f b) = kb_meta b"
  by (simp_all add: map_build_conditions_def map_bstatus_def build_conditions_def)

lemma build_conditions_map_bstatus [simp]:
  "build_conditions (map_bstatus (\<lambda>s. s\<lparr>bst_builds := x\<rparr>) b) = build_conditions b"
  "build_conditions (map_bstatus (\<lambda>s. s\<lparr>bst_latestBuild := n\<rparr>) b) = build_conditions b"
  by (simp_all add: map_bstatus_def build_conditions_def)

lemma fold_record_build:
  "bl_new (fold record_build items st) = bl_new st @ map (om_name \<circ> ob_meta) (filter (\<lambda>b. ob_phase b = PhaseNew \<or> (\<exists>p. ob_phase b = PhaseOther p)) items)"
  "bl_pending (fold record_build items st) = bl_pending st @ map (om_name \<circ> ob_meta) (filter (\<lambda>b. ob_phase b = PhasePending) items)"
  "bl_running (fold record_build items st) = bl_running st @ map (om_name \<circ> ob_meta) (filter (\<lambda>b. ob_phase b = PhaseRunning) items)"
  "bl_complete (fold record_build items st) = bl_complete st @ map (om_name \<circ> ob_meta) (filter (\<lambda>b. ob_phase b = PhaseComplete) items)"
  "bl_failed (fold record_build items st) = bl_failed st @ map (om_name \<circ> ob_meta) (filter (\<lambda>b. ob_phase b = PhaseFailed) items)"
  "bl_error (fold record_build items st) = bl_error st @ map (om_name \<circ> ob_meta) (filter (\<lambda>b. ob_phase b = PhaseError) items)"
  "bl_cancelled (fold record_build items st) = bl_cancelled st @ map (om_name \<circ> ob_meta) (filter (\<lambda>b. ob_phase b = PhaseCancelled) items)"
  by (induction items arbitrary: st) (auto simp: record_build_def Let_def split: build_phase.splits)

text \<open>The cluster after a number of attempts, and the outcome of the next one.\<close>

definition attempt :: "('w \<Rightarrow> (gerr + unit) \<times> 'w) \<Rightarrow> 'w \<Rightarrow> nat \<Rightarrow> (gerr + unit) \<times> 'w" where
  "attempt f w k = f (((\<lambda>w. snd (f w)) ^^ k) w)"

definition failing :: "(gerr + unit) \<times> 'w \<Rightarrow> bool" where
  "failing r \<longleftrightarrow> (case fst r of Inl e \<Rightarrow> True | Inr _ \<Rightarrow> False)"

lemma attempt_Suc: "attempt f w (Suc k) = attempt f (snd (f w)) k"
  by (simp add: attempt_def funpow_Suc_right del: funpow.simps)

lemma all_attempts_Suc:
  "list_all (\<lambda>j. failing (attempt f w j)) [0..<Suc n] \<longleftrightarrow>
     failing (f w) \<and> list_all (\<lambda>j. failing (attempt f (snd (f w)) j)) [0..<n]"
proof -
  have "[0..<Suc n] = 0 # map Suc [0..<n]" by (simp add: upt_conv_Cons map_Suc_upt)
  then show ?thesis
    by (simp add: list.pred_map comp_def attempt_Suc) (simp add: attempt_def)
qed

lemma wait_attempts_ok:
  "wait_attempts retries n f w = (Inr (), w') \<longleftrightarrow>
     (\<exists>k \<le> n. list_all (\<lambda>j. failing (attempt f w j)) [0..<k] \<and> attempt f w k = (Inr (), w'))"
proof (induction n arbitrary: w)
  case 0
  then show ?case by (subst wait_attempts.simps) (auto simp: attempt_def split: prod.splits sum.splits)
next
  case (Suc n)
  show ?case
  proof (cases "fst (f w)")
    case (Inr u)
    then have "wait_attempts retries (Suc n) f w = (Inr (), snd (f w))"
      by (subst wait_attempts.simps) (cases "f w"; simp)
    moreover have "\<not> list_all (\<lambda>j. failing (attempt f w j)) [0..<Suc k]" for k
      unfolding all_attempts_Suc using Inr by (simp add: failing_def)
    moreover have "attempt f w 0 = (Inr (), snd (f w))" using Inr by (cases "f w") (simp add: attempt_def)
    moreover have "(\<exists>k \<le> Suc n. list_all (\<lambda>j. failing (attempt f w j)) [0..<k] \<and> attempt f w k = (Inr (), w'))
        \<longleftrightarrow> attempt f w 0 = (Inr (), w')"
    proof
      assume "\<exists>k \<le> Suc n. list_all (\<lambda>j. failing (attempt f w j)) [0..<k] \<and> attempt f w k = (Inr (), w')"
      then obtain k where k: "list_all (\<lambda>j. failing (attempt f w j)) [0..<k]" "attempt f w k = (Inr (), w')" by blast
      with calculation(2) [of "k - 1"] have "k = 0" by (cases k) (simp_all del: upt_Suc)
      with k show "attempt f w 0 = (Inr (), w')" by simp
    qed (intro exI [of _ 0], simp)
    ultimately show ?thesis by (simp del: upt_Suc)
  next
    case (Inl e)
    then have "wait_attempts retries (Suc n) f w = wait_attempts retries n f (snd (f w))"
      by (subst wait_attempts.simps) (cases "f w"; simp)
    moreover have "failing (f w)" using Inl by (simp add: failing_def)
    moreover have "attempt f w 0 \<noteq> (Inr (), w')" using Inl by (auto simp: attempt_def)
    moreover have "(\<exists>k \<le> Suc n. P k) \<longleftrightarrow> P 0 \<or> (\<exists>k \<le> n. P (Suc k))" for P
      by (metis le_SucE le_zero_eq not0_implies_Suc Suc_le_mono zero_le)
    ultimately show ?thesis
      by (simp only: Suc.IH all_attempts_Suc attempt_Suc) auto
  qed
qed

lemma wait_attempts_err:
  "(\<exists>e. fst (wait_attempts retries n f w) = Inl e) \<longleftrightarrow> list_all (\<lambda>j. failing (attempt f w j)) [0..<Suc n]"
proof (induction n arbitrary: w)
  case 0
  then show ?case by (subst wait_attempts.simps) (auto simp: attempt_def failing_def split: prod.splits sum.splits)
next
  case (Suc n)
  then show ?case
    unfolding all_attempts_Suc [of f w "Suc n"]
    by (subst wait_attempts.simps) (auto simp: failing_def split: prod.splits sum.splits)
qed

lemma sort_key_newest:
  assumes "sort_key (\<lambda>x. - ob_created x) items = lb # rest"
  shows "lb \<in> set items \<and> Max (ob_created ` set items) = ob_created lb"
proof -
  have set: "set items = insert lb (set rest)" using arg_cong [OF assms, of set] by simp
  have "sorted (map (\<lambda>x. - ob_created x) (lb # rest))" unfolding assms [symmetric] by simp
  then have "\<forall>x \<in> set items. ob_created x \<le> ob_created lb" by (auto simp: set)
  then show ?thesis by (intro conjI Max_eqI) (auto simp: set)
qed

lemma status_change_latest:
  assumes "items \<noteq> []"
    and "be_listBuilds E (kb_namespace b) (''app='' @ GetApplicationName b @ '',buildType='' @ bs_type (kb_spec b)) w = Inr bs"
    and "sa_list (be_builds E) (kb_namespace b) [(''app'', GetApplicationName b), (''buildType'', bs_type (kb_spec b))] w = Inr items"
  shows "\<exists>lb. lb \<in> set items \<and> Max (ob_created ` set items) = ob_created lb
    \<and> status_change E b None w = map_build_conditions (addCondition (be_conditions E) lb)
      (map_bstatus (\<lambda>s. s\<lparr>bst_latestBuild := om_name (ob_meta lb)\<rparr>)
        (map_bstatus (\<lambda>s. s\<lparr>bst_builds := fold record_build bs empty_builds\<rparr>)
          (if bst_conditions (kb_status b) = None then map_bstatus (\<lambda>s. s\<lparr>bst_conditions := Some []\<rparr>) b else b)))"
proof -
  obtain lb rest where srt: "sort_key (\<lambda>x. - ob_created x) items = lb # rest"
    using assms(1) by (metis length_0_conv length_sort neq_Nil_conv)
  have frame: "kb_meta (map_bstatus f b) = kb_meta b" "GetApplicationName (map_bstatus f b) = GetApplicationName b"
    "kb_spec (map_bstatus f b) = kb_spec b" for f b
    by (simp_all add: map_bstatus_def GetApplicationName_def)
  have "status_change E b None w = map_build_conditions (addCondition (be_conditions E) lb)
      (map_bstatus (\<lambda>s. s\<lparr>bst_latestBuild := om_name (ob_meta lb)\<rparr>)
        (map_bstatus (\<lambda>s. s\<lparr>bst_builds := fold record_build bs empty_builds\<rparr>)
          (if bst_conditions (kb_status b) = None then map_bstatus (\<lambda>s. s\<lparr>bst_conditions := Some []\<rparr>) b else b)))"
    using assms(2,3)
    by (simp add: status_change_def build_handleConditionTransition_def updateBuildsStatus_def GetBuildsStatusByLabel_def
        ListWithNamespaceAndLabel_def frame srt)
  with sort_key_newest [OF srt] show ?thesis by blast
qed

lemma poll_invariant:
  assumes "\<And>s. P s \<Longrightarrow> P (snd (f s))" "P s"
  shows "P (snd (poll n f s))"
  using assms(2)
proof (induction n arbitrary: s)
  case (Suc n)
  obtain r s' where f: "f s = (r, s')" by fastforce
  with assms(1) [OF Suc.prems] Suc.IH show ?case by (auto split: sum.split)
qed simp

text \<open>What the API server promises of reads and writes by name: an object that is read has the name it was
  asked for, and an update leaves the objects of other names alone.\<close>

definition keyed_store :: "('w, 'o) store_api \<Rightarrow> bool" where
  "keyed_store A \<longleftrightarrow>
     (\<forall>ns n w x. sa_get A ns n w = Inr x \<longrightarrow> om_namespace (sa_meta A x) = ns \<and> om_name (sa_meta A x) = n) \<and>
     (\<forall>x w ns n. (ns, n) \<noteq> (om_namespace (sa_meta A x), om_name (sa_meta A x)) \<longrightarrow>
        sa_get A ns n (snd (sa_update A x w)) = sa_get A ns n w)"

lemma cancel_attempt_cases:
  "\<exists>x. snd (cancel_attempt E s) = (x, snd (sa_update (be_builds E) ((fst s)\<lparr>ob_cancelled := True\<rparr>) (snd s)))
     \<and> (x = (fst s)\<lparr>ob_cancelled := True\<rparr> \<or>
        sa_get (be_builds E) (om_namespace (ob_meta (fst s))) (om_name (ob_meta (fst s)))
          (snd (sa_update (be_builds E) ((fst s)\<lparr>ob_cancelled := True\<rparr>) (snd s))) = Inr x)"
proof -
  obtain r w1 where u: "sa_update (be_builds E) ((fst s)\<lparr>ob_cancelled := True\<rparr>) (snd s) = (r, w1)" by fastforce
  show ?thesis
  proof (cases "\<exists>m. r = Inl (ApiError SConflict m)")
    case True
    then show ?thesis
      by (cases "sa_get (be_builds E) (om_namespace (ob_meta (fst s))) (om_name (ob_meta (fst s))) w1")
        (auto simp: cancel_attempt_def u)
  next
    case False
    then show ?thesis by (cases r) (auto simp: cancel_attempt_def u Let_def split: gerr.splits api_status.splits)
  qed
qed

lemma cancel_build_other:
  assumes "keyed_store (be_builds E)" "sa_meta (be_builds E) = ob_meta"
    and "(ns, n) \<noteq> (om_namespace (ob_meta b), om_name (ob_meta b))"
  shows "sa_get (be_builds E) ns n (snd (cancel_build E b w)) = sa_get (be_builds E) ns n w"
proof -
  let ?A = "be_builds E"
  let ?P = "\<lambda>s. (om_namespace (ob_meta (fst s)), om_name (ob_meta (fst s))) = (om_namespace (ob_meta b), om_name (ob_meta b))
     \<and> sa_get ?A ns n (snd s) = sa_get ?A ns n w"
  have ks: "(ns', n') \<noteq> (om_namespace (ob_meta x), om_name (ob_meta x)) \<Longrightarrow>
      sa_get ?A ns' n' (snd (sa_update ?A x w')) = sa_get ?A ns' n' w'" for x w' ns' n'
    using assms(1) unfolding keyed_store_def assms(2) by blast
  have upd: "sa_get ?A ns n (snd (sa_update ?A x w')) = sa_get ?A ns n w'"
    if "(om_namespace (ob_meta x), om_name (ob_meta x)) = (om_namespace (ob_meta b), om_name (ob_meta b))" for x w'
    using ks assms(3) that by metis
  have get: "om_namespace (ob_meta x) = ns' \<and> om_name (ob_meta x) = n'" if "sa_get ?A ns' n' w' = Inr x" for ns' n' w' x
    using assms(1) that unfolding keyed_store_def assms(2) by blast
  have 1: "?P (snd (cancel_attempt E s))" if "?P s" for s
    using cancel_attempt_cases [of E s] that upd [of "(fst s)\<lparr>ob_cancelled := True\<rparr>" "snd s"] get by auto
  have 2: "?P (snd (cancelled_attempt E s))" if "?P s" for s
    using that by (auto simp: cancelled_attempt_def split: sum.split)
  obtain r s1 where p1: "poll (be_pollAttempts E) (cancel_attempt E) (b, w) = (r, s1)" by (metis surj_pair)
  have P1: "?P s1" using poll_invariant [of ?P "cancel_attempt E" "(b, w)" "be_pollAttempts E", OF 1] p1 by simp
  obtain r2 s2 where p2: "poll (be_pollAttempts E) (cancelled_attempt E) s1 = (r2, s2)" by (metis surj_pair)
  have P2: "?P s2" using poll_invariant [of ?P "cancelled_attempt E" s1 "be_pollAttempts E", OF 2] p2 P1 by simp
  have "snd (cancel_build E b w) = snd s1 \<or> snd (cancel_build E b w) = snd s2"
    using p2 by (cases r) (simp_all add: cancel_build_def bindS_def p1)
  with P1 P2 show ?thesis by auto
qed

lemma cancel_loop_first:
  "list_all (\<lambda>b. \<not> in_progress b) done \<Longrightarrow> in_progress b \<Longrightarrow> cancel_loop E (done @ b # rest) w = cancel_build E b w"
  by (induction "done") auto

text \<open>What the API server promises of a write that succeeds: the object can be read under its name, with the
  tags that were sent.\<close>

definition stores_tags :: "('w, image_stream) store_api \<Rightarrow> bool" where
  "stores_tags A \<longleftrightarrow> sa_meta A = is_meta \<and>
     (\<forall>x y w w'. sa_create A x w = (Inr y, w') \<or> sa_update A x w = (Inr y, w') \<longrightarrow>
        sa_get A (om_namespace (is_meta x)) (om_name (is_meta x)) w' = Inr y \<and> is_tags y = is_tags x)"

lemma createRequired_settled:
  assumes "sa_meta (ic_imageStreams (be_images E)) = is_meta"
    and "sa_get (ic_imageStreams (be_images E)) (om_namespace (is_meta req)) (om_name (is_meta req)) w = Inr s"
    and "list_ex (\<lambda>t. tg_name t = tg_name (is_tags req ! 0)) (is_tags s)"
  shows "createRequiredKogitoImageStreamTag E req w = (Inr False, w)"
  using assms by (simp add: createRequiredKogitoImageStreamTag_def Fetch_def FetchWithKey_def mk_meta_def Let_def)

lemma list_ex_first: "xs \<noteq> [] \<Longrightarrow> list_ex (\<lambda>t. tg_name t = tg_name (xs ! 0)) (ys @ xs)"
  by (cases xs) simp_all

lemma status_change_failed_reason:
  assumes "cond_laws (be_conditions E)"
  shows "cond_reason_of (be_conditions E) (build_conditions (status_change E b None w)) ''Failed''
    \<in> {cond_reason_of (be_conditions E) (build_conditions b) ''Failed'', Some ''Failed'', Some ''Cancelled''}"
proof -
  let ?C = "be_conditions E"
  have add: "cond_reason_of ?C (addCondition ?C lb cs) ''Failed'' \<in> {cond_reason_of ?C cs ''Failed'', Some ''Failed'', Some ''Cancelled''}" for lb cs
    by (cases "ob_phase lb") (simp_all add: addCondition_def build_condition_defs cond_setters [OF assms] Let_def)
  have run: "cond_reason_of ?C (setRunningConditions ?C r cs) ''Failed'' = cond_reason_of ?C cs ''Failed''" for r cs
    by (simp add: build_condition_defs cond_setters [OF assms])
  have b0: "build_conditions (if bst_conditions (kb_status b) = None then map_bstatus (\<lambda>s. s\<lparr>bst_conditions := Some []\<rparr>) b else b) = build_conditions b"
    by (simp add: build_conditions_def map_bstatus_def)
  have "build_conditions (snd (build_handleConditionTransition E c w)) = build_conditions c
      \<or> (\<exists>lb. build_conditions (snd (build_handleConditionTransition E c w)) = addCondition ?C lb (build_conditions c))
      \<or> (\<exists>r. build_conditions (snd (build_handleConditionTransition E c w)) = setRunningConditions ?C r (build_conditions c))" for c
    by (auto simp: build_handleConditionTransition_def updateBuildsStatus_def bindR_eq_Inr split: sum.split list.split)
  from this [of "if bst_conditions (kb_status b) = None then map_bstatus (\<lambda>s. s\<lparr>bst_conditions := Some []\<rparr>) b else b"]
  show ?thesis
    unfolding status_change_def Let_def option.case(1) b0 
    by (elim disjE exE) (simp_all only: add run insertI1)
qed

lemma with_build_defaults_status: "kb_status (with_build_defaults b) = kb_status b" "kb_status (setDefaults b) = kb_status b"
  by (simp_all add: with_build_defaults_def setDefaults_def map_bspec_def Let_def)

lemma reconcile_build_conditions: "reconcile_build E b w = (r, b', w') \<Longrightarrow> build_conditions b' = build_conditions b"
  by (auto simp: reconcile_build_def NewDeltaProcessor_def build_conditions_def with_build_defaults_status Let_def
      split: prod.splits sum.splits if_splits)

section \<open>Properties\<close>

text \<open>C33: waiting for a build configuration ends.  The loop makes at most the given number of attempts and at
  least one; it succeeds with the first successful attempt and stops there, and fails exactly when all of
  them fail.\<close>

theorem waitForBuildConfig_attempts:
  "(waitForBuildConfig retries f w = (Inr (), w') \<longleftrightarrow>
      (\<exists>k < max 1 (nat retries). list_all (\<lambda>j. failing (attempt f w j)) [0..<k] \<and> attempt f w k = (Inr (), w')))
   \<and> ((\<exists>e. fst (waitForBuildConfig retries f w) = Inl e) \<longleftrightarrow>
        list_all (\<lambda>j. failing (attempt f w j)) [0..<max 1 (nat retries)])"
proof -
  have m: "max 1 (nat retries) = Suc (nat (retries - 1))" by linarith
  show ?thesis
    unfolding m waitForBuildConfig_def wait_attempts_ok wait_attempts_err by (simp add: less_Suc_eq_le del: upt_Suc)
qed

text \<open>C31: the conditions of a build follow its newest build.  When the builds of an instance can be read and
  there are some, the newest of them is recorded; the conditions Running and Successful are those of its
  phase, and an error phase or an unknown phase leaves them as they were.  The condition Failed is set by
  a failed or cancelled build and is never reset: a later successful build leaves it true.\<close>

theorem build_conditions_follow_latest:
  assumes "cond_laws (be_conditions E)" "items \<noteq> []"
    and "be_listBuilds E (kb_namespace b) (''app='' @ GetApplicationName b @ '',buildType='' @ bs_type (kb_spec b)) w = Inr bs"
    and "sa_list (be_builds E) (kb_namespace b) [(''app'', GetApplicationName b), (''buildType'', bs_type (kb_spec b))] w = Inr items"
  shows "\<exists>lb. lb \<in> set items \<and> Max (ob_created ` set items) = ob_created lb
     \<and> bst_latestBuild (kb_status (status_change E b None w)) = om_name (ob_meta lb)
     \<and> bst_builds (kb_status (status_change E b None w)) = fold record_build bs empty_builds
     \<and> cond_status_of (be_conditions E) (build_conditions (status_change E b None w)) ''Running'' =
         (if in_progress lb then Some CTrue
          else if ob_phase lb \<in> {PhaseComplete, PhaseFailed, PhaseCancelled} then Some CFalse
          else cond_status_of (be_conditions E) (build_conditions b) ''Running'')
     \<and> cond_status_of (be_conditions E) (build_conditions (status_change E b None w)) ''Successful'' =
         (if ob_phase lb = PhaseComplete then Some CTrue
          else if in_progress lb \<or> ob_phase lb \<in> {PhaseFailed, PhaseCancelled} then Some CFalse
          else cond_status_of (be_conditions E) (build_conditions b) ''Successful'')
     \<and> cond_status_of (be_conditions E) (build_conditions (status_change E b None w)) ''Failed'' =
         (if ob_phase lb \<in> {PhaseFailed, PhaseCancelled} then Some CTrue
          else cond_status_of (be_conditions E) (build_conditions b) ''Failed'')"
proof -
  obtain lb where lb: "lb \<in> set items" "Max (ob_created ` set items) = ob_created lb" and
    ch: "status_change E b None w = map_build_conditions (addCondition (be_conditions E) lb)
      (map_bstatus (\<lambda>s. s\<lparr>bst_latestBuild := om_name (ob_meta lb)\<rparr>)
        (map_bstatus (\<lambda>s. s\<lparr>bst_builds := fold record_build bs empty_builds\<rparr>)
          (if bst_conditions (kb_status b) = None then map_bstatus (\<lambda>s. s\<lparr>bst_conditions := Some []\<rparr>) b else b)))"
    using status_change_latest [OF assms(2-4)] by blast
  have "build_conditions (if bst_conditions (kb_status b) = None then map_bstatus (\<lambda>s. s\<lparr>bst_conditions := Some []\<rparr>) b else b) = build_conditions b"
    by (simp add: build_conditions_def map_bstatus_def)
  then have cs: "build_conditions (status_change E b None w) = addCondition (be_conditions E) lb (build_conditions b)"
    by (simp add: ch)
  have "bst_latestBuild (kb_status (status_change E b None w)) = om_name (ob_meta lb)"
    "bst_builds (kb_status (status_change E b None w)) = fold record_build bs empty_builds"
    by (simp_all add: ch map_build_conditions_def map_bstatus_def)
  with lb show ?thesis
    by (intro exI [of _ lb])
      (cases "ob_phase lb"; simp add: cs addCondition_def build_condition_defs cond_setters [OF assms(1)] in_progress_def Let_def)
qed

text \<open>Starting a new build cancels one build in progress.  The loop over the builds of a configuration
  returns after the first build in progress: every later build in progress is left as it was, although
  cancelling all of them is announced.\<close>

theorem cancelRunningBuilds_first_only:
  assumes "keyed_store (be_builds E)" "sa_meta (be_builds E) = ob_meta"
    and "be_listBuilds E (om_namespace (bc_meta bc)) (''buildconfig='' @ om_name (bc_meta bc)) w = Inr (finished @ b # rest)"
    and "list_all (\<lambda>b. \<not> in_progress b) finished" "in_progress b"
    and "b' \<in> set rest" "om_name (ob_meta b') \<noteq> om_name (ob_meta b)"
  shows "sa_get (be_builds E) (om_namespace (ob_meta b')) (om_name (ob_meta b')) (snd (cancelRunningBuilds E bc w)) =
    sa_get (be_builds E) (om_namespace (ob_meta b')) (om_name (ob_meta b')) w"
proof -
  have "cancelRunningBuilds E bc w = cancel_build E b w"
    using assms(3) cancel_loop_first [OF assms(4,5)] by (simp add: cancelRunningBuilds_def)
  then show ?thesis
    using cancel_build_other [OF assms(1,2), of "om_namespace (ob_meta b')" "om_name (ob_meta b')" b w] assms(7) by simp
qed

text \<open>Providing the image streams of a build settles.  Once a call for a required tag succeeded, be it that
  the tag was there, that it was added to the stream or that the stream was created, the next call finds
  the tag and changes nothing.\<close>

theorem createRequiredKogitoImageStreamTag_settles:
  assumes "stores_tags (ic_imageStreams (be_images E))" "keyed_store (ic_imageStreams (be_images E))"
    and "is_tags req \<noteq> []" "createRequiredKogitoImageStreamTag E req w = (Inr created, w')"
  shows "createRequiredKogitoImageStreamTag E req w' = (Inr False, w')"
proof -
  let ?A = "ic_imageStreams (be_images E)" and ?ns = "om_namespace (is_meta req)" and ?n = "om_name (is_meta req)"
  have meta: "sa_meta ?A = is_meta" using assms(1) by (simp add: stores_tags_def)
  have create: "sa_get ?A (om_namespace (is_meta x)) (om_name (is_meta x)) v' = Inr y \<and> is_tags y = is_tags x"
    if "sa_create ?A x v = (Inr y, v') \<or> sa_update ?A x v = (Inr y, v')" for x y v v'
    using assms(1) that unfolding stores_tags_def by blast
  have key: "om_namespace (is_meta x) = ns \<and> om_name (is_meta x) = n" if "sa_get ?A ns n v = Inr x" for ns n v x
    using assms(2) that unfolding keyed_store_def meta by blast
  have "\<exists>s. sa_get ?A ?ns ?n w' = Inr s \<and> list_ex (\<lambda>t. tg_name t = tg_name (is_tags req ! 0)) (is_tags s)"
  proof (cases "sa_get ?A ?ns ?n w")
    case (Inr s)
    with assms(4) key [OF Inr] show ?thesis
      using create [of _ w] list_ex_first [OF assms(3)]
      by (fastforce simp: createRequiredKogitoImageStreamTag_def Fetch_def FetchWithKey_def mk_meta_def meta Let_def bindS_eq_Inr
          Update_def split: if_splits)
  next
    case (Inl e)
    with assms(4) show ?thesis
      using create list_ex_first [OF assms(3), of "[]"]
      by (fastforce simp: createRequiredKogitoImageStreamTag_def Fetch_def FetchWithKey_def mk_meta_def meta Let_def bindS_eq_Inr
          Update_def Create_def split: if_splits prod.splits sum.splits)
  qed
  then show ?thesis using createRequired_settled [OF meta] by blast
qed

text \<open>A failed reconciliation of a build is not recorded in its status.  The deferred status update was given
  the error of the moment it was deferred, which is nil; so when the reconciliation fails, the instance that
  is written has no condition with the reason of an operator failure, unless it had one before.\<close>

theorem build_failure_not_recorded:
  assumes "be_fetchKogitoBuild E ns n w = Inr (Some b)" "reconcile_build E b w = ((r, Some e), b', w')"
    and "cond_laws (be_conditions E)"
    and "cond_reason_of (be_conditions E) (build_conditions b) ''Failed'' \<noteq> Some ''OperatorFailure''"
  shows "\<exists>written. build_Reconcile E ns n w = ((r, Some e), snd (UpdateStatus (be_kogitoBuilds E) written w'))
     \<and> cond_reason_of (be_conditions E) (build_conditions written) ''Failed'' \<noteq> Some ''OperatorFailure''"
proof -
  have "build_Reconcile E ns n w = ((r, Some e), snd (UpdateStatus (be_kogitoBuilds E) (status_change E b' None w') w'))"
    using assms(1,2) by (simp add: build_Reconcile_def HandleStatusChange_def)
  moreover have "cond_reason_of (be_conditions E) (build_conditions (status_change E b' None w')) ''Failed'' \<noteq> Some ''OperatorFailure''"
    using status_change_failed_reason [OF assms(3), of b' w'] reconcile_build_conditions [OF assms(2)] assms(4) by auto
  ultimately show ?thesis by blast
qed

section \<open>Concrete instances\<close>

record mem_build_world =
  mb_builds :: "os_build list"
  mb_streams :: "image_stream list"
  mb_kogitoBuilds :: "kogito_build list"

definition mem_streams :: "(mem_build_world, image_stream) store_api" where
  "mem_streams = lens_api mb_streams (\<lambda>x w. w\<lparr>mb_streams := x\<rparr>) (mem_api is_meta)"

definition sample_build_env :: "(mem_build_world, image_stream) store_api \<Rightarrow> mem_build_world build_env" where
  "sample_build_env A = \<lparr>
     be_images = \<lparr>ic_isOpenshift = True, ic_imageStreams = A, ic_getTag = (\<lambda>ns n w. Inl (ApiError SNotFound n)),
       ic_createTag = (\<lambda>t w. (Inr t, w)), ic_createStream = sa_create A, ic_listOwned = (\<lambda>o' w. Inr []),
       ic_unmarshal = (\<lambda>s. Inr \<lparr>di_labels = None\<rparr>), ic_tagsEqual = (=)\<rparr>,
     be_context = sample_context, be_conditions = list_cond_api, be_quantities = sample_quantities, be_spare = 0,
     be_configLib = mem_delta_lib (\<lambda>c. om_name (bc_meta c)) (\<lambda>_. []) (\<lambda>_ w. w),
     be_streamLib = mem_delta_lib (\<lambda>c. om_name (is_meta c)) mb_streams (\<lambda>x w. w\<lparr>mb_streams := x\<rparr>),
     be_configsFirst = True, be_listOwned = (\<lambda>ns o' w. Inr ([], [])),
     be_getConfig = (\<lambda>ns n w. Inl (ApiError SNotFound n)),
     be_instantiate = (\<lambda>ns n r w. (Inl (PlainError ''none''), w)),
     be_listBuilds = (\<lambda>ns sel w. Inr (mb_builds w)),
     be_builds = lens_api mb_builds (\<lambda>x w. w\<lparr>mb_builds := x\<rparr>) (mem_api ob_meta),
     be_kogitoBuilds = lens_api mb_kogitoBuilds (\<lambda>x w. w\<lparr>mb_kogitoBuilds := x\<rparr>) (mem_api kb_meta),
     be_fetchKogitoBuild = (\<lambda>ns n w. Inr (Some sample_build)), be_pollAttempts = 2\<rparr>"

definition sample_os_build :: "string \<Rightarrow> build_phase \<Rightarrow> int \<Rightarrow> os_build" where
  "sample_os_build n ph t = \<lparr>ob_meta = (mk_meta n ''ns'')\<lparr>om_labels := [(''app'', ''app''), (''buildType'', ''LocalSource'')]\<rparr>,
     ob_phase = ph, ob_message = [], ob_cancelled = False, ob_created = t\<rparr>"

definition sample_build_world :: mem_build_world where
  "sample_build_world = \<lparr>mb_builds = [sample_os_build ''a'' PhaseRunning 1, sample_os_build ''b'' PhaseRunning 2], mb_streams = [],
     mb_kogitoBuilds = [sample_build]\<rparr>"

lemma find_map_other:
  assumes "(ns, n) \<noteq> (ns', n')" "same_key meta ns' n' x"
  shows "find (same_key meta ns n) (map (\<lambda>y. if same_key meta ns' n' y then x else y) xs) = find (same_key meta ns n) xs"
  using assms by (induction xs) (auto simp: same_key_def)

lemma keyed_store_mem:
  assumes "\<And>x w. g (p x w) = x"
  shows "keyed_store (lens_api g p (mem_api meta))"
proof -
  have "sa_get (mem_api meta) ns n w = Inr x \<Longrightarrow> om_namespace (meta x) = ns \<and> om_name (meta x) = n" for ns n w x
    by (auto simp: mem_get_def same_key_def find_Some_iff split: option.splits)
  moreover have "(ns, n) \<noteq> (om_namespace (meta x), om_name (meta x)) \<Longrightarrow>
      sa_get (mem_api meta) ns n (snd (sa_update (mem_api meta) x w)) = sa_get (mem_api meta) ns n w" for x w ns n
    using find_map_other [of ns n "om_namespace (meta x)" "om_name (meta x)" meta x w]
    by (simp add: mem_get_def mem_update_def Let_def same_key_def [of meta _ _ x])
  moreover have "snd (case m of (r, y) \<Rightarrow> (r, p y w)) = p (snd m) w" for m :: "(gerr + 'a) \<times> 'a list" and w by (cases m) simp
  ultimately show ?thesis unfolding keyed_store_def by (simp add: assms)
qed

lemma build_conditions_follow_latest_witness:
  "bst_latestBuild (kb_status (status_change (sample_build_env mem_streams) sample_build None sample_build_world)) = ''b''"
proof -
  have b: "kb_namespace sample_build = ''ns''" "GetApplicationName sample_build = ''app''" "bs_type (kb_spec sample_build) = ''LocalSource''"
    by (simp_all add: sample_build_def mk_meta_def GetApplicationName_def)
  let ?items = "mb_builds sample_build_world"
  have l: "sa_list (be_builds (sample_build_env mem_streams)) ''ns'' [(''app'', ''app''), (''buildType'', ''LocalSource'')] sample_build_world = Inr ?items"
    by (simp add: sample_build_env_def mem_list_def sample_build_world_def sample_os_build_def mk_meta_def)
  have "cond_laws (be_conditions (sample_build_env mem_streams))" by (simp add: sample_build_env_def list_cond_laws)
  moreover have "?items \<noteq> []" by (simp add: sample_build_world_def)
  moreover have "be_listBuilds (sample_build_env mem_streams) ns sel sample_build_world = Inr ?items" for ns sel
    by (simp add: sample_build_env_def)
  ultimately obtain lb where "lb \<in> set ?items" "Max (ob_created ` set ?items) = ob_created lb"
    "bst_latestBuild (kb_status (status_change (sample_build_env mem_streams) sample_build None sample_build_world)) = om_name (ob_meta lb)"
    using build_conditions_follow_latest [of "sample_build_env mem_streams" ?items sample_build sample_build_world ?items] b l by auto
  then show ?thesis by (auto simp: sample_build_world_def sample_os_build_def mk_meta_def)
qed

lemma cancelRunningBuilds_first_only_witness:
  "sa_get (be_builds (sample_build_env mem_streams)) ''ns'' ''b''
     (snd (cancelRunningBuilds (sample_build_env mem_streams) (basic_build_config sample_context sample_build) sample_build_world)) =
   Inr (sample_os_build ''b'' PhaseRunning 2)"
proof -
  let ?E = "sample_build_env mem_streams"
  have k: "keyed_store (be_builds ?E)" "sa_meta (be_builds ?E) = ob_meta"
    by (simp_all add: sample_build_env_def keyed_store_mem)
  have "be_listBuilds ?E ns sel sample_build_world = Inr ([] @ sample_os_build ''a'' PhaseRunning 1 # [sample_os_build ''b'' PhaseRunning 2])" for ns sel
    by (simp add: sample_build_env_def sample_build_world_def)
  from cancelRunningBuilds_first_only [OF k this, of "sample_os_build ''b'' PhaseRunning 2"] show ?thesis
    by (simp add: sample_os_build_def mk_meta_def in_progress_def) (simp add: sample_build_env_def sample_build_world_def mem_get_def
        same_key_def sample_os_build_def mk_meta_def)
qed

lemma stores_tags_mem: "stores_tags mem_streams"
proof -
  have "sa_create (mem_api is_meta) x v = (Inr y, v') \<or> sa_update (mem_api is_meta) x v = (Inr y, v') \<Longrightarrow>
      sa_get (mem_api is_meta) (om_namespace (is_meta x)) (om_name (is_meta x)) v' = Inr y \<and> is_tags y = is_tags x" for x y v v'
  proof -
    let ?p = "same_key is_meta (om_namespace (is_meta x)) (om_name (is_meta x))"
    have px: "?p x" by (simp add: same_key_def)
    have "find ?p v \<noteq> None \<Longrightarrow> find ?p (map (\<lambda>y. if ?p y then x else y) v) = Some x"
      using px by (induction v) auto
    then show "sa_create (mem_api is_meta) x v = (Inr y, v') \<or> sa_update (mem_api is_meta) x v = (Inr y, v') \<Longrightarrow>
      sa_get (mem_api is_meta) (om_namespace (is_meta x)) (om_name (is_meta x)) v' = Inr y \<and> is_tags y = is_tags x"
      using px by (auto simp: mem_create_def mem_update_def mem_get_def Let_def split: if_splits)
  qed
  note law = this
  have "sa_create mem_streams x w = (Inr y, w') \<or> sa_update mem_streams x w = (Inr y, w') \<Longrightarrow>
      sa_get mem_streams (om_namespace (is_meta x)) (om_name (is_meta x)) w' = Inr y \<and> is_tags y = is_tags x" for x y w w'
    using law [of x "mb_streams w" y "mb_streams w'"] by (auto simp: mem_streams_def split: prod.splits)
  then show ?thesis by (auto simp: stores_tags_def mem_streams_def)
qed

lemma createRequiredKogitoImageStreamTag_settles_witness:
  "\<exists>w'. createRequiredKogitoImageStreamTag (sample_build_env mem_streams) sample_stream sample_build_world = (Inr True, w')
     \<and> createRequiredKogitoImageStreamTag (sample_build_env mem_streams) sample_stream w' = (Inr False, w')"
proof -
  let ?E = "sample_build_env mem_streams"
  have A: "ic_imageStreams (be_images ?E) = mem_streams" by (simp add: sample_build_env_def)
  obtain w' where c: "createRequiredKogitoImageStreamTag ?E sample_stream sample_build_world = (Inr True, w')"
    unfolding createRequiredKogitoImageStreamTag_def A
    by (simp add: mem_streams_def Fetch_def FetchWithKey_def Create_def mem_simps sample_build_world_def Let_def)
  have "keyed_store mem_streams" by (simp add: mem_streams_def keyed_store_mem)
  moreover have "is_tags sample_stream \<noteq> []" by (simp add: sample_stream_def)
  ultimately show ?thesis
    using createRequiredKogitoImageStreamTag_settles [of ?E sample_stream sample_build_world True w'] c stores_tags_mem A by auto
qed

lemma build_failure_not_recorded_witness:
  "\<exists>r e w' written. build_Reconcile (sample_build_env (mem_streams\<lparr>sa_get := (\<lambda>ns n w. Inl (PlainError ''down''))\<rparr>)) ''ns'' ''app'' sample_build_world =
       ((r, Some e), snd (UpdateStatus (be_kogitoBuilds (sample_build_env mem_streams)) written w'))
     \<and> cond_reason_of list_cond_api (build_conditions written) ''Failed'' \<noteq> Some ''OperatorFailure''"
proof -
  let ?E = "sample_build_env (mem_streams\<lparr>sa_get := (\<lambda>ns n w. Inl (PlainError ''down''))\<rparr>)"
  have f: "be_fetchKogitoBuild ?E ''ns'' ''app'' sample_build_world = Inr (Some sample_build)" by (simp add: sample_build_env_def)
  obtain r e b' w' where r: "reconcile_build ?E sample_build sample_build_world = ((r, Some e), b', w')"
    by (simp add: reconcile_build_def CreateRequiredKogitoImageStreams_def createRequiredKogitoImageStreamTag_def Fetch_def
        FetchWithKey_def sample_build_env_def Let_def bindS_def)
  have c: "cond_laws (be_conditions ?E)" "be_conditions ?E = list_cond_api" "be_kogitoBuilds ?E = be_kogitoBuilds (sample_build_env mem_streams)"
    by (simp_all add: sample_build_env_def list_cond_laws)
  have "cond_reason_of (be_conditions ?E) (build_conditions sample_build) ''Failed'' \<noteq> Some ''OperatorFailure''"
    by (simp add: c cond_reason_of_def build_conditions_def sample_build_def)
  from build_failure_not_recorded [OF f r c(1) this] show ?thesis unfolding c by blast
qed

end
