(* ===== verification/Supporting_Service.thy ===== *)
theory Supporting_Service
  imports Kogito_Runtime
begin

text \<open>
  KogitoSupportingService: the config map that publishes the address of a service, one reconciler per type of service
  (\<^verbatim>\<open>core/kogitosupportingservice\<close>), and the controller that allows one service of a type in a namespace
  (\<^verbatim>\<open>controllers/common/supportingservice_controller.go\<close>).
\<close>

section \<open>The endpoint config map, endpointconfigmap\_reconciler.go\<close>

definition createEndPointConfigMap :: "'w controller_env \<Rightarrow> kogito_service \<Rightarrow> string \<Rightarrow> string \<Rightarrow> gerr + configmap" where
  "createEndPointConfigMap E inst httpEnv wsEnv =
     bindR (GetKogitoServiceEndpoints (ce_parseURL E) (ce_context E) inst httpEnv wsEnv) (\<lambda>ep.
       let data = smap_put (se_HTTPRouteEnv ep) (se_HTTPRouteURI ep) [];
           data = (if se_WSRouteEnv ep \<noteq> [] then smap_put (se_WSRouteEnv ep) (se_WSRouteURI ep) data else data)
       in Inr \<lparr>cm_meta = (mk_meta (GetEndPointConfigMapName (ks_name inst)) (ks_namespace inst))\<lparr>om_labels := [(''app'', ks_name inst)]\<rparr>,
               cm_data = data, cm_binaryData = []\<rparr>)"

definition endpoint_createRequiredResources :: "'w controller_env \<Rightarrow> kogito_service \<Rightarrow> string \<Rightarrow> string \<Rightarrow> 'w \<Rightarrow> gerr + configmap list" where
  "endpoint_createRequiredResources E inst httpEnv wsEnv w =
     bindR (createEndPointConfigMap E inst httpEnv wsEnv) (\<lambda>cm.
     bindR (own_object (ce_context E) (ks_meta inst) cm_meta (\<lambda>m c. c\<lparr>cm_meta := m\<rparr>) cm) (\<lambda>cm. Inr [cm]))"

definition endpoint_getDeployedResources :: "'w controller_env \<Rightarrow> kogito_service \<Rightarrow> 'w \<Rightarrow> gerr + configmap list" where
  "endpoint_getDeployedResources E inst w =
     bindR (FetchConfigMap (cl_configMaps (ce_cluster E)) (ks_namespace inst) (GetEndPointConfigMapName (ks_name inst)) w) (\<lambda>cm.
       Inr (case cm of None \<Rightarrow> [] | Some c \<Rightarrow> [c]))"

definition endpoint_resources :: "'w controller_env \<Rightarrow> kogito_service \<Rightarrow> string \<Rightarrow> string \<Rightarrow> 'w \<Rightarrow> (gerr + bool) \<times> 'w" where
  "endpoint_resources E inst httpEnv wsEnv w =
     (case endpoint_createRequiredResources E inst httpEnv wsEnv w of
        Inl e \<Rightarrow> (Inl e, w)
      | Inr req \<Rightarrow> (case endpoint_getDeployedResources E inst w of
            Inl e \<Rightarrow> (Inl e, w)
          | Inr dep \<Rightarrow> process_resources (de_configMapLib (ce_deploy E)) configMap_GetComparator req dep w))"

definition endpoint_Reconcile :: "'w controller_env \<Rightarrow> kogito_service \<Rightarrow> string \<Rightarrow> string \<Rightarrow> 'w \<Rightarrow> (gerr + unit) \<times> 'w" where
  "endpoint_Reconcile E inst httpEnv wsEnv = bindS (endpoint_resources E inst httpEnv wsEnv) (\<lambda>_. returnS ())"

interpretation ep: resource_reconciler "de_configMapLib (ce_deploy E)" configMap_GetComparator "endpoint_createRequiredResources E inst httpEnv wsEnv"
  "endpoint_getDeployedResources E inst" "endpoint_resources E inst httpEnv wsEnv" for E inst httpEnv wsEnv
  by unfold_locales (simp add: endpoint_resources_def)

section \<open>One reconciler per type\<close>

definition dataIndex_Reconcile :: "'w controller_env \<Rightarrow> kogito_service \<Rightarrow> 'w \<Rightarrow> (gerr + unit) \<times> 'w" where
  "dataIndex_Reconcile E inst =
     bindS (deploy_call E inst ((definition_for inst ''kogito-data-index-infinispan'')\<lparr>
              sd_onDeploymentCreate := Some (MountAllProtoBufConfigMapOnDataIndexDeployment E)\<rparr>)) (\<lambda>_.
     bindS (endpoint_Reconcile E inst ''KOGITO_DATAINDEX_HTTP_URL'' ''KOGITO_DATAINDEX_WS_URL'') (\<lambda>_.
     bindS (InjectDataIndexEndPointOnKogitoRuntimeServices (ce_cluster E) (ks_namespace inst) (ks_name inst)) (\<lambda>_.
       InjectDataIndexURLIntoSupportingService (ce_cluster E) (ce_supporting E) (ks_namespace inst) (ks_name inst) [MgmtConsole])))"

definition explainability_Reconcile :: "'w controller_env \<Rightarrow> kogito_service \<Rightarrow> 'w \<Rightarrow> (gerr + unit) \<times> 'w" where
  "explainability_Reconcile E inst = deploy_call E inst (definition_for inst ''kogito-explainability'')"

definition jobsService_Reconcile :: "'w controller_env \<Rightarrow> kogito_service \<Rightarrow> 'w \<Rightarrow> (gerr + unit) \<times> 'w" where
  "jobsService_Reconcile E inst =
     bindS (deploy_call E inst ((definition_for inst ''kogito-jobs-service-ephemeral'')\<lparr>sd_singleReplica := True\<rparr>)) (\<lambda>_.
     bindS (endpoint_Reconcile E inst ''KOGITO_JOBS_SERVICE_URL'' []) (\<lambda>_.
       InjectJobsServicesEndPointOnKogitoRuntimeServices (ce_cluster E) (ks_namespace inst) (ks_name inst)))"

definition mgmtConsole_Reconcile :: "'w controller_env \<Rightarrow> kogito_service \<Rightarrow> 'w \<Rightarrow> (gerr + unit) \<times> 'w" where
  "mgmtConsole_Reconcile E inst =
     deploy_call E inst ((definition_for inst ''kogito-management-console'')\<lparr>
       sd_onDeploymentCreate := Some (InjectDataIndexEndpointOnDeployment (ce_cluster E) (ce_supporting E))\<rparr>)"

definition taskConsole_Reconcile :: "'w controller_env \<Rightarrow> kogito_service \<Rightarrow> 'w \<Rightarrow> (gerr + unit) \<times> 'w" where
  "taskConsole_Reconcile E inst =
     deploy_call E inst ((definition_for inst ''kogito-task-console'')\<lparr>
       sd_onDeploymentCreate := Some (InjectDataIndexEndpointOnDeployment (ce_cluster E) (ce_supporting E))\<rparr>)"

definition trustyAI_Reconcile :: "'w controller_env \<Rightarrow> kogito_service \<Rightarrow> 'w \<Rightarrow> (gerr + unit) \<times> 'w" where
  "trustyAI_Reconcile E inst =
     bindS (deploy_call E inst (definition_for inst ''kogito-trusty-infinispan'')) (\<lambda>_.
     bindS (endpoint_Reconcile E inst ''KOGITO_TRUSTY_ENDPOINT'' ''KOGITO_TRUSTY_WS_URL'') (\<lambda>_.
       InjectTrustyEndpointOnKogitoRuntimeServices (ce_cluster E) (ks_namespace inst) (ks_name inst)))"

definition trustyUI_Reconcile :: "'w controller_env \<Rightarrow> kogito_service \<Rightarrow> 'w \<Rightarrow> (gerr + unit) \<times> 'w" where
  "trustyUI_Reconcile E inst =
     deploy_call E inst ((definition_for inst ''kogito-trusty-ui'')\<lparr>
       sd_onDeploymentCreate := Some (InjectTrustyEndpointOnDeployment (ce_cluster E) (ce_supporting E))\<rparr>)"

section \<open>Choice and controller\<close>

definition supporting_getSupportedResources :: "'w controller_env \<Rightarrow> (string \<times> (kogito_service \<Rightarrow> 'w \<Rightarrow> (gerr + unit) \<times> 'w)) list" where
  "supporting_getSupportedResources E =
     [(DataIndex, dataIndex_Reconcile E), (Explainability, explainability_Reconcile E), (JobsService, jobsService_Reconcile E),
      (MgmtConsole, mgmtConsole_Reconcile E), (TaskConsole, taskConsole_Reconcile E), (TrustyAI, trustyAI_Reconcile E),
      (TrustyUI, trustyUI_Reconcile E)]"

text \<open>A type that is not in the map gives the nil interface, on which the controller calls \<^verbatim>\<open>Reconcile\<close>.\<close>

definition GetSupportingServiceReconciler :: "'w controller_env \<Rightarrow> supporting_service \<Rightarrow> 'w \<Rightarrow> (gerr + unit) \<times> 'w" where
  "GetSupportingServiceReconciler E s =
     (case map_of (supporting_getSupportedResources E) (sup_type s) of
        None \<Rightarrow> failS (Panic ''nil pointer dereference'')
      | Some reconcile \<Rightarrow> reconcile (sup_service s))"

definition supporting_Reconcile ::
  "'w controller_env \<Rightarrow> string \<Rightarrow> string \<Rightarrow> 'w \<Rightarrow> (gerr + ctrl_result \<times> gerr option) \<times> 'w" where
  "supporting_Reconcile E namespace name w =
     (case FetchKogitoSupportingService (ce_supporting E) namespace name w of
        Inl e \<Rightarrow> (Inr (no_requeue, Some e), w)
      | Inr None \<Rightarrow> (Inr (no_requeue, None), w)
      | Inr (Some s) \<Rightarrow>
          (case EnsureSingletonService (ce_supporting E) namespace (sup_type s) w of
             Some e \<Rightarrow> (Inr (no_requeue, Some e), w)
           | None \<Rightarrow> answer (GetSupportingServiceReconciler E s w)))"

section \<open>Properties\<close>


text \<open>A controller over the cluster in memory with the given supporting services.\<close>

definition sample_controller :: "supporting_service list \<Rightarrow> mem_world controller_env" where
  "sample_controller services =
     \<lparr>ce_deploy = sample_env, ce_runtimes = lens_api (\<lambda>_. []) (\<lambda>_ w. w) (mem_api (\<lambda>r. ks_meta (kr_service r))),
      ce_supporting = lens_api (\<lambda>_. services) (\<lambda>_ w. w) (mem_api (\<lambda>s. ks_meta (sup_service s))),
      ce_roles = lens_api (\<lambda>_. []) (\<lambda>_ w. w) (mem_api role_meta), ce_serviceAccounts = lens_api (\<lambda>_. []) (\<lambda>_ w. w) (mem_api id),
      ce_roleBindings = lens_api (\<lambda>_. []) (\<lambda>_ w. w) (mem_api rb_meta),
      ce_http = \<lparr>ht_get = (\<lambda>u w. Inr (404, Inr [])), ht_head = (\<lambda>u w. Inr 404)\<rparr>, ce_unmarshalList = (\<lambda>s. Inr []),
      ce_parseURL = (\<lambda>u. Inr \<lparr>pu_string = u, pu_scheme = ''http'', pu_host = u\<rparr>)\<rparr>"

definition two_services :: "supporting_service list" where
  "two_services = [\<lparr>sup_service = sample_service, sup_type = DataIndex\<rparr>,
     \<lparr>sup_service = sample_service\<lparr>ks_meta := mk_meta ''di'' ''ns''\<rparr>, sup_type = DataIndex\<rparr>]"


end
