(* ===== verification/Cli_Commands.thy ===== *)
theory Cli_Commands
  imports Cli_Flags Kogito_Build Supporting_Service
begin

text \<open>
  What the commands of the client share, \<^verbatim>\<open>cmd/kogito\<close>: the project in the kube config, the checks of projects and resources,
  creating or updating a custom resource and its installation.  Log output is left out.
\<close>

section \<open>What the commands work with\<close>

text \<open>A store of custom resources; the second component gives the second object the resource version of the first.\<close>

record ('w, 'o) versioned_api =
  va_store :: "('w, 'o) store_api"
  va_copyVersion :: "'o \<Rightarrow> 'o \<Rightarrow> 'o"

record kube_config =
  kcfg_current :: string
  kcfg_contexts :: "(string \<times> string) list"  \<comment> \<open>the namespace of each context\<close>

text \<open>The walk through a directory lists each path with its name and whether it is a directory, or with no information where it cannot be
  read; adding a file to the archive may fail.\<close>

record 'w cli =
  cli_outside :: "'w outside"
  cli_isOpenshift :: bool
  cli_discovery :: discovery
  cli_runtimes :: "('w, kogito_runtime) versioned_api"
  cli_builds :: "('w, kogito_build) versioned_api"
  cli_supporting :: "('w, supporting_service) versioned_api"
  cli_infras :: "('w, kogito_infra) versioned_api"
  cli_configMaps :: "('w, configmap) store_api"
  cli_namespaces :: "('w, object_meta) store_api"
  cli_getConfig :: "string \<Rightarrow> string \<Rightarrow> 'w \<Rightarrow> gerr + build_config"
  cli_instantiateBinary :: "string \<Rightarrow> string \<Rightarrow> 'w \<Rightarrow> (gerr + os_build) \<times> 'w"
  cli_kubeConfigFile :: string
  cli_kubeConfig :: "'w \<Rightarrow> kube_config"
  cli_writeKubeConfig :: "kube_config \<Rightarrow> 'w \<Rightarrow> (gerr + unit) \<times> 'w"
  cli_download :: "string \<Rightarrow> 'w \<Rightarrow> gerr + unit"
  cli_open :: "string \<Rightarrow> 'w \<Rightarrow> gerr + unit"
  cli_walk :: "string \<Rightarrow> 'w \<Rightarrow> (string \<times> (string \<times> bool) option) list"
  cli_addToArchive :: "string \<Rightarrow> 'w \<Rightarrow> gerr + unit"

section \<open>The project in the kube config, kubeconfig.go\<close>

definition getCurrentNamespaceFromKubeConfig :: "kube_config \<Rightarrow> string" where
  "getCurrentNamespaceFromKubeConfig config =
     (if kcfg_current config = [] then []
      else (case map_of (kcfg_contexts config) (kcfg_current config) of None \<Rightarrow> [] | Some ns \<Rightarrow> ns))"

text \<open>A current context that is not among the contexts is dereferenced.\<close>

definition with_current_namespace :: "string \<Rightarrow> kube_config \<Rightarrow> string \<Rightarrow> gerr + kube_config" where
  "with_current_namespace filename config namespace =
     (if kcfg_current config = []
      then Inl (PlainError (''There's no current context available in the kube config file '' @ filename @
             ''. Please make sure to connect to the cluster first via 'oc/kubectl login' ''))
      else let newContext = JoinChar CHR ''/'' ((SplitChar CHR ''/'' (kcfg_current config))[0 := namespace])
           in if map_of (kcfg_contexts config) newContext = None
              then (case map_of (kcfg_contexts config) (kcfg_current config) of
                      None \<Rightarrow> Inl (Panic ''nil pointer dereference'')
                    | Some _ \<Rightarrow> Inr \<lparr>kcfg_current = newContext, kcfg_contexts = AList.update newContext namespace (kcfg_contexts config)\<rparr>)
              else Inr (config\<lparr>kcfg_current := newContext\<rparr>))"

definition setCurrentNamespaceToKubeConfig :: "'w cli \<Rightarrow> string \<Rightarrow> 'w \<Rightarrow> (gerr + unit) \<times> 'w" where
  "setCurrentNamespaceToKubeConfig C namespace w =
     (case with_current_namespace (cli_kubeConfigFile C) (cli_kubeConfig C w) namespace of
        Inl e \<Rightarrow> (Inl e, w)
      | Inr config \<Rightarrow>
          (case cli_writeKubeConfig C config w of
             (Inl e, w') \<Rightarrow> (Inl (PlainError (''Error while trying to update kube config file '' @ cli_kubeConfigFile C @ '': '' @ error_message e @ '' '')), w')
           | (Inr _, w') \<Rightarrow> (Inr (), w')))"

definition namespace_Fetch :: "('w, object_meta) store_api \<Rightarrow> string \<Rightarrow> 'w \<Rightarrow> gerr + object_meta option" where
  "namespace_Fetch A name w = FetchWithKey A [] name w"

definition namespace_Create :: "('w, object_meta) store_api \<Rightarrow> string \<Rightarrow> 'w \<Rightarrow> (gerr + object_meta) \<times> 'w" where
  "namespace_Create A name = sa_create A (mk_meta name [])"

definition namespace_CreateIfNotExists :: "('w, object_meta) store_api \<Rightarrow> string \<Rightarrow> 'w \<Rightarrow> (gerr + object_meta) \<times> 'w" where
  "namespace_CreateIfNotExists A name w =
     (case namespace_Fetch A name w of Inl e \<Rightarrow> (Inl e, w) | Inr (Some ns) \<Rightarrow> (Inr ns, w) | Inr None \<Rightarrow> namespace_Create A name w)"

section \<open>Checks of resources, resource\_checks.go\<close>

definition checkProjectExists :: "'w cli \<Rightarrow> string \<Rightarrow> 'w \<Rightarrow> gerr option" where
  "checkProjectExists C namespace w =
     (case namespace_Fetch (cli_namespaces C) namespace w of
        Inl e \<Rightarrow> Some (PlainError (''Error while trying to fetch for the application context (namespace): '' @ error_message e @ '' ''))
      | Inr None \<Rightarrow> Some (PlainError (''Project context (namespace) '' @ namespace @
          '' not found. Try setting your project context using 'kogito use-project NAME' ''))
      | Inr (Some _) \<Rightarrow> None)"

definition EnsureProject :: "'w cli \<Rightarrow> string \<Rightarrow> 'w \<Rightarrow> (gerr + string) \<times> 'w" where
  "EnsureProject C project w =
     (let projectInContext = getCurrentNamespaceFromKubeConfig (cli_kubeConfig C w)
      in if projectInContext = [] \<and> project = []
         then (Inl (PlainError ''Couldn't find any project in the current context. Make sure to connect to the cluster first or use `kogito use-project NAME` ''), w)
         else let project = (if project = [] then projectInContext else project)
              in case checkProjectExists C project w of
                   Some e \<Rightarrow> (Inl e, w)
                 | None \<Rightarrow>
                     if project \<noteq> projectInContext
                     then (case setCurrentNamespaceToKubeConfig C project w of
                             (Inl e, w') \<Rightarrow> (Inl e, w') | (Inr _, w') \<Rightarrow> (Inr project, w'))
                     else (Inr project, w))"

definition resource_exists :: "('w, 'o) store_api \<Rightarrow> string \<Rightarrow> string \<Rightarrow> string \<Rightarrow> 'w \<Rightarrow> gerr + bool" where
  "resource_exists A kind name namespace w =
     (case FetchWithKey A namespace name w of
        Inl e \<Rightarrow> Inl (PlainError (''Error while trying to look for the '' @ kind @ '': '' @ error_message e @ '' ''))
      | Inr x \<Rightarrow> Inr (x \<noteq> None))"

definition isKogitoRuntimeExists :: "'w cli \<Rightarrow> string \<Rightarrow> string \<Rightarrow> 'w \<Rightarrow> gerr + bool" where
  "isKogitoRuntimeExists C name namespace w = resource_exists (va_store (cli_runtimes C)) ''KogitoRuntime'' name namespace w"

definition isKogitoBuildExists :: "'w cli \<Rightarrow> string \<Rightarrow> string \<Rightarrow> 'w \<Rightarrow> gerr + bool" where
  "isKogitoBuildExists C name namespace w = resource_exists (va_store (cli_builds C)) ''KogitoBuild'' name namespace w"

definition CheckKogitoRuntimeExists :: "'w cli \<Rightarrow> string \<Rightarrow> string \<Rightarrow> 'w \<Rightarrow> gerr option" where
  "CheckKogitoRuntimeExists C name namespace w =
     (case isKogitoRuntimeExists C name namespace w of
        Inl e \<Rightarrow> Some e
      | Inr True \<Rightarrow> None
      | Inr False \<Rightarrow> Some (PlainError (''Looks like a Kogito runtime with the name '' @ quoted name @
          '' doesn't exist in this project. Please try another name '')))"

definition CheckKogitoRuntimeNotExists :: "'w cli \<Rightarrow> string \<Rightarrow> string \<Rightarrow> 'w \<Rightarrow> gerr option" where
  "CheckKogitoRuntimeNotExists C name namespace w =
     (case isKogitoRuntimeExists C name namespace w of
        Inl e \<Rightarrow> Some e
      | Inr True \<Rightarrow> Some (PlainError (''Looks like a Kogito Runtime with the name '' @ quoted name @
          '' already exists in this project context (namespace). Please try another name ''))
      | Inr False \<Rightarrow> None)"

definition CheckKogitoBuildExists :: "'w cli \<Rightarrow> string \<Rightarrow> string \<Rightarrow> 'w \<Rightarrow> gerr option" where
  "CheckKogitoBuildExists C name namespace w =
     (case isKogitoBuildExists C name namespace w of
        Inl e \<Rightarrow> Some e
      | Inr True \<Rightarrow> None
      | Inr False \<Rightarrow> Some (PlainError (''Looks like a Kogito Build with the name '' @ quoted name @
          '' doesn't exist in this project context (namespace). Please try another name '')))"

definition CheckKogitoBuildNotExists :: "'w cli \<Rightarrow> string \<Rightarrow> string \<Rightarrow> 'w \<Rightarrow> gerr option" where
  "CheckKogitoBuildNotExists C name namespace w =
     (case isKogitoBuildExists C name namespace w of
        Inl e \<Rightarrow> Some e
      | Inr True \<Rightarrow> Some (PlainError (''Looks like a Kogito Build with the name '' @ quoted name @
          '' already exists in this project context (namespace). Please try another name ''))
      | Inr False \<Rightarrow> None)"

definition CheckKogitoInfraExists :: "'w cli \<Rightarrow> string \<Rightarrow> string \<Rightarrow> 'w \<Rightarrow> gerr option" where
  "CheckKogitoInfraExists C name namespace w =
     (case MustFetchKogitoInfraInstance (\<lambda>ns n. FetchWithKey (va_store (cli_infras C)) ns n) namespace name w of
        Inl e \<Rightarrow> Some e | Inr _ \<Rightarrow> None)"

text \<open>A resource either exists or does not: one of the two checks passes unless the cluster cannot be read, and then both report it.\<close>

lemma checks_complementary:
  "(CheckKogitoRuntimeExists C name ns w = None) \<noteq> (CheckKogitoRuntimeNotExists C name ns w = None)
     \<or> (\<exists>e. CheckKogitoRuntimeExists C name ns w = Some e \<and> CheckKogitoRuntimeNotExists C name ns w = Some e)"
  "(CheckKogitoBuildExists C name ns w = None) \<noteq> (CheckKogitoBuildNotExists C name ns w = None)
     \<or> (\<exists>e. CheckKogitoBuildExists C name ns w = Some e \<and> CheckKogitoBuildNotExists C name ns w = Some e)"
  by (auto simp: CheckKogitoRuntimeExists_def CheckKogitoRuntimeNotExists_def CheckKogitoBuildExists_def CheckKogitoBuildNotExists_def
      split: sum.split bool.split)

section \<open>Creating or updating, core/resource\_manager.go\<close>

text \<open>One attempt: the old object of the state gives the version; after a conflict it is read again.\<close>

definition update_attempt :: "('w, 'o) versioned_api \<Rightarrow> 'o \<Rightarrow> 'o \<times> 'w \<Rightarrow> (gerr + bool) \<times> 'o \<times> 'w" where
  "update_attempt V new s =
     (case Update (va_store V) (va_copyVersion V (fst s) new) (snd s) of
        (Inr _, w') \<Rightarrow> (Inr True, fst s, w')
      | (Inl (ApiError SConflict m), w') \<Rightarrow>
          (case Fetch (va_store V) (fst s) w' of
             Inl e \<Rightarrow> (Inl e, fst s, w')
           | Inr None \<Rightarrow> (Inr False, fst s, w')
           | Inr (Some old) \<Rightarrow> (Inr False, old, w'))
      | (Inl e, w') \<Rightarrow> (Inl e, fst s, w'))"

text \<open>Half a minute with an attempt every half second.\<close>

definition update_attempts :: nat where "update_attempts = 60"

definition resource_update :: "('w, 'o) versioned_api \<Rightarrow> 'o \<Rightarrow> 'o \<Rightarrow> 'w \<Rightarrow> (gerr + unit) \<times> 'w" where
  "resource_update V new old w =
     (case poll update_attempts (update_attempt V new) (old, w) of (r, s) \<Rightarrow> (r, snd s))"

definition CreateOrUpdate :: "('w, 'o) versioned_api \<Rightarrow> 'o \<Rightarrow> 'w \<Rightarrow> (gerr + unit) \<times> 'w" where
  "CreateOrUpdate V resource w =
     (case Fetch (va_store V) resource w of
        Inl e \<Rightarrow> (Inl e, w)
      | Inr (Some old) \<Rightarrow> resource_update V resource old w
      | Inr None \<Rightarrow> bindS (Create (va_store V) resource) (\<lambda>_. returnS ()) w)"

section \<open>Installation, install\_services.go\<close>

definition IsKogitoCRDsAvailable :: "'w cli \<Rightarrow> bool" where
  "IsKogitoCRDsAvailable C = HasServerGroup (cli_discovery C) ''app.kiegroup.org''"

definition CheckOperatorCRDs :: "'w cli \<Rightarrow> gerr option" where
  "CheckOperatorCRDs C =
     (if \<not> IsKogitoCRDsAvailable C
      then Some (PlainError ''kogito Operator CRDs not Found in the cluster. Please install operator before using'') else None)"

text \<open>The text of the error per kind of resource; a type of service that is not known has no messages.\<close>

definition serviceErrCreating :: "string \<Rightarrow> string \<Rightarrow> string" where
  "serviceErrCreating kind m = ''Error while trying to create a new Kogito '' @ kind @ '' Service: '' @ m @ '' ''"

definition RuntimeServiceErrCreating :: "string \<Rightarrow> string" where
  "RuntimeServiceErrCreating m = ''Error while trying to create a new Kogito Service: '' @ m"

definition getSupportingServiceInfoMessages :: "string \<Rightarrow> (string \<Rightarrow> string) option" where
  "getSupportingServiceInfoMessages serviceType =
     map_option serviceErrCreating (map_of
       [(DataIndex, ''Data Index''), (JobsService, ''Jobs''), (MgmtConsole, ''Management Console''), (Explainability, ''Explainability''),
        (TrustyAI, ''Trusty''), (TrustyUI, ''Trusty UI''), (TaskConsole, ''Task Console'')] serviceType)"

text \<open>The messages are read after the call in every case, so a nil pointer is dereferenced also on success.\<close>

definition installKogitoResource :: "('w, 'o) versioned_api \<Rightarrow> (string \<Rightarrow> string) option \<Rightarrow> 'o \<Rightarrow> 'w \<Rightarrow> (gerr + unit) \<times> 'w" where
  "installKogitoResource V messages resource w =
     (case (CreateOrUpdate V resource w, messages) of
        ((_, w'), None) \<Rightarrow> (Inl (Panic ''nil pointer dereference''), w')
      | ((Inl e, w'), Some errCreating) \<Rightarrow> (Inl (PlainError (errCreating (error_message e))), w')
      | ((Inr _, w'), Some _) \<Rightarrow> (Inr (), w'))"

text \<open>The chain of calls that the commands end with: the check of the definitions, the installation, the error.\<close>

definition install_resource :: "'w cli \<Rightarrow> ('w, 'o) versioned_api \<Rightarrow> (string \<Rightarrow> string) option \<Rightarrow> 'o \<Rightarrow> 'w \<Rightarrow> (gerr + unit) \<times> 'w" where
  "install_resource C V messages resource w =
     (case CheckOperatorCRDs C of Some e \<Rightarrow> (Inl e, w) | None \<Rightarrow> installKogitoResource V messages resource w)"

definition InstallBuildService :: "'w cli \<Rightarrow> kogito_build \<Rightarrow> 'w \<Rightarrow> (gerr + unit) \<times> 'w" where
  "InstallBuildService C build = install_resource C (cli_builds C) (Some (serviceErrCreating ''Build'')) build"

definition InstallRuntimeService :: "'w cli \<Rightarrow> kogito_runtime \<Rightarrow> 'w \<Rightarrow> (gerr + unit) \<times> 'w" where
  "InstallRuntimeService C runtime = install_resource C (cli_runtimes C) (Some RuntimeServiceErrCreating) runtime"

definition InstallSupportingService :: "'w cli \<Rightarrow> supporting_service \<Rightarrow> 'w \<Rightarrow> (gerr + unit) \<times> 'w" where
  "InstallSupportingService C s = install_resource C (cli_supporting C) (getSupportingServiceInfoMessages (sup_type s)) s"

definition InstallInfraResource :: "'w cli \<Rightarrow> kogito_infra \<Rightarrow> 'w \<Rightarrow> (gerr + unit) \<times> 'w" where
  "InstallInfraResource C infra = install_resource C (cli_infras C) (Some (serviceErrCreating ''Infra'')) infra"

section \<open>The contexts of the kube config\<close>

text \<open>A context is named after its namespace, as \<^verbatim>\<open>oc login\<close> does: the part of the name before the first slash.\<close>

definition named_contexts :: "kube_config \<Rightarrow> bool" where
  "named_contexts config \<longleftrightarrow> list_all (\<lambda>(n, ns). hd (SplitChar CHR ''/'' n) = ns) (kcfg_contexts config)"

definition writes_kubeConfig :: "'w cli \<Rightarrow> bool" where
  "writes_kubeConfig C \<longleftrightarrow> (\<forall>config w w'. cli_writeKubeConfig C config w = (Inr (), w') \<longrightarrow> cli_kubeConfig C w' = config)"

lemma context_name: "CHR ''/'' \<notin> set ns \<Longrightarrow> hd (SplitChar CHR ''/'' (JoinChar CHR ''/'' ((SplitChar CHR ''/'' n)[0 := ns]))) = ns"
proof -
  assume "CHR ''/'' \<notin> set ns"
  then have "\<forall>x \<in> set ((SplitChar CHR ''/'' n)[0 := ns]). CHR ''/'' \<notin> set x"
    using SplitChar_no_sep [of _ "CHR ''/''" n] by (metis insertE set_update_subset_insert subset_iff)
  then have "SplitChar CHR ''/'' (JoinChar CHR ''/'' ((SplitChar CHR ''/'' n)[0 := ns])) = (SplitChar CHR ''/'' n)[0 := ns]"
    by (intro SplitChar_JoinChar) simp_all
  then show ?thesis by (cases "SplitChar CHR ''/'' n") simp_all
qed

lemma named_lookup: "named_contexts c \<Longrightarrow> map_of (kcfg_contexts c) n = Some ns \<Longrightarrow> hd (SplitChar CHR ''/'' n) = ns"
  by (auto simp: named_contexts_def list_all_iff dest: map_of_SomeD)

lemma update_subset: "set (AList.update k v xs) \<subseteq> insert (k, v) (set xs)"
  by (induction xs) auto

lemma named_update: "named_contexts c \<Longrightarrow> hd (SplitChar CHR ''/'' n) = ns \<Longrightarrow>
   named_contexts (c\<lparr>kcfg_contexts := AList.update n ns (kcfg_contexts c)\<rparr>)"
  using update_subset [of n ns "kcfg_contexts c"] by (fastforce simp: named_contexts_def list_all_iff)

lemma with_current_namespace_sets:
  assumes "with_current_namespace f c ns = Inr c'" "named_contexts c" "CHR ''/'' \<notin> set ns"
  shows "named_contexts c'" "getCurrentNamespaceFromKubeConfig c' = ns" "map_of (kcfg_contexts c) \<subseteq>\<^sub>m map_of (kcfg_contexts c')"
proof -
  define n where "n = JoinChar CHR ''/'' ((SplitChar CHR ''/'' (kcfg_current c))[0 := ns])"
  have hd_n: "hd (SplitChar CHR ''/'' n) = ns" unfolding n_def using assms(3) by (rule context_name)
  have empty: "n = [] \<Longrightarrow> ns = []" using hd_n by auto
  have cases: "(map_of (kcfg_contexts c) n = None \<and> c' = \<lparr>kcfg_current = n, kcfg_contexts = AList.update n ns (kcfg_contexts c)\<rparr>)
      \<or> (map_of (kcfg_contexts c) n = Some ns \<and> c' = c\<lparr>kcfg_current := n\<rparr>)"
    using assms(1) named_lookup [OF assms(2), of n] hd_n
    by (auto simp: with_current_namespace_def Let_def n_def [symmetric] split: if_splits option.splits)
  then show "named_contexts c'"
    using named_update [OF assms(2) hd_n] assms(2) by (auto simp: named_contexts_def)
  show "getCurrentNamespaceFromKubeConfig c' = ns"
    using cases empty by (auto simp: getCurrentNamespaceFromKubeConfig_def update_conv')
  show "map_of (kcfg_contexts c) \<subseteq>\<^sub>m map_of (kcfg_contexts c')"
    using cases by (auto simp: map_le_def update_conv')
qed

lemma setCurrentNamespace_Inr:
  assumes "setCurrentNamespaceToKubeConfig C ns w = (Inr (), w')"
  obtains c where "with_current_namespace (cli_kubeConfigFile C) (cli_kubeConfig C w) ns = Inr c" "cli_writeKubeConfig C c w = (Inr (), w')"
proof (cases "with_current_namespace (cli_kubeConfigFile C) (cli_kubeConfig C w) ns")
  case (Inr c)
  obtain r w1 where r: "cli_writeKubeConfig C c w = (r, w1)" by fastforce
  with assms Inr that show thesis unfolding setCurrentNamespaceToKubeConfig_def by (cases r) simp_all
qed (use assms in \<open>simp add: setCurrentNamespaceToKubeConfig_def\<close>)

lemma EnsureProject_Inr:
  fixes C w p0
  defines "p' \<equiv> if p0 = [] then getCurrentNamespaceFromKubeConfig (cli_kubeConfig C w) else p0"
  assumes "EnsureProject C p0 w = (Inr p, w')"
  shows "p = p'" "checkProjectExists C p w = None"
    "if p = getCurrentNamespaceFromKubeConfig (cli_kubeConfig C w) then w' = w else setCurrentNamespaceToKubeConfig C p w = (Inr (), w')"
proof -
  obtain s w1 where set: "setCurrentNamespaceToKubeConfig C p' w = (s, w1)" by fastforce
  have run: "EnsureProject C p0 w =
      (if getCurrentNamespaceFromKubeConfig (cli_kubeConfig C w) = [] \<and> p0 = [] then (Inl (PlainError ''Couldn't find any project in the current context. Make sure to connect to the cluster first or use `kogito use-project NAME` ''), w)
       else case checkProjectExists C p' w of
              Some e \<Rightarrow> (Inl e, w)
            | None \<Rightarrow> if p' \<noteq> getCurrentNamespaceFromKubeConfig (cli_kubeConfig C w)
                      then (case s of Inl e \<Rightarrow> (Inl e, w1) | Inr _ \<Rightarrow> (Inr p', w1)) else (Inr p', w))"
    by (simp add: EnsureProject_def Let_def p'_def [symmetric] set split: option.split)
  have all: "p = p' \<and> checkProjectExists C p' w = None \<and>
     (if p' = getCurrentNamespaceFromKubeConfig (cli_kubeConfig C w) then w' = w else setCurrentNamespaceToKubeConfig C p' w = (Inr (), w'))"
    using assms(2) unfolding run set by (auto split: if_split_asm option.split_asm sum.split_asm)
  then show "p = p'" "checkProjectExists C p w = None"
    "if p = getCurrentNamespaceFromKubeConfig (cli_kubeConfig C w) then w' = w else setCurrentNamespaceToKubeConfig C p w = (Inr (), w')"
    by simp_all
qed

text \<open>C34: a command works in the project it names.  When \<^term>\<open>EnsureProject\<close> answers with a project, that project exists in the cluster, it is the one
  the user gave or else the current one, and the kube config has it as its current namespace; every context that was there is kept, and
  contexts stay named after their namespaces.  Writing the file is taken to store what is written.\<close>

theorem EnsureProject_current:
  assumes "writes_kubeConfig C" "named_contexts (cli_kubeConfig C w)" "CHR ''/'' \<notin> set project0"
    "EnsureProject C project0 w = (Inr project, w')"
  shows "namespace_Fetch (cli_namespaces C) project w \<notin> {Inr None} \<union> range Inl
    \<and> project = (if project0 = [] then getCurrentNamespaceFromKubeConfig (cli_kubeConfig C w) else project0)
    \<and> getCurrentNamespaceFromKubeConfig (cli_kubeConfig C w') = project
    \<and> map_of (kcfg_contexts (cli_kubeConfig C w)) \<subseteq>\<^sub>m map_of (kcfg_contexts (cli_kubeConfig C w'))
    \<and> named_contexts (cli_kubeConfig C w')"
proof -
  let ?cur = "getCurrentNamespaceFromKubeConfig (cli_kubeConfig C w)"
  note run = EnsureProject_Inr [OF assms(4)]
  have found: "namespace_Fetch (cli_namespaces C) project w \<notin> {Inr None} \<union> range Inl"
    using run(2) by (auto simp: checkProjectExists_def)
  show ?thesis
  proof (cases "project = ?cur")
    case True
    with run(3) have "w' = w" by simp
    with True found run(1) assms(2) show ?thesis by simp
  next
    case False
    with run have given: "project0 = project" by (simp split: if_split_asm)
    from False run(3) have "setCurrentNamespaceToKubeConfig C project w = (Inr (), w')" by simp
    then obtain c where c: "with_current_namespace (cli_kubeConfigFile C) (cli_kubeConfig C w) project = Inr c"
      "cli_writeKubeConfig C c w = (Inr (), w')" by (rule setCurrentNamespace_Inr)
    have same: "cli_kubeConfig C w' = c" using assms(1) c(2) by (simp add: writes_kubeConfig_def)
    have "CHR ''/'' \<notin> set project" using assms(3) given by simp
    from with_current_namespace_sets [OF c(1) assms(2) this] found run(1) show ?thesis unfolding same by blast
  qed
qed

section \<open>A client for examples\<close>

record cli_world =
  cw_config :: kube_config
  cw_namespaces :: "object_meta list"
  cw_runtimes :: "kogito_runtime list"
  cw_builds :: "kogito_build list"
  cw_supporting :: "supporting_service list"

definition file_system :: "(string \<times> file_info) list \<Rightarrow> (string \<times> (string \<times> bool) list) list \<Rightarrow> 'w outside" where
  "file_system files dirs =
     \<lparr>os_stat = (\<lambda>p w. Inr (map_of files p)), os_readFile = (\<lambda>p w. Inr []),
      os_readDir = (\<lambda>p w. case map_of dirs p of None \<Rightarrow> Inl (PlainError p) | Some es \<Rightarrow> Inr es),
      os_parseRequestURI = (\<lambda>u. Inr (''https'', ''host'', u)), os_parseURL = (\<lambda>u. Inr (''https'', ''host'', u)), os_quantity = (\<lambda>_. True)\<rparr>"

definition sample_cli :: "cli_world cli" where
  "sample_cli =
     \<lparr>cli_outside = file_system [] [], cli_isOpenshift = True, cli_discovery = Some (Inr [''app.kiegroup.org'']),
      cli_runtimes = \<lparr>va_store = lens_api cw_runtimes (\<lambda>x w. w\<lparr>cw_runtimes := x\<rparr>) (mem_api (\<lambda>r. ks_meta (kr_service r))), va_copyVersion = (\<lambda>_ x. x)\<rparr>,
      cli_builds = \<lparr>va_store = lens_api cw_builds (\<lambda>x w. w\<lparr>cw_builds := x\<rparr>) (mem_api kb_meta), va_copyVersion = (\<lambda>_ x. x)\<rparr>,
      cli_supporting = \<lparr>va_store = lens_api cw_supporting (\<lambda>x w. w\<lparr>cw_supporting := x\<rparr>) (mem_api (\<lambda>s. ks_meta (sup_service s))), va_copyVersion = (\<lambda>_ x. x)\<rparr>,
      cli_infras = \<lparr>va_store = lens_api (\<lambda>_. []) (\<lambda>_ w. w) (mem_api ki_meta), va_copyVersion = (\<lambda>_ x. x)\<rparr>,
      cli_configMaps = lens_api (\<lambda>_. []) (\<lambda>_ w. w) (mem_api cm_meta),
      cli_namespaces = lens_api cw_namespaces (\<lambda>x w. w\<lparr>cw_namespaces := x\<rparr>) (mem_api id),
      cli_getConfig = (\<lambda>ns n w. Inl (ApiError SNotFound n)), cli_instantiateBinary = (\<lambda>ns n w. (Inl (PlainError n), w)),
      cli_kubeConfigFile = ''config'', cli_kubeConfig = cw_config, cli_writeKubeConfig = (\<lambda>c w. (Inr (), w\<lparr>cw_config := c\<rparr>)),
      cli_download = (\<lambda>u w. Inr ()), cli_open = (\<lambda>p w. Inr ()), cli_walk = (\<lambda>p w. []), cli_addToArchive = (\<lambda>p w. Inr ())\<rparr>"

definition sample_cli_world :: cli_world where
  "sample_cli_world =
     \<lparr>cw_config = \<lparr>kcfg_current = ''old/host/me'', kcfg_contexts = [(''old/host/me'', ''old'')]\<rparr>, cw_namespaces = [mk_meta ''new'' []],
      cw_runtimes = [], cw_builds = [], cw_supporting = []\<rparr>"

lemma sample_cli_sel [simp]:
  "cli_isOpenshift sample_cli" "cli_kubeConfig sample_cli = cw_config" "cli_kubeConfigFile sample_cli = ''config''"
  "cli_writeKubeConfig sample_cli = (\<lambda>c w. (Inr (), w\<lparr>cw_config := c\<rparr>))"
  "cli_namespaces sample_cli = lens_api cw_namespaces (\<lambda>x w. w\<lparr>cw_namespaces := x\<rparr>) (mem_api id)"
  "va_store (cli_builds sample_cli) = lens_api cw_builds (\<lambda>x w. w\<lparr>cw_builds := x\<rparr>) (mem_api kb_meta)"
  "va_store (cli_supporting sample_cli) = lens_api cw_supporting (\<lambda>x w. w\<lparr>cw_supporting := x\<rparr>) (mem_api (\<lambda>s. ks_meta (sup_service s)))"
  "va_store (cli_runtimes sample_cli) = lens_api cw_runtimes (\<lambda>x w. w\<lparr>cw_runtimes := x\<rparr>) (mem_api (\<lambda>r. ks_meta (kr_service r)))"
  by (simp_all add: sample_cli_def)

theorem EnsureProject_current_witness:
  "getCurrentNamespaceFromKubeConfig (cw_config (snd (EnsureProject sample_cli ''new'' sample_cli_world))) = ''new''"
proof -
  have run: "EnsureProject sample_cli ''new'' sample_cli_world = (Inr ''new'',
      sample_cli_world\<lparr>cw_config := \<lparr>kcfg_current = ''new/host/me'', kcfg_contexts = [(''old/host/me'', ''old''), (''new/host/me'', ''new'')]\<rparr>\<rparr>)"
    by (simp add: EnsureProject_def Let_def checkProjectExists_def namespace_Fetch_def FetchWithKey_def setCurrentNamespaceToKubeConfig_def
        with_current_namespace_def getCurrentNamespaceFromKubeConfig_def sample_cli_world_def mem_simps mk_meta_def)
  have "writes_kubeConfig sample_cli" by (simp add: writes_kubeConfig_def)
  moreover have "named_contexts (cli_kubeConfig sample_cli sample_cli_world)"
    by (simp add: named_contexts_def sample_cli_world_def)
  ultimately show ?thesis using EnsureProject_current [OF _ _ _ run] run by simp
qed

end
