(* ===== verification/Cli_Deploy.thy ===== *)
theory Cli_Deploy
  imports Cli_Commands
begin

text \<open>
  The commands \<^verbatim>\<open>deploy-service\<close> and \<^verbatim>\<open>delete-service\<close> with the services they call: \<^verbatim>\<open>cmd/kogito/command/service\<close>,
  \<^verbatim>\<open>iozip/zip_files.go\<close> and \<^verbatim>\<open>deploy\<close>.  What is uploaded is the list of files that the archive holds; the bytes of the files and the
  formats of the archives are left out.
\<close>

section \<open>Texts\<close>

text \<open>\<^verbatim>\<open>strings.Replace\<close> of the first occurrence of a text that is not empty.\<close>

fun replace_first :: "string \<Rightarrow> string \<Rightarrow> string \<Rightarrow> string" where
  "replace_first old new [] = []"
| "replace_first old new (c # s) =
     (if HasPrefix (c # s) old then new @ drop (length old) (c # s) else c # replace_first old new s)"

text \<open>\<^verbatim>\<open>strings.Join(strings.Fields(s), "")\<close> on ASCII texts: without white space.\<close>

definition without_space :: "string \<Rightarrow> string" where
  "without_space s = filter (\<lambda>c. c \<notin> {CHR 0x09, CHR 0x0A, CHR 0x0B, CHR 0x0C, CHR 0x0D, CHR 0x20}) s"

definition file_name :: "string \<Rightarrow> string" where
  "file_name path = without_space (last (SplitChar CHR ''/'' path))"

section \<open>Archives, zip\_files.go\<close>

fun supportedExtensions :: "binary_build_type \<Rightarrow> string list" where
  "supportedExtensions SourceToImageBuild = [''.dmn'', ''.drl'', ''.bpmn'', ''.bpmn2'', ''.properties'', ''.sw.json'', ''.sw.yaml'']"
| "supportedExtensions BinaryQuarkusLegacyJarJvmBuild = [''.jar'', ''.json'']"
| "supportedExtensions BinaryQuarkusFastJarJvmBuild = [''.jar'', ''.json'', ''dat'']"
| "supportedExtensions BinarySpringBootJvmBuild = [''.jar'', ''.json'']"
| "supportedExtensions BinaryQuarkusNativeBuild = [''-runner'', ''.json'']"

fun binaryAddedFolders :: "binary_build_type \<Rightarrow> string list" where
  "binaryAddedFolders SourceToImageBuild = []"
| "binaryAddedFolders BinaryQuarkusLegacyJarJvmBuild = [''lib/'']"
| "binaryAddedFolders BinaryQuarkusFastJarJvmBuild =
     [''quarkus-app/'', ''quarkus-app/lib/'', ''quarkus-app/lib/main/'', ''quarkus-app/lib/boot/'', ''quarkus-app/app/'', ''quarkus-app/quarkus/'']"
| "binaryAddedFolders BinarySpringBootJvmBuild = []"
| "binaryAddedFolders BinaryQuarkusNativeBuild = []"

definition IsSuffixSupported :: "string \<Rightarrow> binary_build_type \<Rightarrow> bool" where
  "IsSuffixSupported value t = list_ex (\<lambda>ext. HasSuffix value ext) (supportedExtensions t)"

definition isMavenProject :: "'w cli \<Rightarrow> string \<Rightarrow> 'w \<Rightarrow> gerr + bool" where
  "isMavenProject C resource w =
     bindR (os_stat (cli_outside C) (resource @ ''pom.xml'') w) (\<lambda>info. Inr (info \<noteq> None))"

text \<open>A loop that adds files until one fails: the files that were added and the error.\<close>

fun add_files :: "('a \<Rightarrow> gerr + string list) \<Rightarrow> 'a list \<Rightarrow> string list \<times> gerr option" where
  "add_files add [] = ([], None)"
| "add_files add (x # xs) =
     (case add x of
        Inl e \<Rightarrow> ([], Some e)
      | Inr fs \<Rightarrow> (case add_files add xs of (rest, e) \<Rightarrow> (fs @ rest, e)))"

definition zipFile :: "'w cli \<Rightarrow> string \<Rightarrow> 'w \<Rightarrow> gerr + string list" where
  "zipFile C path w = bindR (cli_addToArchive C path w) (\<lambda>_. Inr [path])"

text \<open>The name of an entry: the bare file name in a source build that is no Maven project, otherwise the path below the resource.\<close>

definition TrimPrefix :: "string \<Rightarrow> string \<Rightarrow> string" where
  "TrimPrefix s prefix = (if HasPrefix s prefix then drop (length prefix) s else s)"

definition tar_entry_name :: "binary_build_type \<Rightarrow> string \<Rightarrow> string \<Rightarrow> string \<Rightarrow> string" where
  "tar_entry_name t resource path name = (if t = SourceToImageBuild then name else TrimPrefix path resource)"

definition zip_entry_name :: "string \<Rightarrow> bool \<Rightarrow> string \<Rightarrow> string" where
  "zip_entry_name pathToZip isDir path = TrimPrefix path pathToZip @ (if isDir then ''/'' else [])"

text \<open>Files below the resource keep different names, except in a source build, where files of one name in two directories are one entry.\<close>

lemma entry_names_distinct:
  assumes "HasPrefix p resource" "HasPrefix q resource" "p \<noteq> q"
  shows "t \<noteq> SourceToImageBuild \<Longrightarrow> tar_entry_name t resource p n \<noteq> tar_entry_name t resource q m"
    "zip_entry_name resource False p \<noteq> zip_entry_name resource False q"
    "tar_entry_name SourceToImageBuild resource p n = tar_entry_name SourceToImageBuild resource q n"
  using assms by (auto simp: tar_entry_name_def zip_entry_name_def TrimPrefix_def HasPrefix_def) (metis append_take_drop_id)+

definition zipFilesInDir :: "'w cli \<Rightarrow> string \<Rightarrow> binary_build_type \<Rightarrow> 'w \<Rightarrow> string list \<times> gerr option" where
  "zipFilesInDir C dir t w =
     (case os_readDir (cli_outside C) dir w of
        Inl e \<Rightarrow> ([], Some e)
      | Inr files \<Rightarrow> add_files (\<lambda>(n, d). if IsSuffixSupported n t \<and> \<not> d then zipFile C (dir @ n) w else Inr []) files)"

text \<open>The walk of a source build: everything of a Maven project, otherwise the supported files.\<close>

definition walk_files :: "'w cli \<Rightarrow> string \<Rightarrow> bool \<Rightarrow> binary_build_type \<Rightarrow> 'w \<Rightarrow> string list \<times> gerr option" where
  "walk_files C resource maven t w =
     add_files (\<lambda>(path, info). case info of
         None \<Rightarrow> Inl (Panic ''nil pointer dereference'')
       | Some (n, d) \<Rightarrow> if maven \<or> IsSuffixSupported n t \<and> \<not> d then zipFile C path w else Inr [])
       (cli_walk C resource w)"

text \<open>The folders of a Quarkus build; each assigns the error, so that the last one stays.\<close>

definition add_folder :: "'w cli \<Rightarrow> string \<Rightarrow> binary_build_type \<Rightarrow> 'w \<Rightarrow> string \<Rightarrow> string list \<times> gerr option \<Rightarrow> string list \<times> gerr option" where
  "add_folder C resource t w folder acc =
     (case zipFilesInDir C (resource @ folder) t w of (fs, e) \<Rightarrow> (fst acc @ fs, e))"

text \<open>The branch for source builds declares an error of its own, so that the error of the walk is lost unless it is a panic.  The answer is the
  list of files of the archive.\<close>

definition CompressAsTGZ :: "'w cli \<Rightarrow> string \<Rightarrow> binary_build_type \<Rightarrow> 'w \<Rightarrow> gerr + string list" where
  "CompressAsTGZ C resource0 t w =
     (let resource = (if HasSuffix resource0 ''/'' then resource0 else resource0 @ ''/'')
      in bindR (if t = SourceToImageBuild
                then bindR (isMavenProject C resource w) (\<lambda>maven.
                       case walk_files C resource maven t w of
                         (fs, Some (Panic m)) \<Rightarrow> Inl (Panic m)
                       | (fs, _) \<Rightarrow> Inr (fs, None))
                else Inr (zipFilesInDir C resource t w))
           (\<lambda>start. case fold (add_folder C resource t w) (binaryAddedFolders t) start of
              (fs, None) \<Rightarrow> Inr fs | (fs, Some e) \<Rightarrow> Inl e))"

section \<open>The resource of a build, buildresource\_service.go\<close>

text \<open>The error of a URL that cannot be used; the escapes of the quoted URL are left out.\<close>

definition url_error :: "string \<Rightarrow> string \<Rightarrow> gerr" where
  "url_error resource m = PlainError ('' '' @ [CHR 0x22] @ resource @ [CHR 0x22] @ '': '' @ m)"

definition GetResourceType :: "'w outside \<Rightarrow> string \<Rightarrow> 'w \<Rightarrow> gerr + resource_type" where
  "GetResourceType S resource w =
     (if resource = [] then Inr BinaryResource
      else if HasPrefix resource ''http'' then
        (case os_parseRequestURI S resource of
           Inl e \<Rightarrow> Inl (url_error resource (error_message e))
         | Inr (scheme, host, path) \<Rightarrow>
             if scheme = [] \<or> host = [] then Inl (url_error resource ''%!s(<nil>)'')
             else Inr (if IsSuffixSupported (file_name resource) SourceToImageBuild then GitFileResource else GitRepositoryResource))
      else bindR (os_stat S resource w) (\<lambda>info. case info of
             None \<Rightarrow> Inl (PlainError (''stat '' @ resource @ '': no such file or directory''))
           | Some RegularFile \<Rightarrow>
               if IsSuffixSupported resource SourceToImageBuild then Inr LocalFileResource
               else Inl (PlainError (''invalid resource '' @ resource))
           | Some (Directory n) \<Rightarrow> Inr (if n = ''target'' then LocalBinaryDirectoryResource else LocalDirectoryResource)
           | Some OtherFile \<Rightarrow> Inl (PlainError (''invalid resource '' @ resource))))"

definition getRawGitHubFileURL :: "string \<Rightarrow> string" where
  "getRawGitHubFileURL resource =
     replace_first ''blob/'' [] (replace_first ''github.com'' ''raw.githubusercontent.com'' resource)"

text \<open>The error of the URL parser is ignored: a nil URL is dereferenced.  The answers are the files that are uploaded and the name they are stored as.\<close>

definition LoadGitFileIntoMemory :: "'w cli \<Rightarrow> string \<Rightarrow> 'w \<Rightarrow> gerr + string list \<times> string" where
  "LoadGitFileIntoMemory C resource w =
     (case os_parseRequestURI (cli_outside C) resource of
        Inl e \<Rightarrow> Inl (Panic ''nil pointer dereference'')
      | Inr (scheme, host, path) \<Rightarrow>
          let fileURL = (if ContainsStr resource ''github.com'' then getRawGitHubFileURL resource else resource)
          in case cli_download C fileURL w of
               Inl e \<Rightarrow> Inl (PlainError (''failed to download '' @ resource @ '', error message: '' @ error_message e))
             | Inr _ \<Rightarrow> Inr ([fileURL], file_name path))"

definition LoadLocalFileIntoMemory :: "'w cli \<Rightarrow> string \<Rightarrow> 'w \<Rightarrow> gerr + string list \<times> string" where
  "LoadLocalFileIntoMemory C resource w = bindR (cli_open C resource w) (\<lambda>_. Inr ([resource], file_name resource))"

definition ZipAndLoadLocalDirectoryIntoMemory :: "'w cli \<Rightarrow> string \<Rightarrow> binary_build_type \<Rightarrow> 'w \<Rightarrow> gerr + string list \<times> string" where
  "ZipAndLoadLocalDirectoryIntoMemory C resource t w = bindR (CompressAsTGZ C resource t w) (\<lambda>fs. Inr (fs, []))"

section \<open>Builds, build\_service.go\<close>

definition empty_build_status :: build_status where
  "empty_build_status = \<lparr>bst_conditions = None, bst_latestBuild = [], bst_builds = empty_builds\<rparr>"

definition empty_service_status :: service_status where
  "empty_service_status = \<lparr>st_conditions = None, st_deploymentConditions = [], st_routeConditions = None, st_image = [],
     st_externalURI = [], st_cloudEvents = \<lparr>ces_consumes = [], ces_produces = []\<rparr>\<rparr>"

definition validatePreRequisite :: "'w cli \<Rightarrow> build_flags \<Rightarrow> gerr option" where
  "validatePreRequisite C flags =
     (if \<not> cli_isOpenshift C
      then Some (PlainError ''kogito build only supported on Openshift. Provide image flag to deploy Kogito service on K8s'')
      else if bf_native flags \<and> bf_runtime flags \<noteq> ''quarkus''
      then Some (PlainError ''native builds are only supported with quarkus runtime'')
      else None)"

text \<open>The custom resource that the flags describe.\<close>

definition build_of_flags ::
  "build_flags \<Rightarrow> resource_type \<Rightarrow> string \<Rightarrow> bool \<Rightarrow> smap option \<times> smap option \<Rightarrow> kogito_build" where
  "build_of_flags flags t runtime native resources =
     \<lparr>kb_meta = mk_meta (bf_name flags) (bf_project flags),
      kb_spec = \<lparr>bs_type = FromResourceTypeToKogitoBuildType t, bs_disableIncremental = \<not> bf_incrementalBuild flags,
        bs_env = FromStringArrayToEnvs (fl_env (bf_envs flags)) (fl_secretEnv (bf_envs flags)),
        bs_gitSource = FromGitSourceFlagsToGitSource (bf_gitSource flags), bs_runtime = runtime,
        bs_webHooks = FromWebHookFlagsToWebHookSecret (bf_webHook flags), bs_native = native,
        bs_resources = \<lparr>br_limits = fst resources, br_requests = snd resources\<rparr>, bs_mavenMirrorURL = bf_mavenMirrorURL flags,
        bs_buildImage = bf_buildImage flags, bs_runtimeImage = bf_runtimeImage flags, bs_targetKogitoRuntime = bf_targetRuntime flags,
        bs_artifact = FromArtifactFlagsToArtifact (bf_artifact flags), bs_enableMavenDownloadOutput = bf_enableMavenDownloadOutput flags\<rparr>,
      kb_status = empty_build_status\<rparr>"

definition triggerBuild :: "'w cli \<Rightarrow> string \<Rightarrow> string \<Rightarrow> bool \<Rightarrow> 'w \<Rightarrow> (gerr + unit) \<times> 'w" where
  "triggerBuild C name namespace binaryBuild =
     bindS (TriggerBuildFromFile (cli_getConfig C) (cli_instantiateBinary C) namespace name binaryBuild) (\<lambda>_. returnS ())"

definition handleGitFileResourceBuild :: "'w cli \<Rightarrow> string \<Rightarrow> string \<Rightarrow> string \<Rightarrow> 'w \<Rightarrow> (gerr + unit) \<times> 'w" where
  "handleGitFileResourceBuild C name namespace resource =
     bindS (liftS (LoadGitFileIntoMemory C resource)) (\<lambda>_. triggerBuild C name namespace False)"

definition handleLocalDirectoryResourceBuild ::
  "'w cli \<Rightarrow> string \<Rightarrow> string \<Rightarrow> string \<Rightarrow> binary_build_type \<Rightarrow> 'w \<Rightarrow> (gerr + unit) \<times> 'w" where
  "handleLocalDirectoryResourceBuild C name namespace resource t =
     bindS (liftS (ZipAndLoadLocalDirectoryIntoMemory C resource t)) (\<lambda>_. triggerBuild C name namespace (t \<noteq> SourceToImageBuild))"

definition handleLocalFileResourceBuild :: "'w cli \<Rightarrow> string \<Rightarrow> string \<Rightarrow> string \<Rightarrow> 'w \<Rightarrow> (gerr + unit) \<times> 'w" where
  "handleLocalFileResourceBuild C name namespace resource =
     bindS (liftS (LoadLocalFileIntoMemory C resource)) (\<lambda>_. triggerBuild C name namespace False)"

definition createBuildIfRequires ::
  "'w cli \<Rightarrow> string \<Rightarrow> string \<Rightarrow> string \<Rightarrow> resource_type \<Rightarrow> binary_build_type \<Rightarrow> 'w \<Rightarrow> (gerr + unit) \<times> 'w" where
  "createBuildIfRequires C name namespace resource resourceType t =
     (case resourceType of
        GitRepositoryResource \<Rightarrow> returnS ()
      | GitFileResource \<Rightarrow> handleGitFileResourceBuild C name namespace resource
      | LocalDirectoryResource \<Rightarrow> handleLocalDirectoryResourceBuild C name namespace resource t
      | LocalBinaryDirectoryResource \<Rightarrow> handleLocalDirectoryResourceBuild C name namespace resource t
      | LocalFileResource \<Rightarrow> handleLocalFileResourceBuild C name namespace resource
      | BinaryResource \<Rightarrow> returnS ())"

text \<open>What is read from the flags and the file system before anything is written: the type of the resource, whether the build is native,
  the runtime, and whether the binaries are a legacy jar.\<close>

definition read_resource :: "'w cli \<Rightarrow> build_flags \<Rightarrow> string \<Rightarrow> 'w \<Rightarrow> gerr + resource_type \<times> bool \<times> string \<times> bool" where
  "read_resource C flags resource w =
     (let S = cli_outside C
      in bindR (GetResourceType S resource w) (\<lambda>t.
         bindR (FromArgsToNative S (bf_native flags) t resource w) (\<lambda>native.
         bindR (FromArgsToRuntimeType S (bf_runtime flags) t resource w) (\<lambda>runtime.
         bindR (ToQuarkusLegacyJarType S t resource w) (\<lambda>legacy. Inr (t, native, runtime, legacy))))))"

definition with_source :: "resource_type \<Rightarrow> string \<Rightarrow> build_flags \<Rightarrow> build_flags" where
  "with_source t resource flags =
     (if t = GitRepositoryResource then flags\<lparr>bf_gitSource := (bf_gitSource flags)\<lparr>fl_source := resource\<rparr>\<rparr> else flags)"

definition build_InstallBuildService :: "'w cli \<Rightarrow> build_flags \<Rightarrow> string \<Rightarrow> 'w \<Rightarrow> (gerr + unit) \<times> 'w" where
  "build_InstallBuildService C flags resource =
     (case validatePreRequisite C flags of
        Some e \<Rightarrow> failS e
      | None \<Rightarrow>
          bindS (liftS (read_resource C flags resource)) (\<lambda>(t, native, runtime, legacy).
          bindS (liftS (\<lambda>_. FromPodResourceFlagsToResourceRequirement (cli_outside C) (bf_podResources flags))) (\<lambda>resources.
          bindS (InstallBuildService C (build_of_flags (with_source t resource flags) t runtime native resources)) (\<lambda>_.
            createBuildIfRequires C (bf_name flags) (bf_project flags) resource t (FromArgsToBinaryBuildType t runtime native legacy)))))"

text \<open>A resource with only its key, for the deletion.\<close>

definition build_key :: "string \<Rightarrow> string \<Rightarrow> kogito_build" where
  "build_key name namespace =
     \<lparr>kb_meta = mk_meta name namespace,
      kb_spec = \<lparr>bs_type = [], bs_disableIncremental = False, bs_env = [], bs_gitSource = \<lparr>gs_uri = [], gs_reference = [], gs_contextDir = []\<rparr>,
        bs_runtime = [], bs_webHooks = [], bs_native = False, bs_resources = \<lparr>br_limits = None, br_requests = None\<rparr>,
        bs_mavenMirrorURL = [], bs_buildImage = [], bs_runtimeImage = [], bs_targetKogitoRuntime = [],
        bs_artifact = \<lparr>af_groupID = [], af_artifactID = [], af_version = []\<rparr>, bs_enableMavenDownloadOutput = False\<rparr>,
      kb_status = empty_build_status\<rparr>"

definition DeleteBuildService :: "'w cli \<Rightarrow> string \<Rightarrow> string \<Rightarrow> 'w \<Rightarrow> (gerr + unit) \<times> 'w" where
  "DeleteBuildService C name project w =
     (if \<not> cli_isOpenshift C then (Inr (), w)
      else (case CheckKogitoBuildExists C name project w of
              Some e \<Rightarrow> (Inl e, w)
            | None \<Rightarrow> Delete (va_store (cli_builds C)) (build_key name project) w))"

section \<open>Runtimes, runtime\_service.go\<close>

text \<open>The arguments are checked before, so that no other text arrives here.\<close>

definition FromRuntimeFlagsToRuntimeType :: "string \<Rightarrow> runtime_type" where
  "FromRuntimeFlagsToRuntimeType runtime = (if runtime = ''springboot'' then SpringBoot else Quarkus)"

definition nil_smap :: "smap option \<Rightarrow> smap" where
  "nil_smap m = (case m of None \<Rightarrow> [] | Some m \<Rightarrow> m)"

definition empty_service_spec :: service_spec where
  "empty_service_spec =
     \<lparr>ss_replicas = None, ss_env = [], ss_image = [], ss_insecureImageRegistry = False, ss_resources = \<lparr>rr_limits = [], rr_requests = []\<rparr>,
      ss_deploymentLabels = [], ss_serviceLabels = [], ss_propertiesConfigMap = [], ss_infra = [],
      ss_monitoring = \<lparr>mon_scheme = [], mon_path = []\<rparr>, ss_config = [],
      ss_probes = \<lparr>kp_liveness = zero_probe, kp_readiness = zero_probe, kp_startup = zero_probe\<rparr>,
      ss_trustStoreSecret = [], ss_disableRoute = False, ss_runtime = Quarkus\<rparr>"

definition service_of :: "string \<Rightarrow> string \<Rightarrow> service_spec \<Rightarrow> kogito_service" where
  "service_of name namespace sp = \<lparr>ks_meta = mk_meta name namespace, ks_spec = sp, ks_status = empty_service_status, ks_package = V1beta1\<rparr>"

text \<open>The fields that the flags of an installation set for runtimes and supporting services alike.\<close>

definition spec_of_flags :: "install_flags \<Rightarrow> string \<Rightarrow> smap option \<times> smap option \<Rightarrow> service_spec" where
  "spec_of_flags flags configMap resources =
     empty_service_spec\<lparr>ss_replicas := Some (if_replicas flags),
       ss_env := FromStringArrayToEnvs (fl_env (if_envs flags)) (fl_secretEnv (if_envs flags)),
       ss_image := fl_image (if_image flags),
       ss_resources := \<lparr>rr_limits = nil_smap (fst resources), rr_requests = nil_smap (snd resources)\<rparr>,
       ss_insecureImageRegistry := fl_insecureImageRegistry (if_image flags), ss_infra := if_infra flags,
       ss_propertiesConfigMap := configMap, ss_config := FromConfigFlagsToMap (if_config flags),
       ss_probes := FromProbeFlagToKogitoProbe (if_probes flags)\<rparr>"

definition runtime_of_flags :: "runtime_flags \<Rightarrow> string \<Rightarrow> smap option \<times> smap option \<Rightarrow> kogito_runtime" where
  "runtime_of_flags flags configMap resources =
     \<lparr>kr_service = service_of (rf_name flags) (if_project (rf_install flags))
        ((spec_of_flags (rf_install flags) configMap resources)\<lparr>
          ss_serviceLabels := FromStringsKeyPairToMap (rf_serviceLabels flags),
          ss_monitoring := FromMonitoringFlagToMonitoring (if_monitoring (rf_install flags)),
          ss_trustStoreSecret := if_trustStoreSecret (rf_install flags),
          ss_runtime := FromRuntimeFlagsToRuntimeType (rf_runtime flags)\<rparr>),
      kr_enableIstio = rf_enableIstio flags\<rparr>"

text \<open>The URL of the console is only printed; reading it may fail.\<close>

definition printMgmtConsoleInfo :: "'w cli \<Rightarrow> string \<Rightarrow> 'w \<Rightarrow> gerr + unit" where
  "printMgmtConsoleInfo C project w =
     bindR (FetchKogitoSupportingServiceRoute (va_store (cli_supporting C)) project MgmtConsole w) (\<lambda>_. Inr ())"

definition runtime_InstallRuntimeService :: "'w cli \<Rightarrow> runtime_flags \<Rightarrow> 'w \<Rightarrow> (gerr + unit) \<times> 'w" where
  "runtime_InstallRuntimeService C flags =
     (let project = if_project (rf_install flags)
      in bindS (CreateConfigMapFromFile (cli_outside C) (cli_configMaps C) (rf_name flags) project (if_config (rf_install flags))) (\<lambda>configMap.
         bindS (liftS (\<lambda>_. FromPodResourceFlagsToResourceRequirement (cli_outside C) (if_podResources (rf_install flags)))) (\<lambda>resources.
         bindS (InstallRuntimeService C (runtime_of_flags flags configMap resources)) (\<lambda>_.
           liftS (printMgmtConsoleInfo C project)))))"

definition runtime_key :: "string \<Rightarrow> string \<Rightarrow> kogito_runtime" where
  "runtime_key name namespace = \<lparr>kr_service = service_of name namespace empty_service_spec, kr_enableIstio = False\<rparr>"

definition DeleteRuntimeService :: "'w cli \<Rightarrow> string \<Rightarrow> string \<Rightarrow> 'w \<Rightarrow> (gerr + unit) \<times> 'w" where
  "DeleteRuntimeService C name project w =
     (case CheckKogitoRuntimeExists C name project w of
        Some e \<Rightarrow> (Inl e, w)
      | None \<Rightarrow> Delete (va_store (cli_runtimes C)) (runtime_key name project) w)"

section \<open>Commands, deploy\_service.go and delete\_service.go\<close>

record deploy_flags =
  df_build :: build_flags
  df_runtime :: runtime_flags
  df_runtimeType :: string

definition deploy_Args :: "'w cli \<Rightarrow> deploy_flags \<Rightarrow> string list \<Rightarrow> 'w \<Rightarrow> gerr option" where
  "deploy_Args C flags args w =
     (if length args > 2 then Some (PlainError (''requires 2 args maximum, received '' @ Itoa (int (length args))))
      else if args = [] then Some (PlainError ''the service requires a name '')
      else first_error [CheckRuntimeTypeArgs (df_runtimeType flags), CheckBuildArgs (cli_outside C) (df_build flags),
             CheckRuntimeArgs (cli_outside C) (df_runtime flags) w])"

definition deploy_installBuildService :: "'w cli \<Rightarrow> deploy_flags \<Rightarrow> string \<Rightarrow> string \<Rightarrow> string list \<Rightarrow> 'w \<Rightarrow> (gerr + unit) \<times> 'w" where
  "deploy_installBuildService C flags name project args =
     (if fl_image (if_image (rf_install (df_runtime flags))) \<noteq> [] then returnS ()
      else build_InstallBuildService C
             ((df_build flags)\<lparr>bf_name := name, bf_project := project, bf_runtime := df_runtimeType flags\<rparr>)
             (if length args = 2 then args ! 1 else []))"

definition deploy_installRuntimeService :: "'w cli \<Rightarrow> deploy_flags \<Rightarrow> string \<Rightarrow> string \<Rightarrow> 'w \<Rightarrow> (gerr + unit) \<times> 'w" where
  "deploy_installRuntimeService C flags name project =
     runtime_InstallRuntimeService C
       ((df_runtime flags)\<lparr>rf_name := name, rf_install := (rf_install (df_runtime flags))\<lparr>if_project := project\<rparr>, rf_runtime := df_runtimeType flags\<rparr>)"

definition deploy_Exec :: "'w cli \<Rightarrow> deploy_flags \<Rightarrow> string list \<Rightarrow> 'w \<Rightarrow> (gerr + unit) \<times> 'w" where
  "deploy_Exec C flags args =
     (case args of
        [] \<Rightarrow> failS (Panic ''index out of range'')
      | name # _ \<Rightarrow>
          bindS (EnsureProject C (if_project (rf_install (df_runtime flags)))) (\<lambda>project.
          bindS (deploy_installBuildService C flags name project args) (\<lambda>_.
            deploy_installRuntimeService C flags name project)))"

definition delete_Exec :: "'w cli \<Rightarrow> string \<Rightarrow> string list \<Rightarrow> 'w \<Rightarrow> (gerr + unit) \<times> 'w" where
  "delete_Exec C project0 args =
     (case args of
        [] \<Rightarrow> failS (Panic ''index out of range'')
      | name # _ \<Rightarrow>
          bindS (EnsureProject C project0) (\<lambda>project.
          bindS (DeleteRuntimeService C name project) (\<lambda>_. DeleteBuildService C name project)))"

text \<open>The command: the arguments are checked before it runs.\<close>

definition deploy_command :: "'w cli \<Rightarrow> deploy_flags \<Rightarrow> string list \<Rightarrow> 'w \<Rightarrow> (gerr + unit) \<times> 'w" where
  "deploy_command C flags args w =
     (case deploy_Args C flags args w of Some e \<Rightarrow> (Inl e, w) | None \<Rightarrow> deploy_Exec C flags args w)"

section \<open>What the client makes of its input\<close>

text \<open>The default flags make the operator look for the metrics of a Spring Boot service at the path of Quarkus.  The path that is not given is filled
  in by the client, so that the runtime is not asked for its default, the path of Spring Boot.\<close>

theorem springboot_monitored_as_quarkus:
  assumes "rf_runtime flags = ''springboot''" "if_monitoring (rf_install flags) = AddMonitoringFlags"
  shows "let inst = kr_service (runtime_of_flags flags configMap resources); unset = FromMonitoringFlagToMonitoring \<lparr>fl_scheme = [], fl_path = []\<rparr>
    in getMonitoringPath unset inst = ''/actuator/prometheus''
     \<and> isPrometheusAddOnAvailable M cx inst w =
         bindR (ht_head (mo_http M) (GetKogitoServiceURL cx inst @ ''/q/metrics'') w) (\<lambda>code. Inr (code = 200))"
  using assms by (simp add: Let_def runtime_of_flags_def service_of_def spec_of_flags_def isPrometheusAddOnAvailable_def getMonitoringPath_def
      FromMonitoringFlagToMonitoring_def AddMonitoringFlags_def FromRuntimeFlagsToRuntimeType_def)

lemma add_files_append:
  "list_all (\<lambda>x. add x \<noteq> Inl e \<and> (\<exists>fs. add x = Inr fs)) xs \<Longrightarrow>
   add_files add (xs @ ys) = (concat (map (projr \<circ> add) xs) @ fst (add_files add ys), snd (add_files add ys))"
  by (induction xs) (auto split: prod.splits)

definition selected :: "bool \<Rightarrow> (string \<times> bool) option \<Rightarrow> bool" where
  "selected maven info = (case info of None \<Rightarrow> False | Some (n, d) \<Rightarrow> maven \<or> IsSuffixSupported n SourceToImageBuild \<and> \<not> d)"

text \<open>A source build goes on with an incomplete archive.  When a file of the directory cannot be added, the files that come after it are left out,
  and the call answers with the files before it and without an error.\<close>

theorem source_archive_incomplete:
  assumes "HasSuffix dir ''/''" "isMavenProject C dir w = Inr maven" "cli_walk C dir w = before @ (path, info) # after"
    "list_all (\<lambda>(p, i). i \<noteq> None \<and> cli_addToArchive C p w = Inr ()) before" "selected maven info"
    "cli_addToArchive C path w = Inl e" "\<not> is_panic e"
  shows "CompressAsTGZ C dir SourceToImageBuild w = Inr (map fst (filter (\<lambda>(p, i). selected maven i) before))"
proof -
  define add where "add = (\<lambda>(path, info). case info of
         None \<Rightarrow> Inl (Panic ''nil pointer dereference'')
       | Some (n, d) \<Rightarrow> if maven \<or> IsSuffixSupported n SourceToImageBuild \<and> \<not> d then zipFile C path w else Inr [])"
  have each: "add (p, i) = Inr (if selected maven i then [p] else [])" if "(p, i) \<in> set before" for p i
    using assms(4) that by (auto simp: add_def selected_def zipFile_def list_all_iff)
  have ok: "list_all (\<lambda>x. add x \<noteq> Inl e \<and> (\<exists>fs. add x = Inr fs)) before" using each by (auto simp: list_all_iff)
  have files: "concat (map (projr \<circ> add) before) = map fst (filter (\<lambda>(p, i). selected maven i) before)"
    using each by (induction before) (auto split: prod.splits)
  have fails: "add (path, info) = Inl e"
    using assms(5,6) by (auto simp: add_def selected_def zipFile_def split: option.splits)
  have "walk_files C dir maven SourceToImageBuild w = (map fst (filter (\<lambda>(p, i). selected maven i) before), Some e)"
    unfolding walk_files_def add_def [symmetric] assms(3) by (simp add: add_files_append [OF ok] fails files)
  then show ?thesis using assms(1,2,7) by (cases e) (simp_all add: CompressAsTGZ_def)
qed

text \<open>Deleting a service that was deployed from an image.  With an image the command deploys no build, and on OpenShift the deletion of the
  service, after it has deleted the runtime, reports that there is no build.\<close>

theorem delete_image_service_fails:
  assumes "fl_image (if_image (rf_install (df_runtime flags))) \<noteq> []"
    "cli_isOpenshift C" "EnsureProject C p0 w = (Inr project, w1)" "CheckKogitoRuntimeExists C name project w1 = None"
    "Delete (va_store (cli_runtimes C)) (runtime_key name project) w1 = (Inr (), w2)" "isKogitoBuildExists C name project w2 = Inr False"
  shows "deploy_Exec C flags (name # args) =
       bindS (EnsureProject C (if_project (rf_install (df_runtime flags)))) (deploy_installRuntimeService C flags name)
    \<and> delete_Exec C p0 [name] w = (Inl (PlainError (''Looks like a Kogito Build with the name '' @ quoted name @
          '' doesn't exist in this project context (namespace). Please try another name '')), w2)"
proof -
  have skip: "bindS (returnS ()) f = f ()" for f :: "unit \<Rightarrow> 'a \<Rightarrow> (gerr + unit) \<times> 'a" by (simp add: fun_eq_iff bindS_def returnS_def)
  show ?thesis
    using assms by (simp add: deploy_Exec_def deploy_installBuildService_def skip delete_Exec_def DeleteRuntimeService_def DeleteBuildService_def
        CheckKogitoBuildExists_def bindS_def)
qed

section \<open>Examples\<close>

definition sample_runtime_flags :: runtime_flags where
  "sample_runtime_flags =
     \<lparr>rf_install = \<lparr>if_podResources = \<lparr>fl_limits = None, fl_requests = None\<rparr>, if_image = \<lparr>fl_image = ''quay.io/me/app'', fl_insecureImageRegistry = False\<rparr>,
        if_envs = \<lparr>fl_env = [], fl_secretEnv = []\<rparr>, if_monitoring = AddMonitoringFlags, if_config = \<lparr>fl_config = [], fl_configFile = []\<rparr>,
        if_probes = \<lparr>fl_livenessInitialDelay = 0, fl_readinessInitialDelay = 0\<rparr>, if_project = ''new'', if_replicas = 1, if_infra = [],
        if_trustStoreSecret = []\<rparr>, rf_runtime = ''springboot'', rf_name = ''app'', rf_enableIstio = False, rf_serviceLabels = []\<rparr>"

definition sample_deploy_flags :: deploy_flags where
  "sample_deploy_flags =
     \<lparr>df_build = \<lparr>bf_gitSource = \<lparr>fl_reference = [], fl_contextDir = [], fl_source = []\<rparr>, bf_runtime = [],
       bf_podResources = \<lparr>fl_limits = None, fl_requests = None\<rparr>,
       bf_artifact = \<lparr>fl_projectGroupID = [], fl_projectArtifactID = [], fl_projectVersion = []\<rparr>, bf_webHook = None,
       bf_envs = \<lparr>fl_env = [], fl_secretEnv = []\<rparr>, bf_name = [], bf_project = [], bf_incrementalBuild = True, bf_native = False,
       bf_mavenMirrorURL = [], bf_buildImage = [], bf_runtimeImage = [], bf_targetRuntime = [], bf_enableMavenDownloadOutput = False\<rparr>,
      df_runtime = sample_runtime_flags, df_runtimeType = ''springboot''\<rparr>"

definition deployed_world :: cli_world where
  "deployed_world =
     \<lparr>cw_config = \<lparr>kcfg_current = ''new/host'', kcfg_contexts = [(''new/host'', ''new'')]\<rparr>, cw_namespaces = [mk_meta ''new'' []],
      cw_runtimes = [runtime_of_flags sample_runtime_flags [] (None, None)], cw_builds = [], cw_supporting = []\<rparr>"

theorem springboot_monitored_as_quarkus_witness:
  "getMonitoringPath (FromMonitoringFlagToMonitoring \<lparr>fl_scheme = [], fl_path = []\<rparr>) (kr_service (runtime_of_flags sample_runtime_flags [] (None, None))) =
     ''/actuator/prometheus''"
proof -
  have "rf_runtime sample_runtime_flags = ''springboot''" "if_monitoring (rf_install sample_runtime_flags) = AddMonitoringFlags"
    by (simp_all add: sample_runtime_flags_def)
  from springboot_monitored_as_quarkus [OF this, of "[]" "(None, None)"] show ?thesis unfolding Let_def by (rule conjunct1)
qed

definition failing_cli :: "unit cli" where
  "failing_cli = \<lparr>cli_outside = file_system [] [], cli_isOpenshift = True, cli_discovery = None,
      cli_runtimes = \<lparr>va_store = lens_api (\<lambda>_. []) (\<lambda>_ w. w) (mem_api (\<lambda>r. ks_meta (kr_service r))), va_copyVersion = (\<lambda>_ x. x)\<rparr>,
      cli_builds = \<lparr>va_store = lens_api (\<lambda>_. []) (\<lambda>_ w. w) (mem_api kb_meta), va_copyVersion = (\<lambda>_ x. x)\<rparr>,
      cli_supporting = \<lparr>va_store = lens_api (\<lambda>_. []) (\<lambda>_ w. w) (mem_api (\<lambda>s. ks_meta (sup_service s))), va_copyVersion = (\<lambda>_ x. x)\<rparr>,
      cli_infras = \<lparr>va_store = lens_api (\<lambda>_. []) (\<lambda>_ w. w) (mem_api ki_meta), va_copyVersion = (\<lambda>_ x. x)\<rparr>,
      cli_configMaps = lens_api (\<lambda>_. []) (\<lambda>_ w. w) (mem_api cm_meta), cli_namespaces = lens_api (\<lambda>_. []) (\<lambda>_ w. w) (mem_api id),
      cli_getConfig = (\<lambda>ns n w. Inl (ApiError SNotFound n)), cli_instantiateBinary = (\<lambda>ns n w. (Inl (PlainError n), w)),
      cli_kubeConfigFile = [], cli_kubeConfig = (\<lambda>_. \<lparr>kcfg_current = [], kcfg_contexts = []\<rparr>), cli_writeKubeConfig = (\<lambda>c w. (Inr (), w)),
      cli_download = (\<lambda>u w. Inr ()), cli_open = (\<lambda>p w. Inr ()),
      cli_walk = (\<lambda>p w. [(''src/'', Some (''src'', True)), (''src/a.drl'', Some (''a.drl'', False)), (''src/b.drl'', Some (''b.drl'', False)),
        (''src/c.drl'', Some (''c.drl'', False))]),
      cli_addToArchive = (\<lambda>p w. if p = ''src/b.drl'' then Inl (PlainError ''permission denied'') else Inr ())\<rparr>"

lemma failing_cli_sel [simp]:
  "cli_outside failing_cli = file_system [] []"
  "cli_walk failing_cli p w = [(''src/'', Some (''src'', True)), (''src/a.drl'', Some (''a.drl'', False))] @
     (''src/b.drl'', Some (''b.drl'', False)) # [(''src/c.drl'', Some (''c.drl'', False))]"
  "cli_addToArchive failing_cli p w = (if p = ''src/b.drl'' then Inl (PlainError ''permission denied'') else Inr ())"
  by (simp_all add: failing_cli_def)

theorem source_archive_incomplete_witness: "CompressAsTGZ failing_cli ''src/'' SourceToImageBuild () = Inr [''src/a.drl'']"
proof -
  have "HasSuffix ''src/'' ''/''" "isMavenProject failing_cli ''src/'' () = Inr False" "selected False (Some (''b.drl'', False))"
    by (simp_all add: HasSuffix_def isMavenProject_def file_system_def selected_def IsSuffixSupported_def)
  from source_archive_incomplete [OF this(1,2) failing_cli_sel(2) _ this(3), of "PlainError ''permission denied''"] show ?thesis
    by (simp add: selected_def IsSuffixSupported_def HasSuffix_def ex_bool_eq)
qed

theorem delete_image_service_fails_witness:
  "\<exists>m. delete_Exec sample_cli ''new'' [''app''] deployed_world = (Inl (PlainError m), deployed_world\<lparr>cw_runtimes := []\<rparr>)"
proof -
  have "EnsureProject sample_cli ''new'' deployed_world = (Inr ''new'', deployed_world)"
    by (simp add: EnsureProject_def Let_def checkProjectExists_def namespace_Fetch_def FetchWithKey_def
        getCurrentNamespaceFromKubeConfig_def deployed_world_def mem_simps mk_meta_def)
  moreover have "CheckKogitoRuntimeExists sample_cli ''app'' ''new'' deployed_world = None"
    by (simp add: CheckKogitoRuntimeExists_def isKogitoRuntimeExists_def resource_exists_def FetchWithKey_def deployed_world_def mem_simps
        mk_meta_def runtime_of_flags_def service_of_def sample_runtime_flags_def)
  moreover have "Delete (va_store (cli_runtimes sample_cli)) (runtime_key ''app'' ''new'') deployed_world = (Inr (), deployed_world\<lparr>cw_runtimes := []\<rparr>)"
    by (simp add: Delete_def deployed_world_def mem_simps mk_meta_def runtime_of_flags_def service_of_def sample_runtime_flags_def runtime_key_def)
  moreover have "isKogitoBuildExists sample_cli ''app'' ''new'' (deployed_world\<lparr>cw_runtimes := []\<rparr>) = Inr False"
    by (simp add: isKogitoBuildExists_def resource_exists_def FetchWithKey_def deployed_world_def mem_simps IsNotFound_def)
  moreover have "fl_image (if_image (rf_install (df_runtime sample_deploy_flags))) \<noteq> []"
    by (simp add: sample_deploy_flags_def sample_runtime_flags_def)
  ultimately show ?thesis using delete_image_service_fails [of sample_deploy_flags sample_cli "''new''" deployed_world "''new''"] by auto
qed

end
