(* ===== verification/Cli_Install.thy ===== *)
theory Cli_Install
  imports Cli_Deploy
begin

text \<open>
  The commands that install and remove infras and supporting services and that manage projects: \<^verbatim>\<open>cmd/kogito/command/install\<close>,
  \<^verbatim>\<open>remove\<close> and \<^verbatim>\<open>project\<close>.
\<close>

section \<open>Installation\<close>

record infra_flags =
  inf_resource :: infra_resource_flags
  inf_properties :: "string list"
  inf_envs :: env_var_flags
  inf_project :: string

definition infra_Args :: "infra_flags \<Rightarrow> string list \<Rightarrow> gerr option" where
  "infra_Args flags args =
     (if length args > 1 then Some (PlainError (''requires 1 arg, received '' @ Itoa (int (length args))))
      else if args = [] then Some (PlainError ''the kogito infra service requires a name '')
      else first_error [CheckInfraResourceArgs (inf_resource flags), CheckPropertiesArgs (inf_properties flags), CheckEnvVarArgs (inf_envs flags)])"

definition infra_key :: "string \<Rightarrow> string \<Rightarrow> kogito_infra" where
  "infra_key name namespace =
     \<lparr>ki_meta = mk_meta name namespace,
      ki_spec = \<lparr>is_resource = None, is_infraProperties = [], is_envs = [], is_configMapEnvFrom = [], is_configMapVolumes = [],
        is_secretEnvFrom = [], is_secretVolumes = []\<rparr>,
      ki_status = \<lparr>ist_conditions = None, ist_envs = [], ist_configMapEnvFrom = [], ist_configMapVolumes = [], ist_secretEnvFrom = [],
        ist_secretVolumes = []\<rparr>\<rparr>"

definition infra_of_flags :: "infra_flags \<Rightarrow> string \<Rightarrow> string \<Rightarrow> kogito_infra" where
  "infra_of_flags flags name project =
     (let i = infra_key name project
      in i\<lparr>ki_spec := (ki_spec i)\<lparr>is_resource := FromInfraResourceFlagsToResource (inf_resource flags),
             is_infraProperties := FromPropertiesFlagToStringMap (inf_properties flags),
             is_envs := FromStringArrayToEnvs (fl_env (inf_envs flags)) (fl_secretEnv (inf_envs flags))\<rparr>\<rparr>)"

definition infra_Exec :: "'w cli \<Rightarrow> infra_flags \<Rightarrow> string list \<Rightarrow> 'w \<Rightarrow> (gerr + unit) \<times> 'w" where
  "infra_Exec C flags args =
     bindS (EnsureProject C (inf_project flags)) (\<lambda>project.
       case args of [] \<Rightarrow> failS (Panic ''index out of range'') | name # _ \<Rightarrow> InstallInfraResource C (infra_of_flags flags name project))"

text \<open>Command, name of the service, type.\<close>

definition installableSupportingServices :: "(string \<times> string \<times> string) list" where
  "installableSupportingServices =
     [(''data-index'', ''data-index'', DataIndex), (''explainability'', ''explainability'', Explainability),
      (''jobs-service'', ''jobs-service'', JobsService), (''mgmt-console'', ''management-console'', MgmtConsole),
      (''task-console'', ''task-console'', TaskConsole), (''trusty'', ''trusty'', TrustyAI), (''trusty-ui'', ''trusty-ui'', TrustyUI)]"

text \<open>The flags for monitoring and for the trust store are accepted, but not carried into the resource.\<close>

definition supporting_of_flags :: "install_flags \<Rightarrow> string \<Rightarrow> string \<Rightarrow> string \<Rightarrow> string \<Rightarrow> smap option \<times> smap option \<Rightarrow> supporting_service" where
  "supporting_of_flags flags name project serviceType configMap resources =
     \<lparr>sup_service = service_of name project (spec_of_flags flags configMap resources), sup_type = serviceType\<rparr>"

definition installSupporting_Exec :: "'w cli \<Rightarrow> string \<times> string \<times> string \<Rightarrow> install_flags \<Rightarrow> 'w \<Rightarrow> (gerr + unit) \<times> 'w" where
  "installSupporting_Exec C service flags =
     (case service of (cmdName, serviceName, serviceType) \<Rightarrow>
        bindS (EnsureProject C (if_project flags)) (\<lambda>project.
        bindS (CreateConfigMapFromFile (cli_outside C) (cli_configMaps C) serviceName project (if_config flags)) (\<lambda>configMap.
        bindS (liftS (\<lambda>_. FromPodResourceFlagsToResourceRequirement (cli_outside C) (if_podResources flags))) (\<lambda>resources.
          InstallSupportingService C (supporting_of_flags flags serviceName project serviceType configMap resources)))))"

section \<open>Removal\<close>

definition removableSupportingServices :: "(string \<times> string) list" where
  "removableSupportingServices =
     [(''data-index'', DataIndex), (''explainability'', Explainability), (''jobs-service'', JobsService), (''mgmt-console'', MgmtConsole),
      (''task-console'', TaskConsole), (''trusty'', TrustyAI), (''trusty-ui'', TrustyUI)]"

definition removeInfra_Exec :: "'w cli \<Rightarrow> string \<Rightarrow> string list \<Rightarrow> 'w \<Rightarrow> (gerr + unit) \<times> 'w" where
  "removeInfra_Exec C project0 args =
     (case args of
        [] \<Rightarrow> failS (Panic ''index out of range'')
      | name # _ \<Rightarrow>
          bindS (EnsureProject C project0) (\<lambda>project w.
            case CheckKogitoInfraExists C name project w of
              Some e \<Rightarrow> (Inl e, w)
            | None \<Rightarrow> Delete (va_store (cli_infras C)) (infra_key name project) w))"

text \<open>The deletion of one service; the message names the service where it means the namespace.\<close>

definition remove_service :: "'w cli \<Rightarrow> string \<Rightarrow> supporting_service \<Rightarrow> 'w \<Rightarrow> (gerr + unit) \<times> 'w" where
  "remove_service C cmdName s w =
     (case Delete (va_store (cli_supporting C)) s w of
        (Inl e, w') \<Rightarrow>
          (Inl (PlainError (''error occurs while delete Service '' @ cmdName @ '' from namespace '' @ ks_name (sup_service s) @ ''. Error '' @
             error_message e)), w')
      | (Inr _, w') \<Rightarrow> (Inr (), w'))"

definition removeSupporting_Exec :: "'w cli \<Rightarrow> string \<times> string \<Rightarrow> string \<Rightarrow> 'w \<Rightarrow> (gerr + unit) \<times> 'w" where
  "removeSupporting_Exec C service project0 =
     (case service of (cmdName, serviceType) \<Rightarrow>
        bindS (EnsureProject C project0) (\<lambda>project.
        bindS (liftS (ListWithNamespace (va_store (cli_supporting C)) project)) (\<lambda>services.
          eachS (remove_service C cmdName) (filter (\<lambda>s. sup_type s = serviceType) services))))"

section \<open>Projects\<close>

definition deleteProject_Exec :: "'w cli \<Rightarrow> string list \<Rightarrow> 'w \<Rightarrow> (gerr + unit) \<times> 'w" where
  "deleteProject_Exec C args =
     (case args of
        [] \<Rightarrow> failS (Panic ''index out of range'')
      | name # _ \<Rightarrow> bindS (EnsureProject C name) (\<lambda>project. Delete (cli_namespaces C) (mk_meta project [])))"

definition newProject_Exec :: "'w cli \<Rightarrow> string \<Rightarrow> 'w \<Rightarrow> (gerr + unit) \<times> 'w" where
  "newProject_Exec C project w =
     (case namespace_Fetch (cli_namespaces C) project w of
        Inl e \<Rightarrow> (Inl e, w)
      | Inr (Some _) \<Rightarrow> (Inr (), w)
      | Inr None \<Rightarrow> bindS (namespace_Create (cli_namespaces C) project) (\<lambda>ns. setCurrentNamespaceToKubeConfig C (om_name ns)) w)"

definition useProject_Exec :: "'w cli \<Rightarrow> string \<Rightarrow> 'w \<Rightarrow> (gerr + unit) \<times> 'w" where
  "useProject_Exec C project w =
     (case namespace_Fetch (cli_namespaces C) project w of
        Inl e \<Rightarrow> (Inl (PlainError (''Error while trying to look for the project. Are you logged in? '' @ error_message e @ '' '')), w)
      | Inr (Some _) \<Rightarrow> setCurrentNamespaceToKubeConfig C project w
      | Inr None \<Rightarrow> (Inl (PlainError (''Project '' @ quoted project @ '' not found. Try running '' @ [CHR 0x27] @ ''kogito new-project '' @ project @ [CHR 0x27] @
          '' to create your Project first '')), w))"

definition useProject_Args :: "'w cli \<Rightarrow> string \<Rightarrow> string list \<Rightarrow> 'w \<Rightarrow> gerr + string" where
  "useProject_Args C project args w =
     (if project \<noteq> [] then Inr project
      else (case args of
              a # _ \<Rightarrow> Inr a
            | [] \<Rightarrow>
                let namespace = getCurrentNamespaceFromKubeConfig (cli_kubeConfig C w)
                in if namespace = [] then Inl (PlainError ''Can't identify the current context '') else Inr namespace))"

definition newProject_Args :: "string \<Rightarrow> string list \<Rightarrow> gerr + string" where
  "newProject_Args project args =
     (if project \<noteq> [] then Inr project
      else (case args of a # _ \<Rightarrow> Inr a | [] \<Rightarrow> Inl (PlainError ''Please set a project for new-project'')))"

section \<open>The client and the operator\<close>

text \<open>Client and operator know the same supporting services.  Every service that the client installs has a reconciler in the operator and messages in the
  client, so that neither dereferences a nil pointer, the command that removes it has the same name and type, and the operator knows no
  other types.\<close>

theorem supporting_types_agree:
  "list_all (\<lambda>(cmdName, serviceName, serviceType).
       map_of (supporting_getSupportedResources E) serviceType \<noteq> None
     \<and> getSupportingServiceInfoMessages serviceType \<noteq> None
     \<and> map_of removableSupportingServices cmdName = Some serviceType) installableSupportingServices
   \<and> fst ` set (supporting_getSupportedResources E) = (snd \<circ> snd) ` set installableSupportingServices"
  by (auto simp: installableSupportingServices_def removableSupportingServices_def supporting_getSupportedResources_def
      getSupportingServiceInfoMessages_def)

section \<open>Removal of supporting services\<close>

text \<open>What a deletion does to the objects of a namespace.\<close>

definition delete_removes :: "('w, 'o) store_api \<Rightarrow> bool" where
  "delete_removes A \<longleftrightarrow> (\<forall>x w w' ns ys. sa_delete A x w = (Inr (), w') \<longrightarrow> sa_list A ns [] w = Inr ys \<longrightarrow>
     sa_list A ns [] w' = Inr (filter (\<lambda>y. (om_namespace (sa_meta A y), om_name (sa_meta A y)) \<noteq> (om_namespace (sa_meta A x), om_name (sa_meta A x))) ys))"

abbreviation sup_key :: "supporting_service \<Rightarrow> string \<times> string" where
  "sup_key s \<equiv> (ks_namespace (sup_service s), ks_name (sup_service s))"

lemma remove_all:
  assumes "delete_removes (va_store (cli_supporting C))" "sa_meta (va_store (cli_supporting C)) = (\<lambda>s. ks_meta (sup_service s))"
  shows "eachS (remove_service C cmdName) ts w = (Inr (), w') \<Longrightarrow> sa_list (va_store (cli_supporting C)) ns [] w = Inr ys \<Longrightarrow>
    sa_list (va_store (cli_supporting C)) ns [] w' = Inr (filter (\<lambda>y. sup_key y \<notin> sup_key ` set ts) ys)"
proof (induction ts arbitrary: w ys)
  case (Cons t ts)
  then obtain w1 where w1: "remove_service C cmdName t w = (Inr (), w1)" "eachS (remove_service C cmdName) ts w1 = (Inr (), w')"
    by (auto simp: bindS_eq_Inr)
  then have "sa_delete (va_store (cli_supporting C)) t w = (Inr (), w1)"
    by (auto simp: remove_service_def Delete_def split: prod.splits sum.splits)
  then have "sa_list (va_store (cli_supporting C)) ns [] w1 = Inr (filter (\<lambda>y. sup_key y \<noteq> sup_key t) ys)"
    using assms(1) Cons.prems(2) unfolding delete_removes_def assms(2) by blast
  from Cons.IH [OF w1(2) this] show ?case by (simp add: conj_commute)
qed simp

text \<open>Removing a supporting service removes all of its kind.  After a successful run the project lists exactly the services of other types that it listed
  before.  The listed services have distinct keys and a deletion takes exactly the deleted object out of the list.\<close>

theorem removeSupporting_complete:
  assumes "delete_removes (va_store (cli_supporting C))" "sa_meta (va_store (cli_supporting C)) = (\<lambda>s. ks_meta (sup_service s))"
    "EnsureProject C project0 w = (Inr project, w1)" "ListWithNamespace (va_store (cli_supporting C)) project w1 = Inr services"
    "distinct (map sup_key services)" "removeSupporting_Exec C (cmdName, serviceType) project0 w = (Inr (), w')"
  shows "ListWithNamespace (va_store (cli_supporting C)) project w' = Inr (filter (\<lambda>s. sup_type s \<noteq> serviceType) services)"
proof -
  let ?ts = "filter (\<lambda>s. sup_type s = serviceType) services"
  have "eachS (remove_service C cmdName) ?ts w1 = (Inr (), w')"
    using assms(3,4,6) by (simp add: removeSupporting_Exec_def bindS_def)
  from remove_all [OF assms(1,2) this] assms(4)
  have "ListWithNamespace (va_store (cli_supporting C)) project w' = Inr (filter (\<lambda>y. sup_key y \<notin> sup_key ` set ?ts) services)"
    by (simp add: ListWithNamespace_def)
  moreover have "filter (\<lambda>y. sup_key y \<notin> sup_key ` set ?ts) services = filter (\<lambda>s. sup_type s \<noteq> serviceType) services"
    using assms(5) by (intro filter_cong) (auto simp: distinct_map inj_on_def)
  ultimately show ?thesis by simp
qed

lemma delete_removes_mem: "delete_removes (lens_api g p (mem_api meta))" if "\<And>x w. g (p x w) = x"
  using that by (auto simp: delete_removes_def mem_simps Let_def filter_filter conj_commute split: if_splits prod.splits intro!: filter_cong)

definition installed_world :: cli_world where
  "installed_world = deployed_world\<lparr>cw_supporting :=
     [\<lparr>sup_service = service_of ''data-index'' ''new'' empty_service_spec, sup_type = DataIndex\<rparr>,
      \<lparr>sup_service = service_of ''other-index'' ''new'' empty_service_spec, sup_type = DataIndex\<rparr>,
      \<lparr>sup_service = service_of ''jobs-service'' ''new'' empty_service_spec, sup_type = JobsService\<rparr>]\<rparr>"

theorem removeSupporting_complete_witness:
  "ListWithNamespace (va_store (cli_supporting sample_cli)) ''new''
     (snd (removeSupporting_Exec sample_cli (''data-index'', DataIndex) ''new'' installed_world)) =
   Inr [\<lparr>sup_service = service_of ''jobs-service'' ''new'' empty_service_spec, sup_type = JobsService\<rparr>]"
proof -
  have project: "EnsureProject sample_cli ''new'' installed_world = (Inr ''new'', installed_world)"
    by (simp add: EnsureProject_def Let_def checkProjectExists_def namespace_Fetch_def FetchWithKey_def
        getCurrentNamespaceFromKubeConfig_def installed_world_def deployed_world_def mem_simps mk_meta_def)
  have listed: "ListWithNamespace (va_store (cli_supporting sample_cli)) ''new'' installed_world = Inr (cw_supporting installed_world)"
    by (simp add: ListWithNamespace_def installed_world_def mem_simps service_of_def mk_meta_def)
  have run: "removeSupporting_Exec sample_cli (''data-index'', DataIndex) ''new'' installed_world =
     (Inr (), installed_world\<lparr>cw_supporting := [cw_supporting installed_world ! 2]\<rparr>)"
    using project listed
    by (simp add: removeSupporting_Exec_def bindS_def installed_world_def remove_service_def Delete_def mem_simps service_of_def mk_meta_def)
  have "delete_removes (va_store (cli_supporting sample_cli))" by (simp add: delete_removes_mem)
  from removeSupporting_complete [OF this _ project listed _ run] run show ?thesis
    by (simp add: installed_world_def service_of_def mk_meta_def)
qed

end
