(* ===== verification/Controller_Watches.thy ===== *)
theory Controller_Watches
  imports Supporting_Service
begin

text \<open>
  Which events make the controllers run, \<^verbatim>\<open>SetupWithManager\<close> of \<^verbatim>\<open>controllers/common\<close>, and that the controller of deployments comes to rest although its own
  writes are among the events it watches.
\<close>

section \<open>Events\<close>

text \<open>The old and the new object of an update, and whether the new one is being deleted.\<close>

datatype 'o watch_event = Created 'o | Updated 'o 'o bool | Deleted 'o

definition runtime_watched :: "kogito_runtime watch_event \<Rightarrow> bool" where
  "runtime_watched e = (case e of Created _ \<Rightarrow> True | Updated old new deleting \<Rightarrow> \<not> deleting | Deleted _ \<Rightarrow> False)"

definition supporting_watched :: "supporting_service watch_event \<Rightarrow> bool" where
  "supporting_watched e = (case e of Created _ \<Rightarrow> True | Updated old new deleting \<Rightarrow> \<not> deleting | Deleted _ \<Rightarrow> False)"

definition infra_watched :: "kogito_infra watch_event \<Rightarrow> bool" where
  "infra_watched e =
     (case e of Created _ \<Rightarrow> True | Updated old new deleting \<Rightarrow> om_owners (ki_meta new) = om_owners (ki_meta old) | Deleted _ \<Rightarrow> True)"

definition runtimeDeployment_watched :: "deployment watch_event \<Rightarrow> bool" where
  "runtimeDeployment_watched e =
     (case e of
        Created d \<Rightarrow> MapContains (om_annotations (dep_meta d)) ''kogito.kie.org/runtime'' ''true''
      | Updated old new deleting \<Rightarrow> MapContains (om_annotations (dep_meta new)) ''kogito.kie.org/runtime'' ''true'' \<and> \<not> deleting
      | Deleted _ \<Rightarrow> False)"

text \<open>The predicate of the infra controller is meant to skip the updates that only add or remove an owner; it skips every update that does, also one
  that changes the specification.\<close>

lemma infra_update_dropped: "ki_meta new = (ki_meta old)\<lparr>om_owners := ow # om_owners (ki_meta old)\<rparr> \<Longrightarrow> \<not> infra_watched (Updated old new deleting)"
  by (simp add: infra_watched_def)

section \<open>Injection comes to rest\<close>

text \<open>The name of the endpoint config map that is mounted, if there is one.\<close>

definition endpoint_name :: "'w cluster \<Rightarrow> ('w, supporting_service) store_api \<Rightarrow> string \<Rightarrow> string \<Rightarrow> 'w \<Rightarrow> gerr + string option" where
  "endpoint_name K S t ns w =
     bindR (FetchKogitoSupportingServiceForServiceType S ns t w) (\<lambda>s. case s of
        None \<Rightarrow> Inr None
      | Some s \<Rightarrow> bindR (FetchEndPointConfigMap K (ks_namespace (sup_service s)) (ks_name (sup_service s)) w) (\<lambda>c.
          Inr (map_option (\<lambda>c. om_name (cm_meta c)) c)))"

lemma inject_mounts:
  "injectSupportingServiceURLIntoDeployment K S t d w =
     bindR (endpoint_name K S t (om_namespace (dep_meta d)) w) (\<lambda>cm. case cm of None \<Rightarrow> Inr d | Some n \<Rightarrow> cm_MountAsEnvFrom d n)"
  by (auto simp: injectSupportingServiceURLIntoDeployment_def endpoint_name_def bindR_def split: option.split sum.split)

lemma add_env_from_fixed: "add_env_from n c = c \<longleftrightarrow> list_ex (\<lambda>ef. ef_configMapRef ef = Some n) (c_envFrom c)"
proof (cases "list_ex (\<lambda>ef. ef_configMapRef ef = Some n) (c_envFrom c)")
  case False
  then have "c_envFrom (add_env_from n c) \<noteq> c_envFrom c" by (simp add: add_env_from_def)
  then show ?thesis using False by auto
qed (simp add: add_env_from_def)

text \<open>What an injection leaves in place stays in place under the other injections.\<close>

lemma mount_stays:
  assumes "cm_MountAsEnvFrom d n = Inr d" "cm_MountAsEnvFrom d m = Inr d'"
  shows "cm_MountAsEnvFrom d' n = Inr d'"
proof -
  obtain c cs where c: "dep_containers d = c # cs" "d' = set_containers (add_env_from m c # cs) d"
    using assms(2) unfolding cm_MountAsEnvFrom_Inr by blast
  obtain c' cs' where c': "dep_containers d = c' # cs'" "d = set_containers (add_env_from n c' # cs') d"
    using assms(1) unfolding cm_MountAsEnvFrom_Inr by blast
  have "c # cs = add_env_from n c # cs" using c(1) c' set_containers_simps(1) by (metis list.inject)
  then have "add_env_from n c = c" by simp
  then have "add_env_from n (add_env_from m c) = add_env_from m c" unfolding add_env_from_fixed by (simp add: add_env_from_def)
  then show ?thesis unfolding c(2) cm_MountAsEnvFrom_Inr by simp
qed

lemma inject_meta: "injectSupportingServiceURLIntoDeployment K S t d w = Inr d' \<Longrightarrow> dep_meta d' = dep_meta d"
  by (rule inject_security [THEN conjunct2, THEN conjunct2])

lemma injected_stays:
  assumes "injectSupportingServiceURLIntoDeployment K S t d w = Inr d" "injectSupportingServiceURLIntoDeployment K S t' d w = Inr d'"
  shows "injectSupportingServiceURLIntoDeployment K S t d' w = Inr d'"
proof -
  obtain cm where cm: "endpoint_name K S t (om_namespace (dep_meta d)) w = Inr cm" "\<And>n. cm = Some n \<Longrightarrow> cm_MountAsEnvFrom d n = Inr d"
    using assms(1) unfolding inject_mounts bindR_eq_Inr by (force split: option.split_asm)
  have "d' = d \<or> (\<exists>m. cm_MountAsEnvFrom d m = Inr d')"
    using assms(2) unfolding inject_mounts bindR_eq_Inr by (auto split: option.split_asm)
  then have "cm_MountAsEnvFrom d' n = Inr d'" if "cm = Some n" for n using cm(2) [OF that] mount_stays by blast
  then show ?thesis unfolding inject_mounts inject_meta [OF assms(2)] cm(1) by (simp split: option.split)
qed

lemma injected: "injectSupportingServiceURLIntoDeployment K S t d w = Inr d' \<Longrightarrow> injectSupportingServiceURLIntoDeployment K S t d' w = Inr d'"
  by (rule inject_endpoint_once [THEN conjunct1])

lemmas inject_steps = InjectDataIndexEndpointOnDeployment_def InjectJobsServiceEndpointOnDeployment_def InjectTrustyEndpointOnDeployment_def

lemma inject_annotations:
  "injectSupportingServiceURLIntoDeployment K S t d w = Inr d' \<Longrightarrow> pt_annotations (dep_template d') = pt_annotations (dep_template d)"
  by (drule inject_cases) (auto simp: set_containers_def)

text \<open>After the three injections nothing is left to inject, and key and annotations are those of the deployment before.\<close>

lemma inject_endpoints_rest:
  assumes "inject_endpoints K S d w = Inr d'"
  shows "t \<in> {DataIndex, JobsService, TrustyAI} \<Longrightarrow> injectSupportingServiceURLIntoDeployment K S t d' w = Inr d'"
    "dep_meta d' = dep_meta d" "pt_annotations (dep_template d') = pt_annotations (dep_template d)"
proof -
  obtain d1 d2 where s: "injectSupportingServiceURLIntoDeployment K S DataIndex d w = Inr d1"
      "injectSupportingServiceURLIntoDeployment K S JobsService d1 w = Inr d2" "injectSupportingServiceURLIntoDeployment K S TrustyAI d2 w = Inr d'"
    using assms unfolding inject_endpoints_def inject_steps bindR_eq_Inr by blast
  have "injectSupportingServiceURLIntoDeployment K S DataIndex d' w = Inr d'"
    using injected_stays [OF injected_stays [OF injected [OF s(1)] s(2)] s(3)] .
  moreover have "injectSupportingServiceURLIntoDeployment K S JobsService d' w = Inr d'" using injected_stays [OF injected [OF s(2)] s(3)] .
  moreover have "injectSupportingServiceURLIntoDeployment K S TrustyAI d' w = Inr d'" using injected [OF s(3)] .
  ultimately show "t \<in> {DataIndex, JobsService, TrustyAI} \<Longrightarrow> injectSupportingServiceURLIntoDeployment K S t d' w = Inr d'" by blast
  show "dep_meta d' = dep_meta d" using s [THEN inject_meta] by simp
  show "pt_annotations (dep_template d') = pt_annotations (dep_template d)" using s [THEN inject_annotations] by simp
qed

section \<open>The write of the deployment controller and the run it causes\<close>

text \<open>What the server promises of the update of a deployment besides \<^const>\<open>deployment_store_laws\<close>: key and annotations are kept, objects of other
  kinds are not touched, and writing back the answer changes nothing.\<close>

definition write_back_laws :: "'w cluster \<Rightarrow> ('w, supporting_service) store_api \<Rightarrow> bool" where
  "write_back_laws K S \<longleftrightarrow> deployment_store_laws (cl_deployments K) \<and> (\<forall>x y w w'. sa_update (cl_deployments K) x w = (Inr y, w') \<longrightarrow>
     om_namespace (dep_meta y) = om_namespace (dep_meta x) \<and> om_name (dep_meta y) = om_name (dep_meta x)
     \<and> om_annotations (dep_meta y) = om_annotations (dep_meta x) \<and> sa_update (cl_deployments K) y w' = (Inr y, w')
     \<and> (\<forall>ns n. sa_get (cl_configMaps K) ns n w' = sa_get (cl_configMaps K) ns n w) \<and> (\<forall>ns l. sa_list S ns l w' = sa_list S ns l w))"

lemma mem_update_back: "mem_update meta x xs = (Inr y, ys) \<Longrightarrow> y = x \<and> mem_update meta x ys = (Inr x, ys)"
  by (auto simp: mem_update_def Let_def find_replaced split: if_splits)

lemma mem_write_back: "write_back_laws (mem_cluster b) (lens_api (\<lambda>_. services) (\<lambda>_ w. w) (mem_api meta))"
  unfolding write_back_laws_def
proof (intro conjI mem_deployment_laws allI impI)
  fix x y and w w' :: mem_world
  assume "sa_update (cl_deployments (mem_cluster b)) x w = (Inr y, w')"
  then obtain ys where ys: "mem_update dep_meta x (mw_deployments w) = (Inr y, ys)" "w' = w\<lparr>mw_deployments := ys\<rparr>"
    by (auto split: prod.splits)
  with mem_update_back [OF ys(1)] show "om_namespace (dep_meta y) = om_namespace (dep_meta x)" "om_name (dep_meta y) = om_name (dep_meta x)"
    "om_annotations (dep_meta y) = om_annotations (dep_meta x)" "sa_update (cl_deployments (mem_cluster b)) y w' = (Inr y, w')"
    "sa_get (cl_configMaps (mem_cluster b)) ns n w' = sa_get (cl_configMaps (mem_cluster b)) ns n w"
    "sa_list (lens_api (\<lambda>_. services) (\<lambda>_ w. w) (mem_api meta)) ns l w' = sa_list (lens_api (\<lambda>_. services) (\<lambda>_ w. w) (mem_api meta)) ns l w" for ns n l
    by simp_all
qed

lemma write_backD:
  assumes "write_back_laws K S" "sa_update (cl_deployments K) x w = (Inr y, w')"
  shows "om_namespace (dep_meta y) = om_namespace (dep_meta x)" "om_name (dep_meta y) = om_name (dep_meta x)"
    "om_annotations (dep_meta y) = om_annotations (dep_meta x)" "dep_template y = dep_template x"
    "sa_update (cl_deployments K) y w' = (Inr y, w')" "sa_get (cl_deployments K) (om_namespace (dep_meta x)) (om_name (dep_meta x)) w' = Inr y"
    "endpoint_name K S t ns w' = endpoint_name K S t ns w"
proof -
  have "sa_get (cl_configMaps K) ns n w' = sa_get (cl_configMaps K) ns n w" "sa_list S ns l w' = sa_list S ns l w" for ns n l
    using assms unfolding write_back_laws_def by blast+
  then show "endpoint_name K S t ns w' = endpoint_name K S t ns w"
    unfolding endpoint_name_def FetchKogitoSupportingServiceForServiceType_def FetchKogitoSupportingServiceList_def ListWithNamespace_def
      FetchEndPointConfigMap_def FetchConfigMap_def FetchWithKey_def by (simp only:)
qed (use assms in \<open>unfold write_back_laws_def deployment_store_laws_def, blast+\<close>)

lemma mount_fixed: "cm_MountAsEnvFrom d n = Inr d \<longleftrightarrow> has_env_from n d"
proof (cases "dep_containers d")
  case Nil
  then show ?thesis by (auto simp: cm_MountAsEnvFrom_Inr has_env_from_def)
next
  case (Cons c cs)
  have "d = set_containers (add_env_from n c # cs) d \<longleftrightarrow> add_env_from n c = c"
    using Cons set_containers_simps(1,5) by (metis list.inject)
  with Cons show ?thesis by (simp add: cm_MountAsEnvFrom_Inr has_env_from_def add_env_from_fixed)
qed

lemma inject_fixed:
  "injectSupportingServiceURLIntoDeployment K S t d w = Inr d \<longleftrightarrow>
     (case endpoint_name K S t (om_namespace (dep_meta d)) w of Inl _ \<Rightarrow> False | Inr None \<Rightarrow> True | Inr (Some n) \<Rightarrow> has_env_from n d)"
  by (simp add: inject_mounts mount_fixed bindR_def split: sum.split option.split)

text \<open>Whether there is something left to inject depends on the namespace, the template and what the stores answer.\<close>

lemma inject_fixed_cong:
  assumes "injectSupportingServiceURLIntoDeployment K S t d w = Inr d" "dep_template d' = dep_template d"
    "om_namespace (dep_meta d') = om_namespace (dep_meta d)" "endpoint_name K S t (om_namespace (dep_meta d)) w' = endpoint_name K S t (om_namespace (dep_meta d)) w"
  shows "injectSupportingServiceURLIntoDeployment K S t d' w' = Inr d'"
  using assms by (simp add: inject_fixed has_env_from_def cong: sum.case_cong option.case_cong)

text \<open>The deployment that a run stores is one that the next run sends unchanged.\<close>

lemma stored_is_rest:
  assumes laws: "write_back_laws K S" and inj: "inject_endpoints K S (injectKogitoAnnotations cx d) w = Inr sent"
    and upd: "sa_update (cl_deployments K) sent w = (Inr stored, w1)"
  shows "inject_endpoints K S (injectKogitoAnnotations cx stored) w1 = Inr stored"
proof -
  note rest = inject_endpoints_rest [OF inj] and srv = write_backD [OF laws upd]
  have "injectSupportingServiceURLIntoDeployment K S t stored w1 = Inr stored" if "t \<in> {DataIndex, JobsService, TrustyAI}" for t
    using rest(1) [OF that] srv(4) srv(1) srv(7) by (rule inject_fixed_cong)
  then have "inject_endpoints K S stored w1 = Inr stored" by (simp add: inject_endpoints_def inject_steps)
  moreover have "injectKogitoAnnotations cx stored = stored"
  proof (cases "cx_version cx = []")
    case False
    let ?put = "smap_put ''kogito-operator.kiegroup.org/version'' (cx_version cx)"
    have "om_annotations (dep_meta stored) = ?put (om_annotations (dep_meta d))"
      "pt_annotations (dep_template stored) = ?put (pt_annotations (dep_template d))"
      using False rest(2,3) srv(3,4) by (simp_all add: injectKogitoAnnotations_def)
    moreover have "?put (?put m) = ?put m" for m by (simp add: smap_put_def update_last)
    ultimately show ?thesis using False by (simp add: injectKogitoAnnotations_def)
  qed (simp add: injectKogitoAnnotations_def)
  ultimately show ?thesis by simp
qed

text \<open>C11: the controller of deployments comes to rest.  Its write is an event that it watches whenever it watched the deployment before, so it causes
  another run; but when a run of the processor succeeded, the run it causes finds the deployment it stored, sends it unchanged, succeeds and
  leaves the cluster as it is.\<close>

theorem deployment_run_settles:
  assumes laws: "write_back_laws (ce_cluster E) (ce_supporting E)"
    and found: "sa_get (cl_deployments (ce_cluster E)) (om_namespace (dep_meta d)) (om_name (dep_meta d)) w = Inr d"
    and run: "Process (ce_cluster E) (ce_context E) (ce_supporting E) d w = (Inr d', w1)"
  shows "runtimeDeployment_Reconcile E (om_namespace (dep_meta d)) (om_name (dep_meta d)) w = (Inr (no_requeue, None), w1)
    \<and> (\<exists>stored. sa_get (cl_deployments (ce_cluster E)) (om_namespace (dep_meta d)) (om_name (dep_meta d)) w1 = Inr stored
         \<and> runtimeDeployment_watched (Updated d stored False) = runtimeDeployment_watched (Created d))
    \<and> runtimeDeployment_Reconcile E (om_namespace (dep_meta d)) (om_name (dep_meta d)) w1 = (Inr (no_requeue, None), w1)"
proof -
  let ?K = "ce_cluster E" and ?S = "ce_supporting E" and ?cx = "ce_context E"
  obtain sent stored where s: "inject_endpoints ?K ?S (injectKogitoAnnotations ?cx d) w = Inr sent" "sa_update (cl_deployments ?K) sent w = (Inr stored, w1)"
    using run by (auto simp: Process_def injectSupportingServiceEndpointIntoDeployment_def Update_def split: sum.splits prod.splits)
  note srv = write_backD [OF laws s(2)]
  have meta: "dep_meta sent = dep_meta (injectKogitoAnnotations ?cx d)" using inject_endpoints_rest(2) [OF s(1)] .
  then have key: "om_namespace (dep_meta sent) = om_namespace (dep_meta d)" "om_name (dep_meta sent) = om_name (dep_meta d)"
    by (simp_all add: injectKogitoAnnotations_def)
  have get: "sa_get (cl_deployments ?K) (om_namespace (dep_meta d)) (om_name (dep_meta d)) w1 = Inr stored" using srv(6) key by simp
  have again: "Process ?K ?cx ?S stored w1 = (Inr (injectSecurityContextDefaults stored), w1)"
    using stored_is_rest [OF laws s] srv(5) by (simp add: Process_def injectSupportingServiceEndpointIntoDeployment_def Update_def)
  have "runtimeDeployment_watched (Updated d stored False) = runtimeDeployment_watched (Created d)"
    using srv(3) meta by (simp add: runtimeDeployment_watched_def injectKogitoAnnotations_def MapContains_def)
  with found get run again show ?thesis
    by (simp add: runtimeDeployment_Reconcile_def FetchDeployment_def FetchWithKey_def answer_def bindS_def returnS_def)
qed

text \<open>One data index in the namespace whose endpoint config map exists, and one deployment.\<close>

definition settling_controller :: "mem_world controller_env" where
  "settling_controller = sample_controller [\<lparr>sup_service = sample_service\<lparr>ks_meta := mk_meta ''di'' ''ns''\<rparr>, sup_type = DataIndex\<rparr>]"

lemma settling_process:
  "\<exists>d' w1. Process (ce_cluster settling_controller) (ce_context settling_controller) (ce_supporting settling_controller) runtime_deployment runtime_world = (Inr d', w1)"
proof -
  have stores: "ce_cluster settling_controller = mem_cluster False" "ce_context settling_controller = sample_context"
    "ce_supporting settling_controller = data_index_store"
    by (simp_all add: settling_controller_def sample_controller_def sample_env_def data_index_store_def)
  note defs = runtime_world_def endpoint_world_def empty_world_def runtime_deployment_def sample_deployment_def sample_container_def mk_meta_def
  have "\<exists>d1. injectSupportingServiceURLIntoDeployment (mem_cluster False) data_index_store DataIndex
      (injectKogitoAnnotations sample_context runtime_deployment) runtime_world = Inr d1
      \<and> om_namespace (dep_meta d1) = ''ns'' \<and> om_name (dep_meta d1) = ''app''"
    by (simp add: injectSupportingServiceURLIntoDeployment_def FetchKogitoSupportingServiceForServiceType_def FetchKogitoSupportingServiceList_def
        ListWithNamespace_def FetchEndPointConfigMap_def GetEndPointConfigMapName_def FetchConfigMap_def FetchWithKey_def data_index_store_def
        mem_simps sample_service_def cm_MountAsEnvFrom_def with_container0_def set_containers_def injectKogitoAnnotations_def sample_context_def defs)
  then obtain d1 where d1: "injectSupportingServiceURLIntoDeployment (mem_cluster False) data_index_store DataIndex
      (injectKogitoAnnotations sample_context runtime_deployment) runtime_world = Inr d1" "om_namespace (dep_meta d1) = ''ns''" "om_name (dep_meta d1) = ''app''"
    by blast
  then have "inject_endpoints (mem_cluster False) data_index_store (injectKogitoAnnotations sample_context runtime_deployment) runtime_world = Inr d1"
    by (simp add: inject_endpoints_def inject_steps no_service_injection)
  moreover have "\<exists>w1. sa_update (cl_deployments (mem_cluster False)) d1 runtime_world = (Inr d1, w1)"
    using d1(2,3) by (simp add: mem_simps defs)
  ultimately show ?thesis unfolding stores by (auto simp: Process_def injectSupportingServiceEndpointIntoDeployment_def Update_def)
qed

lemma deployment_run_settles_witness:
  "\<exists>w1. runtimeDeployment_Reconcile settling_controller ''ns'' ''app'' runtime_world = (Inr (no_requeue, None), w1)
    \<and> runtimeDeployment_Reconcile settling_controller ''ns'' ''app'' w1 = (Inr (no_requeue, None), w1)"
proof -
  obtain d' w1 where run: "Process (ce_cluster settling_controller) (ce_context settling_controller) (ce_supporting settling_controller)
      runtime_deployment runtime_world = (Inr d', w1)"
    using settling_process by blast
  have "write_back_laws (ce_cluster settling_controller) (ce_supporting settling_controller)"
    using mem_write_back by (simp add: settling_controller_def sample_controller_def sample_env_def)
  moreover have "sa_get (cl_deployments (ce_cluster settling_controller)) (om_namespace (dep_meta runtime_deployment))
      (om_name (dep_meta runtime_deployment)) runtime_world = Inr runtime_deployment"
    by (simp add: settling_controller_def sample_controller_def sample_env_def runtime_world_def mem_simps)
  ultimately show ?thesis using deployment_run_settles [OF _ _ run] by (simp add: runtime_deployment_def sample_deployment_def mk_meta_def)
qed

end
