(* ===== verification/Client_Builder.thy ===== *)
theory Client_Builder
  imports Infra_Resources Framework_Pkcs12
begin

text \<open>
  The clients of the cluster: their construction (\<^verbatim>\<open>core/client/client_builder.go\<close>, \<^verbatim>\<open>client.go\<close>), the kube config file, creating resources from
  YAML (\<^verbatim>\<open>core/client/kubernetes/resource.go\<close>), the logs of a pod, and the events the operator records (\<^verbatim>\<open>core/record\<close>).  The constructors of the
  client libraries, the file system and the YAML decoder are parameters; a client that was not built is a nil interface.
\<close>

section \<open>Scopes of kinds, client.go\<close>

record gvk =
  gvk_group :: string
  gvk_version :: string
  gvk_kind :: string

datatype rest_scope = RESTScopeNameRoot | RESTScopeNameNamespace

text \<open>A scheme is the list of the types it knows.\<close>

type_synonym scheme = "gvk list"

record client_options =
  co_scheme :: scheme
  co_mapper :: "(gvk \<times> rest_scope) list option"

definition isKubeMetaKind :: "string \<Rightarrow> bool" where
  "isKubeMetaKind kind \<longleftrightarrow> HasSuffix kind ''List'' \<or>
     kind \<in> {''PatchOptions'', ''GetOptions'', ''DeleteOptions'', ''ExportOptions'', ''APIVersions'', ''APIGroupList'', ''APIResourceList'',
       ''UpdateOptions'', ''CreateOptions'', ''Status'', ''WatchEvent'', ''ListOptions'', ''APIGroup''}"

definition getGVKsFromAddToScheme :: "scheme \<Rightarrow> gvk list" where
  "getGVKsFromAddToScheme s = filter (\<lambda>g. \<not> isKubeMetaKind (gvk_kind g)) s"

definition is_root_kind :: "gvk \<Rightarrow> bool" where
  "is_root_kind g \<longleftrightarrow> g \<in>
     {\<lparr>gvk_group = [], gvk_version = ''v1'', gvk_kind = ''Namespace''\<rparr>,
      \<lparr>gvk_group = ''apiextensions.k8s.io'', gvk_version = ''v1'', gvk_kind = ''CustomResourceDefinition''\<rparr>,
      \<lparr>gvk_group = ''rbac.authorization.k8s.io'', gvk_version = ''v1'', gvk_kind = ''ClusterRole''\<rparr>,
      \<lparr>gvk_group = ''rbac.authorization.k8s.io'', gvk_version = ''v1'', gvk_kind = ''ClusterRoleBinding''\<rparr>}"

definition newControllerCliOptions :: "scheme \<Rightarrow> client_options" where
  "newControllerCliOptions s =
     \<lparr>co_scheme = s,
      co_mapper = Some (map (\<lambda>g. (g, if is_root_kind g then RESTScopeNameRoot else RESTScopeNameNamespace)) (getGVKsFromAddToScheme s))\<rparr>"

definition newControllerCliOptionsWithDynamicMapper :: "scheme \<Rightarrow> client_options" where
  "newControllerCliOptionsWithDynamicMapper s = \<lparr>co_scheme = s, co_mapper = None\<rparr>"

section \<open>The builder, client\_builder.go\<close>

text \<open>The constructors of the client libraries, and the configuration that controller-runtime finds on the machine.\<close>

record ('cfg, 'c) client_lib =
  lib_getConfig :: "gerr + 'cfg"
  lib_newControl :: "'cfg \<Rightarrow> client_options \<Rightarrow> gerr + 'c"
  lib_newDiscovery :: "'cfg \<Rightarrow> gerr + 'c"
  lib_newBuild :: "'cfg \<Rightarrow> gerr + 'c"
  lib_newImage :: "'cfg \<Rightarrow> gerr + 'c"
  lib_newDeployment :: "'cfg \<Rightarrow> gerr + 'c"
  lib_newKubernetes :: "'cfg \<Rightarrow> gerr + 'c"

record 'c kogito_client =
  kc_control :: "'c option"
  kc_build :: "'c option"
  kc_image :: "'c option"
  kc_discovery :: "'c option"
  kc_deployment :: "'c option"
  kc_kubernetes :: "'c option"

record ('cfg, 'c) builder_struct =
  b_config :: "'cfg option"
  b_scheme :: "scheme option"
  b_controllerCli :: "'c option"
  b_useControllerDynamicMapper :: bool
  b_isDiscoveryClient :: bool
  b_isBuildClient :: bool
  b_isImageClient :: bool
  b_isDeploymentClient :: bool
  b_isKubernetesExtensionClient :: bool

definition NewClientBuilder :: "scheme option \<Rightarrow> ('cfg, 'c) builder_struct" where
  "NewClientBuilder s =
     \<lparr>b_config = None, b_scheme = s, b_controllerCli = None, b_useControllerDynamicMapper = False, b_isDiscoveryClient = False,
      b_isBuildClient = False, b_isImageClient = False, b_isDeploymentClient = False, b_isKubernetesExtensionClient = False\<rparr>"

definition UseConfig :: "'cfg option \<Rightarrow> ('cfg, 'c) builder_struct \<Rightarrow> ('cfg, 'c) builder_struct" where
  "UseConfig kubeconfig b = b\<lparr>b_config := kubeconfig\<rparr>"

definition UseControllerClient :: "'c option \<Rightarrow> ('cfg, 'c) builder_struct \<Rightarrow> ('cfg, 'c) builder_struct" where
  "UseControllerClient c b = b\<lparr>b_controllerCli := c\<rparr>"

definition UseControllerDynamicMapper :: "('cfg, 'c) builder_struct \<Rightarrow> ('cfg, 'c) builder_struct" where
  "UseControllerDynamicMapper b = b\<lparr>b_useControllerDynamicMapper := True\<rparr>"

definition WithDiscoveryClient :: "('cfg, 'c) builder_struct \<Rightarrow> ('cfg, 'c) builder_struct" where
  "WithDiscoveryClient b = b\<lparr>b_isDiscoveryClient := True\<rparr>"

definition WithBuildClient :: "('cfg, 'c) builder_struct \<Rightarrow> ('cfg, 'c) builder_struct" where
  "WithBuildClient b = b\<lparr>b_isBuildClient := True\<rparr>"

definition WithImageClient :: "('cfg, 'c) builder_struct \<Rightarrow> ('cfg, 'c) builder_struct" where
  "WithImageClient b = b\<lparr>b_isImageClient := True\<rparr>"

definition WithDeploymentClient :: "('cfg, 'c) builder_struct \<Rightarrow> ('cfg, 'c) builder_struct" where
  "WithDeploymentClient b = b\<lparr>b_isDeploymentClient := True\<rparr>"

definition WithKubernetesExtensionClient :: "('cfg, 'c) builder_struct \<Rightarrow> ('cfg, 'c) builder_struct" where
  "WithKubernetesExtensionClient b = b\<lparr>b_isKubernetesExtensionClient := True\<rparr>"

definition WithAllClients :: "('cfg, 'c) builder_struct \<Rightarrow> ('cfg, 'c) builder_struct" where
  "WithAllClients b =
     WithKubernetesExtensionClient (WithDeploymentClient (WithImageClient (WithDiscoveryClient (WithBuildClient b))))"

text \<open>\<^verbatim>\<open>fmt.Errorf\<close> around the error of a call.\<close>

definition wrap_error :: "string \<Rightarrow> gerr + 'a \<Rightarrow> gerr + 'a" where
  "wrap_error prefix r = (case r of Inl e \<Rightarrow> Inl (PlainError (prefix @ error_message e)) | Inr x \<Rightarrow> Inr x)"

definition newKubeClient :: "('cfg, 'c) client_lib \<Rightarrow> 'cfg \<Rightarrow> scheme \<Rightarrow> bool \<Rightarrow> gerr + 'c" where
  "newKubeClient L config s useDynamicRestMapper =
     lib_newControl L config (if useDynamicRestMapper then newControllerCliOptionsWithDynamicMapper s else newControllerCliOptions s)"

definition buildKubeConnectionConfig :: "('cfg, 'c) client_lib \<Rightarrow> gerr + 'cfg" where
  "buildKubeConnectionConfig L = lib_getConfig L"

text \<open>A client that was asked for is built, one that was not stays nil.\<close>

definition if_wanted :: "bool \<Rightarrow> string \<Rightarrow> gerr + 'c \<Rightarrow> gerr + 'c option" where
  "if_wanted wanted prefix r = (if wanted then bindR (wrap_error prefix r) (\<lambda>c. Inr (Some c)) else Inr None)"

definition builder_Build :: "('cfg, 'c) client_lib \<Rightarrow> ('cfg, 'c) builder_struct \<Rightarrow> gerr + 'c kogito_client" where
  "builder_Build L b =
     bindR (case b_config b of
              Some config \<Rightarrow> Inr config
            | None \<Rightarrow> wrap_error ''Impossible to get Kubernetes local configuration: '' (buildKubeConnectionConfig L)) (\<lambda>config.
     bindR (case b_controllerCli b of
              Some c \<Rightarrow> Inr c
            | None \<Rightarrow> (case b_scheme b of
                  None \<Rightarrow> Inl (PlainError ''scheme not provided'')
                | Some s \<Rightarrow> wrap_error ''Impossible to create new Kubernetes client: ''
                              (newKubeClient L config s (b_useControllerDynamicMapper b)))) (\<lambda>control.
     bindR (if_wanted (b_isDiscoveryClient b) ''Impossible to create new Discovery client: '' (lib_newDiscovery L config)) (\<lambda>discovery.
     bindR (if_wanted (b_isBuildClient b) ''Error getting build client: '' (lib_newBuild L config)) (\<lambda>build.
     bindR (if_wanted (b_isImageClient b) ''Error getting image client: '' (lib_newImage L config)) (\<lambda>image.
     bindR (if_wanted (b_isDeploymentClient b) ''Error getting deployment client: '' (lib_newDeployment L config)) (\<lambda>deployment.
     bindR (if_wanted (b_isKubernetesExtensionClient b) ''Error getting kubernetes client: '' (lib_newKubernetes L config)) (\<lambda>kubernetes.
       Inr \<lparr>kc_control = Some control, kc_build = build, kc_image = image, kc_discovery = discovery, kc_deployment = deployment,
            kc_kubernetes = kubernetes\<rparr>)))))))"

definition must_build :: "gerr + 'a \<Rightarrow> gerr + 'a" where
  "must_build r = (case r of Inl e \<Rightarrow> Inl (Panic (error_message e)) | Inr c \<Rightarrow> Inr c)"

definition NewForConsole :: "('cfg, 'c) client_lib \<Rightarrow> scheme option \<Rightarrow> gerr + 'c kogito_client" where
  "NewForConsole L s = must_build (builder_Build L (WithDiscoveryClient (WithBuildClient (NewClientBuilder s))))"

definition NewForController :: "('cfg, 'c) client_lib \<Rightarrow> scheme option \<Rightarrow> 'cfg option \<Rightarrow> 'c option \<Rightarrow> gerr + 'c kogito_client" where
  "NewForController L s config control =
     must_build (builder_Build L (UseControllerClient control (UseConfig config (WithAllClients (NewClientBuilder s)))))"

text \<open>The platform, as far as the client has a discovery client: what its server groups are is a parameter.\<close>

definition discovery_of :: "('c \<Rightarrow> gerr + string list) \<Rightarrow> 'c kogito_client \<Rightarrow> discovery" where
  "discovery_of serverGroups c = map_option serverGroups (kc_discovery c)"

section \<open>The kube config file, client.go\<close>

datatype stat_result = StatFound | StatNotExist | StatError gerr

text \<open>The default file name of client-go and the calls of the file system: \<^verbatim>\<open>os.Stat\<close>, \<^verbatim>\<open>os.MkdirAll\<close>, \<^verbatim>\<open>os.OpenFile\<close> for reading, which creates the file when it
  does not exist, the size of the open file and closing it.\<close>

record 'w kube_files =
  kf_default :: string
  kf_stat :: "string \<Rightarrow> 'w \<Rightarrow> stat_result"
  kf_mkdirAll :: "string \<Rightarrow> 'w \<Rightarrow> gerr option \<times> 'w"
  kf_openCreate :: "string \<Rightarrow> 'w \<Rightarrow> gerr option \<times> 'w"
  kf_size :: "string \<Rightarrow> 'w \<Rightarrow> gerr + nat"
  kf_close :: "string \<Rightarrow> 'w \<Rightarrow> gerr option"

text \<open>\<^verbatim>\<open>filepath.Dir\<close>: the path up to its last slash, cleaned.\<close>

definition filepath_Dir :: "string \<Rightarrow> string" where
  "filepath_Dir p = path_Clean (rev (dropWhile (\<lambda>c. c \<noteq> CHR ''/'') (rev p)))"

definition panic_file :: "string \<Rightarrow> string \<Rightarrow> gerr \<Rightarrow> gerr" where
  "panic_file prefix filename e = Panic (prefix @ filename @ '': '' @ error_message e @ '' '')"

definition open_kube_config :: "'w kube_files \<Rightarrow> string \<Rightarrow> 'w \<Rightarrow> (gerr + string) \<times> 'w" where
  "open_kube_config F filename w =
     (case kf_openCreate F filename w of
        (Some e, w') \<Rightarrow> (Inl (panic_file ''Error while trying to access the kube config file '' filename e), w')
      | (None, w') \<Rightarrow>
          (case kf_close F filename w' of
             Some e \<Rightarrow> (Inl (panic_file ''Error closing kube config file '' filename e), w')
           | None \<Rightarrow> (case kf_size F filename w' of
                 Inl e \<Rightarrow> (Inl (panic_file ''Error while trying to access the kube config file '' filename e), w')
               | Inr _ \<Rightarrow> (Inr filename, w'))))"

definition GetKubeConfigFile :: "'w kube_files \<Rightarrow> 'w \<Rightarrow> (gerr + string) \<times> 'w" where
  "GetKubeConfigFile F w =
     (let filename = kf_default F
      in case kf_stat F filename w of
           StatNotExist \<Rightarrow>
             (case kf_mkdirAll F (filepath_Dir filename) w of
                (Some e, w') \<Rightarrow> (Inl (panic_file ''Error while trying to create kube config directories '' filename e), w')
              | (None, w') \<Rightarrow> open_kube_config F filename w')
         | StatError e \<Rightarrow> (Inl (panic_file ''Error while trying to access the kube config file '' filename e), w)
         | StatFound \<Rightarrow> open_kube_config F filename w)"

section \<open>Resources from YAML, resource.go\<close>

text \<open>\<^verbatim>\<open>strings.Split\<close> with a separator of any length.\<close>

function strings_Split :: "string \<Rightarrow> string \<Rightarrow> string list" where
  "strings_Split s sep =
     (if sep = [] then map (\<lambda>c. [c]) s
      else (case strings_Index s sep of
              None \<Rightarrow> [s]
            | Some i \<Rightarrow> take i s # strings_Split (drop (i + length sep) s) sep))"
  by pat_completeness auto
termination
proof (relation "measure (\<lambda>(s, sep). length s)", goal_cases)
  case (2 s sep i)
  from strings_Index_bound [OF 2(2)] 2(1) show ?case by (cases sep) auto
qed simp

declare strings_Split.simps [simp del]

text \<open>The object is decoded into the object the caller passes, which every document shares: a field that a document does not set keeps its value.
  The second component of the library gives an object other metadata and no resource version.\<close>

record 'o yaml_lib =
  yl_decode :: "string \<Rightarrow> 'o \<Rightarrow> gerr + 'o"
  yl_kind :: "'o \<Rightarrow> string"
  yl_setMeta :: "object_meta \<Rightarrow> 'o \<Rightarrow> 'o"

definition prepare_yaml :: "('w, 'o) store_api \<Rightarrow> 'o yaml_lib \<Rightarrow> string \<Rightarrow> ('o \<Rightarrow> 'o) option \<Rightarrow> 'o \<Rightarrow> 'o" where
  "prepare_yaml A Y namespace beforeCreate x =
     (let m = sa_meta A x;
          x' = yl_setMeta Y (m\<lparr>om_namespace := (if namespace \<noteq> [] then namespace else om_namespace m),
                 om_labels := [(''app'', ''kogito-operator'')]\<rparr>) x
      in case beforeCreate of None \<Rightarrow> x' | Some f \<Rightarrow> f x')"

fun create_documents :: "('w, 'o) store_api \<Rightarrow> 'o yaml_lib \<Rightarrow> string \<Rightarrow> ('o \<Rightarrow> 'o) option \<Rightarrow> string list \<Rightarrow> 'o \<Rightarrow> 'w \<Rightarrow> (gerr + unit) \<times> 'w" where
  "create_documents A Y namespace beforeCreate [] resourceRef w = (Inr (), w)"
| "create_documents A Y namespace beforeCreate (doc # docs) resourceRef w =
     (if doc = [] then create_documents A Y namespace beforeCreate docs resourceRef w
      else (case yl_decode Y doc resourceRef of
              Inl e \<Rightarrow> (Inl (PlainError (''Error while unmarshalling file: '' @ error_message e @ '' '')), w)
            | Inr x \<Rightarrow>
                if yl_kind Y x = [] then create_documents A Y namespace beforeCreate docs x w
                else let x' = prepare_yaml A Y namespace beforeCreate x
                     in case CreateIfNotExists A x' w of
                          (Inl e, w') \<Rightarrow> (Inl (PlainError (''Error creating object '' @ om_name (sa_meta A x') @ '': '' @ error_message e @ '' '')), w')
                        | (Inr y, w') \<Rightarrow> create_documents A Y namespace beforeCreate docs y w'))"

definition CreateFromYamlContent :: "('w, 'o) store_api \<Rightarrow> 'o yaml_lib \<Rightarrow> string \<Rightarrow> string \<Rightarrow> 'o \<Rightarrow> ('o \<Rightarrow> 'o) option \<Rightarrow> 'w \<Rightarrow> (gerr + unit) \<times> 'w" where
  "CreateFromYamlContent A Y yamlFileContent namespace resourceRef beforeCreate w =
     create_documents A Y namespace beforeCreate (strings_Split yamlFileContent ''---'') resourceRef w"

section \<open>Logs of a pod, pod.go\<close>

text \<open>What the Kubernetes client streams for a pod and a container, with or without following.\<close>

definition getLogs ::
  "('c \<Rightarrow> string \<Rightarrow> string \<Rightarrow> string \<Rightarrow> bool \<Rightarrow> 'w \<Rightarrow> gerr + (gerr + string)) \<Rightarrow> 'c kogito_client \<Rightarrow> string \<Rightarrow> string \<Rightarrow> string \<Rightarrow> bool \<Rightarrow> 'w \<Rightarrow> gerr + string" where
  "getLogs stream c namespace podName containerName follow w =
     (case kc_kubernetes c of
        None \<Rightarrow> Inl (Panic ''nil pointer dereference'')
      | Some k \<Rightarrow> bindR (stream k namespace podName containerName follow w) (\<lambda>r. r))"

definition GetLogs ::
  "('c \<Rightarrow> string \<Rightarrow> string \<Rightarrow> string \<Rightarrow> bool \<Rightarrow> 'w \<Rightarrow> gerr + (gerr + string)) \<Rightarrow> 'c kogito_client \<Rightarrow> string \<Rightarrow> string \<Rightarrow> string \<Rightarrow> 'w \<Rightarrow> gerr + string" where
  "GetLogs stream c namespace podName containerName = getLogs stream c namespace podName containerName False"

definition GetLogsWithFollow ::
  "('c \<Rightarrow> string \<Rightarrow> string \<Rightarrow> string \<Rightarrow> bool \<Rightarrow> 'w \<Rightarrow> gerr + (gerr + string)) \<Rightarrow> 'c kogito_client \<Rightarrow> string \<Rightarrow> string \<Rightarrow> string \<Rightarrow> 'w \<Rightarrow> gerr + string" where
  "GetLogsWithFollow stream c namespace podName containerName = getLogs stream c namespace podName containerName True"

text \<open>The events of a namespace, event.go.\<close>

definition GetEvents :: "('c \<Rightarrow> string \<Rightarrow> 'w \<Rightarrow> gerr + 'ev list) \<Rightarrow> 'c kogito_client \<Rightarrow> string \<Rightarrow> 'w \<Rightarrow> gerr + 'ev list" where
  "GetEvents events c namespace w =
     (case kc_kubernetes c of None \<Rightarrow> Inl (Panic ''nil pointer dereference'') | Some k \<Rightarrow> events k namespace w)"

section \<open>Events, core/record/event.go\<close>

record object_reference =
  ref_kind :: string
  ref_namespace :: string
  ref_name :: string
  ref_uid :: string

record kevent =
  ev_meta :: object_meta
  ev_involvedObject :: object_reference
  ev_reason :: string
  ev_message :: string
  ev_firstTimestamp :: nat
  ev_lastTimestamp :: nat
  ev_count :: int
  ev_type :: string
  ev_source :: string

text \<open>\<^verbatim>\<open>%x\<close> of a time in nanoseconds.\<close>

definition hex_digit :: "nat \<Rightarrow> char" where
  "hex_digit d = (if d < 10 then char_of (48 + d) else char_of (87 + d))"

fun hex_of :: "nat \<Rightarrow> string" where
  "hex_of n = (if n < 16 then [hex_digit n] else hex_of (n div 16) @ [hex_digit (n mod 16)])"

declare hex_of.simps [simp del]

definition makeEvent :: "nat \<Rightarrow> object_reference \<Rightarrow> string \<Rightarrow> string \<Rightarrow> string \<Rightarrow> kevent" where
  "makeEvent t ref eventType reason message =
     \<lparr>ev_meta = mk_meta (ref_name ref @ ''.'' @ hex_of t) (if ref_namespace ref = [] then ''default'' else ref_namespace ref),
      ev_involvedObject = ref, ev_reason = reason, ev_message = message, ev_firstTimestamp = t, ev_lastTimestamp = t, ev_count = 1,
      ev_type = eventType, ev_source = []\<rparr>"

text \<open>The reference that client-go makes of an object and its check of event types are parameters, and so is the time.  Errors are logged only.\<close>

definition generateEvent ::
  "('w, kevent) store_api \<Rightarrow> ('o \<Rightarrow> gerr + object_reference) \<Rightarrow> (string \<Rightarrow> bool) \<Rightarrow> nat \<Rightarrow> string \<Rightarrow> 'o \<Rightarrow> string \<Rightarrow> string \<Rightarrow> string \<Rightarrow> 'w \<Rightarrow> 'w" where
  "generateEvent A getReference validateEventType t source x eventType reason message w =
     (case getReference x of
        Inl e \<Rightarrow> w
      | Inr ref \<Rightarrow>
          if \<not> validateEventType eventType then w
          else snd (Create A ((makeEvent t ref eventType reason message)\<lparr>ev_source := source\<rparr>) w))"

text \<open>\<^verbatim>\<open>os.Hostname\<close> without surrounding white space, in lower case.\<close>

definition is_space :: "char \<Rightarrow> bool" where
  "is_space c \<longleftrightarrow> c \<in> {CHR '' '', CHR 0x09, CHR 0x0A, CHR 0x0B, CHR 0x0C, CHR 0x0D}"

definition TrimSpace :: "string \<Rightarrow> string" where
  "TrimSpace s = rev (dropWhile is_space (rev (dropWhile is_space s)))"

definition GetHostName :: "gerr + string \<Rightarrow> string" where
  "GetHostName hostname =
     (case hostname of
        Inl e \<Rightarrow> []
      | Inr h \<Rightarrow> (let h' = TrimSpace h in if h' = [] then [] else ToLower h'))"

section \<open>Lemmas\<close>

lemma wrap_error_Inr [simp]: "wrap_error p r = Inr x \<longleftrightarrow> r = Inr x"
  by (auto simp: wrap_error_def split: sum.split)

lemma if_wanted_Inr: "if_wanted wanted p r = Inr c \<longleftrightarrow> (if wanted then \<exists>x. r = Inr x \<and> c = Some x else c = None)"
  by (auto simp: if_wanted_def bindR_eq_Inr)

lemma must_build_Inr [simp]: "must_build r = Inr c \<longleftrightarrow> r = Inr c"
  by (auto simp: must_build_def split: sum.split)

lemmas builder_defs = NewClientBuilder_def UseConfig_def UseControllerClient_def UseControllerDynamicMapper_def WithDiscoveryClient_def
  WithBuildClient_def WithImageClient_def WithDeploymentClient_def WithKubernetesExtensionClient_def WithAllClients_def

text \<open>Whether a field of the client is what the library makes of the configuration, or nil when it was not asked for.\<close>

definition client_field :: "bool \<Rightarrow> gerr + 'c \<Rightarrow> 'c option \<Rightarrow> bool" where
  "client_field wanted made field \<longleftrightarrow> (if wanted then \<exists>x. made = Inr x \<and> field = Some x else field = None)"

lemma builder_Build_Inr:
  "builder_Build L b = Inr c \<longleftrightarrow>
     (\<exists>config control. (b_config b = Some config \<or> b_config b = None \<and> lib_getConfig L = Inr config)
        \<and> (b_controllerCli b = Some control \<or> b_controllerCli b = None \<and> (\<exists>s. b_scheme b = Some s
              \<and> newKubeClient L config s (b_useControllerDynamicMapper b) = Inr control))
        \<and> kc_control c = Some control
        \<and> client_field (b_isDiscoveryClient b) (lib_newDiscovery L config) (kc_discovery c)
        \<and> client_field (b_isBuildClient b) (lib_newBuild L config) (kc_build c)
        \<and> client_field (b_isImageClient b) (lib_newImage L config) (kc_image c)
        \<and> client_field (b_isDeploymentClient b) (lib_newDeployment L config) (kc_deployment c)
        \<and> client_field (b_isKubernetesExtensionClient b) (lib_newKubernetes L config) (kc_kubernetes c))"
  (is "_ \<longleftrightarrow> (\<exists>config control. ?cfg config \<and> ?ctl config control \<and> ?rest config control)")
proof -
  have cfg: "(case b_config b of Some config \<Rightarrow> Inr config | None \<Rightarrow> wrap_error p (buildKubeConnectionConfig L)) = Inr config \<longleftrightarrow> ?cfg config" for config p
    by (auto simp: buildKubeConnectionConfig_def split: option.split)
  have ctl: "(case b_controllerCli b of Some c \<Rightarrow> Inr c | None \<Rightarrow> (case b_scheme b of None \<Rightarrow> Inl e
      | Some s \<Rightarrow> wrap_error p (newKubeClient L config s (b_useControllerDynamicMapper b)))) = Inr control \<longleftrightarrow> ?ctl config control" for config control p e
    by (auto split: option.split)
  show ?thesis
    unfolding builder_Build_def bindR_eq_Inr cfg ctl if_wanted_Inr client_field_def [symmetric]
    by (cases c) (simp, blast)
qed

section \<open>Properties\<close>

text \<open>C26: what a client has.  The client of the controllers has all six clients, over the configuration and the controller client of the manager;
  the client of the command line has the controller client, made from the scheme with the fixed mapper, the build and the discovery client, and
  no other, so that reading the logs of a pod through it panics.  Building fails exactly when one of the clients that are asked for cannot be
  made.\<close>

theorem clients_built:
  "(NewForController L s (Some config) (Some control) = Inr c \<longleftrightarrow>
      (\<exists>d b i a k. lib_newDiscovery L config = Inr d \<and> lib_newBuild L config = Inr b \<and> lib_newImage L config = Inr i
           \<and> lib_newDeployment L config = Inr a \<and> lib_newKubernetes L config = Inr k
           \<and> c = \<lparr>kc_control = Some control, kc_build = Some b, kc_image = Some i, kc_discovery = Some d, kc_deployment = Some a, kc_kubernetes = Some k\<rparr>))
   \<and> (NewForConsole L s = Inr c \<longleftrightarrow>
      (\<exists>sch cfg ctl d b. s = Some sch \<and> lib_getConfig L = Inr cfg \<and> lib_newControl L cfg (newControllerCliOptions sch) = Inr ctl
           \<and> lib_newDiscovery L cfg = Inr d \<and> lib_newBuild L cfg = Inr b
           \<and> c = \<lparr>kc_control = Some ctl, kc_build = Some b, kc_image = None, kc_discovery = Some d, kc_deployment = None, kc_kubernetes = None\<rparr>))
   \<and> GetLogs stream \<lparr>kc_control = Some ctl, kc_build = Some b, kc_image = None, kc_discovery = Some d, kc_deployment = None, kc_kubernetes = None\<rparr> ns pod cont w
      = Inl (Panic ''nil pointer dereference'')"
proof (intro conjI)
  show "NewForController L s (Some config) (Some control) = Inr c \<longleftrightarrow>
      (\<exists>d b i a k. lib_newDiscovery L config = Inr d \<and> lib_newBuild L config = Inr b \<and> lib_newImage L config = Inr i
           \<and> lib_newDeployment L config = Inr a \<and> lib_newKubernetes L config = Inr k
           \<and> c = \<lparr>kc_control = Some control, kc_build = Some b, kc_image = Some i, kc_discovery = Some d, kc_deployment = Some a, kc_kubernetes = Some k\<rparr>)"
    by (cases c) (auto simp: NewForController_def builder_Build_Inr builder_defs client_field_def)
  show "NewForConsole L s = Inr c \<longleftrightarrow>
      (\<exists>sch cfg ctl d b. s = Some sch \<and> lib_getConfig L = Inr cfg \<and> lib_newControl L cfg (newControllerCliOptions sch) = Inr ctl
           \<and> lib_newDiscovery L cfg = Inr d \<and> lib_newBuild L cfg = Inr b
           \<and> c = \<lparr>kc_control = Some ctl, kc_build = Some b, kc_image = None, kc_discovery = Some d, kc_deployment = None, kc_kubernetes = None\<rparr>)"
    by (cases c) (auto simp: NewForConsole_def builder_Build_Inr builder_defs client_field_def newKubeClient_def)
qed (simp add: GetLogs_def getLogs_def)

lemma CreateIfNotExists_exists:
  assumes "read_after_create A" "CreateIfNotExists A x w = (Inr y, w')"
  shows "\<exists>z. sa_get A (om_namespace (sa_meta A x)) (om_name (sa_meta A x)) w' = Inr z"
  using assms
  by (auto simp: CreateIfNotExists_def Create_def Fetch_def FetchWithKey_cases read_after_create_def split: sum.splits option.splits)

lemma CreateIfNotExists_keeps:
  assumes "get_after_create A" "CreateIfNotExists A x w = (Inr y, w')" "sa_get A ns n w = Inr z"
  shows "sa_get A ns n w' = Inr z"
  using assms by (auto simp: CreateIfNotExists_def Create_def get_after_create_def split: sum.splits option.splits)

lemma create_documents_keeps:
  assumes "get_after_create A" "create_documents A Y ns f docs ref w = (Inr (), w')" "sa_get A ns' n w = Inr z"
  shows "sa_get A ns' n w' = Inr z"
  using assms
proof (induction A Y ns f docs ref w rule: create_documents.induct)
  case (2 A Y ns f doc docs ref w)
  then show ?case
    by (auto simp: Let_def split: if_splits sum.splits prod.splits dest: CreateIfNotExists_keeps)
qed simp

text \<open>The object of a document, as it is sent to the server.\<close>

definition document_exists :: "('w, 'o) store_api \<Rightarrow> 'o yaml_lib \<Rightarrow> string \<Rightarrow> ('o \<Rightarrow> 'o) option \<Rightarrow> 'o \<Rightarrow> string \<Rightarrow> 'w \<Rightarrow> bool" where
  "document_exists A Y ns f ref doc w \<longleftrightarrow>
     (\<exists>x. yl_decode Y doc ref = Inr x \<and> (yl_kind Y x = [] \<or>
        (let x' = prepare_yaml A Y ns f x in \<exists>z. sa_get A (om_namespace (sa_meta A x')) (om_name (sa_meta A x')) w = Inr z)))"

lemma create_documents_all:
  assumes laws: "read_after_create A" "get_after_create A" and dec: "\<And>doc x y. yl_decode Y doc x = yl_decode Y doc y"
    and "create_documents A Y ns f docs ref w = (Inr (), w')" "doc \<in> set docs" "doc \<noteq> []"
  shows "document_exists A Y ns f ref0 doc w'"
  using assms(4,5)
proof (induction docs arbitrary: ref w)
  case (Cons d docs)
  show ?case
  proof (cases "doc \<in> set docs")
    case True
    from Cons.prems(1) obtain ref1 w1 where "create_documents A Y ns f docs ref1 w1 = (Inr (), w')"
      by (auto simp: Let_def split: if_splits sum.splits prod.splits)
    from Cons.IH [OF this True] show ?thesis .
  next
    case False
    with Cons.prems(2) have [simp]: "d = doc" by simp
    from Cons.prems(1) assms(6) obtain x where x: "yl_decode Y doc ref = Inr x" by (auto split: sum.splits)
    show ?thesis
    proof (cases "yl_kind Y x = []")
      case True
      then show ?thesis using x dec [of doc ref0 ref] by (auto simp: document_exists_def)
    next
      case kind: False
      with Cons.prems(1) assms(6) x obtain y w1 where w1: "CreateIfNotExists A (prepare_yaml A Y ns f x) w = (Inr y, w1)"
        "create_documents A Y ns f docs y w1 = (Inr (), w')"
        by (auto simp: Let_def split: sum.splits prod.splits)
      obtain z where "sa_get A (om_namespace (sa_meta A (prepare_yaml A Y ns f x))) (om_name (sa_meta A (prepare_yaml A Y ns f x))) w1 = Inr z"
        using CreateIfNotExists_exists [OF laws(1) w1(1)] by blast
      from create_documents_keeps [OF laws(2) w1(2) this] show ?thesis
        using x dec [of doc ref0 ref] by (auto simp: document_exists_def Let_def)
    qed
  qed
qed simp

text \<open>All documents are created.  When creating resources from YAML succeeds, every document between the separators that is not empty was
  decoded, and unless it has no kind its object exists afterwards, under the namespace that was asked for.  The decoder must not let one document
  depend on the one before it.\<close>

theorem yaml_documents_created:
  assumes "read_after_create A" "get_after_create A" "\<And>doc x y. yl_decode Y doc x = yl_decode Y doc y"
    and "CreateFromYamlContent A Y content namespace ref beforeCreate w = (Inr (), w')"
    and "doc \<in> set (strings_Split content ''---'')" "doc \<noteq> []"
  shows "\<exists>x. yl_decode Y doc ref = Inr x \<and> (yl_kind Y x = [] \<or>
    (let x' = prepare_yaml A Y namespace beforeCreate x in \<exists>z. sa_get A (om_namespace (sa_meta A x')) (om_name (sa_meta A x')) w' = Inr z))"
  using create_documents_all [OF assms(1-3)] assms(4-6) unfolding CreateFromYamlContent_def document_exists_def by blast

text \<open>A decoder of config maps: a document is the name, and, when it ends in an exclamation mark, data.\<close>

definition fresh_config :: "string \<Rightarrow> configmap" where
  "fresh_config n = \<lparr>cm_meta = mk_meta n [], cm_data = [], cm_binaryData = []\<rparr>"

definition fresh_yaml :: "configmap yaml_lib" where
  "fresh_yaml = \<lparr>yl_decode = (\<lambda>doc x. Inr (fresh_config doc)), yl_kind = (\<lambda>x. ''ConfigMap''), yl_setMeta = (\<lambda>m x. x\<lparr>cm_meta := m\<rparr>)\<rparr>"

definition sharing_yaml :: "configmap yaml_lib" where
  "sharing_yaml = fresh_yaml\<lparr>yl_decode := (\<lambda>doc x.
     if HasSuffix doc ''!'' then Inr (x\<lparr>cm_meta := mk_meta doc [], cm_data := [(''k'', ''v'')]\<rparr>) else Inr (x\<lparr>cm_meta := mk_meta doc []\<rparr>))\<rparr>"

lemma split_sample: "strings_Split ''a---b'' ''---'' = [''a'', ''b'']" "strings_Split ''a!---b'' ''---'' = [''a!'', ''b'']"
  by (simp_all add: strings_Split.simps strings_Index.simps HasPrefix_def)

lemmas yaml_sample_defs = CreateFromYamlContent_def prepare_yaml_def fresh_yaml_def fresh_config_def CreateIfNotExists_def Create_def
  Fetch_def FetchWithKey_def mem_simps mk_meta_def

lemma yaml_documents_created_witness:
  "\<exists>w' z. CreateFromYamlContent (mem_api cm_meta) fresh_yaml ''a---b'' ''ns'' (fresh_config []) None [] = (Inr (), w')
     \<and> sa_get (mem_api cm_meta) ''ns'' ''b'' w' = Inr z"
proof -
  obtain w' where run: "CreateFromYamlContent (mem_api cm_meta) fresh_yaml ''a---b'' ''ns'' (fresh_config []) None [] = (Inr (), w')"
    by (simp add: split_sample yaml_sample_defs)
  have "\<exists>x. yl_decode fresh_yaml ''b'' (fresh_config []) = Inr x \<and> (yl_kind fresh_yaml x = [] \<or>
    (let x' = prepare_yaml (mem_api cm_meta) fresh_yaml ''ns'' None x
     in \<exists>z. sa_get (mem_api cm_meta) (om_namespace (sa_meta (mem_api cm_meta) x')) (om_name (sa_meta (mem_api cm_meta) x')) w' = Inr z))"
    by (rule yaml_documents_created [OF read_after_create_mem get_after_create_mem _ run]) (simp_all add: fresh_yaml_def split_sample)
  with run show ?thesis by (simp add: prepare_yaml_def fresh_yaml_def fresh_config_def mk_meta_def Let_def)
qed

text \<open>A document that has no data of its own gets the data of the document before it.\<close>

lemma yaml_field_carried_over:
  "\<exists>w'. CreateFromYamlContent (mem_api cm_meta) sharing_yaml ''a!---b'' ''ns'' (fresh_config []) None [] = (Inr (), w')
     \<and> (\<exists>c. sa_get (mem_api cm_meta) ''ns'' ''b'' w' = Inr c \<and> cm_data c = [(''k'', ''v'')])"
  by (simp add: split_sample sharing_yaml_def HasSuffix_def yaml_sample_defs)

text \<open>The kube config file exists after the call, wherever it was missing, when creating a file makes it visible.\<close>

lemma GetKubeConfigFile_exists:
  assumes "\<And>f w w'. kf_openCreate F f w = (None, w') \<Longrightarrow> kf_stat F f w' = StatFound"
    and "GetKubeConfigFile F w = (Inr f, w')"
  shows "f = kf_default F \<and> kf_stat F f w' = StatFound"
  using assms
  by (auto simp: GetKubeConfigFile_def open_kube_config_def Let_def split: stat_result.splits prod.splits option.splits sum.splits)

end
