(* ===== verification/Kogito_Infra.thy ===== *)
theory Kogito_Infra
  imports Infra_Reconcilers Service_Types
begin

text \<open>
  The controller of KogitoInfra, \<^verbatim>\<open>controllers/common/infra_controller.go\<close>: the choice of the reconciler and the answer to the
  controller runtime (\<^verbatim>\<open>core/kogitoinfra/reconciler.go\<close>), the status (\<^verbatim>\<open>core/kogitoinfra/status.go\<close>), and the run that
  combines them.
\<close>

section \<open>The handler, internal/app/kogitoinfra.go\<close>

definition FetchKogitoInfraInstance :: "('w, kogito_infra) store_api \<Rightarrow> 'w infra_handler" where
  "FetchKogitoInfraInstance A namespace name w = FetchWithKey A namespace name w"

section \<open>The reconciler of a resource, reconciler.go\<close>

definition getResourceClass :: "string \<Rightarrow> string \<Rightarrow> string" where
  "getResourceClass kind APIVersion = ToLower (kind @ ''.'' @ APIVersion)"

definition resourceClassForInstance :: "infra_resource \<Rightarrow> string" where
  "resourceClassForInstance r = getResourceClass (ir_kind r) (ir_apiVersion r)"

definition getSupportedInfraResources :: "('w, 'c) infra_env \<Rightarrow> (string \<times> 'w infra_call) list" where
  "getSupportedInfraResources E =
     [(getResourceClass ''Infinispan'' ''infinispan.org/v1'', infinispan_Reconcile E),
      (getResourceClass ''Kafka'' ''kafka.strimzi.io/v1beta2'', kafka_Reconcile E),
      (getResourceClass ''Keycloak'' ''keycloak.org/v1alpha1'', keycloak_Reconcile E),
      (getResourceClass ''Broker'' (ie_eventingAPIVersion E), knative_Reconcile E),
      (getResourceClass ''MongoDB'' ''mongodbcommunity.mongodb.com/v1'', mongoDB_Reconcile E)]"

definition getSupportedResources :: "('w, 'c) infra_env \<Rightarrow> string list" where
  "getSupportedResources E = ie_rangeOrder E (map fst (getSupportedInfraResources E))"

definition errorForUnsupportedAPI :: "('w, 'c) infra_env \<Rightarrow> kogito_infra \<Rightarrow> gerr" where
  "errorForUnsupportedAPI E inst =
     InfraError UnsupportedAPIKind (''API '' @ ir_apiVersion (resource_of inst) @ '' is not supported for kind '' @
       ir_kind (resource_of inst) @ ''. Supported APIs are: ['' @ StringsJoin '' '' (getSupportedResources E) @ '']'')"

definition GetInfraReconciler :: "('w, 'c) infra_env \<Rightarrow> kogito_infra \<Rightarrow> gerr + 'w infra_call" where
  "GetInfraReconciler E inst =
     (case map_of (getSupportedInfraResources E) (resourceClassForInstance (resource_of inst)) of
        Some r \<Rightarrow> Inr r
      | None \<Rightarrow> Inl (errorForUnsupportedAPI E inst))"

definition reconciliationStandardInterval :: nat where "reconciliationStandardInterval = 30000"

definition infra_GetReconcileResultFor :: "gerr option \<Rightarrow> bool \<Rightarrow> ctrl_result \<times> gerr option" where
  "infra_GetReconcileResultFor err requeue =
     (if reasonForError err = ReconciliationFailure then (no_requeue, err)
      else if reasonForError err = ResourceMissingResourceConfig \<or> reasonForError err = ResourceConfigError then (no_requeue, None)
      else if \<not> requeue \<and> err = None then (no_requeue, None)
      else (no_requeue\<lparr>res_requeueAfter := reconciliationStandardInterval\<rparr>, None))"

section \<open>Status, status.go\<close>

definition newConfiguredCondition :: "cond_status \<Rightarrow> string \<Rightarrow> string \<Rightarrow> condition" where
  "newConfiguredCondition status reason message = mk_cond ''Configured'' status reason message"

definition setResourceFailed :: "cond_api \<Rightarrow> gerr \<Rightarrow> condition list \<Rightarrow> condition list" where
  "setResourceFailed C err conditions =
     ca_set C (newConfiguredCondition CFalse (reasonForError (Some err)) (error_message err)) conditions"

definition setResourceSuccess :: "cond_api \<Rightarrow> condition list \<Rightarrow> condition list" where
  "setResourceSuccess C conditions = ca_set C (newConfiguredCondition CTrue ResourceSuccessfullyConfigured []) conditions"

text \<open>An error of the fetch is logged, and the instance that was not fetched is read.\<close>

definition isStatusChanged :: "('w, 'c) infra_env \<Rightarrow> kogito_infra \<Rightarrow> 'w \<Rightarrow> gerr + bool" where
  "isStatusChanged E inst w =
     (case FetchKogitoInfraInstance (ie_infras E) (ki_namespace inst) (ki_name inst) w of
        Inr (Some d) \<Rightarrow> Inr (ki_status inst \<noteq> ki_status d)
      | _ \<Rightarrow> Inl (Panic ''nil pointer dereference''))"

definition set_configured :: "cond_api \<Rightarrow> gerr option \<Rightarrow> infra_status \<Rightarrow> infra_status" where
  "set_configured C err st =
     (let cs = (case ist_conditions st of None \<Rightarrow> [] | Some cs \<Rightarrow> cs)
      in st\<lparr>ist_conditions := Some (case err of Some e \<Rightarrow> setResourceFailed C e cs | None \<Rightarrow> setResourceSuccess C cs)\<rparr>)"

definition UpdateBaseStatus :: "('w, 'c) infra_env \<Rightarrow> gerr option \<Rightarrow> 'w infra_call" where
  "UpdateBaseStatus E err s =
     (let inst = on_status (set_configured (ie_conditions E) err) (fst s)
      in case isStatusChanged E inst (snd s) of
           Inl e \<Rightarrow> (Inl e, (inst, snd s))
         | Inr False \<Rightarrow> (Inr (), (inst, snd s))
         | Inr True \<Rightarrow> (case UpdateStatus (ie_infras E) inst (snd s) of
               (Inl e, w') \<Rightarrow> (Inr (), (inst, w'))
             | (Inr inst', w') \<Rightarrow> (Inr (), (inst', w'))))"

section \<open>The controller, infra\_controller.go\<close>

definition reset_status :: "kogito_infra \<Rightarrow> kogito_infra" where
  "reset_status = on_status (\<lambda>st. st\<lparr>ist_envs := [], ist_configMapEnvFrom := [], ist_configMapVolumes := [],
     ist_secretEnvFrom := [], ist_secretVolumes := []\<rparr>)"

definition reconcile_resource :: "('w, 'c) infra_env \<Rightarrow> 'w infra_call" where
  "reconcile_resource E s =
     (if IsResourceEmpty (ki_spec (fst s)) then (Inr (), s)
      else (case GetInfraReconciler E (fst s) of Inl e \<Rightarrow> (Inl e, s) | Inr r \<Rightarrow> r s))"

definition add_envs :: "'w infra_call" where
  "add_envs s =
     (Inr (), (if is_envs (ki_spec (fst s)) = [] then fst s else on_status (AddEnvs (is_envs (ki_spec (fst s)))) (fst s), snd s))"

definition infra_steps :: "('w, 'c) infra_env \<Rightarrow> 'w infra_call" where
  "infra_steps E =
     bindS (reconcile_resource E) (\<lambda>_.
     bindS (infraProperties_Reconcile E) (\<lambda>_.
     bindS add_envs (\<lambda>_.
     bindS (configMapReference_Reconcile E) (\<lambda>_. secretReference_Reconcile E))))"

text \<open>The status is updated by a deferred call, which also runs when a step panics; the error variable it reads is still nil then.
  A run that panics is \<^term>\<open>Inl\<close>.\<close>

definition infra_Reconcile :: "('w, 'c) infra_env \<Rightarrow> string \<Rightarrow> string \<Rightarrow> 'w \<Rightarrow> (gerr + ctrl_result \<times> gerr option) \<times> 'w" where
  "infra_Reconcile E namespace name w =
     (case FetchKogitoInfraInstance (ie_infras E) namespace name w of
        Inl e \<Rightarrow> (Inr (no_requeue, Some e), w)
      | Inr None \<Rightarrow> (Inr (no_requeue, None), w)
      | Inr (Some inst) \<Rightarrow>
          (case infra_steps E (reset_status inst, w) of
             (r, s) \<Rightarrow>
               (let resultErr = (case r of Inl e \<Rightarrow> if is_panic e then None else Some e | Inr _ \<Rightarrow> None)
                in case UpdateBaseStatus E resultErr s of
                     (Inl p, s') \<Rightarrow> (Inl p, snd s')
                   | (Inr _, s') \<Rightarrow>
                       (case r of
                          Inl e \<Rightarrow> if is_panic e then (Inl e, snd s') else (Inr (infra_GetReconcileResultFor (Some e) False), snd s')
                        | Inr _ \<Rightarrow> (Inr (no_requeue, None), snd s')))))"

section \<open>Classification of errors\<close>

definition infra_delay :: "gerr \<Rightarrow> nat option" where
  "infra_delay e =
     (case e of
        InfraError r m \<Rightarrow>
          if r = ReconciliationFailure then None
          else if r = ResourceMissingResourceConfig \<or> r = ResourceConfigError then Some 0
          else Some reconciliationStandardInterval
      | _ \<Rightarrow> None)"

interpretation infra_errors: error_classifier infra_delay "\<lambda>err. infra_GetReconcileResultFor err False"
  by unfold_locales
    (auto simp: infra_GetReconcileResultFor_def infra_delay_def reasonForError_def no_requeue_def split: gerr.splits if_splits)

section \<open>Lemmas\<close>

lemma getResourceClass_Broker: "getResourceClass ''Broker'' v = ''broker.'' @ ToLower v"
  by (simp add: getResourceClass_def ToLower_def ascii_lower_def Let_def char_of_def bit_Suc_0_iff)

lemma class_values:
  "getResourceClass ''Infinispan'' ''infinispan.org/v1'' = ''infinispan.infinispan.org/v1''"
  "getResourceClass ''Kafka'' ''kafka.strimzi.io/v1beta2'' = ''kafka.kafka.strimzi.io/v1beta2''"
  "getResourceClass ''KAFKA'' ''Kafka.Strimzi.IO/v1Beta2'' = ''kafka.kafka.strimzi.io/v1beta2''"
  "getResourceClass ''Keycloak'' ''keycloak.org/v1alpha1'' = ''keycloak.keycloak.org/v1alpha1''"
  "getResourceClass ''MongoDB'' ''mongodbcommunity.mongodb.com/v1'' = ''mongodb.mongodbcommunity.mongodb.com/v1''"
  by code_simp+

lemma supported_classes:
  "map fst (getSupportedInfraResources E) =
     [''infinispan.infinispan.org/v1'', ''kafka.kafka.strimzi.io/v1beta2'', ''keycloak.keycloak.org/v1alpha1'',
      ''broker.'' @ ToLower (ie_eventingAPIVersion E), ''mongodb.mongodbcommunity.mongodb.com/v1'']"
  by (simp add: getSupportedInfraResources_def getResourceClass_Broker class_values)

lemma GetInfraReconciler_class:
  "getResourceClass (ir_kind (resource_of i)) (ir_apiVersion (resource_of i)) =
     getResourceClass (ir_kind (resource_of j)) (ir_apiVersion (resource_of j)) \<Longrightarrow>
   GetInfraReconciler E i = Inr r \<Longrightarrow> GetInfraReconciler E j = Inr r"
  by (simp add: GetInfraReconciler_def resourceClassForInstance_def split: option.splits)

lemma infraProperties_success:
  "infraProperties_Reconcile E s = (Inr (), s') \<Longrightarrow>
   fst s' = on_status (\<lambda>st. st\<lparr>ist_configMapEnvFrom := ist_configMapEnvFrom st @
     (if is_infraProperties (ki_spec (fst s)) = [] then [] else [infraProps_name (fst s)])\<rparr>) (fst s)"
  by (auto simp: infraProperties_Reconcile_def provide_success AddConfigMapEnvFromReferences_def on_status_def split: if_splits)

lemma add_envs_result:
  "add_envs s = (Inr (), (on_status (\<lambda>st. st\<lparr>ist_envs := ist_envs st @ is_envs (ki_spec (fst s))\<rparr>) (fst s), snd s))"
  by (simp add: add_envs_def AddEnvs_def on_status_def)

lemma set_configured_condition:
  assumes "cond_laws C"
  shows "\<exists>cs. ist_conditions (set_configured C err st) = Some cs
    \<and> cond_status_of C cs ''Configured'' = Some (if err = None then CTrue else CFalse)
    \<and> cond_reason_of C cs ''Configured'' = Some (if err = None then ResourceSuccessfullyConfigured else reasonForError err)"
  using assms by (auto simp: set_configured_def Let_def setResourceFailed_def setResourceSuccess_def cond_status_set cond_reason_set
      newConfiguredCondition_def mk_cond_def split: option.split)

lemma infra_steps_success:
  assumes "infra_steps E s = (Inr (), s')"
  shows "\<exists>s1. reconcile_resource E s = (Inr (), s1) \<and>
     fst s' = on_status (\<lambda>st. st\<lparr>ist_envs := ist_envs st @ is_envs (ki_spec (fst s1)),
         ist_configMapEnvFrom := (ist_configMapEnvFrom st @ (if is_infraProperties (ki_spec (fst s1)) = [] then [] else [infraProps_name (fst s1)]))
           @ is_configMapEnvFrom (ki_spec (fst s1)),
         ist_configMapVolumes := ist_configMapVolumes st @ is_configMapVolumes (ki_spec (fst s1)),
         ist_secretEnvFrom := ist_secretEnvFrom st @ is_secretEnvFrom (ki_spec (fst s1)),
         ist_secretVolumes := ist_secretVolumes st @ is_secretVolumes (ki_spec (fst s1))\<rparr>) (fst s1)
     \<and> references_exist (FetchConfigMap (ie_configMaps E)) (ki_namespace (fst s1)) (is_configMapEnvFrom (ki_spec (fst s1)))
         (is_configMapVolumes (ki_spec (fst s1))) (snd s')
     \<and> references_exist (FetchSecret (ie_secrets E)) (ki_namespace (fst s1)) (is_secretEnvFrom (ki_spec (fst s1)))
         (is_secretVolumes (ki_spec (fst s1))) (snd s')"
proof -
  obtain s1 s2 where st: "reconcile_resource E s = (Inr (), s1)" "infraProperties_Reconcile E s1 = (Inr (), s2)"
    and rest: "bindS add_envs (\<lambda>_. bindS (configMapReference_Reconcile E) (\<lambda>_. secretReference_Reconcile E)) s2 = (Inr (), s')"
    using assms by (auto simp: infra_steps_def bindS_eq_Inr)
  from rest infraProperties_success [OF st(2)] st(1) show ?thesis
    by (intro exI [of _ s1])
      (auto simp: bindS_eq_Inr add_envs_result configMapReference_success secretReference_success)
qed

lemma infra_Reconcile_steps:
  assumes "FetchKogitoInfraInstance (ie_infras E) namespace name w = Inr (Some inst)"
    and "infra_steps E (reset_status inst, w) = (r, s)"
    and "UpdateBaseStatus E (case r of Inl e \<Rightarrow> if is_panic e then None else Some e | Inr _ \<Rightarrow> None) s = (Inr (), s')"
  shows "infra_Reconcile E namespace name w =
    (case r of Inl e \<Rightarrow> if is_panic e then Inl e else Inr (infra_GetReconcileResultFor (Some e) False) | Inr _ \<Rightarrow> Inr (no_requeue, None), snd s')"
  using assms by (auto simp: infra_Reconcile_def Let_def split: sum.splits)

lemma UpdateBaseStatus_written:
  assumes "sa_get (ie_infras E) (ki_namespace (fst s)) (ki_name (fst s)) (snd s) = Inr d"
    and "ki_status d \<noteq> set_configured (ie_conditions E) err (ki_status (fst s))"
  shows "\<exists>i. UpdateBaseStatus E err s =
    (Inr (), (i, snd (sa_updateStatus (ie_infras E) (on_status (set_configured (ie_conditions E) err) (fst s)) (snd s))))"
proof -
  obtain r w' where u: "sa_updateStatus (ie_infras E) (on_status (set_configured (ie_conditions E) err) (fst s)) (snd s) = (r, w')"
    by (metis surj_pair)
  have "FetchKogitoInfraInstance (ie_infras E) (ki_namespace (fst s)) (ki_name (fst s)) (snd s) = Inr (Some d)"
    using assms(1) by (simp add: FetchKogitoInfraInstance_def FetchWithKey_def)
  with assms(2) u show ?thesis
    by (cases r) (auto simp: UpdateBaseStatus_def isStatusChanged_def Let_def UpdateStatus_def)
qed

lemma UpdateBaseStatus_result:
  fixes E :: "('w, 'c) infra_env" and s :: "kogito_infra \<times> 'w" and err d
  assumes "sa_get (ie_infras E) (ki_namespace (fst s)) (ki_name (fst s)) (snd s) = Inr d"
  shows "\<exists>s'. UpdateBaseStatus E err s = (Inr (), s')
     \<and> (if ki_status d = set_configured (ie_conditions E) err (ki_status (fst s)) then snd s' = snd s
        else snd s' = snd (sa_updateStatus (ie_infras E) ((fst s)\<lparr>ki_status := set_configured (ie_conditions E) err (ki_status (fst s))\<rparr>) (snd s)))"
proof (cases "ki_status d = set_configured (ie_conditions E) err (ki_status (fst s))")
  case True
  then show ?thesis using assms
    by (simp add: UpdateBaseStatus_def isStatusChanged_def FetchKogitoInfraInstance_def FetchWithKey_def Let_def)
next
  case False
  then show ?thesis using UpdateBaseStatus_written [OF assms, of err] by (auto simp: on_status_def)
qed

section \<open>Frames\<close>

text \<open>No reconciler changes the metadata or the spec of the instance.\<close>

definition frames :: "(kogito_infra \<times> 'w \<Rightarrow> (gerr + 'a) \<times> (kogito_infra \<times> 'w)) \<Rightarrow> bool" where
  "frames f \<longleftrightarrow> (\<forall>s. ki_meta (fst (snd (f s))) = ki_meta (fst s) \<and> ki_spec (fst (snd (f s))) = ki_spec (fst s))"

named_theorems frame_intros

lemma frames_bindS [frame_intros]: "frames f \<Longrightarrow> (\<And>x. frames (g x)) \<Longrightarrow> frames (bindS f g)"
  by (auto simp: frames_def bindS_def split: prod.split sum.split) (metis fst_conv snd_conv)+

lemma frames_basic [frame_intros]:
  "frames (checkI f)" "frames (returnS x)" "frames (provide L equal required deployed add)" "frames add_envs"
  by (auto simp: frames_def checkI_def returnS_def provide_def add_envs_def split: prod.split sum.split)

lemma frames_if [frame_intros]: "frames f \<Longrightarrow> frames g \<Longrightarrow> frames (if b then f else g)"
  by simp

lemma frames_if_state [frame_intros]: "frames f \<Longrightarrow> frames g \<Longrightarrow> frames (\<lambda>s. if p s then f s else g s)"
  by (simp add: frames_def)

lemma frames_status [frame_intros]: "frames (\<lambda>s. (r s, (on_status (add s) (fst s), snd s)))"
  by (simp add: frames_def)

lemma frames_infraProperties [frame_intros]: "frames (infraProperties_Reconcile E)"
  by (auto simp: frames_def infraProperties_Reconcile_def provide_def split: prod.split sum.split)

lemma frames_createTrustStoreSecret [frame_intros]: "frames (createTrustStoreSecret E i)"
  by (auto simp: frames_def createTrustStoreSecret_def split: prod.split sum.split)

lemma frames_infinispanCredential [frame_intros]: "frames (infinispanCredential_Reconcile E i runtime)"
  by (auto simp: frames_def infinispanCredential_Reconcile_def provide_def split: prod.split sum.split bool.split)

lemma frames_infinispan_steps [frame_intros]: "frames (infinispan_steps E i)"
  unfolding infinispan_steps_def updateTrustStoreSecretReferenceInStatus_def infinispanTrustStore_Reconcile_def
    updateInfinispanRuntimePropsInStatus_def addTrustStoreVolumeSource_def addTrustStoreSecret_def trustStoreSecret_Reconcile_def
    infinispanConfig_Reconcile_def
  by (intro frame_intros)

lemma frames_infinispan [frame_intros]: "frames (infinispan_Reconcile E)"
proof -
  have "frames (\<lambda>s. case infinispan_steps E i s of (Inl e, s') \<Rightarrow> (if is_panic e then Inl e else Inr (), s') | (Inr _, s') \<Rightarrow> (Inr (), s'))" for i
    using frames_infinispan_steps [of E i] by (auto simp: frames_def split: prod.split sum.split) (metis fst_conv snd_conv)+
  then show ?thesis unfolding infinispan_Reconcile_def by (intro frame_intros) auto
qed

lemma frames_reconcilers [frame_intros]:
  "frames (kafka_Reconcile E)" "frames (mongoDB_Reconcile E)" "frames (keycloak_Reconcile E)" "frames (knative_Reconcile E)"
  unfolding kafka_Reconcile_def updateKafkaRuntimePropsInStatus_def kafkaConfig_Reconcile_def mongoDB_Reconcile_def
    updateMongoDBRuntimePropsInStatus_def mongoDBConfig_Reconcile_def mongoDBCredential_Reconcile_def keycloak_Reconcile_def knative_Reconcile_def
  by (intro frame_intros)+

lemma frames_references [frame_intros]:
  "frames (configMapReference_Reconcile E)" "frames (secretReference_Reconcile E)"
  unfolding configMapReference_Reconcile_def secretReference_Reconcile_def
  by (intro frame_intros; simp add: frames_def reconcileConfigMapEnvFromReferences_def reconcileConfigMapVolumeReferences_def
      reconcileSecretEnvFromReferences_def reconcileSecretVolumeReferences_def cm_envs.loop_frame cm_volumes.loop_frame
      secret_envs.loop_frame secret_volumes.loop_frame)+

lemma frames_reconcile_resource [frame_intros]: "frames (reconcile_resource E)"
proof -
  have "list_all (\<lambda>p. frames (snd p)) (getSupportedInfraResources E)"
    by (simp add: getSupportedInfraResources_def frame_intros)
  then have "GetInfraReconciler E inst = Inr r \<Longrightarrow> frames r" for inst r
    by (auto simp: GetInfraReconciler_def list_all_iff split: option.splits dest!: map_of_SomeD)
  then show ?thesis by (auto simp: frames_def reconcile_resource_def split: sum.split)
qed

lemma frames_infra_steps: "frames (infra_steps E)"
  unfolding infra_steps_def by (intro frame_intros)

section \<open>Properties\<close>

text \<open>C24: which failures of a KogitoInfra are retried.  The runtime is asked for another run for every error except an error of the
  configuration, which only a change of the resource can mend; an error the reconcilers classified is retried after 30 seconds and
  reported to nobody else, every other error is returned to the runtime as it is.\<close>

theorem infra_retry:
  "(retried (infra_GetReconcileResultFor (Some e) False) \<longleftrightarrow>
      reasonForError (Some e) \<notin> {ResourceMissingResourceConfig, ResourceConfigError})
   \<and> (snd (infra_GetReconcileResultFor (Some e) False) = (if reasonForError (Some e) = ReconciliationFailure then Some e else None))
   \<and> (res_requeueAfter (fst (infra_GetReconcileResultFor (Some e) False)) =
        (if reasonForError (Some e) \<in> {ReconciliationFailure, ResourceMissingResourceConfig, ResourceConfigError} then 0 else 30000))
   \<and> list_all (\<lambda>e'. \<not> retried (infra_GetReconcileResultFor (Some e') False))
       [errorForMissingResourceConfig inst a, errorForResourceConfigError inst a]
   \<and> list_all (\<lambda>e'. fst (infra_GetReconcileResultFor (Some e') False) = \<lparr>res_requeue = False, res_requeueAfter = 30000\<rparr>)
       [errorForResourceNotFound a b c, errorForResourceAPINotFound a, errorForResourceNotReadyError e, errorForUnsupportedAPI E inst]"
proof -
  have delay: "infra_delay e = Some 0 \<longleftrightarrow> reasonForError (Some e) \<in> {ResourceMissingResourceConfig, ResourceConfigError}"
    by (cases e) (auto simp: infra_delay_def reasonForError_def reconciliationStandardInterval_def)
  then have "retried (infra_GetReconcileResultFor (Some e) False) \<longleftrightarrow>
      reasonForError (Some e) \<notin> {ResourceMissingResourceConfig, ResourceConfigError}"
    using infra_errors.not_retried_iff [of "Some e"] by auto
  then show ?thesis
    by (simp add: infra_GetReconcileResultFor_def errorForMissingResourceConfig_def errorForResourceConfigError_def errorForResourceNotFound_def
        errorForResourceAPINotFound_def errorForResourceNotReadyError_def errorForUnsupportedAPI_def reasonForError_def retried_def no_requeue_def
        reconciliationStandardInterval_def)
qed

text \<open>The choice of the reconciler.  It depends on the kind and the API version of the resource only up to the case of their letters,
  is defined exactly for the five supported classes, and gives each its own reconciler.\<close>

theorem GetInfraReconciler_spec:
  "((\<exists>r. GetInfraReconciler E inst = Inr r) \<longleftrightarrow>
      ToLower (ir_kind (resource_of inst) @ ''.'' @ ir_apiVersion (resource_of inst)) \<in>
        {''infinispan.infinispan.org/v1'', ''kafka.kafka.strimzi.io/v1beta2'', ''keycloak.keycloak.org/v1alpha1'',
         ''broker.'' @ ToLower (ie_eventingAPIVersion E), ''mongodb.mongodbcommunity.mongodb.com/v1''})
   \<and> list_all (\<lambda>(k, v, r). GetInfraReconciler E (inst\<lparr>ki_spec := (ki_spec inst)\<lparr>is_resource :=
          Some \<lparr>ir_apiVersion = v, ir_kind = k, ir_namespace = ns, ir_name = n\<rparr>\<rparr>\<rparr>) = Inr r)
      [(''Infinispan'', ''infinispan.org/v1'', infinispan_Reconcile E), (''Kafka'', ''kafka.strimzi.io/v1beta2'', kafka_Reconcile E),
       (''KAFKA'', ''Kafka.Strimzi.IO/v1Beta2'', kafka_Reconcile E),
       (''Keycloak'', ''keycloak.org/v1alpha1'', keycloak_Reconcile E), (''Broker'', ie_eventingAPIVersion E, knative_Reconcile E),
       (''MongoDB'', ''mongodbcommunity.mongodb.com/v1'', mongoDB_Reconcile E)]"
proof
  have "(\<exists>r. GetInfraReconciler E inst = Inr r) \<longleftrightarrow>
      ToLower (ir_kind (resource_of inst) @ ''.'' @ ir_apiVersion (resource_of inst)) \<in> set (map fst (getSupportedInfraResources E))"
    unfolding set_map dom_map_of_conv_image_fst [symmetric]
    by (auto simp: GetInfraReconciler_def resourceClassForInstance_def getResourceClass_def split: option.split)
  then show "(\<exists>r. GetInfraReconciler E inst = Inr r) \<longleftrightarrow>
      ToLower (ir_kind (resource_of inst) @ ''.'' @ ir_apiVersion (resource_of inst)) \<in>
        {''infinispan.infinispan.org/v1'', ''kafka.kafka.strimzi.io/v1beta2'', ''keycloak.keycloak.org/v1alpha1'',
         ''broker.'' @ ToLower (ie_eventingAPIVersion E), ''mongodb.mongodbcommunity.mongodb.com/v1''}"
    unfolding supported_classes by simp
qed (simp add: GetInfraReconciler_def resourceClassForInstance_def resource_of_def getSupportedInfraResources_def getResourceClass_Broker
    class_values)

lemma frames_result:
  "frames f \<Longrightarrow> f s = (r, s') \<Longrightarrow> ki_meta (fst s') = ki_meta (fst s) \<and> ki_spec (fst s') = ki_spec (fst s)"
  unfolding frames_def by (metis snd_conv)

text \<open>C23: a run reports exactly what services may mount.  When the steps of a run succeed, the status lists, for each kind of reference, first
  what the reconciler of the resource provided, then the config map of the properties if there are any, then exactly the references of the
  spec; and every config map and secret of the spec exists in the cluster.\<close>

theorem infra_steps_references:
  assumes "infra_steps E (reset_status inst, w) = (Inr (), s)"
  shows "\<exists>s1. reconcile_resource E (reset_status inst, w) = (Inr (), s1)
     \<and> ist_envs (ki_status (fst s)) = ist_envs (ki_status (fst s1)) @ is_envs (ki_spec inst)
     \<and> ist_configMapEnvFrom (ki_status (fst s)) = ist_configMapEnvFrom (ki_status (fst s1)) @
          (if is_infraProperties (ki_spec inst) = [] then [] else [ki_name inst @ ''-properties'']) @ is_configMapEnvFrom (ki_spec inst)
     \<and> ist_configMapVolumes (ki_status (fst s)) = ist_configMapVolumes (ki_status (fst s1)) @ is_configMapVolumes (ki_spec inst)
     \<and> ist_secretEnvFrom (ki_status (fst s)) = ist_secretEnvFrom (ki_status (fst s1)) @ is_secretEnvFrom (ki_spec inst)
     \<and> ist_secretVolumes (ki_status (fst s)) = ist_secretVolumes (ki_status (fst s1)) @ is_secretVolumes (ki_spec inst)
     \<and> references_exist (FetchConfigMap (ie_configMaps E)) (ki_namespace inst) (is_configMapEnvFrom (ki_spec inst)) (is_configMapVolumes (ki_spec inst)) (snd s)
     \<and> references_exist (FetchSecret (ie_secrets E)) (ki_namespace inst) (is_secretEnvFrom (ki_spec inst)) (is_secretVolumes (ki_spec inst)) (snd s)"
proof -
  obtain s1 where s1: "reconcile_resource E (reset_status inst, w) = (Inr (), s1)"
    and rest: "fst s = on_status (\<lambda>st. st\<lparr>ist_envs := ist_envs st @ is_envs (ki_spec (fst s1)),
         ist_configMapEnvFrom := (ist_configMapEnvFrom st @ (if is_infraProperties (ki_spec (fst s1)) = [] then [] else [infraProps_name (fst s1)]))
           @ is_configMapEnvFrom (ki_spec (fst s1)),
         ist_configMapVolumes := ist_configMapVolumes st @ is_configMapVolumes (ki_spec (fst s1)),
         ist_secretEnvFrom := ist_secretEnvFrom st @ is_secretEnvFrom (ki_spec (fst s1)),
         ist_secretVolumes := ist_secretVolumes st @ is_secretVolumes (ki_spec (fst s1))\<rparr>) (fst s1)"
     "references_exist (FetchConfigMap (ie_configMaps E)) (ki_namespace (fst s1)) (is_configMapEnvFrom (ki_spec (fst s1)))
         (is_configMapVolumes (ki_spec (fst s1))) (snd s)"
     "references_exist (FetchSecret (ie_secrets E)) (ki_namespace (fst s1)) (is_secretEnvFrom (ki_spec (fst s1)))
         (is_secretVolumes (ki_spec (fst s1))) (snd s)"
    using infra_steps_success [OF assms] by blast
  have "ki_meta (fst s1) = ki_meta inst" "ki_spec (fst s1) = ki_spec inst"
    using frames_result [OF frames_reconcile_resource s1] by (simp_all add: reset_status_def)
  with s1 rest show ?thesis by (intro exI [of _ s1]) (simp add: infraProps_name_def)
qed

text \<open>What each resource provides.  A successful run on Kafka provides the two config maps of the runtimes, one on MongoDB the two config maps
  and the two credential secrets; Keycloak and Knative provide nothing and change nothing.\<close>

theorem resource_references:
  "(kafka_Reconcile E s = (Inr (), s1) \<longrightarrow>
      fst s1 = on_status (\<lambda>st. st\<lparr>ist_configMapEnvFrom := ist_configMapEnvFrom st @ [''kogito-kafka-quarkus-config'', ''kogito-kafka-springboot-config'']\<rparr>) (fst s))
   \<and> (mongoDB_Reconcile E s = (Inr (), s2) \<longrightarrow>
      fst s2 = on_status (\<lambda>st. st\<lparr>ist_configMapEnvFrom := ist_configMapEnvFrom st @ [''kogito-mongodb-quarkus-config'', ''kogito-mongodb-springboot-config''],
         ist_secretEnvFrom := ist_secretEnvFrom st @ [''kogito-mongodb-quarkus-credential'', ''kogito-mongodb-springboot-credential'']\<rparr>) (fst s))
   \<and> (keycloak_Reconcile E s = (Inr (), s3) \<longrightarrow> s3 = s)
   \<and> (knative_Reconcile E s = (Inr (), s4) \<longrightarrow> s4 = s)"
proof (intro conjI impI)
  assume "kafka_Reconcile E s = (Inr (), s1)"
  then show "fst s1 = on_status (\<lambda>st. st\<lparr>ist_configMapEnvFrom := ist_configMapEnvFrom st @
      [''kogito-kafka-quarkus-config'', ''kogito-kafka-springboot-config'']\<rparr>) (fst s)"
    by (auto simp: kafka_Reconcile_def bindS_eq_Inr checkI_Inr updateKafkaRuntimePropsInStatus_def kafkaConfig_Reconcile_def provide_success
        GetKafkaConfigMapName_def runtime_name_def AddConfigMapEnvFromReferences_def)
next
  assume "mongoDB_Reconcile E s = (Inr (), s2)"
  then show "fst s2 = on_status (\<lambda>st. st\<lparr>ist_configMapEnvFrom := ist_configMapEnvFrom st @ [''kogito-mongodb-quarkus-config'', ''kogito-mongodb-springboot-config''],
         ist_secretEnvFrom := ist_secretEnvFrom st @ [''kogito-mongodb-quarkus-credential'', ''kogito-mongodb-springboot-credential'']\<rparr>) (fst s)"
    by (auto simp: mongoDB_Reconcile_def bindS_eq_Inr checkI_Inr updateMongoDBRuntimePropsInStatus_def mongoDBConfig_Reconcile_def
        mongoDBCredential_Reconcile_def provide_success getMongoDBConfigMapName_def mongoDB_getCredentialSecretName_def runtime_name_def
        AddConfigMapEnvFromReferences_def AddSecretEnvFromReferences_def)
qed (auto simp: keycloak_Reconcile_def knative_Reconcile_def bindS_eq_Inr checkI_Inr returnS_Inr)

text \<open>An Infinispan whose service is missing counts as configured.  The reconciler answers an error of its steps with success: with a
  well-formed instance and no service of its name it succeeds without providing any reference.\<close>

theorem infinispan_error_ignored:
  assumes "infinispan_ready E (fst s) (snd s) = Inr i" "isp_endpointAuthentication i = Some False"
    and "sa_get (ie_services E) (om_namespace (isp_meta i)) (om_name (isp_meta i)) (snd s) = Inl (ApiError SNotFound m)"
  shows "infinispan_Reconcile E s = (Inr (), s) \<and> (\<exists>e. infinispan_steps E i s = (Inl e, s))"
proof -
  obtain e where e: "FetchInfinispanInstanceURI (ie_services E) (om_namespace (isp_meta i)) (om_name (isp_meta i)) (snd s) = Inl e" "\<not> is_panic e"
    using assms(3) by (simp add: FetchInfinispanInstanceURI_def FetchWithKey_def)
  have "infinispanTrustStore_Reconcile E i s = (Inr (), s)"
    using assms(2) by (simp add: infinispanTrustStore_Reconcile_def bindS_def checkI_def isInfinispanCertEncryptionEnabled_def returnS_def)
  moreover have "infinispanConfig_Reconcile E i Quarkus s = (Inl e, s)"
    using e by (simp add: infinispanConfig_Reconcile_def provide_def resource_pass_def infinispanConfig_createRequiredResources_def
        getInfinispanAppProps_def)
  ultimately have "infinispan_steps E i s = (Inl e, s)"
    by (simp add: infinispan_steps_def updateTrustStoreSecretReferenceInStatus_def updateInfinispanRuntimePropsInStatus_def bindS_def)
  with assms(1) e(2) show ?thesis by (simp add: infinispan_Reconcile_def bindS_def checkI_def)
qed

text \<open>The status tells how the run ended.  After a run whose steps ended with a result or an error, the instance in the cluster has, or is
  sent, the condition \<^verbatim>\<open>Configured\<close>, true if they succeeded and otherwise false with the reason of the error, and the runtime gets the answer for that error.\<close>

theorem infra_status_reports_run:
  assumes "cond_laws (ie_conditions E)"
    and "sa_get (ie_infras E) ns n w = Inr inst"
    and "infra_steps E (reset_status inst, w) = (r, s)" "\<forall>m. r \<noteq> Inl (Panic m)"
    and "sa_get (ie_infras E) (ki_namespace inst) (ki_name inst) (snd s) = Inr d"
  shows "\<exists>st cs w'. ist_conditions st = Some cs
     \<and> cond_status_of (ie_conditions E) cs ''Configured'' = Some (if r = Inr () then CTrue else CFalse)
     \<and> cond_reason_of (ie_conditions E) cs ''Configured'' = Some (case r of Inr _ \<Rightarrow> ResourceSuccessfullyConfigured | Inl e \<Rightarrow> reasonForError (Some e))
     \<and> infra_Reconcile E ns n w = (Inr (case r of Inr _ \<Rightarrow> (no_requeue, None) | Inl e \<Rightarrow> infra_GetReconcileResultFor (Some e) False), w')
     \<and> (if ki_status d = st then w' = snd s else w' = snd (sa_updateStatus (ie_infras E) ((fst s)\<lparr>ki_status := st\<rparr>) (snd s)))"
proof -
  let ?err = "case r of Inl e \<Rightarrow> Some e | Inr _ \<Rightarrow> None"
  let ?st = "set_configured (ie_conditions E) ?err (ki_status (fst s))"
  have fetch: "FetchKogitoInfraInstance (ie_infras E) ns n w = Inr (Some inst)"
    using assms(2) by (simp add: FetchKogitoInfraInstance_def FetchWithKey_def)
  have np: "(case r of Inl e \<Rightarrow> if is_panic e then None else Some e | Inr _ \<Rightarrow> None) = ?err" "\<And>e. r = Inl e \<Longrightarrow> \<not> is_panic e"
    using assms(4) by (auto split: sum.split elim: is_panic.elims)
  have meta: "ki_meta (fst s) = ki_meta inst"
    using frames_result [OF frames_infra_steps assms(3)] by (simp add: reset_status_def)
  obtain s' where s': "UpdateBaseStatus E ?err s = (Inr (), s')"
    "if ki_status d = ?st then snd s' = snd s else snd s' = snd (sa_updateStatus (ie_infras E) ((fst s)\<lparr>ki_status := ?st\<rparr>) (snd s))"
    using UpdateBaseStatus_result [of E s d ?err] assms(5) meta by auto
  have "infra_Reconcile E ns n w = (Inr (case r of Inr _ \<Rightarrow> (no_requeue, None) | Inl e \<Rightarrow> infra_GetReconcileResultFor (Some e) False), snd s')"
    using infra_Reconcile_steps [OF fetch assms(3), of s'] np s'(1) by (simp split: sum.split)
  moreover obtain cs where "ist_conditions ?st = Some cs"
    "cond_status_of (ie_conditions E) cs ''Configured'' = Some (if ?err = None then CTrue else CFalse)"
    "cond_reason_of (ie_conditions E) cs ''Configured'' = Some (if ?err = None then ResourceSuccessfullyConfigured else reasonForError ?err)"
    using set_configured_condition [OF assms(1)] by blast
  ultimately show ?thesis using s'(2)
    by (intro exI [of _ ?st] exI [of _ cs] exI [of _ "snd s'"]) (auto split: sum.split)
qed

text \<open>C37: a run that crashes reports success.  When a step panics, the deferred update still runs, with no error to read: the instance in the cluster
  has, or is sent, the condition \<^verbatim>\<open>Configured\<close> with status true.\<close>

theorem infra_panic_reported_configured:
  assumes "cond_laws (ie_conditions E)"
    and "sa_get (ie_infras E) ns n w = Inr inst"
    and "infra_steps E (reset_status inst, w) = (Inl (Panic m), s)"
    and "sa_get (ie_infras E) (ki_namespace inst) (ki_name inst) (snd s) = Inr d"
  shows "\<exists>st cs. ist_conditions st = Some cs \<and> cond_status_of (ie_conditions E) cs ''Configured'' = Some CTrue
     \<and> fst (infra_Reconcile E ns n w) = Inl (Panic m)
     \<and> (if ki_status d = st then snd (infra_Reconcile E ns n w) = snd s
        else snd (infra_Reconcile E ns n w) = snd (sa_updateStatus (ie_infras E) ((fst s)\<lparr>ki_status := st\<rparr>) (snd s)))"
proof -
  let ?st = "set_configured (ie_conditions E) None (ki_status (fst s))"
  have fetch: "FetchKogitoInfraInstance (ie_infras E) ns n w = Inr (Some inst)"
    using assms(2) by (simp add: FetchKogitoInfraInstance_def FetchWithKey_def)
  have meta: "ki_meta (fst s) = ki_meta inst"
    using frames_result [OF frames_infra_steps assms(3)] by (simp add: reset_status_def)
  obtain s' where s': "UpdateBaseStatus E None s = (Inr (), s')"
    "if ki_status d = ?st then snd s' = snd s else snd s' = snd (sa_updateStatus (ie_infras E) ((fst s)\<lparr>ki_status := ?st\<rparr>) (snd s))"
    using UpdateBaseStatus_result [of E s d None] assms(4) meta by auto
  have "infra_Reconcile E ns n w = (Inl (Panic m), snd s')"
    using infra_Reconcile_steps [OF fetch assms(3), of s'] s'(1) by simp
  moreover obtain cs where "ist_conditions ?st = Some cs" "cond_status_of (ie_conditions E) cs ''Configured'' = Some CTrue"
    using set_configured_condition [OF assms(1), of None "ki_status (fst s)"] by auto
  ultimately show ?thesis using s'(2) by (intro exI [of _ ?st] exI [of _ cs]) auto
qed

section \<open>An infrastructure in memory\<close>

record infra_world =
  iw_configMaps :: "configmap list"
  iw_secrets :: "secret list"
  iw_infras :: "kogito_infra list"

definition mem_infra_env :: "kafka list \<Rightarrow> infinispan list \<Rightarrow> (infra_world, string) infra_env" where
  "mem_infra_env kafkas infinispans =
     \<lparr>ie_context = \<lparr>cx_version = [], cx_labels = [], cx_deploymentIdentifier = [], cx_setControllerReference = (\<lambda>o' m. Inr m),
        cx_gvkForObject = (\<lambda>m. Inr ([], [])), cx_getenv = (\<lambda>_. [])\<rparr>,
      ie_discovery = Some (Inr [''kafka.strimzi.io'', ''infinispan.org'']),
      ie_configMaps = lens_api iw_configMaps (\<lambda>x w. w\<lparr>iw_configMaps := x\<rparr>) (mem_api cm_meta),
      ie_secrets = lens_api iw_secrets (\<lambda>x w. w\<lparr>iw_secrets := x\<rparr>) (mem_api sec_meta),
      ie_services = lens_api (\<lambda>_. []) (\<lambda>_ w. w) (mem_api svc_meta),
      ie_infras = lens_api iw_infras (\<lambda>x w. w\<lparr>iw_infras := x\<rparr>) (mem_api ki_meta),
      ie_kafkas = lens_api (\<lambda>_. kafkas) (\<lambda>_ w. w) (mem_api kf_meta),
      ie_infinispans = lens_api (\<lambda>_. infinispans) (\<lambda>_ w. w) (mem_api isp_meta),
      ie_keycloaks = lens_api (\<lambda>_. []) (\<lambda>_ w. w) (mem_api id),
      ie_brokers = lens_api (\<lambda>_. []) (\<lambda>_ w. w) (mem_api bk_meta),
      ie_mongodbs = lens_api (\<lambda>_. []) (\<lambda>_ w. w) (mem_api mdb_meta),
      ie_configMapLib = mem_delta_lib (\<lambda>c. om_name (cm_meta c)) iw_configMaps (\<lambda>x w. w\<lparr>iw_configMaps := x\<rparr>),
      ie_secretLib = mem_delta_lib (\<lambda>c. om_name (sec_meta c)) iw_secrets (\<lambda>x w. w\<lparr>iw_secrets := x\<rparr>),
      ie_conditions = list_cond_api, ie_unmarshalIdentity = (\<lambda>_. Inr []), ie_parseRequestURI = (\<lambda>u. Inr (u, [])),
      ie_parseTime = (\<lambda>t. Some (length t)), ie_pemDecode = (\<lambda>_. None), ie_parseCertificate = Inr,
      ie_encodeTrustStore = (\<lambda>cs p. Inr p), ie_defaultPassword = ''changeit'', ie_eventingGroup = ''eventing.knative.dev'',
      ie_eventingAPIVersion = ''eventing.knative.dev/v1'', ie_rangeOrder = id\<rparr>"

definition sample_infinispan :: "bool option \<Rightarrow> infinispan" where
  "sample_infinispan auth = \<lparr>isp_meta = mk_meta ''ispn'' ''ns'',
     isp_conditions = [(''PreliminaryChecksPassed'', CTrue), (''WellFormed'', CTrue)],
     isp_endpointAuthentication = auth, isp_endpointSecretName = [], isp_certSecretName = None\<rparr>"

definition sample_infra :: "infra_resource option \<Rightarrow> string list \<Rightarrow> kogito_infra" where
  "sample_infra res refs = \<lparr>ki_meta = mk_meta ''infra'' ''ns'',
     ki_spec = \<lparr>is_resource = res, is_infraProperties = [], is_envs = [], is_configMapEnvFrom = refs,
       is_configMapVolumes = [], is_secretEnvFrom = [], is_secretVolumes = []\<rparr>,
     ki_status = \<lparr>ist_conditions = None, ist_envs = [], ist_configMapEnvFrom = [], ist_configMapVolumes = [],
       ist_secretEnvFrom = [], ist_secretVolumes = []\<rparr>\<rparr>"

definition kafka_resource :: infra_resource where
  "kafka_resource = \<lparr>ir_apiVersion = ''kafka.strimzi.io/v1beta2'', ir_kind = ''Kafka'', ir_namespace = [], ir_name = ''kafka''\<rparr>"

definition infinispan_resource :: infra_resource where
  "infinispan_resource = \<lparr>ir_apiVersion = ''infinispan.org/v1'', ir_kind = ''Infinispan'', ir_namespace = [], ir_name = ''ispn''\<rparr>"

definition sample_infra_world :: "kogito_infra list \<Rightarrow> infra_world" where
  "sample_infra_world infras = \<lparr>iw_configMaps = [\<lparr>cm_meta = mk_meta ''cm'' ''ns'', cm_data = [], cm_binaryData = []\<rparr>], iw_secrets = [], iw_infras = infras\<rparr>"

lemmas infra_sample_simps = mem_infra_env_def sample_infra_def sample_infra_world_def sample_infinispan_def infinispan_resource_def
  kafka_resource_def reset_status_def on_status_def mk_meta_def

lemma references_only_run:
  "infra_steps (mem_infra_env [] []) (reset_status (sample_infra None [''cm'']), sample_infra_world [sample_infra None [''cm'']]) =
     (Inr (), ((sample_infra None [''cm''])\<lparr>ki_status := (ki_status (sample_infra None [''cm'']))\<lparr>ist_configMapEnvFrom := [''cm'']\<rparr>\<rparr>,
       sample_infra_world [sample_infra None [''cm'']]))"
  by (simp add: infra_steps_def bindS_def reconcile_resource_def IsResourceEmpty_def infraProperties_Reconcile_def add_envs_def
      configMapReference_Reconcile_def secretReference_Reconcile_def reconcileConfigMapEnvFromReferences_def
      reconcileConfigMapVolumeReferences_def reconcileSecretEnvFromReferences_def reconcileSecretVolumeReferences_def
      FetchConfigMap_def FetchWithKey_def mem_simps AddConfigMapEnvFromReferences_def infra_sample_simps)

lemma infra_steps_references_witness:
  "\<exists>s1. reconcile_resource (mem_infra_env [] []) (reset_status (sample_infra None [''cm'']), sample_infra_world [sample_infra None [''cm'']]) = (Inr (), s1)
     \<and> [''cm''] = ist_configMapEnvFrom (ki_status (fst s1)) @ [''cm'']"
  using infra_steps_references [OF references_only_run] by (auto simp: sample_infra_def)

lemma infra_status_reports_run_witness:
  "\<exists>w'. infra_Reconcile (mem_infra_env [] []) ''ns'' ''infra'' (sample_infra_world [sample_infra None [''cm'']]) = (Inr (no_requeue, None), w')"
  using infra_status_reports_run [OF _ _ references_only_run, of "''ns''" "''infra''" "sample_infra None [''cm'']"]
  by (force simp: list_cond_laws mem_simps infra_sample_simps)

lemma resource_pass_mem:
  "required w = Inr req \<Longrightarrow> deployed w = Inr dep \<Longrightarrow> \<exists>b w'. resource_pass (mem_delta_lib nm g p) equal required deployed w = (Inr b, w')"
  by (cases "mem_hasChanges (mem_compare nm equal dep req)")
    (simp_all add: resource_pass_def process_resources_quiet process_resources_changed mem_delta_lib_def apply_delta_def bindS_def, blast+)

lemma mem_infra_env_lib:
  "ie_configMapLib (mem_infra_env ks ispns) = mem_delta_lib (\<lambda>c. om_name (cm_meta c)) iw_configMaps (\<lambda>x w. w\<lparr>iw_configMaps := x\<rparr>)"
  by (simp add: mem_infra_env_def)

lemma sample_available:
  "IsStrimziAvailable (Some (Inr [''kafka.strimzi.io'', ''infinispan.org'']))" "IsInfinispanAvailable (Some (Inr [''kafka.strimzi.io'', ''infinispan.org'']))"
  "IsWellFormed (sample_infinispan auth)"
  by code_simp+

lemma sample_kafka_latest:
  "getLatestKafkaCondition (\<lambda>t. Some (length t)) sample_kafka = Some \<lparr>kc_type = ''Ready'', kc_lastTransitionTime = ''aa+00:00''\<rparr>"
  by (simp add: getLatestKafkaCondition_def sample_kafka_def sort_Slice_def kafka_before_def mustParseKafkaTransition_def cut_zone_def)

lemma kafkaConfig_run:
  assumes "ki_meta (fst s) = mk_meta ''infra'' ''ns''"
  shows "\<exists>s'. kafkaConfig_Reconcile (mem_infra_env [sample_kafka] []) sample_kafka runtime s = (Inr (), s') \<and> ki_meta (fst s') = mk_meta ''infra'' ''ns''"
proof -
  let ?E = "mem_infra_env [sample_kafka] []"
  obtain req where req: "kafkaConfig_createRequiredResources ?E sample_kafka runtime (fst s) (snd s) = Inr req"
    by (cases runtime)
      (simp_all add: kafkaConfig_createRequiredResources_def getKafkaAppProps_def ResolveKafkaServerURI_def kafka_server_uri_def sample_kafka_def
        owned_configMap_def own_object_conv mem_infra_env_def)
  obtain dep where dep: "kafkaConfig_getDeployedResources ?E runtime (fst s) (snd s) = Inr dep"
    by (cases "FetchConfigMap (ie_configMaps ?E) (ki_namespace (fst s)) (GetKafkaConfigMapName runtime) (snd s)")
      (auto simp: kafkaConfig_getDeployedResources_def deployed_list_def FetchConfigMap_def FetchWithKey_cases mem_infra_env_def mem_get_def
        split: option.splits)
  obtain b w' where "resource_pass (ie_configMapLib ?E) configMap_GetComparator (kafkaConfig_createRequiredResources ?E sample_kafka runtime (fst s))
      (kafkaConfig_getDeployedResources ?E runtime (fst s)) (snd s) = (Inr b, w')"
    using resource_pass_mem [where required = "kafkaConfig_createRequiredResources ?E sample_kafka runtime (fst s)" and w = "snd s"
        and deployed = "kafkaConfig_getDeployedResources ?E runtime (fst s)", OF req dep] unfolding mem_infra_env_lib by blast
  then show ?thesis using assms by (simp add: kafkaConfig_Reconcile_def provide_def)
qed

lemma kafka_run: "\<exists>s'. kafka_Reconcile (mem_infra_env [sample_kafka] []) (sample_infra (Some kafka_resource) [], w) = (Inr (), s')"
proof -
  let ?E = "mem_infra_env [sample_kafka] []" and ?s = "(sample_infra (Some kafka_resource) [], w)"
  have ready: "kafka_ready ?E (fst ?s) (snd ?s) = Inr sample_kafka"
    using sample_kafka_latest
    by (simp add: kafka_ready_def find_resource_def sample_available resource_of_def resource_namespace_def FetchKafkaInstance_def
        FetchWithKey_def mem_simps infra_sample_simps) (simp add: sample_kafka_def mk_meta_def)
  obtain s1 where s1: "kafkaConfig_Reconcile ?E sample_kafka Quarkus ?s = (Inr (), s1)" "ki_meta (fst s1) = mk_meta ''infra'' ''ns''"
    using kafkaConfig_run [of ?s Quarkus] by (auto simp: sample_infra_def)
  then obtain s2 where "kafkaConfig_Reconcile ?E sample_kafka SpringBoot s1 = (Inr (), s2)"
    using kafkaConfig_run [of s1 SpringBoot] by auto
  with s1 ready show ?thesis by (simp add: kafka_Reconcile_def updateKafkaRuntimePropsInStatus_def bindS_def checkI_def)
qed

lemma resource_references_witness:
  "\<exists>s'. kafka_Reconcile (mem_infra_env [sample_kafka] []) (sample_infra (Some kafka_resource) [], sample_infra_world []) = (Inr (), s')
     \<and> ist_configMapEnvFrom (ki_status (fst s')) = [''kogito-kafka-quarkus-config'', ''kogito-kafka-springboot-config'']"
  using kafka_run resource_references by (fastforce simp: sample_infra_def)

lemma infinispan_ready_sample:
  "ki_spec inst = ki_spec (sample_infra (Some infinispan_resource) []) \<Longrightarrow> ki_meta inst = mk_meta ''infra'' ''ns'' \<Longrightarrow>
   infinispan_ready (mem_infra_env [] [sample_infinispan auth]) inst w = Inr (sample_infinispan auth)"
  using sample_available(3) [of auth]
  by (simp add: infinispan_ready_def find_resource_def sample_available resource_of_def resource_namespace_def FetchInfinispanInstance_def
      FetchWithKey_def mem_simps infra_sample_simps)

lemma infinispan_error_ignored_witness:
  "infinispan_Reconcile (mem_infra_env [] [sample_infinispan (Some False)]) (sample_infra (Some infinispan_resource) [], sample_infra_world [])
     = (Inr (), (sample_infra (Some infinispan_resource) [], sample_infra_world []))"
  using infinispan_error_ignored [of "mem_infra_env [] [sample_infinispan (Some False)]"
      "(sample_infra (Some infinispan_resource) [], sample_infra_world [])" "sample_infinispan (Some False)" "''ispn''"]
  by (simp add: infinispan_ready_sample sample_infra_def) (simp add: mem_simps infra_sample_simps)

lemma infinispan_panic_run:
  "infra_steps (mem_infra_env [] [sample_infinispan None])
      (reset_status (sample_infra (Some infinispan_resource) []), sample_infra_world [sample_infra (Some infinispan_resource) []])
   = (Inl (Panic ''nil pointer dereference''),
      (reset_status (sample_infra (Some infinispan_resource) []), sample_infra_world [sample_infra (Some infinispan_resource) []]))"
proof -
  let ?E = "mem_infra_env [] [sample_infinispan None]"
  let ?s = "(reset_status (sample_infra (Some infinispan_resource) []), sample_infra_world [sample_infra (Some infinispan_resource) []])"
  have "GetInfraReconciler ?E (fst ?s) = Inr (infinispan_Reconcile ?E)"
    by (simp add: GetInfraReconciler_def resourceClassForInstance_def resource_of_def getSupportedInfraResources_def class_values infra_sample_simps)
  moreover have "infinispan_ready ?E (fst ?s) (snd ?s) = Inr (sample_infinispan None)"
    by (rule infinispan_ready_sample) (simp_all add: reset_status_def sample_infra_def)
  then have "infinispan_Reconcile ?E ?s = (Inl (Panic ''nil pointer dereference''), ?s)"
    by (simp add: infinispan_Reconcile_def infinispan_steps_def bindS_def checkI_def updateTrustStoreSecretReferenceInStatus_def
        infinispanTrustStore_Reconcile_def isInfinispanCertEncryptionEnabled_def sample_infinispan_def)
  moreover have "\<not> IsResourceEmpty (ki_spec (fst ?s))" by (simp add: IsResourceEmpty_def reset_status_def sample_infra_def)
  ultimately show ?thesis by (simp add: infra_steps_def bindS_def reconcile_resource_def)
qed

lemma infra_panic_reported_configured_witness:
  "fst (infra_Reconcile (mem_infra_env [] [sample_infinispan None]) ''ns'' ''infra'' (sample_infra_world [sample_infra (Some infinispan_resource) []]))
     = Inl (Panic ''nil pointer dereference'')"
  using infra_panic_reported_configured [OF _ _ infinispan_panic_run, of "''ns''" "''infra''" "sample_infra (Some infinispan_resource) []"]
  by (force simp: list_cond_laws mem_simps infra_sample_simps)

end
