(* ===== verification/Operator_Main.thy ===== *)
theory Operator_Main
  imports Controller_Watches Client_Builder Kogito_Infra Kogito_Build
begin

text \<open>
  The operator process: the handlers of the two API groups (\<^verbatim>\<open>internal/app\<close>, \<^verbatim>\<open>internal/rhpam\<close>), the controllers made for each group
  (\<^verbatim>\<open>controllers/app\<close>, \<^verbatim>\<open>controllers/rhpam\<close>), the context with which each controller runs (\<^verbatim>\<open>controllers/common\<close>), the registered schemes
  (\<^verbatim>\<open>meta/meta.go\<close>) and the entry point (\<^verbatim>\<open>main.go\<close>).  The custom resources of the two groups have the same fields; they differ in the store
  that holds them.
\<close>

section \<open>Versions and mode\<close>

definition app_Version :: string where "app_Version = ''2.0.0-snapshot''"

definition rhpam_PriorVersion :: string where "rhpam_PriorVersion = ''7.12.0''"

definition rhpam_CsvPriorVersion :: string where "rhpam_CsvPriorVersion = rhpam_PriorVersion @ ''-2''"

definition rhpam_Version :: string where "rhpam_Version = ''7.13.0''"

definition rhpam_CsvVersion :: string where "rhpam_CsvVersion = rhpam_Version @ ''-1''"

text \<open>What \<^verbatim>\<open>version/getrhpamversion.go\<close> prints for its flags.\<close>

definition getrhpamversion :: "bool \<Rightarrow> bool \<Rightarrow> bool \<Rightarrow> string" where
  "getrhpamversion prior csv csvPrior =
     (if prior then rhpam_PriorVersion else if csv then rhpam_CsvVersion else if csvPrior then rhpam_CsvPriorVersion else rhpam_Version)"

text \<open>\<^verbatim>\<open>strings.ToUpper\<close> on ASCII.\<close>

definition ascii_upper :: "char \<Rightarrow> char" where
  "ascii_upper c = (let n = (of_char c :: nat) in if 97 \<le> n \<and> n \<le> 122 then char_of (n - 32) else c)"

definition ToUpper :: "string \<Rightarrow> string" where
  "ToUpper s = map ascii_upper s"

definition looked_up :: "(string \<Rightarrow> string option) \<Rightarrow> string \<Rightarrow> string" where
  "looked_up lookupEnv k = (case lookupEnv k of None \<Rightarrow> [] | Some v \<Rightarrow> v)"

definition IsProductMode :: "(string \<Rightarrow> string option) \<Rightarrow> bool" where
  "IsProductMode lookupEnv \<longleftrightarrow> ToUpper (looked_up lookupEnv ''GROUP'') = ''RHPAM''"

definition isDebugMode :: "(string \<Rightarrow> string option) \<Rightarrow> bool" where
  "isDebugMode lookupEnv \<longleftrightarrow> ToUpper (looked_up lookupEnv ''DEBUG'') = ''TRUE''"

section \<open>Handlers of the API groups\<close>

text \<open>The stores of the custom resources of one API group.\<close>

record 'w group_stores =
  gs_runtimes :: "('w, kogito_runtime) store_api"
  gs_supporting :: "('w, supporting_service) store_api"
  gs_infras :: "('w, kogito_infra) store_api"
  gs_builds :: "('w, kogito_build) store_api"

record 'w api_groups =
  ag_app :: "'w group_stores"
  ag_rhpam :: "'w group_stores"

record 'w runtime_handler =
  rh_fetch :: "string \<Rightarrow> string \<Rightarrow> 'w \<Rightarrow> gerr + kogito_runtime option"
  rh_fetchAll :: "string \<Rightarrow> 'w \<Rightarrow> gerr + kogito_runtime list"

record 'w supporting_handler =
  sh_fetch :: "string \<Rightarrow> string \<Rightarrow> 'w \<Rightarrow> gerr + supporting_service option"
  sh_fetchList :: "string \<Rightarrow> 'w \<Rightarrow> gerr + supporting_service list"

record 'w build_handler =
  bh_fetch :: "string \<Rightarrow> string \<Rightarrow> 'w \<Rightarrow> gerr + kogito_build option"
  bh_createBuild :: builds

definition app_NewKogitoRuntimeHandler :: "'w api_groups \<Rightarrow> 'w runtime_handler" where
  "app_NewKogitoRuntimeHandler G =
     \<lparr>rh_fetch = FetchKogitoRuntimeInstance (gs_runtimes (ag_app G)), rh_fetchAll = FetchAllKogitoRuntimeInstances (gs_runtimes (ag_app G))\<rparr>"

definition app_NewKogitoSupportingServiceHandler :: "'w api_groups \<Rightarrow> 'w supporting_handler" where
  "app_NewKogitoSupportingServiceHandler G =
     \<lparr>sh_fetch = FetchKogitoSupportingService (gs_supporting (ag_app G)), sh_fetchList = FetchKogitoSupportingServiceList (gs_supporting (ag_app G))\<rparr>"

definition app_NewKogitoInfraHandler :: "'w api_groups \<Rightarrow> 'w infra_handler" where
  "app_NewKogitoInfraHandler G = FetchKogitoInfraInstance (gs_infras (ag_app G))"

definition app_FetchKogitoBuildInstance :: "'w api_groups \<Rightarrow> string \<Rightarrow> string \<Rightarrow> 'w \<Rightarrow> gerr + kogito_build option" where
  "app_FetchKogitoBuildInstance G namespace name w = FetchWithKey (gs_builds (ag_app G)) namespace name w"

definition app_CreateBuild :: builds where "app_CreateBuild = empty_builds"

definition app_NewKogitoBuildHandler :: "'w api_groups \<Rightarrow> 'w build_handler" where
  "app_NewKogitoBuildHandler G = \<lparr>bh_fetch = app_FetchKogitoBuildInstance G, bh_createBuild = app_CreateBuild\<rparr>"

definition rhpam_FetchKogitoRuntimeInstance :: "'w api_groups \<Rightarrow> string \<Rightarrow> string \<Rightarrow> 'w \<Rightarrow> gerr + kogito_runtime option" where
  "rhpam_FetchKogitoRuntimeInstance G namespace name w = FetchWithKey (gs_runtimes (ag_rhpam G)) namespace name w"

definition rhpam_FetchAllKogitoRuntimeInstances :: "'w api_groups \<Rightarrow> string \<Rightarrow> 'w \<Rightarrow> gerr + kogito_runtime list" where
  "rhpam_FetchAllKogitoRuntimeInstances G namespace w = ListWithNamespace (gs_runtimes (ag_rhpam G)) namespace w"

definition rhpam_NewKogitoRuntimeHandler :: "'w api_groups \<Rightarrow> 'w runtime_handler" where
  "rhpam_NewKogitoRuntimeHandler G = \<lparr>rh_fetch = rhpam_FetchKogitoRuntimeInstance G, rh_fetchAll = rhpam_FetchAllKogitoRuntimeInstances G\<rparr>"

definition rhpam_FetchKogitoSupportingService :: "'w api_groups \<Rightarrow> string \<Rightarrow> string \<Rightarrow> 'w \<Rightarrow> gerr + supporting_service option" where
  "rhpam_FetchKogitoSupportingService G namespace name w = FetchWithKey (gs_supporting (ag_rhpam G)) namespace name w"

definition rhpam_FetchKogitoSupportingServiceList :: "'w api_groups \<Rightarrow> string \<Rightarrow> 'w \<Rightarrow> gerr + supporting_service list" where
  "rhpam_FetchKogitoSupportingServiceList G namespace w = ListWithNamespace (gs_supporting (ag_rhpam G)) namespace w"

definition rhpam_NewKogitoSupportingServiceHandler :: "'w api_groups \<Rightarrow> 'w supporting_handler" where
  "rhpam_NewKogitoSupportingServiceHandler G =
     \<lparr>sh_fetch = rhpam_FetchKogitoSupportingService G, sh_fetchList = rhpam_FetchKogitoSupportingServiceList G\<rparr>"

definition rhpam_FetchKogitoInfraInstance :: "'w api_groups \<Rightarrow> 'w infra_handler" where
  "rhpam_FetchKogitoInfraInstance G namespace name w = FetchWithKey (gs_infras (ag_rhpam G)) namespace name w"

definition rhpam_NewKogitoInfraHandler :: "'w api_groups \<Rightarrow> 'w infra_handler" where
  "rhpam_NewKogitoInfraHandler G = rhpam_FetchKogitoInfraInstance G"

definition rhpam_FetchKogitoBuildInstance :: "'w api_groups \<Rightarrow> string \<Rightarrow> string \<Rightarrow> 'w \<Rightarrow> gerr + kogito_build option" where
  "rhpam_FetchKogitoBuildInstance G namespace name w = FetchWithKey (gs_builds (ag_rhpam G)) namespace name w"

definition rhpam_CreateBuild :: builds where "rhpam_CreateBuild = empty_builds"

definition rhpam_NewKogitoBuildHandler :: "'w api_groups \<Rightarrow> 'w build_handler" where
  "rhpam_NewKogitoBuildHandler G = \<lparr>bh_fetch = rhpam_FetchKogitoBuildInstance G, bh_createBuild = rhpam_CreateBuild\<rparr>"

section \<open>Controllers, controllers/common\<close>

text \<open>The struct of each controller, without client, scheme and logger; the reconciling object is the kind of an API group.\<close>

record 'w runtime_reconciler =
  rrc_version :: string
  rrc_runtimeHandler :: "'w runtime_handler"
  rrc_supportServiceHandler :: "'w supporting_handler"
  rrc_infraHandler :: "'w infra_handler"
  rrc_reconcilingObject :: gvk
  rrc_labels :: smap
  rrc_deploymentIdentifier :: string

record 'w supporting_reconciler =
  src_version :: string
  src_runtimeHandler :: "'w runtime_handler"
  src_supportingServiceHandler :: "'w supporting_handler"
  src_infraHandler :: "'w infra_handler"
  src_reconcilingObject :: gvk
  src_labels :: smap
  src_deploymentIdentifier :: string

record 'w build_reconciler =
  brc_version :: string
  brc_buildHandler :: "'w build_handler"
  brc_reconcilingObject :: gvk
  brc_labels :: smap

record 'w infra_reconciler =
  irc_version :: string
  irc_infraHandler :: "'w infra_handler"
  irc_reconcilingObject :: gvk

record 'w deployment_reconciler =
  drc_version :: string
  drc_runtimeHandler :: "'w runtime_handler"
  drc_supportServiceHandler :: "'w supporting_handler"
  drc_labels :: smap

text \<open>The context a run of each controller works with; what depends on the scheme is taken from the second argument.  The controller of
  supporting services takes the version of the community group, not its own.\<close>

definition runtime_context :: "'w runtime_reconciler \<Rightarrow> op_context \<Rightarrow> op_context" where
  "runtime_context r P = P\<lparr>cx_version := rrc_version r, cx_labels := rrc_labels r, cx_deploymentIdentifier := rrc_deploymentIdentifier r\<rparr>"

definition supporting_context :: "'w supporting_reconciler \<Rightarrow> op_context \<Rightarrow> op_context" where
  "supporting_context r P = P\<lparr>cx_version := app_Version, cx_labels := src_labels r, cx_deploymentIdentifier := src_deploymentIdentifier r\<rparr>"

definition build_context :: "'w build_reconciler \<Rightarrow> op_context \<Rightarrow> op_context" where
  "build_context r P = P\<lparr>cx_version := brc_version r, cx_labels := brc_labels r, cx_deploymentIdentifier := []\<rparr>"

definition infra_context :: "'w infra_reconciler \<Rightarrow> op_context \<Rightarrow> op_context" where
  "infra_context r P = P\<lparr>cx_version := irc_version r, cx_labels := [], cx_deploymentIdentifier := []\<rparr>"

definition deployment_context :: "'w deployment_reconciler \<Rightarrow> op_context \<Rightarrow> op_context" where
  "deployment_context r P = P\<lparr>cx_version := drc_version r, cx_labels := drc_labels r, cx_deploymentIdentifier := []\<rparr>"

section \<open>The controllers of the community group, controllers/app\<close>

definition app_kind :: "string \<Rightarrow> gvk" where
  "app_kind k = \<lparr>gvk_group = ''app.kiegroup.org'', gvk_version = ''v1beta1'', gvk_kind = k\<rparr>"

definition app_NewKogitoRuntimeReconciler :: "'w api_groups \<Rightarrow> 'w runtime_reconciler" where
  "app_NewKogitoRuntimeReconciler G =
     \<lparr>rrc_version = app_Version, rrc_runtimeHandler = app_NewKogitoRuntimeHandler G,
      rrc_supportServiceHandler = app_NewKogitoSupportingServiceHandler G, rrc_infraHandler = app_NewKogitoInfraHandler G,
      rrc_reconcilingObject = app_kind ''KogitoRuntime'', rrc_labels = [], rrc_deploymentIdentifier = ''kogito.kie.org/runtime''\<rparr>"

definition app_NewKogitoSupportingServiceReconciler :: "'w api_groups \<Rightarrow> 'w supporting_reconciler" where
  "app_NewKogitoSupportingServiceReconciler G =
     \<lparr>src_version = app_Version, src_runtimeHandler = app_NewKogitoRuntimeHandler G,
      src_supportingServiceHandler = app_NewKogitoSupportingServiceHandler G, src_infraHandler = app_NewKogitoInfraHandler G,
      src_reconcilingObject = app_kind ''KogitoSupportingService'', src_labels = [],
      src_deploymentIdentifier = ''kogito.kie.org/supporting.service''\<rparr>"

definition app_NewKogitoBuildReconciler :: "'w api_groups \<Rightarrow> 'w build_reconciler" where
  "app_NewKogitoBuildReconciler G =
     \<lparr>brc_version = app_Version, brc_buildHandler = app_NewKogitoBuildHandler G, brc_reconcilingObject = app_kind ''KogitoBuild'', brc_labels = []\<rparr>"

definition app_NewKogitoInfraReconciler :: "'w api_groups \<Rightarrow> 'w infra_reconciler" where
  "app_NewKogitoInfraReconciler G =
     \<lparr>irc_version = app_Version, irc_infraHandler = app_NewKogitoInfraHandler G, irc_reconcilingObject = app_kind ''KogitoInfra''\<rparr>"

definition app_NewKogitoRuntimeDeploymentReconciler :: "'w api_groups \<Rightarrow> 'w deployment_reconciler" where
  "app_NewKogitoRuntimeDeploymentReconciler G =
     \<lparr>drc_version = app_Version, drc_runtimeHandler = app_NewKogitoRuntimeHandler G,
      drc_supportServiceHandler = app_NewKogitoSupportingServiceHandler G, drc_labels = []\<rparr>"

section \<open>The controllers of the product group, controllers/rhpam\<close>

definition rhpam_kind :: "string \<Rightarrow> gvk" where
  "rhpam_kind k = \<lparr>gvk_group = ''rhpam.kiegroup.org'', gvk_version = ''v1'', gvk_kind = k\<rparr>"

definition getMeteringLabels :: smap where
  "getMeteringLabels =
     [(''com.company'', ''Red_Hat''), (''rht.prod_name'', ''Red_Hat_Process_Automation''), (''rht.prod_ver'', rhpam_Version),
      (''rht.comp'', ''PAM''), (''rht.comp_ver'', rhpam_Version), (''rht.subcomp'', ''rhpam-kogito-runtime''), (''rht.subcomp_t'', ''application'')]"

definition rhpam_NewKogitoRuntimeReconciler :: "'w api_groups \<Rightarrow> 'w runtime_reconciler" where
  "rhpam_NewKogitoRuntimeReconciler G =
     \<lparr>rrc_version = rhpam_Version, rrc_runtimeHandler = rhpam_NewKogitoRuntimeHandler G,
      rrc_supportServiceHandler = rhpam_NewKogitoSupportingServiceHandler G, rrc_infraHandler = rhpam_NewKogitoInfraHandler G,
      rrc_reconcilingObject = rhpam_kind ''KogitoRuntime'', rrc_labels = getMeteringLabels,
      rrc_deploymentIdentifier = ''kogito.kie.org/runtime''\<rparr>"

definition rhpam_NewKogitoSupportingServiceReconciler :: "'w api_groups \<Rightarrow> 'w supporting_reconciler" where
  "rhpam_NewKogitoSupportingServiceReconciler G =
     \<lparr>src_version = rhpam_Version, src_runtimeHandler = rhpam_NewKogitoRuntimeHandler G,
      src_supportingServiceHandler = rhpam_NewKogitoSupportingServiceHandler G, src_infraHandler = rhpam_NewKogitoInfraHandler G,
      src_reconcilingObject = rhpam_kind ''KogitoSupportingService'', src_labels = getMeteringLabels,
      src_deploymentIdentifier = ''kogito.kie.org/supporting.service''\<rparr>"

definition rhpam_NewKogitoBuildReconciler :: "'w api_groups \<Rightarrow> 'w build_reconciler" where
  "rhpam_NewKogitoBuildReconciler G =
     \<lparr>brc_version = rhpam_Version, brc_buildHandler = rhpam_NewKogitoBuildHandler G, brc_reconcilingObject = rhpam_kind ''KogitoBuild'',
      brc_labels = getMeteringLabels\<rparr>"

definition rhpam_NewKogitoInfraReconciler :: "'w api_groups \<Rightarrow> 'w infra_reconciler" where
  "rhpam_NewKogitoInfraReconciler G =
     \<lparr>irc_version = rhpam_Version, irc_infraHandler = rhpam_NewKogitoInfraHandler G, irc_reconcilingObject = rhpam_kind ''KogitoInfra''\<rparr>"

section \<open>Schemes, meta.go\<close>

text \<open>The types each registration adds; registrations run in order up to the first error, and the types of group versions are added at the end.\<close>

record scheme_lib =
  sl_register :: "string \<Rightarrow> gerr + scheme"
  sl_addToGroupVersion :: "string \<Rightarrow> scheme"

definition getRegisteredSchemeBuilder :: "string list" where
  "getRegisteredSchemeBuilder =
     [''app.kiegroup.org/v1beta1'', ''rhpam.kiegroup.org/v1'', ''client-go'', ''core/v1'', ''apps/v1'', ''build.openshift.io/v1'',
      ''rbac.authorization.k8s.io/v1'', ''apps.openshift.io/v1'', ''apps/v1'', ''route.openshift.io/v1'', ''image.openshift.io/v1'',
      ''apiextensions.k8s.io/v1'', ''kafka.strimzi.io/v1beta2'', ''mongodbcommunity.mongodb.com/v1'', ''infinispan.org/v1'',
      ''keycloak.org/v1alpha1'', ''monitoring.coreos.com/v1'', ''eventing.knative.dev/v1'', ''sources.knative.dev/v1'', ''integreatly.org/v1alpha1'']"

definition registered_group_versions :: "bool \<Rightarrow> string list" where
  "registered_group_versions productMode =
     (if productMode then ''rhpam.kiegroup.org/v1'' else ''app.kiegroup.org/v1beta1'') #
     [''apiextensions.k8s.io/v1'', ''apps.openshift.io/v1'', ''monitoring.coreos.com/v1'', ''route.openshift.io/v1'', ''infinispan.org/v1'',
      ''mongodbcommunity.mongodb.com/v1'', ''kafka.strimzi.io/v1beta2'', ''integreatly.org/v1alpha1'', ''eventing.knative.dev/v1'', ''sources.knative.dev/v1'']"

definition GetRegisteredSchema :: "scheme_lib \<Rightarrow> (string \<Rightarrow> string option) \<Rightarrow> gerr + scheme" where
  "GetRegisteredSchema L lookupEnv =
     (case foldR (\<lambda>r s. bindR (sl_register L r) (\<lambda>ts. Inr (s @ ts))) getRegisteredSchemeBuilder [] of
        Inl e \<Rightarrow> Inl (Panic (error_message e))
      | Inr s \<Rightarrow> Inr (s @ concat (map (sl_addToGroupVersion L) (registered_group_versions (IsProductMode lookupEnv)))))"

section \<open>The entry point, main.go\<close>

datatype 'w controller =
    RuntimeController "'w runtime_reconciler"
  | SupportingController "'w supporting_reconciler"
  | BuildController "'w build_reconciler"
  | InfraController "'w infra_reconciler"
  | DeploymentController "'w deployment_reconciler"

text \<open>How the process ends other than by the return of \<^verbatim>\<open>main\<close>.\<close>

datatype exit = ExitCode int | Panicked string

text \<open>The manager of controller-runtime: its construction, the registration of a controller, the two checks, and its run until the process is stopped.\<close>

record ('p, 'w) manager_api =
  ma_new :: "scheme \<Rightarrow> 'p \<Rightarrow> gerr option \<times> 'p"
  ma_setup :: "'w controller \<Rightarrow> 'p \<Rightarrow> gerr option \<times> 'p"
  ma_addHealthzCheck :: "'p \<Rightarrow> gerr option \<times> 'p"
  ma_addReadyzCheck :: "'p \<Rightarrow> gerr option \<times> 'p"
  ma_start :: "'p \<Rightarrow> gerr option \<times> 'p"

definition or_exit :: "('p \<Rightarrow> gerr option \<times> 'p) \<Rightarrow> 'p \<Rightarrow> (exit + unit) \<times> 'p" where
  "or_exit f p = (case f p of (Some e, p') \<Rightarrow> (Inl (ExitCode 1), p') | (None, p') \<Rightarrow> (Inr (), p'))"

definition group_controllers :: "'w api_groups \<Rightarrow> bool \<Rightarrow> 'w controller list" where
  "group_controllers G productMode =
     (if \<not> productMode
      then [RuntimeController (app_NewKogitoRuntimeReconciler G), SupportingController (app_NewKogitoSupportingServiceReconciler G),
            BuildController (app_NewKogitoBuildReconciler G), InfraController (app_NewKogitoInfraReconciler G),
            DeploymentController (app_NewKogitoRuntimeDeploymentReconciler G)]
      else [RuntimeController (rhpam_NewKogitoRuntimeReconciler G), SupportingController (rhpam_NewKogitoSupportingServiceReconciler G),
            BuildController (rhpam_NewKogitoBuildReconciler G), InfraController (rhpam_NewKogitoInfraReconciler G)])"

text \<open>The scheme and the configuration of the manager go into the client, whose construction may panic.\<close>

definition operator_main ::
  "('p, 'w) manager_api \<Rightarrow> scheme_lib \<Rightarrow> ('cfg, 'c) client_lib \<Rightarrow> 'cfg \<Rightarrow> 'c \<Rightarrow> (string \<Rightarrow> string option) \<Rightarrow> 'w api_groups \<Rightarrow> 'p \<Rightarrow> (exit + unit) \<times> 'p" where
  "operator_main M SL CL config control lookupEnv G p =
     (case GetRegisteredSchema SL lookupEnv of
        Inl e \<Rightarrow> (Inl (Panicked (error_message e)), p)
      | Inr s \<Rightarrow>
          bindS (or_exit (ma_new M s)) (\<lambda>_ p1.
            case NewForController CL (Some s) (Some config) (Some control) of
              Inl e \<Rightarrow> (Inl (Panicked (error_message e)), p1)
            | Inr _ \<Rightarrow>
                bindS (eachS (\<lambda>c. or_exit (ma_setup M c)) (group_controllers G (IsProductMode lookupEnv))) (\<lambda>_.
                bindS (or_exit (ma_addHealthzCheck M)) (\<lambda>_.
                bindS (or_exit (ma_addReadyzCheck M)) (\<lambda>_. or_exit (ma_start M)))) p1) p)"

section \<open>Lemmas\<close>

lemmas app_controller_defs = app_NewKogitoRuntimeReconciler_def app_NewKogitoSupportingServiceReconciler_def app_NewKogitoBuildReconciler_def
  app_NewKogitoInfraReconciler_def app_NewKogitoRuntimeDeploymentReconciler_def app_NewKogitoRuntimeHandler_def
  app_NewKogitoSupportingServiceHandler_def app_NewKogitoInfraHandler_def app_NewKogitoBuildHandler_def app_FetchKogitoBuildInstance_def

lemmas rhpam_controller_defs = rhpam_NewKogitoRuntimeReconciler_def rhpam_NewKogitoSupportingServiceReconciler_def
  rhpam_NewKogitoBuildReconciler_def rhpam_NewKogitoInfraReconciler_def rhpam_NewKogitoRuntimeHandler_def
  rhpam_NewKogitoSupportingServiceHandler_def rhpam_NewKogitoInfraHandler_def rhpam_NewKogitoBuildHandler_def
  rhpam_FetchKogitoRuntimeInstance_def rhpam_FetchAllKogitoRuntimeInstances_def rhpam_FetchKogitoSupportingService_def
  rhpam_FetchKogitoSupportingServiceList_def rhpam_FetchKogitoInfraInstance_def rhpam_FetchKogitoBuildInstance_def

lemma metering_distinct: "distinct (map fst getMeteringLabels)"
  by (simp add: getMeteringLabels_def)

text \<open>Whatever the hooks of a service do, the labels of the context are the last that are written on its pods.\<close>

lemma required_deployment_labelled:
  assumes "dr_createRequiredResources K cx sm ih svc def img w = Inr ds" "distinct (map fst (cx_labels cx))" "(k, v) \<in> set (cx_labels cx)" "d \<in> set ds"
  shows "map_of (pt_labels (dep_template d)) k = Some v"
proof -
  have "\<exists>ls. pt_labels (dep_template d) = AppendToStringMap (cx_labels cx) ls"
    using assms(1,4) by (auto simp: dr_createRequiredResources_def bindR_eq_Inr own_object_conv)
  then obtain ls where "pt_labels (dep_template d) = AppendToStringMap (cx_labels cx) ls" ..
  then have "map_of (pt_labels (dep_template d)) = map_of ls ++ map_of (cx_labels cx)"
    using map_of_AppendToStringMap [OF assms(2)] by simp
  then show ?thesis using assms(2,3) by (simp add: map_add_Some_iff)
qed

lemma group_controllers_isolated:
  "group_controllers (G\<lparr>ag_app := x\<rparr>) True = group_controllers G True" "group_controllers (G\<lparr>ag_rhpam := x\<rparr>) False = group_controllers G False"
  by (simp_all add: group_controllers_def app_controller_defs rhpam_controller_defs fun_eq_iff)

text \<open>What a controller reconciles; the controller of deployments has no custom resource of its own.\<close>

fun reconciled_group :: "'w controller \<Rightarrow> string option" where
  "reconciled_group (RuntimeController r) = Some (gvk_group (rrc_reconcilingObject r))"
| "reconciled_group (SupportingController r) = Some (gvk_group (src_reconcilingObject r))"
| "reconciled_group (BuildController r) = Some (gvk_group (brc_reconcilingObject r))"
| "reconciled_group (InfraController r) = Some (gvk_group (irc_reconcilingObject r))"
| "reconciled_group (DeploymentController r) = None"

lemma group_controllers_group:
  "list_all (\<lambda>c. reconciled_group c \<in> {None, Some (if productMode then ''rhpam.kiegroup.org'' else ''app.kiegroup.org'')}) (group_controllers G productMode)"
  by (simp add: group_controllers_def app_controller_defs rhpam_controller_defs app_kind_def rhpam_kind_def)

text \<open>A manager keeps the controllers it was given, in order, and nothing else changes them.\<close>

definition manager_keeps :: "('p, 'w) manager_api \<Rightarrow> ('p \<Rightarrow> 'w controller list) \<Rightarrow> bool" where
  "manager_keeps M registered \<longleftrightarrow>
     (\<forall>s p. registered (snd (ma_new M s p)) = registered p)
     \<and> (\<forall>c p. registered (snd (ma_setup M c p)) = registered p @ (if fst (ma_setup M c p) = None then [c] else []))
     \<and> (\<forall>p. registered (snd (ma_addHealthzCheck M p)) = registered p) \<and> (\<forall>p. registered (snd (ma_addReadyzCheck M p)) = registered p)
     \<and> (\<forall>p. registered (snd (ma_start M p)) = registered p)"

lemma or_exit_cases: "or_exit f p = (if fst (f p) = None then Inr () else Inl (ExitCode 1), snd (f p))"
  by (auto simp: or_exit_def split: prod.split option.split)

lemma setup_all:
  assumes "manager_keeps M registered" "eachS (\<lambda>c. or_exit (ma_setup M c)) cs p = (r, p')"
  shows "\<exists>n \<le> length cs. registered p' = registered p @ take n cs \<and> (r = Inr () \<longrightarrow> n = length cs)"
  using assms(2)
proof (induction cs arbitrary: p)
  case (Cons c cs)
  show ?case
  proof (cases "fst (ma_setup M c p)")
    case None
    then have reg: "registered (snd (ma_setup M c p)) = registered p @ [c]" using assms(1) by (simp add: manager_keeps_def)
    have "eachS (\<lambda>c. or_exit (ma_setup M c)) cs (snd (ma_setup M c p)) = (r, p')"
      using Cons.prems None or_exit_cases [of "ma_setup M c" p] by (simp add: bindS_def)
    from Cons.IH [OF this] obtain n where "n \<le> length cs" "registered p' = (registered p @ [c]) @ take n cs" "r = Inr () \<longrightarrow> n = length cs"
      unfolding reg by blast
    then show ?thesis by (intro exI [of _ "Suc n"]) simp
  next
    case (Some e)
    then show ?thesis using Cons.prems assms(1) by (intro exI [of _ 0]) (auto simp: or_exit_cases [of "ma_setup M c" p] bindS_def manager_keeps_def)
  qed
qed (auto simp: returnS_def)

section \<open>Properties\<close>

text \<open>C16: the operator serves one API group.  The process registers, in order and up to the first that cannot be registered, the controllers of the
  group that the environment variable \<^verbatim>\<open>GROUP\<close> selects; it returns normally only when all of them were registered.  All of them reconcile
  resources of that group and read the custom resources of no other, and the controller of deployments runs only outside of the product mode.\<close>

theorem operator_serves_one_group:
  assumes "manager_keeps M registered" "operator_main M SL CL config control env G p = (r, p')" "registered p = []"
  shows "(\<exists>n. registered p' = take n (group_controllers G (IsProductMode env)))
    \<and> (r = Inr () \<longrightarrow> registered p' = group_controllers G (IsProductMode env))
    \<and> list_all (\<lambda>c. reconciled_group c \<in> {None, Some (if IsProductMode env then ''rhpam.kiegroup.org'' else ''app.kiegroup.org'')}) (registered p')
    \<and> (IsProductMode env \<longrightarrow> group_controllers (G\<lparr>ag_app := x\<rparr>) True = group_controllers G True
         \<and> list_all (\<lambda>c. reconciled_group c \<noteq> None) (registered p'))
    \<and> (\<not> IsProductMode env \<longrightarrow> group_controllers (G\<lparr>ag_rhpam := x\<rparr>) False = group_controllers G False)"
proof -
  let ?cs = "group_controllers G (IsProductMode env)"
  have "\<exists>n. registered p' = take n ?cs \<and> (r = Inr () \<longrightarrow> n = length ?cs)" (is ?reg)
  proof (cases "\<exists>s c. GetRegisteredSchema SL env = Inr s \<and> fst (ma_new M s p) = None \<and> NewForController CL (Some s) (Some config) (Some control) = Inr c")
    case False
    then have "r \<noteq> Inr () \<and> registered p' = registered p"
      using assms(1,2) by (auto simp: operator_main_def or_exit_cases bindS_def manager_keeps_def split: sum.splits)
    then show ?thesis using assms(3) by (intro exI [of _ 0]) simp
  next
    case True
    then obtain s c where s: "GetRegisteredSchema SL env = Inr s" "fst (ma_new M s p) = None" "NewForController CL (Some s) (Some config) (Some control) = Inr c"
      by blast
    obtain r1 p1 where set_up: "eachS (\<lambda>c. or_exit (ma_setup M c)) ?cs (snd (ma_new M s p)) = (r1, p1)" by fastforce
    have "registered p' = registered p1 \<and> (r = Inr () \<longrightarrow> r1 = Inr ())"
      using assms(1,2) s set_up or_exit_cases [of "ma_new M s" p]
      by (auto simp: operator_main_def bindS_def or_exit_cases [of "ma_addHealthzCheck M"] or_exit_cases [of "ma_addReadyzCheck M"]
          or_exit_cases [of "ma_start M"] manager_keeps_def split: sum.splits)
    moreover have "registered (snd (ma_new M s p)) = []" using assms(1,3) by (simp add: manager_keeps_def)
    ultimately show ?thesis using setup_all [OF assms(1) set_up] by force
  qed
  then obtain n where n: "registered p' = take n ?cs" "r = Inr () \<longrightarrow> n = length ?cs" by blast
  have all: "list_all P ?cs \<Longrightarrow> list_all P (registered p')" for P
    using n(1) by (auto simp: list_all_iff dest: in_set_takeD)
  have "list_all (\<lambda>c. reconciled_group c \<noteq> None) (group_controllers G True)"
    by (simp add: group_controllers_def)
  with n all [OF group_controllers_group] all [of "\<lambda>c. reconciled_group c \<noteq> None"] show ?thesis
    unfolding group_controllers_isolated by (intro conjI impI) (auto simp only: take_all le_refl)
qed

text \<open>C17: the pods of the product are metered.  Whatever labels a user gives and whatever the hook of the service does, the pods of every runtime and
  supporting service that the controllers of the product deploy carry each of the metering labels with its value.\<close>

theorem product_pods_metered:
  assumes "dr_createRequiredResources K cx sm ih svc def img w = Inr ds"
    and "cx \<in> {runtime_context (rhpam_NewKogitoRuntimeReconciler G) P, supporting_context (rhpam_NewKogitoSupportingServiceReconciler G) P}"
    and "(k, v) \<in> set getMeteringLabels" "d \<in> set ds"
  shows "map_of (pt_labels (dep_template d)) k = Some v"
proof -
  have "cx_labels cx = getMeteringLabels"
    using assms(2) by (auto simp: runtime_context_def supporting_context_def rhpam_NewKogitoRuntimeReconciler_def rhpam_NewKogitoSupportingServiceReconciler_def)
  with required_deployment_labelled [OF assms(1) _ _ assms(4)] metering_distinct assms(3) show ?thesis by simp
qed

text \<open>The controller of supporting services ignores its version.  Its runs are the same whatever version it was made with; in the product, a
  supporting service whose image has no tag gets the tag of the community release, where a runtime gets the tag of the product, and its deployment is
  annotated with the community version.\<close>

theorem supporting_version_ignored:
  "supporting_context (r\<lparr>src_version := v\<rparr>) P = supporting_context r P
   \<and> resolveTag (supporting_context (rhpam_NewKogitoSupportingServiceReconciler G) P) h = (if img_tag (ih_image h) = [] then ''2.0'' else img_tag (ih_image h))
   \<and> resolveTag (runtime_context (rhpam_NewKogitoRuntimeReconciler G) P) h = (if img_tag (ih_image h) = [] then ''7.13'' else img_tag (ih_image h))
   \<and> om_annotations (dep_meta (base_deployment (supporting_context (rhpam_NewKogitoSupportingServiceReconciler G) P) svc img))
       = [(''kogito-operator.kiegroup.org/version'', ''2.0.0-snapshot'')]"
  by (simp add: supporting_context_def runtime_context_def rhpam_NewKogitoRuntimeReconciler_def resolveTag_def GetKogitoImageVersion_def
      app_Version_def rhpam_Version_def base_deployment_def Let_def)

section \<open>Concrete instances\<close>

text \<open>A manager that keeps the controllers in a list and a cluster with nothing in it.\<close>

definition list_manager :: "('w controller list, 'w) manager_api" where
  "list_manager = \<lparr>ma_new = (\<lambda>s p. (None, p)), ma_setup = (\<lambda>c p. (None, p @ [c])), ma_addHealthzCheck = (\<lambda>p. (None, p)),
     ma_addReadyzCheck = (\<lambda>p. (None, p)), ma_start = (\<lambda>p. (None, p))\<rparr>"

definition trivial_schemes :: scheme_lib where
  "trivial_schemes = \<lparr>sl_register = (\<lambda>_. Inr []), sl_addToGroupVersion = (\<lambda>_. [])\<rparr>"

definition trivial_clients :: "(unit, unit) client_lib" where
  "trivial_clients = \<lparr>lib_getConfig = Inr (), lib_newControl = (\<lambda>_ _. Inr ()), lib_newDiscovery = Inr, lib_newBuild = Inr, lib_newImage = Inr,
     lib_newDeployment = Inr, lib_newKubernetes = Inr\<rparr>"

definition empty_group :: "mem_world group_stores" where
  "empty_group = \<lparr>gs_runtimes = lens_api (\<lambda>_. []) (\<lambda>_ w. w) (mem_api (\<lambda>r. ks_meta (kr_service r))),
     gs_supporting = lens_api (\<lambda>_. []) (\<lambda>_ w. w) (mem_api (\<lambda>s. ks_meta (sup_service s))),
     gs_infras = lens_api (\<lambda>_. []) (\<lambda>_ w. w) (mem_api ki_meta), gs_builds = lens_api (\<lambda>_. []) (\<lambda>_ w. w) (mem_api kb_meta)\<rparr>"

definition empty_groups :: "mem_world api_groups" where
  "empty_groups = \<lparr>ag_app = empty_group, ag_rhpam = empty_group\<rparr>"

definition product_env :: "string \<Rightarrow> string option" where
  "product_env k = (if k = ''GROUP'' then Some ''rhpam'' else None)"

lemma product_env_mode: "IsProductMode product_env"
  by code_simp

lemma operator_serves_one_group_witness:
  "\<exists>p'. operator_main list_manager trivial_schemes trivial_clients () () product_env empty_groups [] = (Inr (), p')
     \<and> p' = group_controllers empty_groups True \<and> length p' = 4"
proof -
  have laws: "manager_keeps list_manager id" by (simp add: manager_keeps_def list_manager_def)
  have step: "eachS (\<lambda>c. or_exit (ma_setup list_manager c)) cs p = (Inr (), p @ cs)" for cs and p :: "mem_world controller list"
    by (induction cs arbitrary: p) (auto simp: or_exit_def list_manager_def bindS_def returnS_def)
  have calls: "or_exit (ma_new list_manager s) p = (Inr (), p)" "or_exit (ma_addHealthzCheck list_manager) p = (Inr (), p)"
    "or_exit (ma_addReadyzCheck list_manager) p = (Inr (), p)" "or_exit (ma_start list_manager) p = (Inr (), p)" for s and p :: "mem_world controller list"
    by (simp_all add: or_exit_def list_manager_def)
  have "GetRegisteredSchema trivial_schemes product_env = Inr []"
    by (simp add: GetRegisteredSchema_def getRegisteredSchemeBuilder_def registered_group_versions_def trivial_schemes_def)
  moreover obtain c where "NewForController trivial_clients (Some []) (Some ()) (Some ()) = Inr c"
    by (simp add: NewForController_def builder_Build_def builder_defs trivial_clients_def if_wanted_def wrap_error_def must_build_def)
  ultimately have run: "\<exists>p'. operator_main list_manager trivial_schemes trivial_clients () () product_env empty_groups [] = (Inr (), p')"
    using step calls by (simp add: operator_main_def bindS_def)
  then obtain p' where p': "operator_main list_manager trivial_schemes trivial_clients () () product_env empty_groups [] = (Inr (), p')" by blast
  from operator_serves_one_group [OF laws p'] show ?thesis using p' product_env_mode by (simp add: group_controllers_def)
qed

definition product_context :: op_context where
  "product_context = runtime_context (rhpam_NewKogitoRuntimeReconciler empty_groups) sample_context"

lemma product_pods_metered_witness:
  "\<exists>d. dr_createRequiredResources (mem_cluster False) product_context (Inr ''19+'')
       (NewImageHandler \<lparr>img_domain = [], img_name = ''app'', img_tag = ''1.0''\<rparr> ''app'' ''app'' ''ns'' True False)
       sample_service sample_definition ''quay.io/kiegroup/app:1.0'' empty_world = Inr [d]
     \<and> map_of (pt_labels (dep_template d)) ''rht.comp'' = Some ''PAM''"
proof -
  let ?run = "dr_createRequiredResources (mem_cluster False) product_context (Inr ''19+'')
       (NewImageHandler \<lparr>img_domain = [], img_name = ''app'', img_tag = ''1.0''\<rparr> ''app'' ''app'' ''ns'' True False)
       sample_service sample_definition ''quay.io/kiegroup/app:1.0'' empty_world"
  have "\<exists>d. ?run = Inr [d]"
    by (simp add: dr_createRequiredResources_def CreateDeployment_def cap_replicas_def sample_definition_def
        addStartupProbe_def onDeploymentCreate_def mountEnvsOnDeployment_def mountConfigMapReferencesOnDeployment_def
        mountSecretReferencesOnDeployment_def own_object_conv product_context_def runtime_context_def sample_context_def with_container0_def
        base_deployment_def Let_def split: option.split)
  then obtain d where d: "?run = Inr [d]" ..
  have "map_of (pt_labels (dep_template d)) ''rht.comp'' = Some ''PAM''"
    by (rule product_pods_metered [OF d, of empty_groups sample_context]) (simp_all add: product_context_def getMeteringLabels_def)
  with d show ?thesis by blast
qed

end
