(* ===== verification/Cli_Tree.thy ===== *)
theory Cli_Tree
  imports Cli_Install Operator_Main
begin

text \<open>
  The commands of the client and their flags, \<^verbatim>\<open>cmd/kogito/command\<close>: what every command hands to the libraries cobra and pflag.  The
  libraries are not part of the program: a command is what it passes to \<^verbatim>\<open>cobra.Command\<close> and \<^verbatim>\<open>AddCommand\<close>, a flag the call that
  registers it.  Registering a name or a shorthand twice panics in pflag, so that a clash stops the client before it reads its arguments.
\<close>

section \<open>Flags\<close>

text \<open>The default of a flag; a list is nil.  An array keeps the commas of its elements, a slice splits at them.\<close>

datatype flag_default = FString string | FBool bool | FInt32 int | FStringArray | FStringSlice

record flag_call =
  fc_name :: string
  fc_shorthand :: string
  fc_default :: flag_default

definition Var :: "string \<Rightarrow> flag_default \<Rightarrow> flag_call" where
  "Var name d = \<lparr>fc_name = name, fc_shorthand = [], fc_default = d\<rparr>"

definition VarP :: "string \<Rightarrow> string \<Rightarrow> flag_default \<Rightarrow> flag_call" where
  "VarP name shorthand d = \<lparr>fc_name = name, fc_shorthand = shorthand, fc_default = d\<rparr>"

definition AddArtifactFlags :: "flag_call list" where
  "AddArtifactFlags = [Var ''project-group-id'' (FString []), Var ''project-artifact-id'' (FString []), Var ''project-version'' (FString [])]"

definition AddGitSourceFlags :: "flag_call list" where
  "AddGitSourceFlags = [VarP ''branch'' ''b'' (FString []), VarP ''context-dir'' ''c'' (FString [])]"

definition AddPodResourceFlags :: "string \<Rightarrow> flag_call list" where
  "AddPodResourceFlags prefix =
     (let named = (\<lambda>n. if prefix \<noteq> [] then prefix @ ''-'' @ n else n)
      in [Var (named ''limits'') FStringSlice, Var (named ''requests'') FStringSlice])"

definition AddWebHookFlags :: "flag_call list" where
  "AddWebHookFlags = [Var ''web-hook'' FStringArray]"

definition AddEnvVarFlags :: "string \<Rightarrow> string \<Rightarrow> flag_call list" where
  "AddEnvVarFlags envVarName enVarShorthand = [VarP envVarName enVarShorthand FStringArray, Var (''secret-'' @ envVarName) FStringArray]"

definition AddImageFlags :: "flag_call list" where
  "AddImageFlags = [VarP ''image'' ''i'' (FString []), Var ''insecure-image-registry'' (FBool False)]"

definition monitoring_flag_calls :: "flag_call list" where
  "monitoring_flag_calls =
     [Var ''monitoring-scheme'' (FString (fl_scheme AddMonitoringFlags)), Var ''monitoring-path'' (FString (fl_path AddMonitoringFlags))]"

definition AddConfigFlags :: "flag_call list" where
  "AddConfigFlags = [Var ''config'' FStringArray, Var ''config-file'' (FString [])]"

definition AddProbeFlags :: "flag_call list" where
  "AddProbeFlags = [Var ''liveness-initial-delay'' (FInt32 0), Var ''readiness-initial-delay'' (FInt32 0)]"

definition defaultDeployReplicas :: int where "defaultDeployReplicas = 1"

definition AddInstallFlags :: "flag_call list" where
  "AddInstallFlags = AddPodResourceFlags [] @ AddImageFlags @ AddEnvVarFlags ''env'' ''e'' @ monitoring_flag_calls @ AddConfigFlags @ AddProbeFlags @
     [VarP ''project'' ''p'' (FString []), Var ''replicas'' (FInt32 defaultDeployReplicas), Var ''infra'' FStringArray,
      Var ''truststore-secret'' (FString [])]"

definition AddRuntimeFlags :: "flag_call list" where
  "AddRuntimeFlags = AddInstallFlags @
     [Var ''enable-istio'' (FBool False), Var ''enable-persistence'' (FBool False), Var ''enable-events'' (FBool False),
      Var ''svc-labels'' FStringSlice]"

definition AddRuntimeTypeFlags :: "flag_call list" where
  "AddRuntimeTypeFlags = [VarP ''runtime'' ''r'' (FString (runtime_name Quarkus))]"

definition AddBuildFlags :: "flag_call list" where
  "AddBuildFlags = AddGitSourceFlags @ AddPodResourceFlags ''build'' @ AddArtifactFlags @ AddWebHookFlags @ AddEnvVarFlags ''build-env'' [] @
     [Var ''incremental-build'' (FBool True), Var ''native'' (FBool False), Var ''maven-mirror-url'' (FString []), Var ''image-s2i'' (FString []),
      Var ''image-runtime'' (FString []), Var ''target-runtime'' (FString []), VarP ''maven-output'' ''m'' (FBool False)]"

definition AddInfraResourceFlags :: "flag_call list" where
  "AddInfraResourceFlags = [Var ''apiVersion'' (FString []), Var ''kind'' (FString []), Var ''resource-namespace'' (FString []),
     Var ''resource-name'' (FString [])]"

definition AddPropertiesFlags :: "flag_call list" where
  "AddPropertiesFlags = [VarP ''property'' [] FStringArray]"

definition addProjectFlagsToCommand :: "flag_call list" where
  "addProjectFlagsToCommand = [VarP ''project'' ''n'' (FString [])]"

section \<open>Commands\<close>

text \<open>What a command passes to \<^verbatim>\<open>cobra.Command\<close>, less the texts of its help: its name is the first word of \<^verbatim>\<open>Use\<close>, and without a run function
  it only groups others.\<close>

record cli_command =
  cc_use :: string
  cc_aliases :: "string list"
  cc_runnable :: bool
  cc_flags :: "flag_call list"
  cc_persistentFlags :: "flag_call list"

datatype command_tree = Command cli_command "command_tree list"

definition cobra_Command :: "string \<Rightarrow> string list \<Rightarrow> bool \<Rightarrow> cli_command" where
  "cobra_Command use_text aliases runs = \<lparr>cc_use = use_text, cc_aliases = aliases, cc_runnable = runs, cc_flags = [], cc_persistentFlags = []\<rparr>"

fun AddCommand :: "command_tree \<Rightarrow> command_tree \<Rightarrow> command_tree" where
  "AddCommand child (Command c subs) = Command c (subs @ [child])"

text \<open>A command without subcommands of its own, added to its parent: \<^verbatim>\<open>RegisterHook\<close> and \<^verbatim>\<open>InitHook\<close>.\<close>

definition leaf :: "cli_command \<Rightarrow> flag_call list \<Rightarrow> command_tree" where
  "leaf c flags = Command (c\<lparr>cc_flags := flags\<rparr>) []"

definition NewRootCommand :: command_tree where
  "NewRootCommand = Command ((cobra_Command ''kogito'' [] False)\<lparr>cc_persistentFlags :=
     [VarP ''output'' ''o'' (FString []), VarP ''verbose'' ''v'' (FBool False), Var ''version'' (FBool False)]\<rparr>) []"

definition initCompletionCommand :: "command_tree \<Rightarrow> command_tree" where
  "initCompletionCommand = AddCommand (leaf (cobra_Command ''completion (bash | zsh | fish)'' [''comp''] True) [])"

definition initDeleteServiceCommand :: "command_tree \<Rightarrow> command_tree" where
  "initDeleteServiceCommand = AddCommand (leaf (cobra_Command ''delete-service NAME [flags]'' [] True) [VarP ''project'' ''p'' (FString [])])"

definition initDeployCommand :: "command_tree \<Rightarrow> command_tree" where
  "initDeployCommand = AddCommand (leaf (cobra_Command ''deploy-service NAME [SOURCE]'' [''deploy''] True)
     (AddBuildFlags @ AddRuntimeFlags @ AddRuntimeTypeFlags))"

definition initInstallCommand :: command_tree where
  "initInstallCommand = leaf (cobra_Command ''install'' [] False) []"

text \<open>The aliases in the tables of the supporting services.\<close>

definition supporting_aliases :: "string \<Rightarrow> string list" where
  "supporting_aliases cmdName = (if cmdName = ''mgmt-console'' then [''management-console''] else [])"

definition initInstallSupportingServiceCommands :: "command_tree \<Rightarrow> command_tree" where
  "initInstallSupportingServiceCommands parent =
     fold (\<lambda>(cmdName, _, _). AddCommand (leaf (cobra_Command cmdName (supporting_aliases cmdName) True) AddInstallFlags))
       installableSupportingServices parent"

definition initInfraCommand :: "command_tree \<Rightarrow> command_tree" where
  "initInfraCommand = AddCommand (leaf (cobra_Command ''infra NAME'' [] True)
     (AddInfraResourceFlags @ AddPropertiesFlags @ AddEnvVarFlags ''env'' ''e'' @ [VarP ''project'' ''p'' (FString [])]))"

definition initRemoveCommand :: command_tree where
  "initRemoveCommand = leaf (cobra_Command ''remove'' [] False) []"

definition initRemoveSupportingServiceCommands :: "command_tree \<Rightarrow> command_tree" where
  "initRemoveSupportingServiceCommands parent =
     fold (\<lambda>(cmdName, _). AddCommand (leaf (cobra_Command cmdName (supporting_aliases cmdName) True) [VarP ''project'' ''p'' (FString [])]))
       removableSupportingServices parent"

definition initDeleteKogitoInfraCommand :: "command_tree \<Rightarrow> command_tree" where
  "initDeleteKogitoInfraCommand = AddCommand (leaf (cobra_Command ''kogito-infra NAME [flags]'' [] True) [VarP ''project'' ''p'' (FString [])])"

definition initDeleteProjectCommand :: "command_tree \<Rightarrow> command_tree" where
  "initDeleteProjectCommand = AddCommand (leaf (cobra_Command ''delete-project NAME'' [] True) [])"

definition initNewProjectCommand :: "command_tree \<Rightarrow> command_tree" where
  "initNewProjectCommand = AddCommand (leaf (cobra_Command ''new-project NAME'' [''new-ns''] True) addProjectFlagsToCommand)"

definition initUseProjectCommand :: "command_tree \<Rightarrow> command_tree" where
  "initUseProjectCommand = AddCommand (leaf (cobra_Command ''use-project NAME'' [''use-ns''] True) addProjectFlagsToCommand)"

definition initDisplayProjectCommand :: "command_tree \<Rightarrow> command_tree" where
  "initDisplayProjectCommand = AddCommand (leaf (cobra_Command ''project'' [''ns''] True) [])"

definition deploy_BuildCommands :: "command_tree \<Rightarrow> command_tree" where
  "deploy_BuildCommands = initDeployCommand \<circ> initDeleteServiceCommand"

definition install_BuildCommands :: "command_tree \<Rightarrow> command_tree" where
  "install_BuildCommands = AddCommand (initInfraCommand (initInstallSupportingServiceCommands initInstallCommand))"

definition remove_BuildCommands :: "command_tree \<Rightarrow> command_tree" where
  "remove_BuildCommands = AddCommand (initDeleteKogitoInfraCommand (initRemoveSupportingServiceCommands initRemoveCommand))"

definition project_BuildCommands :: "command_tree \<Rightarrow> command_tree" where
  "project_BuildCommands = initDisplayProjectCommand \<circ> initUseProjectCommand \<circ> initNewProjectCommand \<circ> initDeleteProjectCommand"

definition BuildCommands :: command_tree where
  "BuildCommands =
     project_BuildCommands (remove_BuildCommands (install_BuildCommands (deploy_BuildCommands (initCompletionCommand NewRootCommand))))"

text \<open>The client of the cluster is made first; without one there are no commands.\<close>

definition DefaultBuildCommands :: "scheme_lib \<Rightarrow> ('cfg, 'c) client_lib \<Rightarrow> (string \<Rightarrow> string option) \<Rightarrow> gerr + command_tree" where
  "DefaultBuildCommands SL CL lookupEnv =
     bindR (GetRegisteredSchema SL lookupEnv) (\<lambda>s. bindR (NewForConsole CL (Some s)) (\<lambda>_. Inr BuildCommands))"

section \<open>Arguments and runs of the remaining commands\<close>

definition requires_one :: "string list \<Rightarrow> gerr option" where
  "requires_one args = (if length args \<noteq> 1 then Some (PlainError (''requires 1 arg, received '' @ Itoa (int (length args)))) else None)"

definition deleteService_Args :: "string list \<Rightarrow> gerr option" where "deleteService_Args = requires_one"

definition deleteKogitoInfra_Args :: "string list \<Rightarrow> gerr option" where "deleteKogitoInfra_Args = requires_one"

definition deleteProject_Args :: "string list \<Rightarrow> gerr option" where "deleteProject_Args = requires_one"

definition completion_Args :: "string list \<Rightarrow> gerr option" where
  "completion_Args args =
     (case requires_one args of
        Some e \<Rightarrow> Some e
      | None \<Rightarrow>
          if hd args \<noteq> ''bash'' \<and> hd args \<noteq> ''zsh'' \<and> hd args \<noteq> ''fish''
          then Some (PlainError (''argument must be 'bash', 'zsh' or 'fish', received '' @ hd args)) else None)"

text \<open>The generators of cobra, by shell; another shell writes nothing.\<close>

definition completion_Exec :: "(string \<Rightarrow> 'w \<Rightarrow> gerr option \<times> 'w) \<Rightarrow> string list \<Rightarrow> 'w \<Rightarrow> (gerr + unit) \<times> 'w" where
  "completion_Exec gen args w =
     (case args of
        [] \<Rightarrow> (Inl (Panic ''index out of range''), w)
      | shell # _ \<Rightarrow>
          (case if shell = ''bash'' \<or> shell = ''zsh'' \<or> shell = ''fish'' then gen shell w else (None, w) of
             (Some e, w') \<Rightarrow> (Inl (PlainError (''Error in creating '' @ shell @ '' completion file: '' @ error_message e)), w')
           | (None, w') \<Rightarrow> (Inr (), w')))"

text \<open>The message of \<^verbatim>\<open>kogito project\<close>.\<close>

definition displayProject_Exec :: "'w cli \<Rightarrow> 'w \<Rightarrow> string" where
  "displayProject_Exec C w =
     (let currentProject = getCurrentNamespaceFromKubeConfig (cli_kubeConfig C w)
      in if currentProject \<noteq> [] then ''Using project '' @ quoted currentProject else ''No project configured yet...'')"

text \<open>\<^verbatim>\<open>main\<close>: the error of the command is printed and the process ends with 1; a panic ends it with 2.\<close>

definition Execute :: "gerr + unit \<Rightarrow> string option \<times> nat" where
  "Execute r = (case r of Inl (Panic m) \<Rightarrow> (Some (''panic: '' @ m), 2) | Inl e \<Rightarrow> (Some (error_message e), 1) | Inr _ \<Rightarrow> (None, 0))"

section \<open>Logging\<close>

text \<open>The options of a logger and what they configure in zap: the encoder with the keys of its fields (an empty key leaves the field out), the level,
  and sampling.  \<open>devMessage\<close> and \<open>devStacktrace\<close> are the keys of zap's development configuration.\<close>

record log_opts =
  lo_verbose :: bool
  lo_outputFormat :: string
  lo_console :: bool

datatype log_level = DebugLevel | InfoLevel

record log_keys =
  lk_caller :: string
  lk_level :: string
  lk_message :: string
  lk_name :: string
  lk_stacktrace :: string
  lk_time :: string

datatype log_encoder = JSONEncoder log_keys | ConsoleEncoder log_keys | DevelopmentConsoleEncoder | ProductionJSONEncoder

record log_config =
  lg_encoder :: log_encoder
  lg_level :: log_level
  lg_sampled :: bool

definition zapSugaredLoggerTo :: "(string \<Rightarrow> string option) \<Rightarrow> string \<Rightarrow> string \<Rightarrow> log_opts \<Rightarrow> log_config" where
  "zapSugaredLoggerTo lookupEnv devMessage devStacktrace options =
     (let key = (\<lambda>n d. GetOSEnv lookupEnv (''KOGITO_LOGGER_'' @ n @ ''_KEY'') d)
      in if lo_console options then
           \<lparr>lg_encoder =
              (if lo_outputFormat options = ''json''
               then JSONEncoder \<lparr>lk_caller = key ''CALLER'' ''caller'', lk_level = key ''LEVEL'' ''level'', lk_message = key ''MESSAGE'' ''message'',
                      lk_name = key ''NAME'' ''name'', lk_stacktrace = key ''STACKTRACE'' ''stacktrace'', lk_time = key ''TIME'' ''time''\<rparr>
               else ConsoleEncoder \<lparr>lk_caller = key ''CALLER'' [], lk_level = key ''LEVEL'' [], lk_message = key ''MESSAGE'' devMessage,
                      lk_name = key ''NAME'' [], lk_stacktrace = key ''STACKTRACE'' devStacktrace, lk_time = key ''TIME'' []\<rparr>),
            lg_level = (if lo_verbose options then DebugLevel else InfoLevel), lg_sampled = False\<rparr>
         else if lo_verbose options then \<lparr>lg_encoder = DevelopmentConsoleEncoder, lg_level = DebugLevel, lg_sampled = False\<rparr>
         else \<lparr>lg_encoder = ProductionJSONEncoder, lg_level = InfoLevel, lg_sampled = True\<rparr>)"

definition getDefaultOpts :: "(string \<Rightarrow> string option) \<Rightarrow> log_opts" where
  "getDefaultOpts lookupEnv = \<lparr>lo_verbose = GetBoolOSEnv lookupEnv ''DEBUG'', lo_outputFormat = [], lo_console = False\<rparr>"

text \<open>An output format other than \<^verbatim>\<open>json\<close> is refused with a warning and the text format is used.\<close>

definition getDefaultLoggerWithOut :: "bool \<Rightarrow> string \<Rightarrow> log_opts \<times> string option" where
  "getDefaultLoggerWithOut verbose outputFormat =
     (let bad = outputFormat \<noteq> [] \<and> outputFormat \<noteq> ''json''
      in (\<lparr>lo_verbose = verbose, lo_outputFormat = (if bad then [] else outputFormat), lo_console = True\<rparr>,
          if bad then Some ([CHR 0x27] @ outputFormat @ [CHR 0x27] @ '' is not a supported output format'') else None))"

section \<open>Registration of the flags\<close>

text \<open>pflag: a set of flags and its \<^verbatim>\<open>AddFlag\<close>, which panics.  What the client relies on: a flag whose name is new and whose shorthand is empty, or one
  new letter, is registered.\<close>

record 'f pflag_lib =
  pf_empty :: 'f
  pf_add :: "flag_call \<Rightarrow> 'f \<Rightarrow> gerr + 'f"
  pf_flags :: "'f \<Rightarrow> flag_call list"

definition pflag_laws :: "'f pflag_lib \<Rightarrow> bool" where
  "pflag_laws L \<longleftrightarrow> pf_flags L (pf_empty L) = []
     \<and> (\<forall>c f. fc_name c \<notin> fc_name ` set (pf_flags L f)
          \<longrightarrow> fc_shorthand c = [] \<or> length (fc_shorthand c) = 1 \<and> fc_shorthand c \<notin> fc_shorthand ` set (pf_flags L f)
          \<longrightarrow> (\<exists>f'. pf_add L c f = Inr f' \<and> pf_flags L f' = pf_flags L f @ [c]))"

fun register :: "'f pflag_lib \<Rightarrow> flag_call list \<Rightarrow> 'f \<Rightarrow> gerr + 'f" where
  "register L [] f = Inr f"
| "register L (c # cs) f = bindR (pf_add L c f) (register L cs)"

definition clash_free :: "flag_call list \<Rightarrow> bool" where
  "clash_free cs \<longleftrightarrow> distinct (map fc_name cs) \<and> distinct (filter (\<lambda>s. s \<noteq> []) (map fc_shorthand cs)) \<and> list_all (\<lambda>c. length (fc_shorthand c) \<le> 1) cs"

lemma register_clash_free:
  assumes "pflag_laws L" "clash_free (pf_flags L f @ cs)"
  shows "\<exists>f'. register L cs f = Inr f' \<and> pf_flags L f' = pf_flags L f @ cs"
  using assms(2)
proof (induction cs arbitrary: f)
  case (Cons c cs)
  have "fc_name c \<notin> fc_name ` set (pf_flags L f)"
    "fc_shorthand c = [] \<or> length (fc_shorthand c) = 1 \<and> fc_shorthand c \<notin> fc_shorthand ` set (pf_flags L f)"
    using Cons.prems by (auto simp: clash_free_def list_all_iff le_Suc_eq)
  with assms(1) obtain f1 where f1: "pf_add L c f = Inr f1" "pf_flags L f1 = pf_flags L f @ [c]"
    unfolding pflag_laws_def by blast
  with Cons.IH [of f1] Cons.prems show ?case by simp
qed simp

text \<open>The commands of a tree, each with the flags that it parses: its own and the persistent ones of the commands above.\<close>

fun all_commands :: "flag_call list \<Rightarrow> command_tree \<Rightarrow> (cli_command \<times> flag_call list) list" where
  "all_commands inherited (Command c subs) =
     (let persistent = cc_persistentFlags c @ inherited
      in (c, cc_flags c @ persistent) # concat (map (all_commands persistent) subs))"

text \<open>The words under which cobra finds a command among its siblings.\<close>

definition command_words :: "command_tree \<Rightarrow> string list" where
  "command_words t = (case t of Command c _ \<Rightarrow> takeWhile (\<lambda>ch. ch \<noteq> CHR '' '') (cc_use c) # cc_aliases c)"

fun unambiguous :: "command_tree \<Rightarrow> bool" where
  "unambiguous (Command c subs) \<longleftrightarrow> distinct (concat (map command_words subs)) \<and> list_all unambiguous subs"

lemmas flag_defs = AddArtifactFlags_def AddGitSourceFlags_def AddPodResourceFlags_def AddWebHookFlags_def AddEnvVarFlags_def AddImageFlags_def
  monitoring_flag_calls_def AddConfigFlags_def AddProbeFlags_def AddInstallFlags_def AddRuntimeFlags_def AddRuntimeTypeFlags_def AddBuildFlags_def
  AddInfraResourceFlags_def AddPropertiesFlags_def addProjectFlagsToCommand_def Var_def VarP_def

lemmas command_defs = BuildCommands_def project_BuildCommands_def remove_BuildCommands_def install_BuildCommands_def deploy_BuildCommands_def
  initCompletionCommand_def initDeleteServiceCommand_def initDeployCommand_def initInstallCommand_def initInstallSupportingServiceCommands_def
  initInfraCommand_def initRemoveCommand_def initRemoveSupportingServiceCommands_def initDeleteKogitoInfraCommand_def
  initDeleteProjectCommand_def initNewProjectCommand_def initUseProjectCommand_def initDisplayProjectCommand_def NewRootCommand_def leaf_def
  cobra_Command_def supporting_aliases_def installableSupportingServices_def removableSupportingServices_def

lemma flags_clash_free: "list_all (\<lambda>(c, calls). clash_free calls) (all_commands [] BuildCommands)"
  by (simp add: command_defs flag_defs clash_free_def Let_def)

lemma commands_unambiguous: "unambiguous BuildCommands"
  by (simp add: command_defs command_words_def)


text \<open>Without the prefix for its build flags the command that deploys a service would not start.\<close>

lemma build_prefix_needed: "\<not> clash_free (AddPodResourceFlags [] @ AddRuntimeFlags)" "\<not> clash_free (AddEnvVarFlags ''env'' [] @ AddRuntimeFlags)"
  by (simp_all add: flag_defs clash_free_def)

text \<open>A set of flags in memory that panics like pflag.\<close>

definition list_pflag :: "flag_call list pflag_lib" where
  "list_pflag =
     \<lparr>pf_empty = [],
      pf_add = (\<lambda>c f. if fc_name c \<in> fc_name ` set f \<or> fc_shorthand c \<noteq> [] \<and> (length (fc_shorthand c) \<noteq> 1 \<or> fc_shorthand c \<in> fc_shorthand ` set f)
        then Inl (Panic ''flag redefined'') else Inr (f @ [c])),
      pf_flags = id\<rparr>"

lemma list_pflag_laws: "pflag_laws list_pflag"
  by (auto simp: pflag_laws_def list_pflag_def)

section \<open>Properties\<close>

text \<open>C35: the client starts.  Every command of the client registers all of its flags, its own and those that it inherits from the root, without a panic of
  the library; and among the subcommands of a command every word, name or alias, selects one command.\<close>

theorem client_commands_build:
  assumes "pflag_laws L"
  shows "(\<forall>(c, calls) \<in> set (all_commands [] BuildCommands). \<exists>f. register L calls (pf_empty L) = Inr f \<and> pf_flags L f = calls)
    \<and> unambiguous BuildCommands"
proof -
  have "\<exists>f. register L calls (pf_empty L) = Inr f \<and> pf_flags L f = calls" if "(c, calls) \<in> set (all_commands [] BuildCommands)" for c calls
    using register_clash_free [OF assms, of "pf_empty L" calls] that flags_clash_free assms by (auto simp: list_all_iff pflag_laws_def)
  then show ?thesis using commands_unambiguous by blast
qed


lemma client_commands_build_witness:
  "\<exists>f. register list_pflag (AddBuildFlags @ AddRuntimeFlags @ AddRuntimeTypeFlags @
      [VarP ''output'' ''o'' (FString []), VarP ''verbose'' ''v'' (FBool False), Var ''version'' (FBool False)]) [] = Inr f \<and> length f = 41"
proof -
  let ?deploy = "(cobra_Command ''deploy-service NAME [SOURCE]'' [''deploy''] True)\<lparr>cc_flags := AddBuildFlags @ AddRuntimeFlags @ AddRuntimeTypeFlags\<rparr>"
  let ?calls = "AddBuildFlags @ AddRuntimeFlags @ AddRuntimeTypeFlags @
      [VarP ''output'' ''o'' (FString []), VarP ''verbose'' ''v'' (FBool False), Var ''version'' (FBool False)]"
  have mem: "(?deploy, ?calls) \<in> set (all_commands [] BuildCommands)" by (simp add: command_defs Let_def)
  from bspec [OF conjunct1 [OF client_commands_build [OF list_pflag_laws]] mem]
  obtain f where "register list_pflag ?calls (pf_empty list_pflag) = Inr f" "pf_flags list_pflag f = ?calls" by auto
  moreover from this(2) have "f = ?calls" by (simp add: list_pflag_def)
  then have "length f = 41" by (simp add: flag_defs)
  moreover have "pf_empty list_pflag = []" by (simp add: list_pflag_def)
  ultimately show ?thesis by (intro exI [of _ f]) (simp only: simp_thms)
qed

end
