(* ===== verification/Api_Accessors.thy ===== *)
theory Api_Accessors
  imports Build_Config Infra_Types
begin

text \<open>
  The accessors of the custom resources that go through interfaces, of both API groups (\<^verbatim>\<open>apis/app/v1beta1\<close>, \<^verbatim>\<open>apis/rhpam/v1\<close>: the files
  are copies of each other, so one definition with the package as its parameter is the method of both), and the lists of resources, whose
  items are handed out as pointers to copies.  The accessors of a service are in \<^verbatim>\<open>Service_Types\<close>, next to its structs.
\<close>

section \<open>The structs of the second API group\<close>

text \<open>Field by field those of the first.\<close>

type_synonym v1_KogitoServiceStatus = service_status
type_synonym v1_KogitoCloudEventsStatus = cloud_events_status
type_synonym v1_KogitoCloudEventInfo = cloud_event_info
type_synonym v1_KogitoServiceSpec = service_spec
type_synonym v1_Monitoring = monitoring
type_synonym v1_KogitoProbe = kogito_probe
type_synonym v1_KogitoInfraSpec = infra_spec
type_synonym v1_KogitoInfraStatus = infra_status
type_synonym v1_InfraResource = infra_resource
type_synonym v1_KogitoInfra = kogito_infra
type_synonym v1_VolumeReference = volume_reference
type_synonym v1_KogitoBuildSpec = build_spec
type_synonym v1_KogitoBuildStatus = build_status
type_synonym v1_Builds = builds
type_synonym v1_KogitoBuild = kogito_build
type_synonym v1_GitSource = git_source
type_synonym v1_Artifact = artifact
type_synonym v1_WebHookSecret = web_hook_secret

section \<open>Infras\<close>

definition GetConfigMapVolumeReferences :: "go_package \<Rightarrow> infra_status \<Rightarrow> volume_reference iface list" where
  "GetConfigMapVolumeReferences P st = map (PointerTo P) (ist_configMapVolumes st)"

definition SetConfigMapVolumeReferences :: "go_package \<Rightarrow> volume_reference iface list \<Rightarrow> infra_status \<Rightarrow> infra_status" where
  "SetConfigMapVolumeReferences P refs st = st\<lparr>ist_configMapVolumes := recognised (assert_pointer P) refs\<rparr>"

definition GetSecretVolumeReferences :: "go_package \<Rightarrow> infra_status \<Rightarrow> volume_reference iface list" where
  "GetSecretVolumeReferences P st = map (PointerTo P) (ist_secretVolumes st)"

definition SetSecretVolumeReferences :: "go_package \<Rightarrow> volume_reference iface list \<Rightarrow> infra_status \<Rightarrow> infra_status" where
  "SetSecretVolumeReferences P refs st = st\<lparr>ist_secretVolumes := recognised (assert_pointer P) refs\<rparr>"

definition SetConfigMapEnvFromReferences :: "string list \<Rightarrow> infra_status \<Rightarrow> infra_status" where
  "SetConfigMapEnvFromReferences refs st = st\<lparr>ist_configMapEnvFrom := refs\<rparr>"

definition SetSecretEnvFromReferences :: "string list \<Rightarrow> infra_status \<Rightarrow> infra_status" where
  "SetSecretEnvFromReferences refs st = st\<lparr>ist_secretEnvFrom := refs\<rparr>"

interpretation configMapVolumes: interface_slice ist_configMapVolumes "\<lambda>v st. st\<lparr>ist_configMapVolumes := v\<rparr>" PointerTo assert_pointer
  GetConfigMapVolumeReferences SetConfigMapVolumeReferences
  by unfold_locales (simp_all add: GetConfigMapVolumeReferences_def SetConfigMapVolumeReferences_def)

interpretation secretVolumes: interface_slice ist_secretVolumes "\<lambda>v st. st\<lparr>ist_secretVolumes := v\<rparr>" PointerTo assert_pointer
  GetSecretVolumeReferences SetSecretVolumeReferences
  by unfold_locales (simp_all add: GetSecretVolumeReferences_def SetSecretVolumeReferences_def)

section \<open>Builds\<close>

text \<open>A nil map is made before the first entry; \<^verbatim>\<open>resource.MustParse\<close> panics on what is not a quantity, after the map was made.\<close>

definition put_quantity :: "string \<Rightarrow> string \<Rightarrow> smap option \<Rightarrow> smap option" where
  "put_quantity name v m = Some (smap_put name v (case m of None \<Rightarrow> [] | Some m \<Rightarrow> m))"

definition build_AddResourceRequest :: "(string \<Rightarrow> bool) \<Rightarrow> string \<Rightarrow> string \<Rightarrow> build_spec \<Rightarrow> gerr + build_spec" where
  "build_AddResourceRequest isQuantity name v sp =
     (if isQuantity v then Inr (sp\<lparr>bs_resources := (bs_resources sp)\<lparr>br_requests := put_quantity name v (br_requests (bs_resources sp))\<rparr>\<rparr>)
      else Inl (Panic ''cannot parse quantity''))"

definition build_AddResourceLimit :: "(string \<Rightarrow> bool) \<Rightarrow> string \<Rightarrow> string \<Rightarrow> build_spec \<Rightarrow> gerr + build_spec" where
  "build_AddResourceLimit isQuantity name v sp =
     (if isQuantity v then Inr (sp\<lparr>bs_resources := (bs_resources sp)\<lparr>br_limits := put_quantity name v (br_limits (bs_resources sp))\<rparr>\<rparr>)
      else Inl (Panic ''cannot parse quantity''))"

definition GetGitSource :: "go_package \<Rightarrow> build_spec \<Rightarrow> git_source iface" where
  "GetGitSource P sp = PointerTo P (bs_gitSource sp)"

definition SetGitSource :: "go_package \<Rightarrow> git_source iface \<Rightarrow> build_spec \<Rightarrow> build_spec" where
  "SetGitSource P g sp = (case assert_pointer P g of Some new \<Rightarrow> sp\<lparr>bs_gitSource := new\<rparr> | None \<Rightarrow> sp)"

definition GetWebHooks :: "go_package \<Rightarrow> build_spec \<Rightarrow> web_hook_secret iface list" where
  "GetWebHooks P sp = map (ValueOf P) (bs_webHooks sp)"

definition SetWebHooks :: "go_package \<Rightarrow> web_hook_secret iface list \<Rightarrow> build_spec \<Rightarrow> build_spec" where
  "SetWebHooks P hooks sp = sp\<lparr>bs_webHooks := recognised (assert_value P) hooks\<rparr>"

definition GetArtifact :: "go_package \<Rightarrow> build_spec \<Rightarrow> artifact iface" where
  "GetArtifact P sp = PointerTo P (bs_artifact sp)"

definition SetArtifact :: "go_package \<Rightarrow> artifact iface \<Rightarrow> build_spec \<Rightarrow> build_spec" where
  "SetArtifact P a sp = (case assert_pointer P a of Some new \<Rightarrow> sp\<lparr>bs_artifact := new\<rparr> | None \<Rightarrow> sp)"

definition GetBuilds :: "go_package \<Rightarrow> build_status \<Rightarrow> builds iface" where
  "GetBuilds P st = PointerTo P (bst_builds st)"

definition SetBuilds :: "go_package \<Rightarrow> builds iface \<Rightarrow> build_status \<Rightarrow> build_status" where
  "SetBuilds P b st = (case assert_pointer P b of Some new \<Rightarrow> st\<lparr>bst_builds := new\<rparr> | None \<Rightarrow> st)"

interpretation gitSource: interface_field bs_gitSource "\<lambda>v sp. sp\<lparr>bs_gitSource := v\<rparr>" GetGitSource SetGitSource
  by unfold_locales (simp_all add: GetGitSource_def SetGitSource_def)

interpretation webHooks: interface_slice bs_webHooks "\<lambda>v sp. sp\<lparr>bs_webHooks := v\<rparr>" ValueOf assert_value GetWebHooks SetWebHooks
  by unfold_locales (simp_all add: GetWebHooks_def SetWebHooks_def)

interpretation buildArtifact: interface_field bs_artifact "\<lambda>v sp. sp\<lparr>bs_artifact := v\<rparr>" GetArtifact SetArtifact
  by unfold_locales (simp_all add: GetArtifact_def SetArtifact_def)

interpretation statusBuilds: interface_field bst_builds "\<lambda>v st. st\<lparr>bst_builds := v\<rparr>" GetBuilds SetBuilds
  by unfold_locales (simp_all add: GetBuilds_def SetBuilds_def)

section \<open>Lists of resources\<close>

text \<open>The store of the process: the cells allocated so far, an address is a position.  \<^verbatim>\<open>GetItems\<close> copies each item into a variable of its own and
  hands out the address of the variable.\<close>

fun GetItems :: "'a list \<Rightarrow> 'a list \<Rightarrow> nat list \<times> 'a list" where
  "GetItems [] cells = ([], cells)"
| "GetItems (v # items) cells =
     (let item = length cells; (models, cells') = GetItems items (cells @ [v]) in (item # models, cells'))"

lemma GetItems_eq: "GetItems items cells = ([length cells..<length cells + length items], cells @ items)"
  by (induction items arbitrary: cells) (auto simp: upt_rec)

section \<open>Properties\<close>



text \<open>C22: a field copied between two resources through their accessors.  Within a package the copy is exact; between packages a struct keeps the
  old value and a slice is erased.\<close>

theorem accessors_copy_within_group:
  "bs_gitSource (SetGitSource P (GetGitSource Q sp') sp) = (if P = Q then bs_gitSource sp' else bs_gitSource sp)
   \<and> bs_artifact (SetArtifact P (GetArtifact Q sp') sp) = (if P = Q then bs_artifact sp' else bs_artifact sp)
   \<and> bs_webHooks (SetWebHooks P (GetWebHooks Q sp') sp) = (if P = Q then bs_webHooks sp' else [])
   \<and> bst_builds (SetBuilds P (GetBuilds Q bst') bst) = (if P = Q then bst_builds bst' else bst_builds bst)
   \<and> ist_configMapVolumes (SetConfigMapVolumeReferences P (GetConfigMapVolumeReferences Q ist') ist) = (if P = Q then ist_configMapVolumes ist' else [])
   \<and> ist_secretVolumes (SetSecretVolumeReferences P (GetSecretVolumeReferences Q ist') ist) = (if P = Q then ist_secretVolumes ist' else [])
   \<and> st_cloudEvents (SetCloudEvents P (GetCloudEvents Q st') st) = (if P = Q then st_cloudEvents st' else st_cloudEvents st)
   \<and> ss_monitoring (SetMonitoring P (GetMonitoring Q ssp') ssp) = (if P = Q then ss_monitoring ssp' else ss_monitoring ssp)
   \<and> ss_probes (SetProbes P (GetProbes Q ssp') ssp) = (if P = Q then ss_probes ssp' else ss_probes ssp)
   \<and> ces_consumes (SetConsumes P (GetConsumes Q ces') ces) = (if P = Q then ces_consumes ces' else [])
   \<and> ces_produces (SetProduces P (GetProduces Q ces') ces) = (if P = Q then ces_produces ces' else [])"
  by (intro conjI gitSource.copied buildArtifact.copied webHooks.copied statusBuilds.copied configMapVolumes.copied secretVolumes.copied
      cloudEvents.copied monitoring.copied probes.copied consumes.copied produces.copied)

end
