(* ===== verification/Api_Fields.thy ===== *)
theory Api_Fields
  imports Api_Accessors Kogito_Runtime
begin

text \<open>
  The setters of the custom resources that write one field (\<^verbatim>\<open>apis/app/v1beta1\<close>; those of \<^verbatim>\<open>apis/rhpam/v1\<close> and the volume reference of
  \<^verbatim>\<open>core/kogitoservice\<close> are copies of them).  The getters are the fields of the records.  What the interfaces of \<^verbatim>\<open>apis\<close> promise of a pair of them is a
  locale that each pair interprets: a setter writes the field that its getter reads, and nothing else.
\<close>

section \<open>Fields\<close>

locale struct_field =
  fixes getter :: "'s \<Rightarrow> 'a" and setter :: "'a \<Rightarrow> 's \<Rightarrow> 's"
  assumes get_set: "getter (setter v s) = v" and set_get: "setter (getter s) s = s" and set_set: "setter v (setter u s) = setter v s"
begin

lemma unchanged_iff: "setter v s = s \<longleftrightarrow> getter s = v"
  using get_set set_get by metis

text \<open>What a setter leaves alone is all but its field: a setter that undoes the change gives the struct back.\<close>

lemma undone: "setter (getter s) (setter v s) = s"
  by (simp add: set_set set_get)

lemma setter_inj: "setter v s = setter u s \<longleftrightarrow> v = u"
  using get_set by metis

end

text \<open>Two fields of a struct are independent when their setters commute; then neither setter touches what the other getter reads.\<close>

locale two_fields = f: struct_field get1 set1 + g: struct_field get2 set2
  for get1 :: "'s \<Rightarrow> 'a" and set1 and get2 :: "'s \<Rightarrow> 'b" and set2 +
  assumes commute: "set1 v (set2 u s) = set2 u (set1 v s)"
begin

lemma untouched: "get1 (set2 u s) = get1 s" "get2 (set1 v s) = get2 s"
proof -
  have "set1 (get1 s) (set2 u s) = set2 u s" by (simp add: commute f.set_get)
  then show "get1 (set2 u s) = get1 s" by (simp add: f.unchanged_iff)
  have "set2 (get2 s) (set1 v s) = set1 v s" by (simp add: g.set_get flip: commute)
  then show "get2 (set1 v s) = get2 s" by (simp add: g.unchanged_iff)
qed

end

section \<open>The setters\<close>

definition artifact_SetGroupID :: "string \<Rightarrow> artifact \<Rightarrow> artifact" where "artifact_SetGroupID v s = s\<lparr>af_groupID := v\<rparr>"

definition artifact_SetArtifactID :: "string \<Rightarrow> artifact \<Rightarrow> artifact" where "artifact_SetArtifactID v s = s\<lparr>af_artifactID := v\<rparr>"

definition artifact_SetVersion :: "string \<Rightarrow> artifact \<Rightarrow> artifact" where "artifact_SetVersion v s = s\<lparr>af_version := v\<rparr>"

definition git_SetURI :: "string \<Rightarrow> git_source \<Rightarrow> git_source" where "git_SetURI v s = s\<lparr>gs_uri := v\<rparr>"

definition git_SetReference :: "string \<Rightarrow> git_source \<Rightarrow> git_source" where "git_SetReference v s = s\<lparr>gs_reference := v\<rparr>"

definition git_SetContextDir :: "string \<Rightarrow> git_source \<Rightarrow> git_source" where "git_SetContextDir v s = s\<lparr>gs_contextDir := v\<rparr>"

definition build_SetType :: "string \<Rightarrow> build_spec \<Rightarrow> build_spec" where "build_SetType v s = s\<lparr>bs_type := v\<rparr>"

definition build_SetDisableIncremental :: "bool \<Rightarrow> build_spec \<Rightarrow> build_spec" where "build_SetDisableIncremental v s = s\<lparr>bs_disableIncremental := v\<rparr>"

definition build_SetEnv :: "env_var list \<Rightarrow> build_spec \<Rightarrow> build_spec" where "build_SetEnv v s = s\<lparr>bs_env := v\<rparr>"

definition build_SetRuntime :: "string \<Rightarrow> build_spec \<Rightarrow> build_spec" where "build_SetRuntime v s = s\<lparr>bs_runtime := v\<rparr>"

definition build_SetNative :: "bool \<Rightarrow> build_spec \<Rightarrow> build_spec" where "build_SetNative v s = s\<lparr>bs_native := v\<rparr>"

definition build_SetResources :: "build_resources \<Rightarrow> build_spec \<Rightarrow> build_spec" where "build_SetResources v s = s\<lparr>bs_resources := v\<rparr>"

definition build_SetMavenMirrorURL :: "string \<Rightarrow> build_spec \<Rightarrow> build_spec" where "build_SetMavenMirrorURL v s = s\<lparr>bs_mavenMirrorURL := v\<rparr>"

definition build_SetBuildImage :: "string \<Rightarrow> build_spec \<Rightarrow> build_spec" where "build_SetBuildImage v s = s\<lparr>bs_buildImage := v\<rparr>"

definition build_SetRuntimeImage :: "string \<Rightarrow> build_spec \<Rightarrow> build_spec" where "build_SetRuntimeImage v s = s\<lparr>bs_runtimeImage := v\<rparr>"

definition build_SetTargetKogitoRuntime :: "string \<Rightarrow> build_spec \<Rightarrow> build_spec" where "build_SetTargetKogitoRuntime v s = s\<lparr>bs_targetKogitoRuntime := v\<rparr>"

definition build_SetEnableMavenDownloadOutput :: "bool \<Rightarrow> build_spec \<Rightarrow> build_spec" where "build_SetEnableMavenDownloadOutput v s = s\<lparr>bs_enableMavenDownloadOutput := v\<rparr>"

definition buildStatus_SetConditions :: "condition list option \<Rightarrow> build_status \<Rightarrow> build_status" where "buildStatus_SetConditions v s = s\<lparr>bst_conditions := v\<rparr>"

definition buildStatus_SetLatestBuild :: "string \<Rightarrow> build_status \<Rightarrow> build_status" where "buildStatus_SetLatestBuild v s = s\<lparr>bst_latestBuild := v\<rparr>"

definition builds_SetNew :: "string list \<Rightarrow> builds \<Rightarrow> builds" where "builds_SetNew v s = s\<lparr>bl_new := v\<rparr>"

definition builds_SetPending :: "string list \<Rightarrow> builds \<Rightarrow> builds" where "builds_SetPending v s = s\<lparr>bl_pending := v\<rparr>"

definition builds_SetRunning :: "string list \<Rightarrow> builds \<Rightarrow> builds" where "builds_SetRunning v s = s\<lparr>bl_running := v\<rparr>"

definition builds_SetComplete :: "string list \<Rightarrow> builds \<Rightarrow> builds" where "builds_SetComplete v s = s\<lparr>bl_complete := v\<rparr>"

definition builds_SetFailed :: "string list \<Rightarrow> builds \<Rightarrow> builds" where "builds_SetFailed v s = s\<lparr>bl_failed := v\<rparr>"

definition builds_SetError :: "string list \<Rightarrow> builds \<Rightarrow> builds" where "builds_SetError v s = s\<lparr>bl_error := v\<rparr>"

definition builds_SetCancelled :: "string list \<Rightarrow> builds \<Rightarrow> builds" where "builds_SetCancelled v s = s\<lparr>bl_cancelled := v\<rparr>"

definition infraStatus_SetConditions :: "condition list option \<Rightarrow> infra_status \<Rightarrow> infra_status" where "infraStatus_SetConditions v s = s\<lparr>ist_conditions := v\<rparr>"

definition infraStatus_SetEnvs :: "env_var list \<Rightarrow> infra_status \<Rightarrow> infra_status" where "infraStatus_SetEnvs v s = s\<lparr>ist_envs := v\<rparr>"

definition infraResource_SetAPIVersion :: "string \<Rightarrow> infra_resource \<Rightarrow> infra_resource" where "infraResource_SetAPIVersion v s = s\<lparr>ir_apiVersion := v\<rparr>"

definition infraResource_SetKind :: "string \<Rightarrow> infra_resource \<Rightarrow> infra_resource" where "infraResource_SetKind v s = s\<lparr>ir_kind := v\<rparr>"

definition infraResource_SetNamespace :: "string \<Rightarrow> infra_resource \<Rightarrow> infra_resource" where "infraResource_SetNamespace v s = s\<lparr>ir_namespace := v\<rparr>"

definition infraResource_SetName :: "string \<Rightarrow> infra_resource \<Rightarrow> infra_resource" where "infraResource_SetName v s = s\<lparr>ir_name := v\<rparr>"

definition serviceStatus_SetConditions :: "condition list option \<Rightarrow> service_status \<Rightarrow> service_status" where "serviceStatus_SetConditions v s = s\<lparr>st_conditions := v\<rparr>"

definition serviceStatus_SetDeploymentConditions :: "deployment_condition list \<Rightarrow> service_status \<Rightarrow> service_status" where "serviceStatus_SetDeploymentConditions v s = s\<lparr>st_deploymentConditions := v\<rparr>"

definition serviceStatus_SetRouteConditions :: "condition list option \<Rightarrow> service_status \<Rightarrow> service_status" where "serviceStatus_SetRouteConditions v s = s\<lparr>st_routeConditions := v\<rparr>"

definition serviceStatus_SetImage :: "string \<Rightarrow> service_status \<Rightarrow> service_status" where "serviceStatus_SetImage v s = s\<lparr>st_image := v\<rparr>"

definition serviceStatus_SetExternalURI :: "string \<Rightarrow> service_status \<Rightarrow> service_status" where "serviceStatus_SetExternalURI v s = s\<lparr>st_externalURI := v\<rparr>"

definition service_SetEnvs :: "env_var list \<Rightarrow> service_spec \<Rightarrow> service_spec" where "service_SetEnvs v s = s\<lparr>ss_env := v\<rparr>"

definition service_SetImage :: "string \<Rightarrow> service_spec \<Rightarrow> service_spec" where "service_SetImage v s = s\<lparr>ss_image := v\<rparr>"

definition service_SetResources :: "resource_requirements \<Rightarrow> service_spec \<Rightarrow> service_spec" where "service_SetResources v s = s\<lparr>ss_resources := v\<rparr>"

definition service_SetDeploymentLabels :: "smap \<Rightarrow> service_spec \<Rightarrow> service_spec" where "service_SetDeploymentLabels v s = s\<lparr>ss_deploymentLabels := v\<rparr>"

definition service_SetServiceLabels :: "smap \<Rightarrow> service_spec \<Rightarrow> service_spec" where "service_SetServiceLabels v s = s\<lparr>ss_serviceLabels := v\<rparr>"

definition service_SetTrustStoreSecret :: "string \<Rightarrow> service_spec \<Rightarrow> service_spec" where "service_SetTrustStoreSecret v s = s\<lparr>ss_trustStoreSecret := v\<rparr>"

definition service_SetDisableRoute :: "bool \<Rightarrow> service_spec \<Rightarrow> service_spec" where "service_SetDisableRoute v s = s\<lparr>ss_disableRoute := v\<rparr>"

definition monitoring_SetScheme :: "string \<Rightarrow> monitoring \<Rightarrow> monitoring" where "monitoring_SetScheme v s = s\<lparr>mon_scheme := v\<rparr>"

definition monitoring_SetPath :: "string \<Rightarrow> monitoring \<Rightarrow> monitoring" where "monitoring_SetPath v s = s\<lparr>mon_path := v\<rparr>"

definition probe_SetLivenessProbe :: "probe \<Rightarrow> kogito_probe \<Rightarrow> kogito_probe" where "probe_SetLivenessProbe v s = s\<lparr>kp_liveness := v\<rparr>"

definition probe_SetReadinessProbe :: "probe \<Rightarrow> kogito_probe \<Rightarrow> kogito_probe" where "probe_SetReadinessProbe v s = s\<lparr>kp_readiness := v\<rparr>"

definition probe_SetStartupProbe :: "probe \<Rightarrow> kogito_probe \<Rightarrow> kogito_probe" where "probe_SetStartupProbe v s = s\<lparr>kp_startup := v\<rparr>"

definition volume_SetName :: "string \<Rightarrow> volume_reference \<Rightarrow> volume_reference" where "volume_SetName v s = s\<lparr>vr_name := v\<rparr>"

definition volume_SetMountPath :: "string \<Rightarrow> volume_reference \<Rightarrow> volume_reference" where "volume_SetMountPath v s = s\<lparr>vr_mountPath := v\<rparr>"

definition volume_SetOptional :: "bool option \<Rightarrow> volume_reference \<Rightarrow> volume_reference" where "volume_SetOptional v s = s\<lparr>vr_optional := v\<rparr>"

definition volume_SetFileMode :: "int option \<Rightarrow> volume_reference \<Rightarrow> volume_reference" where "volume_SetFileMode v s = s\<lparr>vr_fileMode := v\<rparr>"

definition runtime_SetEnableIstio :: "bool \<Rightarrow> kogito_runtime \<Rightarrow> kogito_runtime" where "runtime_SetEnableIstio v s = s\<lparr>kr_enableIstio := v\<rparr>"

definition supporting_SetServiceType :: "string \<Rightarrow> supporting_service \<Rightarrow> supporting_service" where "supporting_SetServiceType v s = s\<lparr>sup_type := v\<rparr>"

text \<open>The number of replicas is stored behind a pointer.\<close>

definition service_SetReplicas :: "int \<Rightarrow> service_spec \<Rightarrow> service_spec" where "service_SetReplicas v s = s\<lparr>ss_replicas := Some v\<rparr>"

interpretation artifactGroupID: struct_field af_groupID artifact_SetGroupID by unfold_locales (simp_all add: artifact_SetGroupID_def)

interpretation artifactArtifactID: struct_field af_artifactID artifact_SetArtifactID by unfold_locales (simp_all add: artifact_SetArtifactID_def)

interpretation artifactVersion: struct_field af_version artifact_SetVersion by unfold_locales (simp_all add: artifact_SetVersion_def)

interpretation gitURI: struct_field gs_uri git_SetURI by unfold_locales (simp_all add: git_SetURI_def)

interpretation gitReference: struct_field gs_reference git_SetReference by unfold_locales (simp_all add: git_SetReference_def)

interpretation gitContextDir: struct_field gs_contextDir git_SetContextDir by unfold_locales (simp_all add: git_SetContextDir_def)

interpretation buildType: struct_field bs_type build_SetType by unfold_locales (simp_all add: build_SetType_def)

interpretation buildDisableIncremental: struct_field bs_disableIncremental build_SetDisableIncremental by unfold_locales (simp_all add: build_SetDisableIncremental_def)

interpretation buildEnv: struct_field bs_env build_SetEnv by unfold_locales (simp_all add: build_SetEnv_def)

interpretation buildRuntime: struct_field bs_runtime build_SetRuntime by unfold_locales (simp_all add: build_SetRuntime_def)

interpretation buildNative: struct_field bs_native build_SetNative by unfold_locales (simp_all add: build_SetNative_def)

interpretation buildResources: struct_field bs_resources build_SetResources by unfold_locales (simp_all add: build_SetResources_def)

interpretation buildMavenMirrorURL: struct_field bs_mavenMirrorURL build_SetMavenMirrorURL by unfold_locales (simp_all add: build_SetMavenMirrorURL_def)

interpretation buildBuildImage: struct_field bs_buildImage build_SetBuildImage by unfold_locales (simp_all add: build_SetBuildImage_def)

interpretation buildRuntimeImage: struct_field bs_runtimeImage build_SetRuntimeImage by unfold_locales (simp_all add: build_SetRuntimeImage_def)

interpretation buildTargetKogitoRuntime: struct_field bs_targetKogitoRuntime build_SetTargetKogitoRuntime by unfold_locales (simp_all add: build_SetTargetKogitoRuntime_def)

interpretation buildEnableMavenDownloadOutput: struct_field bs_enableMavenDownloadOutput build_SetEnableMavenDownloadOutput by unfold_locales (simp_all add: build_SetEnableMavenDownloadOutput_def)

interpretation buildStatusConditions: struct_field bst_conditions buildStatus_SetConditions by unfold_locales (simp_all add: buildStatus_SetConditions_def)

interpretation buildStatusLatestBuild: struct_field bst_latestBuild buildStatus_SetLatestBuild by unfold_locales (simp_all add: buildStatus_SetLatestBuild_def)

interpretation buildsNew: struct_field bl_new builds_SetNew by unfold_locales (simp_all add: builds_SetNew_def)

interpretation buildsPending: struct_field bl_pending builds_SetPending by unfold_locales (simp_all add: builds_SetPending_def)

interpretation buildsRunning: struct_field bl_running builds_SetRunning by unfold_locales (simp_all add: builds_SetRunning_def)

interpretation buildsComplete: struct_field bl_complete builds_SetComplete by unfold_locales (simp_all add: builds_SetComplete_def)

interpretation buildsFailed: struct_field bl_failed builds_SetFailed by unfold_locales (simp_all add: builds_SetFailed_def)

interpretation buildsError: struct_field bl_error builds_SetError by unfold_locales (simp_all add: builds_SetError_def)

interpretation buildsCancelled: struct_field bl_cancelled builds_SetCancelled by unfold_locales (simp_all add: builds_SetCancelled_def)

interpretation infraStatusConditions: struct_field ist_conditions infraStatus_SetConditions by unfold_locales (simp_all add: infraStatus_SetConditions_def)

interpretation infraStatusEnvs: struct_field ist_envs infraStatus_SetEnvs by unfold_locales (simp_all add: infraStatus_SetEnvs_def)

interpretation infraResourceAPIVersion: struct_field ir_apiVersion infraResource_SetAPIVersion by unfold_locales (simp_all add: infraResource_SetAPIVersion_def)

interpretation infraResourceKind: struct_field ir_kind infraResource_SetKind by unfold_locales (simp_all add: infraResource_SetKind_def)

interpretation infraResourceNamespace: struct_field ir_namespace infraResource_SetNamespace by unfold_locales (simp_all add: infraResource_SetNamespace_def)

interpretation infraResourceName: struct_field ir_name infraResource_SetName by unfold_locales (simp_all add: infraResource_SetName_def)

interpretation serviceStatusConditions: struct_field st_conditions serviceStatus_SetConditions by unfold_locales (simp_all add: serviceStatus_SetConditions_def)

interpretation serviceStatusDeploymentConditions: struct_field st_deploymentConditions serviceStatus_SetDeploymentConditions by unfold_locales (simp_all add: serviceStatus_SetDeploymentConditions_def)

interpretation serviceStatusRouteConditions: struct_field st_routeConditions serviceStatus_SetRouteConditions by unfold_locales (simp_all add: serviceStatus_SetRouteConditions_def)

interpretation serviceStatusImage: struct_field st_image serviceStatus_SetImage by unfold_locales (simp_all add: serviceStatus_SetImage_def)

interpretation serviceStatusExternalURI: struct_field st_externalURI serviceStatus_SetExternalURI by unfold_locales (simp_all add: serviceStatus_SetExternalURI_def)

interpretation serviceEnvs: struct_field ss_env service_SetEnvs by unfold_locales (simp_all add: service_SetEnvs_def)

interpretation serviceImage: struct_field ss_image service_SetImage by unfold_locales (simp_all add: service_SetImage_def)

interpretation serviceResources: struct_field ss_resources service_SetResources by unfold_locales (simp_all add: service_SetResources_def)

interpretation serviceDeploymentLabels: struct_field ss_deploymentLabels service_SetDeploymentLabels by unfold_locales (simp_all add: service_SetDeploymentLabels_def)

interpretation serviceServiceLabels: struct_field ss_serviceLabels service_SetServiceLabels by unfold_locales (simp_all add: service_SetServiceLabels_def)

interpretation serviceTrustStoreSecret: struct_field ss_trustStoreSecret service_SetTrustStoreSecret by unfold_locales (simp_all add: service_SetTrustStoreSecret_def)

interpretation serviceDisableRoute: struct_field ss_disableRoute service_SetDisableRoute by unfold_locales (simp_all add: service_SetDisableRoute_def)

interpretation monitoringScheme: struct_field mon_scheme monitoring_SetScheme by unfold_locales (simp_all add: monitoring_SetScheme_def)

interpretation monitoringPath: struct_field mon_path monitoring_SetPath by unfold_locales (simp_all add: monitoring_SetPath_def)

interpretation probeLivenessProbe: struct_field kp_liveness probe_SetLivenessProbe by unfold_locales (simp_all add: probe_SetLivenessProbe_def)

interpretation probeReadinessProbe: struct_field kp_readiness probe_SetReadinessProbe by unfold_locales (simp_all add: probe_SetReadinessProbe_def)

interpretation probeStartupProbe: struct_field kp_startup probe_SetStartupProbe by unfold_locales (simp_all add: probe_SetStartupProbe_def)

interpretation volumeName: struct_field vr_name volume_SetName by unfold_locales (simp_all add: volume_SetName_def)

interpretation volumeMountPath: struct_field vr_mountPath volume_SetMountPath by unfold_locales (simp_all add: volume_SetMountPath_def)

interpretation volumeOptional: struct_field vr_optional volume_SetOptional by unfold_locales (simp_all add: volume_SetOptional_def)

interpretation volumeFileMode: struct_field vr_fileMode volume_SetFileMode by unfold_locales (simp_all add: volume_SetFileMode_def)

interpretation runtimeEnableIstio: struct_field kr_enableIstio runtime_SetEnableIstio by unfold_locales (simp_all add: runtime_SetEnableIstio_def)

interpretation supportingServiceType: struct_field sup_type supporting_SetServiceType by unfold_locales (simp_all add: supporting_SetServiceType_def)

section \<open>What the handlers of a status write is apart\<close>

text \<open>The condition types and the other fields of a status are written by different steps of a run; the order of these steps does not matter.\<close>

interpretation serviceConditionsImage: two_fields st_conditions serviceStatus_SetConditions st_image serviceStatus_SetImage
  by unfold_locales (simp_all add: serviceStatus_SetConditions_def serviceStatus_SetImage_def)

interpretation serviceConditionsRoute: two_fields st_conditions serviceStatus_SetConditions st_routeConditions serviceStatus_SetRouteConditions
  by unfold_locales (simp_all add: serviceStatus_SetConditions_def serviceStatus_SetRouteConditions_def)

interpretation serviceConditionsURI: two_fields st_conditions serviceStatus_SetConditions st_externalURI serviceStatus_SetExternalURI
  by unfold_locales (simp_all add: serviceStatus_SetConditions_def serviceStatus_SetExternalURI_def)

interpretation infraConditionsEnvs: two_fields ist_conditions infraStatus_SetConditions ist_envs infraStatus_SetEnvs
  by unfold_locales (simp_all add: infraStatus_SetConditions_def infraStatus_SetEnvs_def)

interpretation buildConditionsLatest: two_fields bst_conditions buildStatus_SetConditions bst_latestBuild buildStatus_SetLatestBuild
  by unfold_locales (simp_all add: buildStatus_SetConditions_def buildStatus_SetLatestBuild_def)

end
