(* ===== verification/Reconciler_Settles.thy ===== *)
theory Reconciler_Settles
  imports Controller_Watches
begin

text \<open>
  Reconciliation comes to rest.  A reconciler that requires one resource and reads the one deployed under the same key settles in one
  successful run: the resource is stored, and the next run finds nothing to do.  The argument is made once, for the interface of such
  reconcilers; the reconcilers of the configuration, the service, the route, the endpoint and the deployment of a service interpret it.
\<close>

section \<open>What the libraries promise\<close>

text \<open>The comparison of operator-utils by key and comparator, its test for changes, and its writers over the store of the server: what is added or
  updated is stored as it was sent, and an empty list writes nothing.\<close>

definition same_object :: "('w, 'o) store_api \<Rightarrow> 'o \<Rightarrow> 'o \<Rightarrow> bool" where
  "same_object A d r \<longleftrightarrow> om_namespace (sa_meta A d) = om_namespace (sa_meta A r) \<and> om_name (sa_meta A d) = om_name (sa_meta A r)"

definition delta_laws :: "('w, 'o) delta_lib \<Rightarrow> ('w, 'o) store_api \<Rightarrow> bool" where
  "delta_laws L A \<longleftrightarrow>
     (\<forall>cmp r. dl_compare L cmp [] [r] = \<lparr>d_added = [r], d_updated = [], d_removed = []\<rparr>)
     \<and> (\<forall>cmp d r. same_object A d r \<longrightarrow>
          dl_compare L cmp [d] [r] = \<lparr>d_added = [], d_updated = (if fst (cmp d r) then [] else [r]), d_removed = []\<rparr>)
     \<and> (\<forall>\<delta>. dl_hasChanges L \<delta> \<longleftrightarrow> d_added \<delta> \<noteq> [] \<or> d_updated \<delta> \<noteq> [] \<or> d_removed \<delta> \<noteq> [])
     \<and> (\<forall>r w b w'. bw_add (dl_writer L) [r] w = (Inr b, w') \<longrightarrow> sa_get A (om_namespace (sa_meta A r)) (om_name (sa_meta A r)) w' = Inr r)
     \<and> (\<forall>d r w b w'. same_object A d r \<longrightarrow> sa_get A (om_namespace (sa_meta A r)) (om_name (sa_meta A r)) w = Inr d \<longrightarrow>
          bw_update (dl_writer L) [d] [r] w = (Inr b, w') \<longrightarrow> sa_get A (om_namespace (sa_meta A r)) (om_name (sa_meta A r)) w' = Inr r)
     \<and> (\<forall>w b w'. bw_add (dl_writer L) [] w = (Inr b, w') \<longrightarrow> w' = w) \<and> (\<forall>ds w b w'. bw_update (dl_writer L) ds [] w = (Inr b, w') \<longrightarrow> w' = w)
     \<and> (\<forall>w b w'. bw_remove (dl_writer L) [] w = (Inr b, w') \<longrightarrow> w' = w)
     \<and> (\<forall>ns n w d. sa_get A ns n w = Inr d \<longrightarrow> om_namespace (sa_meta A d) = ns \<and> om_name (sa_meta A d) = n)"

lemma delta_lawsD:
  assumes "delta_laws L A"
  shows "dl_compare L cmp [] [r] = \<lparr>d_added = [r], d_updated = [], d_removed = []\<rparr>"
    "same_object A d r \<Longrightarrow> dl_compare L cmp [d] [r] = \<lparr>d_added = [], d_updated = (if fst (cmp d r) then [] else [r]), d_removed = []\<rparr>"
    "dl_hasChanges L \<delta> \<longleftrightarrow> d_added \<delta> \<noteq> [] \<or> d_updated \<delta> \<noteq> [] \<or> d_removed \<delta> \<noteq> []"
    "bw_add (dl_writer L) [r] w = (Inr b, w') \<Longrightarrow> sa_get A (om_namespace (sa_meta A r)) (om_name (sa_meta A r)) w' = Inr r"
    "same_object A d r \<Longrightarrow> sa_get A (om_namespace (sa_meta A r)) (om_name (sa_meta A r)) w = Inr d \<Longrightarrow>
       bw_update (dl_writer L) [d] [r] w = (Inr b, w') \<Longrightarrow> sa_get A (om_namespace (sa_meta A r)) (om_name (sa_meta A r)) w' = Inr r"
    "bw_add (dl_writer L) [] w = (Inr b, w') \<Longrightarrow> w' = w" "bw_update (dl_writer L) ds [] w = (Inr b, w') \<Longrightarrow> w' = w"
    "bw_remove (dl_writer L) [] w = (Inr b, w') \<Longrightarrow> w' = w"
    "sa_get A ns n w = Inr d \<Longrightarrow> om_namespace (sa_meta A d) = ns \<and> om_name (sa_meta A d) = n"
  using assms unfolding delta_laws_def by metis+

text \<open>\<^verbatim>\<open>SetControllerReference\<close> changes nothing but the owners.\<close>

definition sets_owner_only :: "op_context \<Rightarrow> bool" where
  "sets_owner_only cx \<longleftrightarrow> (\<forall>owner m m'. cx_setControllerReference cx owner m = Inr m' \<longrightarrow> m' = m\<lparr>om_owners := om_owners m'\<rparr>)"

section \<open>The interface\<close>

locale single_reconciler = resource_reconciler lib equal required deployed reconcile
  for lib :: "('w, 'o) delta_lib" and equal required deployed reconcile +
  fixes A :: "('w, 'o) store_api" and ns n :: string
  assumes reads: "deployed w = bindR (FetchWithKey A ns n w) (\<lambda>x. Inr (case x of None \<Rightarrow> [] | Some d \<Rightarrow> [d]))"
begin

lemma stores:
  assumes laws: "delta_laws lib A" and req: "required w = Inr [r]" "om_namespace (sa_meta A r) = ns" "om_name (sa_meta A r) = n"
    and refl: "fst (equal r r)" and run: "reconcile w = (Inr b, w')"
  shows "\<exists>d. sa_get A ns n w' = Inr d \<and> fst (equal d r)"
proof -
  note D = delta_lawsD [OF laws]
  from run req(1) obtain dep where dep: "deployed w = Inr dep" "process_resources lib equal [r] dep w = (Inr b, w')"
    by (auto simp: shape split: sum.splits)
  consider "dep = []" | d where "dep = [d]" "sa_get A ns n w = Inr d"
    using dep(1) by (auto simp: reads bindR_eq_Inr FetchWithKey_cases split: option.splits)
  then show ?thesis
  proof cases
    case 1
    with dep(2) obtain b1 w1 b2 w2 b3 where "bw_add (dl_writer lib) [r] w = (Inr b1, w1)" "bw_update (dl_writer lib) [] [] w1 = (Inr b2, w2)"
        "bw_remove (dl_writer lib) [] w2 = (Inr b3, w')"
      by (auto simp: process_resources_changed D(1,3) apply_delta_Inr split: prod.splits sum.splits)
    with D(4) D(7) D(8) req(2,3) refl show ?thesis by blast
  next
    case (2 d)
    with D(9) req(2,3) have same: "same_object A d r" by (simp add: same_object_def)
    show ?thesis
    proof (cases "fst (equal d r)")
      case True
      with dep(2) 2 same have "w' = w" by (simp add: process_resources_quiet D(2,3))
      with True 2 show ?thesis by blast
    next
      case False
      with dep(2) 2 same obtain b1 w1 b2 w2 b3 where "bw_add (dl_writer lib) [] w = (Inr b1, w1)" "bw_update (dl_writer lib) [d] [r] w1 = (Inr b2, w2)"
          "bw_remove (dl_writer lib) [] w2 = (Inr b3, w')"
        by (auto simp: process_resources_changed D(2,3) apply_delta_Inr split: prod.splits sum.splits)
      with D(5) [OF same] D(6) D(8) 2(2) req(2,3) refl show ?thesis by metis
    qed
  qed
qed

text \<open>The second run finds the stored resource equal to the required one, as long as what is required did not change.\<close>

lemma settles:
  assumes laws: "delta_laws lib A" and req: "required w = Inr [r]" "om_namespace (sa_meta A r) = ns" "om_name (sa_meta A r) = n"
    and refl: "fst (equal r r)" and run: "reconcile w = (Inr b, w')" and unread: "required w' = required w"
  shows "(\<exists>d. sa_get A ns n w' = Inr d \<and> fst (equal d r)) \<and> reconcile w' = (Inr False, w')"
proof -
  note D = delta_lawsD [OF laws]
  obtain d where d: "sa_get A ns n w' = Inr d" "fst (equal d r)" using stores [OF laws req refl run] by blast
  then have "deployed w' = Inr [d]" by (simp add: reads FetchWithKey_def)
  moreover have "same_object A d r" using D(9) [OF d(1)] req(2,3) by (simp add: same_object_def)
  ultimately have "reconcile w' = (Inr False, w')"
    using d(2) req(1) unread by (simp add: shape process_resources_quiet D(2,3))
  with d show ?thesis by blast
qed

end

section \<open>The reconcilers of a service\<close>

interpretation crs: single_reconciler L configMap_GetComparator "cr_createRequiredResources cx inst"
  "cr_getDeployedResources K inst" "cr_resources K cx L inst" "cl_configMaps K" "ks_namespace inst" "getInfraPropertiesConfigMapName inst" for K cx L inst
  by unfold_locales (simp add: cr_getDeployedResources_def FetchConfigMap_def)

interpretation srs: single_reconciler L "service_GetComparator servicesEqual" "sr_createRequiredResources cx inst"
  "sr_getDeployedResources K inst" "sr_resources K cx L servicesEqual inst" "cl_services K" "ks_namespace inst" "ks_name inst" for K cx L servicesEqual inst
  by unfold_locales (simp add: sr_getDeployedResources_def FetchService_def)

interpretation rrs: single_reconciler L route_GetComparator "rr_createRequiredResources cx inst"
  "rr_getDeployedResources K inst" "rr_resources K cx L inst" "cl_routes K" "ks_namespace inst" "ks_name inst" for K cx L inst
  by unfold_locales (simp add: rr_getDeployedResources_def FetchRoute_def)

interpretation eps: single_reconciler "de_configMapLib (ce_deploy E)" configMap_GetComparator "endpoint_createRequiredResources E inst httpEnv wsEnv"
  "endpoint_getDeployedResources E inst" "endpoint_resources E inst httpEnv wsEnv" "cl_configMaps (ce_cluster E)" "ks_namespace inst"
  "GetEndPointConfigMapName (ks_name inst)" for E inst httpEnv wsEnv
  by unfold_locales (simp add: endpoint_getDeployedResources_def FetchConfigMap_def)

interpretation drs: single_reconciler L "deployment_GetComparator L"
  "dr_createRequiredResources K cx serverMinor ih svc def imageName" "dr_getDeployedResources K svc"
  "dr_resources K cx L serverMinor ih svc def imageName" "cl_deployments K" "ks_namespace svc" "ks_name svc" for K cx L serverMinor ih svc def imageName
  by unfold_locales (simp add: dr_getDeployedResources_def FetchDeployment_def)

text \<open>The metadata by which the stores of a cluster keep their objects.\<close>

definition cluster_metas :: "'w cluster \<Rightarrow> bool" where
  "cluster_metas K \<longleftrightarrow> sa_meta (cl_configMaps K) = cm_meta \<and> sa_meta (cl_services K) = svc_meta \<and> sa_meta (cl_routes K) = rt_meta
     \<and> sa_meta (cl_deployments K) = dep_meta"

lemma owned_parts:
  assumes "sets_owner_only cx" "own_object cx owner gm sm x = Inr y"
  shows "\<exists>ows. y = sm ((gm x)\<lparr>om_owners := ows\<rparr>) x"
  using assms unfolding own_object_conv bindR_eq_Inr sets_owner_only_def by (metis Inr_inject)

lemma containAllLabels_refl: "distinct (map fst (om_labels m)) \<Longrightarrow> containAllLabels m m"
  by (auto simp: containAllLabels_def list_all_iff smap_get_def)

lemma configMap_comparator_refl: "distinct (map fst (om_labels (cm_meta c))) \<Longrightarrow> fst (configMap_GetComparator c c)"
  by (simp add: configMap_GetComparator_def Build_def WithCustomComparator_def NewComparatorBuilder_def CreateConfigMapComparator_def
      containAllLabels_refl smap_eq_iff)

lemma configMap_comparator_data: "fst (configMap_GetComparator d c) \<Longrightarrow> smap_eq (cm_data d) (cm_data c)"
  by (auto simp: configMap_GetComparator_def Build_def WithCustomComparator_def NewComparatorBuilder_def CreateConfigMapComparator_def
      split: if_splits)

lemma route_comparator_refl: "distinct (map fst (om_labels (rt_meta r))) \<Longrightarrow> fst (route_GetComparator r r)"
  by (simp add: route_GetComparator_def Build_def WithCustomComparator_def NewComparatorBuilder_def CreateRouteComparator_def containAllLabels_refl)

text \<open>Protocols are cleared only where the requested port has none.\<close>

lemma clear_protocols_kept: "\<forall>p \<in> set requested. sp_protocol p \<noteq> [] \<Longrightarrow> clear_protocols requested deployed = deployed"
  unfolding clear_protocols_def
  by (induction requested arbitrary: deployed) (auto split: option.split)

lemma service_comparator_refl:
  assumes "\<forall>x. servicesEqual x x" "svc_ports s = createServicePorts"
  shows "fst (service_GetComparator servicesEqual s s)"
proof -
  have "clear_protocols (svc_ports s) (svc_ports s) = svc_ports s"
    unfolding assms(2) by (rule clear_protocols_kept) (simp add: createServicePorts_def)
  then show ?thesis
    using assms(1) by (simp add: service_GetComparator_def Build_def WithCustomComparator_def NewComparatorBuilder_def createServiceComparator_def)
qed

text \<open>What each reconciler requires, with the owner set.\<close>

lemma cr_required:
  assumes "sets_owner_only cx" "cr_createRequiredResources cx inst w = Inr rs"
  shows "\<exists>r. rs = [r] \<and> om_namespace (cm_meta r) = ks_namespace inst \<and> om_name (cm_meta r) = getInfraPropertiesConfigMapName inst
    \<and> cm_data r = ss_config (ks_spec inst) \<and> fst (configMap_GetComparator r r)"
  using assms by (auto simp: cr_createRequiredResources_def bindR_eq_Inr createInfraPropertiesConfigMap_def mk_meta_def
      intro!: configMap_comparator_refl dest!: owned_parts [OF assms(1)])

lemma sr_required:
  assumes "sets_owner_only cx" "\<forall>x. servicesEqual x x" "sr_createRequiredResources cx inst w = Inr rs"
  shows "\<exists>r. rs = [r] \<and> om_namespace (svc_meta r) = ks_namespace inst \<and> om_name (svc_meta r) = ks_name inst
    \<and> fst (service_GetComparator servicesEqual r r)"
  using assms by (auto simp: sr_createRequiredResources_def bindR_eq_Inr CreateService_def mk_meta_def
      intro!: service_comparator_refl dest!: owned_parts [OF assms(1)])

lemma rr_required:
  assumes "sets_owner_only cx" "rr_createRequiredResources cx inst w = Inr rs"
  shows "\<exists>r. rs = [r] \<and> om_namespace (rt_meta r) = ks_namespace inst \<and> om_name (rt_meta r) = ks_name inst \<and> fst (route_GetComparator r r)"
  using assms by (auto simp: rr_createRequiredResources_def bindR_eq_Inr CreateRoute_def mk_meta_def
      intro!: route_comparator_refl dest!: owned_parts [OF assms(1)])

text \<open>A run that ends well had something to require.\<close>

lemma run_requires:
  "cr_resources K cx L inst w = (Inr b, w') \<Longrightarrow> \<exists>rs. cr_createRequiredResources cx inst w = Inr rs"
  "sr_resources K cx L2 servicesEqual inst w = (Inr b, w') \<Longrightarrow> \<exists>rs. sr_createRequiredResources cx inst w = Inr rs"
  "rr_resources K cx L3 inst w = (Inr b, w') \<Longrightarrow> \<exists>rs. rr_createRequiredResources cx inst w = Inr rs"
  by (auto simp: cr_resources_def sr_resources_def rr_resources_def split: sum.splits)

text \<open>The libraries in memory keep their promises.\<close>

lemma find_by_name:
  assumes "find (same_key meta ns n) xs = Some d" "om_namespace (meta r) = ns" "om_name (meta r) = n"
  shows "find (same_key meta ns n) (map (\<lambda>y. if om_name (meta y) = n then r else y) xs) = Some r"
  using assms by (induction xs) (auto simp: same_key_def split: if_splits)

lemma mem_delta_laws:
  assumes lens: "\<And>x w. g (p x w) = x" "\<And>w. p (g w) w = w"
  shows "delta_laws (mem_delta_lib (\<lambda>x. om_name (meta x)) g p) (lens_api g p (mem_api meta))"
  unfolding delta_laws_def
proof (intro conjI allI impI)
  fix d r w b w'
  let ?A = "lens_api g p (mem_api meta)" and ?L = "mem_delta_lib (\<lambda>x. om_name (meta x)) g p"
  assume "same_object ?A d r" and get: "sa_get ?A (om_namespace (sa_meta ?A r)) (om_name (sa_meta ?A r)) w = Inr d"
    and upd: "bw_update (dl_writer ?L) [d] [r] w = (Inr b, w')"
  have w': "g w' = map (\<lambda>y. if om_name (meta y) = om_name (meta r) then r else y) (g w)"
    using upd by (auto simp: mem_delta_lib_def lens intro!: map_cong)
  from get have "find (same_key meta (om_namespace (meta r)) (om_name (meta r))) (g w) = Some d"
    by (simp add: mem_get_def split: option.splits)
  then show "sa_get ?A (om_namespace (sa_meta ?A r)) (om_name (sa_meta ?A r)) w' = Inr r"
    by (simp add: mem_get_def w' find_by_name)
next
  fix ns n w d
  assume "sa_get (lens_api g p (mem_api meta)) ns n w = Inr d"
  then have "same_key meta ns n d" by (auto simp: mem_get_def find_Some_iff split: option.splits)
  then show "om_namespace (sa_meta (lens_api g p (mem_api meta)) d) = ns" "om_name (sa_meta (lens_api g p (mem_api meta)) d) = n"
    by (simp_all add: same_key_def)
qed (auto simp: mem_delta_lib_def mem_compare_def mem_hasChanges_def mem_get_def same_key_def same_object_def lens)

section \<open>Properties\<close>

text \<open>The configuration, the service and the route of a custom resource settle.  After a successful run of each reconciler its object is stored,
  the config map with the configuration of the resource, and a second run over the same resource reports no change and writes nothing.\<close>

theorem service_objects_settle:
  assumes "sets_owner_only cx" "cluster_metas K" "\<forall>x. servicesEqual x x"
    and "delta_laws L (cl_configMaps K)" "delta_laws L2 (cl_services K)" "delta_laws L3 (cl_routes K)"
  shows "(cr_resources K cx L inst w = (Inr b, w') \<longrightarrow>
      (\<exists>c. sa_get (cl_configMaps K) (ks_namespace inst) (getInfraPropertiesConfigMapName inst) w' = Inr c
         \<and> smap_eq (cm_data c) (ss_config (ks_spec inst)))
      \<and> cr_resources K cx L inst w' = (Inr False, w'))
    \<and> (sr_resources K cx L2 servicesEqual inst w = (Inr b, w') \<longrightarrow>
      (\<exists>s. sa_get (cl_services K) (ks_namespace inst) (ks_name inst) w' = Inr s) \<and> sr_resources K cx L2 servicesEqual inst w' = (Inr False, w'))
    \<and> (rr_resources K cx L3 inst w = (Inr b, w') \<longrightarrow>
      (\<exists>r. sa_get (cl_routes K) (ks_namespace inst) (ks_name inst) w' = Inr r) \<and> rr_resources K cx L3 inst w' = (Inr False, w'))"
proof (intro conjI impI)
  note metas = assms(2) [unfolded cluster_metas_def]
  assume run: "cr_resources K cx L inst w = (Inr b, w')"
  obtain rs where rs: "cr_createRequiredResources cx inst w = Inr rs" using run_requires(1) [OF run] ..
  obtain r where r: "rs = [r]" "om_namespace (cm_meta r) = ks_namespace inst" "om_name (cm_meta r) = getInfraPropertiesConfigMapName inst"
      "cm_data r = ss_config (ks_spec inst)" "fst (configMap_GetComparator r r)"
    using cr_required [OF assms(1) rs] by blast
  have again: "cr_createRequiredResources cx inst w' = cr_createRequiredResources cx inst w" by (simp add: cr_createRequiredResources_def)
  have settled: "(\<exists>d. sa_get (cl_configMaps K) (ks_namespace inst) (getInfraPropertiesConfigMapName inst) w' = Inr d \<and> fst (configMap_GetComparator d r))
      \<and> cr_resources K cx L inst w' = (Inr False, w')"
    by (rule crs.settles [OF assms(4) rs [unfolded r(1)] _ _ r(5) run again]) (simp_all add: metas r)
  then show "\<exists>c. sa_get (cl_configMaps K) (ks_namespace inst) (getInfraPropertiesConfigMapName inst) w' = Inr c
         \<and> smap_eq (cm_data c) (ss_config (ks_spec inst))"
    using configMap_comparator_data r(4) by metis
  from settled show "cr_resources K cx L inst w' = (Inr False, w')" ..
next
  note metas = assms(2) [unfolded cluster_metas_def]
  assume run: "sr_resources K cx L2 servicesEqual inst w = (Inr b, w')"
  obtain rs where rs: "sr_createRequiredResources cx inst w = Inr rs" using run_requires(2) [OF run] ..
  obtain r where r: "rs = [r]" "om_namespace (svc_meta r) = ks_namespace inst" "om_name (svc_meta r) = ks_name inst"
      "fst (service_GetComparator servicesEqual r r)"
    using sr_required [where servicesEqual = servicesEqual, OF assms(1,3) rs] by blast
  have again: "sr_createRequiredResources cx inst w' = sr_createRequiredResources cx inst w" by (simp add: sr_createRequiredResources_def)
  have settled: "(\<exists>d. sa_get (cl_services K) (ks_namespace inst) (ks_name inst) w' = Inr d \<and> fst (service_GetComparator servicesEqual d r))
      \<and> sr_resources K cx L2 servicesEqual inst w' = (Inr False, w')"
    by (rule srs.settles [OF assms(5) rs [unfolded r(1)] _ _ r(4) run again]) (simp_all add: metas r)
  then show "\<exists>s. sa_get (cl_services K) (ks_namespace inst) (ks_name inst) w' = Inr s" by blast
  from settled show "sr_resources K cx L2 servicesEqual inst w' = (Inr False, w')" ..
next
  note metas = assms(2) [unfolded cluster_metas_def]
  assume run: "rr_resources K cx L3 inst w = (Inr b, w')"
  obtain rs where rs: "rr_createRequiredResources cx inst w = Inr rs" using run_requires(3) [OF run] ..
  obtain r where r: "rs = [r]" "om_namespace (rt_meta r) = ks_namespace inst" "om_name (rt_meta r) = ks_name inst" "fst (route_GetComparator r r)"
    using rr_required [OF assms(1) rs] by blast
  have again: "rr_createRequiredResources cx inst w' = rr_createRequiredResources cx inst w" by (simp add: rr_createRequiredResources_def)
  have settled: "(\<exists>d. sa_get (cl_routes K) (ks_namespace inst) (ks_name inst) w' = Inr d \<and> fst (route_GetComparator d r))
      \<and> rr_resources K cx L3 inst w' = (Inr False, w')"
    by (rule rrs.settles [OF assms(6) rs [unfolded r(1)] _ _ r(4) run again]) (simp_all add: metas r)
  then show "\<exists>r. sa_get (cl_routes K) (ks_namespace inst) (ks_name inst) w' = Inr r" by blast
  from settled show "rr_resources K cx L3 inst w' = (Inr False, w')" ..
qed

text \<open>The hypotheses in memory, where the first run creates the three objects.\<close>

abbreviation (input) mem_config_lib :: "(mem_world, configmap) delta_lib" where
  "mem_config_lib \<equiv> mem_delta_lib (\<lambda>x. om_name (cm_meta x)) mw_configMaps (\<lambda>x w. w\<lparr>mw_configMaps := x\<rparr>)"

abbreviation (input) mem_service_lib :: "(mem_world, kservice) delta_lib" where
  "mem_service_lib \<equiv> mem_delta_lib (\<lambda>x. om_name (svc_meta x)) mw_services (\<lambda>x w. w\<lparr>mw_services := x\<rparr>)"

abbreviation (input) mem_route_lib :: "(mem_world, route) delta_lib" where
  "mem_route_lib \<equiv> mem_delta_lib (\<lambda>x. om_name (rt_meta x)) mw_routes (\<lambda>x w. w\<lparr>mw_routes := x\<rparr>)"

lemma sample_context_owner_only: "sets_owner_only sample_context"
  by (auto simp: sets_owner_only_def sample_context_def add_owner_def)

lemma mem_cluster_metas: "cluster_metas (mem_cluster b)"
  by (simp add: cluster_metas_def)

lemma mem_process_new: "\<exists>w'. process_resources (mem_delta_lib nm g p) equal [r] [] w = (Inr True, w')"
  by (simp add: process_resources_changed mem_delta_lib_def mem_compare_def mem_hasChanges_def apply_delta_def bindS_def returnS_def)

lemma mem_first_run:
  "\<exists>w'. cr_resources (mem_cluster False) sample_context mem_config_lib sample_service empty_world = (Inr True, w')"
  "\<exists>w'. sr_resources (mem_cluster False) sample_context mem_service_lib (=) sample_service empty_world = (Inr True, w')"
  "\<exists>w'. rr_resources (mem_cluster False) sample_context mem_route_lib sample_service empty_world = (Inr True, w')"
proof -
  have none: "cr_getDeployedResources (mem_cluster False) sample_service empty_world = Inr []"
    "sr_getDeployedResources (mem_cluster False) sample_service empty_world = Inr []"
    "rr_getDeployedResources (mem_cluster False) sample_service empty_world = Inr []"
    by (simp_all add: cr_getDeployedResources_def sr_getDeployedResources_def rr_getDeployedResources_def FetchConfigMap_def FetchService_def
        FetchRoute_def FetchWithKey_def mem_get_def empty_world_def IsNotFound_def)
  have some: "\<exists>r. cr_createRequiredResources sample_context sample_service empty_world = Inr [r]"
    "\<exists>r. sr_createRequiredResources sample_context sample_service empty_world = Inr [r]"
    "\<exists>r. rr_createRequiredResources sample_context sample_service empty_world = Inr [r]"
    by (simp_all add: cr_createRequiredResources_def sr_createRequiredResources_def rr_createRequiredResources_def own_object_conv)
      (simp_all add: sample_context_def)
  show "\<exists>w'. cr_resources (mem_cluster False) sample_context mem_config_lib sample_service empty_world = (Inr True, w')"
    "\<exists>w'. sr_resources (mem_cluster False) sample_context mem_service_lib (=) sample_service empty_world = (Inr True, w')"
    "\<exists>w'. rr_resources (mem_cluster False) sample_context mem_route_lib sample_service empty_world = (Inr True, w')"
    using some by (auto simp: cr_resources_def sr_resources_def rr_resources_def none mem_process_new)
qed

lemma service_objects_settle_witness:
  "\<exists>w1 w2 w3. cr_resources (mem_cluster False) sample_context mem_config_lib sample_service empty_world = (Inr True, w1)
     \<and> cr_resources (mem_cluster False) sample_context mem_config_lib sample_service w1 = (Inr False, w1)
     \<and> sr_resources (mem_cluster False) sample_context mem_service_lib (=) sample_service empty_world = (Inr True, w2)
     \<and> sr_resources (mem_cluster False) sample_context mem_service_lib (=) sample_service w2 = (Inr False, w2)
     \<and> rr_resources (mem_cluster False) sample_context mem_route_lib sample_service empty_world = (Inr True, w3)
     \<and> rr_resources (mem_cluster False) sample_context mem_route_lib sample_service w3 = (Inr False, w3)"
proof -
  have laws: "delta_laws mem_config_lib (cl_configMaps (mem_cluster False))" "delta_laws mem_service_lib (cl_services (mem_cluster False))"
    "delta_laws mem_route_lib (cl_routes (mem_cluster False))"
    by (simp_all add: mem_delta_laws)
  have "\<forall>x :: kservice. x = x" by simp
  note settle = service_objects_settle [where servicesEqual = "(=)", OF sample_context_owner_only mem_cluster_metas this laws]
  from mem_first_run show ?thesis using settle by meson
qed


section \<open>The deployment\<close>

text \<open>What the required deployment is made of besides the resource: the config maps and the secrets that are mounted, and what the hook of the service
  reads.  Writing deployments changes none of them, and the hook leaves the key of the deployment alone.\<close>

definition reads_alike :: "'w cluster \<Rightarrow> 'w service_definition \<Rightarrow> 'w \<Rightarrow> 'w \<Rightarrow> bool" where
  "reads_alike K def w w' \<longleftrightarrow> (\<forall>ns n. sa_get (cl_configMaps K) ns n w' = sa_get (cl_configMaps K) ns n w)
     \<and> (\<forall>ns n. sa_get (cl_secrets K) ns n w' = sa_get (cl_secrets K) ns n w)
     \<and> (\<forall>f d. sd_onDeploymentCreate def = Some f \<longrightarrow> f d w' = f d w)"

definition writes_apart :: "('w, deployment) delta_lib \<Rightarrow> 'w cluster \<Rightarrow> 'w service_definition \<Rightarrow> bool" where
  "writes_apart L K def \<longleftrightarrow> (\<forall>xs w. reads_alike K def w (snd (bw_add (dl_writer L) xs w)))
     \<and> (\<forall>ds xs w. reads_alike K def w (snd (bw_update (dl_writer L) ds xs w)))
     \<and> (\<forall>xs w. reads_alike K def w (snd (bw_remove (dl_writer L) xs w)))"

definition hook_keeps_key :: "'w service_definition \<Rightarrow> bool" where
  "hook_keeps_key def \<longleftrightarrow> (\<forall>f d w d'. sd_onDeploymentCreate def = Some f \<longrightarrow> f d w = Inr d' \<longrightarrow>
     om_namespace (dep_meta d') = om_namespace (dep_meta d) \<and> om_name (dep_meta d') = om_name (dep_meta d))"

definition default_comparator :: "('w, 'o) delta_lib \<Rightarrow> 'o comparator" where
  "default_comparator L = (case dl_forType L of None \<Rightarrow> dl_generic L | Some c \<Rightarrow> c)"

lemma reads_alike_trans: "reads_alike K def w w1 \<Longrightarrow> reads_alike K def w1 w2 \<Longrightarrow> reads_alike K def w w2"
  unfolding reads_alike_def by metis

lemma required_alike:
  assumes "reads_alike K def w w'"
  shows "dr_createRequiredResources K cx sm ih svc def img w' = dr_createRequiredResources K cx sm ih svc def img w"
proof -
  have "cm_MountAsVolume (cl_configMaps K) d r w' = cm_MountAsVolume (cl_configMaps K) d r w"
    "secret_MountAsVolume (cl_secrets K) d r w' = secret_MountAsVolume (cl_secrets K) d r w" for d r
    using assms by (simp_all add: reads_alike_def cm_MountAsVolume_def cm_appendVolumeMountIntoDeployment_def FetchConfigMap_def FetchWithKey_def
        secret_MountAsVolume_def secret_appendVolumeMountIntoDeployment_def FetchSecret_def)
  moreover have "onDeploymentCreate K cx ih svc' def d w' = onDeploymentCreate K cx ih svc' def d w" for svc' d
    using assms by (auto simp: reads_alike_def onDeploymentCreate_def Let_def split: option.split)
  ultimately show ?thesis
    by (simp add: dr_createRequiredResources_def mountConfigMapReferencesOnDeployment_def mountSecretReferencesOnDeployment_def)
qed

lemma process_alike:
  assumes "writes_apart L K def" "process_resources L equal req dep w = (Inr b, w')"
  shows "reads_alike K def w w'"
proof (cases "dl_hasChanges L (dl_compare L equal dep req)")
  case True
  with assms(2) obtain b1 w1 b2 w2 b3 where "bw_add (dl_writer L) (d_added (dl_compare L equal dep req)) w = (Inr b1, w1)"
      "bw_update (dl_writer L) dep (d_updated (dl_compare L equal dep req)) w1 = (Inr b2, w2)"
      "bw_remove (dl_writer L) (d_removed (dl_compare L equal dep req)) w2 = (Inr b3, w')"
    by (auto simp: process_resources_changed apply_delta_Inr split: prod.splits sum.splits)
  then show ?thesis using assms(1) unfolding writes_apart_def by (metis reads_alike_trans snd_conv)
next
  case False
  with assms(2) show ?thesis by (simp add: process_resources_quiet reads_alike_def)
qed

lemma deployment_comparator_refl:
  assumes "\<forall>x. fst (default_comparator L x x)"
  shows "fst (deployment_GetComparator L d d)"
proof -
  have "take_injected c c = c" for c by (simp add: take_injected_def)
  then have "map2 take_injected cs cs = cs" for cs by (induction cs) simp_all
  then have "\<exists>x. CreateDeploymentComparator d d = (True, x, x)"
    by (simp add: CreateDeploymentComparator_def ignoreInjectedVariables_def sortContainersByName_def Let_def)
  then show ?thesis
    using assms by (auto simp: deployment_GetComparator_def Build_def WithCustomComparator_def UseDefaultComparator_def NewComparatorBuilder_def
        default_comparator_def)
qed

lemma dr_required_key:
  assumes "sets_owner_only cx" "hook_keeps_key def" "dr_createRequiredResources K cx sm ih svc def img w = Inr rs"
  shows "\<exists>r. rs = [r] \<and> om_namespace (dep_meta r) = ks_namespace svc \<and> om_name (dep_meta r) = ks_name svc"
proof -
  from assms(3) obtain svc1 d0 d1 d2 d3 d4 d where st:
    "cap_replicas def svc = Inr svc1"
    "addStartupProbe sm (hp_startup (getProbeForKogitoService svc1)) (base_deployment cx svc1 img) = Inr d0"
    "onDeploymentCreate K cx ih (with_app_label svc1) def d0 w = Inr d1"
    "mountEnvsOnDeployment (with_app_label svc1) def (addDeploymentIdentifier K cx d1) = Inr d2"
    "mountConfigMapReferencesOnDeployment K def d2 w = Inr d3"
    "mountSecretReferencesOnDeployment K def d3 w = Inr d4"
    "own_object cx (ks_meta (with_app_label svc1)) dep_meta (\<lambda>m d. d\<lparr>dep_meta := m\<rparr>) (mountMeteringLabelsOnDeployment cx d4) = Inr d"
    "rs = [d]"
    by (auto simp: dr_createRequiredResources_def CreateDeployment_def bindR_eq_Inr)
  let ?key = "\<lambda>d. (om_namespace (dep_meta d), om_name (dep_meta d))"
  have "?key d0 = (ks_namespace svc, ks_name svc)"
    using addStartupProbe_frame [OF st(2)] cap_replicas_frame [OF st(1)] by (simp add: mount_frame_def base_deployment_def mk_meta_def Let_def)
  moreover have "?key d1 = ?key d0"
    using st(3) assms(2) by (fastforce simp: onDeploymentCreate_def hook_keeps_key_def Let_def split: option.splits if_splits)
  moreover have "?key d2 = ?key d1"
    using st(4) by (auto simp: mountEnvsOnDeployment_def with_container0_Inr set_containers_def addDeploymentIdentifier_def Let_def)
  moreover have "?key d4 = ?key d2"
    using mount_frame_references(1) [OF st(5)] mount_frame_references(2) [OF st(6)] by (simp add: mount_frame_def)
  moreover have "?key d = ?key d4"
    using owned_parts [OF assms(1) st(7)] by (auto simp: mountMeteringLabelsOnDeployment_def Let_def)
  ultimately show ?thesis using st(8) by simp
qed

text \<open>The deployment of a service settles.  After a successful run of its reconciler a deployment that the comparator cannot tell from the required one is
  stored, and a second run over the same resource, definition and image reports no change and writes nothing, whatever the hook of the service adds to the
  deployment.\<close>

theorem deployment_settles:
  assumes "sets_owner_only cx" "cluster_metas K" "delta_laws L (cl_deployments K)" "\<forall>x. fst (default_comparator L x x)"
    and "writes_apart L K def" "hook_keeps_key def"
    and run: "dr_resources K cx L sm ih svc def img w = (Inr b, w')"
  shows "(\<exists>d r. sa_get (cl_deployments K) (ks_namespace svc) (ks_name svc) w' = Inr d
       \<and> dr_createRequiredResources K cx sm ih svc def img w = Inr [r] \<and> fst (deployment_GetComparator L d r))
     \<and> dr_resources K cx L sm ih svc def img w' = (Inr False, w')"
proof -
  obtain rs where rs: "dr_createRequiredResources K cx sm ih svc def img w = Inr rs"
    using run by (auto simp: dr_resources_def split: sum.splits)
  obtain r where r: "rs = [r]" "om_namespace (dep_meta r) = ks_namespace svc" "om_name (dep_meta r) = ks_name svc"
    using dr_required_key [OF assms(1,6) rs] by blast
  have "reads_alike K def w w'"
    using run rs by (auto simp: dr_resources_def split: sum.splits dest: process_alike [OF assms(5)])
  note again = required_alike [OF this]
  have "(\<exists>d. sa_get (cl_deployments K) (ks_namespace svc) (ks_name svc) w' = Inr d \<and> fst (deployment_GetComparator L d r))
      \<and> dr_resources K cx L sm ih svc def img w' = (Inr False, w')"
    by (rule drs.settles [OF assms(3) rs [unfolded r(1)] _ _ deployment_comparator_refl [OF assms(4)] run again])
      (simp_all add: assms(2) [unfolded cluster_metas_def] r)
  with rs r(1) show ?thesis by blast
qed


text \<open>The hook of a runtime meets the hypothesis: it changes containers, service account and annotations of the pods only.\<close>

lemma runtime_hook_keeps_key: "hook_keeps_key (runtime_definition E ns n r)"
proof -
  have "dep_meta d' = dep_meta d" if "runtime_OnDeploymentCreate E r d w = Inr d'" for d w d'
    using that unfolding runtime_OnDeploymentCreate_def bindR_eq_Inr with_container0_Inr Let_def
    by (elim exE conjE) (drule inject_endpoints_rest(2), simp add: set_containers_def split: if_splits)
  then show ?thesis by (auto simp: hook_keeps_key_def runtime_definition_def)
qed

abbreviation (input) mem_deployment_lib :: "(mem_world, deployment) delta_lib" where
  "mem_deployment_lib \<equiv> mem_delta_lib (\<lambda>x. om_name (dep_meta x)) mw_deployments (\<lambda>x w. w\<lparr>mw_deployments := x\<rparr>)"

lemma mem_deployment_first_run:
  "\<exists>w'. dr_resources (mem_cluster False) sample_context mem_deployment_lib (Inr ''19+'')
     (NewImageHandler \<lparr>img_domain = [], img_name = ''app'', img_tag = ''1.0''\<rparr> ''app'' ''app'' ''ns'' True False)
     sample_service sample_definition ''quay.io/kiegroup/app:1.0'' empty_world = (Inr True, w')"
proof -
  have "\<exists>r. dr_createRequiredResources (mem_cluster False) sample_context (Inr ''19+'')
     (NewImageHandler \<lparr>img_domain = [], img_name = ''app'', img_tag = ''1.0''\<rparr> ''app'' ''app'' ''ns'' True False)
     sample_service sample_definition ''quay.io/kiegroup/app:1.0'' empty_world = Inr [r]"
    by (simp add: dr_createRequiredResources_def CreateDeployment_def cap_replicas_def sample_definition_def addStartupProbe_def onDeploymentCreate_def
        mountEnvsOnDeployment_def mountConfigMapReferencesOnDeployment_def mountSecretReferencesOnDeployment_def own_object_conv sample_context_def
        with_container0_def base_deployment_def Let_def split: option.split)
  moreover have "dr_getDeployedResources (mem_cluster False) sample_service empty_world = Inr []"
    by (simp add: dr_getDeployedResources_def FetchDeployment_def FetchWithKey_def mem_get_def empty_world_def IsNotFound_def)
  ultimately show ?thesis by (auto simp: dr_resources_def mem_process_new)
qed

lemma deployment_settles_witness:
  "\<exists>w'. dr_resources (mem_cluster False) sample_context mem_deployment_lib (Inr ''19+'')
       (NewImageHandler \<lparr>img_domain = [], img_name = ''app'', img_tag = ''1.0''\<rparr> ''app'' ''app'' ''ns'' True False)
       sample_service sample_definition ''quay.io/kiegroup/app:1.0'' empty_world = (Inr True, w')
     \<and> dr_resources (mem_cluster False) sample_context mem_deployment_lib (Inr ''19+'')
       (NewImageHandler \<lparr>img_domain = [], img_name = ''app'', img_tag = ''1.0''\<rparr> ''app'' ''app'' ''ns'' True False)
       sample_service sample_definition ''quay.io/kiegroup/app:1.0'' w' = (Inr False, w')"
proof -
  have laws: "delta_laws mem_deployment_lib (cl_deployments (mem_cluster False))" by (simp add: mem_delta_laws)
  have refl: "\<forall>x. fst (default_comparator mem_deployment_lib x x)" by (simp add: default_comparator_def mem_delta_lib_def)
  have apart: "writes_apart mem_deployment_lib (mem_cluster False) sample_definition"
    by (simp add: writes_apart_def reads_alike_def mem_delta_lib_def sample_definition_def)
  have hook: "hook_keeps_key sample_definition" by (simp add: hook_keeps_key_def sample_definition_def)
  obtain w' where run: "dr_resources (mem_cluster False) sample_context mem_deployment_lib (Inr ''19+'')
     (NewImageHandler \<lparr>img_domain = [], img_name = ''app'', img_tag = ''1.0''\<rparr> ''app'' ''app'' ''ns'' True False)
     sample_service sample_definition ''quay.io/kiegroup/app:1.0'' empty_world = (Inr True, w')"
    using mem_deployment_first_run ..
  from deployment_settles [OF sample_context_owner_only mem_cluster_metas laws refl apart hook run] run show ?thesis by blast
qed

end
