(* ===== verification/Infra_Settles.thy ===== *)
theory Infra_Settles
  imports Reconciler_Settles Kogito_Infra
begin

text \<open>
  The controller of KogitoInfra comes to rest.  A step of its run that writes at most some config maps of the namespace settles when, after it
  succeeded, it repeats its result without writing, in every cluster that agrees with the one it left on these config maps and on whatever else
  the reconcilers read.  Steps that write different config maps compose; the run of the controller on a Kafka cluster, a Keycloak, a Knative
  broker or on references alone is such a composition.
\<close>

section \<open>More on reconcilers of one resource\<close>

context single_reconciler
begin

text \<open>A stored resource that the comparator takes for the required one is left alone, in any cluster.\<close>

lemma quiet:
  assumes laws: "delta_laws lib A" and req: "required w = Inr [r]" "om_namespace (sa_meta A r) = ns" "om_name (sa_meta A r) = n"
    and stored: "sa_get A ns n w = Inr d" "fst (equal d r)"
  shows "reconcile w = (Inr False, w)"
proof -
  note D = delta_lawsD [OF laws]
  have "same_object A d r" using D(9) [OF stored(1)] req(2,3) by (simp add: same_object_def)
  then show ?thesis using stored req(1) by (simp add: shape reads FetchWithKey_def process_resources_quiet D(2,3))
qed

text \<open>A run changes only what writing its resource changes.\<close>

lemma touches:
  assumes laws: "delta_laws lib A" and req: "required w = Inr [r]" "om_namespace (sa_meta A r) = ns" "om_name (sa_meta A r) = n"
    and run: "reconcile w = (Inr b, w')"
    and add: "\<And>w1 w2 b. bw_add (dl_writer lib) [r] w1 = (Inr b, w2) \<Longrightarrow> R w1 w2"
    and upd: "\<And>d w1 w2 b. same_object A d r \<Longrightarrow> bw_update (dl_writer lib) [d] [r] w1 = (Inr b, w2) \<Longrightarrow> R w1 w2"
  shows "w' = w \<or> R w w'"
proof -
  note D = delta_lawsD [OF laws]
  from run req(1) obtain dep where dep: "deployed w = Inr dep" "process_resources lib equal [r] dep w = (Inr b, w')"
    by (auto simp: shape split: sum.splits)
  consider "dep = []" | d where "dep = [d]" "sa_get A ns n w = Inr d"
    using dep(1) by (auto simp: reads bindR_eq_Inr FetchWithKey_cases split: option.splits)
  then show ?thesis
  proof cases
    case 1
    with dep(2) obtain b1 w1 b2 w2 b3 where "bw_add (dl_writer lib) [r] w = (Inr b1, w1)" "bw_update (dl_writer lib) [] [] w1 = (Inr b2, w2)"
        "bw_remove (dl_writer lib) [] w2 = (Inr b3, w')"
      by (auto simp: process_resources_changed D(1,3) apply_delta_Inr split: prod.splits sum.splits)
    with D(7) D(8) add show ?thesis by blast
  next
    case (2 d)
    with D(9) req(2,3) have same: "same_object A d r" by (simp add: same_object_def)
    show ?thesis
    proof (cases "fst (equal d r)")
      case True
      with dep(2) 2 same show ?thesis by (simp add: process_resources_quiet D(2,3))
    next
      case False
      with dep(2) 2 same obtain b1 w1 b2 w2 b3 where "bw_add (dl_writer lib) [] w = (Inr b1, w1)" "bw_update (dl_writer lib) [d] [r] w1 = (Inr b2, w2)"
          "bw_remove (dl_writer lib) [] w2 = (Inr b3, w')"
        by (auto simp: process_resources_changed D(2,3) apply_delta_Inr split: prod.splits sum.splits)
      with D(6) D(8) upd [OF same] show ?thesis by blast
    qed
  qed
qed

end

text \<open>The reconcilers of the config maps of an infra.\<close>

interpretation kfs: single_reconciler "ie_configMapLib E" configMap_GetComparator "kafkaConfig_createRequiredResources E k runtime inst"
  "kafkaConfig_getDeployedResources E runtime inst"
  "resource_pass (ie_configMapLib E) configMap_GetComparator (kafkaConfig_createRequiredResources E k runtime inst) (kafkaConfig_getDeployedResources E runtime inst)"
  "ie_configMaps E" "ki_namespace inst" "GetKafkaConfigMapName runtime" for E k runtime inst
  by unfold_locales (simp add: kafkaConfig_getDeployedResources_def deployed_list_def FetchConfigMap_def)

interpretation ips: single_reconciler "ie_configMapLib E" configMap_GetComparator "infraProps_createRequiredResources E inst"
  "infraProps_getDeployedResources E inst"
  "resource_pass (ie_configMapLib E) configMap_GetComparator (infraProps_createRequiredResources E inst) (infraProps_getDeployedResources E inst)"
  "ie_configMaps E" "ki_namespace inst" "infraProps_name inst" for E inst
  by unfold_locales (simp add: infraProps_getDeployedResources_def deployed_list_def FetchConfigMap_def)

section \<open>What the cluster promises\<close>

text \<open>What a run on one infra reads besides the config maps of its namespace, and the config maps that may differ.\<close>

definition infra_same :: "('w, 'c) infra_env \<Rightarrow> string \<Rightarrow> string set \<Rightarrow> 'w \<Rightarrow> 'w \<Rightarrow> bool" where
  "infra_same E ns names w w' \<longleftrightarrow>
     (\<forall>n. n \<notin> names \<longrightarrow> sa_get (ie_configMaps E) ns n w' = sa_get (ie_configMaps E) ns n w)
     \<and> (\<forall>ns n. sa_get (ie_secrets E) ns n w' = sa_get (ie_secrets E) ns n w)
     \<and> (\<forall>ns n. sa_get (ie_kafkas E) ns n w' = sa_get (ie_kafkas E) ns n w)
     \<and> (\<forall>ns n. sa_get (ie_keycloaks E) ns n w' = sa_get (ie_keycloaks E) ns n w)
     \<and> (\<forall>ns n. sa_get (ie_brokers E) ns n w' = sa_get (ie_brokers E) ns n w)"

text \<open>Writing a config map changes no other config map of the namespace and no other kind of object; writing the status of an infra that is stored
  succeeds, stores the status and changes nothing else; and setting a condition twice is setting it once.\<close>

definition infra_cluster_laws :: "('w, 'c) infra_env \<Rightarrow> bool" where
  "infra_cluster_laws E \<longleftrightarrow>
     sa_meta (ie_configMaps E) = cm_meta \<and> delta_laws (ie_configMapLib E) (ie_configMaps E)
     \<and> (\<forall>r w b w'. bw_add (dl_writer (ie_configMapLib E)) [r] w = (Inr b, w') \<longrightarrow>
          infra_same E (om_namespace (cm_meta r)) {om_name (cm_meta r)} w w'
          \<and> (\<forall>ns n. sa_get (ie_infras E) ns n w' = sa_get (ie_infras E) ns n w))
     \<and> (\<forall>d r w b w'. same_object (ie_configMaps E) d r \<longrightarrow> bw_update (dl_writer (ie_configMapLib E)) [d] [r] w = (Inr b, w') \<longrightarrow>
          infra_same E (om_namespace (cm_meta r)) {om_name (cm_meta r)} w w'
          \<and> (\<forall>ns n. sa_get (ie_infras E) ns n w' = sa_get (ie_infras E) ns n w))
     \<and> (\<forall>ns n i w st. sa_get (ie_infras E) ns n w = Inr i \<longrightarrow>
          om_namespace (ki_meta i) = ns \<and> om_name (ki_meta i) = n
          \<and> (\<exists>j w'. sa_updateStatus (ie_infras E) (i\<lparr>ki_status := st\<rparr>) w = (Inr j, w') \<and> sa_get (ie_infras E) ns n w' = Inr (i\<lparr>ki_status := st\<rparr>)
               \<and> (\<forall>ns'. infra_same E ns' {} w w')))
     \<and> (\<forall>c cs. ca_set (ie_conditions E) c (ca_set (ie_conditions E) c cs) = ca_set (ie_conditions E) c cs)"

lemma infra_cluster_lawsD:
  assumes "infra_cluster_laws E"
  shows "sa_meta (ie_configMaps E) = cm_meta" "delta_laws (ie_configMapLib E) (ie_configMaps E)"
    "bw_add (dl_writer (ie_configMapLib E)) [r] w = (Inr b, w') \<Longrightarrow> infra_same E (om_namespace (cm_meta r)) {om_name (cm_meta r)} w w'
       \<and> (\<forall>ns n. sa_get (ie_infras E) ns n w' = sa_get (ie_infras E) ns n w)"
    "same_object (ie_configMaps E) d r \<Longrightarrow> bw_update (dl_writer (ie_configMapLib E)) [d] [r] w = (Inr b, w') \<Longrightarrow>
       infra_same E (om_namespace (cm_meta r)) {om_name (cm_meta r)} w w'
       \<and> (\<forall>ns n. sa_get (ie_infras E) ns n w' = sa_get (ie_infras E) ns n w)"
    "sa_get (ie_infras E) ns n w = Inr i \<Longrightarrow> om_namespace (ki_meta i) = ns \<and> om_name (ki_meta i) = n
       \<and> (\<exists>j w'. sa_updateStatus (ie_infras E) (i\<lparr>ki_status := st\<rparr>) w = (Inr j, w') \<and> sa_get (ie_infras E) ns n w' = Inr (i\<lparr>ki_status := st\<rparr>)
            \<and> (\<forall>ns'. infra_same E ns' {} w w'))"
    "ca_set (ie_conditions E) c (ca_set (ie_conditions E) c cs) = ca_set (ie_conditions E) c cs"
  using assms unfolding infra_cluster_laws_def by blast+

lemma infra_same_refl [simp]: "infra_same E ns names w w"
  by (simp add: infra_same_def)

lemma infra_same_trans: "infra_same E ns A w w1 \<Longrightarrow> infra_same E ns B w1 w2 \<Longrightarrow> infra_same E ns (A \<union> B) w w2"
  by (auto simp: infra_same_def)

lemma infra_same_mono: "infra_same E ns A w w' \<Longrightarrow> A \<subseteq> B \<Longrightarrow> infra_same E ns B w w'"
  by (auto simp: infra_same_def)

section \<open>Steps that settle\<close>

definition keeps_conditions :: "(infra_status \<Rightarrow> infra_status) \<Rightarrow> bool" where
  "keeps_conditions h \<longleftrightarrow> (\<forall>st c. h (st\<lparr>ist_conditions := c\<rparr>) = (h st)\<lparr>ist_conditions := c\<rparr>)"

definition same_infras :: "('w, 'c) infra_env \<Rightarrow> 'w \<Rightarrow> 'w \<Rightarrow> bool" where
  "same_infras E w w' \<longleftrightarrow> (\<forall>ns n. sa_get (ie_infras E) ns n w' = sa_get (ie_infras E) ns n w)"

definition infra_settles ::
  "('w, 'c) infra_env \<Rightarrow> object_meta \<Rightarrow> infra_spec \<Rightarrow> string set \<Rightarrow> (kogito_infra \<times> 'w \<Rightarrow> (gerr + 'a) \<times> (kogito_infra \<times> 'w)) \<Rightarrow> bool" where
  "infra_settles E m sp names f \<longleftrightarrow> (\<forall>i w x i' w'. ki_meta i = m \<longrightarrow> ki_spec i = sp \<longrightarrow> f (i, w) = (Inr x, (i', w')) \<longrightarrow>
     infra_same E (om_namespace m) names w w' \<and> same_infras E w w'
     \<and> (\<exists>h. keeps_conditions h \<and> i' = on_status h i
          \<and> (\<forall>j v. ki_meta j = m \<longrightarrow> ki_spec j = sp \<longrightarrow> infra_same E (om_namespace m) (- names) w' v \<longrightarrow> f (j, v) = (Inr x, (on_status h j, v)))))"

named_theorems settle_intros

lemma infra_settlesI:
  assumes "\<And>i w x i' w'. ki_meta i = m \<Longrightarrow> ki_spec i = sp \<Longrightarrow> f (i, w) = (Inr x, (i', w')) \<Longrightarrow>
     infra_same E (om_namespace m) names w w' \<and> same_infras E w w'
     \<and> (\<exists>h. keeps_conditions h \<and> i' = on_status h i
          \<and> (\<forall>j v. ki_meta j = m \<longrightarrow> ki_spec j = sp \<longrightarrow> infra_same E (om_namespace m) (- names) w' v \<longrightarrow> f (j, v) = (Inr x, (on_status h j, v))))"
  shows "infra_settles E m sp names f"
  using assms unfolding infra_settles_def by blast

lemma infra_settlesE:
  assumes "infra_settles E m sp names f" "ki_meta i = m" "ki_spec i = sp" "f (i, w) = (Inr x, (i', w'))"
  obtains h where "infra_same E (om_namespace m) names w w'" "same_infras E w w'" "keeps_conditions h" "i' = on_status h i"
    "\<And>j v. ki_meta j = m \<Longrightarrow> ki_spec j = sp \<Longrightarrow> infra_same E (om_namespace m) (- names) w' v \<Longrightarrow> f (j, v) = (Inr x, (on_status h j, v))"
  using assms unfolding infra_settles_def by blast

lemma on_status_comp: "on_status g (on_status h i) = on_status (g \<circ> h) i"
  by (simp add: on_status_def)

lemma keeps_conditions_comp: "keeps_conditions g \<Longrightarrow> keeps_conditions h \<Longrightarrow> keeps_conditions (g \<circ> h)"
  by (simp add: keeps_conditions_def)

lemma settles_bind:
  assumes f: "infra_settles E m sp A f" and g: "\<And>x. infra_settles E m sp B (g x)" and apart: "A \<inter> B = {}"
  shows "infra_settles E m sp (A \<union> B) (bindS f g)"
proof (rule infra_settlesI)
  fix i w y i2 w2
  assume i: "ki_meta i = m" "ki_spec i = sp" and run: "bindS f g (i, w) = (Inr y, (i2, w2))"
  from run obtain x i1 w1 where f1: "f (i, w) = (Inr x, (i1, w1))" and g1: "g x (i1, w1) = (Inr y, (i2, w2))"
    by (auto simp: bindS_eq_Inr)
  obtain h where h: "infra_same E (om_namespace m) A w w1" "same_infras E w w1" "keeps_conditions h" "i1 = on_status h i"
    "\<And>j v. ki_meta j = m \<Longrightarrow> ki_spec j = sp \<Longrightarrow> infra_same E (om_namespace m) (- A) w1 v \<Longrightarrow> f (j, v) = (Inr x, (on_status h j, v))"
    by (rule infra_settlesE [OF f i f1]) (rule that)
  have i1: "ki_meta i1 = m" "ki_spec i1 = sp" using h(4) i by simp_all
  obtain k where k: "infra_same E (om_namespace m) B w1 w2" "same_infras E w1 w2" "keeps_conditions k" "i2 = on_status k i1"
    "\<And>j v. ki_meta j = m \<Longrightarrow> ki_spec j = sp \<Longrightarrow> infra_same E (om_namespace m) (- B) w2 v \<Longrightarrow> g x (j, v) = (Inr y, (on_status k j, v))"
    by (rule infra_settlesE [OF g i1 g1]) (rule that)
  have "bindS f g (j, v) = (Inr y, (on_status (k \<circ> h) j, v))"
    if j: "ki_meta j = m" "ki_spec j = sp" and v: "infra_same E (om_namespace m) (- (A \<union> B)) w2 v" for j v
  proof -
    have "infra_same E (om_namespace m) (B \<union> - (A \<union> B)) w1 v" by (rule infra_same_trans [OF k(1) v])
    then have "infra_same E (om_namespace m) (- A) w1 v" by (rule infra_same_mono) (use apart in blast)
    moreover have "infra_same E (om_namespace m) (- B) w2 v" by (rule infra_same_mono [OF v]) blast
    ultimately show ?thesis using h(5) [OF j] k(5) [of "on_status h j" v] j by (simp add: on_status_comp comp_def)
  qed
  moreover have "same_infras E w w2" using h(2) k(2) by (simp add: same_infras_def)
  ultimately show "infra_same E (om_namespace m) (A \<union> B) w w2 \<and> same_infras E w w2 \<and> (\<exists>h. keeps_conditions h \<and> i2 = on_status h i
          \<and> (\<forall>j v. ki_meta j = m \<longrightarrow> ki_spec j = sp \<longrightarrow> infra_same E (om_namespace m) (- (A \<union> B)) w2 v \<longrightarrow> bindS f g (j, v) = (Inr y, (on_status h j, v))))"
    using infra_same_trans [OF h(1) k(1)] keeps_conditions_comp [OF k(3) h(3)] h(4) k(4) on_status_comp by metis
qed


text \<open>A check that does not read the config maps.\<close>

lemma settles_check:
  assumes "\<And>i j w v. ki_meta i = m \<Longrightarrow> ki_spec i = sp \<Longrightarrow> ki_meta j = m \<Longrightarrow> ki_spec j = sp \<Longrightarrow> infra_same E (om_namespace m) UNIV w v \<Longrightarrow> f j v = f i w"
  shows "infra_settles E m sp {} (checkI f)"
proof (rule infra_settlesI)
  fix i w x i' w'
  assume i: "ki_meta i = m" "ki_spec i = sp" and run: "checkI f (i, w) = (Inr x, (i', w'))"
  then have same: "i' = i" "w' = w" "f i w = Inr x" by (auto simp: checkI_def)
  show "infra_same E (om_namespace m) {} w w' \<and> same_infras E w w' \<and> (\<exists>h. keeps_conditions h \<and> i' = on_status h i
          \<and> (\<forall>j v. ki_meta j = m \<longrightarrow> ki_spec j = sp \<longrightarrow> infra_same E (om_namespace m) (- {}) w' v \<longrightarrow> checkI f (j, v) = (Inr x, (on_status h j, v))))"
    using same assms [OF i] by (intro conjI exI [of _ id]) (simp_all add: same_infras_def keeps_conditions_def on_status_def checkI_def)
qed

lemma settles_return: "infra_settles E m sp {} (returnS x)"
  by (rule infra_settlesI, intro conjI exI [of _ id])
    (auto simp: returnS_def same_infras_def keeps_conditions_def on_status_def)

text \<open>A reconciler of one config map: what it requires does not depend on the config maps of the cluster and bears the name it reads.\<close>

lemma settles_provide:
  assumes laws: "infra_cluster_laws E"
    and single: "\<And>i. ki_meta i = m \<Longrightarrow> single_reconciler (ie_configMapLib E) configMap_GetComparator (required i) (deployed i)
       (resource_pass (ie_configMapLib E) configMap_GetComparator (required i) (deployed i)) (ie_configMaps E) (ki_namespace i) n"
    and req: "\<And>i w rs. ki_meta i = m \<Longrightarrow> ki_spec i = sp \<Longrightarrow> required i w = Inr rs \<Longrightarrow>
       \<exists>r. rs = [r] \<and> om_namespace (cm_meta r) = om_namespace m \<and> om_name (cm_meta r) = n \<and> fst (configMap_GetComparator r r)"
    and alike: "\<And>i j w v. ki_meta i = m \<Longrightarrow> ki_spec i = sp \<Longrightarrow> ki_meta j = m \<Longrightarrow> ki_spec j = sp \<Longrightarrow>
       infra_same E (om_namespace m) UNIV w v \<Longrightarrow> required j v = required i w"
    and add: "keeps_conditions add"
  shows "infra_settles E m sp {n} (provide (ie_configMapLib E) configMap_GetComparator required deployed add)"
proof (rule infra_settlesI)
  fix i w x i' w'
  let ?pass = "\<lambda>i. resource_pass (ie_configMapLib E) configMap_GetComparator (required i) (deployed i)"
  note L = infra_cluster_lawsD [OF laws]
  assume i: "ki_meta i = m" "ki_spec i = sp"
    and run: "provide (ie_configMapLib E) configMap_GetComparator required deployed add (i, w) = (Inr x, (i', w'))"
  then obtain b where pass: "?pass i w = (Inr b, w')" and i': "i' = on_status add i"
    by (auto simp: provide_def split: prod.splits sum.splits)
  obtain rs where "required i w = Inr rs" using pass by (auto simp: resource_pass_def split: sum.splits)
  then obtain r where r: "required i w = Inr [r]" "om_namespace (cm_meta r) = om_namespace m" "om_name (cm_meta r) = n" "fst (configMap_GetComparator r r)"
    using req [OF i] by blast
  note key = r(2,3) [folded L(1), folded i(1)]
  obtain d where d: "sa_get (ie_configMaps E) (om_namespace m) n w' = Inr d" "fst (configMap_GetComparator d r)"
    using single_reconciler.stores [OF single [OF i(1)] L(2) r(1) key r(4) pass] unfolding i(1) by blast
  have "w' = w \<or> infra_same E (om_namespace m) {n} w w' \<and> same_infras E w w'"
    by (rule single_reconciler.touches [OF single [OF i(1)] L(2) r(1) key pass]) (simp_all add: same_infras_def L(3,4) flip: r(2,3))
  then have wrote: "infra_same E (om_namespace m) {n} w w'" "same_infras E w w'" by (auto simp: same_infras_def)
  have again: "provide (ie_configMapLib E) configMap_GetComparator required deployed add (j, v) = (Inr x, (on_status add j, v))"
    if j: "ki_meta j = m" "ki_spec j = sp" and v: "infra_same E (om_namespace m) (- {n}) w' v" for j v
  proof -
    have "infra_same E (om_namespace m) UNIV w v"
      using infra_same_trans [OF wrote(1) v] by (rule infra_same_mono) simp
    with alike [OF i j] r(1) have rj: "required j v = Inr [r]" by simp
    have dv: "sa_get (ie_configMaps E) (om_namespace m) n v = Inr d" using v d(1) by (simp add: infra_same_def)
    have "?pass j v = (Inr False, v)"
      by (rule single_reconciler.quiet [OF single [OF j(1)] L(2) rj _ _ _ d(2)]) (simp_all add: L(1) r(2,3) j(1) dv)
    then show ?thesis by (simp add: provide_def)
  qed
  show "infra_same E (om_namespace m) {n} w w' \<and> same_infras E w w' \<and> (\<exists>h. keeps_conditions h \<and> i' = on_status h i
          \<and> (\<forall>j v. ki_meta j = m \<longrightarrow> ki_spec j = sp \<longrightarrow> infra_same E (om_namespace m) (- {n}) w' v \<longrightarrow>
               provide (ie_configMapLib E) configMap_GetComparator required deployed add (j, v) = (Inr x, (on_status h j, v))))"
    using wrote i' add again by blast
qed


section \<open>The steps of the controller\<close>

lemma owned_required:
  assumes "sets_owner_only cx" "owned_configMap cx inst (app_configMap inst n data) = Inr rs"
  shows "\<exists>r. rs = [r] \<and> om_namespace (cm_meta r) = ki_namespace inst \<and> om_name (cm_meta r) = n \<and> fst (configMap_GetComparator r r)"
  using assms(2) by (auto simp: owned_configMap_def bindR_eq_Inr app_configMap_def mk_meta_def
      intro!: configMap_comparator_refl dest!: owned_parts [OF assms(1)])

lemma owned_alike: "ki_meta i = ki_meta j \<Longrightarrow> owned_configMap cx i c = owned_configMap cx j c"
  "ki_meta i = ki_meta j \<Longrightarrow> app_configMap i n data = app_configMap j n data"
  by (simp_all add: owned_configMap_def app_configMap_def)

lemma keeps_conditions_adds:
  "keeps_conditions (AddConfigMapEnvFromReferences n)" "keeps_conditions (AddEnvs envs)" "keeps_conditions id"
  by (simp_all add: keeps_conditions_def AddConfigMapEnvFromReferences_def AddEnvs_def)

lemma settles_kafkaConfig:
  assumes "infra_cluster_laws E" "sets_owner_only (ie_context E)"
  shows "infra_settles E m sp {GetKafkaConfigMapName runtime} (kafkaConfig_Reconcile E k runtime)"
  unfolding kafkaConfig_Reconcile_def
proof (rule settles_provide [OF assms(1) _ _ _ keeps_conditions_adds(1)], rule kfs.single_reconciler_axioms)
  fix i w rs
  assume "ki_meta i = m" "kafkaConfig_createRequiredResources E k runtime i w = Inr rs"
  then show "\<exists>r. rs = [r] \<and> om_namespace (cm_meta r) = om_namespace m \<and> om_name (cm_meta r) = GetKafkaConfigMapName runtime \<and> fst (configMap_GetComparator r r)"
    by (auto simp: kafkaConfig_createRequiredResources_def bindR_eq_Inr createKafkaConfigMap_def dest!: owned_required [OF assms(2)])
next
  fix i j :: kogito_infra and w v
  assume "ki_meta i = m" "ki_meta j = m"
  then show "kafkaConfig_createRequiredResources E k runtime j v = kafkaConfig_createRequiredResources E k runtime i w"
    using owned_alike [of j i] by (simp add: kafkaConfig_createRequiredResources_def createKafkaConfigMap_def)
qed

lemma find_resource_alike:
  assumes "ki_meta i = ki_meta j" "ki_spec i = ki_spec j" "\<And>ns n. fetch ns n v = fetch ns n w"
  shows "find_resource available kind noName fetch j v = find_resource available kind noName fetch i w"
  using assms by (simp add: find_resource_def resource_of_def resource_namespace_def)

lemma settles_kafka:
  assumes "infra_cluster_laws E" "sets_owner_only (ie_context E)"
  shows "infra_settles E m sp {''kogito-kafka-quarkus-config'', ''kogito-kafka-springboot-config''} (kafka_Reconcile E)"
proof -
  have "infra_settles E m sp {} (checkI (kafka_ready E))"
  proof (rule settles_check)
    fix i j :: kogito_infra and w v
    assume a: "ki_meta i = m" "ki_spec i = sp" "ki_meta j = m" "ki_spec j = sp" "infra_same E (om_namespace m) UNIV w v"
    then have "FetchKafkaInstance (ie_kafkas E) ns n v = FetchKafkaInstance (ie_kafkas E) ns n w" for ns n
      by (simp add: infra_same_def FetchKafkaInstance_def FetchWithKey_def)
    with a show "kafka_ready E j v = kafka_ready E i w"
      by (simp add: kafka_ready_def errorForResourceConfigError_def find_resource_alike [of i j])
  qed
  moreover have "infra_settles E m sp ({GetKafkaConfigMapName Quarkus} \<union> {GetKafkaConfigMapName SpringBoot})
      (bindS (kafkaConfig_Reconcile E k Quarkus) (\<lambda>_. kafkaConfig_Reconcile E k SpringBoot))" for k
    by (intro settles_bind settles_kafkaConfig assms) (simp add: GetKafkaConfigMapName_def runtime_name_def)
  ultimately have "infra_settles E m sp ({} \<union> ({GetKafkaConfigMapName Quarkus} \<union> {GetKafkaConfigMapName SpringBoot})) (kafka_Reconcile E)"
    unfolding kafka_Reconcile_def updateKafkaRuntimePropsInStatus_def by (rule settles_bind) simp
  then show ?thesis by (simp add: GetKafkaConfigMapName_def runtime_name_def insert_commute)
qed

lemma settles_keycloak_knative:
  "infra_settles E m sp {} (keycloak_Reconcile E)" "infra_settles E m sp {} (knative_Reconcile E)"
proof -
  have "infra_settles E m sp {} (checkI (\<lambda>inst. find_resource (IsKeycloakAvailable (ie_discovery E)) ''Keycloak''
      (errorForResourceConfigError inst ''No Keycloak resource name given'') (loadDeployedKeycloakInstance (ie_keycloaks E)) inst))"
    by (rule settles_check)
      (simp add: errorForResourceConfigError_def find_resource_def resource_of_def resource_namespace_def loadDeployedKeycloakInstance_def FetchWithKey_def
        infra_same_def)
  from settles_bind [OF this settles_return] show "infra_settles E m sp {} (keycloak_Reconcile E)" by (simp add: keycloak_Reconcile_def)
  have "infra_settles E m sp {} (checkI (\<lambda>inst. find_resource (IsKnativeEventingAvailable (ie_discovery E) (ie_eventingGroup E)) ''Broker''
              (PlainError (''No Knative Eventing Broker resource defined in the KogitoInfra CR '' @ ki_name inst @ '' on namespace '' @
                 ki_namespace inst @ '', impossible to continue ''))
              (FetchBroker (ie_brokers E)) inst))"
    by (rule settles_check)
      (simp add: find_resource_def resource_of_def resource_namespace_def FetchBroker_def FetchWithKey_def infra_same_def)
  from settles_bind [OF this settles_return] show "infra_settles E m sp {} (knative_Reconcile E)" by (simp add: knative_Reconcile_def)
qed

lemma settles_cong:
  assumes "infra_settles E m sp names g" "\<And>i w. ki_meta i = m \<Longrightarrow> ki_spec i = sp \<Longrightarrow> f (i, w) = g (i, w)"
  shows "infra_settles E m sp names f"
  using assms unfolding infra_settles_def by simp

lemma settles_properties:
  assumes "infra_cluster_laws E" "sets_owner_only (ie_context E)"
  shows "infra_settles E m sp (if is_infraProperties sp = [] then {} else {om_name m @ ''-properties''}) (infraProperties_Reconcile E)"
proof (cases "is_infraProperties sp = []")
  case True
  have "infra_settles E m sp {} (infraProperties_Reconcile E)"
    by (rule settles_cong [OF settles_return]) (simp add: infraProperties_Reconcile_def returnS_def True)
  with True show ?thesis by simp
next
  case False
  let ?n = "om_name m @ ''-properties''"
  have prov: "infra_settles E m sp {?n} (provide (ie_configMapLib E) configMap_GetComparator (infraProps_createRequiredResources E)
          (infraProps_getDeployedResources E) (AddConfigMapEnvFromReferences ?n))"
  proof (rule settles_provide [OF assms(1) _ _ _ keeps_conditions_adds(1)])
    fix i :: kogito_infra
    assume "ki_meta i = m"
    then show "single_reconciler (ie_configMapLib E) configMap_GetComparator (infraProps_createRequiredResources E i) (infraProps_getDeployedResources E i)
       (resource_pass (ie_configMapLib E) configMap_GetComparator (infraProps_createRequiredResources E i) (infraProps_getDeployedResources E i))
       (ie_configMaps E) (ki_namespace i) ?n"
      using ips.single_reconciler_axioms [of E i] by (simp add: infraProps_name_def)
  next
    fix i w rs
    assume "ki_meta i = m" "infraProps_createRequiredResources E i w = Inr rs"
    then show "\<exists>r. rs = [r] \<and> om_namespace (cm_meta r) = om_namespace m \<and> om_name (cm_meta r) = ?n \<and> fst (configMap_GetComparator r r)"
      by (auto simp: infraProps_createRequiredResources_def infraProps_configMap_def infraProps_name_def dest!: owned_required [OF assms(2)])
  next
    fix i j :: kogito_infra and w v
    assume "ki_meta i = m" "ki_spec i = sp" "ki_meta j = m" "ki_spec j = sp"
    then show "infraProps_createRequiredResources E j v = infraProps_createRequiredResources E i w"
      using owned_alike [of j i] by (simp add: infraProps_createRequiredResources_def infraProps_configMap_def infraProps_name_def)
  qed
  have "infra_settles E m sp {?n} (infraProperties_Reconcile E)"
    by (rule settles_cong [OF prov]) (simp add: infraProperties_Reconcile_def infraProps_name_def False)
  with False show ?thesis by simp
qed

lemma settles_add_envs: "infra_settles E m sp {} add_envs"
  by (rule infra_settlesI, intro conjI exI [of _ "\<lambda>st. st\<lparr>ist_envs := ist_envs st @ is_envs sp\<rparr>"])
    (auto simp: add_envs_result same_infras_def keeps_conditions_def)


lemma settles_weaken:
  assumes f: "infra_settles E m sp A f" and sub: "A \<subseteq> B"
  shows "infra_settles E m sp B f"
proof (rule infra_settlesI)
  fix i w x i' w'
  assume i: "ki_meta i = m" "ki_spec i = sp" and run: "f (i, w) = (Inr x, (i', w'))"
  obtain h where h: "infra_same E (om_namespace m) A w w'" "same_infras E w w'" "keeps_conditions h" "i' = on_status h i"
    "\<And>j v. ki_meta j = m \<Longrightarrow> ki_spec j = sp \<Longrightarrow> infra_same E (om_namespace m) (- A) w' v \<Longrightarrow> f (j, v) = (Inr x, (on_status h j, v))"
    by (rule infra_settlesE [OF f i run]) (rule that)
  have "infra_same E (om_namespace m) (- A) w' v" if "infra_same E (om_namespace m) (- B) w' v" for v
    using that by (rule infra_same_mono) (use sub in blast)
  with h infra_same_mono [OF h(1) sub]
  show "infra_same E (om_namespace m) B w w' \<and> same_infras E w w' \<and> (\<exists>h. keeps_conditions h \<and> i' = on_status h i
          \<and> (\<forall>j v. ki_meta j = m \<longrightarrow> ki_spec j = sp \<longrightarrow> infra_same E (om_namespace m) (- B) w' v \<longrightarrow> f (j, v) = (Inr x, (on_status h j, v))))"
    by (intro conjI exI [of _ h]) simp_all
qed

text \<open>The resources whose reconcilers write config maps at most.  Those of Infinispan and MongoDB also write secrets with \<^verbatim>\<open>StringData\<close>, which a
  server does not return as they were sent.\<close>

definition settling_resource :: "('w, 'c) infra_env \<Rightarrow> infra_spec \<Rightarrow> bool" where
  "settling_resource E sp \<longleftrightarrow> (case is_resource sp of None \<Rightarrow> True
     | Some r \<Rightarrow> resourceClassForInstance r \<in> {getResourceClass ''Kafka'' ''kafka.strimzi.io/v1beta2'', getResourceClass ''Keycloak'' ''keycloak.org/v1alpha1'',
         getResourceClass ''Broker'' (ie_eventingAPIVersion E)})"

abbreviation (input) infra_writes :: "object_meta \<Rightarrow> string set" where
  "infra_writes m \<equiv> {''kogito-kafka-quarkus-config'', ''kogito-kafka-springboot-config''} \<union> {om_name m @ ''-properties''}"

lemma settles_reconcile_resource:
  assumes "infra_cluster_laws E" "sets_owner_only (ie_context E)" "settling_resource E sp"
  shows "infra_settles E m sp {''kogito-kafka-quarkus-config'', ''kogito-kafka-springboot-config''} (reconcile_resource E)"
proof (cases "is_resource sp")
  case None
  have "infra_settles E m sp {} (reconcile_resource E)"
    by (rule settles_cong [OF settles_return]) (simp add: reconcile_resource_def IsResourceEmpty_def returnS_def None)
  then show ?thesis by (rule settles_weaken) simp
next
  case (Some r)
  have via: "infra_settles E m sp names (reconcile_resource E)"
    if "map_of (getSupportedInfraResources E) (resourceClassForInstance r) = Some c" "infra_settles E m sp names c" for c names
    by (rule settles_cong [OF that(2)]) (simp add: reconcile_resource_def IsResourceEmpty_def GetInfraReconciler_def resource_of_def Some that(1))
  from assms(3) Some consider "resourceClassForInstance r = ''kafka.kafka.strimzi.io/v1beta2''"
    | "resourceClassForInstance r = ''keycloak.keycloak.org/v1alpha1''" | "resourceClassForInstance r = ''broker.'' @ ToLower (ie_eventingAPIVersion E)"
    by (auto simp: settling_resource_def class_values getResourceClass_Broker)
  then show ?thesis
  proof cases
    case 1
    then have "map_of (getSupportedInfraResources E) (resourceClassForInstance r) = Some (kafka_Reconcile E)"
      by (simp add: getSupportedInfraResources_def class_values)
    then show ?thesis using settles_kafka [OF assms(1,2)] by (rule via)
  next
    case 2
    then have "map_of (getSupportedInfraResources E) (resourceClassForInstance r) = Some (keycloak_Reconcile E)"
      by (simp add: getSupportedInfraResources_def class_values)
    then have "infra_settles E m sp {} (reconcile_resource E)" using settles_keycloak_knative(1) by (rule via)
    then show ?thesis by (rule settles_weaken) simp
  next
    case 3
    then have "map_of (getSupportedInfraResources E) (resourceClassForInstance r) = Some (knative_Reconcile E)"
      by (simp add: getSupportedInfraResources_def class_values getResourceClass_Broker)
    then have "infra_settles E m sp {} (reconcile_resource E)" using settles_keycloak_knative(2) by (rule via)
    then show ?thesis by (rule settles_weaken) simp
  qed
qed

lemma settles_writes:
  assumes "infra_cluster_laws E" "sets_owner_only (ie_context E)" "settling_resource E sp"
  shows "infra_settles E m sp (infra_writes m)
    (bindS (reconcile_resource E) (\<lambda>_. bindS (infraProperties_Reconcile E) (\<lambda>_. add_envs)))"
proof (rule settles_bind [OF settles_reconcile_resource [OF assms]])
  have "infra_settles E m sp ((if is_infraProperties sp = [] then {} else {om_name m @ ''-properties''}) \<union> {})
      (bindS (infraProperties_Reconcile E) (\<lambda>_. add_envs))"
    by (rule settles_bind [OF settles_properties [OF assms(1,2)] settles_add_envs]) simp
  then show "infra_settles E m sp {om_name m @ ''-properties''} (bindS (infraProperties_Reconcile E) (\<lambda>_. add_envs))"
    by (rule settles_weaken) simp
next
  have "om_name m @ ''-properties'' \<noteq> n @ ''-config''" for n
    using arg_cong [where f = last, of "om_name m @ ''-properties''" "n @ ''-config''"] by auto
  from this [of "''kogito-kafka-quarkus''"] this [of "''kogito-kafka-springboot''"]
  show "{''kogito-kafka-quarkus-config'', ''kogito-kafka-springboot-config''} \<inter> {om_name m @ ''-properties''} = {}" by auto
qed

text \<open>The references are read only, after everything was written, so that a second run reads what the first one read.\<close>

lemma references_exist_alike:
  "(\<And>n. fetch ns n v = fetch ns n w) \<Longrightarrow> references_exist fetch ns names refs v = references_exist fetch ns names refs w"
  by (simp add: references_exist_def)

lemma infra_steps_split:
  "infra_steps E = bindS (bindS (reconcile_resource E) (\<lambda>_. bindS (infraProperties_Reconcile E) (\<lambda>_. add_envs)))
     (\<lambda>_. bindS (configMapReference_Reconcile E) (\<lambda>_. secretReference_Reconcile E))"
  by (rule ext) (simp add: infra_steps_def bindS_def split: prod.split sum.split)

lemma infra_steps_repeat:
  assumes "infra_cluster_laws E" "sets_owner_only (ie_context E)" "settling_resource E (ki_spec i)"
    and run: "infra_steps E (i, w) = (Inr (), (i', w'))"
  shows "\<exists>h. keeps_conditions h \<and> i' = on_status h i \<and> same_infras E w w' \<and> (\<forall>j v. ki_meta j = ki_meta i \<longrightarrow> ki_spec j = ki_spec i \<longrightarrow>
     infra_same E (ki_namespace i) {} w' v \<longrightarrow> infra_steps E (j, v) = (Inr (), (on_status h j, v)))"
proof -
  let ?pre = "bindS (reconcile_resource E) (\<lambda>_. bindS (infraProperties_Reconcile E) (\<lambda>_. add_envs))"
  let ?refs = "\<lambda>st. st\<lparr>ist_configMapEnvFrom := ist_configMapEnvFrom st @ is_configMapEnvFrom (ki_spec i),
       ist_configMapVolumes := ist_configMapVolumes st @ is_configMapVolumes (ki_spec i),
       ist_secretEnvFrom := ist_secretEnvFrom st @ is_secretEnvFrom (ki_spec i), ist_secretVolumes := ist_secretVolumes st @ is_secretVolumes (ki_spec i)\<rparr>"
  obtain i1 w1 where pre: "?pre (i, w) = (Inr (), (i1, w1))"
    and refs: "bindS (configMapReference_Reconcile E) (\<lambda>_. secretReference_Reconcile E) (i1, w1) = (Inr (), (i', w'))"
    using run unfolding infra_steps_split bindS_eq_Inr [of ?pre] by auto
  obtain h where h: "same_infras E w w1" "keeps_conditions h" "i1 = on_status h i"
    "\<And>j v. ki_meta j = ki_meta i \<Longrightarrow> ki_spec j = ki_spec i \<Longrightarrow> infra_same E (ki_namespace i) (- infra_writes (ki_meta i)) w1 v \<Longrightarrow>
       ?pre (j, v) = (Inr (), (on_status h j, v))"
    by (rule infra_settlesE [OF settles_writes [OF assms(1-3)] refl refl pre]) (rule that)
  from refs have ok: "references_exist (FetchConfigMap (ie_configMaps E)) (ki_namespace i) (is_configMapEnvFrom (ki_spec i)) (is_configMapVolumes (ki_spec i)) w1"
      "references_exist (FetchSecret (ie_secrets E)) (ki_namespace i) (is_secretEnvFrom (ki_spec i)) (is_secretVolumes (ki_spec i)) w1"
      and i': "i' = on_status ?refs i1" and w': "w' = w1"
    using h(3) by (auto simp: bindS_eq_Inr configMapReference_success secretReference_success)
  have again: "infra_steps E (j, v) = (Inr (), (on_status (?refs \<circ> h) j, v))"
    if j: "ki_meta j = ki_meta i" "ki_spec j = ki_spec i" and v: "infra_same E (ki_namespace i) {} w1 v" for j v
  proof -
    have "?pre (j, v) = (Inr (), (on_status h j, v))" by (rule h(4) [OF j infra_same_mono [OF v]]) simp
    moreover have "references_exist (FetchConfigMap (ie_configMaps E)) (ki_namespace i) names refs v
          = references_exist (FetchConfigMap (ie_configMaps E)) (ki_namespace i) names refs w1"
        "references_exist (FetchSecret (ie_secrets E)) (ki_namespace i) names refs v
          = references_exist (FetchSecret (ie_secrets E)) (ki_namespace i) names refs w1" for names refs
      using v by (auto simp: infra_same_def FetchConfigMap_def FetchSecret_def FetchWithKey_def intro!: references_exist_alike)
    note ok [folded this]
    ultimately show ?thesis
      using j unfolding infra_steps_split bindS_eq_Inr [of ?pre]
      by (auto simp: bindS_eq_Inr configMapReference_success secretReference_success comp_def)
  qed
  have "keeps_conditions (?refs \<circ> h)" by (rule keeps_conditions_comp [OF _ h(2)]) (simp add: keeps_conditions_def)
  with again h(1,3) i' w' show ?thesis by (intro exI [of _ "?refs \<circ> h"]) (simp add: on_status_comp)
qed

section \<open>The controller comes to rest\<close>

lemma set_configured_again:
  assumes "infra_cluster_laws E" "keeps_conditions h"
  shows "set_configured (ie_conditions E) None (h (st0\<lparr>ist_conditions := ist_conditions (set_configured (ie_conditions E) None (h st0))\<rparr>))
    = set_configured (ie_conditions E) None (h st0)"
  using infra_cluster_lawsD(6) [OF assms(1)] assms(2) by (simp add: keeps_conditions_def set_configured_def setResourceSuccess_def Let_def)

text \<open>The write of the status: afterwards the instance is stored with the status of the run, and nothing else changed.\<close>

lemma status_write:
  assumes "infra_cluster_laws E" "sa_get (ie_infras E) ns n w = Inr i" "ki_meta j = ki_meta i" "ki_spec j = ki_spec i"
  shows "\<exists>j' v. UpdateBaseStatus E err (j, w) = (Inr (), (j', v)) \<and> (\<forall>ns'. infra_same E ns' {} w v)
    \<and> sa_get (ie_infras E) ns n v = Inr (i\<lparr>ki_status := set_configured (ie_conditions E) err (ki_status j)\<rparr>)"
proof -
  let ?st = "set_configured (ie_conditions E) err (ki_status j)"
  note L = infra_cluster_lawsD(5) [OF assms(1,2)]
  have inst: "on_status (set_configured (ie_conditions E) err) j = i\<lparr>ki_status := ?st\<rparr>"
    using assms(3,4) by (simp add: on_status_def)
  have key: "FetchKogitoInfraInstance (ie_infras E) (ki_namespace (i\<lparr>ki_status := ?st\<rparr>)) (ki_name (i\<lparr>ki_status := ?st\<rparr>)) w = Inr (Some i)"
    using L assms(2) by (simp add: FetchKogitoInfraInstance_def FetchWithKey_def)
  show ?thesis
  proof (cases "ki_status i = ?st")
    case True
    then have "i\<lparr>ki_status := ?st\<rparr> = i" by simp
    with True key assms(2) show ?thesis by (simp add: UpdateBaseStatus_def inst isStatusChanged_def Let_def)
  next
    case False
    obtain j' v where "sa_updateStatus (ie_infras E) (i\<lparr>ki_status := ?st\<rparr>) w = (Inr j', v)" "sa_get (ie_infras E) ns n v = Inr (i\<lparr>ki_status := ?st\<rparr>)"
      "\<forall>ns'. infra_same E ns' {} w v" using L by blast
    with False key show ?thesis by (auto simp: UpdateBaseStatus_def inst isStatusChanged_def Let_def UpdateStatus_def)
  qed
qed



section \<open>The laws in memory\<close>

lemma list_set_cond_again: "list_set_cond c (list_set_cond c cs) = list_set_cond c cs"
  by (induction cs) auto

lemma mem_updated_key:
  "n \<noteq> om_name (meta r) \<Longrightarrow> find (same_key meta ns n) (map (\<lambda>y. if om_name (meta r) = om_name (meta y) then r else y) xs) = find (same_key meta ns n) xs"
  by (induction xs) (auto simp: same_key_def)

lemma mem_update_stored:
  assumes "find (same_key meta ns n) xs = Some d" "meta x = meta d"
  shows "om_namespace (meta d) = ns \<and> om_name (meta d) = n \<and> (\<exists>ys. mem_update meta x xs = (Inr x, ys) \<and> find (same_key meta ns n) ys = Some x)"
proof -
  have "same_key meta ns n d" using assms(1) by (auto simp: find_Some_iff)
  then have key: "om_namespace (meta d) = ns" "om_name (meta d) = n" by (simp_all add: same_key_def)
  have "find (same_key meta ns n) (map (\<lambda>y. if same_key meta ns n y then x else y) xs) = Some x"
    using assms by (induction xs) (auto simp: same_key_def split: if_splits)
  with key assms show ?thesis by (simp add: mem_update_def Let_def)
qed

lemma mem_infra_cluster_laws: "infra_cluster_laws (mem_infra_env ks ispns)"
proof -
  let ?E = "mem_infra_env ks ispns"
  have "delta_laws (ie_configMapLib ?E) (ie_configMaps ?E)" by (simp add: mem_infra_env_def mem_delta_laws)
  moreover have "infra_same ?E (om_namespace (cm_meta r)) {om_name (cm_meta r)} w w' \<and> (\<forall>ns n. sa_get (ie_infras ?E) ns n w' = sa_get (ie_infras ?E) ns n w)"
    if "bw_add (dl_writer (ie_configMapLib ?E)) [r] w = (Inr b, w')" for r w b w'
    using that by (auto simp: infra_same_def mem_infra_env_def mem_delta_lib_def mem_get_def same_key_def)
  moreover have "infra_same ?E (om_namespace (cm_meta r)) {om_name (cm_meta r)} w w' \<and> (\<forall>ns n. sa_get (ie_infras ?E) ns n w' = sa_get (ie_infras ?E) ns n w)"
    if "bw_update (dl_writer (ie_configMapLib ?E)) [d] [r] w = (Inr b, w')" for d r w b w'
  proof -
    have "w' = w\<lparr>iw_configMaps := map (\<lambda>y. if om_name (cm_meta r) = om_name (cm_meta y) then r else y) (iw_configMaps w)\<rparr>"
      using that by (auto simp: mem_infra_env_def mem_delta_lib_def intro!: arg_cong [where f = "\<lambda>x. w\<lparr>iw_configMaps := x\<rparr>"] map_cong)
    then show ?thesis by (simp add: infra_same_def mem_infra_env_def mem_get_def mem_updated_key)
  qed
  moreover have "om_namespace (ki_meta i) = ns \<and> om_name (ki_meta i) = n
          \<and> (\<exists>j w'. sa_updateStatus (ie_infras ?E) (i\<lparr>ki_status := st\<rparr>) w = (Inr j, w') \<and> sa_get (ie_infras ?E) ns n w' = Inr (i\<lparr>ki_status := st\<rparr>)
               \<and> (\<forall>ns'. infra_same ?E ns' {} w w'))"
    if "sa_get (ie_infras ?E) ns n w = Inr i" for ns n i w st
  proof -
    have "find (same_key ki_meta ns n) (iw_infras w) = Some i"
      using that by (simp add: mem_infra_env_def mem_get_def split: option.splits)
    from mem_update_stored [OF this, of "i\<lparr>ki_status := st\<rparr>"] show ?thesis
      by (auto simp: mem_infra_env_def infra_same_def mem_get_def)
  qed
  ultimately show ?thesis
    by (simp add: infra_cluster_laws_def) (simp add: mem_infra_env_def list_cond_api_def list_set_cond_again)
qed

lemma kafka_steps_run:
  "\<exists>s. infra_steps (mem_infra_env [sample_kafka] []) (reset_status (sample_infra (Some kafka_resource) []), w) = (Inr (), s)"
proof -
  let ?E = "mem_infra_env [sample_kafka] []" and ?i = "sample_infra (Some kafka_resource) []"
  have reset: "reset_status ?i = ?i" by (simp add: reset_status_def on_status_def sample_infra_def)
  obtain i' w' where run: "kafka_Reconcile ?E (?i, w) = (Inr (), (i', w'))" using kafka_run [of w] by auto
  have spec: "ki_spec i' = ki_spec ?i" using frames_result [OF frames_reconcilers(1) run] by simp
  have "GetInfraReconciler ?E ?i = Inr (kafka_Reconcile ?E)"
    by (simp add: GetInfraReconciler_def resourceClassForInstance_def resource_of_def getSupportedInfraResources_def class_values infra_sample_simps)
  with run have "reconcile_resource ?E (?i, w) = (Inr (), (i', w'))"
    by (simp add: reconcile_resource_def IsResourceEmpty_def) (simp add: sample_infra_def)
  moreover have "infraProperties_Reconcile ?E (i', w') = (Inr (), (i', w'))" by (simp add: infraProperties_Reconcile_def spec sample_infra_def)
  ultimately show ?thesis unfolding reset infra_steps_def
    by (simp add: bindS_eq_Inr add_envs_result configMapReference_success secretReference_success spec references_exist_def)
      (simp add: sample_infra_def)
qed


end
