(* ===== verification/Deploy_Frame.thy ===== *)
theory Deploy_Frame
  imports Service_Deployer
begin

text \<open>
  What a deployment does to the resource it holds in memory.  Its stages change the replicas and the recorded events at most, so that a property that
  these two changes keep holds of the resource whose status is written at the end, whichever stage the run gets to.
\<close>

locale replicas_invariant =
  fixes P :: "kogito_service \<Rightarrow> bool"
  assumes replicas: "P i \<Longrightarrow> P (map_spec (\<lambda>sp. sp\<lparr>ss_replicas := n\<rparr>) i)"
begin

lemma bind:
  assumes "\<And>s. P (dst_instance s) \<Longrightarrow> P (dst_instance (snd (f s)))" "\<And>x s. P (dst_instance s) \<Longrightarrow> P (dst_instance (snd (g x s)))"
    and "P (dst_instance s)"
  shows "P (dst_instance (snd (bindS f g s)))"
  using assms(1) [OF assms(3)] assms(2) by (auto simp: bindS_def split: prod.split sum.split)

lemma same: "dst_instance (snd (f s)) = dst_instance s \<Longrightarrow> P (dst_instance s) \<Longrightarrow> P (dst_instance (snd (f s)))"
  by simp

lemma deployment: "P (dst_instance s) \<Longrightarrow> P (dst_instance (snd (deployment_stage E s)))"
  by (auto simp: deployment_stage_def dr_instance_def cap_replicas_def Let_def replicas split: prod.split sum.split option.split)

lemma monitoring: "dst_instance (snd (configureMonitoring E s)) = dst_instance s"
  by (auto simp: configureMonitoring_def bindS_def on_world_def map_error_def split: prod.splits sum.splits)

text \<open>The resource at the end of the stages, whether they succeed or not, given what messaging does to it.\<close>

lemma stages_with:
  assumes "\<And>s. P (dst_instance s) \<Longrightarrow> P (dst_instance (snd (configureMessaging E s)))" "P (dst_instance s)"
  shows "P (dst_instance (snd (deploy_stages E s)))"
  unfolding deploy_stages_def Let_def
  by (intro bind assms(2))
    (simp_all add: stage_instance service_Reconcile_def route_Reconcile_def deployment monitoring assms(1))

end

locale instance_invariant = replicas_invariant +
  assumes events: "P i \<Longrightarrow> P (setCloudEventsStatus topics i)"
begin

lemma topics_set:
  assumes "P (fst s)"
  shows "P (fst (snd (fetchTopicsAndSetCloudEventsStatus D s)))"
  using assms by (simp add: fetchTopicsAndSetCloudEventsStatus_def events split: sum.split)

lemma in_world_keeps: "fst (snd (in_world f s)) = fst s"
  by (simp add: in_world_def split: prod.split)

lemma each_keeps:
  assumes "P (fst s)"
  shows "P (fst (snd (eachS (\<lambda>x. in_world (f x)) xs s)))"
  using eachS_invariant [of "\<lambda>s. P (fst s)" "\<lambda>x. in_world (f x)" s xs] assms by (simp add: in_world_keeps)

lemma topics_each:
  assumes "P (fst s)"
  shows "P (fst (snd (bindS (fetchTopicsAndSetCloudEventsStatus D) (eachS (\<lambda>x. in_world (f x))) s)))"
  using topics_set [OF assms, of D] each_keeps by (auto simp: bindS_def split: prod.split sum.split)

lemma kafka:
  assumes "P (fst s)"
  shows "P (fst (snd (kafka_CreateRequiredResources D s)))"
  using assms topics_each [OF assms, of D]
  by (simp add: kafka_CreateRequiredResources_def createRequiredKafkaTopics_def split: sum.split option.split)

lemma knative:
  assumes "P (fst s)"
  shows "P (fst (snd (knative_CreateRequiredResources D s)))"
proof -
  have "P (fst (snd (bindS (in_world f) (\<lambda>_. bindS (fetchTopicsAndSetCloudEventsStatus D) (eachS (\<lambda>x. in_world (g x)))) s)))" for f g
    using assms in_world_keeps [of f s] topics_each [of _ D g] by (auto simp: bindS_def [of "in_world f"] split: prod.split sum.split)
  with assms show ?thesis by (simp add: knative_CreateRequiredResources_def split: sum.split option.split)
qed

lemma messaging:
  assumes "P (dst_instance s)"
  shows "P (dst_instance (snd (configureMessaging E s)))"
  unfolding configureMessaging_def
proof (rule bind [OF _ _ assms])
  show "P (dst_instance s) \<Longrightarrow> P (dst_instance (snd (map_error ErrorForMessaging (on_instance (kafka_CreateRequiredResources (messaging_of E)) s))))" for s
    using kafka [of "(dst_instance s, dst_world s)" "messaging_of E"] by (auto simp: on_instance_def map_error_def split: prod.split sum.split)
  show "P (dst_instance s) \<Longrightarrow> P (dst_instance (snd (map_error ErrorForMessaging (on_instance (knative_CreateRequiredResources (messaging_of E)) s))))" for s
    using knative [of "(dst_instance s, dst_world s)" "messaging_of E"] by (auto simp: on_instance_def map_error_def split: prod.split sum.split)
qed

lemma stages: "P (dst_instance s) \<Longrightarrow> P (dst_instance (snd (deploy_stages E s)))"
  by (rule stages_with [OF messaging])

end


interpretation keeps_meta: instance_invariant "\<lambda>i. ks_meta i = m" for m
  by unfold_locales (simp_all add: map_spec_def setCloudEventsStatus_def)

interpretation keeps_status: replicas_invariant "\<lambda>i. ks_status i = st" for st
  by unfold_locales (simp add: map_spec_def)

interpretation keeps_events: instance_invariant "\<lambda>i. ks_package i = V1 \<and> ks_meta i = m \<and> st_cloudEvents (ks_status i) = ev" for m ev
  by unfold_locales (simp_all add: map_spec_def setCloudEventsStatus_def map_status_def SetCloudEvents_def)

section \<open>The status that is written\<close>

text \<open>The handler of the status leaves key and events alone, whichever branch it takes.\<close>

definition same_events :: "kogito_service \<Rightarrow> kogito_service \<Rightarrow> bool" where
  "same_events j i \<longleftrightarrow> ks_meta i = ks_meta j \<and> st_cloudEvents (ks_status i) = st_cloudEvents (ks_status j)"

lemma same_events_refl [simp]: "same_events j j"
  by (simp add: same_events_def)

lemma same_events_trans: "same_events a b \<Longrightarrow> same_events b c \<Longrightarrow> same_events a c"
  by (simp add: same_events_def)

lemma same_events_sets [simp]:
  "same_events j (map_conditions f i) = same_events j i" "same_events j (setProvisioning C s r i) = same_events j i"
  "same_events j (setDeployed C s i) = same_events j i" "same_events j (setFailed C s r m i) = same_events j i"
  "same_events j (InvalidateFailedCondition C i) = same_events j i" "same_events j (set_route_condition C c i) = same_events j i"
  by (simp_all add: same_events_def map_conditions_def setProvisioning_def setDeployed_def setFailed_def InvalidateFailedCondition_def
      set_route_condition_def map_status_def split: option.split)

lemma same_events_bind:
  assumes "\<And>j. same_events j (snd (f j))" "\<And>x j. same_events j (snd (g x j))"
  shows "same_events j (snd (bindS f g j))"
  using assms(1) [of j] assms(2) by (auto simp: bindS_def split: prod.split sum.split intro: same_events_trans)

lemma status_steps_events: "same_events j (snd (status_steps K C w err j))"
proof (cases err)
  case None
  have "same_events j (snd (handleConditionTransition K C w j))" for j
    by (simp add: handleConditionTransition_def Let_def split: sum.split option.split)
  moreover have "same_events j (snd (updateImageStatus K w j))" "same_events j (snd (updateDeploymentStatus K w j))" for j
    by (simp_all add: updateImageStatus_def updateDeploymentStatus_def same_events_def map_status_def split: sum.split option.split list.split)
  moreover have "same_events j (snd (updateRouteStatus K C w j))" for j
    by (auto simp: updateRouteStatus_def Let_def same_events_def set_route_condition_def map_status_def split: sum.split)
  ultimately show ?thesis unfolding status_steps_def None by (auto intro!: same_events_bind)
next
  case (Some e)
  show ?thesis unfolding status_steps_def Some setFailedConditions_def Let_def
    by (simp split: sum.split)
qed

text \<open>C20: deploying a service of the product never records its events.  Whatever the stages do and whether they succeed or not, the run writes either no
  status at all or the status of a resource with the key of the one it was called with and with the events that one had: the cloud events that the
  messaging stage computes for a service of the second API group are lost.\<close>

theorem product_Deploy_keeps_events:
  assumes "ks_package inst = V1"
  shows "let w1 = dst_world (snd (deploy_stages E (initial_state inst def w)))
     in snd (Deploy E inst def w) = w1
        \<or> (\<exists>i. ks_meta i = ks_meta inst \<and> st_cloudEvents (ks_status i) = st_cloudEvents (ks_status inst)
             \<and> snd (Deploy E inst def w) = snd (sa_updateStatus (cl_kogitoServices (de_cluster E)) i w1))"
proof -
  obtain r s where st: "deploy_stages E (initial_state inst def w) = (r, s)" by fastforce
  have "ks_meta (dst_instance s) = ks_meta inst \<and> st_cloudEvents (ks_status (dst_instance s)) = st_cloudEvents (ks_status inst)"
    using keeps_events.stages [of "initial_state inst def w" "ks_meta inst" "st_cloudEvents (ks_status inst)" E] assms st
    by (simp add: initial_state_def map_spec_def Let_def)
  moreover have "same_events (dst_instance s) (snd (status_steps K C v err (map_conditions id (dst_instance s))))" for K C v err
    by (rule same_events_trans [OF _ status_steps_events]) simp
  ultimately have ev: "ks_meta i = ks_meta inst \<and> st_cloudEvents (ks_status i) = st_cloudEvents (ks_status inst)"
    if "status_steps K C v err (map_conditions id (dst_instance s)) = (u, i)" for K C v err u i
    using that unfolding same_events_def by (metis snd_conv)
  let ?go = "status_steps (de_cluster E) (de_conditions E) (dst_world s) (reported_error r) (map_conditions id (dst_instance s))"
  obtain u i where go: "?go = (u, i)" by fastforce
  have "snd (Deploy E inst def w) = (case u of Inl _ \<Rightarrow> dst_world s | Inr _ \<Rightarrow> snd (sa_updateStatus (cl_kogitoServices (de_cluster E)) i (dst_world s)))"
    unfolding Deploy_def st by (simp add: HandleStatusUpdate_def ensureResourcesStatusChanges_def go UpdateStatus_def split: sum.split)
  with ev [OF go] have "snd (Deploy E inst def w) = dst_world s
        \<or> (\<exists>i. ks_meta i = ks_meta inst \<and> st_cloudEvents (ks_status i) = st_cloudEvents (ks_status inst)
             \<and> snd (Deploy E inst def w) = snd (sa_updateStatus (cl_kogitoServices (de_cluster E)) i (dst_world s)))"
    by (cases u) auto
  then show ?thesis by (simp add: st Let_def)
qed


lemma product_Deploy_keeps_events_witness:
  "let inst = infra_service\<lparr>ks_package := V1\<rparr>; w1 = dst_world (snd (deploy_stages sample_env (initial_state inst sample_definition empty_world)))
   in ks_package inst = V1 \<and> (snd (Deploy sample_env inst sample_definition empty_world) = w1
        \<or> (\<exists>i. ks_meta i = ks_meta inst \<and> st_cloudEvents (ks_status i) = st_cloudEvents (ks_status inst)
             \<and> snd (Deploy sample_env inst sample_definition empty_world) = snd (sa_updateStatus (cl_kogitoServices (de_cluster sample_env)) i w1)))"
  using product_Deploy_keeps_events [of "infra_service\<lparr>ks_package := V1\<rparr>" sample_env sample_definition empty_world] by (simp add: Let_def)

end
