(* ===== verification/Deploy_Stages.thy ===== *)
theory Deploy_Stages
  imports Infra_Settles Deploy_Frame
begin

text \<open>
  The stages of \<^verbatim>\<open>Deploy\<close> one by one.  A stage settles when, after it succeeded, it repeats its result without writing in every
  cluster that agrees with the one it left up to the kinds of objects that later stages write, whatever the status of the resource is by then;
  a stage that writes leaves the object it requires behind.
\<close>

section \<open>What stages read and write\<close>

text \<open>The kinds of objects a deployment writes, what the hook of the service reads, which depends on config maps, and the resource itself, of which
  the status is written at the end.\<close>

datatype deploy_kind = KConfigMap | KDeployment | KService | KRoute | KHook | KResource

type_synonym 'w deploy_hook = "(deployment \<Rightarrow> 'w \<Rightarrow> gerr + deployment) option"

definition deploy_agree :: "'w deploy_env \<Rightarrow> 'w deploy_hook \<Rightarrow> deploy_kind set \<Rightarrow> 'w \<Rightarrow> 'w \<Rightarrow> bool" where
  "deploy_agree E H kinds w v \<longleftrightarrow>
     (KConfigMap \<notin> kinds \<longrightarrow> (\<forall>ns n. sa_get (cl_configMaps (de_cluster E)) ns n v = sa_get (cl_configMaps (de_cluster E)) ns n w))
     \<and> (KDeployment \<notin> kinds \<longrightarrow> (\<forall>ns n. sa_get (cl_deployments (de_cluster E)) ns n v = sa_get (cl_deployments (de_cluster E)) ns n w))
     \<and> (KService \<notin> kinds \<longrightarrow> (\<forall>ns n. sa_get (cl_services (de_cluster E)) ns n v = sa_get (cl_services (de_cluster E)) ns n w))
     \<and> (KRoute \<notin> kinds \<longrightarrow> (\<forall>ns n. sa_get (cl_routes (de_cluster E)) ns n v = sa_get (cl_routes (de_cluster E)) ns n w))
     \<and> (KHook \<notin> kinds \<longrightarrow> (\<forall>f d. H = Some f \<longrightarrow> f d v = f d w))
     \<and> (KResource \<notin> kinds \<longrightarrow> (\<forall>ns n. sa_get (cl_kogitoServices (de_cluster E)) ns n v = sa_get (cl_kogitoServices (de_cluster E)) ns n w))
     \<and> (\<forall>ns n. sa_get (cl_secrets (de_cluster E)) ns n v = sa_get (cl_secrets (de_cluster E)) ns n w)
     \<and> (\<forall>ns n. sa_get (ic_imageStreams (de_images E)) ns n v = sa_get (ic_imageStreams (de_images E)) ns n w)
     \<and> (\<forall>ns n. ic_getTag (de_images E) ns n v = ic_getTag (de_images E) ns n w)
     \<and> (\<forall>owner. ic_listOwned (de_images E) owner v = ic_listOwned (de_images E) owner w)
     \<and> (\<forall>ns n. de_infra E ns n v = de_infra E ns n w)"

lemma deploy_agree_refl [simp]: "deploy_agree E H kinds w w"
  by (simp add: deploy_agree_def)

lemma deploy_agree_trans: "deploy_agree E H A w w1 \<Longrightarrow> deploy_agree E H B w1 w2 \<Longrightarrow> deploy_agree E H (A \<union> B) w w2"
  unfolding deploy_agree_def by (intro conjI allI impI; elim conjE; simp)

lemma deploy_agree_mono: "deploy_agree E H A w w' \<Longrightarrow> A \<subseteq> B \<Longrightarrow> deploy_agree E H B w w'"
  unfolding deploy_agree_def by (meson subsetD)

text \<open>The writers of one kind of object touch no other kind.\<close>

definition writes_kind :: "'w deploy_env \<Rightarrow> 'w deploy_hook \<Rightarrow> deploy_kind set \<Rightarrow> ('w, 'o) delta_lib \<Rightarrow> ('w, 'o) store_api \<Rightarrow> bool" where
  "writes_kind E H kinds L A \<longleftrightarrow> delta_laws L A
     \<and> (\<forall>r w b w'. bw_add (dl_writer L) [r] w = (Inr b, w') \<longrightarrow> deploy_agree E H kinds w w')
     \<and> (\<forall>d r w b w'. same_object A d r \<longrightarrow> bw_update (dl_writer L) [d] [r] w = (Inr b, w') \<longrightarrow> deploy_agree E H kinds w w')"

context single_reconciler
begin

lemma wrote:
  assumes kind: "writes_kind E H kinds lib A" and req: "required w = Inr [r]" "om_namespace (sa_meta A r) = ns" "om_name (sa_meta A r) = n"
    and refl: "fst (equal r r)" and run: "reconcile w = (Inr b, w')"
  shows "deploy_agree E H kinds w w' \<and> (\<exists>d. sa_get A ns n w' = Inr d \<and> fst (equal d r))"
proof -
  have laws: "delta_laws lib A" using kind by (simp add: writes_kind_def)
  have "w' = w \<or> deploy_agree E H kinds w w'"
    by (rule touches [OF laws req run]) (use kind in \<open>unfold writes_kind_def, blast\<close>)+
  then show ?thesis using stores [OF laws req refl run] by auto
qed

end

section \<open>Stages that settle\<close>

definition with_status :: "service_status \<Rightarrow> kogito_service \<Rightarrow> kogito_service" where
  "with_status st inst = inst\<lparr>ks_status := st\<rparr>"

lemma with_status_sel [simp]:
  "ks_meta (with_status st inst) = ks_meta inst" "ks_spec (with_status st inst) = ks_spec inst" "ks_status (with_status st inst) = st"
  "ks_package (with_status st inst) = ks_package inst" "with_status st (with_status st' inst) = with_status st inst"
  "map_spec f (with_status st inst) = with_status st (map_spec f inst)"
  by (simp_all add: with_status_def map_spec_def)

definition moved :: "service_status \<Rightarrow> 'w \<Rightarrow> 'w deploy_state \<Rightarrow> 'w deploy_state" where
  "moved st v s = s\<lparr>dst_world := v, dst_instance := with_status st (dst_instance s)\<rparr>"

lemma moved_sel [simp]:
  "dst_world (moved st v s) = v" "dst_instance (moved st v s) = with_status st (dst_instance s)" "dst_definition (moved st v s) = dst_definition s"
  by (simp_all add: moved_def)

abbreviation hook_of :: "'w deploy_state \<Rightarrow> 'w deploy_hook" where
  "hook_of s \<equiv> sd_onDeploymentCreate (dst_definition s)"

definition stage_settles :: "'w deploy_env \<Rightarrow> 'w deploy_hook \<Rightarrow> deploy_kind set \<Rightarrow> deploy_kind set \<Rightarrow> 'w stage \<Rightarrow> bool" where
  "stage_settles E H writes later f \<longleftrightarrow> (\<forall>s s'. hook_of s = H \<longrightarrow> f s = (Inr (), s') \<longrightarrow>
     hook_of s' = H \<and> deploy_agree E H writes (dst_world s) (dst_world s')
     \<and> (\<forall>st v. deploy_agree E H later (dst_world s') v \<longrightarrow> f (moved st v s) = (Inr (), moved st v s')))"

lemma stage_settlesI:
  assumes "\<And>s s'. hook_of s = H \<Longrightarrow> f s = (Inr (), s') \<Longrightarrow> hook_of s' = H \<and> deploy_agree E H writes (dst_world s) (dst_world s')"
    and "\<And>s s' st v. hook_of s = H \<Longrightarrow> f s = (Inr (), s') \<Longrightarrow> deploy_agree E H later (dst_world s') v \<Longrightarrow> f (moved st v s) = (Inr (), moved st v s')"
  shows "stage_settles E H writes later f"
  using assms unfolding stage_settles_def by blast

lemma stage_settlesD:
  assumes "stage_settles E H writes later f" "hook_of s = H" "f s = (Inr (), s')"
  shows "hook_of s' = H" "deploy_agree E H writes (dst_world s) (dst_world s')"
    "deploy_agree E H later (dst_world s') v \<Longrightarrow> f (moved st v s) = (Inr (), moved st v s')"
  using assms unfolding stage_settles_def by blast+

lemma stage_settles_bind:
  assumes f: "stage_settles E H W1 D1 f" and g: "stage_settles E H W2 D2 g" and apart: "W2 \<subseteq> D1"
  shows "stage_settles E H (W1 \<union> W2) (D1 \<inter> D2) (bindS f (\<lambda>_. g))"
proof (rule stage_settlesI)
  fix s s'
  assume h: "hook_of s = H" and run: "bindS f (\<lambda>_. g) s = (Inr (), s')"
  then obtain s1 where s1: "f s = (Inr (), s1)" "g s1 = (Inr (), s')" by (auto simp: bindS_eq_Inr)
  note F = stage_settlesD [OF f h s1(1)]
  note G = stage_settlesD [OF g F(1) s1(2)]
  show "hook_of s' = H \<and> deploy_agree E H (W1 \<union> W2) (dst_world s) (dst_world s')"
    using G(1) deploy_agree_trans [OF F(2) G(2)] ..
  fix st v
  assume v: "deploy_agree E H (D1 \<inter> D2) (dst_world s') v"
  have "deploy_agree E H D1 (dst_world s1) v"
    by (rule deploy_agree_mono [OF deploy_agree_trans [OF G(2) v]]) (use apart in blast)
  moreover have "deploy_agree E H D2 (dst_world s') v" by (rule deploy_agree_mono [OF v]) blast
  ultimately show "bindS f (\<lambda>_. g) (moved st v s) = (Inr (), moved st v s')" using F(3) G(3) by simp
qed

lemma stage_settles_seq:
  assumes f: "stage_settles E H W1 D1 f" and g: "stage_settles E H W2 D2 g" and apart: "W2 \<subseteq> D1" "W1 \<union> W2 \<subseteq> W" "D \<subseteq> D1 \<inter> D2"
  shows "stage_settles E H W D (bindS f (\<lambda>_. g))"
proof (rule stage_settlesI)
  note both = stage_settles_bind [OF f g apart(1)]
  fix s s'
  assume run: "hook_of s = H" "bindS f (\<lambda>_. g) s = (Inr (), s')"
  note B = stage_settlesD [OF both run]
  show "hook_of s' = H \<and> deploy_agree E H W (dst_world s) (dst_world s')" using B(1) deploy_agree_mono [OF B(2) apart(2)] ..
  fix st v
  assume "deploy_agree E H D (dst_world s') v"
  then show "bindS f (\<lambda>_. g) (moved st v s) = (Inr (), moved st v s')" using apart(3) by (intro B(3)) (rule deploy_agree_mono)
qed

section \<open>The stages\<close>

definition deploy_laws :: "'w deploy_env \<Rightarrow> 'w deploy_hook \<Rightarrow> bool" where
  "deploy_laws E H \<longleftrightarrow> sets_owner_only (de_context E) \<and> cluster_metas (de_cluster E) \<and> (\<forall>x. de_servicesEqual E x x)
     \<and> (\<forall>x. fst (default_comparator (de_deploymentLib E) x x)) \<and> (\<forall>def. sd_onDeploymentCreate def = H \<longrightarrow> hook_keeps_key def)
     \<and> writes_kind E H {KConfigMap, KHook} (de_configMapLib E) (cl_configMaps (de_cluster E))
     \<and> writes_kind E H {KDeployment} (de_deploymentLib E) (cl_deployments (de_cluster E))
     \<and> writes_kind E H {KService} (de_serviceLib E) (cl_services (de_cluster E))
     \<and> writes_kind E H {KRoute} (de_routeLib E) (cl_routes (de_cluster E))"

lemma deploy_lawsD:
  assumes "deploy_laws E H"
  shows "sets_owner_only (de_context E)" "cluster_metas (de_cluster E)" "\<forall>x. de_servicesEqual E x x"
    "\<forall>x. fst (default_comparator (de_deploymentLib E) x x)" "sd_onDeploymentCreate def = H \<Longrightarrow> hook_keeps_key def"
    "writes_kind E H {KConfigMap, KHook} (de_configMapLib E) (cl_configMaps (de_cluster E))"
    "writes_kind E H {KDeployment} (de_deploymentLib E) (cl_deployments (de_cluster E))"
    "writes_kind E H {KService} (de_serviceLib E) (cl_services (de_cluster E))"
    "writes_kind E H {KRoute} (de_routeLib E) (cl_routes (de_cluster E))"
  using assms by (auto simp: deploy_laws_def)

lemma writes_kind_laws: "writes_kind E H kinds L A \<Longrightarrow> delta_laws L A"
  by (simp add: writes_kind_def)

lemma required_status:
  "cr_createRequiredResources cx (with_status st inst) v = cr_createRequiredResources cx inst w"
  "sr_createRequiredResources cx (with_status st inst) v = sr_createRequiredResources cx inst w"
  "rr_createRequiredResources cx (with_status st inst) v = rr_createRequiredResources cx inst w"
  by (simp_all add: cr_createRequiredResources_def sr_createRequiredResources_def rr_createRequiredResources_def createInfraPropertiesConfigMap_def
      getInfraPropertiesConfigMapName_def CreateService_def CreateRoute_def)

text \<open>What the stages that write leave behind: the object they require, up to what the comparator sees.\<close>

lemma config_wrote:
  fixes E :: "'w deploy_env" and s s' :: "'w deploy_state"
  assumes "deploy_laws E H" "config_Reconcile E s = (Inr (), s')"
  obtains r d where "cr_createRequiredResources (de_context E) (dst_instance s) (dst_world s) = Inr [r]"
    "om_namespace (sa_meta (cl_configMaps (de_cluster E)) r) = ks_namespace (dst_instance s)"
    "om_name (sa_meta (cl_configMaps (de_cluster E)) r) = getInfraPropertiesConfigMapName (dst_instance s)"
    "cm_data r = ss_config (ks_spec (dst_instance s))"
    "deploy_agree E H {KConfigMap, KHook} (dst_world s) (dst_world s')"
    "sa_get (cl_configMaps (de_cluster E)) (ks_namespace (dst_instance s)) (getInfraPropertiesConfigMapName (dst_instance s)) (dst_world s') = Inr d"
    "fst (configMap_GetComparator d r)" "dst_instance s' = dst_instance s"
    "dst_definition s' = (dst_definition s)\<lparr>sd_configMapEnvFrom := sd_configMapEnvFrom (dst_definition s) @ [getInfraPropertiesConfigMapName (dst_instance s)]\<rparr>"
proof -
  let ?K = "de_cluster E" and ?cx = "de_context E" and ?L = "de_configMapLib E" and ?inst = "dst_instance s"
  note laws = deploy_lawsD [OF assms(1)]
  obtain b where pass: "cr_resources ?K ?cx ?L ?inst (dst_world s) = (Inr b, dst_world s')"
    and s': "dst_instance s' = ?inst"
      "dst_definition s' = (dst_definition s)\<lparr>sd_configMapEnvFrom := sd_configMapEnvFrom (dst_definition s) @ [getInfraPropertiesConfigMapName ?inst]\<rparr>"
    using assms(2) by (auto simp: config_Reconcile_def split: prod.splits sum.splits)
  obtain rs where rs: "cr_createRequiredResources ?cx ?inst (dst_world s) = Inr rs" using run_requires(1) [OF pass] ..
  obtain r where r: "cr_createRequiredResources ?cx ?inst (dst_world s) = Inr [r]"
      "om_namespace (cm_meta r) = ks_namespace ?inst" "om_name (cm_meta r) = getInfraPropertiesConfigMapName ?inst" "fst (configMap_GetComparator r r)"
      "cm_data r = ss_config (ks_spec ?inst)"
    using cr_required [OF laws(1) rs] rs by blast
  have key: "om_namespace (sa_meta (cl_configMaps ?K) r) = ks_namespace ?inst" "om_name (sa_meta (cl_configMaps ?K) r) = getInfraPropertiesConfigMapName ?inst"
    using laws(2) r by (simp_all add: cluster_metas_def)
  from crs.wrote [OF laws(6) r(1) key r(4) pass] that [OF r(1) key r(5)] s' show thesis by blast
qed

lemma settles_config:
  fixes E :: "'w deploy_env"
  assumes "deploy_laws E H"
  shows "stage_settles E H {KConfigMap, KHook} {KDeployment, KService, KRoute, KHook, KResource} (config_Reconcile E)"
proof (rule stage_settlesI)
  fix s s' :: "'w deploy_state"
  let ?K = "de_cluster E" and ?cx = "de_context E" and ?L = "de_configMapLib E" and ?inst = "dst_instance s"
  note laws = deploy_lawsD [OF assms]
  assume h: "hook_of s = H" and run: "config_Reconcile E s = (Inr (), s')"
  obtain r d where r: "cr_createRequiredResources ?cx ?inst (dst_world s) = Inr [r]"
    and key: "om_namespace (sa_meta (cl_configMaps ?K) r) = ks_namespace ?inst" "om_name (sa_meta (cl_configMaps ?K) r) = getInfraPropertiesConfigMapName ?inst"
    and d: "deploy_agree E H {KConfigMap, KHook} (dst_world s) (dst_world s')"
      "sa_get (cl_configMaps ?K) (ks_namespace ?inst) (getInfraPropertiesConfigMapName ?inst) (dst_world s') = Inr d" "fst (configMap_GetComparator d r)"
    and s': "dst_instance s' = ?inst"
      "dst_definition s' = (dst_definition s)\<lparr>sd_configMapEnvFrom := sd_configMapEnvFrom (dst_definition s) @ [getInfraPropertiesConfigMapName ?inst]\<rparr>"
    by (rule config_wrote [OF assms run])
  show "hook_of s' = H \<and> deploy_agree E H {KConfigMap, KHook} (dst_world s) (dst_world s')" using d(1) h s' by simp
  fix st v
  assume v: "deploy_agree E H {KDeployment, KService, KRoute, KHook, KResource} (dst_world s') v"
  have again: "cr_createRequiredResources ?cx (with_status st ?inst) v = Inr [r]"
    using required_status(1) [of ?cx st ?inst v "dst_world s"] r by simp
  have "cr_resources ?K ?cx ?L (with_status st ?inst) v = (Inr False, v)"
    by (rule crs.quiet [OF writes_kind_laws [OF laws(6)] again _ _ _ d(3)]) (use v d(2) key in \<open>simp_all add: deploy_agree_def getInfraPropertiesConfigMapName_def\<close>)
  then show "config_Reconcile E (moved st v s) = (Inr (), moved st v s')"
    using s' by (simp add: config_Reconcile_def getInfraPropertiesConfigMapName_def moved_def)
qed

text \<open>Stages that only read.\<close>

lemma settles_reading:
  assumes "\<And>s s'. hook_of s = H \<Longrightarrow> f s = (Inr (), s') \<Longrightarrow> hook_of s' = H \<and> dst_world s' = dst_world s"
    and "\<And>s s' st v. f s = (Inr (), s') \<Longrightarrow> deploy_agree E H later (dst_world s) v \<Longrightarrow> f (moved st v s) = (Inr (), moved st v s')"
  shows "stage_settles E H {} later f"
proof (rule stage_settlesI)
  fix s s'
  assume run: "hook_of s = H" "f s = (Inr (), s')"
  note same = assms(1) [OF run]
  then show "hook_of s' = H \<and> deploy_agree E H {} (dst_world s) (dst_world s')" by simp
  fix st v
  assume "deploy_agree E H later (dst_world s') v"
  then show "f (moved st v s) = (Inr (), moved st v s')" using same by (intro assms(2) [OF run(2)]) simp
qed

lemma settles_properties_stage: "stage_settles E H {} (- {KConfigMap}) (properties_Reconcile E)"
proof (rule settles_reading)
  fix s s' st v
  assume run: "properties_Reconcile E s = (Inr (), s')" and v: "deploy_agree E H (- {KConfigMap}) (dst_world s) v"
  have "FetchConfigMap (cl_configMaps (de_cluster E)) ns n v = FetchConfigMap (cl_configMaps (de_cluster E)) ns n (dst_world s)" for ns n
    using v by (simp add: FetchConfigMap_def FetchWithKey_def deploy_agree_def)
  with run show "properties_Reconcile E (moved st v s) = (Inr (), moved st v s')"
    by (simp add: properties_Reconcile_def Let_def split: if_splits sum.splits option.splits) (auto simp: moved_def)
qed (auto simp: properties_Reconcile_def Let_def split: if_splits sum.splits option.splits)

lemma trustStore_hook:
  "mountTrustStoreFile sec def = Inr def' \<Longrightarrow> sd_onDeploymentCreate def' = sd_onDeploymentCreate def"
  "sd_onDeploymentCreate (mapTrustStorePassword sec def) = sd_onDeploymentCreate def"
  by (auto simp: mountTrustStoreFile_def mapTrustStorePassword_def split: if_splits)

lemma settles_trustStore_stage: "stage_settles E H {} UNIV (trustStore_Reconcile E)"
proof (rule settles_reading)
  fix s s' st v
  assume run: "trustStore_Reconcile E s = (Inr (), s')" and v: "deploy_agree E H UNIV (dst_world s) v"
  have "fetchAndValidateTrustStoreSecret (de_cluster E) (with_status st (dst_instance s)) v =
      fetchAndValidateTrustStoreSecret (de_cluster E) (dst_instance s) (dst_world s)"
    using v unfolding fetchAndValidateTrustStoreSecret_def FetchSecret_def FetchWithKey_def deploy_agree_def with_status_sel by simp
  with run show "trustStore_Reconcile E (moved st v s) = (Inr (), moved st v s')"
    by (auto simp: trustStore_Reconcile_def moved_def Let_def split: if_splits sum.splits)
qed (auto simp: trustStore_Reconcile_def trustStore_hook Let_def split: if_splits sum.splits)

lemma infra_loop_alike:
  assumes "\<And>ns n. H' ns n v = H' ns n w"
  shows "infra_loop C H' (with_status st inst) v names def = infra_loop C H' inst w names def"
proof (induction names arbitrary: def)
  case (Cons a names)
  have "checkInfraDependencies C H' (with_status st inst) i v = checkInfraDependencies C H' inst i w" for i
    unfolding checkInfraDependencies_def IsKogitoInfraReady_def GetKogitoInfraFailureConditionReason_def MustFetchKogitoInfraInstance_def
      with_status_sel assms ..
  then show ?case unfolding infra_loop.simps with_status_sel assms Cons.IH by (simp only:)
qed simp

lemma infra_loop_hook: "sd_onDeploymentCreate (snd (infra_loop C H' inst w names def)) = sd_onDeploymentCreate def"
  by (induction names arbitrary: def) (auto simp: bind_infra_def split: sum.split option.split)

lemma settles_infra_stage: "stage_settles E H {} UNIV (kogitoInfra_Reconcile E)"
proof (rule settles_reading)
  fix s s' st v
  assume run: "kogitoInfra_Reconcile E s = (Inr (), s')" and v: "deploy_agree E H UNIV (dst_world s) v"
  have "infra_loop C (de_infra E) (with_status st inst) v names def = infra_loop C (de_infra E) inst (dst_world s) names def" for C inst names def
    by (rule infra_loop_alike) (use v in \<open>simp add: deploy_agree_def\<close>)
  with run show "kogitoInfra_Reconcile E (moved st v s) = (Inr (), moved st v s')"
    by (auto simp: kogitoInfra_Reconcile_def moved_def split: prod.splits)
next
  fix s s'
  assume "hook_of s = H" "kogitoInfra_Reconcile E s = (Inr (), s')"
  then show "hook_of s' = H \<and> dst_world s' = dst_world s"
    using infra_loop_hook [of "de_conditions E" "de_infra E" "dst_instance s" "dst_world s" "ss_infra (ks_spec (dst_instance s))" "dst_definition s"]
    by (auto simp: kogitoInfra_Reconcile_def split: prod.splits)
qed

text \<open>A reconciler that reported no change reports none where it reads the same.\<close>

context resource_reconciler
begin

lemma quiet_again:
  assumes "reconcile w = (Inr False, w')" "required v = required w" "deployed v = deployed w"
  shows "reconcile v = (Inr False, v)"
proof -
  obtain req dep where p: "process_resources lib equal req dep w = (Inr False, w')" "required w = Inr req" "deployed w = Inr dep"
    using assms(1) by (auto simp: shape split: sum.splits)
  then have "\<not> dl_hasChanges lib (dl_compare lib equal dep req)"
    by (auto simp: process_resources_changed split: prod.splits sum.splits)
  with p assms(2,3) show ?thesis by (simp add: shape process_resources_quiet)
qed

end

lemma newImageHandler_status: "newImageHandler (with_status st inst) def = newImageHandler inst def"
  by (simp add: newImageHandler_def resolveImage_def)

lemma images_alike:
  assumes "deploy_agree E H kinds w v"
  shows "isr_createRequiredResources (de_images E) cx r v = isr_createRequiredResources (de_images E) cx r w"
    "isr_getDeployedResources (de_images E) r v = isr_getDeployedResources (de_images E) r w"
    "ResolveImage (de_images E) cx ih v = ResolveImage (de_images E) cx ih w"
proof -
  have "FetchImageStream (de_images E) ns n v = FetchImageStream (de_images E) ns n w" "ic_listOwned (de_images E) owner v = ic_listOwned (de_images E) owner w"
    "ic_getTag (de_images E) ns n v = ic_getTag (de_images E) ns n w" for ns n owner
    using assms by (simp_all add: FetchImageStream_def FetchWithKey_def deploy_agree_def)
  then show "isr_createRequiredResources (de_images E) cx r v = isr_createRequiredResources (de_images E) cx r w"
    "isr_getDeployedResources (de_images E) r v = isr_getDeployedResources (de_images E) r w"
    "ResolveImage (de_images E) cx ih v = ResolveImage (de_images E) cx ih w"
    by (simp_all add: isr_createRequiredResources_def isr_getDeployedResources_def CreateImageStreamIfNotExists_def FetchImageStreamForOwner_def
        ResolveImage_def is_ResolveImage_def validateTagStatus_def fetchTag_def FetchTag_def)
qed

text \<open>A run in which the image stream changed is reported as an error, so that in a run that succeeds it did not change.\<close>

lemma settles_imageStream_stage: "stage_settles E H {} UNIV (imageStream_stage E)"
proof (rule settles_reading)
  fix s s' :: "'a deploy_state"
  let ?r = "handler_reconciler (de_context E) (newImageHandler (dst_instance s) (dst_definition s)) (ks_meta (dst_instance s))"
  let ?go = "isr_resources (de_images E) (de_context E) (de_imageStreamLib E) ?r"
  assume run: "imageStream_stage E s = (Inr (), s')"
  have quiet: "s' = s" "ic_isOpenshift (de_images E) \<Longrightarrow> ?go (dst_world s) = (Inr False, dst_world s)"
    using run by (auto simp: imageStream_stage_def on_world_def ReconcileImageStream_def isr_Reconcile_def split: if_splits prod.splits sum.splits
        dest: isr.unchanged_without_report)
  then show "hook_of s = H \<Longrightarrow> hook_of s' = H \<and> dst_world s' = dst_world s" by simp
  fix st v
  assume v: "deploy_agree E H UNIV (dst_world s) v"
  have "ic_isOpenshift (de_images E) \<Longrightarrow> ?go v = (Inr False, v)"
    by (rule isr.quiet_again [OF quiet(2)]) (simp_all add: images_alike [OF v])
  then show "imageStream_stage E (moved st v s) = (Inr (), moved st v s')"
    by (simp add: quiet(1) imageStream_stage_def on_world_def ReconcileImageStream_def isr_Reconcile_def newImageHandler_status moved_def)
qed

lemma on_world_run: "on_world f s = (Inr (), s') \<longleftrightarrow> (\<exists>w'. f (dst_instance s) (dst_definition s) (dst_world s) = (Inr (), w') \<and> s' = s\<lparr>dst_world := w'\<rparr>)"
  by (auto simp: on_world_def split: prod.splits)

lemma moved_world: "moved st v (s\<lparr>dst_world := w\<rparr>) = moved st v s" "(moved st v s)\<lparr>dst_world := v\<rparr> = moved st v s"
  by (simp_all add: moved_def)

lemma service_wrote:
  fixes E :: "'w deploy_env" and s s' :: "'w deploy_state"
  assumes "deploy_laws E H" "service_Reconcile E s = (Inr (), s')"
  obtains r d where "sr_createRequiredResources (de_context E) (dst_instance s) (dst_world s) = Inr [r]"
    "om_namespace (sa_meta (cl_services (de_cluster E)) r) = ks_namespace (dst_instance s)" "om_name (sa_meta (cl_services (de_cluster E)) r) = ks_name (dst_instance s)"
    "deploy_agree E H {KService} (dst_world s) (dst_world s')"
    "sa_get (cl_services (de_cluster E)) (ks_namespace (dst_instance s)) (ks_name (dst_instance s)) (dst_world s') = Inr d"
    "fst (service_GetComparator (de_servicesEqual E) d r)" "s' = s\<lparr>dst_world := dst_world s'\<rparr>"
proof -
  let ?K = "de_cluster E" and ?cx = "de_context E" and ?L = "de_serviceLib E" and ?eq = "de_servicesEqual E" and ?inst = "dst_instance s"
  note laws = deploy_lawsD [OF assms(1)]
  obtain b w' where pass: "sr_resources ?K ?cx ?L ?eq ?inst (dst_world s) = (Inr b, w')" and s': "s' = s\<lparr>dst_world := w'\<rparr>"
    using assms(2) by (auto simp: service_Reconcile_def on_world_run bindS_eq_Inr returnS_def)
  obtain rs where rs: "sr_createRequiredResources ?cx ?inst (dst_world s) = Inr rs" using run_requires(2) [OF pass] ..
  obtain r where r: "sr_createRequiredResources ?cx ?inst (dst_world s) = Inr [r]"
      "om_namespace (svc_meta r) = ks_namespace ?inst" "om_name (svc_meta r) = ks_name ?inst" "fst (service_GetComparator ?eq r r)"
    using sr_required [where servicesEqual = ?eq, OF laws(1,3) rs] rs by blast
  have key: "om_namespace (sa_meta (cl_services ?K) r) = ks_namespace ?inst" "om_name (sa_meta (cl_services ?K) r) = ks_name ?inst"
    using laws(2) r by (simp_all add: cluster_metas_def)
  from srs.wrote [OF laws(8) r(1) key r(4) pass] that [OF r(1) key] s' show thesis by auto
qed

lemma settles_service_stage:
  fixes E :: "'w deploy_env"
  assumes "deploy_laws E H"
  shows "stage_settles E H {KService} (- {KService}) (service_Reconcile E)"
proof (rule stage_settlesI)
  fix s s' :: "'w deploy_state"
  let ?K = "de_cluster E" and ?cx = "de_context E" and ?L = "de_serviceLib E" and ?eq = "de_servicesEqual E" and ?inst = "dst_instance s"
  note laws = deploy_lawsD [OF assms]
  assume h: "hook_of s = H" and run: "service_Reconcile E s = (Inr (), s')"
  obtain r d where r: "sr_createRequiredResources ?cx ?inst (dst_world s) = Inr [r]"
    and key: "om_namespace (sa_meta (cl_services ?K) r) = ks_namespace ?inst" "om_name (sa_meta (cl_services ?K) r) = ks_name ?inst"
    and d: "deploy_agree E H {KService} (dst_world s) (dst_world s')"
      "sa_get (cl_services ?K) (ks_namespace ?inst) (ks_name ?inst) (dst_world s') = Inr d" "fst (service_GetComparator ?eq d r)"
    and s': "s' = s\<lparr>dst_world := dst_world s'\<rparr>"
    by (rule service_wrote [OF assms run])
  have h': "hook_of s' = hook_of s" by (subst s') simp
  show "hook_of s' = H \<and> deploy_agree E H {KService} (dst_world s) (dst_world s')" using d(1) h h' by simp
  fix st v
  assume v: "deploy_agree E H (- {KService}) (dst_world s') v"
  have again: "sr_createRequiredResources ?cx (with_status st ?inst) v = Inr [r]"
    using required_status(2) [of ?cx st ?inst v "dst_world s"] r by simp
  have "sr_resources ?K ?cx ?L ?eq (with_status st ?inst) v = (Inr False, v)"
    by (rule srs.quiet [OF writes_kind_laws [OF laws(8)] again _ _ _ d(3)]) (use v d(2) key in \<open>simp_all add: deploy_agree_def\<close>)
  moreover have "moved st v s' = moved st v s" by (subst s') (rule moved_world)
  ultimately show "service_Reconcile E (moved st v s) = (Inr (), moved st v s')"
    by (simp add: service_Reconcile_def on_world_def bindS_def returnS_def moved_world)
qed

text \<open>An error of the route is dropped; where routes are accepted there is none.\<close>

definition route_stage :: "'w deploy_env \<Rightarrow> 'w stage" where
  "route_stage E s = (Inr (), snd (route_Reconcile E s))"

definition routes_accepted :: "'w deploy_env \<Rightarrow> bool" where
  "routes_accepted E \<longleftrightarrow> (\<forall>inst w. cl_isOpenshift (de_cluster E) \<longrightarrow> \<not> ss_disableRoute (ks_spec inst) \<longrightarrow>
     (\<exists>b w'. rr_resources (de_cluster E) (de_context E) (de_routeLib E) inst w = (Inr b, w')))"

lemma route_wrote:
  fixes E :: "'w deploy_env" and s :: "'w deploy_state"
  assumes "deploy_laws E H" "routes_accepted E" "cl_isOpenshift (de_cluster E)" "\<not> ss_disableRoute (ks_spec (dst_instance s))" "route_stage E s = (Inr (), s')"
  obtains r d where "rr_createRequiredResources (de_context E) (dst_instance s) (dst_world s) = Inr [r]"
    "om_namespace (sa_meta (cl_routes (de_cluster E)) r) = ks_namespace (dst_instance s)" "om_name (sa_meta (cl_routes (de_cluster E)) r) = ks_name (dst_instance s)"
    "deploy_agree E H {KRoute} (dst_world s) (dst_world s')"
    "sa_get (cl_routes (de_cluster E)) (ks_namespace (dst_instance s)) (ks_name (dst_instance s)) (dst_world s') = Inr d"
    "fst (route_GetComparator d r)" "s' = s\<lparr>dst_world := dst_world s'\<rparr>"
proof -
  let ?K = "de_cluster E" and ?cx = "de_context E" and ?L = "de_routeLib E" and ?inst = "dst_instance s"
  note laws = deploy_lawsD [OF assms(1)]
  obtain b w' where pass: "rr_resources ?K ?cx ?L ?inst (dst_world s) = (Inr b, w')"
    using assms(2) [unfolded routes_accepted_def, rule_format, of ?inst "dst_world s"] assms(3,4) by blast
  then have s': "s' = s\<lparr>dst_world := w'\<rparr>"
    using assms(3-5) by (simp add: route_stage_def route_Reconcile_def on_world_def bindS_def returnS_def)
  obtain rs where rs: "rr_createRequiredResources ?cx ?inst (dst_world s) = Inr rs" using run_requires(3) [OF pass] ..
  obtain r where r: "rr_createRequiredResources ?cx ?inst (dst_world s) = Inr [r]"
      "om_namespace (rt_meta r) = ks_namespace ?inst" "om_name (rt_meta r) = ks_name ?inst" "fst (route_GetComparator r r)"
    using rr_required [OF laws(1) rs] rs by blast
  have key: "om_namespace (sa_meta (cl_routes ?K) r) = ks_namespace ?inst" "om_name (sa_meta (cl_routes ?K) r) = ks_name ?inst"
    using laws(2) r by (simp_all add: cluster_metas_def)
  from rrs.wrote [OF laws(9) r(1) key r(4) pass] that [OF r(1) key] s' show thesis by auto
qed

lemma settles_route_stage:
  fixes E :: "'w deploy_env"
  assumes "deploy_laws E H" "routes_accepted E"
  shows "stage_settles E H {KRoute} (- {KRoute}) (route_stage E)"
proof (rule stage_settlesI)
  fix s s' :: "'w deploy_state"
  let ?K = "de_cluster E" and ?cx = "de_context E" and ?L = "de_routeLib E" and ?inst = "dst_instance s"
  let ?on = "cl_isOpenshift ?K \<and> \<not> ss_disableRoute (ks_spec ?inst)"
  note laws = deploy_lawsD [OF assms(1)]
  assume h: "hook_of s = H" and run: "route_stage E s = (Inr (), s')"
  have off: "\<not> ?on \<Longrightarrow> route_stage E (moved st v s) = (Inr (), moved st v s)" "\<not> ?on \<Longrightarrow> s' = s" for st v
    using run by (auto simp: route_stage_def route_Reconcile_def on_world_def moved_world)
  have on: "deploy_agree E H {KRoute} (dst_world s) (dst_world s') \<and> s' = s\<lparr>dst_world := dst_world s'\<rparr>
      \<and> (\<forall>st v. deploy_agree E H (- {KRoute}) (dst_world s') v \<longrightarrow> route_stage E (moved st v s) = (Inr (), moved st v s))" if act: ?on
  proof -
    obtain r d where r: "rr_createRequiredResources ?cx ?inst (dst_world s) = Inr [r]"
      and key: "om_namespace (sa_meta (cl_routes ?K) r) = ks_namespace ?inst" "om_name (sa_meta (cl_routes ?K) r) = ks_name ?inst"
      and d: "deploy_agree E H {KRoute} (dst_world s) (dst_world s')"
        "sa_get (cl_routes ?K) (ks_namespace ?inst) (ks_name ?inst) (dst_world s') = Inr d" "fst (route_GetComparator d r)"
      and s': "s' = s\<lparr>dst_world := dst_world s'\<rparr>"
      by (rule route_wrote [OF assms conjunct1 [OF act] conjunct2 [OF act] run])
    have "rr_resources ?K ?cx ?L (with_status st ?inst) v = (Inr False, v)" if v: "deploy_agree E H (- {KRoute}) (dst_world s') v" for st v
    proof -
      have again: "rr_createRequiredResources ?cx (with_status st ?inst) v = Inr [r]"
        using required_status(3) [of ?cx st ?inst v "dst_world s"] r by simp
      show ?thesis
        by (rule rrs.quiet [OF writes_kind_laws [OF laws(9)] again _ _ _ d(3)]) (use v d(2) key in \<open>simp_all add: deploy_agree_def\<close>)
    qed
    with act have "\<forall>st v. deploy_agree E H (- {KRoute}) (dst_world s') v \<longrightarrow> route_stage E (moved st v s) = (Inr (), moved st v s)"
      by (simp add: route_stage_def route_Reconcile_def on_world_def bindS_def returnS_def moved_world)
    with d(1) s' show ?thesis by (intro conjI)
  qed
  show "hook_of s' = H \<and> deploy_agree E H {KRoute} (dst_world s) (dst_world s')"
    using on off(2) h by (cases ?on) (auto, metis deploy_state.select_convs(2) deploy_state.surjective deploy_state.update_convs(3))
  fix st v
  assume "deploy_agree E H (- {KRoute}) (dst_world s') v"
  then show "route_stage E (moved st v s) = (Inr (), moved st v s')"
    using on off by (cases ?on) (metis moved_world(1), simp)
qed

text \<open>Monitoring and messaging have nothing to do where the monitoring operators are not installed and no infra is a broker.\<close>

definition nothing_to_connect :: "'w deploy_env \<Rightarrow> bool" where
  "nothing_to_connect E \<longleftrightarrow> \<not> isPrometheusAvailable (de_monitoring E) \<and> \<not> isGrafanaAvailable (de_monitoring E)
     \<and> (\<forall>ns n w i. de_infra E ns n w = Inr (Some i) \<longrightarrow> \<not> IsKafkaInfra i \<and> \<not> isKnativeEventingInfra (messaging_of E) i)"

lemma find_infra_none:
  assumes "\<And>ns n w i. H' ns n w = Inr (Some i) \<Longrightarrow> \<not> check i"
  shows "find_infra H' ns check names w \<noteq> Inr (Some i)"
  using assms by (induction names) (auto simp: MustFetchKogitoInfraInstance_def bindR_eq_Inr split: option.splits)

lemma find_infra_alike:
  assumes "\<And>ns n. H' ns n v = H' ns n w"
  shows "find_infra H' ns check names v = find_infra H' ns check names w"
proof (induction names)
  case (Cons n names)
  show ?case unfolding find_infra.simps MustFetchKogitoInfraInstance_def assms Cons.IH ..
qed simp

lemma on_instance_idle:
  assumes "\<And>t. snd (f t) = t"
  shows "snd (on_instance f s) = s"
  using assms [of "(dst_instance s, dst_world s)"] by (cases "f (dst_instance s, dst_world s)") (simp add: on_instance_def)

lemma messaging_idle:
  fixes E :: "'a deploy_env"
  assumes "nothing_to_connect E"
  shows "snd (configureMessaging E s) = s"
proof -
  have "fetchInfraDependency (messaging_of E) inst IsKafkaInfra w \<noteq> Inr (Some i)"
    "fetchInfraDependency (messaging_of E) inst (isKnativeEventingInfra (messaging_of E)) w \<noteq> Inr (Some i)" for inst w i
    unfolding fetchInfraDependency_def using assms by (intro find_infra_none; auto simp: nothing_to_connect_def messaging_of_def)+
  then have "snd (kafka_CreateRequiredResources (messaging_of E) t) = t" "snd (knative_CreateRequiredResources (messaging_of E) t) = t" for t
    by (auto simp: kafka_CreateRequiredResources_def knative_CreateRequiredResources_def split: sum.split option.split)
  note idle = on_instance_idle [of "kafka_CreateRequiredResources (messaging_of E)", OF this(1)]
    on_instance_idle [of "knative_CreateRequiredResources (messaging_of E)", OF this(2)]
  have err: "snd (map_error h r) = snd r" for h :: "gerr \<Rightarrow> gerr" and r :: "(gerr + unit) \<times> 'a deploy_state"
    by (simp add: map_error_def split: prod.split sum.split)
  have "snd (bindS f (\<lambda>_. g) s) = s" if "\<And>t. snd (f t) = t" "\<And>t. snd (g t) = t" for f g :: "'a stage"
    using that(1) [of s] that(2) by (cases "f s") (simp add: bindS_def split: sum.split)
  then show ?thesis unfolding configureMessaging_def by (simp add: err idle)
qed

lemma settles_connecting:
  fixes E :: "'w deploy_env"
  assumes "nothing_to_connect E"
  shows "stage_settles E H {} UNIV (bindS (configureMonitoring E) (\<lambda>_. configureMessaging E))"
proof -
  have mon: "configureMonitoring E s = (Inr (), s)" for s
    using assms by (simp add: nothing_to_connect_def configureMonitoring_def on_world_def ConfigurePrometheus_def ConfigureGrafanaDashboards_def
        bindS_def map_error_def)
  let ?find = "\<lambda>inst check w. fetchInfraDependency (messaging_of E) inst check w"
  have none: "?find inst IsKafkaInfra w \<noteq> Inr (Some i)" "?find inst (isKnativeEventingInfra (messaging_of E)) w \<noteq> Inr (Some i)" for inst w i
    unfolding fetchInfraDependency_def using assms by (intro find_infra_none; auto simp: nothing_to_connect_def messaging_of_def)+
  have msg: "configureMessaging E s = (Inr (), s') \<longleftrightarrow> s' = s \<and> (\<exists>x y. ?find (dst_instance s) IsKafkaInfra (dst_world s) = Inr x
      \<and> ?find (dst_instance s) (isKnativeEventingInfra (messaging_of E)) (dst_world s) = Inr y)" for s s'
    using none [of "dst_instance s" "dst_world s"]
    by (auto simp: configureMessaging_def on_instance_def kafka_CreateRequiredResources_def knative_CreateRequiredResources_def bindS_def map_error_def
        split: sum.splits option.splits prod.splits)
  show ?thesis
  proof (rule settles_reading)
    fix s s' :: "'w deploy_state" and st v
    assume run: "bindS (configureMonitoring E) (\<lambda>_. configureMessaging E) s = (Inr (), s')" and v: "deploy_agree E H UNIV (dst_world s) v"
    have "?find (with_status st (dst_instance s)) check v = ?find (dst_instance s) check (dst_world s)" for check
      unfolding fetchInfraDependency_def with_status_sel by (rule find_infra_alike) (use v in \<open>simp add: deploy_agree_def messaging_of_def\<close>)
    with run show "bindS (configureMonitoring E) (\<lambda>_. configureMessaging E) (moved st v s) = (Inr (), moved st v s')"
      by (simp add: bindS_def mon msg)
  qed (simp add: bindS_def mon msg)
qed

text \<open>The required deployment and the instance that is left in memory do not depend on the status.\<close>

lemma cap_replicas_status: "cap_replicas def (with_status st svc) = map_sum id (with_status st) (cap_replicas def svc)"
  by (simp add: cap_replicas_def split: option.split)

lemma CreateDeployment_status:
  "CreateDeployment cx sm (with_status st svc) img def = map_sum id (map_prod (with_status st) id) (CreateDeployment cx sm svc img def)"
proof -
  have "getProbeForKogitoService (with_status st s) = getProbeForKogitoService s" "base_deployment cx (with_status st s) img = base_deployment cx s img"
    "with_app_label (with_status st s) = with_status st (with_app_label s)" for s
    by (simp_all add: getProbeForKogitoService_def base_deployment_def with_app_label_def service_labels_with_app_def Let_def)
  then show ?thesis
    by (cases "cap_replicas def svc") (auto simp: CreateDeployment_def cap_replicas_status bindR_def split: sum.split)
qed

lemma dr_required_status:
  "dr_createRequiredResources K cx sm ih (with_status st svc) def img w = dr_createRequiredResources K cx sm ih svc def img w"
proof -
  have "onDeploymentCreate K cx ih (with_status st s) def d w = onDeploymentCreate K cx ih s def d w"
    "mountEnvsOnDeployment (with_status st s) def d = mountEnvsOnDeployment s def d" for s d
    unfolding onDeploymentCreate_def mountEnvsOnDeployment_def with_status_sel by (rule refl)+
  then show ?thesis
    by (cases "CreateDeployment cx sm svc img def") (auto simp: dr_createRequiredResources_def CreateDeployment_status)
qed

lemma dr_instance_status: "dr_instance IK cx ih (with_status st svc) def w = with_status st (dr_instance IK cx ih svc def w)"
  by (simp add: dr_instance_def cap_replicas_status split: sum.split)

lemma deployment_wrote:
  fixes E :: "'w deploy_env" and s s' :: "'w deploy_state"
  defines "ih \<equiv> newImageHandler (dst_instance s) (dst_definition s)"
  assumes "deploy_laws E H" "hook_of s = H" "deployment_stage E s = (Inr (), s')"
  obtains img r d where "ResolveImage (de_images E) (de_context E) ih (dst_world s) = Inr img" "img \<noteq> []"
    "dr_createRequiredResources (de_cluster E) (de_context E) (de_serverMinor E) ih (dst_instance s) (dst_definition s) img (dst_world s) = Inr [r]"
    "om_namespace (sa_meta (cl_deployments (de_cluster E)) r) = ks_namespace (dst_instance s)"
    "om_name (sa_meta (cl_deployments (de_cluster E)) r) = ks_name (dst_instance s)"
    "deploy_agree E H {KDeployment} (dst_world s) (dst_world s')"
    "sa_get (cl_deployments (de_cluster E)) (ks_namespace (dst_instance s)) (ks_name (dst_instance s)) (dst_world s') = Inr d"
    "fst (deployment_GetComparator (de_deploymentLib E) d r)"
    "s' = s\<lparr>dst_world := dst_world s', dst_instance := dr_instance (de_images E) (de_context E) ih (dst_instance s) (dst_definition s) (dst_world s)\<rparr>"
proof -
  let ?K = "de_cluster E" and ?cx = "de_context E" and ?L = "de_deploymentLib E" and ?inst = "dst_instance s" and ?def = "dst_definition s"
  let ?w = "dst_world s"
  note laws = deploy_lawsD [OF assms(2)]
  obtain img b where img: "ResolveImage (de_images E) ?cx ih ?w = Inr img" "img \<noteq> []"
    and pass: "dr_resources ?K ?cx ?L (de_serverMinor E) ih ?inst ?def img ?w = (Inr b, dst_world s')"
    and s': "s' = s\<lparr>dst_world := dst_world s', dst_instance := dr_instance (de_images E) ?cx ih ?inst ?def ?w\<rparr>"
    using assms(4) unfolding ih_def
    by (auto simp: deployment_stage_def dr_Reconcile_def Let_def bindS_def returnS_def split: sum.splits if_splits prod.splits)
  obtain rs where rs: "dr_createRequiredResources ?K ?cx (de_serverMinor E) ih ?inst ?def img ?w = Inr rs"
    using pass by (auto simp: dr_resources_def split: sum.splits)
  obtain r where r: "dr_createRequiredResources ?K ?cx (de_serverMinor E) ih ?inst ?def img ?w = Inr [r]"
      "om_namespace (dep_meta r) = ks_namespace ?inst" "om_name (dep_meta r) = ks_name ?inst"
    using dr_required_key [OF laws(1) laws(5) [OF assms(3)] rs] rs by blast
  note refl = deployment_comparator_refl [OF laws(4)]
  have key: "om_namespace (sa_meta (cl_deployments ?K) r) = ks_namespace ?inst" "om_name (sa_meta (cl_deployments ?K) r) = ks_name ?inst"
    using laws(2) r by (simp_all add: cluster_metas_def)
  obtain d where d: "deploy_agree E H {KDeployment} ?w (dst_world s')"
      "sa_get (cl_deployments ?K) (ks_namespace ?inst) (ks_name ?inst) (dst_world s') = Inr d" "fst (deployment_GetComparator ?L d r)"
    using drs.wrote [OF laws(7) r(1) key refl pass] by blast
  show thesis by (rule that [OF img r(1) key d s'])
qed

lemma settles_deployment_stage:
  fixes E :: "'w deploy_env"
  assumes "deploy_laws E H"
  shows "stage_settles E H {KDeployment} {KService, KRoute, KResource} (deployment_stage E)"
proof (rule stage_settlesI)
  fix s s' :: "'w deploy_state"
  let ?K = "de_cluster E" and ?cx = "de_context E" and ?L = "de_deploymentLib E" and ?inst = "dst_instance s" and ?def = "dst_definition s"
  let ?ih = "newImageHandler ?inst ?def" and ?w = "dst_world s"
  note laws = deploy_lawsD [OF assms]
  assume h: "hook_of s = H" and run: "deployment_stage E s = (Inr (), s')"
  obtain img r d where img: "ResolveImage (de_images E) ?cx ?ih ?w = Inr img" "img \<noteq> []"
    and r: "dr_createRequiredResources ?K ?cx (de_serverMinor E) ?ih ?inst ?def img ?w = Inr [r]"
    and key: "om_namespace (sa_meta (cl_deployments ?K) r) = ks_namespace ?inst" "om_name (sa_meta (cl_deployments ?K) r) = ks_name ?inst"
    and d: "deploy_agree E H {KDeployment} ?w (dst_world s')"
      "sa_get (cl_deployments ?K) (ks_namespace ?inst) (ks_name ?inst) (dst_world s') = Inr d" "fst (deployment_GetComparator ?L d r)"
    and s': "s' = s\<lparr>dst_world := dst_world s', dst_instance := dr_instance (de_images E) ?cx ?ih ?inst ?def ?w\<rparr>"
    by (rule deployment_wrote [OF assms h run])
  have def': "dst_definition s' = ?def" by (subst s') simp
  then show "hook_of s' = H \<and> deploy_agree E H {KDeployment} ?w (dst_world s')" using d(1) h by simp
  fix st v
  assume v: "deploy_agree E H {KService, KRoute, KResource} (dst_world s') v"
  have wv: "deploy_agree E H {KDeployment, KService, KRoute, KResource} ?w v"
    by (rule deploy_agree_mono [OF deploy_agree_trans [OF d(1) v]]) simp
  then have "reads_alike ?K ?def ?w v" using h by (simp add: reads_alike_def deploy_agree_def)
  note again = r [folded required_alike [OF this]]
  have same: "ResolveImage (de_images E) ?cx ?ih v = Inr img" using img images_alike(3) [OF wv] by simp
  have "dr_resources ?K ?cx ?L (de_serverMinor E) ?ih (with_status st ?inst) ?def img v = (Inr False, v)"
    by (rule drs.quiet [where r = r, OF writes_kind_laws [OF laws(7)] _ _ _ _ d(3)])
      (use v d(2) key again in \<open>simp_all add: deploy_agree_def dr_required_status\<close>)
  moreover have "dr_instance (de_images E) ?cx ?ih (with_status st ?inst) ?def v = with_status st (dst_instance s')"
    by (subst s') (simp add: dr_instance_status, simp add: dr_instance_def same img)
  ultimately show "deployment_stage E (moved st v s) = (Inr (), moved st v s')"
    using same img(2) def' by (simp add: deployment_stage_def dr_Reconcile_def newImageHandler_status Let_def bindS_def returnS_def moved_def)
qed

end
