(* ===== verification/Status_Settles.thy ===== *)
theory Status_Settles
  imports Service_Status
begin

text \<open>
  The status of a service reproduces itself.  Each step of \<^verbatim>\<open>HandleStatusUpdate\<close> after a run without error sets some fields of the status
  from what is deployed; on a status that has these fields already it changes nothing.
\<close>

text \<open>What \<^verbatim>\<open>meta.SetStatusCondition\<close> documents besides: a condition that is there with the same content stays as it is, its time included.\<close>

definition cond_stable :: "cond_api \<Rightarrow> bool" where
  "cond_stable C \<longleftrightarrow> (\<forall>c c' cs. ca_find C cs (cd_type c) = Some c' \<longrightarrow> same_content c' c \<longrightarrow> ca_set C c cs = cs)"

lemma ca_set_again:
  assumes "cond_laws C" "cond_stable C"
  shows "ca_set C c (ca_set C c cs) = ca_set C c cs"
  using assms unfolding cond_laws_def cond_stable_def by meson

text \<open>Setting a condition that later settings of other types left alone.\<close>

lemma ca_set_kept:
  assumes "cond_stable C" "ca_find C cs (cd_type c) = ca_find C (ca_set C c ds) (cd_type c)" "cond_laws C"
  shows "ca_set C c cs = cs"
  using assms unfolding cond_laws_def cond_stable_def by metis

lemma list_cond_stable: "cond_stable list_cond_api"
proof -
  have "find (\<lambda>d. cd_type d = cd_type c) cs = Some c' \<Longrightarrow> same_content c' c \<Longrightarrow> list_set_cond c cs = cs" for c c' cs
    by (induction cs) (auto simp: same_content_def split: if_splits)
  then show ?thesis by (simp add: cond_stable_def)
qed

section \<open>The conditions\<close>

definition invalidated :: "cond_api \<Rightarrow> condition list \<Rightarrow> condition list" where
  "invalidated C cs = (case ca_find C cs FailedConditionType of None \<Rightarrow> cs
     | Some c \<Rightarrow> ca_set C (newFailedCondition CFalse (cd_reason c) (cd_message c)) cs)"

definition provisioned :: "cond_api \<Rightarrow> cond_status \<Rightarrow> cond_status \<Rightarrow> string \<Rightarrow> condition list \<Rightarrow> condition list" where
  "provisioned C deployed provisioning reason cs =
     ca_set C (newProvisioningCondition provisioning reason) (ca_set C (newDeployedCondition deployed) cs)"

lemma new_types [simp]:
  "cd_type (newFailedCondition s r m) = FailedConditionType" "cd_type (newDeployedCondition s) = DeployedConditionType"
  "cd_type (newProvisioningCondition s r) = ProvisioningConditionType"
  by (simp_all add: newFailedCondition_def newDeployedCondition_def newProvisioningCondition_def mk_cond_def)

lemma find_other: "cond_laws C \<Longrightarrow> t \<noteq> cd_type c \<Longrightarrow> ca_find C (ca_set C c cs) t = ca_find C cs t"
  by (simp add: cond_laws_def)

lemma invalidated_kept:
  assumes "cond_laws C" "cond_stable C" "ca_find C cs FailedConditionType = ca_find C (invalidated C ds) FailedConditionType"
  shows "invalidated C cs = cs"
proof (cases "ca_find C ds FailedConditionType")
  case None
  with assms(3) show ?thesis by (simp add: invalidated_def)
next
  case (Some c)
  let ?f = "newFailedCondition CFalse (cd_reason c) (cd_message c)"
  have "ca_find C (ca_set C ?f ds) (cd_type ?f) = ca_find C cs (cd_type ?f)" using assms(3) Some by (simp add: invalidated_def)
  moreover obtain f' where f': "ca_find C (ca_set C ?f ds) (cd_type ?f) = Some f'" "same_content f' ?f"
    using assms(1) unfolding cond_laws_def by blast
  ultimately have find: "ca_find C cs FailedConditionType = Some f'" by simp
  have "same_content f' (newFailedCondition CFalse (cd_reason f') (cd_message f'))"
    using f'(2) by (simp add: same_content_def newFailedCondition_def mk_cond_def)
  with find assms(2) show ?thesis by (auto simp: invalidated_def cond_stable_def)
qed

lemma provisioned_kept:
  assumes "cond_laws C" "cond_stable C"
  shows "provisioned C d p r (provisioned C d p r cs) = provisioned C d p r cs"
proof -
  let ?d = "newDeployedCondition d" and ?p = "newProvisioningCondition p r"
  have "ca_set C ?d (ca_set C ?p (ca_set C ?d cs)) = ca_set C ?p (ca_set C ?d cs)"
    by (rule ca_set_kept [OF assms(2) _ assms(1)]) (simp add: find_other [OF assms(1)])
  then show ?thesis by (simp add: provisioned_def ca_set_again [OF assms])
qed

lemma invalidated_provisioned:
  assumes "cond_laws C" "cond_stable C"
  shows "invalidated C (provisioned C d p r (invalidated C cs)) = provisioned C d p r (invalidated C cs)" "invalidated C (invalidated C cs) = invalidated C cs"
  by (rule invalidated_kept [OF assms, of _ cs]; simp add: provisioned_def find_other [OF assms(1)])+

section \<open>The steps\<close>

definition set_conditions :: "condition list \<Rightarrow> kogito_service \<Rightarrow> kogito_service" where
  "set_conditions cs = map_status (\<lambda>st. st\<lparr>st_conditions := Some cs\<rparr>)"

lemma map_status_same: "f (ks_status j) = ks_status j \<Longrightarrow> map_status f j = j"
  by (simp add: map_status_def)

text \<open>The transition of conditions as a function of the conditions, for the replicas that are available and expected.\<close>

definition transition :: "cond_api \<Rightarrow> int \<Rightarrow> int \<Rightarrow> condition list \<Rightarrow> condition list" where
  "transition C expected available cs =
     (if expected = available then provisioned C CTrue CFalse FinishedProvisioningReason (invalidated C cs)
      else if available > 0 \<and> available < expected then provisioned C CTrue CTrue ProvisioningInProgressReason (invalidated C cs)
      else if available = 0 then provisioned C CFalse CTrue ProvisioningInProgressReason (invalidated C cs)
      else invalidated C cs)"

lemma transition_again:
  "cond_laws C \<Longrightarrow> cond_stable C \<Longrightarrow> transition C m n (transition C m n cs) = transition C m n cs"
  by (simp add: transition_def invalidated_provisioned provisioned_kept)

lemma handle_transition:
  assumes "st_conditions (ks_status j) = Some cs"
  shows "handleConditionTransition K C w j = (Inr (), j') \<longleftrightarrow>
     (\<exists>m n. FetchReadyReplicas K (ks_namespace j) (ks_name j) w = Inr n \<and> ss_replicas (ks_spec j) = Some m \<and> j' = set_conditions (transition C m n cs) j)"
proof -
  have inv: "InvalidateFailedCondition C j = set_conditions (invalidated C cs) j"
    using assms by (auto simp: InvalidateFailedCondition_def invalidated_def set_conditions_def setFailed_def map_conditions_def conditions_of_def
        intro: map_status_same [symmetric] split: option.split)
  have prov: "setProvisioning C p r (setDeployed C d (set_conditions ds j)) = set_conditions (provisioned C d p r ds) j" for d p r ds
    by (simp add: set_conditions_def provisioned_def setProvisioning_def setDeployed_def map_conditions_def conditions_of_def map_status_def)
  have sel: "ks_spec (set_conditions ds j) = ks_spec j" "ks_meta (set_conditions ds j) = ks_meta j" for ds
    by (simp_all add: set_conditions_def)
  show ?thesis unfolding handleConditionTransition_def inv prov Let_def fetchReadyReplicas_def sel transition_def
    by (cases "FetchReadyReplicas K (ks_namespace j) (ks_name j) w"; cases "ss_replicas (ks_spec j)") auto
qed

text \<open>The other steps: what they leave, and that they leave it again.\<close>

lemma image_step:
  assumes "updateImageStatus K w j = (Inr (), j')"
  shows "\<exists>x. j' = map_status (\<lambda>st. st\<lparr>st_image := x\<rparr>) j \<and> (\<forall>i. ks_meta i = ks_meta j \<longrightarrow> st_image (ks_status i) = x \<longrightarrow> updateImageStatus K w i = (Inr (), i))"
proof (cases "\<exists>d c cs. FetchDeployment K (ks_namespace j) (ks_name j) w = Inr (Some d) \<and> ps_containers (pt_spec (dep_template d)) = c # cs")
  case True
  then obtain d c cs where d: "FetchDeployment K (ks_namespace j) (ks_name j) w = Inr (Some d)" "ps_containers (pt_spec (dep_template d)) = c # cs"
    by blast
  with assms show ?thesis by (intro exI [of _ "c_image c"]) (auto simp: updateImageStatus_def intro!: map_status_same)
next
  case False
  with assms have "j' = j" "\<And>i. ks_meta i = ks_meta j \<Longrightarrow> updateImageStatus K w i = (Inr (), i)"
    by (auto simp: updateImageStatus_def split: sum.splits option.splits list.splits)
  then show ?thesis by (intro exI [of _ "st_image (ks_status j)"]) (simp add: map_status_same)
qed

lemma deployment_step:
  assumes "updateDeploymentStatus K w j = (Inr (), j')"
  shows "\<exists>x. j' = map_status (\<lambda>st. st\<lparr>st_deploymentConditions := x\<rparr>) j
     \<and> (\<forall>i. ks_meta i = ks_meta j \<longrightarrow> st_deploymentConditions (ks_status i) = x \<longrightarrow> updateDeploymentStatus K w i = (Inr (), i))"
proof (cases "\<exists>d. FetchDeployment K (ks_namespace j) (ks_name j) w = Inr (Some d)")
  case True
  then obtain d where "FetchDeployment K (ks_namespace j) (ks_name j) w = Inr (Some d)" by blast
  with assms show ?thesis by (intro exI [of _ "ds_conditions (dep_status d)"]) (auto simp: updateDeploymentStatus_def intro!: map_status_same)
next
  case False
  with assms have "j' = j" "\<And>i. ks_meta i = ks_meta j \<Longrightarrow> updateDeploymentStatus K w i = (Inr (), i)"
    by (auto simp: updateDeploymentStatus_def split: sum.splits option.splits)
  then show ?thesis by (intro exI [of _ "st_deploymentConditions (ks_status j)"]) (simp add: map_status_same)
qed

text \<open>On OpenShift the step sets one condition or none, and the address when the route has a host.\<close>

definition route_effect :: "(condition list \<Rightarrow> condition list) \<Rightarrow> string option \<Rightarrow> service_status \<Rightarrow> service_status" where
  "route_effect g u st = st\<lparr>st_routeConditions := Some (g (case st_routeConditions st of None \<Rightarrow> [] | Some cs \<Rightarrow> cs)),
     st_externalURI := (case u of None \<Rightarrow> st_externalURI st | Some x \<Rightarrow> x)\<rparr>"

lemma route_step_effect:
  assumes "updateRouteStatus K C w j = (Inr (), j')" "cl_isOpenshift K"
  shows "\<exists>g u. (g = id \<or> (\<exists>c. g = ca_set C c)) \<and> (\<forall>i. ks_meta i = ks_meta j \<longrightarrow> ks_spec i = ks_spec j \<longrightarrow>
     updateRouteStatus K C w i = (Inr (), map_status (route_effect g u) i))"
proof -
  let ?base = "map_status (\<lambda>st. st\<lparr>st_routeConditions := Some (case st_routeConditions st of None \<Rightarrow> [] | Some cs \<Rightarrow> cs)\<rparr>)"
  have eff: "set_route_condition C c (map_status (route_effect id None) i) = map_status (route_effect (ca_set C c) None) i" "?base i = map_status (route_effect id None) i"
    "map_status (\<lambda>st. st\<lparr>st_externalURI := x\<rparr>) (map_status (route_effect g None) i) = map_status (route_effect g (Some x)) i" for c i x g
    by (simp_all add: set_route_condition_def route_effect_def map_status_def)
  have run: "updateRouteStatus K C w i = (if ss_disableRoute (ks_spec i) then
        (Inr (), map_status (route_effect (ca_set C (newFailedCondition CFalse ''RouteProcessed'' ''Routes are disabled.'')) None) i)
      else (case ValidateRouteStatus K (ks_namespace i) (ks_name i) w of
          Inl e \<Rightarrow> (Inr (), map_status (route_effect (ca_set C (newFailedCondition CTrue (GetReasonForError (Some (ErrorForRouteCreation e)))
             (error_message (ErrorForRouteCreation e)))) None) i)
        | Inr isAdmitted \<Rightarrow>
            (let g = (if isAdmitted then ca_set C (newFailedCondition CFalse ''RouteProcessed'' ''Route admitted.'') else id)
             in case GetHostFromRoute K (ks_namespace i) (ks_name i) w of
                  Inl e \<Rightarrow> (Inl e, map_status (route_effect g None) i)
                | Inr host \<Rightarrow> (Inr (), map_status (route_effect g (if host \<noteq> [] then Some (''http://'' @ host) else None)) i))))" for i
    using assms(2) by (simp add: updateRouteStatus_def Let_def eff split: sum.split)
  show ?thesis
  proof (cases "ss_disableRoute (ks_spec j)")
    case True
    then show ?thesis by (intro exI [of _ "ca_set C (newFailedCondition CFalse ''RouteProcessed'' ''Routes are disabled.'')"] exI [of _ None]) (auto simp: run)
  next
    case False
    show ?thesis
    proof (cases "ValidateRouteStatus K (ks_namespace j) (ks_name j) w")
      case (Inl e)
      with False show ?thesis
        by (intro exI [of _ "ca_set C (newFailedCondition CTrue (GetReasonForError (Some (ErrorForRouteCreation e))) (error_message (ErrorForRouteCreation e)))"]
            exI [of _ None]) (auto simp: run)
    next
      case (Inr adm)
      let ?g = "if adm then ca_set C (newFailedCondition CFalse ''RouteProcessed'' ''Route admitted.'') else id"
      obtain host where "GetHostFromRoute K (ks_namespace j) (ks_name j) w = Inr host"
        using assms(1) False Inr unfolding run by (auto simp: Let_def split: sum.splits)
      with False Inr show ?thesis
        by (intro exI [of _ ?g] exI [of _ "if host \<noteq> [] then Some (''http://'' @ host) else None"]) (auto simp: run Let_def)
    qed
  qed
qed

lemma route_step:
  assumes "cond_laws C" "cond_stable C" "updateRouteStatus K C w j = (Inr (), j')"
  shows "\<exists>cs u. j' = map_status (\<lambda>st. st\<lparr>st_routeConditions := cs, st_externalURI := u\<rparr>) j
     \<and> (\<forall>i. ks_meta i = ks_meta j \<longrightarrow> ks_spec i = ks_spec j \<longrightarrow> st_routeConditions (ks_status i) = cs \<longrightarrow> st_externalURI (ks_status i) = u \<longrightarrow>
          updateRouteStatus K C w i = (Inr (), i))"
proof (cases "cl_isOpenshift K")
  case False
  with assms show ?thesis
    by (intro exI [of _ "st_routeConditions (ks_status j)"] exI [of _ "st_externalURI (ks_status j)"]) (simp add: updateRouteStatus_def map_status_same)
next
  case True
  obtain g u where g: "g = id \<or> (\<exists>c. g = ca_set C c)" and eff: "\<And>i. ks_meta i = ks_meta j \<Longrightarrow> ks_spec i = ks_spec j \<Longrightarrow>
      updateRouteStatus K C w i = (Inr (), map_status (route_effect g u) i)"
    using route_step_effect [OF assms(3) True] by blast
  have again: "g (g cs) = g cs" for cs using g ca_set_again [OF assms(1,2)] by auto
  let ?st = "route_effect g u (ks_status j)"
  have "j' = map_status (\<lambda>st. st\<lparr>st_routeConditions := st_routeConditions ?st, st_externalURI := st_externalURI ?st\<rparr>) j"
    using assms(3) eff [of j] by (simp add: route_effect_def map_status_def)
  moreover have "updateRouteStatus K C w i = (Inr (), i)" if "ks_meta i = ks_meta j" "ks_spec i = ks_spec j"
      "st_routeConditions (ks_status i) = st_routeConditions ?st" "st_externalURI (ks_status i) = st_externalURI ?st" for i
    using that eff [of i] by (auto simp: route_effect_def again intro!: map_status_same split: option.splits)
  ultimately show ?thesis by blast
qed

section \<open>The whole update\<close>

theorem status_reproduces:
  assumes "cond_laws C" "cond_stable C" "st_conditions (ks_status j) \<noteq> None" "status_steps K C w None j = (Inr (), j')"
  shows "ks_meta j' = ks_meta j \<and> ks_spec j' = ks_spec j \<and> ks_package j' = ks_package j \<and> st_conditions (ks_status j') \<noteq> None
     \<and> status_steps K C w None j' = (Inr (), j')"
proof -
  obtain cs where cs: "st_conditions (ks_status j) = Some cs" using assms(3) by blast
  obtain j1 j2 j3 where st: "handleConditionTransition K C w j = (Inr (), j1)" "updateImageStatus K w j1 = (Inr (), j2)"
      "updateRouteStatus K C w j2 = (Inr (), j3)" "updateDeploymentStatus K w j3 = (Inr (), j')"
    using assms(4) by (auto simp: status_steps_def bindS_eq_Inr)
  obtain m n where h: "FetchReadyReplicas K (ks_namespace j) (ks_name j) w = Inr n" "ss_replicas (ks_spec j) = Some m"
      "j1 = set_conditions (transition C m n cs) j"
    using st(1) unfolding handle_transition [OF cs] by (elim exE conjE) (rule that)
  obtain x where x: "j2 = map_status (\<lambda>st. st\<lparr>st_image := x\<rparr>) j1"
      "\<And>i. ks_meta i = ks_meta j1 \<Longrightarrow> st_image (ks_status i) = x \<Longrightarrow> updateImageStatus K w i = (Inr (), i)"
    using image_step [OF st(2)] by (elim exE conjE) (rule that, auto)
  obtain rcs u where r: "j3 = map_status (\<lambda>st. st\<lparr>st_routeConditions := rcs, st_externalURI := u\<rparr>) j2"
      "\<And>i. ks_meta i = ks_meta j2 \<Longrightarrow> ks_spec i = ks_spec j2 \<Longrightarrow> st_routeConditions (ks_status i) = rcs \<Longrightarrow> st_externalURI (ks_status i) = u \<Longrightarrow>
          updateRouteStatus K C w i = (Inr (), i)"
    using route_step [OF assms(1,2) st(3)] by (elim exE conjE) (rule that, auto)
  obtain y where y: "j' = map_status (\<lambda>st. st\<lparr>st_deploymentConditions := y\<rparr>) j3"
      "\<And>i. ks_meta i = ks_meta j3 \<Longrightarrow> st_deploymentConditions (ks_status i) = y \<Longrightarrow> updateDeploymentStatus K w i = (Inr (), i)"
    using deployment_step [OF st(4)] by (elim exE conjE) (rule that, auto)
  have frame: "ks_meta j' = ks_meta j" "ks_spec j' = ks_spec j" "ks_package j' = ks_package j" "st_conditions (ks_status j') = Some (transition C m n cs)"
    "st_image (ks_status j') = x" "st_routeConditions (ks_status j') = rcs" "st_externalURI (ks_status j') = u" "st_deploymentConditions (ks_status j') = y"
    "ks_meta j1 = ks_meta j" "ks_meta j2 = ks_meta j" "ks_spec j2 = ks_spec j" "ks_meta j3 = ks_meta j"
    by (simp_all add: h(3) x(1) r(1) y(1) set_conditions_def map_status_def)
  have "handleConditionTransition K C w j' = (Inr (), set_conditions (transition C m n (transition C m n cs)) j')"
    using h(1,2) frame(1,2) by (subst handle_transition [OF frame(4)]) auto
  moreover have "set_conditions (transition C m n (transition C m n cs)) j' = j'"
    unfolding transition_again [OF assms(1,2)] set_conditions_def by (rule map_status_same) (simp flip: frame(4))
  ultimately have "handleConditionTransition K C w j' = (Inr (), j')" by simp
  moreover have "updateImageStatus K w j' = (Inr (), j')" by (rule x(2)) (simp_all add: frame)
  moreover have "updateRouteStatus K C w j' = (Inr (), j')" by (rule r(2)) (simp_all add: frame)
  moreover have "updateDeploymentStatus K w j' = (Inr (), j')" by (rule y(2)) (simp_all add: frame)
  ultimately have "status_steps K C w None j' = (Inr (), j')" by (simp add: status_steps_def)
  with frame show ?thesis by simp
qed

end
