(* ===== verification/Deploy_Settles.thy ===== *)
theory Deploy_Settles
  imports Deploy_Stages Status_Settles
begin

text \<open>
  The deployment of a service comes to rest, and restores what it deploys.  The stages compose because no stage reads what a later one writes; the
  status is computed from what is deployed and reproduces itself.
\<close>

section \<open>The pipeline\<close>

lemma deploy_stages_split:
  "deploy_stages E = bindS (config_Reconcile E) (\<lambda>_. bindS (properties_Reconcile E) (\<lambda>_. bindS (trustStore_Reconcile E) (\<lambda>_.
     bindS (kogitoInfra_Reconcile E) (\<lambda>_. bindS (imageStream_stage E) (\<lambda>_. bindS (deployment_stage E) (\<lambda>_.
     bindS (service_Reconcile E) (\<lambda>_. bindS (route_stage E) (\<lambda>_. bindS (configureMonitoring E) (\<lambda>_. configureMessaging E)))))))))"
proof -
  have "(\<lambda>s. let s' = snd (route_Reconcile E s) in bindS (configureMonitoring E) (\<lambda>_. configureMessaging E) s')
      = bindS (route_stage E) (\<lambda>_. bindS (configureMonitoring E) (\<lambda>_. configureMessaging E))"
    by (rule ext) (simp add: route_stage_def bindS_def)
  then show ?thesis unfolding deploy_stages_def by simp
qed

text \<open>The rest of the pipeline from a stage on.\<close>

abbreviation from_route :: "'w deploy_env \<Rightarrow> 'w stage" where
  "from_route E \<equiv> bindS (route_stage E) (\<lambda>_. bindS (configureMonitoring E) (\<lambda>_. configureMessaging E))"

abbreviation from_service :: "'w deploy_env \<Rightarrow> 'w stage" where
  "from_service E \<equiv> bindS (service_Reconcile E) (\<lambda>_. from_route E)"

abbreviation from_deployment :: "'w deploy_env \<Rightarrow> 'w stage" where
  "from_deployment E \<equiv> bindS (deployment_stage E) (\<lambda>_. from_service E)"

abbreviation from_properties :: "'w deploy_env \<Rightarrow> 'w stage" where
  "from_properties E \<equiv> bindS (properties_Reconcile E) (\<lambda>_. bindS (trustStore_Reconcile E) (\<lambda>_.
     bindS (kogitoInfra_Reconcile E) (\<lambda>_. bindS (imageStream_stage E) (\<lambda>_. from_deployment E))))"

text \<open>A cluster that keeps its promises to the reconcilers and has nothing to connect the service to.\<close>

definition undisturbed :: "'w deploy_env \<Rightarrow> 'w deploy_hook \<Rightarrow> bool" where
  "undisturbed E H \<longleftrightarrow> deploy_laws E H \<and> routes_accepted E \<and> nothing_to_connect E"

lemma settles_from_route: "undisturbed E H \<Longrightarrow> stage_settles E H {KRoute} (- {KRoute}) (from_route E)"
  unfolding undisturbed_def by (elim conjE) (rule stage_settles_seq [OF settles_route_stage settles_connecting]; auto)

lemma settles_from_service: "undisturbed E H \<Longrightarrow> stage_settles E H {KService, KRoute} (- {KService, KRoute}) (from_service E)"
  by (rule stage_settles_seq [OF settles_service_stage settles_from_route]) (auto simp: undisturbed_def)

lemma settles_from_deployment: "undisturbed E H \<Longrightarrow> stage_settles E H {KDeployment, KService, KRoute} {KResource} (from_deployment E)"
  by (rule stage_settles_seq [OF settles_deployment_stage settles_from_service]) (auto simp: undisturbed_def)

lemma reading_first:
  assumes "stage_settles E H {} D1 f" "stage_settles E H W D g" "W \<subseteq> D1" "D \<subseteq> D1"
  shows "stage_settles E H W D (bindS f (\<lambda>_. g))"
  using assms by (intro stage_settles_seq [OF assms(1,2)]) auto

lemma settles_from_properties:
  assumes "undisturbed E H"
  shows "stage_settles E H {KDeployment, KService, KRoute} {KResource} (from_properties E)"
  by (intro reading_first [OF settles_properties_stage] reading_first [OF settles_trustStore_stage] reading_first [OF settles_infra_stage]
      reading_first [OF settles_imageStream_stage] settles_from_deployment assms) auto

lemma settles_deploy_stages:
  assumes "undisturbed E H"
  shows "stage_settles E H {KConfigMap, KHook, KDeployment, KService, KRoute} {KResource} (deploy_stages E)"
  unfolding deploy_stages_split using assms
  by (intro stage_settles_seq [OF settles_config settles_from_properties]) (auto simp: undisturbed_def)

section \<open>The status\<close>

text \<open>The status of a stored resource can be written; the write stores the status, leaves the rest of the resource and of the cluster alone, and
  changes nothing at all when the status is the stored one.\<close>

definition status_laws :: "'w deploy_env \<Rightarrow> 'w deploy_hook \<Rightarrow> bool" where
  "status_laws E H \<longleftrightarrow> (\<forall>i d w. sa_get (cl_kogitoServices (de_cluster E)) (ks_namespace i) (ks_name i) w = Inr d \<longrightarrow>
     (\<exists>j w'. sa_updateStatus (cl_kogitoServices (de_cluster E)) i w = (Inr j, w')
        \<and> sa_get (cl_kogitoServices (de_cluster E)) (ks_namespace i) (ks_name i) w' = Inr (with_status (ks_status i) d)
        \<and> deploy_agree E H {KResource} w w' \<and> (ks_status i = ks_status d \<longrightarrow> w' = w)))"

lemma status_steps_alike:
  assumes "deploy_agree E H {KResource} w v"
  shows "status_steps (de_cluster E) C v None j = status_steps (de_cluster E) C w None j"
proof -
  have fetch: "FetchDeployment (de_cluster E) ns n v = FetchDeployment (de_cluster E) ns n w" "FetchRoute (de_cluster E) ns n v = FetchRoute (de_cluster E) ns n w" for ns n
    using assms by (simp_all add: FetchDeployment_def FetchRoute_def FetchWithKey_def deploy_agree_def)
  have "FetchReadyReplicas (de_cluster E) ns n v = FetchReadyReplicas (de_cluster E) ns n w"
    "ValidateRouteStatus (de_cluster E) ns n v = ValidateRouteStatus (de_cluster E) ns n w"
    "GetHostFromRoute (de_cluster E) ns n v = GetHostFromRoute (de_cluster E) ns n w" for ns n
    unfolding FetchReadyReplicas_def ValidateRouteStatus_def GetHostFromRoute_def fetch by (rule refl)+
  with fetch have "handleConditionTransition (de_cluster E) C v = handleConditionTransition (de_cluster E) C w"
    "updateImageStatus (de_cluster E) v = updateImageStatus (de_cluster E) w" "updateDeploymentStatus (de_cluster E) v = updateDeploymentStatus (de_cluster E) w"
    "updateRouteStatus (de_cluster E) C v = updateRouteStatus (de_cluster E) C w"
    unfolding handleConditionTransition_def updateImageStatus_def updateDeploymentStatus_def updateRouteStatus_def fetchReadyReplicas_def by (simp_all only:)
  then show ?thesis by (simp add: status_steps_def)
qed

lemma initial_state_status: "initial_state (with_status st inst) def v = moved st v (initial_state inst def w)"
  by (simp add: initial_state_def moved_def Let_def)

lemma with_own_status: "with_status (ks_status j) j = j"
  by (simp add: with_status_def)

lemma with_status_eq: "ks_meta i = ks_meta j \<Longrightarrow> ks_spec i = ks_spec j \<Longrightarrow> ks_package i = ks_package j \<Longrightarrow> with_status (ks_status i) j = i"
  by (simp add: with_status_def)


text \<open>The write of the status at the end of a run changes the resource alone.\<close>

lemma deployed_agrees:
  assumes "undisturbed E (sd_onDeploymentCreate def)" and status: "status_laws E (sd_onDeploymentCreate def)"
    and stored: "sa_get (cl_kogitoServices (de_cluster E)) (ks_namespace inst) (ks_name inst) w = Inr inst"
    and run: "Deploy E inst def w = (None, w')"
  shows "\<exists>s. deploy_stages E (initial_state inst def w) = (Inr (), s) \<and> deploy_agree E (sd_onDeploymentCreate def) {KResource} (dst_world s) w'"
proof -
  let ?H = "sd_onDeploymentCreate def" and ?s0 = "initial_state inst def w" and ?A = "cl_kogitoServices (de_cluster E)"
  obtain s where s: "deploy_stages E ?s0 = (Inr (), s)"
    and w': "w' = snd (ensureResourcesStatusChanges (de_cluster E) (de_conditions E) (dst_instance s) None (dst_world s))"
    using run by (auto simp: Deploy_def reported_error_def HandleStatusUpdate_def split: prod.splits sum.splits)
  have hook: "hook_of ?s0 = ?H" by (simp add: initial_state_def Let_def)
  have meta: "ks_meta (dst_instance s) = ks_meta inst" using keeps_meta.stages [of ?s0 "ks_meta inst" E] s by simp
  obtain u j where go: "status_steps (de_cluster E) (de_conditions E) (dst_world s) None (map_conditions id (dst_instance s)) = (u, j)" by fastforce
  have j: "ks_meta j = ks_meta inst"
    using status_steps_events [of "map_conditions id (dst_instance s)" "de_cluster E" "de_conditions E" "dst_world s" None] go meta by (simp add: same_events_def)
  have "sa_get ?A (ks_namespace inst) (ks_name inst) (dst_world s) = Inr inst"
    using stage_settlesD(2) [OF settles_deploy_stages [OF assms(1)] hook s] stored by (simp add: deploy_agree_def)
  then obtain j' v where v: "sa_updateStatus ?A j (dst_world s) = (Inr j', v)" "deploy_agree E ?H {KResource} (dst_world s) v"
    using status [unfolded status_laws_def, rule_format, of j "dst_world s" inst] j by auto
  have "w' = dst_world s \<or> w' = v" using w' go v(1) by (auto simp: ensureResourcesStatusChanges_def UpdateStatus_def split: sum.splits)
  then show ?thesis using s v(2) by (intro exI [of _ s]) auto
qed

lemma deployment_stage_keeps:
  "ks_meta (dst_instance (snd (deployment_stage E s))) = ks_meta (dst_instance s)"
  "ss_disableRoute (ks_spec (dst_instance (snd (deployment_stage E s)))) = ss_disableRoute (ks_spec (dst_instance s))"
proof -
  have "ks_meta (dr_instance IK cx ih i def w) = ks_meta i \<and> ss_disableRoute (ks_spec (dr_instance IK cx ih i def w)) = ss_disableRoute (ks_spec i)"
    for IK cx ih i w and def :: "'a service_definition"
    by (simp add: dr_instance_def cap_replicas_def map_spec_def split: sum.split option.split)
  then show "ks_meta (dst_instance (snd (deployment_stage E s))) = ks_meta (dst_instance s)"
    "ss_disableRoute (ks_spec (dst_instance (snd (deployment_stage E s)))) = ss_disableRoute (ks_spec (dst_instance s))"
    by (simp_all add: deployment_stage_def Let_def split: prod.split)
qed

lemma pipeline_states:
  assumes laws: "undisturbed E H" and hook: "hook_of s0 = H" and run: "deploy_stages E s0 = (Inr (), s)"
  obtains s1 s5 s6 s7 s8 where "config_Reconcile E s0 = (Inr (), s1)" "from_properties E s1 = (Inr (), s)" "hook_of s1 = H"
    "deployment_stage E s5 = (Inr (), s6)" "dst_instance s5 = dst_instance s0" "hook_of s5 = H" "from_service E s6 = (Inr (), s)"
    "service_Reconcile E s6 = (Inr (), s7)" "hook_of s6 = H" "from_route E s7 = (Inr (), s)"
    "route_stage E s7 = (Inr (), s8)" "hook_of s7 = H" "hook_of s8 = H" "bindS (configureMonitoring E) (\<lambda>_. configureMessaging E) s8 = (Inr (), s)"
    "ss_trustStoreSecret (ks_spec (dst_instance s0)) = [] \<longrightarrow> ss_infra (ks_spec (dst_instance s0)) = [] \<longrightarrow> sd_envs (dst_definition s5) = sd_envs (dst_definition s0)"
proof -
  have dl: "deploy_laws E H" "routes_accepted E" using laws by (simp_all add: undisturbed_def)
  obtain s1 where 1: "config_Reconcile E s0 = (Inr (), s1)" "from_properties E s1 = (Inr (), s)"
    using run unfolding deploy_stages_split bindS_eq_Inr by auto
  obtain s2 s3 s4 s5 where 2: "properties_Reconcile E s1 = (Inr (), s2)" "trustStore_Reconcile E s2 = (Inr (), s3)"
      "kogitoInfra_Reconcile E s3 = (Inr (), s4)" "imageStream_stage E s4 = (Inr (), s5)" "from_deployment E s5 = (Inr (), s)"
    using 1(2) unfolding bindS_eq_Inr by auto
  obtain s6 s7 s8 where 3: "deployment_stage E s5 = (Inr (), s6)" "from_service E s6 = (Inr (), s)" "service_Reconcile E s6 = (Inr (), s7)"
      "from_route E s7 = (Inr (), s)" "route_stage E s7 = (Inr (), s8)" "bindS (configureMonitoring E) (\<lambda>_. configureMessaging E) s8 = (Inr (), s)"
    using 2(5) unfolding bindS_eq_Inr by auto
  note h1 = stage_settlesD(1) [OF settles_config [OF dl(1)] hook 1(1)]
  note h2 = stage_settlesD(1) [OF settles_properties_stage h1 2(1)]
  note h3 = stage_settlesD(1) [OF settles_trustStore_stage h2 2(2)]
  note h4 = stage_settlesD(1) [OF settles_infra_stage h3 2(3)]
  note h5 = stage_settlesD(1) [OF settles_imageStream_stage h4 2(4)]
  note h6 = stage_settlesD(1) [OF settles_deployment_stage [OF dl(1)] h5 3(1)]
  note h7 = stage_settlesD(1) [OF settles_service_stage [OF dl(1)] h6 3(3)]
  note h8 = stage_settlesD(1) [OF settles_route_stage [OF dl] h7 3(5)]
  note inst = stage_instance(1) [of E s0] stage_instance(2) [of E s1] stage_instance(3) [of E s2] stage_instance(4) [of E s3] stage_instance(5) [of E s4]
  have s5: "dst_instance s5 = dst_instance s0" using inst 1(1) 2(1-4) by simp
  have "sd_envs (dst_definition s1) = sd_envs (dst_definition s0)" "sd_envs (dst_definition s2) = sd_envs (dst_definition s1)"
      "dst_definition s5 = dst_definition s4"
    using 1(1) 2(1,4) by (auto simp: config_Reconcile_def properties_Reconcile_def imageStream_stage_def on_world_run Let_def
        split: prod.splits sum.splits if_splits option.splits)
  moreover have "s3 = s2" if "ss_trustStoreSecret (ks_spec (dst_instance s0)) = []"
    using 2(1,2) that inst 1(1) by (simp add: trustStore_Reconcile_def)
  moreover have "s4 = s3" if "ss_infra (ks_spec (dst_instance s0)) = []"
    using 2(1-3) that inst 1(1) by (auto simp: kogitoInfra_Reconcile_def)
  ultimately have "ss_trustStoreSecret (ks_spec (dst_instance s0)) = [] \<longrightarrow> ss_infra (ks_spec (dst_instance s0)) = [] \<longrightarrow> sd_envs (dst_definition s5) = sd_envs (dst_definition s0)"
    by simp
  then show thesis by (rule that [OF 1 h1 3(1) s5 h5 3(2,3) h6 3(4,5) h7 h8 3(6)])
qed

text \<open>The states a successful run went through at the stages that write, and what the cluster at the end keeps of them.\<close>

lemma deployed_run:
  assumes laws: "undisturbed E H" "status_laws E H" and H: "sd_onDeploymentCreate def = H"
    and stored: "sa_get (cl_kogitoServices (de_cluster E)) (ks_namespace inst) (ks_name inst) w = Inr inst"
    and run: "Deploy E inst def w = (None, w')"
  obtains s1 s5 s6 s7 s8 where
    "config_Reconcile E (initial_state inst def w) = (Inr (), s1)" "deploy_agree E H {KDeployment, KService, KRoute, KResource} (dst_world s1) w'"
    "hook_of s5 = H" "deployment_stage E s5 = (Inr (), s6)" "deploy_agree E H {KService, KRoute, KResource} (dst_world s6) w'"
    "ks_meta (dst_instance s5) = ks_meta inst"
    "ss_trustStoreSecret (ks_spec inst) = [] \<longrightarrow> ss_infra (ks_spec inst) = [] \<longrightarrow> sd_envs (dst_definition s5) = ss_env (ks_spec inst)"
    "service_Reconcile E s6 = (Inr (), s7)" "deploy_agree E H {KRoute, KResource} (dst_world s7) w'" "ks_meta (dst_instance s6) = ks_meta inst"
    "route_stage E s7 = (Inr (), s8)" "deploy_agree E H {KResource} (dst_world s8) w'" "ks_meta (dst_instance s7) = ks_meta inst"
    "ss_disableRoute (ks_spec (dst_instance s7)) = ss_disableRoute (ks_spec inst)"
proof -
  let ?s0 = "initial_state inst def w"
  obtain s where s: "deploy_stages E ?s0 = (Inr (), s)" and fin: "deploy_agree E H {KResource} (dst_world s) w'"
    using deployed_agrees [of E def, unfolded H, OF laws stored run] by blast
  have hook: "hook_of ?s0 = H" using H by (simp add: initial_state_def Let_def)
  obtain s1 s5 s6 s7 s8 where st: "config_Reconcile E ?s0 = (Inr (), s1)" "from_properties E s1 = (Inr (), s)" "hook_of s1 = H"
      "deployment_stage E s5 = (Inr (), s6)" "dst_instance s5 = dst_instance ?s0" "hook_of s5 = H" "from_service E s6 = (Inr (), s)"
      "service_Reconcile E s6 = (Inr (), s7)" "hook_of s6 = H" "from_route E s7 = (Inr (), s)"
      "route_stage E s7 = (Inr (), s8)" "hook_of s7 = H" "hook_of s8 = H" "bindS (configureMonitoring E) (\<lambda>_. configureMessaging E) s8 = (Inr (), s)"
      "ss_trustStoreSecret (ks_spec (dst_instance ?s0)) = [] \<longrightarrow> ss_infra (ks_spec (dst_instance ?s0)) = [] \<longrightarrow> sd_envs (dst_definition s5) = sd_envs (dst_definition ?s0)"
    by (rule pipeline_states [OF laws(1) hook s])
  have after: "deploy_agree E H {KDeployment, KService, KRoute, KResource} (dst_world s1) w'"
      "deploy_agree E H {KService, KRoute, KResource} (dst_world s6) w'" "deploy_agree E H {KRoute, KResource} (dst_world s7) w'"
      "deploy_agree E H {KResource} (dst_world s8) w'"
    using deploy_agree_trans [OF stage_settlesD(2) [OF settles_from_properties [OF laws(1)] st(3,2)] fin]
      deploy_agree_trans [OF stage_settlesD(2) [OF settles_from_service [OF laws(1)] st(9,7)] fin]
      deploy_agree_trans [OF stage_settlesD(2) [OF settles_from_route [OF laws(1)] st(12,10)] fin]
      deploy_agree_trans [OF stage_settlesD(2) [OF settles_connecting st(13,14)] fin] laws(1) by (simp_all add: undisturbed_def insert_commute)
  have inst: "ks_meta (dst_instance s5) = ks_meta inst" "ss_disableRoute (ks_spec (dst_instance s5)) = ss_disableRoute (ks_spec inst)"
    using st(5) by (simp_all add: initial_state_def map_spec_def Let_def)
  have envs: "ss_trustStoreSecret (ks_spec inst) = [] \<longrightarrow> ss_infra (ks_spec inst) = [] \<longrightarrow> sd_envs (dst_definition s5) = ss_env (ks_spec inst)"
    using st(15) by (simp add: initial_state_def map_spec_def Let_def)
  have s6: "ks_meta (dst_instance s6) = ks_meta inst" "ss_disableRoute (ks_spec (dst_instance s6)) = ss_disableRoute (ks_spec inst)"
    using deployment_stage_keeps [of E s5] st(4) inst by simp_all
  have s7: "dst_instance s7 = dst_instance s6" using st(8) by (auto simp: service_Reconcile_def on_world_run)
  show thesis by (rule that [OF st(1) after(1) st(6,4) after(2) inst(1) envs st(8) after(3) s6(1) st(11) after(4)]) (simp_all add: s7 s6)
qed

lemma config_restored:
  assumes laws: "undisturbed E (sd_onDeploymentCreate def)" "status_laws E (sd_onDeploymentCreate def)"
    and stored: "sa_get (cl_kogitoServices (de_cluster E)) (ks_namespace inst) (ks_name inst) w = Inr inst"
    and run: "Deploy E inst def w = (None, w')"
  shows "\<exists>c. sa_get (cl_configMaps (de_cluster E)) (ks_namespace inst) (getInfraPropertiesConfigMapName inst) w' = Inr c
     \<and> smap_eq (cm_data c) (ss_config (ks_spec inst))"
proof (rule deployed_run [OF laws refl stored run])
  fix s1
  assume s1: "config_Reconcile E (initial_state inst def w) = (Inr (), s1)"
    and keep: "deploy_agree E (sd_onDeploymentCreate def) {KDeployment, KService, KRoute, KResource} (dst_world s1) w'"
  have "deploy_laws E (sd_onDeploymentCreate def)" using laws(1) by (simp add: undisturbed_def)
  moreover have "ss_config (ks_spec (dst_instance (initial_state inst def w))) = ss_config (ks_spec inst)"
    by (simp add: initial_state_def map_spec_def Let_def)
  ultimately show ?thesis
    by (elim config_wrote [OF _ s1]) (use keep configMap_comparator_data in \<open>fastforce simp: deploy_agree_def getInfraPropertiesConfigMapName_def\<close>)
qed

lemma deployment_restored:
  assumes laws: "undisturbed E (sd_onDeploymentCreate def)" "status_laws E (sd_onDeploymentCreate def)"
    and stored: "sa_get (cl_kogitoServices (de_cluster E)) (ks_namespace inst) (ks_name inst) w = Inr inst"
    and run: "Deploy E inst def w = (None, w')"
  shows "\<exists>d r ih i def' img v. sa_get (cl_deployments (de_cluster E)) (ks_namespace inst) (ks_name inst) w' = Inr d
     \<and> dr_createRequiredResources (de_cluster E) (de_context E) (de_serverMinor E) ih i def' img v = Inr [r]
     \<and> ks_meta i = ks_meta inst \<and> fst (deployment_GetComparator (de_deploymentLib E) d r)
     \<and> (ss_trustStoreSecret (ks_spec inst) = [] \<longrightarrow> ss_infra (ks_spec inst) = [] \<longrightarrow> sd_envs def' = ss_env (ks_spec inst))"
proof (rule deployed_run [OF laws refl stored run])
  fix s5 s6
  assume s5: "hook_of s5 = sd_onDeploymentCreate def" "deployment_stage E s5 = (Inr (), s6)" "ks_meta (dst_instance s5) = ks_meta inst"
      "ss_trustStoreSecret (ks_spec inst) = [] \<longrightarrow> ss_infra (ks_spec inst) = [] \<longrightarrow> sd_envs (dst_definition s5) = ss_env (ks_spec inst)"
    and keep: "deploy_agree E (sd_onDeploymentCreate def) {KService, KRoute, KResource} (dst_world s6) w'"
  have dl: "deploy_laws E (sd_onDeploymentCreate def)" using laws(1) by (simp add: undisturbed_def)
  show ?thesis
  proof (rule deployment_wrote [OF dl s5(1,2)])
    fix img r d
    assume req: "dr_createRequiredResources (de_cluster E) (de_context E) (de_serverMinor E) (newImageHandler (dst_instance s5) (dst_definition s5))
        (dst_instance s5) (dst_definition s5) img (dst_world s5) = Inr [r]"
      and d: "sa_get (cl_deployments (de_cluster E)) (ks_namespace (dst_instance s5)) (ks_name (dst_instance s5)) (dst_world s6) = Inr d"
      and eq: "fst (deployment_GetComparator (de_deploymentLib E) d r)"
    from d keep s5(3) have "sa_get (cl_deployments (de_cluster E)) (ks_namespace inst) (ks_name inst) w' = Inr d" by (simp add: deploy_agree_def)
    with req eq s5(3,4) show ?thesis by blast
  qed
qed


section \<open>A deployment in memory comes to rest\<close>

lemma mem_writes_kind:
  assumes lens: "\<And>x w. g (p x w) = x" "\<And>w. p (g w) w = w" and apart: "\<And>x w. deploy_agree E H kinds w (p x w)"
  shows "writes_kind E H kinds (mem_delta_lib (\<lambda>x. om_name (meta x)) g p) (lens_api g p (mem_api meta))"
  unfolding writes_kind_def using mem_delta_laws [of g p meta, OF lens] apart by (auto simp: mem_delta_lib_def)

lemma sample_env_deploy_laws: "deploy_laws sample_env None"
proof -
  have "hook_keeps_key def" if "sd_onDeploymentCreate def = None" for def :: "mem_world service_definition"
    using that by (simp add: hook_keeps_key_def)
  moreover have "writes_kind sample_env None {KConfigMap, KHook} (de_configMapLib sample_env) (cl_configMaps (de_cluster sample_env))"
    "writes_kind sample_env None {KDeployment} (de_deploymentLib sample_env) (cl_deployments (de_cluster sample_env))"
    "writes_kind sample_env None {KService} (de_serviceLib sample_env) (cl_services (de_cluster sample_env))"
    "writes_kind sample_env None {KRoute} (de_routeLib sample_env) (cl_routes (de_cluster sample_env))"
    by (simp_all add: sample_env_def) (intro mem_writes_kind; simp add: deploy_agree_def)+
  ultimately show ?thesis
    using sample_context_owner_only mem_cluster_metas
    by (simp add: deploy_laws_def) (simp add: sample_env_def default_comparator_def mem_delta_lib_def)
qed

lemma update_first_find:
  "find p xs = Some d \<Longrightarrow> p (f d) \<Longrightarrow> find p (update_first p f xs) = Some (f d)"
  "find p xs = Some d \<Longrightarrow> f d = d \<Longrightarrow> update_first p f xs = xs"
  by (induction xs) (auto split: if_splits)

lemma sample_env_status_laws: "status_laws sample_env None"
  unfolding status_laws_def
proof (intro allI impI)
  fix i d and w :: mem_world
  let ?A = "cl_kogitoServices (de_cluster sample_env)" and ?p = "same_key ks_meta (ks_namespace i) (ks_name i)"
  let ?xs = "update_first ?p (\<lambda>y. y\<lparr>ks_status := ks_status i\<rparr>) (mw_kogitoServices w)"
  assume "sa_get ?A (ks_namespace i) (ks_name i) w = Inr d"
  then have d: "find ?p (mw_kogitoServices w) = Some d" by (simp add: sample_env_def mem_get_def split: option.splits)
  then have "?p d" by (auto simp: find_Some_iff)
  then have key: "?p (with_status (ks_status i) d)" by (simp add: same_key_def)
  have "find ?p ?xs = Some (with_status (ks_status i) d)" "ks_status i = ks_status d \<Longrightarrow> ?xs = mw_kogitoServices w"
    using update_first_find [OF d, of "\<lambda>y. y\<lparr>ks_status := ks_status i\<rparr>"] key by (simp_all add: with_status_def)
  moreover have "sa_updateStatus ?A i w = (Inr i, w\<lparr>mw_kogitoServices := ?xs\<rparr>)"
    using d by (simp add: sample_env_def mem_updateStatus_def Let_def)
  ultimately show "\<exists>j w'. sa_updateStatus ?A i w = (Inr j, w') \<and> sa_get ?A (ks_namespace i) (ks_name i) w' = Inr (with_status (ks_status i) d)
        \<and> deploy_agree sample_env None {KResource} w w' \<and> (ks_status i = ks_status d \<longrightarrow> w' = w)"
    by (intro exI [of _ i] exI [of _ "w\<lparr>mw_kogitoServices := ?xs\<rparr>"]) (simp add: sample_env_def deploy_agree_def mem_get_def)
qed

lemma sample_env_undisturbed: "undisturbed sample_env None"
proof -
  have "routes_accepted sample_env" "nothing_to_connect sample_env"
    by (simp_all add: routes_accepted_def nothing_to_connect_def isPrometheusAvailable_def isGrafanaAvailable_def HasServerGroup_def sample_env_def
        ready_infra_def IsKafkaInfra_def isKnativeEventingInfra_def)
  then show ?thesis using sample_env_deploy_laws by (simp add: undisturbed_def)
qed



end
