(* ===== verification/Client_Operator.thy ===== *)
theory Client_Operator
  imports Cli_Deploy Deploy_Settles
begin

text \<open>
  From the command line to the container.  What the client makes of its flags is stored as a custom resource, and the operator reads it and deploys it:
  the variables that the user gave on the command line are those of the container, and the properties are in the config map of the service.
\<close>

section \<open>What the client stores\<close>

text \<open>The API server stores what a successful write contains, under its key; taking over the version of the old object changes neither.\<close>

definition stores_runtimes :: "('w, kogito_runtime) versioned_api \<Rightarrow> bool" where
  "stores_runtimes V \<longleftrightarrow> (\<forall>r. sa_meta (va_store V) r = ks_meta (kr_service r))
     \<and> (\<forall>old r. ks_meta (kr_service (va_copyVersion V old r)) = ks_meta (kr_service r)
          \<and> ks_spec (kr_service (va_copyVersion V old r)) = ks_spec (kr_service r))
     \<and> (\<forall>r y w w'. sa_create (va_store V) r w = (Inr y, w') \<or> sa_update (va_store V) r w = (Inr y, w') \<longrightarrow>
          (\<exists>z. sa_get (va_store V) (ks_namespace (kr_service r)) (ks_name (kr_service r)) w' = Inr z \<and> ks_spec (kr_service z) = ks_spec (kr_service r)
             \<and> ks_namespace (kr_service z) = ks_namespace (kr_service r) \<and> ks_name (kr_service z) = ks_name (kr_service r)))"

lemma poll_finished: "poll n f s = (Inr (), s') \<Longrightarrow> \<exists>t. f t = (Inr True, s')"
  by (induction n arbitrary: s) (auto split: prod.splits sum.splits if_splits)

lemma update_attempt_done:
  "update_attempt V new t = (Inr True, s') \<Longrightarrow> \<exists>y. sa_update (va_store V) (va_copyVersion V (fst t) new) (snd t) = (Inr y, snd s')"
  by (auto simp: update_attempt_def Update_def split: prod.splits sum.splits gerr.splits api_status.splits option.splits)

lemma CreateOrUpdate_stores:
  assumes V: "stores_runtimes V" and run: "CreateOrUpdate V r w = (Inr (), w')"
  shows "\<exists>z. sa_get (va_store V) (ks_namespace (kr_service r)) (ks_name (kr_service r)) w' = Inr z \<and> ks_spec (kr_service z) = ks_spec (kr_service r)
     \<and> ks_namespace (kr_service z) = ks_namespace (kr_service r) \<and> ks_name (kr_service z) = ks_name (kr_service r)"
proof (cases "Fetch (va_store V) r w")
  case (Inr found)
  show ?thesis
  proof (cases found)
    case None
    then obtain y where "sa_create (va_store V) r w = (Inr y, w')" using run Inr by (auto simp: CreateOrUpdate_def bindS_eq_Inr Create_def returnS_def)
    then show ?thesis using V unfolding stores_runtimes_def by blast
  next
    case (Some old)
    then obtain t s' where "update_attempt V r t = (Inr True, s')" "w' = snd s'"
      using run Inr poll_finished by (fastforce simp: CreateOrUpdate_def resource_update_def split: prod.splits)
    then obtain y where y: "sa_update (va_store V) (va_copyVersion V (fst t) r) (snd t) = (Inr y, w')" using update_attempt_done [of V r t s'] by auto
    have same: "ks_meta (kr_service (va_copyVersion V (fst t) r)) = ks_meta (kr_service r)"
        "ks_spec (kr_service (va_copyVersion V (fst t) r)) = ks_spec (kr_service r)"
      using V by (simp_all add: stores_runtimes_def)
    from y V have "\<exists>z. sa_get (va_store V) (ks_namespace (kr_service (va_copyVersion V (fst t) r))) (ks_name (kr_service (va_copyVersion V (fst t) r))) w' = Inr z
        \<and> ks_spec (kr_service z) = ks_spec (kr_service (va_copyVersion V (fst t) r))
        \<and> ks_namespace (kr_service z) = ks_namespace (kr_service (va_copyVersion V (fst t) r)) \<and> ks_name (kr_service z) = ks_name (kr_service (va_copyVersion V (fst t) r))"
      unfolding stores_runtimes_def by blast
    then show ?thesis unfolding same .
  qed
qed (use run in \<open>simp add: CreateOrUpdate_def\<close>)

lemma install_stores:
  assumes V: "stores_runtimes (cli_runtimes C)" and run: "runtime_InstallRuntimeService C flags w = (Inr (), w')"
  shows "\<exists>r cm res. FetchKogitoRuntimeInstance (va_store (cli_runtimes C)) (if_project (rf_install flags)) (rf_name flags) w' = Inr (Some r)
     \<and> ks_spec (kr_service r) = ks_spec (kr_service (runtime_of_flags flags cm res))
     \<and> ks_namespace (kr_service r) = if_project (rf_install flags) \<and> ks_name (kr_service r) = rf_name flags"
proof -
  obtain cm res w1 where "InstallRuntimeService C (runtime_of_flags flags cm res) w1 = (Inr (), w')"
    using run by (auto simp: runtime_InstallRuntimeService_def Let_def bindS_eq_Inr liftS_def)
  then have "CreateOrUpdate (cli_runtimes C) (runtime_of_flags flags cm res) w1 = (Inr (), w')"
    by (auto simp: InstallRuntimeService_def install_resource_def installKogitoResource_def split: option.splits prod.splits sum.splits)
  moreover have "ks_namespace (kr_service (runtime_of_flags flags cm res)) = if_project (rf_install flags)"
      "ks_name (kr_service (runtime_of_flags flags cm res)) = rf_name flags"
    by (simp_all add: runtime_of_flags_def service_of_def mk_meta_def)
  ultimately obtain z where "sa_get (va_store (cli_runtimes C)) (if_project (rf_install flags)) (rf_name flags) w' = Inr z"
      "ks_spec (kr_service z) = ks_spec (kr_service (runtime_of_flags flags cm res))"
      "ks_namespace (kr_service z) = if_project (rf_install flags)" "ks_name (kr_service z) = rf_name flags"
    using CreateOrUpdate_stores [OF V, of "runtime_of_flags flags cm res" w1 w'] by auto
  then show ?thesis
    by (intro exI [of _ z] exI [of _ cm] exI [of _ res]) (simp add: FetchKogitoRuntimeInstance_def FetchWithKey_def)
qed

section \<open>What reaches the container\<close>

text \<open>A variable that the definition sets is set in the first container, whatever a hook added before.\<close>

lemma required_env:
  assumes "dr_createRequiredResources K cx sm ih svc def img w = Inr [d]" "filter (\<lambda>e. ev_name e = k) (sd_envs def) \<noteq> []"
  shows "\<exists>c cs. dep_containers d = c # cs \<and> env_get k (c_env c) = Some (last (filter (\<lambda>e. ev_name e = k) (sd_envs def)))"
proof -
  from assms(1) obtain svc' d1 d2 d3 d4 where st:
    "mountEnvsOnDeployment svc' def (addDeploymentIdentifier K cx d1) = Inr d2"
    "mountConfigMapReferencesOnDeployment K def d2 w = Inr d3" "mountSecretReferencesOnDeployment K def d3 w = Inr d4"
    "own_object cx (ks_meta svc') dep_meta (\<lambda>m d. d\<lparr>dep_meta := m\<rparr>) (mountMeteringLabelsOnDeployment cx d4) = Inr d"
    by (auto simp: dr_createRequiredResources_def bindR_eq_Inr)
  obtain env envs where d2: "map c_env (dep_containers d2) = EnvOverride env (sd_envs def) # envs"
    using st(1) by (auto simp: mountEnvsOnDeployment_def with_container0_Inr set_containers_def simp del: EnvOverride.simps)
  have "mount_frame d2 d4" using mount_frame_references(1) [OF st(2)] mount_frame_references(2) [OF st(3)] by (rule mount_frame_trans)
  moreover have "dep_containers d = dep_containers d4" using st(4) by (auto simp: own_object_conv bindR_eq_Inr)
  ultimately have "map c_env (dep_containers d) = EnvOverride env (sd_envs def) # envs" using d2 by (simp add: mount_frame_def)
  then obtain c cs where c: "dep_containers d = c # cs" "c_env c = EnvOverride env (sd_envs def)" by (cases "dep_containers d") auto
  have "env_get k (EnvOverride env (sd_envs def)) = Some (last (filter (\<lambda>e. ev_name e = k) (sd_envs def)))"
    using assms(2) by (simp add: EnvOverride_fold env.get_fold_put split: list.split)
  with c show ?thesis by auto
qed

lemma FromStringsKeyPairToMap_distinct: "distinct (map fst (FromStringsKeyPairToMap items))"
proof -
  have "distinct (map fst m) \<Longrightarrow> distinct (map fst (key_pairs items m))" for m
    by (induction items arbitrary: m) (auto split: list.split)
  then show ?thesis by (simp add: FromStringsKeyPairToMap_def)
qed

text \<open>A variable given as a pair, and not as a secret as well, is one variable of the specification.\<close>

lemma secret_env_name: "e \<in> set (secret_env p) \<Longrightarrow> ev_name e = fst p"
proof -
  assume e: "e \<in> set (secret_env p)"
  obtain k v where p: "p = (k, v)" by (cases p)
  have none: "ev_name e = k" if "e \<in> set (case xs of [a, b] \<Rightarrow> [CreateSecretEnvVar k a b] | _ \<Rightarrow> [])" for xs :: "string list"
    using that by (cases xs; cases "tl xs"; cases "tl (tl xs)") (auto simp: CreateSecretEnvVar_def)
  have "e \<in> set (if c then xs else [])  \<Longrightarrow> e \<in> set xs" for c and xs :: "env_var list" by (cases c) simp_all
  from none [OF this [OF e [unfolded p secret_env_def prod.case]]] show ?thesis unfolding p fst_conv .
qed

lemma flag_env:
  assumes "map_of (FromStringsKeyPairToMap pairs) k = Some v" "k \<notin> fst ` set (FromStringsKeyPairToMap secrets)"
  shows "filter (\<lambda>e. ev_name e = k) (FromStringArrayToEnvs pairs secrets) = [CreateEnvVar k v]"
proof -
  have "filter (\<lambda>e. ev_name e = k) (map (\<lambda>(k, v). CreateEnvVar k v) ps) = (case map_of ps k of None \<Rightarrow> [] | Some v \<Rightarrow> [CreateEnvVar k v])"
    if "distinct (map fst ps)" for ps
    using that by (induction ps) (auto simp: CreateEnvVar_def filter_empty_conv image_iff split: option.splits)
  moreover have "filter (\<lambda>e. ev_name e = k) (concat (map secret_env ps)) = []" if "k \<notin> fst ` set ps" for ps
    using that secret_env_name by (auto simp: filter_empty_conv image_iff)
  ultimately show ?thesis using assms FromStringsKeyPairToMap_distinct by (simp add: FromStringArrayToEnvs_def)
qed

section \<open>From the flags to the container\<close>


section \<open>A runtime installed and deployed in memory\<close>

text \<open>A service without infras, trust store, labels and properties of its own is deployed in memory whatever the state of the cluster is.\<close>

lemma plain_Deploy_succeeds:
  assumes plain: "ss_infra (ks_spec inst) = []" "ss_trustStoreSecret (ks_spec inst) = []" "ss_propertiesConfigMap (ks_spec inst) = []"
      "ss_deploymentLabels (ks_spec inst) = []" "ss_replicas (ks_spec inst) = Some n"
  shows "fst (Deploy sample_env inst sample_definition w) = None"
proof -
  let ?d = "(sample_definition :: mem_world service_definition)\<lparr>sd_envs := ss_env (ks_spec inst)\<rparr>"
  define d1 where "d1 = ?d\<lparr>sd_configMapEnvFrom := sd_configMapEnvFrom ?d @ [getInfraPropertiesConfigMapName inst]\<rparr>"
  have s0: "initial_state inst sample_definition w = \<lparr>dst_instance = inst, dst_definition = ?d, dst_world = w\<rparr>"
    using plain(5) by (simp add: initial_state_def sample_definition_def Let_def)
  obtain w1 where s1: "config_Reconcile sample_env \<lparr>dst_instance = inst, dst_definition = ?d, dst_world = w\<rparr> =
      (Inr (), \<lparr>dst_instance = inst, dst_definition = d1, dst_world = w1\<rparr>)"
    using sample_config_stage [of "\<lparr>dst_instance = inst, dst_definition = ?d, dst_world = w\<rparr>"] by (auto simp: d1_def)
  let ?s = "\<lparr>dst_instance = inst, dst_definition = d1, dst_world = w1\<rparr>"
  have mid: "properties_Reconcile sample_env ?s = (Inr (), ?s)" "trustStore_Reconcile sample_env ?s = (Inr (), ?s)"
      "kogitoInfra_Reconcile sample_env ?s = (Inr (), ?s)"
    using plain by (simp_all add: properties_Reconcile_def trustStore_Reconcile_def kogitoInfra_Reconcile_def)
  let ?ih = "newImageHandler inst d1"
  obtain img where img: "ResolveImage (de_images sample_env) sample_context ?ih w1 = Inr img" "img \<noteq> []"
    by (simp add: ResolveImage_def sample_env_def resolveRegistryImage_def)
  obtain d0 c where d0: "CreateDeployment sample_context (Inr ''19'') inst img d1 = Inr (inst, d0)" "dep_containers d0 = [c]"
    using CreateDeployment_plain [of d1 inst sample_context "''19''" img] plain(4) by (auto simp: d1_def sample_definition_def)
  obtain req where "dr_createRequiredResources (mem_cluster False) sample_context (Inr ''19'') ?ih inst d1 img w1 = Inr req"
    using d0 by (simp add: dr_createRequiredResources_def d1_def sample_definition_def onDeploymentCreate_def
        mountEnvsOnDeployment_def mountConfigMapReferencesOnDeployment_def mountSecretReferencesOnDeployment_def own_object_conv
        sample_context_def with_container0_def cm_MountAsEnvFrom_def addDeploymentIdentifier_def Let_def)
  then obtain s6 where dep: "deployment_stage sample_env ?s = (Inr (), s6)"
    using sample_deployment_stage [OF img] by (metis prod.collapse)
  obtain w7 where s7: "service_Reconcile sample_env s6 = (Inr (), s6\<lparr>dst_world := w7\<rparr>)" using sample_service_stage by blast
  have "ss_infra (ks_spec (dst_instance (s6\<lparr>dst_world := w7\<rparr>))) = []"
    using deployment_stage_infra [of sample_env ?s] plain(1) unfolding dep by simp
  then have msg: "configureMessaging sample_env (s6\<lparr>dst_world := w7\<rparr>) = (Inr (), s6\<lparr>dst_world := w7\<rparr>)"
    by (simp add: configureMessaging_def on_instance_def kafka_CreateRequiredResources_def knative_CreateRequiredResources_def
        fetchInfraDependency_def bindS_def map_error_def)
  have "deploy_stages sample_env (initial_state inst sample_definition w) = (Inr (), s6\<lparr>dst_world := w7\<rparr>)"
    unfolding s0 deploy_stages_def by (simp add: bindS_def s1 mid sample_final_stages dep s7 msg Let_def)
  then show ?thesis by (simp add: Deploy_def)
qed

lemma sample_cli_stores: "stores_runtimes (cli_runtimes sample_cli)"
proof -
  have self: "same_key (\<lambda>r. ks_meta (kr_service r)) (ks_namespace (kr_service r)) (ks_name (kr_service r)) r" for r by (simp add: same_key_def)
  show ?thesis
    by (auto simp: stores_runtimes_def sample_cli_def mem_create_def mem_update_def mem_get_def self find_replaced [of "\<lambda>r. ks_meta (kr_service r)"] Let_def split: if_splits option.splits)
qed

definition env_flags :: runtime_flags where
  "env_flags = sample_runtime_flags\<lparr>rf_install := (rf_install sample_runtime_flags)\<lparr>if_envs := \<lparr>fl_env = [''A=1''], fl_secretEnv = []\<rparr>\<rparr>\<rparr>"

lemma sample_install:
  "runtime_InstallRuntimeService sample_cli env_flags sample_cli_world = (Inr (), sample_cli_world\<lparr>cw_runtimes := [runtime_of_flags env_flags [] (None, None)]\<rparr>)"
proof -
  let ?r = "runtime_of_flags env_flags [] (None, None)"
  have "CreateOrUpdate (cli_runtimes sample_cli) ?r sample_cli_world = (Inr (), sample_cli_world\<lparr>cw_runtimes := [?r]\<rparr>)"
    by (simp add: CreateOrUpdate_def Fetch_def FetchWithKey_def Create_def bindS_def returnS_def sample_cli_def sample_cli_world_def mem_get_def mem_create_def)
  then have "InstallRuntimeService sample_cli ?r sample_cli_world = (Inr (), sample_cli_world\<lparr>cw_runtimes := [?r]\<rparr>)"
    by (simp add: InstallRuntimeService_def install_resource_def installKogitoResource_def CheckOperatorCRDs_def IsKogitoCRDsAvailable_def HasServerGroup_def HasPrefix_def sample_cli_def)
  moreover have "if_podResources (rf_install env_flags) = \<lparr>fl_limits = None, fl_requests = None\<rparr>" "fl_configFile (if_config (rf_install env_flags)) = []"
      "if_project (rf_install env_flags) = ''new''"
    by (simp_all add: env_flags_def sample_runtime_flags_def)
  ultimately show ?thesis
    by (simp add: runtime_InstallRuntimeService_def CreateConfigMapFromFile_def FromPodResourceFlagsToResourceRequirement_def FromStringArrayToResources_def
        printMgmtConsoleInfo_def FetchKogitoSupportingServiceRoute_def FetchKogitoSupportingServiceForServiceType_def FetchKogitoSupportingServiceList_def
        ListWithNamespace_def mem_list_def bindS_def liftS_def Let_def)
qed


end
