(* ===== verification/Controller_Setup.thy ===== *)
theory Controller_Setup
  imports Operator_Main Infra_Settles
begin

text \<open>
  The registration of the controllers, \<^verbatim>\<open>SetupWithManager\<close> of \<^verbatim>\<open>controllers/common\<close>: the kind each controller is for and the kinds it owns, and which
  objects wake it.  How an event becomes a request is controller-runtime's and a parameter; what it documents is a hypothesis: it
  goes by the one owner reference that is marked as the controller.  Every object that a reconciler requires with \<^verbatim>\<open>SetOwner\<close> therefore
  wakes the controller of its owner; an image stream, which is shared with \<^verbatim>\<open>AddOwnerReference\<close>, wakes nobody, although three controllers own its kind.
\<close>

section \<open>Builders\<close>

record controller_builder =
  cb_for :: gvk
  cb_owns :: "gvk list"

definition NewControllerFor :: "gvk \<Rightarrow> controller_builder" where
  "NewControllerFor t = \<lparr>cb_for = t, cb_owns = []\<rparr>"

definition Owns :: "gvk \<Rightarrow> controller_builder \<Rightarrow> controller_builder" where
  "Owns t b = b\<lparr>cb_owns := cb_owns b @ [t]\<rparr>"

definition ServiceKind :: gvk where "ServiceKind = \<lparr>gvk_group = [], gvk_version = ''v1'', gvk_kind = ''Service''\<rparr>"

definition ConfigMapKind :: gvk where "ConfigMapKind = \<lparr>gvk_group = [], gvk_version = ''v1'', gvk_kind = ''ConfigMap''\<rparr>"

definition SecretKind :: gvk where "SecretKind = \<lparr>gvk_group = [], gvk_version = ''v1'', gvk_kind = ''Secret''\<rparr>"

definition DeploymentKind :: gvk where "DeploymentKind = \<lparr>gvk_group = ''apps'', gvk_version = ''v1'', gvk_kind = ''Deployment''\<rparr>"

definition RouteKind :: gvk where "RouteKind = \<lparr>gvk_group = ''route.openshift.io'', gvk_version = ''v1'', gvk_kind = ''Route''\<rparr>"

definition ImageStreamKind :: gvk where "ImageStreamKind = \<lparr>gvk_group = ''image.openshift.io'', gvk_version = ''v1'', gvk_kind = ''ImageStream''\<rparr>"

definition BuildConfigKind :: gvk where "BuildConfigKind = \<lparr>gvk_group = ''build.openshift.io'', gvk_version = ''v1'', gvk_kind = ''BuildConfig''\<rparr>"

lemmas watched_kinds = ServiceKind_def ConfigMapKind_def SecretKind_def DeploymentKind_def RouteKind_def ImageStreamKind_def BuildConfigKind_def

definition AppendInfinispanWatchedObjects :: "controller_builder \<Rightarrow> controller_builder" where
  "AppendInfinispanWatchedObjects b = Owns SecretKind b"

definition AppendKafkaWatchedObjects :: "controller_builder \<Rightarrow> controller_builder" where
  "AppendKafkaWatchedObjects b = b"

definition AppendKeycloakWatchedObjects :: "controller_builder \<Rightarrow> controller_builder" where
  "AppendKeycloakWatchedObjects b = b"

definition AppendMongoDBWatchedObjects :: "controller_builder \<Rightarrow> controller_builder" where
  "AppendMongoDBWatchedObjects b = Owns SecretKind b"

definition AppendConfigMapWatchedObjects :: "controller_builder \<Rightarrow> controller_builder" where
  "AppendConfigMapWatchedObjects b = Owns ConfigMapKind b"

definition AppendSecretWatchedObjects :: "controller_builder \<Rightarrow> controller_builder" where
  "AppendSecretWatchedObjects b = Owns SecretKind b"

definition runtime_SetupWithManager :: "bool \<Rightarrow> 'w runtime_reconciler \<Rightarrow> controller_builder" where
  "runtime_SetupWithManager isOpenshift r =
     (let b = Owns ConfigMapKind (Owns DeploymentKind (Owns ServiceKind (NewControllerFor (rrc_reconcilingObject r))))
      in if isOpenshift then Owns ImageStreamKind (Owns RouteKind b) else b)"

definition supporting_SetupWithManager :: "bool \<Rightarrow> 'w supporting_reconciler \<Rightarrow> controller_builder" where
  "supporting_SetupWithManager isOpenshift r =
     (let b = Owns ConfigMapKind (Owns DeploymentKind (Owns ServiceKind (NewControllerFor (src_reconcilingObject r))))
      in if isOpenshift then Owns ImageStreamKind (Owns RouteKind b) else b)"

definition build_SetupWithManager :: "bool \<Rightarrow> 'w build_reconciler \<Rightarrow> controller_builder" where
  "build_SetupWithManager isOpenshift r =
     (let b = NewControllerFor (brc_reconcilingObject r)
      in if isOpenshift then Owns ImageStreamKind (Owns BuildConfigKind b) else b)"

definition infra_SetupWithManager :: "'w infra_reconciler \<Rightarrow> controller_builder" where
  "infra_SetupWithManager r =
     AppendSecretWatchedObjects (AppendConfigMapWatchedObjects (AppendMongoDBWatchedObjects (AppendKeycloakWatchedObjects
       (AppendKafkaWatchedObjects (AppendInfinispanWatchedObjects (NewControllerFor (irc_reconcilingObject r)))))))"

definition runtimeDeployment_SetupWithManager :: "'w deployment_reconciler \<Rightarrow> controller_builder" where
  "runtimeDeployment_SetupWithManager r = NewControllerFor DeploymentKind"

text \<open>The method that the manager calls for a controller.\<close>

definition SetupWithManager :: "bool \<Rightarrow> 'w controller \<Rightarrow> controller_builder" where
  "SetupWithManager isOpenshift c =
     (case c of
        RuntimeController r \<Rightarrow> runtime_SetupWithManager isOpenshift r
      | SupportingController r \<Rightarrow> supporting_SetupWithManager isOpenshift r
      | BuildController r \<Rightarrow> build_SetupWithManager isOpenshift r
      | InfraController r \<Rightarrow> infra_SetupWithManager r
      | DeploymentController r \<Rightarrow> runtimeDeployment_SetupWithManager r)"

lemma setup_for [simp]:
  "cb_for (runtime_SetupWithManager os r) = rrc_reconcilingObject r"
  "cb_for (supporting_SetupWithManager os sr) = src_reconcilingObject sr"
  "cb_for (build_SetupWithManager os br) = brc_reconcilingObject br"
  "cb_for (infra_SetupWithManager ir) = irc_reconcilingObject ir"
  by (simp_all add: runtime_SetupWithManager_def supporting_SetupWithManager_def build_SetupWithManager_def infra_SetupWithManager_def
      AppendInfinispanWatchedObjects_def AppendKafkaWatchedObjects_def AppendKeycloakWatchedObjects_def AppendMongoDBWatchedObjects_def
      AppendConfigMapWatchedObjects_def AppendSecretWatchedObjects_def Owns_def NewControllerFor_def Let_def)

lemma setup_owns:
  "set (cb_owns (runtime_SetupWithManager os r)) = {ServiceKind, DeploymentKind, ConfigMapKind} \<union> (if os then {RouteKind, ImageStreamKind} else {})"
  "set (cb_owns (supporting_SetupWithManager os sr)) = {ServiceKind, DeploymentKind, ConfigMapKind} \<union> (if os then {RouteKind, ImageStreamKind} else {})"
  "set (cb_owns (build_SetupWithManager os br)) = (if os then {BuildConfigKind, ImageStreamKind} else {})"
  "set (cb_owns (infra_SetupWithManager ir)) = {ConfigMapKind, SecretKind}"
  by (auto simp: runtime_SetupWithManager_def supporting_SetupWithManager_def build_SetupWithManager_def infra_SetupWithManager_def
      AppendInfinispanWatchedObjects_def AppendKafkaWatchedObjects_def AppendKeycloakWatchedObjects_def AppendMongoDBWatchedObjects_def
      AppendConfigMapWatchedObjects_def AppendSecretWatchedObjects_def Owns_def NewControllerFor_def Let_def)

section \<open>Requests\<close>

text \<open>The keys that a controller is asked to reconcile after an event on an object of a kind, as controller-runtime finds them for what was registered with
  the builder.  The event carries the old and the new object of an update.\<close>

type_synonym runtime_requests = "controller_builder \<Rightarrow> gvk \<Rightarrow> object_meta watch_event \<Rightarrow> (string \<times> string) list"

definition event_on :: "object_meta \<Rightarrow> object_meta watch_event \<Rightarrow> bool" where
  "event_on m e \<longleftrightarrow> (case e of Created x \<Rightarrow> x = m | Updated old new deleting \<Rightarrow> old = m \<or> new = m | Deleted x \<Rightarrow> x = m)"

definition gvk_reference :: "gvk \<Rightarrow> string \<times> string" where
  "gvk_reference t = (if gvk_group t = [] then gvk_version t else gvk_group t @ ''/'' @ gvk_version t, gvk_kind t)"

definition GetControllerOf :: "object_meta \<Rightarrow> owner_reference option" where
  "GetControllerOf m = find (\<lambda>r. or_controller r = Some True) (om_owners m)"

text \<open>What controller-runtime documents of \<^verbatim>\<open>Owns\<close>: an event on an object of an owned kind asks for the owner that the controller reference names, in the
  namespace of the object, when the reference is of the type the controller is for.  A kind that a controller is not for asks for nothing by objects without a
  controller reference.\<close>

definition owner_requests :: "runtime_requests \<Rightarrow> bool" where
  "owner_requests requests \<longleftrightarrow> (\<forall>b kind e.
     (\<forall>m r. kind \<in> set (cb_owns b) \<longrightarrow> event_on m e \<longrightarrow> GetControllerOf m = Some r \<longrightarrow> (or_apiVersion r, or_kind r) = gvk_reference (cb_for b) \<longrightarrow>
        (om_namespace m, or_name r) \<in> set (requests b kind e))
     \<and> (kind \<noteq> cb_for b \<longrightarrow> (\<forall>m. event_on m e \<longrightarrow> GetControllerOf m = None) \<longrightarrow> requests b kind e = []))"

text \<open>What it documents of \<^verbatim>\<open>SetControllerReference\<close>: only the owner references change, and the controller reference names the owner with its type.\<close>

definition controller_reference_laws :: "op_context \<Rightarrow> bool" where
  "controller_reference_laws cx \<longleftrightarrow> (\<forall>owner m m'. cx_setControllerReference cx owner m = Inr m' \<longrightarrow> m' = m\<lparr>om_owners := om_owners m'\<rparr>
     \<and> (\<exists>r. GetControllerOf m' = Some r \<and> or_name r = om_name owner \<and> cx_gvkForObject cx owner = Inr (or_apiVersion r, or_kind r)))"

lemma controller_laws_owner_only: "controller_reference_laws cx \<Longrightarrow> sets_owner_only cx"
  by (auto simp: controller_reference_laws_def sets_owner_only_def)

lemma owned_wakes:
  assumes laws: "owner_requests requests" and cx: "controller_reference_laws cx" and gvk: "cx_gvkForObject cx owner = Inr (gvk_reference (cb_for b))"
    and kind: "kind \<in> set (cb_owns b)" and own: "own_object cx owner gm sm x = Inr y" and field: "\<And>m x. gm (sm m x) = m"
    and ev: "event_on (gm y) e"
  shows "(om_namespace (gm x), om_name owner) \<in> set (requests b kind e)"
proof -
  obtain m where m: "cx_setControllerReference cx owner (gm x) = Inr m" "gm y = m"
    using own field by (auto simp: own_object_conv bindR_eq_Inr)
  obtain r where r: "m = (gm x)\<lparr>om_owners := om_owners m\<rparr>" "GetControllerOf m = Some r" "or_name r = om_name owner"
      "(or_apiVersion r, or_kind r) = gvk_reference (cb_for b)"
    using cx [unfolded controller_reference_laws_def, rule_format, OF m(1)] gvk by auto
  have "om_namespace m = om_namespace (gm x)" by (subst r(1)) simp
  with laws [unfolded owner_requests_def, THEN spec, THEN spec, THEN spec, THEN conjunct1, rule_format, OF kind ev, of r] r m(2) show ?thesis by simp
qed

text \<open>A shared object gets no controller reference.\<close>

lemma shared_controller: "GetControllerOf (add_owner g owner m) = GetControllerOf m"
proof -
  have "find p (xs @ [x]) = (case find p xs of None \<Rightarrow> if p x then Some x else None | Some y \<Rightarrow> Some y)"
    for p :: "owner_reference \<Rightarrow> bool" and xs x
    by (induction xs) auto
  then show ?thesis by (simp add: add_owner_def GetControllerOf_def new_owner_reference_def split: option.split)
qed

lemma group_controllers_for:
  "c \<in> set (group_controllers G productMode) \<Longrightarrow> cb_for (SetupWithManager os c) \<in> {DeploymentKind} \<union> range app_kind \<union> range rhpam_kind"
  by (auto simp: group_controllers_def SetupWithManager_def app_NewKogitoRuntimeReconciler_def app_NewKogitoSupportingServiceReconciler_def
      app_NewKogitoBuildReconciler_def app_NewKogitoInfraReconciler_def rhpam_NewKogitoRuntimeReconciler_def
      rhpam_NewKogitoSupportingServiceReconciler_def rhpam_NewKogitoBuildReconciler_def rhpam_NewKogitoInfraReconciler_def
      runtimeDeployment_SetupWithManager_def NewControllerFor_def split: if_splits)

section \<open>What wakes the controllers\<close>

text \<open>The required deployment is the object of \<^const>\<open>own_object\<close> in the last step.\<close>

lemma dr_required_owned:
  assumes "controller_reference_laws cx" "hook_keeps_key def" "dr_createRequiredResources K cx sm ih inst def img w = Inr [d]"
  shows "\<exists>x. own_object cx (ks_meta inst) dep_meta (\<lambda>m d. d\<lparr>dep_meta := m\<rparr>) x = Inr d \<and> om_namespace (dep_meta x) = ks_namespace inst"
proof -
  obtain svc' d0 d1 d2 d3 d4 where st: "CreateDeployment cx sm inst img def = Inr (svc', d0)"
      "own_object cx (ks_meta svc') dep_meta (\<lambda>m d. d\<lparr>dep_meta := m\<rparr>) (mountMeteringLabelsOnDeployment cx d4) = Inr d"
    using assms(3) by (auto simp: dr_createRequiredResources_def bindR_eq_Inr)
  have svc': "ks_meta svc' = ks_meta inst"
    using st(1) by (auto simp: CreateDeployment_def bindR_eq_Inr cap_replicas_def with_app_label_def map_spec_def split: option.splits if_splits)
  have "om_namespace (dep_meta d) = ks_namespace inst"
    using dr_required_key [OF controller_laws_owner_only [OF assms(1)] assms(2,3)] by auto
  moreover have "om_namespace (dep_meta (mountMeteringLabelsOnDeployment cx d4)) = om_namespace (dep_meta d)"
    using owned_parts [OF controller_laws_owner_only [OF assms(1)] st(2)] by auto
  ultimately show ?thesis using st(2) svc' by auto
qed

text \<open>C12: whatever happens to an object of a service wakes the controller of the service.  The configuration, the deployment, the service and, on
  OpenShift, the route that the reconcilers require carry the resource as their controller, and both controllers that deploy services own these
  kinds: when such an object is created, changed, whatever it becomes, or deleted, the key of the resource is requested.\<close>

theorem service_objects_wake:
  assumes laws: "owner_requests requests" and cx: "controller_reference_laws cx" and hook: "hook_keeps_key def"
    and b: "b = runtime_SetupWithManager os r \<or> b = supporting_SetupWithManager os sr"
    and gvk: "cx_gvkForObject cx (ks_meta inst) = Inr (gvk_reference (cb_for b))"
  shows "(cr_createRequiredResources cx inst w = Inr [c] \<longrightarrow> event_on (cm_meta c) e \<longrightarrow>
        (ks_namespace inst, ks_name inst) \<in> set (requests b ConfigMapKind e))
    \<and> (dr_createRequiredResources K cx sm ih inst def img w' = Inr [d] \<longrightarrow> event_on (dep_meta d) e \<longrightarrow>
        (ks_namespace inst, ks_name inst) \<in> set (requests b DeploymentKind e))
    \<and> (sr_createRequiredResources cx inst w'' = Inr [s] \<longrightarrow> event_on (svc_meta s) e \<longrightarrow>
        (ks_namespace inst, ks_name inst) \<in> set (requests b ServiceKind e))
    \<and> (os \<longrightarrow> rr_createRequiredResources cx inst w''' = Inr [rt] \<longrightarrow> event_on (rt_meta rt) e \<longrightarrow>
        (ks_namespace inst, ks_name inst) \<in> set (requests b RouteKind e))"
proof -
  note wakes = owned_wakes [OF laws cx gvk]
  have owns: "{ServiceKind, DeploymentKind, ConfigMapKind} \<subseteq> set (cb_owns b)" "os \<Longrightarrow> RouteKind \<in> set (cb_owns b)"
    using b by (auto simp: setup_owns)
  have ns: "om_namespace (cm_meta (createInfraPropertiesConfigMap inst)) = ks_namespace inst" "om_namespace (svc_meta (CreateService inst)) = ks_namespace inst"
      "om_namespace (rt_meta (CreateRoute inst)) = ks_namespace inst"
    by (simp_all add: createInfraPropertiesConfigMap_def CreateService_def CreateRoute_def mk_meta_def)
  show ?thesis
  proof (intro conjI impI)
    assume "cr_createRequiredResources cx inst w = Inr [c]" "event_on (cm_meta c) e"
    then show "(ks_namespace inst, ks_name inst) \<in> set (requests b ConfigMapKind e)"
      using wakes [where gm = cm_meta and sm = "\<lambda>m c. c\<lparr>cm_meta := m\<rparr>" and x = "createInfraPropertiesConfigMap inst" and y = c] owns(1) ns
      by (auto simp: cr_createRequiredResources_def bindR_eq_Inr)
  next
    assume "dr_createRequiredResources K cx sm ih inst def img w' = Inr [d]" "event_on (dep_meta d) e"
    then show "(ks_namespace inst, ks_name inst) \<in> set (requests b DeploymentKind e)"
      using wakes [where gm = dep_meta and sm = "\<lambda>m d. d\<lparr>dep_meta := m\<rparr>" and y = d] dr_required_owned [OF cx hook] owns(1) by fastforce
  next
    assume "sr_createRequiredResources cx inst w'' = Inr [s]" "event_on (svc_meta s) e"
    then show "(ks_namespace inst, ks_name inst) \<in> set (requests b ServiceKind e)"
      using wakes [where gm = svc_meta and sm = "\<lambda>m c. c\<lparr>svc_meta := m\<rparr>" and x = "CreateService inst" and y = s] owns(1) ns
      by (auto simp: sr_createRequiredResources_def bindR_eq_Inr)
  next
    assume "os" "rr_createRequiredResources cx inst w''' = Inr [rt]" "event_on (rt_meta rt) e"
    then show "(ks_namespace inst, ks_name inst) \<in> set (requests b RouteKind e)"
      using wakes [where gm = rt_meta and sm = "\<lambda>m c. c\<lparr>rt_meta := m\<rparr>" and x = "CreateRoute inst" and y = rt] owns(2) ns
      by (auto simp: rr_createRequiredResources_def bindR_eq_Inr)
  qed
qed

text \<open>The same for what an infra provides: its config maps and secrets wake the infra controller.\<close>

lemma infra_owned_wakes:
  assumes "owner_requests requests" "controller_reference_laws cx" "cx_gvkForObject cx (ki_meta inst) = Inr (gvk_reference (irc_reconcilingObject r))"
  shows "owned_configMap cx inst c = Inr cs \<Longrightarrow> om_namespace (cm_meta c) = ki_namespace inst \<Longrightarrow> c' \<in> set cs \<Longrightarrow> event_on (cm_meta c') e \<Longrightarrow>
      (ki_namespace inst, ki_name inst) \<in> set (requests (infra_SetupWithManager r) ConfigMapKind e)"
    and "own_object cx (ki_meta inst) sec_meta (\<lambda>m c. c\<lparr>sec_meta := m\<rparr>) s = Inr s' \<Longrightarrow> om_namespace (sec_meta s) = ki_namespace inst \<Longrightarrow>
      event_on (sec_meta s') e \<Longrightarrow> (ki_namespace inst, ki_name inst) \<in> set (requests (infra_SetupWithManager r) SecretKind e)"
proof -
  note wakes = owned_wakes [where b = "infra_SetupWithManager r", unfolded setup_for, OF assms]
  show "owned_configMap cx inst c = Inr cs \<Longrightarrow> om_namespace (cm_meta c) = ki_namespace inst \<Longrightarrow> c' \<in> set cs \<Longrightarrow> event_on (cm_meta c') e \<Longrightarrow>
      (ki_namespace inst, ki_name inst) \<in> set (requests (infra_SetupWithManager r) ConfigMapKind e)"
    using wakes [where gm = cm_meta and sm = "\<lambda>m c. c\<lparr>cm_meta := m\<rparr>" and x = c and y = c'] by (auto simp: owned_configMap_def bindR_eq_Inr setup_owns)
  show "own_object cx (ki_meta inst) sec_meta (\<lambda>m c. c\<lparr>sec_meta := m\<rparr>) s = Inr s' \<Longrightarrow> om_namespace (sec_meta s) = ki_namespace inst \<Longrightarrow>
      event_on (sec_meta s') e \<Longrightarrow> (ki_namespace inst, ki_name inst) \<in> set (requests (infra_SetupWithManager r) SecretKind e)"
    using wakes [where gm = sec_meta and sm = "\<lambda>m c. c\<lparr>sec_meta := m\<rparr>" and x = s and y = s'] by (auto simp: setup_owns)
qed

lemma infra_secret_wakes:
  assumes "owner_requests requests" "controller_reference_laws cx" "cx_gvkForObject cx (ki_meta inst) = Inr (gvk_reference (irc_reconcilingObject r))"
    and "owned_secret cx inst s = Inr ss" "om_namespace (sec_meta s) = ki_namespace inst" "s' \<in> set ss" "event_on (sec_meta s') e"
  shows "(ki_namespace inst, ki_name inst) \<in> set (requests (infra_SetupWithManager r) SecretKind e)"
  using assms(4-7) infra_owned_wakes(2) [OF assms(1-3)] by (auto simp: owned_secret_def bindR_eq_Inr)

theorem infra_objects_wake:
  assumes laws: "owner_requests requests" and cx: "controller_reference_laws (ie_context E)"
    and gvk: "cx_gvkForObject (ie_context E) (ki_meta inst) = Inr (gvk_reference (irc_reconcilingObject r))"
  shows "infraProps_createRequiredResources E inst w = Inr cs \<or> kafkaConfig_createRequiredResources E k rt inst w = Inr cs
      \<or> infinispanConfig_createRequiredResources E i rt inst w = Inr cs \<or> mongoDBConfig_createRequiredResources E m rt inst w = Inr cs \<Longrightarrow>
      c \<in> set cs \<Longrightarrow> event_on (cm_meta c) e \<Longrightarrow> (ki_namespace inst, ki_name inst) \<in> set (requests (infra_SetupWithManager r) ConfigMapKind e)"
    and "infinispanCredential_createRequiredResources E i rt inst w = Inr ss \<or> trustStoreSecret_createRequiredResources E rt inst w = Inr ss
      \<or> mongoDBCredential_createRequiredResources E m rt inst w = Inr ss \<or> required_truststore_secret E i inst w = Inr s \<and> ss = [s] \<Longrightarrow>
      s \<in> set ss \<Longrightarrow> event_on (sec_meta s) e \<Longrightarrow> (ki_namespace inst, ki_name inst) \<in> set (requests (infra_SetupWithManager r) SecretKind e)"
proof -
  note owned = infra_owned_wakes [OF laws cx gvk] infra_secret_wakes [OF laws cx gvk]
  note defs = infraProps_createRequiredResources_def kafkaConfig_createRequiredResources_def infinispanConfig_createRequiredResources_def
    mongoDBConfig_createRequiredResources_def infinispanCredential_createRequiredResources_def trustStoreSecret_createRequiredResources_def
    mongoDBCredential_createRequiredResources_def required_truststore_secret_def
  note objects = infraProps_configMap_def createKafkaConfigMap_def createInfinispanConfigMap_def createMongoDBConfigMap_def app_configMap_def
    createInfinispanSecret_def createInfinispanTrustStoreSecret_def createCustomKogitoMongoDBSecret_def truststore_secret_def mk_meta_def
  show "infraProps_createRequiredResources E inst w = Inr cs \<or> kafkaConfig_createRequiredResources E k rt inst w = Inr cs
      \<or> infinispanConfig_createRequiredResources E i rt inst w = Inr cs \<or> mongoDBConfig_createRequiredResources E m rt inst w = Inr cs \<Longrightarrow>
      c \<in> set cs \<Longrightarrow> event_on (cm_meta c) e \<Longrightarrow> (ki_namespace inst, ki_name inst) \<in> set (requests (infra_SetupWithManager r) ConfigMapKind e)"
    unfolding defs bindR_eq_Inr by (elim disjE exE conjE; rule owned(1), assumption) (simp_all add: objects)
  show "infinispanCredential_createRequiredResources E i rt inst w = Inr ss \<or> trustStoreSecret_createRequiredResources E rt inst w = Inr ss
      \<or> mongoDBCredential_createRequiredResources E m rt inst w = Inr ss \<or> required_truststore_secret E i inst w = Inr s \<and> ss = [s] \<Longrightarrow>
      s \<in> set ss \<Longrightarrow> event_on (sec_meta s) e \<Longrightarrow> (ki_namespace inst, ki_name inst) \<in> set (requests (infra_SetupWithManager r) SecretKind e)"
    unfolding defs bindR_eq_Inr by (elim disjE exE conjE; (rule owned(3), assumption | rule owned(2), assumption)) (simp_all add: objects)
qed


section \<open>The libraries in memory\<close>

definition controller_owner :: "gvk \<Rightarrow> object_meta \<Rightarrow> (string \<times> string) list" where
  "controller_owner t m =
     (case GetControllerOf m of
        None \<Rightarrow> []
      | Some r \<Rightarrow> if (or_apiVersion r, or_kind r) = gvk_reference t then [(om_namespace m, or_name r)] else [])"

definition mem_requests :: runtime_requests where
  "mem_requests b kind e =
     (let ask = (\<lambda>m. (if kind = cb_for b then [(om_namespace m, om_name m)] else []) @ (if kind \<in> set (cb_owns b) then controller_owner (cb_for b) m else []))
      in case e of Created m \<Rightarrow> ask m | Updated old new deleting \<Rightarrow> ask old @ ask new | Deleted m \<Rightarrow> ask m)"

text \<open>An object has one controller at most; its reference replaces a reference to the same owner.\<close>

definition mem_setControllerReference :: "string \<times> string \<Rightarrow> object_meta \<Rightarrow> object_meta \<Rightarrow> gerr + object_meta" where
  "mem_setControllerReference g owner m =
     (if list_ex (\<lambda>r. or_controller r = Some True \<and> or_uid r \<noteq> om_uid owner) (om_owners m)
      then Inl (PlainError ''the object is already owned by another controller'')
      else Inr (m\<lparr>om_owners := filter (\<lambda>r. or_uid r \<noteq> om_uid owner) (om_owners m)
             @ [(new_owner_reference g owner)\<lparr>or_controller := Some True, or_block := Some True\<rparr>]\<rparr>))"

definition controlling_context :: op_context where
  "controlling_context =
     sample_context\<lparr>cx_setControllerReference := mem_setControllerReference (''app.kiegroup.org/v1beta1'', ''KogitoRuntime'')\<rparr>"

lemma mem_owner_requests: "owner_requests mem_requests"
  by (auto simp: owner_requests_def mem_requests_def controller_owner_def event_on_def Let_def split: watch_event.split option.split)

lemma find_appended: "\<not> list_ex p xs \<Longrightarrow> p x \<Longrightarrow> find p (xs @ [x]) = Some x"
  by (induction xs) auto

lemma controlling_context_laws: "controller_reference_laws controlling_context"
proof (unfold controller_reference_laws_def, intro allI impI)
  fix owner m m'
  assume "cx_setControllerReference controlling_context owner m = Inr m'"
  then have none: "\<not> list_ex (\<lambda>r. or_controller r = Some True \<and> or_uid r \<noteq> om_uid owner) (om_owners m)"
    and m': "m' = m\<lparr>om_owners := filter (\<lambda>r. or_uid r \<noteq> om_uid owner) (om_owners m)
      @ [(new_owner_reference (''app.kiegroup.org/v1beta1'', ''KogitoRuntime'') owner)\<lparr>or_controller := Some True, or_block := Some True\<rparr>]\<rparr>"
    by (auto simp: controlling_context_def mem_setControllerReference_def split: if_splits)
  have "\<not> list_ex (\<lambda>r. or_controller r = Some True) (filter (\<lambda>r. or_uid r \<noteq> om_uid owner) (om_owners m))"
    using none by (auto simp: list_ex_iff)
  from find_appended [OF this] show "m' = m\<lparr>om_owners := om_owners m'\<rparr> \<and> (\<exists>r. GetControllerOf m' = Some r \<and> or_name r = om_name owner
      \<and> cx_gvkForObject controlling_context owner = Inr (or_apiVersion r, or_kind r))"
    unfolding m' by (simp add: GetControllerOf_def new_owner_reference_def controlling_context_def sample_context_def)
qed

lemma controlling_gvk:
  "cx_gvkForObject controlling_context m = Inr (gvk_reference (cb_for (runtime_SetupWithManager os (app_NewKogitoRuntimeReconciler G))))"
  by (simp add: controlling_context_def sample_context_def app_NewKogitoRuntimeReconciler_def app_kind_def gvk_reference_def)

section \<open>A service whose objects are deleted\<close>

abbreviation (input) sample_setup :: controller_builder where
  "sample_setup \<equiv> runtime_SetupWithManager True (app_NewKogitoRuntimeReconciler empty_groups)"

lemma service_objects_wake_witness:
  "\<exists>s rt. sr_createRequiredResources controlling_context sample_service empty_world = Inr [s]
     \<and> (ks_namespace sample_service, ks_name sample_service) \<in> set (mem_requests sample_setup ServiceKind (Deleted (svc_meta s)))
     \<and> rr_createRequiredResources controlling_context sample_service empty_world = Inr [rt]
     \<and> (ks_namespace sample_service, ks_name sample_service) \<in> set (mem_requests sample_setup RouteKind (Deleted (rt_meta rt)))"
proof -
  have free: "\<exists>m'. cx_setControllerReference controlling_context owner m = Inr m'" if "om_owners m = []" for owner m
    using that by (simp add: controlling_context_def mem_setControllerReference_def)
  obtain s where s: "sr_createRequiredResources controlling_context sample_service empty_world = Inr [s]"
    using free [of "svc_meta (CreateService sample_service)" "ks_meta sample_service"]
    by (auto simp: sr_createRequiredResources_def own_object_conv CreateService_def mk_meta_def)
  obtain rt where rt: "rr_createRequiredResources controlling_context sample_service empty_world = Inr [rt]"
    using free [of "rt_meta (CreateRoute sample_service)" "ks_meta sample_service"]
    by (auto simp: rr_createRequiredResources_def own_object_conv CreateRoute_def mk_meta_def)
  have "hook_keeps_key sample_definition" by (simp add: hook_keeps_key_def sample_definition_def)
  note wake = service_objects_wake [OF mem_owner_requests controlling_context_laws this disjI1 [OF refl] controlling_gvk]
  have "event_on (svc_meta s) (Deleted (svc_meta s))" "event_on (rt_meta rt) (Deleted (rt_meta rt))" by (simp_all add: event_on_def)
  with s rt wake [THEN conjunct2, THEN conjunct2, THEN conjunct1, rule_format, OF s]
    wake [THEN conjunct2, THEN conjunct2, THEN conjunct2, rule_format, OF TrueI rt] show ?thesis
    by (intro exI [of _ s] exI [of _ rt] conjI)
qed


end
