(* ===== verification/Framework_Metadata.thy ===== *)
theory Framework_Metadata
  imports Framework_Comparator Framework_Util Image_Handler "HOL-Library.Word"
begin

text \<open>
  What a deployment configuration takes from the labels of an image: \<^verbatim>\<open>core/framework/image_metadata.go\<close>.  Ports are 32 bit numbers.  The probe that a
  container gets is a pointer to one variable of the package, so that the variable is a state of its own and a container holds a
  reference.
\<close>

section \<open>Labels of an image\<close>

text \<open>The labels, where the image, its configuration and its labels are not nil.\<close>

definition image_labels :: "docker_image option \<Rightarrow> smap option" where
  "image_labels dockerImage = (case dockerImage of None \<Rightarrow> None | Some d \<Rightarrow> di_labels d)"

definition dockerImageHasLabels :: "docker_image option \<Rightarrow> bool" where
  "dockerImageHasLabels dockerImage \<longleftrightarrow> image_labels dockerImage \<noteq> None"

definition LabelKeyOrgKie :: string where "LabelKeyOrgKie = ''org.kie/''"

definition LabelKeyOrgKiePersistence :: string where "LabelKeyOrgKiePersistence = LabelKeyOrgKie @ ''persistence''"

definition LabelKeyPrometheus :: string where "LabelKeyPrometheus = ''prometheus.io''"

section \<open>Labels and annotations of the deployment configuration\<close>

definition has_key :: "string \<Rightarrow> smap \<Rightarrow> bool" where
  "has_key k m \<longleftrightarrow> map_of m k \<noteq> None"

definition put_label :: "string \<Rightarrow> string \<Rightarrow> deployment_config \<Rightarrow> deployment_config" where
  "put_label k v dc =
     dc\<lparr>dcf_meta := (dcf_meta dc)\<lparr>om_labels := smap_put k v (om_labels (dcf_meta dc))\<rparr>,
        dcf_selector := smap_put k v (dcf_selector dc),
        dcf_template := (dcf_template dc)\<lparr>pt_labels := smap_put k v (pt_labels (dcf_template dc))\<rparr>\<rparr>"

definition put_annotation :: "string \<Rightarrow> string \<Rightarrow> deployment_config \<Rightarrow> deployment_config" where
  "put_annotation k v dc = dc\<lparr>dcf_template := (dcf_template dc)\<lparr>pt_annotations := smap_put k v (pt_annotations (dcf_template dc))\<rparr>\<rparr>"

definition merge_label :: "string \<times> string \<Rightarrow> bool \<times> deployment_config \<Rightarrow> bool \<times> deployment_config" where
  "merge_label label s =
     (case (label, s) of ((key, v), (added, dc)) \<Rightarrow>
        if ContainsStr key LabelKeyOrgKie \<and> \<not> ContainsStr key LabelKeyOrgKiePersistence then
          let splitedKey = SplitChar CHR ''/'' key
          in if length splitedKey > 1 then
               let importedKey = JoinChar CHR ''/'' (tl splitedKey)
               in (added \<or> \<not> (has_key importedKey (om_labels (dcf_meta dc)) \<and> has_key importedKey (dcf_selector dc)
                     \<and> has_key importedKey (pt_labels (dcf_template dc))),
                   put_label importedKey v dc)
             else (added, dc)
        else if ContainsStr key LabelKeyPrometheus then
          (added \<or> \<not> has_key key (pt_annotations (dcf_template dc)), put_annotation key v dc)
        else (added, dc))"

definition MergeImageMetadataWithDeploymentConfig :: "deployment_config \<Rightarrow> docker_image option \<Rightarrow> bool \<times> deployment_config" where
  "MergeImageMetadataWithDeploymentConfig dc dockerImage =
     (case image_labels dockerImage of None \<Rightarrow> (False, dc) | Some labels \<Rightarrow> fold merge_label labels (False, dc))"

section \<open>Ports and probes\<close>

definition int32 :: "int \<Rightarrow> int" where
  "int32 n = sint (word_of_int n :: 32 word)"

text \<open>The probe of the package, which every container that was given it shares, and the probes of a container as references.\<close>

datatype probe_ref = DefaultProbe | OwnProbe "probe option"

record exposed_container =
  xc_ports :: "container_port list"
  xc_livenessProbe :: probe_ref
  xc_readinessProbe :: probe_ref

definition imageLabelForExposeServices :: string where "imageLabelForExposeServices = ''io.openshift.expose-services''"

text \<open>The port of the TCP action of the probe is the state; the answer is the ports and whether one is the default one.\<close>

definition expose_service :: "string \<Rightarrow> container_port list \<times> bool \<Rightarrow> int option \<Rightarrow> (gerr + container_port list \<times> bool) \<times> int option" where
  "expose_service service acc =
     (let ports = SplitChar CHR '':'' service
      in case Atoi (hd ports) of
           None \<Rightarrow> returnS acc
         | Some portNumber \<Rightarrow>
             (case ports of
                _ # portName # _ \<Rightarrow>
                  (let containerPorts = fst acc @ [\<lparr>cp_name = portName, cp_port = int32 portNumber, cp_protocol = ''TCP''\<rparr>]
                   in if portName = ''http'' then (\<lambda>_. (Inr (containerPorts, True), Some (int32 portNumber)))
                      else returnS (containerPorts, snd acc))
              | _ \<Rightarrow> failS (Panic ''index out of range'')))"

fun expose_services :: "string list \<Rightarrow> container_port list \<times> bool \<Rightarrow> int option \<Rightarrow> (gerr + container_port list \<times> bool) \<times> int option" where
  "expose_services [] acc = returnS acc"
| "expose_services (s # services) acc = bindS (expose_service s acc) (expose_services services)"

definition set_exposed :: "container_port list \<times> bool \<Rightarrow> exposed_container \<Rightarrow> exposed_container" where
  "set_exposed found c =
     (let c' = c\<lparr>xc_ports := fst found\<rparr>
      in if snd found then c'\<lparr>xc_livenessProbe := DefaultProbe, xc_readinessProbe := DefaultProbe\<rparr> else c')"

definition DiscoverPortsAndProbesFromImage ::
  "exposed_container list \<Rightarrow> docker_image option \<Rightarrow> int option \<Rightarrow> (gerr + exposed_container list) \<times> int option" where
  "DiscoverPortsAndProbesFromImage containers dockerImage =
     (case image_labels dockerImage of
        None \<Rightarrow> returnS containers
      | Some labels \<Rightarrow>
          bindS (case map_of labels imageLabelForExposeServices of
                   None \<Rightarrow> returnS ([], False)
                 | Some v \<Rightarrow> expose_services (SplitChar CHR '','' v) ([], False)) (\<lambda>found.
            if fst found = [] then returnS containers
            else (case containers of
                    [] \<Rightarrow> failS (Panic ''index out of range'')
                  | c # cs \<Rightarrow> returnS (set_exposed found c # cs))))"

text \<open>What a reference points to: the shared probe has the port of the state.\<close>

definition probe_port :: "int option \<Rightarrow> probe_ref \<Rightarrow> int option" where
  "probe_port port r =
     (case r of
        DefaultProbe \<Rightarrow> port
      | OwnProbe None \<Rightarrow> None
      | OwnProbe (Some p) \<Rightarrow> (case pr_tcpSocket p of Some (IntVal n) \<Rightarrow> Some n | _ \<Rightarrow> None))"

section \<open>Monitoring and persistence\<close>

text \<open>\<^verbatim>\<open>strconv.ParseInt(s, 10, 32)\<close>.\<close>

definition ParseInt32 :: "string \<Rightarrow> int option" where
  "ParseInt32 s = (case Atoi s of Some n \<Rightarrow> if - (2 ^ 31) \<le> n \<and> n < 2 ^ 31 then Some n else None | None \<Rightarrow> None)"

definition ExtractPrometheusConfigurationFromImage :: "docker_image option \<Rightarrow> gerr + bool \<times> string \<times> string \<times> int option" where
  "ExtractPrometheusConfigurationFromImage dockerImage =
     (case image_labels dockerImage of
        None \<Rightarrow> Inr (False, [], [], None)
      | Some labels \<Rightarrow>
          let scrape = (case map_of labels (LabelKeyPrometheus @ ''/scrape'') of
                          None \<Rightarrow> False | Some v \<Rightarrow> (case ParseBool v of None \<Rightarrow> False | Some b \<Rightarrow> b));
              scheme = smap_get labels (LabelKeyPrometheus @ ''/scheme'');
              path = smap_get labels (LabelKeyPrometheus @ ''/path'')
          in case map_of labels (LabelKeyPrometheus @ ''/port'') of
               None \<Rightarrow> Inr (scrape, scheme, path, None)
             | Some v \<Rightarrow>
                 (case ParseInt32 v of
                    None \<Rightarrow> Inl (PlainError (''strconv.ParseInt: parsing '' @ v))
                  | Some n \<Rightarrow> Inr (scrape, scheme, path, Some n)))"

definition IsPersistenceEnabled :: "docker_image option \<Rightarrow> bool" where
  "IsPersistenceEnabled dockerImage =
     (case image_labels dockerImage of
        None \<Rightarrow> False
      | Some labels \<Rightarrow> (case ParseBool (smap_get labels (LabelKeyOrgKiePersistence @ ''/required'')) of None \<Rightarrow> False | Some b \<Rightarrow> b))"

section \<open>Numbers in labels\<close>

lemma parse_digits_snoc:
  "parse_digits acc (xs @ [c]) = (case parse_digits acc xs of None \<Rightarrow> None | Some m \<Rightarrow> map_option (\<lambda>d. 10 * m + d) (digit_val c))"
  by (induction xs arbitrary: acc) (auto split: option.split)

lemma digit_val_digit: "d < 10 \<Longrightarrow> digit_val (char_of (48 + d)) = Some d"
  by (simp add: digit_val_def Let_def)

lemma parse_digits_of: "parse_digits 0 (digits_of n) = Some n"
proof (induction n rule: digits_of.induct)
  case (1 n)
  then show ?case by (subst digits_of.simps) (auto simp: parse_digits_snoc digit_val_digit)
qed

lemma digits_of_digits: "c \<in> set (digits_of n) \<Longrightarrow> digit_val c \<noteq> None"
proof (induction n rule: digits_of.induct)
  case (1 n)
  then show ?case by (subst (asm) (2) digits_of.simps) (auto simp: digit_val_digit split: if_splits)
qed

lemma digits_of_not_Nil [simp]: "digits_of n \<noteq> []"
  by (subst digits_of.simps) simp

lemma Itoa_chars: "c \<in> set (Itoa n) \<Longrightarrow> c = CHR ''-'' \<or> digit_val c \<noteq> None"
  by (auto simp: Itoa_def dest: digits_of_digits split: if_splits)

lemma Atoi_Itoa: "- (2 ^ 63) \<le> n \<Longrightarrow> n < 2 ^ 63 \<Longrightarrow> Atoi (Itoa n) = Some n"
proof -
  assume range: "- (2 ^ 63) \<le> n" "n < 2 ^ 63"
  have "\<not> HasPrefix (digits_of m) ''-''" "\<not> HasPrefix (digits_of m) ''+''" for m
    using digits_of_digits [of "hd (digits_of m)" m] by (cases "digits_of m"; force simp: HasPrefix_def digit_val_def)+
  with range show ?thesis by (auto simp: Atoi_def Itoa_def Let_def HasPrefix_def parse_digits_of)
qed

lemma int32_range: "- (2 ^ 31) \<le> int32 n \<and> int32 n < 2 ^ 31"
  using sint_range_size [of "word_of_int n :: 32 word"] by (simp add: int32_def word_size)

lemma int32_wrap: "int32 n = (n + 2 ^ 31) mod 2 ^ 32 - 2 ^ 31"
  unfolding int32_def by (subst int_word_sint) simp

lemma int32_id: "- (2 ^ 31) \<le> n \<Longrightarrow> n < 2 ^ 31 \<Longrightarrow> int32 n = n"
  by (simp add: int32_wrap)

section \<open>Ports\<close>

text \<open>How a port is written in the label, and what is found in it.\<close>

definition port_text :: "int \<times> string \<Rightarrow> string" where
  "port_text p = Itoa (fst p) @ CHR '':'' # snd p"

definition wf_port :: "int \<times> string \<Rightarrow> bool" where
  "wf_port p \<longleftrightarrow> - (2 ^ 63) \<le> fst p \<and> fst p < 2 ^ 63 \<and> CHR '','' \<notin> set (snd p) \<and> CHR '':'' \<notin> set (snd p)"

definition port_of :: "int \<times> string \<Rightarrow> container_port" where
  "port_of p = \<lparr>cp_name = snd p, cp_port = int32 (fst p), cp_protocol = ''TCP''\<rparr>"

fun last_http :: "(int \<times> string) list \<Rightarrow> int option \<Rightarrow> int option" where
  "last_http [] port = port"
| "last_http (p # ps) port = last_http ps (if snd p = ''http'' then Some (int32 (fst p)) else port)"

lemma no_sep: "CHR '':'' \<notin> set (Itoa n)" "CHR '','' \<notin> set (Itoa n)"
  using Itoa_chars [of "CHR '':''" n] Itoa_chars [of "CHR '',''" n] by (auto simp: digit_val_def)

lemma expose_port_text: "wf_port p \<Longrightarrow>
   expose_service (port_text p) acc port =
     (Inr (fst acc @ [port_of p], snd acc \<or> snd p = ''http''), if snd p = ''http'' then Some (int32 (fst p)) else port)"
  by (cases acc) (simp add: expose_service_def port_text_def wf_port_def SplitChar_append SplitChar_id no_sep Atoi_Itoa port_of_def Let_def)

lemma expose_port_texts: "list_all wf_port ps \<Longrightarrow>
   expose_services (map port_text ps) acc port =
     (Inr (fst acc @ map port_of ps, snd acc \<or> list_ex (\<lambda>p. snd p = ''http'') ps), last_http ps port)"
  by (induction ps arbitrary: acc port) (simp_all add: expose_port_text bindS_def disj_assoc)

lemma split_port_texts: "ps \<noteq> [] \<Longrightarrow> list_all wf_port ps \<Longrightarrow> SplitChar CHR '','' (JoinChar CHR '','' (map port_text ps)) = map port_text ps"
  by (rule SplitChar_JoinChar) (auto simp: list_all_iff port_text_def wf_port_def no_sep)

lemma Discover_ports:
  assumes "image_labels img = Some labels" "map_of labels imageLabelForExposeServices = Some (JoinChar CHR '','' (map port_text ps))"
    "ps \<noteq> []" "list_all wf_port ps"
  shows "DiscoverPortsAndProbesFromImage (c # cs) img port =
    (Inr (set_exposed (map port_of ps, list_ex (\<lambda>p. snd p = ''http'') ps) c # cs), last_http ps port)"
  using assms by (simp add: DiscoverPortsAndProbesFromImage_def split_port_texts expose_port_texts bindS_def)


text \<open>Containers share their probe.  When the ports of a second image are read, the probes of the container that was set up from the first one move to the
  port of the second, while its ports stay.\<close>

theorem shared_probe_moves:
  assumes "image_labels img1 = Some [(imageLabelForExposeServices, port_text (n1, ''http''))]"
    "image_labels img2 = Some [(imageLabelForExposeServices, port_text (n2, ''http''))]"
    "list_all (\<lambda>n. - (2 ^ 31) \<le> n \<and> n < 2 ^ 31) [n1, n2]"
  shows "\<exists>d1 d2 port1 port2. DiscoverPortsAndProbesFromImage [c1] img1 port = (Inr [d1], port1)
    \<and> DiscoverPortsAndProbesFromImage [c2] img2 port1 = (Inr [d2], port2)
    \<and> map cp_port (xc_ports d1) = [n1] \<and> probe_port port1 (xc_livenessProbe d1) = Some n1
    \<and> probe_port port2 (xc_livenessProbe d1) = Some n2 \<and> probe_port port2 (xc_readinessProbe d1) = Some n2"
proof -
  have wf: "list_all wf_port [(n1, ''http'')]" "list_all wf_port [(n2, ''http'')]" using assms(3) by (auto simp: wf_port_def)
  show ?thesis
    using Discover_ports [OF assms(1), of "[(n1, ''http'')]" c1 "[]" port] Discover_ports [OF assms(2), of "[(n2, ''http'')]" c2 "[]" "Some n1"] wf assms(3)
    by (simp add: set_exposed_def port_of_def probe_port_def int32_id)
qed

definition labelled_image :: "smap \<Rightarrow> docker_image option" where
  "labelled_image labels = Some \<lparr>di_labels = Some labels\<rparr>"

definition plain_container :: exposed_container where
  "plain_container = \<lparr>xc_ports = [], xc_livenessProbe = OwnProbe None, xc_readinessProbe = OwnProbe None\<rparr>"


theorem shared_probe_moves_witness:
  "\<exists>d1 d2 port1 port2. DiscoverPortsAndProbesFromImage [plain_container] (labelled_image [(imageLabelForExposeServices, ''8080:http'')]) None = (Inr [d1], port1)
     \<and> DiscoverPortsAndProbesFromImage [plain_container] (labelled_image [(imageLabelForExposeServices, ''8081:http'')]) port1 = (Inr [d2], port2)
     \<and> probe_port port2 (xc_livenessProbe d1) = Some 8081"
proof -
  have label: "port_text (8080, ''http'') = ''8080:http''" "port_text (8081, ''http'') = ''8081:http''"
    by (simp_all add: port_text_def Itoa_def digits_of.simps char_of_def bit_0)
  show ?thesis
    using shared_probe_moves [of "labelled_image [(imageLabelForExposeServices, ''8080:http'')]" 8080
        "labelled_image [(imageLabelForExposeServices, ''8081:http'')]" 8081 plain_container None plain_container]
    by (auto simp: labelled_image_def image_labels_def label)
qed

section \<open>Labels\<close>

text \<open>The pods that a deployment configuration creates are the ones that it selects.\<close>

definition selects_own_pods :: "deployment_config \<Rightarrow> bool" where
  "selects_own_pods dc \<longleftrightarrow> map_of (dcf_selector dc) \<subseteq>\<^sub>m map_of (pt_labels (dcf_template dc))"

text \<open>A label is taken over when a further merge of it reports no change.\<close>

definition taken_over :: "string \<times> string \<Rightarrow> deployment_config \<Rightarrow> bool" where
  "taken_over label dc \<longleftrightarrow> \<not> fst (merge_label label (False, dc))"

lemma selects_put_label: "selects_own_pods dc \<Longrightarrow> selects_own_pods (put_label k v dc)"
  by (auto simp: selects_own_pods_def put_label_def map_le_def)

lemma selects_put_annotation: "selects_own_pods dc \<Longrightarrow> selects_own_pods (put_annotation k v dc)"
  by (simp add: selects_own_pods_def put_annotation_def)

lemma selects_merge: "selects_own_pods (snd s) \<Longrightarrow> selects_own_pods (snd (merge_label l s))"
  by (cases l; cases s) (auto simp: merge_label_def Let_def selects_put_label selects_put_annotation)

lemma selects_merge_all: "selects_own_pods (snd s) \<Longrightarrow> selects_own_pods (snd (fold merge_label ls s))"
  by (induction ls arbitrary: s) (simp_all add: selects_merge)

lemma has_key_put [simp]: "has_key k (smap_put k' v m) \<longleftrightarrow> k = k' \<or> has_key k m"
  by (simp add: has_key_def)

definition keeps_keys :: "deployment_config \<Rightarrow> deployment_config \<Rightarrow> bool" where
  "keeps_keys dc dc' \<longleftrightarrow> (\<forall>k. (has_key k (om_labels (dcf_meta dc)) \<longrightarrow> has_key k (om_labels (dcf_meta dc')))
     \<and> (has_key k (dcf_selector dc) \<longrightarrow> has_key k (dcf_selector dc'))
     \<and> (has_key k (pt_labels (dcf_template dc)) \<longrightarrow> has_key k (pt_labels (dcf_template dc')))
     \<and> (has_key k (pt_annotations (dcf_template dc)) \<longrightarrow> has_key k (pt_annotations (dcf_template dc'))))"

lemma keeps_keys_merge: "keeps_keys (snd s) (snd (merge_label l s))"
proof -
  have "keeps_keys dc (put_label k v dc)" "keeps_keys dc (put_annotation k v dc)" "keeps_keys dc dc" for k v dc
    by (simp_all add: keeps_keys_def put_label_def put_annotation_def)
  then show ?thesis by (cases l; cases s) (simp add: merge_label_def Let_def)
qed

lemma taken_over_mono: "keeps_keys dc dc' \<Longrightarrow> taken_over l dc \<Longrightarrow> taken_over l dc'"
  by (cases l) (auto simp: taken_over_def merge_label_def keeps_keys_def Let_def split: if_splits)

lemma taken_over_kept: "taken_over l (snd s) \<Longrightarrow> taken_over l (snd (merge_label l' s))"
  using keeps_keys_merge by (rule taken_over_mono)

lemma taken_over_merged: "taken_over l (snd (merge_label l s))"
  by (cases l; cases s) (simp add: taken_over_def merge_label_def Let_def put_label_def put_annotation_def)

lemma taken_over_kept_all: "taken_over l (snd s) \<Longrightarrow> taken_over l (snd (fold merge_label ls s))"
  by (induction ls arbitrary: s) (simp_all add: taken_over_kept)

lemma taken_over_all: "l \<in> set ls \<Longrightarrow> taken_over l (snd (fold merge_label ls s))"
proof (induction ls arbitrary: s)
  case (Cons l' ls)
  then show ?case by (cases "l = l'") (simp_all add: taken_over_merged taken_over_kept_all)
qed simp

lemma merge_quiet: "\<not> fst s \<Longrightarrow> taken_over l (snd s) \<Longrightarrow> \<not> fst (merge_label l s)"
  by (cases s) (simp add: taken_over_def)

lemma merge_all_quiet: "\<not> fst s \<Longrightarrow> list_all (\<lambda>l. taken_over l (snd s)) ls \<Longrightarrow> \<not> fst (fold merge_label ls s)"
  by (induction ls arbitrary: s) (simp_all add: merge_quiet taken_over_kept list_all_iff)

text \<open>The labels of an image are taken over once.  A deployment configuration that selects its own pods still does after the labels of an image were merged into
  it, and a second merge of the same image reports no change.\<close>

theorem merge_metadata_settles:
  assumes "selects_own_pods dc" "MergeImageMetadataWithDeploymentConfig dc img = (added, dc')"
  shows "selects_own_pods dc' \<and> \<not> fst (MergeImageMetadataWithDeploymentConfig dc' img)"
proof (cases "image_labels img")
  case (Some labels)
  then have run: "fold merge_label labels (False, dc) = (added, dc')" using assms(2) by (simp add: MergeImageMetadataWithDeploymentConfig_def)
  have "list_all (\<lambda>l. taken_over l dc') labels"
    using taken_over_all [of _ labels "(False, dc)"] by (simp add: run list_all_iff)
  then have "\<not> fst (fold merge_label labels (False, dc'))" by (intro merge_all_quiet) simp_all
  then show ?thesis
    using selects_merge_all [of "(False, dc)" labels] assms(1) Some by (simp add: run MergeImageMetadataWithDeploymentConfig_def)
qed (use assms in \<open>simp add: MergeImageMetadataWithDeploymentConfig_def\<close>)

definition sample_deployment_config :: deployment_config where
  "sample_deployment_config =
     \<lparr>dcf_meta = mk_meta ''app'' ''ns'', dcf_selector = [(''app'', ''app'')],
      dcf_template = \<lparr>pt_labels = [(''app'', ''app'')], pt_annotations = [],
        pt_spec = \<lparr>ps_containers = [], ps_volumes = [], ps_serviceAccountName = [], ps_securityContext = None\<rparr>\<rparr>,
      dcf_triggers = [], dcf_strategyType = [], dcf_rollingParams = None\<rparr>"

theorem merge_metadata_settles_witness:
  "\<exists>dc. MergeImageMetadataWithDeploymentConfig sample_deployment_config (labelled_image [(''org.kie/process'', ''hr'')]) = (True, dc)
     \<and> selects_own_pods dc \<and> map_of (dcf_selector dc) ''process'' = Some ''hr''"
proof -
  let ?img = "labelled_image [(''org.kie/process'', ''hr'')]"
  obtain dc where run: "MergeImageMetadataWithDeploymentConfig sample_deployment_config ?img = (True, dc)"
      "map_of (dcf_selector dc) ''process'' = Some ''hr''"
    by (simp add: MergeImageMetadataWithDeploymentConfig_def labelled_image_def image_labels_def merge_label_def LabelKeyOrgKie_def
        LabelKeyOrgKiePersistence_def LabelKeyPrometheus_def HasPrefix_def put_label_def has_key_def sample_deployment_config_def Let_def)
  have "selects_own_pods sample_deployment_config" by (simp add: selects_own_pods_def sample_deployment_config_def)
  from merge_metadata_settles [OF this run(1)] run show ?thesis by auto
qed

end
