(* ===== verification/Service_Lifecycle.thy ===== *)
theory Service_Lifecycle
  imports Service_Status
begin

text \<open>
  What a user of a service sees over time.  The conditions that \<^verbatim>\<open>core/kogitoservice/status.go\<close> writes run by run implement a
  machine of phases; the runs come in any order, see any state of the cluster, and the user edits the specification in between.
\<close>

section \<open>Histories of a machine\<close>

inductive history :: "('s \<Rightarrow> 'ev \<Rightarrow> 's \<Rightarrow> bool) \<Rightarrow> ('s \<Rightarrow> 's \<Rightarrow> bool) \<Rightarrow> 's \<Rightarrow> 'ev list \<Rightarrow> 's \<Rightarrow> bool"
  for run edit s0 where
  start: "history run edit s0 [] s0"
| step: "history run edit s0 evs s \<Longrightarrow> run s ev s' \<Longrightarrow> history run edit s0 (evs @ [ev]) s'"
| edited: "history run edit s0 evs s \<Longrightarrow> edit s s' \<Longrightarrow> history run edit s0 evs s'"

text \<open>A machine whose phase is set anew by every run that sees a legal state: \<open>phase\<close> is the abstraction of a state,
  \<open>next_phase\<close> the step of the abstract machine.\<close>

locale phase_machine =
  fixes run :: "'s \<Rightarrow> 'ev \<Rightarrow> 's \<Rightarrow> bool" and edit :: "'s \<Rightarrow> 's \<Rightarrow> bool" and phase :: "'s \<Rightarrow> 'p option"
    and legal :: "'ev \<Rightarrow> bool" and next_phase :: "'ev \<Rightarrow> 'p"
  assumes run_phase: "run s ev s' \<Longrightarrow> legal ev \<Longrightarrow> phase s' = Some (next_phase ev)"
    and edit_phase: "edit s s' \<Longrightarrow> phase s' = phase s"
begin

lemma phase_after: "history run edit s0 evs s \<Longrightarrow> evs = [] \<or> legal (last evs) \<Longrightarrow>
    phase s = (if evs = [] then phase s0 else Some (next_phase (last evs)))"
  by (induction rule: history.induct) (auto simp: run_phase edit_phase)

lemma phase_defined: "history run edit s0 evs s \<Longrightarrow> list_all legal evs \<Longrightarrow> phase s0 \<noteq> None \<Longrightarrow> phase s \<noteq> None"
  using phase_after [of s0 evs s] by (cases evs rule: rev_cases) auto

end

section \<open>The phases of a service\<close>

text \<open>The flag of the two failure phases tells whether replicas are available.\<close>

datatype service_phase = Fresh | Starting | Scaling | Ready | Retrying bool | GivenUp bool

definition service_phase :: "cond_api \<Rightarrow> kogito_service \<Rightarrow> service_phase option" where
  "service_phase C inst =
     (case (svc_cond C inst FailedConditionType = Some CTrue, svc_cond C inst ProvisioningConditionType, svc_cond C inst DeployedConditionType) of
        (False, None, None) \<Rightarrow> Some Fresh
      | (False, Some CTrue, Some CFalse) \<Rightarrow> Some Starting
      | (False, Some CTrue, Some CTrue) \<Rightarrow> Some Scaling
      | (False, Some CFalse, Some CTrue) \<Rightarrow> Some Ready
      | (True, Some CTrue, Some d) \<Rightarrow> Some (Retrying (d = CTrue))
      | (True, Some CFalse, Some d) \<Rightarrow> Some (GivenUp (d = CTrue))
      | _ \<Rightarrow> None)"

text \<open>What a run saw: success with the requested and the available replicas, or an error with the available ones.\<close>

datatype service_event = Observed int int | FailedWith gerr int

fun sound_event :: "service_event \<Rightarrow> bool" where
  "sound_event (Observed e a) \<longleftrightarrow> 0 \<le> a \<and> a \<le> e"
| "sound_event (FailedWith err a) \<longleftrightarrow> True"

fun next_service_phase :: "service_event \<Rightarrow> service_phase" where
  "next_service_phase (Observed e a) = (if a = e then Ready else if a = 0 then Starting else Scaling)"
| "next_service_phase (FailedWith err a) = (if IsReconciliationError err then Retrying (a > 0) else GivenUp (a > 0))"

text \<open>A run of the status handler that reached the end of its steps, on any state \<open>w\<close> of the cluster.\<close>

inductive service_run :: "'w cluster \<Rightarrow> cond_api \<Rightarrow> kogito_service \<Rightarrow> service_event \<Rightarrow> kogito_service \<Rightarrow> bool" for K C where
  succeeded: "cond_laws C \<Longrightarrow> ss_replicas (ks_spec inst) = Some e \<Longrightarrow> fetchReadyReplicas K inst w = Inr a \<Longrightarrow>
     status_steps K C w None inst = (Inr (), inst') \<Longrightarrow> service_run K C inst (Observed e a) inst'"
| failed: "cond_laws C \<Longrightarrow> fetchReadyReplicas K inst w = Inr a \<Longrightarrow>
     status_steps K C w (Some err) inst = (Inr (), inst') \<Longrightarrow> service_run K C inst (FailedWith err a) inst'"

inductive_cases service_run_elims: "service_run K C inst ev inst'"

text \<open>Whatever happens to a service between two runs, its conditions stay.\<close>

definition same_conditions :: "kogito_service \<Rightarrow> kogito_service \<Rightarrow> bool" where
  "same_conditions inst inst' \<longleftrightarrow> conditions_of inst' = conditions_of inst"

section \<open>Lemmas\<close>

lemma updates_keep_conditions:
  "updateImageStatus K w inst = (r, inst') \<Longrightarrow> conditions_of inst' = conditions_of inst"
  "updateDeploymentStatus K w inst = (r, inst') \<Longrightarrow> conditions_of inst' = conditions_of inst"
  "updateRouteStatus K C w inst = (r, inst') \<Longrightarrow> conditions_of inst' = conditions_of inst"
  by (auto simp: updateImageStatus_def updateDeploymentStatus_def updateRouteStatus_def Let_def
      split: sum.splits option.splits list.splits if_splits)

lemma status_steps_transition:
  assumes "status_steps K C w None inst = (Inr (), inst')"
  shows "\<exists>inst1. handleConditionTransition K C w inst = (Inr (), inst1) \<and> conditions_of inst' = conditions_of inst1"
  using assms by (auto simp: status_steps_def bindS_eq_Inr dest!: updates_keep_conditions)

lemma succeeded_conditions:
  assumes "cond_laws C" "ss_replicas (ks_spec inst) = Some e" "fetchReadyReplicas K inst w = Inr a"
    and "status_steps K C w None inst = (Inr (), inst')"
  shows "svc_cond C inst' FailedConditionType = map_option (\<lambda>_. CFalse) (svc_cond C inst FailedConditionType)"
    and "(svc_cond C inst' ProvisioningConditionType, svc_cond C inst' DeployedConditionType) =
      (if a = e then (Some CFalse, Some CTrue) else if 0 < a \<and> a < e then (Some CTrue, Some CTrue)
       else if a = 0 then (Some CTrue, Some CFalse)
       else (svc_cond C inst ProvisioningConditionType, svc_cond C inst DeployedConditionType))"
proof -
  have a: "fetchReadyReplicas K (InvalidateFailedCondition C inst) w = Inr a"
    using assms(3) by (simp add: fetchReadyReplicas_def)
  obtain inst1 where i: "handleConditionTransition K C w inst = (Inr (), inst1)" "conditions_of inst' = conditions_of inst1"
    using status_steps_transition [OF assms(4)] by blast
  show "svc_cond C inst' FailedConditionType = map_option (\<lambda>_. CFalse) (svc_cond C inst FailedConditionType)"
    using i(1) a assms(2) unfolding i(2)
    by (auto simp: handleConditionTransition_def Let_def svc_cond_set [OF assms(1)] svc_cond_Invalidate [OF assms(1)] split: if_splits)
  show "(svc_cond C inst' ProvisioningConditionType, svc_cond C inst' DeployedConditionType) =
      (if a = e then (Some CFalse, Some CTrue) else if 0 < a \<and> a < e then (Some CTrue, Some CTrue)
       else if a = 0 then (Some CTrue, Some CFalse)
       else (svc_cond C inst ProvisioningConditionType, svc_cond C inst DeployedConditionType))"
    using i(1) a assms(2) unfolding i(2)
    by (auto simp: handleConditionTransition_def Let_def svc_cond_set [OF assms(1)] svc_cond_Invalidate [OF assms(1)] split: if_splits)
qed

lemma failed_conditions:
  assumes "cond_laws C" "fetchReadyReplicas K inst w = Inr a" "status_steps K C w (Some err) inst = (Inr (), inst')"
  shows "svc_cond C inst' FailedConditionType = Some CTrue"
    and "svc_cond C inst' ProvisioningConditionType = Some (if IsReconciliationError err then CTrue else CFalse)"
    and "svc_cond C inst' DeployedConditionType = Some (if a > 0 then CTrue else CFalse)"
  using assms(2,3)
  by (auto simp: status_steps_def setFailedConditions_def Let_def fetchReadyReplicas_def svc_cond_set [OF assms(1)] split: if_splits)

interpretation service: phase_machine "service_run K C" same_conditions "service_phase C" sound_event next_service_phase for K C
proof unfold_locales
  fix inst ev inst'
  assume "service_run K C inst ev inst'" "sound_event ev"
  then show "service_phase C inst' = Some (next_service_phase ev)"
  proof cases
    case (succeeded e w a)
    show ?thesis
      using succeeded_conditions [OF succeeded(2-5)] \<open>sound_event ev\<close> succeeded(1)
      by (cases "svc_cond C inst FailedConditionType") (auto simp: service_phase_def split: if_splits)
  next
    case (failed w a err)
    show ?thesis using failed_conditions [OF failed(2-4)] failed(1) by (auto simp: service_phase_def)
  qed
qed (simp add: same_conditions_def service_phase_def)

text \<open>After a failure the deployed condition is true or false.\<close>

lemma failure_deployed:
  "history (service_run K C) same_conditions inst0 (evs @ [FailedWith err a]) inst \<Longrightarrow>
     svc_cond C inst DeployedConditionType = Some (if a > 0 then CTrue else CFalse)"
proof (induction "evs @ [FailedWith err a]" inst rule: history.induct)
  case (step s ev s')
  then show ?case by (auto elim!: service_run_elims dest: failed_conditions(3))
qed (auto simp: same_conditions_def)

section \<open>Properties\<close>

text \<open>C1: the conditions of a service implement a machine of phases.  Whatever happened before, after a run that saw at most as many
  replicas as requested, the conditions show exactly the phase of that run: ready, scaling or starting by the number of available
  replicas, or failing with or without another attempt; what earlier runs wrote does not shine through.\<close>

theorem service_lifecycle:
  assumes "history (service_run K C) same_conditions inst0 evs inst" "evs \<noteq> []" "sound_event (last evs)"
  shows "service_phase C inst = Some (next_service_phase (last evs))"
  using service.phase_after [OF assms(1)] assms(2,3) by simp

text \<open>Scaling down leaves the conditions behind.  After a run that gave up with no replica available, a successful run that sees
  more replicas than requested withdraws the failure and touches nothing else: the service is then neither failed nor provisioning
  nor deployed, which is no phase of the machine, while its replicas are available.\<close>

theorem scale_down_stale:
  assumes "history (service_run K C) same_conditions inst0 (evs @ [FailedWith err 0]) inst" "\<not> IsReconciliationError err"
    and "service_run K C inst (Observed e a) inst'" "0 \<le> e" "e < a"
  shows "service_phase C inst' = None
     \<and> svc_cond C inst' FailedConditionType = Some CFalse \<and> svc_cond C inst' ProvisioningConditionType = Some CFalse
     \<and> svc_cond C inst' DeployedConditionType = Some CFalse"
proof -
  have "service_phase C inst = Some (GivenUp False)"
    using service.phase_after [OF assms(1)] assms(2) by simp
  then have before: "svc_cond C inst FailedConditionType = Some CTrue" "svc_cond C inst ProvisioningConditionType = Some CFalse"
      "svc_cond C inst DeployedConditionType \<noteq> None" "svc_cond C inst DeployedConditionType \<noteq> Some CTrue"
    by (auto simp: service_phase_def split: prod.splits option.splits bool.splits cond_status.splits)
  have "svc_cond C inst DeployedConditionType = Some CFalse"
    using failure_deployed [OF assms(1)] by simp
  moreover obtain w where "cond_laws C" "ss_replicas (ks_spec inst) = Some e" "fetchReadyReplicas K inst w = Inr a"
      "status_steps K C w None inst = (Inr (), inst')"
    using assms(3) by (auto elim: service_run_elims)
  note after = succeeded_conditions [OF this]
  ultimately have "svc_cond C inst' FailedConditionType = Some CFalse" "svc_cond C inst' ProvisioningConditionType = Some CFalse"
      "svc_cond C inst' DeployedConditionType = Some CFalse"
    using after before assms(4,5) by auto
  then show ?thesis by (simp add: service_phase_def)
qed

text \<open>A service with two requested replicas: first a run fails for good with none available, then one sees the given number.\<close>

lemma sample_history:
  "\<exists>inst inst'. history (service_run (mem_cluster False) list_cond_api) same_conditions sample_service [FailedWith (PlainError ''e'') 0] inst
     \<and> service_run (mem_cluster False) list_cond_api inst (Observed 2 n) inst'"
proof -
  let ?K = "mem_cluster False" and ?inst1 = "snd (status_steps (mem_cluster False) list_cond_api (available_world 0) (Some (PlainError ''e'')) sample_service)"
  have a0: "fetchReadyReplicas ?K sample_service (available_world 0) = Inr 0" by (rule available_world_reads)
  have first: "status_steps ?K list_cond_api (available_world 0) (Some (PlainError ''e'')) sample_service = (Inr (), ?inst1)"
    and frame: "ks_meta ?inst1 = ks_meta sample_service" "ks_spec ?inst1 = ks_spec sample_service"
    using a0 by (simp_all add: status_steps_def setFailedConditions_def Let_def fetchReadyReplicas_def)
  have read: "readable ?K ?inst1 (available_world n)" "fetchReadyReplicas ?K ?inst1 (available_world n) = Inr n"
    using available_world_reads [of False n] frame by (simp_all add: readable_def fetchReadyReplicas_def)
  have spec: "ss_replicas (ks_spec ?inst1) = Some 2" unfolding frame by (simp add: sample_service_def sample_spec_def)
  obtain inst2 where "handleConditionTransition ?K list_cond_api (available_world n) ?inst1 = (Inr (), inst2)" "ks_meta inst2 = ks_meta ?inst1"
    using read(2) spec by (auto simp: handleConditionTransition_def fetchReadyReplicas_def Let_def)
  then obtain inst' where second: "status_steps ?K list_cond_api (available_world n) None ?inst1 = (Inr (), inst')"
    using status_steps_success [OF read(1)] by blast
  have "history (service_run ?K list_cond_api) same_conditions sample_service ([] @ [FailedWith (PlainError ''e'') 0]) ?inst1"
    by (intro history.step [OF history.start] service_run.failed [OF list_cond_laws a0 first])
  then show ?thesis using service_run.succeeded [OF list_cond_laws spec read(2) second] by auto
qed

lemma service_lifecycle_witness:
  "\<exists>inst'. history (service_run (mem_cluster False) list_cond_api) same_conditions sample_service [FailedWith (PlainError ''e'') 0, Observed 2 1] inst'
     \<and> service_phase list_cond_api inst' = Some Scaling"
proof -
  obtain inst inst' where "history (service_run (mem_cluster False) list_cond_api) same_conditions sample_service [FailedWith (PlainError ''e'') 0] inst"
      "service_run (mem_cluster False) list_cond_api inst (Observed 2 1) inst'"
    using sample_history by blast
  then have h: "history (service_run (mem_cluster False) list_cond_api) same_conditions sample_service
      [FailedWith (PlainError ''e'') 0, Observed 2 1] inst'"
    using history.step by fastforce
  then show ?thesis using service_lifecycle [OF h] by auto
qed

lemma scale_down_stale_witness:
  "\<exists>inst inst'. service_run (mem_cluster False) list_cond_api inst (Observed 2 3) inst' \<and> service_phase list_cond_api inst' = None"
proof -
  obtain inst inst' where h: "history (service_run (mem_cluster False) list_cond_api) same_conditions sample_service ([] @ [FailedWith (PlainError ''e'') 0]) inst"
    and r: "service_run (mem_cluster False) list_cond_api inst (Observed 2 3) inst'"
    using sample_history by fastforce
  show ?thesis using scale_down_stale [OF h _ r] r by (auto simp: IsReconciliationError_def)
qed

end
