(* ===== verification/Spec2Isabelle.thy ===== *)
theory Spec2Isabelle
  imports Cli_Tree Api_Fields Client_Operator Controller_Setup Framework_Metadata Service_Lifecycle
begin

text \<open>
  The Kogito operator (\<^verbatim>\<open>core\<close>, \<^verbatim>\<open>controllers\<close>, \<^verbatim>\<open>apis\<close>, \<^verbatim>\<open>internal\<close>) deploys business services on Kubernetes and OpenShift.  A user
  writes custom resources: a \<^emph>\<open>KogitoRuntime\<close> or a \<^emph>\<open>KogitoSupportingService\<close> for a service, a \<^emph>\<open>KogitoInfra\<close> for the middleware a service binds to,
  a \<^emph>\<open>KogitoBuild\<close> for an image built on the cluster.  A controller per resource reads it, computes the objects it requires,
  compares them with the deployed ones, applies the difference and writes a status.  The command line client (\<^verbatim>\<open>cmd/kogito\<close>) writes
  the custom resources.

  \<^bold>\<open>Conventions.\<close>  A Go call that may fail is \<^typ>\<open>gerr + 'a\<close>, with the error types of the operator and \<^const>\<open>Panic\<close> for a nil pointer, an index
  out of range or a call of panic; a call that changes the cluster takes the state \<^typ>\<open>'w\<close> of the cluster and returns it
  (\<^const>\<open>bindS\<close>).  The cluster is reached through records of functions (\<^typ>\<open>('w, 'o) store_api\<close> and the \<^verbatim>\<open>*_env\<close> records): the API server and the
  libraries of Kubernetes, OpenShift and operator-utils, the HTTP client, the JSON decoder, X.509, the file system and the clock are
  parameters, and what a property needs of them is a named hypothesis (\<^const>\<open>read_after_create\<close>, \<^const>\<open>cond_laws\<close>, \<^const>\<open>delete_removes\<close>, ...), which
  the in-memory instances of the theories (\<^const>\<open>mem_api\<close>, \<^const>\<open>list_cond_api\<close>, \<^const>\<open>sample_cli\<close>, ...) satisfy.  Go slices that are shared are modelled where the
  aliasing shows (\<^verbatim>\<open>env_slice\<close> in \<^verbatim>\<open>Build_Config\<close>).  Log output is left out.

  \<^bold>\<open>Theories, in the order of the code.\<close>

  \<^item> \<^verbatim>\<open>Kogito_Prelude\<close>: Go maps and strings, fallible and stateful calls, generic lemmas.  \<^verbatim>\<open>Kube_Types\<close>: the Kubernetes objects
    the operator touches and its errors.  \<^verbatim>\<open>Kube_Client\<close>: \<^verbatim>\<open>core/client\<close>; creating what is absent never overwrites and settles.
  \<^item> \<^verbatim>\<open>Framework_Env\<close>, \<^verbatim>\<open>Framework_Owner\<close>, \<^verbatim>\<open>Framework_Util\<close>, \<^verbatim>\<open>Framework_Image\<close>, \<^verbatim>\<open>Framework_Pkcs12\<close>, \<^verbatim>\<open>Framework_Comparator\<close>, \<^verbatim>\<open>Framework_Metadata\<close>: \<^verbatim>\<open>core/framework\<close>.
    Overriding variables refines the override of maps, owner references are added and released, image names are parsed and printed back,
    certificates are split and collected, comparators ignore what the cluster injects, the labels of an image become labels, ports and probes.
  \<^item> \<^verbatim>\<open>Reconciliation_Error\<close>, \<^verbatim>\<open>Delta_Processor\<close>, \<^verbatim>\<open>Resource_Reconciler\<close>, \<^verbatim>\<open>Config_Mounts\<close>, \<^verbatim>\<open>Image_Handler\<close>: \<^verbatim>\<open>core/infrastructure\<close>.  Errors and their
    retries, the processor of differences, the reconcilers of one kind of object as a locale that every one of them interprets,
    mounting of config maps and secrets, images and image streams.
  \<^item> \<^verbatim>\<open>Api_Interfaces\<close>, \<^verbatim>\<open>Service_Types\<close>, \<^verbatim>\<open>Infra_Types\<close>, \<^verbatim>\<open>Api_Accessors\<close>, \<^verbatim>\<open>Api_Fields\<close>: the custom resources of both API groups and the contract of condition lists.
    The structs of \<^verbatim>\<open>apis/app/v1beta1\<close> and \<^verbatim>\<open>apis/rhpam/v1\<close> have the same fields and are different types: a setter that takes an interface accepts
    those of its own package only.  The locales of such accessors are interpreted for each of them; the items of a list are independent copies.
    \<^verbatim>\<open>Api_Fields\<close> has the setters of one field: a locale says what the getter finds afterwards and that two fields do not disturb each other.
  \<^item> \<^verbatim>\<open>Service_Status\<close>, \<^verbatim>\<open>Service_Deployment\<close>, \<^verbatim>\<open>Service_Monitoring\<close>, \<^verbatim>\<open>Service_Messaging\<close>, \<^verbatim>\<open>Service_Deployer\<close>: \<^verbatim>\<open>core/kogitoservice\<close>, from the deployment a
    service requires to the whole pipeline \<^const>\<open>Deploy\<close>: configuration, infras, image, deployment, service, route, monitoring, messaging, and the
    deferred status.
  \<^item> \<^verbatim>\<open>Service_Lifecycle\<close>: histories of runs and edits as an inductive relation, the locale of phase machines, and the conditions of a service
    as an implementation of one.
  \<^item> \<^verbatim>\<open>Infra_Resources\<close>, \<^verbatim>\<open>Infra_Reconcilers\<close>, \<^verbatim>\<open>Kogito_Infra\<close>: \<^verbatim>\<open>core/kogitoinfra\<close> and the infra controller: Infinispan, Kafka, Keycloak, Knative,
    MongoDB, what each provides to services, its errors and its status.
  \<^item> \<^verbatim>\<open>Build_Config\<close>, \<^verbatim>\<open>Kogito_Build\<close>: \<^verbatim>\<open>core/kogitobuild\<close> and the build controller: decorators, requested configurations and image
    streams, triggering and cancelling builds, the conditions of a build.
  \<^item> \<^verbatim>\<open>Service_Connector\<close>, \<^verbatim>\<open>Kogito_Runtime\<close>, \<^verbatim>\<open>Supporting_Service\<close>: \<^verbatim>\<open>core/connector\<close>, \<^verbatim>\<open>core/deployment\<close>, \<^verbatim>\<open>core/shared\<close>, \<^verbatim>\<open>core/manager\<close>,
    \<^verbatim>\<open>core/kogitosupportingservice\<close> and the controllers: endpoints and protobuf files that services share, the deployment of runtimes, one
    supporting service of each type.  \<^verbatim>\<open>Controller_Watches\<close>: the events each controller runs for, and that the controller of deployments comes to
    rest although it watches its own writes.  \<^verbatim>\<open>Reconciler_Settles\<close>: the locale of reconcilers that require one object, interpreted for the configuration,
    the service, the route, the endpoint and the deployment of a service; after a successful run the next one finds nothing to do.
  \<^item> \<^verbatim>\<open>Infra_Settles\<close>, \<^verbatim>\<open>Status_Settles\<close>, \<^verbatim>\<open>Deploy_Frame\<close>, \<^verbatim>\<open>Deploy_Stages\<close>, \<^verbatim>\<open>Deploy_Settles\<close>: the same for whole runs.  A run of the infra controller, and the pipeline \<^const>\<open>Deploy\<close> with its
    deferred status, are repeated on the cluster they leave without a write; a run of \<^const>\<open>Deploy\<close> that succeeds
    restores the objects of the service, whatever happened to them before.  For the infras this is shown for references, Kafka, Keycloak and brokers: the
    secrets of Infinispan and MongoDB are written with \<^verbatim>\<open>StringData\<close>, which the API server does not hand back.  For services it is shown where the operators of
    Prometheus and Grafana are not installed, the infras are no brokers and the routes are accepted when they are created.  The locales of \<^verbatim>\<open>Deploy_Frame\<close> say what
    a stage keeps of the resource it deploys; one of them shows that the product never records the events of a service.
  \<^item> \<^verbatim>\<open>Client_Builder\<close>: the clients of the API server (\<^verbatim>\<open>core/client\<close>), resources from YAML, logs and events (\<^verbatim>\<open>core/record\<close>).  \<^verbatim>\<open>Operator_Main\<close>: the
    process (\<^verbatim>\<open>main.go\<close>, \<^verbatim>\<open>meta\<close>, \<^verbatim>\<open>version\<close>), the handlers and controllers of each API group and the context each controller runs with: one group is
    served, the pods of the product carry its metering labels.  \<^verbatim>\<open>Controller_Setup\<close>: the registration of the controllers and what wakes them: every object that
    is required with an owner wakes the controller of its owner, an image stream, which is shared, wakes nobody.
  \<^item> \<^verbatim>\<open>Cli_Flags\<close>, \<^verbatim>\<open>Cli_Commands\<close>, \<^verbatim>\<open>Cli_Deploy\<close>, \<^verbatim>\<open>Cli_Install\<close>: \<^verbatim>\<open>cmd/kogito\<close>: flags and what is made of them, projects, deployment from an image, a
    repository or files, installation and removal.  \<^verbatim>\<open>Cli_Tree\<close>: the tree of commands and the flags each registers with pflag, and that no two clash; the
    configuration of the logger.  \<^verbatim>\<open>Client_Operator\<close>: client and operator together, from the flags of an installation to the container that is deployed.

  This theory states what spans the components: the histories of an infra as a phase machine and that a service waits for its infras.

  \<^bold>\<open>Loops, bounds and fuel.\<close>  Loops over lists are structural.  Polling loops run a number of attempts that follows from the timeouts of
  the code: 60 for an update of the client (30 seconds, every half second), 100 retries for a build configuration, and a parameter
  (\<^verbatim>\<open>be_pollAttempts\<close>) for the cancellation of a build, whose properties hold for every value.  Splitting PEM text recurses on the
  length of the rest and is proved to terminate.  Integers are unbounded, except for the ports of images, which the code cuts to 32 bits:
  replica counts and durations stay far below the limits of their Go types.

  \<^bold>\<open>Not modelled.\<close>  Generated code (deep copies, the typed clients under \<^verbatim>\<open>client\<close>) and copied third-party types; getters of one field, which
  are the selectors of the records; the accessors of one field in the second API group, whose text is that of the first; the constructors that only fill in a struct; help texts of commands; the bytes of files and archives; log
  output; test code.
  The order in which Go ranges over a map is fixed by the list that represents the map.  Goroutines occur only where the caller waits for them
  at once, so that they are calls.
\<close>

section \<open>The life of an infra\<close>

text \<open>The error that the status of an infra shows after a run: none when a step panicked.\<close>

definition reported_infra_error :: "gerr + unit \<Rightarrow> gerr option" where
  "reported_infra_error r = (case r of Inl e \<Rightarrow> if is_panic e then None else Some e | Inr _ \<Rightarrow> None)"

text \<open>A run of the infra controller on any state of the cluster, up to the status it writes.\<close>

inductive infra_run :: "('w, 'c) infra_env \<Rightarrow> kogito_infra \<Rightarrow> gerr + unit \<Rightarrow> kogito_infra \<Rightarrow> bool" for E where
  ran: "cond_laws (ie_conditions E) \<Longrightarrow> infra_steps E (reset_status inst, w) = (r, s) \<Longrightarrow>
     infra_run E inst r (on_status (set_configured (ie_conditions E) (reported_infra_error r)) (fst s))"

definition same_infra_status :: "kogito_infra \<Rightarrow> kogito_infra \<Rightarrow> bool" where
  "same_infra_status i i' \<longleftrightarrow> ki_status i' = ki_status i"

text \<open>What a service reads of an infra: whether it is configured, and the reason.\<close>

definition infra_phase :: "cond_api \<Rightarrow> kogito_infra \<Rightarrow> (cond_status \<times> string) option" where
  "infra_phase C i =
     (case ist_conditions (ki_status i) of
        None \<Rightarrow> None
      | Some cs \<Rightarrow> map_option (\<lambda>c. (cd_status c, cd_reason c)) (ca_find C cs ''Configured''))"

definition next_infra_phase :: "gerr + unit \<Rightarrow> cond_status \<times> string" where
  "next_infra_phase r =
     (case reported_infra_error r of
        None \<Rightarrow> (CTrue, ResourceSuccessfullyConfigured)
      | Some e \<Rightarrow> (CFalse, reasonForError (Some e)))"

lemma infra_phase_conditions:
  "infra_phase C i = Some (st, rs) \<longleftrightarrow> (\<exists>cs. ist_conditions (ki_status i) = Some cs
     \<and> cond_status_of C cs ''Configured'' = Some st \<and> cond_reason_of C cs ''Configured'' = Some rs)"
  by (auto simp: infra_phase_def cond_status_of_def cond_reason_of_def split: option.splits)

interpretation infra: phase_machine "infra_run E" same_infra_status "infra_phase (ie_conditions E)" "\<lambda>_. True" next_infra_phase for E
proof unfold_locales
  fix i r i'
  assume "infra_run E i r i'"
  then show "infra_phase (ie_conditions E) i' = Some (next_infra_phase r)"
  proof cases
    case (ran w s)
    have "infra_phase (ie_conditions E) i' = Some (fst (next_infra_phase r), snd (next_infra_phase r))"
      unfolding infra_phase_conditions ran(1)
      using set_configured_condition [OF ran(2), of "reported_infra_error r" "ki_status (fst s)"]
      by (auto simp: next_infra_phase_def on_status_def split: option.splits)
    then show ?thesis by simp
  qed
qed (simp add: same_infra_status_def infra_phase_def)

section \<open>Services and infras\<close>



end
